(* ===== verification/Prelude.thy ===== *)
theory Prelude
  imports Complex_Main "HOL-Library.AList" "HOL-Library.Word" "HOL-Library.Multiset"
begin

text \<open>
  Shared vocabulary of the development: the names of the machine types the SDK uses,
  the result type of fallible Go functions, and the generic facts about sums, association
  lists and lists that the component theories share.

  A Go function that returns \<open>(T, error)\<close> returns \<open>'e + 'a\<close> here: \<open>Inl e\<close> is a non-nil
  error, \<open>Inr x\<close> the value with a nil error. A Go map is an association list with distinct
  keys whose list order is the iteration order of the run being described; every theorem
  quantifies over the list, hence over every iteration order the runtime can pick.
\<close>

section \<open>Names of the machine types\<close>

type_synonym goint = int          \<comment> \<open>Go's int: identifiers, counters and sizes\<close>
type_synonym gofloat = rat        \<comment> \<open>a finite float64 value, see theory GoFloat\<close>
type_synonym duration = "64 word" \<comment> \<open>time.Duration: int64 nanoseconds, read with sint\<close>
type_synonym 'v smap = "(string \<times> 'v) list" \<comment> \<open>map[string]V\<close>

section \<open>Fallible results\<close>

named_theorems res_simps \<open>characterisations of successful and failed result computations\<close>

definition res_bind :: "'e + 'a \<Rightarrow> ('a \<Rightarrow> 'e + 'b) \<Rightarrow> 'e + 'b" where
  "res_bind r f = (case r of Inl e \<Rightarrow> Inl e | Inr x \<Rightarrow> f x)"

definition res_map_err :: "('e \<Rightarrow> 'f) \<Rightarrow> 'e + 'a \<Rightarrow> 'f + 'a" where
  "res_map_err g r = (case r of Inl e \<Rightarrow> Inl (g e) | Inr x \<Rightarrow> Inr x)"

lemma res_bind_simps [simp]:
  "res_bind (Inl e) f = Inl e"
  "res_bind (Inr x) f = f x"
  by (simp_all add: res_bind_def)

lemma res_map_err_simps [simp]:
  "res_map_err g (Inl e) = Inl (g e)"
  "res_map_err g (Inr x) = Inr x"
  by (simp_all add: res_map_err_def)

lemma res_bind_Inr [res_simps]: "res_bind r f = Inr y \<longleftrightarrow> (\<exists>x. r = Inr x \<and> f x = Inr y)"
  by (cases r) auto

lemma res_bind_Inl [res_simps]:
  "res_bind r f = Inl e \<longleftrightarrow> r = Inl e \<or> (\<exists>x. r = Inr x \<and> f x = Inl e)"
  by (cases r) auto

lemma res_map_err_Inr [res_simps]: "res_map_err g r = Inr x \<longleftrightarrow> r = Inr x"
  by (cases r) auto

lemma res_map_err_Inl [res_simps]:
  "res_map_err g r = Inl e \<longleftrightarrow> (\<exists>e'. r = Inl e' \<and> e = g e')"
  by (cases r) auto

section \<open>Association lists\<close>

definition keys_of :: "('k \<times> 'v) list \<Rightarrow> 'k list" where
  "keys_of m = map fst m"

definition distinct_keys :: "('k \<times> 'v) list \<Rightarrow> bool" where
  "distinct_keys m \<longleftrightarrow> distinct (map fst m)"

lemma distinct_keys_Nil [simp, intro]: "distinct_keys []"
  by (simp add: distinct_keys_def)

lemma distinct_keys_update [simp, intro]:
  "distinct_keys m \<Longrightarrow> distinct_keys (AList.update k v m)"
  by (simp add: distinct_keys_def distinct_update)

lemma distinct_keys_delete [simp, intro]:
  "distinct_keys m \<Longrightarrow> distinct_keys (AList.delete k m)"
  by (simp add: distinct_keys_def distinct_delete)

lemma map_of_update [simp]: "map_of (AList.update k v m) = (map_of m)(k \<mapsto> v)"
  by (rule update_conv')

lemma map_of_delete [simp]: "map_of (AList.delete k m) = (map_of m)(k := None)"
  by (rule delete_conv')

lemma map_of_perm:
  assumes "distinct_keys m" and "mset m = mset m'"
  shows "map_of m = map_of m'"
proof -
  have "distinct (map fst m')"
    using assms by (metis distinct_keys_def mset_eq_imp_distinct_iff mset_map)
  moreover have "set m = set m'"
    using assms(2) by (metis set_mset_mset)
  ultimately show ?thesis
    using assms(1) by (simp add: distinct_keys_def map_of_inject_set)
qed

lemma set_distinct_map_of:
  "distinct_keys m \<Longrightarrow> (k, v) \<in> set m \<longleftrightarrow> map_of m k = Some v"
  by (simp add: distinct_keys_def)

lemma in_update: "kv \<in> set (AList.update k x m) \<Longrightarrow> kv = (k, x) \<or> kv \<in> set m"
  by (induction m) (auto split: if_splits)

text \<open>A list of results, all of them there or none.\<close>

lemma those_map:
  "those (map f xs) = (if \<forall>x \<in> set xs. f x \<noteq> None then Some (map (the \<circ> f) xs) else None)"
  by (induction xs) (auto split: option.splits)

section \<open>Components as transition systems\<close>

text \<open>
  A component whose operations are atomic (they hold its mutex) is a step function; what
  several goroutines do to it is a list of steps. The client of this interface, whoever runs a
  list of steps, may rely on the invariant and on the parts no step touches.
\<close>

locale guarded_steps =
  fixes step :: "'l \<Rightarrow> 's \<Rightarrow> 's" and inv :: "'s \<Rightarrow> bool"
  assumes step_inv: "inv s \<Longrightarrow> inv (step x s)"
begin

lemma run_inv: "inv s \<Longrightarrow> inv (fold step xs s)"
  by (induction xs arbitrary: s) (simp_all add: step_inv)

lemma prefix_inv: "inv s \<Longrightarrow> inv (fold step (take n xs) s)"
  by (rule run_inv)

end

locale framed_steps =
  fixes step :: "'l \<Rightarrow> 's \<Rightarrow> 's" and view :: "'s \<Rightarrow> 'v"
  assumes step_view: "view (step x s) = view s"
begin

lemma run_view: "view (fold step xs s) = view s"
  by (induction xs arbitrary: s) (simp_all add: step_view)

end

end
