(* ===== verification/GoFloat.thy ===== *)
theory GoFloat
  imports Prelude "HOL-Library.Log_Nat"
begin

text \<open>
  Go's \<open>float64\<close> on its finite range: a value is the rational it denotes, and every
  arithmetic operation is the exact rational operation followed by \<open>f64\<close>, rounding to the
  nearest multiple of the unit in the last place, ties to even (IEEE 754 binary64,
  subnormals included). Infinities and NaN are not represented: the magnitudes the SDK
  computes with stay far below \<open>2^1024\<close>. \<open>to_duration\<close> is the conversion
  \<open>time.Duration(x)\<close>, truncating towards zero.
\<close>

section \<open>Rounding to binary64\<close>

definition rne :: "rat \<Rightarrow> int" where
  "rne y = (let n = \<lfloor>y\<rfloor>; r = y - of_int n in
     if r < 1/2 then n else if 1/2 < r then n + 1 else if even n then n else n + 1)"

definition flog2 :: "rat \<Rightarrow> int" where
  "flog2 x = (let (n, d) = quotient_of x;
                  k = int (floorlog 2 (nat n)) - int (floorlog 2 (nat d))
              in if power_int 2 k \<le> x then k else k - 1)"

definition ulp_exp :: "rat \<Rightarrow> int" where
  "ulp_exp x = max (flog2 x - 52) (-1074)"

definition fpos :: "rat \<Rightarrow> rat" where
  "fpos x = (if x = 0 then 0
             else let u = power_int 2 (ulp_exp x) in of_int (rne (x / u)) * u)"

definition f64 :: "rat \<Rightarrow> rat" where
  "f64 x = (if x < 0 then - fpos (- x) else fpos x)"

definition fadd :: "gofloat \<Rightarrow> gofloat \<Rightarrow> gofloat" where "fadd a b = f64 (a + b)"
definition fsub :: "gofloat \<Rightarrow> gofloat \<Rightarrow> gofloat" where "fsub a b = f64 (a - b)"
definition fmul :: "gofloat \<Rightarrow> gofloat \<Rightarrow> gofloat" where "fmul a b = f64 (a * b)"
definition fdiv :: "gofloat \<Rightarrow> gofloat \<Rightarrow> gofloat" where "fdiv a b = f64 (a / b)"

definition is_f64 :: "rat \<Rightarrow> bool" where
  "is_f64 x \<longleftrightarrow> f64 x = x"

section \<open>Conversion to time.Duration\<close>

definition trunc0 :: "rat \<Rightarrow> int" where
  "trunc0 x = (if x < 0 then - \<lfloor>- x\<rfloor> else \<lfloor>x\<rfloor>)"

definition to_duration :: "gofloat \<Rightarrow> duration" where
  "to_duration x = (let t = trunc0 x in
     if - (2 ^ 63) \<le> t \<and> t < 2 ^ 63 then word_of_int t else word_of_int (- (2 ^ 63)))"

section \<open>Facts about the rounding\<close>

lemma rne_of_int [simp]: "rne (of_int n) = n"
  by (simp add: rne_def)

lemma rne_cases: "rne y = \<lfloor>y\<rfloor> \<or> rne y = \<lfloor>y\<rfloor> + 1"
  by (simp add: rne_def Let_def)

lemma rne_mono: "x \<le> y \<Longrightarrow> rne x \<le> rne y"
proof -
  assume le: "x \<le> y"
  then have fl: "\<lfloor>x\<rfloor> \<le> \<lfloor>y\<rfloor>" by (rule floor_mono)
  show ?thesis
  proof (cases "\<lfloor>x\<rfloor> = \<lfloor>y\<rfloor>")
    case True
    with le show ?thesis by (auto simp: rne_def Let_def)
  next
    case False
    with fl rne_cases [of x] rne_cases [of y] show ?thesis by linarith
  qed
qed

lemma rne_nonneg: "0 \<le> x \<Longrightarrow> 0 \<le> rne x"
  using rne_mono [of 0 x] rne_of_int [of 0] by simp

lemma rne_error: "\<bar>of_int (rne y) - y\<bar> \<le> 1/2"
proof -
  have "of_int \<lfloor>y\<rfloor> \<le> y" "y < of_int \<lfloor>y\<rfloor> + 1" by linarith+
  then show ?thesis by (auto simp: rne_def Let_def)
qed

lemma two_powi_pos [simp]: "(0::rat) < power_int 2 k"
  by simp

lemma two_powi_less: "(power_int 2 i :: rat) < power_int 2 j \<longleftrightarrow> i < j"
  by (metis less_le_not_le linorder_not_less one_less_numeral_iff power_int_increasing
      power_int_strict_increasing semiring_norm(76) less_imp_le)

lemma two_powi_le: "(power_int 2 i :: rat) \<le> power_int 2 j \<longleftrightarrow> i \<le> j"
  using two_powi_less [of j i] by auto

lemma two_powi_add: "(power_int 2 (i + j) :: rat) = power_int 2 i * power_int 2 j"
  by (simp add: power_int_add)

lemma two_powi_quotient:
  assumes "j \<le> i"
  shows "(power_int 2 i :: rat) / power_int 2 j = of_int (2 ^ nat (i - j))"
proof -
  have "(power_int 2 i :: rat) / power_int 2 j = power_int 2 (i - j)"
    by (simp add: power_int_diff)
  also have "\<dots> = 2 ^ nat (i - j)"
    using assms by (simp add: power_int_def)
  finally show ?thesis by simp
qed

lemma bitlen_bounds:
  assumes "0 < n"
  shows "(power_int 2 (int (floorlog 2 (nat n)) - 1) :: rat) \<le> of_int n"
    and "of_int n < (power_int 2 (int (floorlog 2 (nat n))) :: rat)"
proof -
  let ?k = "floorlog 2 (nat n)"
  have b: "2 ^ (?k - 1) \<le> nat n" "nat n < 2 ^ ?k"
    using floorlog_bounds [of "nat n" 2] assms by auto
  have k: "0 < ?k"
    using assms floorlog_eq_zero_iff [of 2 "nat n"] by linarith
  have "(2::rat) ^ (?k - 1) \<le> of_int n"
    using b(1) assms by (metis int_nat_eq of_int_of_nat_eq of_nat_le_iff of_nat_numeral
        of_nat_power order_less_imp_le of_nat_le_of_nat_power_cancel_iff zless_nat_conj)
  moreover have "int ?k - 1 = int (?k - 1)" using k by simp
  ultimately show "(power_int 2 (int ?k - 1) :: rat) \<le> of_int n"
    by (simp only: power_int_of_nat)
  have "(of_nat (nat n) :: rat) < of_nat (2 ^ ?k)"
    using b(2) by (simp only: of_nat_less_iff)
  then show "of_int n < (power_int 2 (int ?k) :: rat)"
    using assms by (simp add: power_int_of_nat)
qed

text \<open>\<open>flog2 x\<close> is the binary exponent of \<open>x\<close>.\<close>

lemma flog2_bounds:
  assumes "0 < x"
  shows "power_int 2 (flog2 x) \<le> x" and "x < power_int 2 (flog2 x + 1)"
proof -
  obtain n d where q: "quotient_of x = (n, d)" by (cases "quotient_of x")
  have d: "0 < d" using quotient_of_denom_pos [OF q] .
  have x: "x = of_int n / of_int d" using quotient_of_div [OF q] .
  have n: "0 < n"
    using assms x d by (simp add: zero_less_divide_iff)
  let ?k = "int (floorlog 2 (nat n)) - int (floorlog 2 (nat d))"
  let ?a = "int (floorlog 2 (nat n))" and ?b = "int (floorlog 2 (nat d))"
  note bn = bitlen_bounds [OF n] and bd = bitlen_bounds [OF d]
  have "(power_int 2 (?k - 1) :: rat) * of_int d \<le> power_int 2 (?k - 1) * power_int 2 ?b"
    using bd(2) by (intro mult_left_mono) auto
  also have "\<dots> = power_int 2 (?a - 1)"
    by (simp add: two_powi_add [symmetric] del: power_int_of_nat)
  also have "\<dots> \<le> of_int n" by (rule bn(1))
  finally have lo: "power_int 2 (?k - 1) \<le> x"
    unfolding x using d by (simp only: pos_le_divide_eq of_int_0_less_iff)
  have "(of_int n :: rat) < power_int 2 ?a" by (rule bn(2))
  also have "\<dots> = power_int 2 (?k + 1) * power_int 2 (?b - 1)"
    by (simp add: two_powi_add [symmetric] del: power_int_of_nat)
  also have "\<dots> \<le> power_int 2 (?k + 1) * of_int d"
    using bd(1) by (intro mult_left_mono) auto
  finally have hi: "x < power_int 2 (?k + 1)"
    unfolding x using d by (simp only: pos_divide_less_eq of_int_0_less_iff)
  show "power_int 2 (flog2 x) \<le> x" and "x < power_int 2 (flog2 x + 1)"
    using lo hi by (auto simp: flog2_def q Let_def not_le)
qed

lemma flog2_le: "0 < x \<Longrightarrow> x < power_int 2 k \<Longrightarrow> flog2 x < k"
  using flog2_bounds(1) [of x] two_powi_less [of "flog2 x" k] by (metis order_le_less_trans)

lemma flog2_ge: "0 < x \<Longrightarrow> power_int 2 k \<le> x \<Longrightarrow> k \<le> flog2 x"
  using flog2_bounds(2) [of x] two_powi_less [of k "flog2 x + 1"]
  by (metis order_le_less_trans zle_add1_eq_le)

lemma flog2_mono: "0 < x \<Longrightarrow> x \<le> y \<Longrightarrow> flog2 x \<le> flog2 y"
  by (meson flog2_bounds(1) flog2_ge order_less_le_trans order_trans)

lemma ulp_exp_mono: "0 < x \<Longrightarrow> x \<le> y \<Longrightarrow> ulp_exp x \<le> ulp_exp y"
  using flog2_mono [of x y] by (simp add: ulp_exp_def)

lemma fpos_nonneg: "0 \<le> x \<Longrightarrow> 0 \<le> fpos x"
  by (simp add: fpos_def Let_def rne_nonneg)

text \<open>An integer multiple of a unit no smaller than its own ulp is not changed.\<close>

lemma fpos_multiple:
  assumes v: "v = of_int m * power_int 2 e" and e: "ulp_exp v \<le> e" and "v \<noteq> 0"
  shows "fpos v = v"
proof -
  let ?u = "power_int 2 (ulp_exp v) :: rat"
  have "v / ?u = of_int m * (power_int 2 e / ?u)" by (simp add: v)
  also have "\<dots> = of_int (m * 2 ^ nat (e - ulp_exp v))"
    using two_powi_quotient [OF e] by simp
  finally have "rne (v / ?u) = m * 2 ^ nat (e - ulp_exp v)"
    by (simp only: rne_of_int)
  moreover have "?u * 2 ^ nat (e - ulp_exp v) = power_int 2 e"
    using two_powi_quotient [OF e] by (simp add: field_simps)
  ultimately show ?thesis
    using assms(3) by (simp add: fpos_def Let_def v mult.assoc mult.commute)
qed

lemma ulp_exp_le:
  assumes "0 < v" "v < power_int 2 (e + 53)" "- 1074 \<le> e"
  shows "ulp_exp v \<le> e"
  using flog2_le [OF assms(1,2)] assms(3) by (simp add: ulp_exp_def)

lemma fpos_le_power:
  assumes "0 < x" "x \<le> power_int 2 k" "ulp_exp x \<le> k"
  shows "fpos x \<le> power_int 2 k"
proof -
  let ?u = "power_int 2 (ulp_exp x) :: rat"
  have "x / ?u \<le> power_int 2 k / ?u"
    using assms(2) by (simp add: divide_right_mono)
  then have "rne (x / ?u) \<le> 2 ^ nat (k - ulp_exp x)"
    using rne_mono two_powi_quotient [OF assms(3)] rne_of_int by metis
  then have "of_int (rne (x / ?u)) * ?u \<le> of_int (2 ^ nat (k - ulp_exp x)) * ?u"
    by (intro mult_right_mono) (simp_all only: of_int_le_iff, simp)
  also have "\<dots> = power_int 2 k"
    using two_powi_quotient [OF assms(3)] by (simp add: field_simps)
  finally show ?thesis using assms(1) by (simp add: fpos_def Let_def)
qed

lemma fpos_ge_power:
  assumes "power_int 2 k \<le> x" "ulp_exp x \<le> k"
  shows "power_int 2 k \<le> fpos x"
proof -
  let ?u = "power_int 2 (ulp_exp x) :: rat"
  have "power_int 2 k / ?u \<le> x / ?u"
    using assms(1) by (simp add: divide_right_mono)
  then have "2 ^ nat (k - ulp_exp x) \<le> rne (x / ?u)"
    using rne_mono two_powi_quotient [OF assms(2)] rne_of_int by metis
  then have "of_int (2 ^ nat (k - ulp_exp x)) * ?u \<le> of_int (rne (x / ?u)) * ?u"
    by (intro mult_right_mono) (simp_all only: of_int_le_iff, simp)
  moreover have "of_int (2 ^ nat (k - ulp_exp x)) * ?u = power_int 2 k"
    using two_powi_quotient [OF assms(2)] by (simp add: field_simps)
  moreover have "0 < x" using assms(1) by (rule order_less_le_trans [OF two_powi_pos])
  ultimately show ?thesis unfolding fpos_def Let_def by (simp only:) simp
qed

lemma fpos_mono:
  assumes "0 \<le> x" "x \<le> y"
  shows "fpos x \<le> fpos y"
proof (cases "x = 0")
  case True
  with assms show ?thesis using fpos_nonneg [of y] by (simp add: fpos_def)
next
  case False
  with assms have x: "0 < x" and y: "0 < y" by auto
  show ?thesis
  proof (cases "ulp_exp x = ulp_exp y")
    case True
    have "rne (x / power_int 2 (ulp_exp y)) \<le> rne (y / power_int 2 (ulp_exp y))"
      using assms(2) by (intro rne_mono divide_right_mono) auto
    then show ?thesis
      using x y True by (simp add: fpos_def Let_def mult_right_mono)
  next
    case False
    then have lt: "ulp_exp x < ulp_exp y"
      using ulp_exp_mono [OF x assms(2)] by simp
    let ?k = "ulp_exp y + 52"
    have "flog2 x + 1 \<le> ?k" and fy: "?k = flog2 y"
      using lt by (auto simp: ulp_exp_def)
    then have "x \<le> power_int 2 ?k"
      using flog2_bounds(2) [OF x] two_powi_le [of "flog2 x + 1" ?k]
      by (meson less_imp_le order_trans)
    then have "fpos x \<le> power_int 2 ?k"
      using lt by (intro fpos_le_power [OF x]) auto
    also have "\<dots> \<le> fpos y"
      using flog2_bounds(1) [OF y] fy by (intro fpos_ge_power) auto
    finally show ?thesis .
  qed
qed

lemma fpos_idem:
  assumes "0 < x"
  shows "fpos (fpos x) = fpos x"
proof (cases "fpos x = 0")
  case True
  then show ?thesis by (simp add: fpos_def)
next
  case False
  let ?e = "ulp_exp x"
  have v: "fpos x = of_int (rne (x / power_int 2 ?e)) * power_int 2 ?e"
    using assms by (simp add: fpos_def Let_def)
  have pos: "0 < fpos x"
    using False fpos_nonneg [of x] assms by simp
  have "flog2 x + 1 \<le> ?e + 53" by (simp add: ulp_exp_def)
  then have "x \<le> power_int 2 (?e + 53)"
    using flog2_bounds(2) [OF assms] two_powi_le by (meson less_imp_le order_trans)
  then have le: "fpos x \<le> power_int 2 (?e + 53)"
    by (intro fpos_le_power [OF assms]) auto
  show ?thesis
  proof (cases "fpos x = power_int 2 (?e + 53)")
    case True
    have "ulp_exp (fpos x) \<le> ?e + 1"
      using pos True by (intro ulp_exp_le) (auto simp: two_powi_less ulp_exp_def)
    then show ?thesis
      using True False
      by (intro fpos_multiple [where m = "2 ^ 52" and e = "?e + 1"])
        (simp_all add: power_int_add)
  next
    case False': False
    with le have "fpos x < power_int 2 (?e + 53)" by simp
    then have "ulp_exp (fpos x) \<le> ?e"
      using pos by (intro ulp_exp_le) (auto simp: ulp_exp_def)
    then show ?thesis by (rule fpos_multiple [OF v _ False])
  qed
qed

lemma fpos_error:
  assumes "0 < x"
  shows "\<bar>fpos x - x\<bar> \<le> power_int 2 (ulp_exp x) / 2"
proof -
  let ?u = "power_int 2 (ulp_exp x) :: rat"
  have "fpos x - x = (of_int (rne (x / ?u)) - x / ?u) * ?u"
    using assms by (simp add: fpos_def Let_def algebra_simps)
  then have "\<bar>fpos x - x\<bar> = \<bar>of_int (rne (x / ?u)) - x / ?u\<bar> * ?u"
    by (simp add: abs_mult)
  also have "\<dots> \<le> 1/2 * ?u"
    by (intro mult_right_mono rne_error) simp
  finally show ?thesis by simp
qed

lemma ulp_bound:
  assumes "0 < x"
  shows "power_int 2 (ulp_exp x) / 2 \<le> x * power_int 2 (- 53) + power_int 2 (- 1075)"
proof -
  have "(power_int 2 (flog2 x - 52) :: rat) / 2 = power_int 2 (flog2 x) * power_int 2 (- 53)"
    using two_powi_add [of "flog2 x - 52" "- 1"] two_powi_add [of "flog2 x" "- 53"] by simp
  also have "\<dots> \<le> x * power_int 2 (- 53)"
    using flog2_bounds(1) [OF assms] by (intro mult_right_mono) simp_all
  finally have a: "(power_int 2 (flog2 x - 52) :: rat) / 2 \<le> x * power_int 2 (- 53)" .
  have b: "(power_int 2 (- 1074) :: rat) / 2 = power_int 2 (- 1075)"
    using two_powi_add [of "- 1074" "- 1"] by simp
  have p: "(0::rat) \<le> power_int 2 (- 1075)" "0 \<le> x * power_int 2 (- 53)"
    using assms by simp_all
  show ?thesis
  proof (cases "flog2 x - 52 \<le> - 1074")
    case True
    then have e: "ulp_exp x = - 1074" by (simp add: ulp_exp_def)
    show ?thesis unfolding e b by (rule add_increasing [OF p(2) order_refl])
  next
    case False
    then have e: "ulp_exp x = flog2 x - 52" by (simp add: ulp_exp_def)
    show ?thesis unfolding e by (rule add_increasing2 [OF p(1) a])
  qed
qed

section \<open>The laws of float64 rounding\<close>

lemma f64_zero [simp]: "f64 0 = 0"
  by (simp add: f64_def fpos_def)

lemma f64_uminus: "f64 (- x) = - f64 x"
  by (auto simp: f64_def fpos_def)

lemma f64_pos: "0 \<le> x \<Longrightarrow> f64 x = fpos x"
  by (simp add: f64_def)

lemma f64_nonneg: "0 \<le> x \<Longrightarrow> 0 \<le> f64 x"
  by (simp add: f64_pos fpos_nonneg)

lemma f64_mono: "x \<le> y \<Longrightarrow> f64 x \<le> f64 y"
proof -
  assume le: "x \<le> y"
  consider "0 \<le> x" | "x < 0" "0 \<le> y" | "y < 0" using le by linarith
  then show ?thesis
  proof cases
    case 1
    with le show ?thesis by (simp add: f64_pos fpos_mono)
  next
    case 2
    then show ?thesis
      using f64_nonneg [of "- x"] f64_nonneg [of y] by (simp add: f64_uminus)
  next
    case 3
    then have "fpos (- y) \<le> fpos (- x)" using le by (intro fpos_mono) auto
    with 3 le show ?thesis by (simp add: f64_def)
  qed
qed

lemma f64_idem: "f64 (f64 x) = f64 x"
proof -
  have pos: "f64 (f64 y) = f64 y" if "0 \<le> y" for y
    using that by (cases "y = 0") (simp_all add: f64_pos fpos_nonneg fpos_idem)
  show ?thesis
    using pos [of x] pos [of "- x"] by (cases "0 \<le> x") (simp_all add: f64_uminus)
qed

lemma f64_error: "\<bar>f64 x - x\<bar> \<le> \<bar>x\<bar> * power_int 2 (- 53) + power_int 2 (- 1075)"
proof -
  have pos: "\<bar>f64 y - y\<bar> \<le> y * power_int 2 (- 53) + power_int 2 (- 1075)" if "0 < y" for y
    using fpos_error [OF that] ulp_bound [OF that] that by (simp add: f64_pos)
  consider "x = 0" | "0 < x" | "x < 0" by linarith
  then show ?thesis
  proof cases
    case 1
    then show ?thesis by simp
  next
    case 2
    then show ?thesis using pos by simp
  next
    case 3
    then show ?thesis using pos [of "- x"] by (simp add: f64_uminus abs_minus_commute)
  qed
qed

lemma f64_of_int: "\<bar>m\<bar> \<le> 2 ^ 52 \<Longrightarrow> f64 (of_int m) = of_int m"
proof -
  have pos: "f64 (of_int k) = of_int k" if "0 < k" "k \<le> 2 ^ 52" for k
  proof -
    have "(of_int k :: rat) < power_int 2 (0 + 53)"
    proof -
      have "(of_int k :: rat) \<le> of_int (2 ^ 52)" using that(2) by (simp only: of_int_le_iff)
      then show ?thesis by simp
    qed
    then have "ulp_exp (of_int k) \<le> 0"
      using that(1) by (intro ulp_exp_le) simp_all
    then show ?thesis
      using that(1) fpos_multiple [of "of_int k" k 0] by (simp add: f64_pos)
  qed
  assume "\<bar>m\<bar> \<le> 2 ^ 52"
  then show ?thesis
    using pos [of m] pos [of "- m"] by (cases m "0 :: int" rule: linorder_cases)
      (simp_all add: f64_uminus)
qed

text \<open>
  What the token bucket relies on: any monotone, idempotent rounding that keeps zero makes
  a subtraction of a covered cost stay within bounds and an addition never lose tokens.
\<close>

locale rounding =
  fixes rnd :: "rat \<Rightarrow> rat"
  assumes rnd_mono: "x \<le> y \<Longrightarrow> rnd x \<le> rnd y"
    and rnd_zero: "rnd 0 = 0"
    and rnd_idem: "rnd (rnd x) = rnd x"
begin

lemma rnd_ge_fixed: "rnd c = c \<Longrightarrow> c \<le> x \<Longrightarrow> c \<le> rnd x"
  using rnd_mono [of c x] by simp

lemma rnd_le_fixed: "rnd c = c \<Longrightarrow> x \<le> c \<Longrightarrow> rnd x \<le> c"
  using rnd_mono [of x c] by simp

lemma rnd_sub_nonneg: "b \<le> a \<Longrightarrow> 0 \<le> rnd (a - b)"
  by (rule rnd_ge_fixed) (simp_all add: rnd_zero)

lemma rnd_sub_nonpos: "a \<le> b \<Longrightarrow> rnd (a - b) \<le> 0"
  by (rule rnd_le_fixed) (simp_all add: rnd_zero)

lemma rnd_sub_le: "rnd a = a \<Longrightarrow> 0 \<le> b \<Longrightarrow> rnd (a - b) \<le> a"
  by (rule rnd_le_fixed) simp_all

lemma rnd_add_ge: "rnd a = a \<Longrightarrow> 0 \<le> b \<Longrightarrow> a \<le> rnd (a + b)"
  by (rule rnd_ge_fixed) simp_all

lemma rnd_add_ge': "rnd b = b \<Longrightarrow> 0 \<le> a \<Longrightarrow> b \<le> rnd (a + b)"
  by (rule rnd_ge_fixed) simp_all

lemma rnd_nonneg: "0 \<le> x \<Longrightarrow> 0 \<le> rnd x"
  by (rule rnd_ge_fixed) (simp_all add: rnd_zero)

end

interpretation fl: rounding f64
  by unfold_locales (simp_all add: f64_mono f64_idem)

lemma is_f64_f64 [simp, intro]: "is_f64 (f64 x)"
  by (simp add: is_f64_def f64_idem)

lemma is_f64_ops [simp, intro]:
  "is_f64 (fadd a b)" "is_f64 (fsub a b)" "is_f64 (fmul a b)" "is_f64 (fdiv a b)"
  by (simp_all add: fadd_def fsub_def fmul_def fdiv_def)

lemma is_f64_zero [simp]: "is_f64 0"
  by (simp add: is_f64_def)

text \<open>Relative and absolute rounding error: half an ulp of a normal, of a subnormal number.\<close>

definition f_eps :: rat where "f_eps = power_int 2 (- 53)"
definition f_tiny :: rat where "f_tiny = power_int 2 (- 1075)"

lemma f_eps_tiny: "0 < f_eps" "0 < f_tiny" "f_tiny \<le> f_eps"
  by (simp_all add: f_eps_def f_tiny_def two_powi_le del: power_int_minus)

lemma f_eps_value: "f_eps = 1 / 9007199254740992"
  by (simp add: f_eps_def power_int_def power_divide)

lemma f64_upper: "0 \<le> x \<Longrightarrow> f64 x \<le> x + x * f_eps + f_tiny"
  using f64_error [of x] by (simp add: f_eps_def f_tiny_def)

lemma f64_lower: "0 \<le> x \<Longrightarrow> x - x * f_eps - f_tiny \<le> f64 x"
  using f64_error [of x] by (simp add: f_eps_def f_tiny_def)

lemma f64_exact:
  assumes "x = of_int m * power_int 2 e" "\<bar>m\<bar> \<le> 2 ^ 52" "- 1074 \<le> e"
  shows "f64 x = x"
proof -
  have pos: "f64 (of_int k * power_int 2 e) = of_int k * power_int 2 e" if "0 < k" "k \<le> 2 ^ 52" for k
  proof -
    let ?v = "of_int k * power_int 2 e :: rat"
    have "(of_int k :: rat) \<le> of_int (2 ^ 52)" using that(2) by (simp only: of_int_le_iff)
    then have "(of_int k :: rat) < power_int 2 53" by simp
    then have "?v < power_int 2 53 * power_int 2 e" by (intro mult_strict_right_mono) simp_all
    then have lt: "?v < power_int 2 (e + 53)" using two_powi_add [of e 53] by (simp add: mult.commute)
    have pos: "0 < ?v" using that(1) by simp
    then have "ulp_exp ?v \<le> e" by (rule ulp_exp_le [OF _ lt assms(3)])
    then have "fpos ?v = ?v" using fpos_multiple [of ?v k e] that(1) by simp
    with pos show ?thesis by (simp add: f64_pos)
  qed
  show ?thesis
    using pos [of m] pos [of "- m"] assms(1,2)
    by (cases m "0 :: int" rule: linorder_cases) (simp_all add: f64_uminus)
qed

lemma f64_numeral [simp]: "(numeral n :: int) \<le> 2 ^ 52 \<Longrightarrow> f64 (numeral n) = numeral n"
  using f64_of_int [of "numeral n"] by simp

lemma f64_one [simp]: "f64 1 = 1"
  using f64_of_int [of 1] by simp

lemma is_f64_numeral [simp]: "(numeral n :: int) \<le> 2 ^ 52 \<Longrightarrow> is_f64 (numeral n)"
  by (simp add: is_f64_def)

lemma trunc0_nonneg: "0 \<le> x \<Longrightarrow> trunc0 x = \<lfloor>x\<rfloor>"
  by (simp add: trunc0_def)

lemma to_duration_nonzero: "1 \<le> x \<Longrightarrow> to_duration x \<noteq> 0"
proof -
  assume x: "1 \<le> x"
  then have t: "1 \<le> trunc0 x" by (simp add: trunc0_def)
  show ?thesis
  proof (cases "trunc0 x < 2 ^ 63")
    case True
    then have "uint (word_of_int (trunc0 x) :: 64 word) = trunc0 x"
      using t by (simp add: uint_word_of_int_eq take_bit_int_eq_self)
    with t True show ?thesis by (auto simp: to_duration_def Let_def simp del: word_of_int_eq_0_iff)
  next
    case False
    then show ?thesis by (simp add: to_duration_def Let_def)
  qed
qed

end
