(* ===== verification/GoJson.thy ===== *)
theory GoJson
  imports GoStrings
begin

text \<open>
  The part of Go's \<open>encoding/json\<close> that the SDK uses: the value tree, the compact printer
  of \<open>json.Marshal\<close>, the parser behind \<open>json.Unmarshal\<close> and the decoding of an object into
  the fields of a struct. Numbers keep their literal text, so that decoding into an \<open>int\<close>
  can reject fractions and out-of-range values as Go does. Text is assumed to be valid
  UTF-8 (Go replaces invalid bytes); the parser has no depth limit (Go's is 10000).
\<close>

datatype json =
    JNull
  | JBool bool
  | JNum string
  | JStr string
  | JArr "json list"
  | JObj "(string \<times> json) list"

section \<open>Printing\<close>

definition hex_lower :: "nat \<Rightarrow> char" where
  "hex_lower d = (if d < 10 then char_of (48 + d) else char_of (87 + d))"

definition json_esc :: "char \<Rightarrow> string" where
  "json_esc c = (let n = (of_char c :: nat) in
     if n = 34 then [CHR 0x5C, CHR 0x22]
     else if n = 92 then [CHR 0x5C, CHR 0x5C]
     else if n = 8 then [CHR 0x5C, CHR ''b'']
     else if n = 12 then [CHR 0x5C, CHR ''f'']
     else if n = 10 then [CHR 0x5C, CHR ''n'']
     else if n = 13 then [CHR 0x5C, CHR ''r'']
     else if n = 9 then [CHR 0x5C, CHR ''t'']
     else if n < 32 \<or> n = 60 \<or> n = 62 \<or> n = 38
       then CHR 0x5C # ''u00'' @ [hex_lower (n div 16), hex_lower (n mod 16)]
     else [c])"

definition json_quote :: "string \<Rightarrow> string" where
  "json_quote s = CHR 0x22 # concat (map json_esc s) @ [CHR 0x22]"

fun json_print :: "json \<Rightarrow> string" where
  "json_print JNull = ''null''"
| "json_print (JBool b) = (if b then ''true'' else ''false'')"
| "json_print (JNum n) = n"
| "json_print (JStr s) = json_quote s"
| "json_print (JArr vs) = ''['' @ join_with '','' (map json_print vs) @ '']''"
| "json_print (JObj kvs) =
     ''{'' @ join_with '','' (map (\<lambda>(k, v). json_quote k @ '':'' @ json_print v) kvs) @ ''}''"

section \<open>Parsing\<close>

definition is_ws :: "char \<Rightarrow> bool" where
  "is_ws c \<longleftrightarrow> c = CHR '' '' \<or> c = CHR 0x09 \<or> c = CHR 0x0A \<or> c = CHR 0x0D"

definition skip_ws :: "string \<Rightarrow> string" where
  "skip_ws s = dropWhile is_ws s"

definition hex_digit :: "char \<Rightarrow> nat option" where
  "hex_digit c = (let n = (of_char c :: nat) in
     if 48 \<le> n \<and> n \<le> 57 then Some (n - 48)
     else if 97 \<le> n \<and> n \<le> 102 then Some (n - 87)
     else if 65 \<le> n \<and> n \<le> 70 then Some (n - 55) else None)"

fun hex4 :: "string \<Rightarrow> (nat \<times> string) option" where
  "hex4 (a # b # c # d # r) =
     (case (hex_digit a, hex_digit b, hex_digit c, hex_digit d) of
        (Some w, Some x, Some y, Some z) \<Rightarrow> Some (((w * 16 + x) * 16 + y) * 16 + z, r)
      | _ \<Rightarrow> None)"
| "hex4 _ = None"

definition utf8 :: "nat \<Rightarrow> string" where
  "utf8 n = (if n < 128 then [char_of n]
     else if n < 2048 then [char_of (192 + n div 64), char_of (128 + n mod 64)]
     else if n < 65536 then
       [char_of (224 + n div 4096), char_of (128 + n div 64 mod 64), char_of (128 + n mod 64)]
     else [char_of (240 + n div 262144), char_of (128 + n div 4096 mod 64),
           char_of (128 + n div 64 mod 64), char_of (128 + n mod 64)])"

text \<open>
  A \<open>\u\<close> escape: a high surrogate takes the low surrogate escape after it when there is
  one; an unpaired surrogate is the replacement character.
\<close>

definition uescape :: "string \<Rightarrow> (string \<times> string) option" where
  "uescape s = (case hex4 s of
      None \<Rightarrow> None
    | Some (n, r) \<Rightarrow>
        if 55296 \<le> n \<and> n < 57344 then
          (case r of
             b # u # r2 \<Rightarrow>
               (if b = CHR 0x5C \<and> u = CHR ''u'' then
                  (case hex4 r2 of
                     Some (m, r3) \<Rightarrow>
                       if n < 56320 \<and> 56320 \<le> m \<and> m < 57344
                       then Some (utf8 (65536 + (n - 55296) * 1024 + (m - 56320)), r3)
                       else Some (utf8 65533, r)
                   | None \<Rightarrow> Some (utf8 65533, r))
                else Some (utf8 65533, r))
           | _ \<Rightarrow> Some (utf8 65533, r))
        else Some (utf8 n, r))"

definition simple_escape :: "char \<Rightarrow> char option" where
  "simple_escape e =
     (if e = CHR 0x22 \<or> e = CHR 0x5C \<or> e = CHR ''/'' then Some e
      else if e = CHR ''b'' then Some (CHR 0x08)
      else if e = CHR ''f'' then Some (CHR 0x0C)
      else if e = CHR ''n'' then Some (CHR 0x0A)
      else if e = CHR ''r'' then Some (CHR 0x0D)
      else if e = CHR ''t'' then Some (CHR 0x09)
      else None)"

lemma hex4_length: "hex4 s = Some (n, r) \<Longrightarrow> length r < length s"
  by (induction s rule: hex4.induct) (auto split: option.splits)

lemma uescape_length: "uescape s = Some (x, r) \<Longrightarrow> length r < length s"
  by (auto simp: uescape_def dest!: hex4_length split: option.splits if_splits list.splits)

text \<open>The body of a string literal, after its opening quote.\<close>

function p_str :: "string \<Rightarrow> (string \<times> string) option" where
  "p_str [] = None"
| "p_str (c # cs) =
     (if c = CHR 0x22 then Some ([], cs)
      else if c = CHR 0x5C then
        (case cs of
           [] \<Rightarrow> None
         | e # r \<Rightarrow>
             if e = CHR ''u'' then
               (case uescape r of
                  None \<Rightarrow> None
                | Some (x, r2) \<Rightarrow> map_option (\<lambda>(s, t). (x @ s, t)) (p_str r2))
             else (case simple_escape e of
                     None \<Rightarrow> None
                   | Some x \<Rightarrow> map_option (\<lambda>(s, t). (x # s, t)) (p_str r)))
      else if (of_char c :: nat) < 32 then None
      else map_option (\<lambda>(s, t). (c # s, t)) (p_str cs))"
  by pat_completeness auto
termination
  by (relation "measure length") (auto dest: uescape_length)

definition num_char :: "char \<Rightarrow> bool" where
  "num_char c \<longleftrightarrow> is_digit c \<or> c \<in> set ''+-.eE''"

definition valid_exp :: "string \<Rightarrow> bool" where
  "valid_exp r = (case r of
      [] \<Rightarrow> True
    | c # cs \<Rightarrow> (c = CHR ''e'' \<or> c = CHR ''E'') \<and>
        (let t = (case cs of d # ds \<Rightarrow> if d = CHR ''+'' \<or> d = CHR ''-'' then ds else cs | [] \<Rightarrow> [])
         in t \<noteq> [] \<and> list_all is_digit t))"

definition valid_frac :: "string \<Rightarrow> bool" where
  "valid_frac r = (case r of
      [] \<Rightarrow> True
    | c # cs \<Rightarrow> if c = CHR ''.''
        then takeWhile is_digit cs \<noteq> [] \<and> valid_exp (dropWhile is_digit cs)
        else valid_exp r)"

definition valid_num :: "string \<Rightarrow> bool" where
  "valid_num s = (let t = (case s of c # cs \<Rightarrow> if c = CHR ''-'' then cs else s | [] \<Rightarrow> []);
                      d = takeWhile is_digit t
     in d \<noteq> [] \<and> (hd d = CHR ''0'' \<longrightarrow> length d = 1) \<and> valid_frac (dropWhile is_digit t))"

definition p_num :: "string \<Rightarrow> (json \<times> string) option" where
  "p_num s = (let n = takeWhile num_char s in
     if valid_num n then Some (JNum n, dropWhile num_char s) else None)"

fun p_val :: "nat \<Rightarrow> string \<Rightarrow> (json \<times> string) option"
and p_elems :: "nat \<Rightarrow> string \<Rightarrow> (json list \<times> string) option"
and p_members :: "nat \<Rightarrow> string \<Rightarrow> ((string \<times> json) list \<times> string) option" where
  "p_val 0 s = None"
| "p_val (Suc n) s = (case skip_ws s of
      [] \<Rightarrow> None
    | c # cs \<Rightarrow>
        if c = CHR ''{'' then
          (case skip_ws cs of
             [] \<Rightarrow> None
           | d # r \<Rightarrow> if d = CHR ''}'' then Some (JObj [], r)
                    else map_option (\<lambda>(m, t). (JObj m, t)) (p_members n cs))
        else if c = CHR ''['' then
          (case skip_ws cs of
             [] \<Rightarrow> None
           | d # r \<Rightarrow> if d = CHR '']'' then Some (JArr [], r)
                    else map_option (\<lambda>(m, t). (JArr m, t)) (p_elems n cs))
        else if c = CHR 0x22 then map_option (\<lambda>(s, t). (JStr s, t)) (p_str cs)
        else if HasPrefix (c # cs) ''true'' then Some (JBool True, drop 4 (c # cs))
        else if HasPrefix (c # cs) ''false'' then Some (JBool False, drop 5 (c # cs))
        else if HasPrefix (c # cs) ''null'' then Some (JNull, drop 4 (c # cs))
        else p_num (c # cs))"
| "p_elems 0 s = None"
| "p_elems (Suc n) s = (case p_val n s of
      None \<Rightarrow> None
    | Some (v, r) \<Rightarrow>
        (case skip_ws r of
           [] \<Rightarrow> None
         | c # cs \<Rightarrow>
             if c = CHR '','' then map_option (\<lambda>(vs, t). (v # vs, t)) (p_elems n cs)
             else if c = CHR '']'' then Some ([v], cs) else None))"
| "p_members 0 s = None"
| "p_members (Suc n) s = (case skip_ws s of
      [] \<Rightarrow> None
    | q # qs \<Rightarrow>
        if q \<noteq> CHR 0x22 then None else
        (case p_str qs of
           None \<Rightarrow> None
         | Some (k, r) \<Rightarrow>
             (case skip_ws r of
                [] \<Rightarrow> None
              | c # cs \<Rightarrow>
                  if c \<noteq> CHR '':'' then None else
                  (case p_val n cs of
                     None \<Rightarrow> None
                   | Some (v, r2) \<Rightarrow>
                       (case skip_ws r2 of
                          [] \<Rightarrow> None
                        | d # ds \<Rightarrow>
                            if d = CHR '','' then map_option (\<lambda>(m, t). ((k, v) # m, t)) (p_members n ds)
                            else if d = CHR ''}'' then Some ([(k, v)], ds) else None)))))"

definition json_parse :: "string \<Rightarrow> json option" where
  "json_parse s = (case p_val (2 * length s + 2) s of
      Some (v, r) \<Rightarrow> if skip_ws r = [] then Some v else None
    | None \<Rightarrow> None)"

section \<open>Decoding an object into struct fields\<close>

text \<open>
  A decoder takes the field's current value and returns the new value and whether the
  value had the wrong type. Go records the first type error and goes on; \<open>null\<close> leaves a
  field unchanged; of repeated keys the last one counts; keys match ignoring case.
\<close>

definition key_matches :: "string \<Rightarrow> string \<Rightarrow> bool" where
  "key_matches field k \<longleftrightarrow> ToLower k = ToLower field"

definition in_int64 :: "int \<Rightarrow> bool" where
  "in_int64 i \<longleftrightarrow> - (2 ^ 63) \<le> i \<and> i < 2 ^ 63"

definition dec_string :: "string \<Rightarrow> json \<Rightarrow> string \<times> bool" where
  "dec_string cur j = (case j of JStr s \<Rightarrow> (s, False) | JNull \<Rightarrow> (cur, False) | _ \<Rightarrow> (cur, True))"

definition dec_int :: "int \<Rightarrow> json \<Rightarrow> int \<times> bool" where
  "dec_int cur j = (case j of
      JNum n \<Rightarrow> (case parse_int n of
          Some i \<Rightarrow> if in_int64 i then (i, False) else (cur, True)
        | None \<Rightarrow> (cur, True))
    | JNull \<Rightarrow> (cur, False)
    | _ \<Rightarrow> (cur, True))"

definition dec_strings :: "string list \<Rightarrow> json \<Rightarrow> string list \<times> bool" where
  "dec_strings cur j = (case j of
      JArr vs \<Rightarrow> (map (\<lambda>v. fst (dec_string [] v)) vs, list_ex (\<lambda>v. snd (dec_string [] v)) vs)
    | JNull \<Rightarrow> ([], False)
    | _ \<Rightarrow> (cur, True))"

definition dec_raw :: "json option \<Rightarrow> json \<Rightarrow> json option \<times> bool" where
  "dec_raw cur j = (Some j, False)"

text \<open>The pairs of an object, or a type error for a value that is not one.\<close>

definition obj_pairs :: "json \<Rightarrow> (string \<times> json) list \<times> bool" where
  "obj_pairs j = (case j of JObj kvs \<Rightarrow> (kvs, False) | JNull \<Rightarrow> ([], False) | _ \<Rightarrow> ([], True))"

definition dec_field ::
  "string \<Rightarrow> ('a \<Rightarrow> json \<Rightarrow> 'a \<times> bool) \<Rightarrow> 'a \<Rightarrow> (string \<times> json) list \<Rightarrow> 'a \<times> bool" where
  "dec_field field dec init kvs =
     foldl (\<lambda>(v, e) (k, j). if key_matches field k
                             then (case dec v j of (v', e') \<Rightarrow> (v', e \<or> e')) else (v, e))
       (init, False) kvs"

section \<open>Marshal and Unmarshal are inverse\<close>

lemma of_char_codes:
  "(of_char c :: nat) = 34 \<longleftrightarrow> c = CHR 0x22" "(of_char c :: nat) = 92 \<longleftrightarrow> c = CHR 0x5C"
  "(of_char c :: nat) = 8 \<longleftrightarrow> c = CHR 0x08" "(of_char c :: nat) = 12 \<longleftrightarrow> c = CHR 0x0C"
  "(of_char c :: nat) = 10 \<longleftrightarrow> c = CHR 0x0A" "(of_char c :: nat) = 13 \<longleftrightarrow> c = CHR 0x0D"
  "(of_char c :: nat) = 9 \<longleftrightarrow> c = CHR 0x09"
  using of_char_eq_iff [where ?'a = nat, of c "CHR 0x22"]
    of_char_eq_iff [where ?'a = nat, of c "CHR 0x5C"] of_char_eq_iff [where ?'a = nat, of c "CHR 0x08"]
    of_char_eq_iff [where ?'a = nat, of c "CHR 0x0C"] of_char_eq_iff [where ?'a = nat, of c "CHR 0x0A"]
    of_char_eq_iff [where ?'a = nat, of c "CHR 0x0D"] of_char_eq_iff [where ?'a = nat, of c "CHR 0x09"]
  by simp_all

lemma hex_digit_hex_lower: "d < 16 \<Longrightarrow> hex_digit (hex_lower d) = Some d"
  by (simp add: hex_digit_def hex_lower_def Let_def)

lemma uescape_low:
  assumes "n < 128"
  shows "uescape (''00'' @ hex_lower (n div 16) # hex_lower (n mod 16) # r) = Some ([char_of n], r)"
proof -
  have "n div 16 < 16" using assms by simp
  moreover have "hex_digit (CHR ''0'') = Some 0" by (simp add: hex_digit_def)
  ultimately have "hex4 (''00'' @ hex_lower (n div 16) # hex_lower (n mod 16) # r) = Some (n, r)"
    by (simp add: hex_digit_hex_lower)
  then show ?thesis using assms by (simp add: uescape_def utf8_def)
qed

lemma p_str_esc: "p_str (json_esc c @ r) = map_option (\<lambda>(s, t). (c # s, t)) (p_str r)"
proof -
  consider (special) "(of_char c :: nat) \<in> {34, 92, 8, 12, 10, 13, 9}"
    | (uni) "(of_char c :: nat) \<notin> {34, 92, 8, 12, 10, 13, 9}"
        "(of_char c :: nat) < 32 \<or> (of_char c :: nat) \<in> {60, 62, 38}"
    | (plain) "(of_char c :: nat) \<notin> {34, 92, 8, 12, 10, 13, 9}" "\<not> (of_char c :: nat) < 32"
        "(of_char c :: nat) \<notin> {60, 62, 38}"
    by blast
  then show ?thesis
  proof cases
    case special
    then show ?thesis
      by (auto simp: of_char_codes json_esc_def simple_escape_def)
  next
    case uni
    then have "(of_char c :: nat) < 128" by auto
    moreover from uni have "json_esc c = CHR 0x5C # CHR ''u'' # ''00'' @
        [hex_lower (of_char c div 16), hex_lower (of_char c mod 16)]"
      by (auto simp: json_esc_def Let_def)
    ultimately show ?thesis
      using uescape_low [of "of_char c" r] by simp
  next
    case plain
    then have "json_esc c = [c]" by (auto simp: json_esc_def Let_def)
    moreover have "c \<noteq> CHR 0x22" "c \<noteq> CHR 0x5C" using plain(1) by (auto simp flip: of_char_codes)
    ultimately show ?thesis using plain(2) by simp
  qed
qed

lemma p_str_quote: "p_str (concat (map json_esc s) @ CHR 0x22 # r) = Some (s, r)"
  by (induction s) (simp_all add: p_str_esc)

text \<open>A number literal ends where its characters end, so what follows must not extend it.\<close>

definition stops :: "string \<Rightarrow> bool" where
  "stops r \<longleftrightarrow> (case r of [] \<Rightarrow> True | c # _ \<Rightarrow> c \<in> set '',]}'')"

lemma stops_simps [simp]: "stops []" "stops (CHR '','' # r)" "stops (CHR '']'' # r)"
  "stops (CHR ''}'' # r)"
  by (simp_all add: stops_def)

fun json_ok :: "json \<Rightarrow> bool" where
  "json_ok (JNum n) = (valid_num n \<and> list_all num_char n)"
| "json_ok (JArr vs) = list_all json_ok vs"
| "json_ok (JObj kvs) = list_all (\<lambda>(k, v). json_ok v) kvs"
| "json_ok _ = True"

lemma p_num_print:
  assumes "valid_num n" "list_all num_char n" "stops r"
  shows "p_num (n @ r) = Some (JNum n, r)"
proof -
  have "takeWhile num_char (n @ r) = n \<and> dropWhile num_char (n @ r) = r"
    using assms(2,3)
    by (induction n) (auto simp: stops_def num_char_def is_digit_def split: list.splits)
  with assms(1) show ?thesis by (simp add: p_num_def)
qed

lemma valid_num_hd:
  assumes "valid_num n"
  obtains c cs where "n = c # cs" "c = CHR ''-'' \<or> is_digit c"
  using assms by (cases n) (auto simp: valid_num_def Let_def split: if_splits)

lemma is_digit_plain: "is_digit c \<Longrightarrow> \<not> is_ws c \<and> c \<notin> set '']}{[,:tfn'' \<and> c \<noteq> CHR 0x22"
  by (auto simp: is_digit_def is_ws_def)

lemma print_hd:
  assumes "json_ok j"
  obtains c cs where "json_print j = c # cs" "\<not> is_ws c" "c \<noteq> CHR '']''" "c \<noteq> CHR ''}''"
proof (cases j)
  case (JNum n)
  with assms obtain c cs where "n = c # cs" "c = CHR ''-'' \<or> is_digit c"
    using valid_num_hd by auto
  moreover have "\<not> is_ws (CHR ''-'')" by (simp add: is_ws_def)
  ultimately show ?thesis using JNum that [of c cs] is_digit_plain [of c] by auto
next
  case (JBool b)
  then show ?thesis using that by (cases b) (auto simp: is_ws_def)
qed (use that in \<open>auto simp: json_quote_def is_ws_def\<close>)

lemma skip_print: "json_ok j \<Longrightarrow> skip_ws (json_print j @ r) = json_print j @ r"
  by (erule print_hd) (simp add: skip_ws_def)

lemma skip_ws_id [simp]: "\<not> is_ws c \<Longrightarrow> skip_ws (c # r) = c # r"
  by (simp add: skip_ws_def)

lemma not_ws [simp]: "\<not> is_ws (CHR '','')" "\<not> is_ws (CHR '']'')" "\<not> is_ws (CHR ''}'')"
  "\<not> is_ws (CHR '':'')" "\<not> is_ws (CHR ''{'')" "\<not> is_ws (CHR ''['')" "\<not> is_ws (CHR 0x22)"
  by (simp_all add: is_ws_def)

definition val_at :: "json \<Rightarrow> bool" where
  "val_at j \<longleftrightarrow> (\<forall>n r. 2 * length (json_print j) \<le> n \<longrightarrow> stops r
      \<longrightarrow> p_val n (json_print j @ r) = Some (j, r))"

lemma val_atD:
  "val_at j \<Longrightarrow> 2 * length (json_print j) \<le> n \<Longrightarrow> stops r \<Longrightarrow>
    p_val n (json_print j @ r) = Some (j, r)"
  by (simp add: val_at_def)

lemma p_elems_print:
  assumes "vs \<noteq> []" "\<forall>v \<in> set vs. val_at v"
    "2 * length (join_with '','' (map json_print vs)) + 1 \<le> n"
  shows "p_elems n (join_with '','' (map json_print vs) @ CHR '']'' # r) = Some (vs, r)"
  using assms
proof (induction vs arbitrary: n rule: induct_list012)
  case 1
  then show ?case by simp
next
  case (2 v)
  then obtain m where "n = Suc m" by (cases n) auto
  with 2 show ?case by (simp add: val_atD)
next
  case (3 v w vs)
  then obtain m where m: "n = Suc m" by (cases n) auto
  from 3(3-5) have "p_elems m (join_with '','' (map json_print (w # vs)) @ CHR '']'' # r) = Some (w # vs, r)"
    by (intro 3(2)) (auto simp: m)
  moreover have "p_val m (json_print v @ CHR '','' # join_with '','' (map json_print (w # vs)) @ CHR '']'' # r)
      = Some (v, CHR '','' # join_with '','' (map json_print (w # vs)) @ CHR '']'' # r)"
    using 3(4,5) by (intro val_atD) (auto simp: m)
  ultimately show ?case by (simp add: m)
qed

abbreviation print_member :: "string \<times> json \<Rightarrow> string" where
  "print_member \<equiv> (\<lambda>(k, v). json_quote k @ '':'' @ json_print v)"

lemma p_members_step:
  assumes "val_at v" "2 * length (json_print v) + 1 \<le> n" "stops r"
  shows "p_members n (print_member (k, v) @ r) = (case skip_ws r of
      [] \<Rightarrow> None
    | d # ds \<Rightarrow>
        if d = CHR '','' then map_option (\<lambda>(m, t). ((k, v) # m, t)) (p_members (n - 1) ds)
        else if d = CHR ''}'' then Some ([(k, v)], ds) else None)"
proof -
  obtain m where m: "n = Suc m" using assms(2) by (cases n) auto
  have "p_val m (json_print v @ r) = Some (v, r)"
    using assms by (intro val_atD) (auto simp: m)
  then show ?thesis
    unfolding m diff_Suc_1 by (simp add: json_quote_def p_str_quote)
qed

lemma p_members_print:
  assumes "kvs \<noteq> []" "\<forall>kv \<in> set kvs. val_at (snd kv)"
    "2 * length (join_with '','' (map print_member kvs)) + 1 \<le> n"
  shows "p_members n (join_with '','' (map print_member kvs) @ CHR ''}'' # r) = Some (kvs, r)"
  using assms
proof (induction kvs arbitrary: n rule: induct_list012)
  case 1
  then show ?case by simp
next
  case (2 kv)
  then show ?case
    by (cases kv) (auto simp: json_quote_def p_members_step [of _ n, simplified json_quote_def, simplified])
next
  case (3 kv kw kvs)
  obtain k v where kv: "kv = (k, v)" by (cases kv)
  let ?rest = "join_with '','' (map print_member (kw # kvs)) @ CHR ''}'' # r"
  from 3(3-5) have ih: "p_members (n - 1) ?rest = Some (kw # kvs, r)"
    by (intro 3(2)) (auto simp: kv)
  have "p_members n (print_member (k, v) @ CHR '','' # ?rest)
      = map_option (\<lambda>(m, t). ((k, v) # m, t)) (p_members (n - 1) ?rest)"
    using 3(4,5) by (subst p_members_step) (auto simp: kv)
  with ih show ?case by (simp add: kv)
qed

lemma val_atI:
  assumes "\<And>m r. 2 * length (json_print j) \<le> Suc m \<Longrightarrow> stops r \<Longrightarrow>
    p_val (Suc m) (json_print j @ r) = Some (j, r)"
    and "json_print j \<noteq> []"
  shows "val_at j"
  unfolding val_at_def
proof (intro allI impI)
  fix n r assume n: "2 * length (json_print j) \<le> n" and r: "stops r"
  then obtain m where "n = Suc m" using assms(2) by (cases n) auto
  with n r assms(1) show "p_val n (json_print j @ r) = Some (j, r)" by simp
qed

lemma join_hd:
  assumes "xs \<noteq> []" "\<forall>x \<in> set xs. \<exists>c cs. x = c # cs \<and> Q c"
  shows "\<exists>c cs. join_with sep xs = c # cs \<and> Q c"
proof -
  obtain y ys where y: "xs = y # ys" using assms(1) by (cases xs) auto
  with assms(2) obtain c cs where "y = c # cs" "Q c" by auto
  with y show ?thesis by (cases ys) auto
qed

lemma p_val_num:
  assumes "\<not> is_ws c" "c \<notin> set '']}{[,:tfn''" "c \<noteq> CHR 0x22"
  shows "p_val (Suc m) (c # cs) = p_num (c # cs)"
proof -
  have n: "c \<noteq> CHR ''t''" "c \<noteq> CHR ''f''" "c \<noteq> CHR ''n''" "c \<noteq> CHR ''{''" "c \<noteq> CHR ''[''"
    using assms(2) by simp_all
  have p: "HasPrefix (c # cs) ''true'' = False" "HasPrefix (c # cs) ''false'' = False"
    "HasPrefix (c # cs) ''null'' = False"
    using n by (simp_all add: HasPrefix_def)
  have s: "skip_ws (c # cs) = c # cs" using assms(1) by simp
  show ?thesis
    unfolding p_val.simps(2) s list.case p if_False
    by (simp only: n assms(3) if_False)
qed

lemma num_hd_plain:
  assumes "c = CHR ''-'' \<or> is_digit c"
  shows "\<not> is_ws c" "c \<notin> set '']}{[,:tfn''" "c \<noteq> CHR 0x22"
proof -
  have "\<not> is_ws c \<and> c \<notin> set '']}{[,:tfn'' \<and> c \<noteq> CHR 0x22"
    using assms
  proof
    assume "c = CHR ''-''"
    then show ?thesis by (simp add: is_ws_def)
  qed (rule is_digit_plain)
  then show "\<not> is_ws c" "c \<notin> set '']}{[,:tfn''" "c \<noteq> CHR 0x22" by blast+
qed

lemma val_at_JNum:
  assumes "valid_num n" "list_all num_char n"
  shows "val_at (JNum n)"
proof (rule val_atI)
  obtain c cs where c: "n = c # cs" and d: "c = CHR ''-'' \<or> is_digit c"
    using valid_num_hd [OF assms(1)] .
  note p = num_hd_plain [OF d]
  show "json_print (JNum n) \<noteq> []" by (simp add: c)
  fix m r assume "stops r"
  then have "p_num (n @ r) = Some (JNum n, r)" by (rule p_num_print [OF assms])
  moreover have "p_val (Suc m) (n @ r) = p_num (n @ r)"
    unfolding c append_Cons by (rule p_val_num [OF p])
  ultimately show "p_val (Suc m) (json_print (JNum n) @ r) = Some (JNum n, r)"
    by simp
qed

lemma val_at_JArr:
  assumes "\<forall>v \<in> set vs. val_at v" "\<forall>v \<in> set vs. json_ok v"
  shows "val_at (JArr vs)"
proof (rule val_atI)
  fix m r assume m: "2 * length (json_print (JArr vs)) \<le> Suc m"
  show "p_val (Suc m) (json_print (JArr vs) @ r) = Some (JArr vs, r)"
  proof (cases "vs = []")
    case True
    then show ?thesis by simp
  next
    case False
    let ?t = "join_with '','' (map json_print vs)"
    have "\<forall>x \<in> set (map json_print vs). \<exists>c cs. x = c # cs \<and> \<not> is_ws c \<and> c \<noteq> CHR '']''"
      using assms(2) print_hd by (metis (no_types, lifting) imageE list.set_map)
    then obtain c cs where c: "?t = c # cs" "\<not> is_ws c \<and> c \<noteq> CHR '']''"
      using join_hd [of "map json_print vs" "\<lambda>c. \<not> is_ws c \<and> c \<noteq> CHR '']''" "'',''"] False
      by (simp only: map_is_Nil_conv) blast
    have "p_elems m (?t @ CHR '']'' # r) = Some (vs, r)"
      using m False assms(1) by (intro p_elems_print) auto
    with c show ?thesis by simp
  qed
qed simp

lemma val_at_JObj:
  assumes "\<forall>kv \<in> set kvs. val_at (snd kv)"
  shows "val_at (JObj kvs)"
proof (rule val_atI)
  fix m r assume m: "2 * length (json_print (JObj kvs)) \<le> Suc m"
  show "p_val (Suc m) (json_print (JObj kvs) @ r) = Some (JObj kvs, r)"
  proof (cases "kvs = []")
    case True
    then show ?thesis by simp
  next
    case False
    let ?t = "join_with '','' (map print_member kvs)"
    have "\<forall>x \<in> set (map print_member kvs). \<exists>c cs. x = c # cs \<and> c = CHR 0x22"
      by (auto simp: json_quote_def)
    then obtain cs where c: "?t = CHR 0x22 # cs"
      using join_hd [of "map print_member kvs" "\<lambda>c. c = CHR 0x22" "'',''"] False
      by (simp only: map_is_Nil_conv) blast
    have "p_members m (?t @ CHR ''}'' # r) = Some (kvs, r)"
      using m False assms by (intro p_members_print) auto
    with c show ?thesis by simp
  qed
qed simp

lemma val_at_ok: "json_ok j \<Longrightarrow> val_at j"
proof (induction j)
  case JNull
  show ?case by (rule val_atI) (simp_all add: is_ws_def HasPrefix_def)
next
  case (JBool b)
  show ?case by (rule val_atI; cases b) (simp_all add: is_ws_def HasPrefix_def)
next
  case (JNum n)
  then show ?case by (simp add: val_at_JNum)
next
  case (JStr s)
  show ?case by (rule val_atI) (simp_all add: json_quote_def p_str_quote)
next
  case (JArr vs)
  then show ?case by (intro val_at_JArr) (auto simp: list_all_iff)
next
  case (JObj kvs)
  then show ?case by (intro val_at_JObj) (fastforce simp: list_all_iff)
qed

lemma json_parse_print: "json_ok j \<Longrightarrow> json_parse (json_print j) = Some j"
  using val_atD [OF val_at_ok, of j "2 * length (json_print j) + 2" "[]"]
  by (simp add: json_parse_def skip_ws_def)

section \<open>Numbers that Go marshals\<close>

definition JInt :: "int \<Rightarrow> json" where
  "JInt i = JNum (Itoa i)"

lemma itoa_nat_hd_zero: "hd (itoa_nat n) = CHR ''0'' \<Longrightarrow> n = 0"
proof (induction n rule: itoa_nat.induct)
  case (1 n)
  show ?case
  proof (cases "n < 10")
    case True
    with 1(2) have "digit_char n = CHR ''0''" by (subst (asm) itoa_nat.simps) simp
    then have "(of_char (digit_char n) :: nat) = 48" by simp
    with True show ?thesis by simp
  next
    case False
    with 1(2) have "hd (itoa_nat (n div 10)) = CHR ''0''" by (subst (asm) itoa_nat.simps) simp
    with 1(1) False show ?thesis by simp
  qed
qed

lemma itoa_nat_zero: "itoa_nat 0 = ''0''"
  using of_char_digit [of 0] of_char_eq_iff [where ?'a = nat, of "digit_char 0" "CHR ''0''"]
  by (subst itoa_nat.simps) simp

lemma digits_all: "takeWhile is_digit (itoa_nat n) = itoa_nat n"
    "dropWhile is_digit (itoa_nat n) = []"
  using itoa_nat_digits [of n] by (simp_all add: list_all_iff)

lemma valid_digits: "valid_frac [] \<and> (hd (itoa_nat n) = CHR ''0'' \<longrightarrow> length (itoa_nat n) = 1)"
  using itoa_nat_hd_zero [of n] by (auto simp: itoa_nat_zero valid_frac_def)

lemma Itoa_valid: "valid_num (Itoa i)"
proof (cases "i < 0")
  case True
  then show ?thesis
    using valid_digits [of "nat (- i)"] by (simp add: Itoa_def valid_num_def digits_all)
next
  case False
  obtain c cs where e: "itoa_nat (nat i) = c # cs"
    using itoa_nat_nonempty neq_Nil_conv by metis
  with hd_itoa_nat [of "nat i"] have "c \<noteq> CHR ''-''" by auto
  with e False show ?thesis
    using valid_digits [of "nat i"] digits_all [of "nat i"]
    by (simp add: Itoa_def valid_num_def)
qed

lemma Itoa_num_char: "list_all num_char (Itoa i)"
  using itoa_nat_digits by (auto simp: Itoa_def num_char_def list_all_iff)

lemma json_ok_JInt [simp]: "json_ok (JInt i)"
  by (simp add: JInt_def Itoa_valid Itoa_num_char)

lemma dec_int_JInt [simp]: "in_int64 i \<Longrightarrow> dec_int cur (JInt i) = (i, False)"
  by (simp add: dec_int_def JInt_def parse_int_Itoa)

end
