(* ===== verification/ApiErrors.thy ===== *)
theory ApiErrors
  imports GoJson
begin

text \<open>
  The error values of the SDK (\<open>errors.go\<close>) and the wrapping done by \<open>fmt.Errorf\<close> with
  \<open>%w\<close>. Every error the SDK can return is a value of \<open>goerror\<close>; \<open>errors_as\<close> is the walk
  along \<open>Unwrap\<close> that \<open>errors.As\<close> performs.
\<close>

section \<open>Error values\<close>

record APIError =
  ae_StatusCode :: goint
  ae_Method :: string
  ae_Path :: string
  ae_Body :: string
  ae_Code :: string
  ae_Message :: string

record RateLimitError =
  rl_Method :: string
  rl_Path :: string
  rl_Retries :: goint

datatype goerror =
    ErrorString string                  \<comment> \<open>errors.New, or fmt.Errorf without a wrapped error\<close>
  | WrapError string goerror            \<comment> \<open>fmt.Errorf with the wrapped error after the text\<close>
  | EAPIError APIError
  | ERateLimitError RateLimitError
  | EAuthError string goerror           \<comment> \<open>Op, Err\<close>
  | EWebSocketError string goerror      \<comment> \<open>Op, Err\<close>
  | ESequenceGapError string goint goint \<comment> \<open>Channel, Expected, Got\<close>

definition ErrInvalidArgument :: goerror where
  "ErrInvalidArgument = ErrorString ''invalid argument''"

definition APIError_Error :: "APIError \<Rightarrow> string" where
  "APIError_Error e =
     (if ae_Message e \<noteq> [] then
        ''kalshi API error '' @ Itoa (ae_StatusCode e) @ '': '' @ ae_Method e @ '' ''
          @ ae_Path e @ '': '' @ ae_Message e @ '' (code='' @ ae_Code e @ '')''
      else
        ''kalshi API error '' @ Itoa (ae_StatusCode e) @ '': '' @ ae_Method e @ '' ''
          @ ae_Path e @ '': '' @ ae_Body e)"

definition RateLimitError_Error :: "RateLimitError \<Rightarrow> string" where
  "RateLimitError_Error e =
     ''kalshi rate limited: '' @ rl_Method e @ '' '' @ rl_Path e @ '' after ''
       @ Itoa (rl_Retries e) @ '' retries''"

fun Error :: "goerror \<Rightarrow> string" where
  "Error (ErrorString s) = s"
| "Error (WrapError s e) = s @ '': '' @ Error e"
| "Error (EAPIError e) = APIError_Error e"
| "Error (ERateLimitError e) = RateLimitError_Error e"
| "Error (EAuthError op e) = ''kalshi auth error ('' @ op @ ''): '' @ Error e"
| "Error (EWebSocketError op e) = ''kalshi websocket error ('' @ op @ ''): '' @ Error e"
| "Error (ESequenceGapError ch want got) =
     ''kalshi sequence gap on '' @ ch @ '': expected '' @ Itoa want @ '', got '' @ Itoa got"

fun Unwrap :: "goerror \<Rightarrow> goerror option" where
  "Unwrap (WrapError s e) = Some e"
| "Unwrap (EAuthError op e) = Some e"
| "Unwrap (EWebSocketError op e) = Some e"
| "Unwrap _ = None"

text \<open>The chain that \<open>errors.As\<close> and \<open>errors.Is\<close> inspect, outermost first.\<close>

fun err_chain :: "goerror \<Rightarrow> goerror list" where
  "err_chain (WrapError s e) = WrapError s e # err_chain e"
| "err_chain (EAuthError op e) = EAuthError op e # err_chain e"
| "err_chain (EWebSocketError op e) = EWebSocketError op e # err_chain e"
| "err_chain e = [e]"

fun as_APIError :: "goerror \<Rightarrow> APIError option" where
  "as_APIError (EAPIError e) = Some e"
| "as_APIError (WrapError s e) = as_APIError e"
| "as_APIError (EAuthError op e) = as_APIError e"
| "as_APIError (EWebSocketError op e) = as_APIError e"
| "as_APIError _ = None"

fun as_RateLimitError :: "goerror \<Rightarrow> RateLimitError option" where
  "as_RateLimitError (ERateLimitError e) = Some e"
| "as_RateLimitError (WrapError s e) = as_RateLimitError e"
| "as_RateLimitError (EAuthError op e) = as_RateLimitError e"
| "as_RateLimitError (EWebSocketError op e) = as_RateLimitError e"
| "as_RateLimitError _ = None"

fun as_AuthError :: "goerror \<Rightarrow> (string \<times> goerror) option" where
  "as_AuthError (EAuthError op e) = Some (op, e)"
| "as_AuthError (WrapError s e) = as_AuthError e"
| "as_AuthError (EWebSocketError op e) = as_AuthError e"
| "as_AuthError _ = None"

definition errors_is :: "goerror \<Rightarrow> goerror \<Rightarrow> bool" where
  "errors_is e target \<longleftrightarrow> target \<in> set (err_chain e)"

section \<open>newAPIError\<close>

text \<open>Decoding of \<open>struct {Code, Message}\<close>, the shape both attempts share.\<close>

definition dec_code_message :: "string \<times> string \<Rightarrow> json \<Rightarrow> (string \<times> string) \<times> bool" where
  "dec_code_message cur j =
     (case obj_pairs j of (kvs, e0) \<Rightarrow>
      (case dec_field ''code'' dec_string (fst cur) kvs of (code, e1) \<Rightarrow>
      (case dec_field ''message'' dec_string (snd cur) kvs of (msg, e2) \<Rightarrow>
        ((code, msg), e0 \<or> e1 \<or> e2))))"

definition dec_nested :: "json \<Rightarrow> (string \<times> string) \<times> bool" where
  "dec_nested j =
     (case obj_pairs j of (kvs, e0) \<Rightarrow>
      (case dec_field ''error'' dec_code_message ([], []) kvs of (cm, e1) \<Rightarrow> (cm, e0 \<or> e1)))"

definition newAPIError :: "goint \<Rightarrow> string \<Rightarrow> string \<Rightarrow> string \<Rightarrow> APIError" where
  "newAPIError statusCode method path body =
     (let e = \<lparr>ae_StatusCode = statusCode, ae_Method = method, ae_Path = path,
               ae_Body = body, ae_Code = [], ae_Message = []\<rparr>
      in case json_parse body of
           None \<Rightarrow> e
         | Some j \<Rightarrow>
             (case dec_nested j of ((ncode, nmsg), nerr) \<Rightarrow>
                if \<not> nerr \<and> ncode \<noteq> [] then e\<lparr>ae_Code := ncode, ae_Message := nmsg\<rparr>
                else (case dec_code_message ([], []) j of ((fcode, fmsg), ferr) \<Rightarrow>
                        if \<not> ferr then e\<lparr>ae_Code := fcode, ae_Message := fmsg\<rparr> else e)))"

section \<open>Facts\<close>

lemma err_chain_hd: "hd (err_chain e) = e"
  by (cases e) auto

lemma err_chain_unwrap:
  "err_chain e = e # (case Unwrap e of None \<Rightarrow> [] | Some e' \<Rightarrow> err_chain e')"
  by (cases e) auto

lemma as_RateLimitError_chain:
  "as_RateLimitError e = Some r \<Longrightarrow> ERateLimitError r \<in> set (err_chain e)"
  by (induction e rule: err_chain.induct) auto

lemma newAPIError_frame [simp]:
  "ae_StatusCode (newAPIError s m p b) = s" "ae_Method (newAPIError s m p b) = m"
  "ae_Path (newAPIError s m p b) = p" "ae_Body (newAPIError s m p b) = b"
  by (simp_all add: newAPIError_def Let_def split: option.splits prod.splits)

definition nested_body :: "string \<Rightarrow> string \<Rightarrow> json" where
  "nested_body code msg =
     JObj [(''error'', JObj [(''code'', JStr code), (''message'', JStr msg)])]"

definition flat_body :: "string \<Rightarrow> string \<Rightarrow> json" where
  "flat_body code msg = JObj [(''code'', JStr code), (''message'', JStr msg)]"

lemma key_matches_consts [simp]:
  "key_matches ''code'' ''code''" "key_matches ''message'' ''message''"
  "key_matches ''error'' ''error''" "\<not> key_matches ''code'' ''message''"
  "\<not> key_matches ''message'' ''code''" "\<not> key_matches ''error'' ''code''"
  "\<not> key_matches ''error'' ''message''" "\<not> key_matches ''code'' ''error''"
  "\<not> key_matches ''message'' ''error''"
  by (simp_all add: key_matches_def ToLower_def lower_char_def)

lemma dec_nested_nested [simp]: "dec_nested (nested_body c m) = ((c, m), False)"
  by (simp add: dec_nested_def nested_body_def obj_pairs_def dec_field_def dec_code_message_def
      dec_string_def)

lemma dec_nested_flat [simp]: "dec_nested (flat_body c m) = (([], []), False)"
  by (simp add: dec_nested_def flat_body_def obj_pairs_def dec_field_def)

lemma dec_flat_flat [simp]: "dec_code_message ([], []) (flat_body c m) = ((c, m), False)"
  by (simp add: flat_body_def obj_pairs_def dec_field_def dec_code_message_def dec_string_def)

lemma parse_bodies [simp]:
  "json_parse (json_print (nested_body c m)) = Some (nested_body c m)"
  "json_parse (json_print (flat_body c m)) = Some (flat_body c m)"
  by (simp_all add: json_parse_print nested_body_def flat_body_def del: json_print.simps)

lemma dec_flat_nested [simp]: "dec_code_message ([], []) (nested_body c m) = (([], []), False)"
  by (simp add: nested_body_def obj_pairs_def dec_field_def dec_code_message_def)

section \<open>The claims\<close>

text \<open>An error response of either documented shape, with a non-empty code, becomes an
  \<open>APIError\<close> that carries exactly the server's code and message besides status, method, path
  and raw body; a body that is not JSON leaves both empty and the error's text shows the body.\<close>

lemma newAPIError_parses:
  "(code \<noteq> [] \<longrightarrow>
      (let e = newAPIError s m p (json_print (nested_body code msg)) in ae_Code e = code \<and> ae_Message e = msg))
   \<and> (let e = newAPIError s m p (json_print (flat_body code msg)) in ae_Code e = code \<and> ae_Message e = msg)
   \<and> (json_parse body = None \<longrightarrow>
      newAPIError s m p body = \<lparr>ae_StatusCode = s, ae_Method = m, ae_Path = p, ae_Body = body,
                               ae_Code = [], ae_Message = []\<rparr>
      \<and> HasSuffix (Error (EAPIError (newAPIError s m p body))) body)"
  by (simp add: newAPIError_def Let_def APIError_Error_def HasSuffix_iff)

lemma newAPIError_parses_witness:
  "ae_Message (newAPIError 404 ''GET'' ''/p'' (json_print (nested_body ''nf'' ''no such market''))) = ''no such market''
   \<and> ae_Code (newAPIError 404 ''GET'' ''/p'' ''bad gateway'') = []"
proof -
  have "json_parse ''bad gateway'' = None" by code_simp
  with newAPIError_parses [of "''nf''" 404 "''GET''" "''/p''" "''no such market''" "''bad gateway''"]
  show ?thesis by (simp add: Let_def del: json_print.simps)
qed

text \<open>A nested error whose code is empty loses its message: \<open>newAPIError\<close> then reads the
  body as the flat shape, which has neither field, and the message is dropped.\<close>

theorem newAPIError_empty_code_drops_message:
  "ae_Message (newAPIError s m p (json_print (nested_body [] msg))) = []"
  by (simp add: newAPIError_def Let_def del: json_print.simps)

end
