(* ===== verification/RateLimit.thy ===== *)
theory RateLimit
  imports GoFloat ApiErrors
begin

text \<open>
  \<open>ratelimit.go\<close>: the read/write token bucket. The bucket's clock is an input: every
  operation that refills takes the clock reading \<open>now\<close> it sees. \<open>Acquire\<close> runs over a list
  of rounds, one per pass of its loop, each saying what the context and the clock answered;
  a list that ends before the loop does leaves the call blocked.
\<close>

section \<open>Configuration and state\<close>

record TokenBucketConfig =
  ReadRate :: gofloat
  WriteRate :: gofloat
  ReadCapacity :: gofloat
  WriteCapacity :: gofloat
  WindowSize :: gofloat
  SafetyPadding :: gofloat

definition DefaultTokenBucketConfig :: TokenBucketConfig where
  "DefaultTokenBucketConfig =
     \<lparr>ReadRate = 200, WriteRate = 100, ReadCapacity = 200, WriteCapacity = 100,
      WindowSize = 1, SafetyPadding = f64 (1 / 10)\<rparr>"

record TokenBucketStatus =
  st_ReadTokens :: gofloat
  st_WriteTokens :: gofloat

record bucket =
  cfg :: TokenBucketConfig
  readTokens :: gofloat
  writeTokens :: gofloat
  lastRefill :: gofloat

definition readCap :: "TokenBucketConfig \<Rightarrow> gofloat" where
  "readCap c = (if ReadCapacity c > 0 then ReadCapacity c else ReadRate c)"

definition writeCap :: "TokenBucketConfig \<Rightarrow> gofloat" where
  "writeCap c = (if WriteCapacity c > 0 then WriteCapacity c else WriteRate c)"

text \<open>\<open>Inl\<close> is the panic message.\<close>

definition NewReadWriteTokenBucket :: "TokenBucketConfig \<Rightarrow> gofloat \<Rightarrow> string + bucket" where
  "NewReadWriteTokenBucket c now =
     (if ReadRate c \<le> 0 \<or> WriteRate c \<le> 0
      then Inl ''gokalshi: ReadRate and WriteRate must be positive''
      else Inr \<lparr>cfg = c, readTokens = readCap c, writeTokens = writeCap c, lastRefill = now\<rparr>)"

text \<open>\<open>float64(time.Now().UnixNano()) / 1e9\<close>.\<close>

definition defaultClock :: "goint \<Rightarrow> gofloat" where
  "defaultClock unixNano = fdiv (f64 (of_int unixNano)) 1000000000"

section \<open>Refill, check, consume\<close>

definition refill :: "gofloat \<Rightarrow> bucket \<Rightarrow> bucket" where
  "refill now b =
     (let elapsed = fsub now (lastRefill b) in
      if elapsed \<le> 0 then b
      else
        let rc = readCap (cfg b);
            r = fadd (readTokens b) (fmul elapsed (ReadRate (cfg b)));
            wc = writeCap (cfg b);
            w = fadd (writeTokens b) (fmul elapsed (WriteRate (cfg b)))
        in b\<lparr>lastRefill := now,
             readTokens := (if r > rc then rc else r),
             writeTokens := (if w > wc then wc else w)\<rparr>)"

definition canProceed :: "bucket \<Rightarrow> gofloat \<Rightarrow> gofloat \<Rightarrow> bool" where
  "canProceed b readCost writeCost =
     (if readCost > 0 \<and> readTokens b < readCost then False
      else if writeCost > 0 \<and> writeTokens b < writeCost then False
      else True)"

definition consume :: "gofloat \<Rightarrow> gofloat \<Rightarrow> bucket \<Rightarrow> bucket" where
  "consume readCost writeCost b =
     (let b1 = (if readCost > 0 then b\<lparr>readTokens := fsub (readTokens b) readCost\<rparr> else b)
      in if writeCost > 0 then b1\<lparr>writeTokens := fsub (writeTokens b1) writeCost\<rparr> else b1)"

definition calculateWait :: "bucket \<Rightarrow> gofloat \<Rightarrow> gofloat \<Rightarrow> gofloat" where
  "calculateWait b readCost writeCost =
     (let m0 = 0;
          m1 = (if readCost > 0 \<and> readTokens b < readCost then
                  let wait = fdiv (fsub readCost (readTokens b)) (ReadRate (cfg b))
                  in if wait > m0 then wait else m0
                else m0);
          m2 = (if writeCost > 0 \<and> writeTokens b < writeCost then
                  let wait = fdiv (fsub writeCost (writeTokens b)) (WriteRate (cfg b))
                  in if wait > m1 then wait else m1
                else m1)
      in fadd m2 (SafetyPadding (cfg b)))"

definition calculateWaitTime :: "bucket \<Rightarrow> gofloat \<Rightarrow> gofloat \<Rightarrow> duration" where
  "calculateWaitTime b readCost writeCost =
     to_duration (fmul (calculateWait b readCost writeCost) 1000000000)"

section \<open>Operations\<close>

definition TryAcquire :: "gofloat \<Rightarrow> gofloat \<Rightarrow> gofloat \<Rightarrow> bucket \<Rightarrow> bool \<times> bucket" where
  "TryAcquire now readCost writeCost b =
     (let b1 = refill now b in
      if \<not> canProceed b1 readCost writeCost then (False, b1)
      else (True, consume readCost writeCost b1))"

definition GetWaitTime :: "gofloat \<Rightarrow> gofloat \<Rightarrow> gofloat \<Rightarrow> bucket \<Rightarrow> duration \<times> bucket" where
  "GetWaitTime now readCost writeCost b =
     (let b1 = refill now b in
      if canProceed b1 readCost writeCost then (0, b1)
      else (calculateWaitTime b1 readCost writeCost, b1))"

definition Status :: "gofloat \<Rightarrow> bucket \<Rightarrow> TokenBucketStatus \<times> bucket" where
  "Status now b =
     (let b1 = refill now b
      in (\<lparr>st_ReadTokens = readTokens b1, st_WriteTokens = writeTokens b1\<rparr>, b1))"

definition tryAcquireOrWait ::
  "gofloat \<Rightarrow> gofloat \<Rightarrow> gofloat \<Rightarrow> bucket \<Rightarrow> duration \<times> bucket" where
  "tryAcquireOrWait now readCost writeCost b =
     (let b1 = refill now b in
      if canProceed b1 readCost writeCost then (0, consume readCost writeCost b1)
      else (calculateWaitTime b1 readCost writeCost, b1))"

text \<open>
  The mutex makes each operation atomic, so what several goroutines do to one bucket is a
  sequence of operations. \<open>run_ops\<close> runs such a sequence.
\<close>

datatype bucket_op =
    OpTryAcquire gofloat gofloat gofloat       \<comment> \<open>clock reading, read cost, write cost\<close>
  | OpGetWaitTime gofloat gofloat gofloat
  | OpStatus gofloat
  | OpTryAcquireOrWait gofloat gofloat gofloat \<comment> \<open>the critical section of Acquire\<close>

fun run_op :: "bucket_op \<Rightarrow> bucket \<Rightarrow> bucket" where
  "run_op (OpTryAcquire now r w) b = snd (TryAcquire now r w b)"
| "run_op (OpGetWaitTime now r w) b = snd (GetWaitTime now r w b)"
| "run_op (OpStatus now) b = snd (Status now b)"
| "run_op (OpTryAcquireOrWait now r w) b = snd (tryAcquireOrWait now r w b)"

fun run_ops :: "bucket_op list \<Rightarrow> bucket \<Rightarrow> bucket" where
  "run_ops [] b = b"
| "run_ops (x # xs) b = run_ops xs (run_op x b)"

text \<open>
  One pass of the loop of \<open>Acquire\<close>: \<open>rd_err\<close> is \<open>ctx.Err()\<close> at its top, \<open>rd_now\<close> the
  clock, \<open>rd_done\<close> the context's error if the select took \<open>ctx.Done()\<close> rather than the timer,
  \<open>rd_others\<close> what other goroutines did to the bucket during the wait.
\<close>

record acq_round =
  rd_err :: "goerror option"
  rd_now :: gofloat
  rd_done :: "goerror option"
  rd_others :: "bucket_op list"

datatype acq_result = Acquired | AcqFailed goerror | AcqBlocked

text \<open>The error's text without the four numbers that \<open>%g\<close> prints in it.\<close>

definition cost_error :: goerror where
  "cost_error = ErrorString ''request token cost exceeds bucket capacity''"

definition cancelled :: "goerror \<Rightarrow> goerror" where
  "cancelled e = WrapError ''rate limiter acquire cancelled'' e"

fun acquire_loop ::
  "acq_round list \<Rightarrow> gofloat \<Rightarrow> gofloat \<Rightarrow> bucket \<Rightarrow> acq_result \<times> bucket" where
  "acquire_loop [] readCost writeCost b = (AcqBlocked, b)"
| "acquire_loop (rd # rds) readCost writeCost b =
     (case rd_err rd of
        Some e \<Rightarrow> (AcqFailed (cancelled e), b)
      | None \<Rightarrow>
          (case tryAcquireOrWait (rd_now rd) readCost writeCost b of (wait, b1) \<Rightarrow>
             if wait = 0 then (Acquired, b1)
             else let b2 = run_ops (rd_others rd) b1 in
                  (case rd_done rd of
                     Some e \<Rightarrow> (AcqFailed (cancelled e), b2)
                   | None \<Rightarrow> acquire_loop rds readCost writeCost b2)))"

definition Acquire ::
  "acq_round list \<Rightarrow> gofloat \<Rightarrow> gofloat \<Rightarrow> bucket \<Rightarrow> acq_result \<times> bucket" where
  "Acquire rds readCost writeCost b =
     (if readCost > readCap (cfg b) \<or> writeCost > writeCap (cfg b)
      then (AcqFailed cost_error, b)
      else acquire_loop rds readCost writeCost b)"

section \<open>The bucket's invariant\<close>

definition cfg_ok :: "TokenBucketConfig \<Rightarrow> bool" where
  "cfg_ok c \<longleftrightarrow> ReadRate c > 0 \<and> WriteRate c > 0 \<and> is_f64 (ReadRate c) \<and> is_f64 (WriteRate c)
     \<and> is_f64 (ReadCapacity c) \<and> is_f64 (WriteCapacity c) \<and> is_f64 (SafetyPadding c)"

definition bucket_ok :: "bucket \<Rightarrow> bool" where
  "bucket_ok b \<longleftrightarrow> cfg_ok (cfg b) \<and> is_f64 (readTokens b) \<and> is_f64 (writeTokens b)
     \<and> 0 \<le> readTokens b \<and> readTokens b \<le> readCap (cfg b)
     \<and> 0 \<le> writeTokens b \<and> writeTokens b \<le> writeCap (cfg b)"

lemma cfg_caps:
  "cfg_ok c \<Longrightarrow> 0 < readCap c \<and> 0 < writeCap c \<and> is_f64 (readCap c) \<and> is_f64 (writeCap c)"
  by (simp add: cfg_ok_def readCap_def writeCap_def)

lemma new_bucket_ok:
  assumes "is_f64 (ReadRate c)" "is_f64 (WriteRate c)" "is_f64 (ReadCapacity c)"
    "is_f64 (WriteCapacity c)" "is_f64 (SafetyPadding c)"
    and "NewReadWriteTokenBucket c now = Inr b"
  shows "bucket_ok b"
proof -
  have "cfg_ok c" using assms by (simp add: cfg_ok_def NewReadWriteTokenBucket_def split: if_splits)
  with assms(6) cfg_caps [OF this] show ?thesis
    by (auto simp: NewReadWriteTokenBucket_def bucket_ok_def split: if_splits)
qed

lemma refill_cfg [simp]: "cfg (refill now b) = cfg b"
  by (simp add: refill_def Let_def)

lemma consume_cfg [simp]: "cfg (consume r w b) = cfg b"
  by (simp add: consume_def Let_def)

lemma consume_tokens [simp]:
  "readTokens (consume r w b) = (if r > 0 then fsub (readTokens b) r else readTokens b)"
  "writeTokens (consume r w b) = (if w > 0 then fsub (writeTokens b) w else writeTokens b)"
  "lastRefill (consume r w b) = lastRefill b"
  by (simp_all add: consume_def Let_def)

lemma refill_ok: "bucket_ok b \<Longrightarrow> bucket_ok (refill now b)"
proof -
  assume ok: "bucket_ok b"
  have nonneg: "0 \<le> fadd t (fmul e r)" if "0 \<le> t" "0 < e" "0 < r" for t e r :: rat
    using that by (simp add: fadd_def fmul_def fl.rnd_nonneg)
  from ok cfg_caps [of "cfg b"] show ?thesis
    by (auto simp: refill_def Let_def bucket_ok_def cfg_ok_def nonneg)
qed

lemma consume_ok: "bucket_ok b \<Longrightarrow> canProceed b r w \<Longrightarrow> bucket_ok (consume r w b)"
proof -
  assume ok: "bucket_ok b" and can: "canProceed b r w"
  have sub: "0 \<le> fsub t c \<and> fsub t c \<le> cap" if "c \<le> t" "0 < c" "t \<le> cap" "is_f64 t" for t c cap
    using that fl.rnd_sub_nonneg [of c t] fl.rnd_sub_le [of t c]
    by (simp add: fsub_def is_f64_def)
  from ok can show ?thesis
    by (auto simp: bucket_ok_def canProceed_def sub split: if_splits)
qed

lemma run_op_ok: "bucket_ok b \<Longrightarrow> bucket_ok (run_op x b)"
  by (cases x) (auto simp: TryAcquire_def GetWaitTime_def Status_def tryAcquireOrWait_def Let_def
      refill_ok consume_ok)

lemma run_ops_fold: "run_ops xs b = fold run_op xs b"
  by (induction xs arbitrary: b) simp_all

interpretation bucket_steps: guarded_steps run_op bucket_ok
  by unfold_locales (rule run_op_ok)

lemma run_ops_ok: "bucket_ok b \<Longrightarrow> bucket_ok (run_ops xs b)"
  unfolding run_ops_fold by (rule bucket_steps.run_inv)

lemma run_op_cfg [simp]: "cfg (run_op x b) = cfg b"
  by (cases x) (auto simp: TryAcquire_def GetWaitTime_def Status_def tryAcquireOrWait_def Let_def)

interpretation bucket_settings: framed_steps run_op cfg
  by unfold_locales simp

lemma run_ops_cfg [simp]: "cfg (run_ops xs b) = cfg b"
  unfolding run_ops_fold by (rule bucket_settings.run_view)

lemma tryAcquireOrWait_snd: "snd (tryAcquireOrWait now r w b) = run_op (OpTryAcquireOrWait now r w) b"
  by simp

lemma run_ops_append: "run_ops (xs @ ys) b = run_ops ys (run_ops xs b)"
  by (simp add: run_ops_fold)

text \<open>Whatever a call of \<open>Acquire\<close> does to the bucket is a run of atomic operations.\<close>

fun acquire_ops :: "acq_round list \<Rightarrow> gofloat \<Rightarrow> gofloat \<Rightarrow> bucket \<Rightarrow> bucket_op list" where
  "acquire_ops [] r w b = []"
| "acquire_ops (rd # rds) r w b =
     (if rd_err rd \<noteq> None then []
      else let x = OpTryAcquireOrWait (rd_now rd) r w in
        if fst (tryAcquireOrWait (rd_now rd) r w b) = 0 then [x]
        else if rd_done rd \<noteq> None then x # rd_others rd
        else x # rd_others rd @ acquire_ops rds r w (run_ops (rd_others rd) (run_op x b)))"

lemma acquire_loop_run: "snd (acquire_loop rds r w b) = run_ops (acquire_ops rds r w b) b"
proof (induction rds arbitrary: b)
  case Nil
  then show ?case by simp
next
  case (Cons rd rds)
  obtain wait b1 where t: "tryAcquireOrWait (rd_now rd) r w b = (wait, b1)" by fastforce
  then show ?case
    by (cases "rd_err rd"; cases "rd_done rd")
      (simp_all add: Let_def run_ops_append Cons.IH)
qed

lemma Acquire_ok: "bucket_ok b \<Longrightarrow> bucket_ok (snd (Acquire rds r w b))"
  by (simp add: Acquire_def acquire_loop_run run_ops_ok)

end
