(* ===== verification/RateLimitProps.thy ===== *)
theory RateLimitProps
  imports RateLimit
begin

text \<open>
  What the token bucket of \<open>ratelimit.go\<close> promises: bounded throughput, requests paid for
  once, failed requests free, and an advised wait that is long enough, all with the float64
  rounding of the code accounted for.
\<close>

section \<open>How many tokens a run can grant\<close>












text \<open>
  The two sides of a bucket follow the same rules: exchanging them commutes with every
  operation, so what is shown of the read side holds of the write side.
\<close>

definition swap_config :: "TokenBucketConfig \<Rightarrow> TokenBucketConfig" where
  "swap_config c = \<lparr>ReadRate = WriteRate c, WriteRate = ReadRate c, ReadCapacity = WriteCapacity c,
     WriteCapacity = ReadCapacity c, WindowSize = WindowSize c, SafetyPadding = SafetyPadding c\<rparr>"

definition swap_sides :: "bucket \<Rightarrow> bucket" where
  "swap_sides b = \<lparr>cfg = swap_config (cfg b), readTokens = writeTokens b,
     writeTokens = readTokens b, lastRefill = lastRefill b\<rparr>"



lemma swap_sides_sel [simp]:
  "cfg (swap_sides b) = swap_config (cfg b)" "readTokens (swap_sides b) = writeTokens b"
  "writeTokens (swap_sides b) = readTokens b" "lastRefill (swap_sides b) = lastRefill b"
  by (simp_all add: swap_sides_def)











section \<open>What Acquire saw\<close>

text \<open>The refilled buckets that a call of \<open>Acquire\<close> looked at, one per pass of its loop.\<close>

fun acquire_seen :: "acq_round list \<Rightarrow> gofloat \<Rightarrow> gofloat \<Rightarrow> bucket \<Rightarrow> bucket list" where
  "acquire_seen [] r w b = []"
| "acquire_seen (rd # rds) r w b =
     (if rd_err rd \<noteq> None then []
      else let s = refill (rd_now rd) b in
        if fst (tryAcquireOrWait (rd_now rd) r w b) = 0 \<or> rd_done rd \<noteq> None then [s]
        else s # acquire_seen rds r w
                   (run_ops (rd_others rd) (run_op (OpTryAcquireOrWait (rd_now rd) r w) b)))"

lemma calculateWait_ge_padding:
  assumes "cfg_ok (cfg b)"
  shows "SafetyPadding (cfg b) \<le> calculateWait b r w"
  using assms by (auto simp: calculateWait_def Let_def fadd_def is_f64_def cfg_ok_def
      intro!: fl.rnd_add_ge')

lemma padded_wait_nonzero:
  assumes "cfg_ok (cfg b)" and "1 / 1000000000 \<le> SafetyPadding (cfg b)"
  shows "calculateWaitTime b r w \<noteq> 0"
proof -
  have "1 / 1000000000 \<le> calculateWait b r w"
    using calculateWait_ge_padding [OF assms(1), of r w] assms(2) by linarith
  then have "1 \<le> fmul (calculateWait b r w) 1000000000"
    unfolding fmul_def by (intro fl.rnd_ge_fixed) simp_all
  then show ?thesis unfolding calculateWaitTime_def by (rule to_duration_nonzero)
qed

lemma tryAcquireOrWait_parts:
  "snd (tryAcquireOrWait now r w b)
     = (if canProceed (refill now b) r w then consume r w (refill now b) else refill now b)"
  "fst (tryAcquireOrWait now r w b)
     = (if canProceed (refill now b) r w then 0 else calculateWaitTime (refill now b) r w)"
  by (cases "canProceed (refill now b) r w"; simp add: tryAcquireOrWait_def Let_def)+

lemma padded_wait_zero_iff:
  assumes "bucket_ok b" and "1 / 1000000000 \<le> SafetyPadding (cfg b)"
  shows "fst (tryAcquireOrWait now r w b) = 0 \<longleftrightarrow> canProceed (refill now b) r w"
  using padded_wait_nonzero [of "refill now b" r w] assms
  by (simp add: tryAcquireOrWait_parts bucket_ok_def)

lemma acquire_loop_seen:
  assumes "bucket_ok b" and "1 / 1000000000 \<le> SafetyPadding (cfg b)"
    and "acquire_loop rds r w b = (Acquired, b')"
  shows "\<exists>earlier s. acquire_seen rds r w b = earlier @ [s]
     \<and> (\<forall>x\<in>set earlier. \<not> canProceed x r w) \<and> canProceed s r w \<and> b' = consume r w s"
  using assms
proof (induction rds arbitrary: b)
  case Nil
  then show ?case by simp
next
  case (Cons rd rds)
  let ?s = "refill (rd_now rd) b" and ?t = "tryAcquireOrWait (rd_now rd) r w b"
  have err: "rd_err rd = None" using Cons.prems(3) by (cases "rd_err rd") simp_all
  show ?case
  proof (cases "fst ?t = 0")
    case True
    with padded_wait_zero_iff [OF Cons.prems(1,2)] have can: "canProceed ?s r w" by blast
    have "b' = snd ?t" using Cons.prems(3) err True by (cases ?t) simp
    with can err True show ?thesis by (simp add: tryAcquireOrWait_parts)
  next
    case False
    let ?b = "run_ops (rd_others rd) (snd ?t)"
    have no: "\<not> canProceed ?s r w" using False padded_wait_zero_iff [OF Cons.prems(1,2)] by blast
    have dn: "rd_done rd = None" and loop: "acquire_loop rds r w ?b = (Acquired, b')"
      using Cons.prems(3) err False by (cases ?t; cases "rd_done rd"; simp)+
    have ok: "bucket_ok ?b" "1 / 1000000000 \<le> SafetyPadding (cfg ?b)"
      using Cons.prems(1,2) run_op_ok [OF Cons.prems(1), of "OpTryAcquireOrWait (rd_now rd) r w"]
      by (simp_all add: run_ops_ok tryAcquireOrWait_parts)
    from Cons.IH [OF ok loop] obtain earlier s where IH: "acquire_seen rds r w ?b = earlier @ [s]"
      "\<forall>x\<in>set earlier. \<not> canProceed x r w" "canProceed s r w" "b' = consume r w s"
      by blast
    have "acquire_seen (rd # rds) r w b = (?s # earlier) @ [s]"
      using IH(1) err dn False by (simp add: Let_def)
    with IH no show ?thesis by (intro exI [of _ "?s # earlier"] exI [of _ s]) simp
  qed
qed

text \<open>A call that fails, or is still blocked, took nothing.\<close>

lemma acquire_loop_refills:
  assumes "fst (acquire_loop rds r w b) \<noteq> Acquired" and "\<forall>rd\<in>set rds. rd_others rd = []"
  shows "\<exists>ts. snd (acquire_loop rds r w b) = fold refill ts b"
  using assms
proof (induction rds arbitrary: b)
  case Nil
  have "snd (acquire_loop [] r w b) = fold refill [] b" by simp
  then show ?case ..
next
  case (Cons rd rds)
  let ?t = "tryAcquireOrWait (rd_now rd) r w b" and ?s = "refill (rd_now rd) b"
  show ?case
  proof (cases "rd_err rd")
    case (Some e)
    then have "snd (acquire_loop (rd # rds) r w b) = fold refill [] b" by simp
    then show ?thesis ..
  next
    case None
    have wait: "fst ?t \<noteq> 0" using Cons.prems(1) None by (cases ?t) auto
    then have t: "?t = (fst ?t, ?s)"
      by (cases "canProceed ?s r w") (simp_all add: tryAcquireOrWait_def Let_def)
    show ?thesis
    proof (cases "rd_done rd")
      case (Some e)
      then have "snd (acquire_loop (rd # rds) r w b) = fold refill [rd_now rd] b"
        using None wait Cons.prems(2) by (subst acquire_loop.simps, subst t) simp
      then show ?thesis ..
    next
      case dn: None
      have step: "acquire_loop (rd # rds) r w b = acquire_loop rds r w ?s"
        using None wait dn Cons.prems(2) by (subst acquire_loop.simps, subst t) simp
      then obtain ts where "snd (acquire_loop rds r w ?s) = fold refill ts ?s"
        using Cons.IH [of ?s] Cons.prems by auto
      then have "snd (acquire_loop (rd # rds) r w b) = fold refill (rd_now rd # ts) b"
        using step by simp
      then show ?thesis ..
    qed
  qed
qed

section \<open>Waiting the advised time is enough\<close>

text \<open>
  The safety padding has to outweigh the rounding of the float64 computations: about
  \<open>20 * 2^-53\<close> of a full bucket, as against the default's tenth of a second of refill.
\<close>

definition padding_covers :: "rat \<Rightarrow> rat \<Rightarrow> rat \<Rightarrow> bool" where
  "padding_covers rate cap p \<longleftrightarrow> 20 * f_eps * cap + (12 * rate + 8) * f_tiny \<le> rate * p"

definition padding_ok :: "TokenBucketConfig \<Rightarrow> bool" where
  "padding_ok c \<longleftrightarrow> padding_covers (ReadRate c) (readCap c) (SafetyPadding c)
     \<and> padding_covers (WriteRate c) (writeCap c) (SafetyPadding c)"

lemma f64_lower': "0 \<le> x \<Longrightarrow> (1 - f_eps) * x - f_tiny \<le> f64 x"
  using f64_lower [of x] by (simp add: algebra_simps)

lemma eps_powers:
  "1 - 5 * f_eps \<le> (1 - f_eps) * ((1 - f_eps) * ((1 - f_eps) * ((1 - f_eps) * (1 - f_eps))))"
  "1 / 4 \<le> (1 - f_eps) * ((1 - f_eps) * ((1 - f_eps) - 1 / 2))"
  by (simp_all add: f_eps_value)

lemma rate_lower:
  assumes "0 \<le> x" "0 < rate" "0 \<le> B" "A - B \<le> rate * x"
  shows "(1 - f_eps) * A - (B + rate * f_tiny) \<le> rate * f64 x"
proof -
  have "rate * ((1 - f_eps) * x - f_tiny) \<le> rate * f64 x"
    using f64_lower' [OF assms(1)] assms(2) by simp
  moreover have "rate * ((1 - f_eps) * x - f_tiny) = (1 - f_eps) * (rate * x) - rate * f_tiny"
    by (simp add: algebra_simps)
  moreover have "(1 - f_eps) * (A - B) \<le> (1 - f_eps) * (rate * x)"
    using assms(4) by (intro mult_left_mono) (simp_all add: f_eps_value)
  moreover have "(1 - f_eps) * (A - B) = (1 - f_eps) * A - (B - f_eps * B)"
    by (simp add: algebra_simps)
  moreover have "0 \<le> f_eps * B" using assms(3) f_eps_tiny by simp
  ultimately show ?thesis by linarith
qed

lemma credit_suffices:
  assumes r: "is_f64 r" "0 \<le> t" "t < r" "r \<le> cap" and rate: "0 < rate"
    and p: "padding_covers rate cap p" "0 \<le> p" "is_f64 p"
    and W: "fadd (fdiv (fsub r t) rate) p \<le> W" and D: "W - p / 2 \<le> D"
  shows "r \<le> fadd t (fmul (f64 D) rate) \<and> 0 < f64 D"
proof -
  let ?q = "1 - f_eps" and ?d = "r - t" and ?rt = "rate * f_tiny"
  let ?x1 = "fsub r t" and ?x2 = "fdiv (fsub r t) rate"
  let ?V = "fadd ?x2 p" let ?E = "f64 (?V - p / 2)" and ?y = "fmul (f64 D) rate"
  have d: "0 < ?d" "?d \<le> cap" using r by simp_all
  have pos: "0 \<le> f_tiny" "0 \<le> ?rt" using f_eps_tiny rate by simp_all
  have n1: "0 \<le> ?x1" using d by (simp add: fsub_def fl.rnd_nonneg)
  have n2: "0 \<le> ?x2" using n1 rate by (simp add: fdiv_def fl.rnd_nonneg)
  have n3: "p \<le> ?V" using p n2 by (simp add: fadd_def is_f64_def fl.rnd_add_ge')
  have n4: "0 \<le> ?E" using n3 p(2) by (simp add: fl.rnd_nonneg)
  have l1: "?q * ?d - f_tiny \<le> ?x1" using f64_lower' [of ?d] d by (simp add: fsub_def)
  have l2: "?q * (?q * ?d) - (f_tiny + ?rt) \<le> rate * ?x2"
    using rate_lower [of "?x1 / rate" rate f_tiny "?q * ?d"] n1 rate l1 pos by (simp add: fdiv_def)
  have l3: "?q * (?q * (?q * ?d) + rate * p) - ((f_tiny + ?rt) + ?rt) \<le> rate * ?V"
    using rate_lower [of "?x2 + p" rate "f_tiny + ?rt" "?q * (?q * ?d) + rate * p"] n2 p(2) rate l2 pos
    by (simp add: fadd_def distrib_left)
  have l4: "?q * (?q * (?q * (?q * ?d) + rate * p) - rate * p / 2) - (((f_tiny + ?rt) + ?rt) + ?rt)
      \<le> rate * ?E"
    using rate_lower [of "?V - p / 2" rate "(f_tiny + ?rt) + ?rt"
        "?q * (?q * (?q * ?d) + rate * p) - rate * p / 2"] n3 p(2) rate l3 pos
    by (simp add: right_diff_distrib)
  have l5: "?q * (?q * (?q * (?q * (?q * ?d) + rate * p) - rate * p / 2))
      - ((((f_tiny + ?rt) + ?rt) + ?rt) + f_tiny) \<le> f64 (rate * ?E)"
    using rate_lower [of "rate * ?E" 1 "((f_tiny + ?rt) + ?rt) + ?rt"
        "?q * (?q * (?q * (?q * ?d) + rate * p) - rate * p / 2)"] n4 rate l4 pos by simp
  have ED: "?E \<le> f64 D" using W D by (intro f64_mono) simp
  then have y: "f64 (rate * ?E) \<le> ?y"
    unfolding fmul_def using rate by (intro f64_mono) (simp add: mult.commute)
  have "?q * (?q * (?q * (?q * (?q * ?d) + rate * p) - rate * p / 2))
      = (?q * (?q * (?q * (?q * ?q)))) * ?d + (?q * (?q * (?q - 1 / 2))) * (rate * p)"
    by (simp add: algebra_simps)
  moreover have "(1 - 5 * f_eps) * ?d \<le> (?q * (?q * (?q * (?q * ?q)))) * ?d"
    using eps_powers(1) d by (intro mult_right_mono) simp_all
  moreover have "1 / 4 * (rate * p) \<le> (?q * (?q * (?q - 1 / 2))) * (rate * p)"
    using eps_powers(2) rate p(2) by (intro mult_right_mono) simp_all
  moreover have "(1 - 5 * f_eps) * ?d = ?d - 5 * (f_eps * ?d)" by (simp add: algebra_simps)
  moreover have "f_eps * ?d \<le> f_eps * cap" using d f_eps_tiny by simp
  moreover have "20 * (f_eps * cap) + (12 * ?rt + 8 * f_tiny) \<le> rate * p"
    using p(1) by (simp add: padding_covers_def algebra_simps)
  ultimately have yd: "?d \<le> ?y" using l5 y by linarith
  have "r \<le> fadd t ?y"
    unfolding fadd_def using yd r(1) by (intro fl.rnd_ge_fixed) (simp_all add: is_f64_def)
  moreover have "0 < f64 D"
  proof (rule ccontr)
    assume "\<not> 0 < f64 D"
    then have "f64 D * rate \<le> 0" using rate by (simp add: mult_nonpos_nonneg)
    then have "?y \<le> 0" unfolding fmul_def by (intro fl.rnd_le_fixed) simp_all
    with yd d show False by simp
  qed
  ultimately show ?thesis ..
qed

lemma calculateWait_ge:
  "0 < r \<Longrightarrow> readTokens b < r \<Longrightarrow>
     fadd (fdiv (fsub r (readTokens b)) (ReadRate (cfg b))) (SafetyPadding (cfg b))
       \<le> calculateWait b r w"
  "0 < w \<Longrightarrow> writeTokens b < w \<Longrightarrow>
     fadd (fdiv (fsub w (writeTokens b)) (WriteRate (cfg b))) (SafetyPadding (cfg b))
       \<le> calculateWait b r w"
  by (auto simp: calculateWait_def Let_def fadd_def intro!: f64_mono)

lemma refill_keeps:
  assumes "bucket_ok b"
  shows "is_f64 r \<Longrightarrow> r \<le> readTokens b \<Longrightarrow> r \<le> readTokens (refill now b)"
    and "is_f64 w \<Longrightarrow> w \<le> writeTokens b \<Longrightarrow> w \<le> writeTokens (refill now b)"
proof -
  have up: "x \<le> fadd t (fmul e k)" if "is_f64 x" "x \<le> t" "0 < e" "0 < k" for x t e k
    using that unfolding fadd_def fmul_def is_f64_def
    using fl.rnd_nonneg [of "e * k"] by (intro fl.rnd_ge_fixed) simp_all
  show "is_f64 r \<Longrightarrow> r \<le> readTokens b \<Longrightarrow> r \<le> readTokens (refill now b)"
    using assms up by (auto simp: refill_def Let_def bucket_ok_def cfg_ok_def)
  show "is_f64 w \<Longrightarrow> w \<le> writeTokens b \<Longrightarrow> w \<le> writeTokens (refill now b)"
    using assms up by (auto simp: refill_def Let_def bucket_ok_def cfg_ok_def)
qed

lemma waited_enough:
  assumes ok: "bucket_ok b" and pad: "padding_ok (cfg b)" "0 \<le> SafetyPadding (cfg b)"
    and costs: "is_f64 r" "r \<le> readCap (cfg b)" "is_f64 w" "w \<le> writeCap (cfg b)"
    and wait: "calculateWait b r w - SafetyPadding (cfg b) / 2 \<le> now - lastRefill b"
  shows "canProceed (refill now b) r w"
proof -
  note c = ok [unfolded bucket_ok_def cfg_ok_def]
  have "r \<le> readTokens (refill now b)" if pos: "0 < r"
  proof (cases "r \<le> readTokens b")
    case True
    then show ?thesis using refill_keeps(1) [OF ok costs(1)] by blast
  next
    case False
    then have lt: "readTokens b < r" by simp
    from credit_suffices [OF costs(1) _ lt costs(2) _ _ pad(2) _
        calculateWait_ge(1) [OF pos lt] wait] c pad(1)
    show ?thesis using costs by (simp add: padding_ok_def refill_def Let_def fsub_def)
  qed
  moreover have "w \<le> writeTokens (refill now b)" if pos: "0 < w"
  proof (cases "w \<le> writeTokens b")
    case True
    then show ?thesis using refill_keeps(2) [OF ok costs(3)] by blast
  next
    case False
    then have lt: "writeTokens b < w" by simp
    from credit_suffices [OF costs(3) _ lt costs(4) _ _ pad(2) _
        calculateWait_ge(2) [OF pos lt] wait] c pad(1)
    show ?thesis using costs by (simp add: padding_ok_def refill_def Let_def fsub_def)
  qed
  ultimately show ?thesis by (auto simp: canProceed_def)
qed

section \<open>The claims\<close>

definition default_bucket_at :: "gofloat \<Rightarrow> bucket" where
  "default_bucket_at now = \<lparr>cfg = DefaultTokenBucketConfig, readTokens = 200, writeTokens = 100,
     lastRefill = now\<rparr>"

lemma default_bucket_at_new:
  "NewReadWriteTokenBucket DefaultTokenBucketConfig now = Inr (default_bucket_at now)"
  by (simp add: NewReadWriteTokenBucket_def DefaultTokenBucketConfig_def default_bucket_at_def
      readCap_def writeCap_def)

lemma default_bucket_at_ok: "bucket_ok (default_bucket_at now)"
  by (rule new_bucket_ok [OF _ _ _ _ _ default_bucket_at_new])
    (simp_all add: DefaultTokenBucketConfig_def)

lemmas default_simps = default_bucket_at_def DefaultTokenBucketConfig_def readCap_def writeCap_def

lemma tenth_bounds: "1 / 16 \<le> f64 (1 / 10)" "f64 (1 / 10) \<le> 1 / 8"
proof -
  have "f64 (1 / 16) = 1 / 16" by (rule f64_exact [of _ 1 "- 4"]) (simp_all add: power_int_def power_divide)
  then show "1 / 16 \<le> f64 (1 / 10)" using f64_mono [of "1 / 16" "1 / 10"] by simp
  have "f64 (1 / 8) = 1 / 8" by (rule f64_exact [of _ 1 "- 3"]) (simp_all add: power_int_def power_divide)
  then show "f64 (1 / 10) \<le> 1 / 8" using f64_mono [of "1 / 10" "1 / 8"] by simp
qed

lemma default_padding_ok: "padding_ok DefaultTokenBucketConfig"
proof -
  have t: "f_tiny \<le> 1 / 1000000" using f_eps_tiny(3) by (simp add: f_eps_value)
  have "20 * f_eps * 200 + (12 * 200 + 8) * f_tiny \<le> 200 * f64 (1 / 10)"
    "20 * f_eps * 100 + (12 * 100 + 8) * f_tiny \<le> 100 * f64 (1 / 10)"
    using t tenth_bounds(1) by (simp_all add: f_eps_value)
  then show ?thesis
    by (simp add: padding_ok_def padding_covers_def DefaultTokenBucketConfig_def readCap_def writeCap_def)
qed

text \<open>C1: From a bucket built by the constructor with float64 settings, whatever sequence of
  operations runs on it (clock readings and costs arbitrary, the clock may step back), neither
  token count ever goes below zero or above its capacity.\<close>

theorem bucket_tokens_bounded:
  assumes "is_f64 (ReadRate c)" "is_f64 (WriteRate c)" "is_f64 (ReadCapacity c)"
    "is_f64 (WriteCapacity c)" "is_f64 (SafetyPadding c)"
    and "NewReadWriteTokenBucket c now = Inr b"
  shows "0 \<le> readTokens (run_ops xs b) \<and> readTokens (run_ops xs b) \<le> readCap c
       \<and> 0 \<le> writeTokens (run_ops xs b) \<and> writeTokens (run_ops xs b) \<le> writeCap c"
proof -
  have "cfg b = c" using assms(6) by (auto simp: NewReadWriteTokenBucket_def split: if_splits)
  with run_ops_ok [OF new_bucket_ok [OF assms], of xs] show ?thesis by (simp add: bucket_ok_def)
qed

lemma bucket_tokens_bounded_witness:
  "0 \<le> readTokens (run_ops [OpTryAcquire 3 150 0, OpTryAcquire 2 150 20, OpStatus 4]
        (default_bucket_at 0))"
  using bucket_tokens_bounded [OF _ _ _ _ _ default_bucket_at_new,
      of "[OpTryAcquire 3 150 0, OpTryAcquire 2 150 20, OpStatus 4]" 0]
  by (simp add: DefaultTokenBucketConfig_def)

text \<open>C2: \<open>Acquire\<close> returns nil only after it found, with the bucket refilled, enough
  tokens for the whole request, and it takes them exactly once: every earlier look of this
  call saw too few tokens, the last one saw enough, and the bucket it leaves is that one less
  the two costs. This holds for a safety padding of at least a nanosecond and no less: with a
  padding of 0, which the constructor accepts, the call can return nil unpaid
  (\<open>Acquire_zero_padding_grants_unpaid\<close>).\<close>

theorem Acquire_takes_once:
  assumes "bucket_ok b" and "1 / 1000000000 \<le> SafetyPadding (cfg b)"
    and "Acquire rds r w b = (Acquired, b')"
  shows "\<exists>earlier s. acquire_seen rds r w b = earlier @ [s]
     \<and> (\<forall>x\<in>set earlier. \<not> canProceed x r w) \<and> canProceed s r w \<and> b' = consume r w s"
proof (rule acquire_loop_seen [OF assms(1,2)])
  show "acquire_loop rds r w b = (Acquired, b')"
    using assms(3) by (simp add: Acquire_def split: if_splits)
qed

lemma default_acquire:
  "Acquire [\<lparr>rd_err = None, rd_now = 0, rd_done = None, rd_others = []\<rparr>] 10 0 (default_bucket_at 0)
     = (Acquired, (default_bucket_at 0)\<lparr>readTokens := 190\<rparr>)"
  by (simp add: Acquire_def default_simps tryAcquireOrWait_def Let_def refill_def fsub_def
      canProceed_def consume_def)

lemma Acquire_takes_once_witness:
  "\<exists>earlier s. acquire_seen [\<lparr>rd_err = None, rd_now = 0, rd_done = None, rd_others = []\<rparr>] 10 0
       (default_bucket_at 0) = earlier @ [s] \<and> canProceed s 10 0"
  using Acquire_takes_once [OF default_bucket_at_ok _ default_acquire] tenth_bounds
  by (auto simp: default_bucket_at_def DefaultTokenBucketConfig_def)

text \<open>Without safety padding the loop's test \<open>wait == 0\<close> mistakes a wait that truncates
  to zero nanoseconds for success: the call returns nil although the bucket holds half of what
  was asked for, and nothing is consumed.\<close>

theorem Acquire_zero_padding_grants_unpaid:
  "let c = \<lparr>ReadRate = 2147483648, WriteRate = 1, ReadCapacity = 2, WriteCapacity = 1,
             WindowSize = 1, SafetyPadding = 0\<rparr>;
       b = \<lparr>cfg = c, readTokens = 2, writeTokens = 1, lastRefill = 5\<rparr>;
       b1 = run_op (OpTryAcquire 5 1 0) b
   in NewReadWriteTokenBucket c 5 = Inr b
      \<and> Acquire [\<lparr>rd_err = None, rd_now = 5, rd_done = None, rd_others = []\<rparr>] 2 0 b1 = (Acquired, b1)
      \<and> \<not> canProceed b1 2 0"
proof -
  have e: "f64 (1 / 2147483648) = 1 / 2147483648"
    by (rule f64_exact [of _ 1 "- 31"]) (simp_all add: power_int_def power_divide)
  have m: "f64 (1953125 / 4194304) = 1953125 / 4194304"
    by (rule f64_exact [of _ 1953125 "- 22"]) (simp_all add: power_int_def power_divide)
  have z: "\<lfloor>1953125 / 4194304 :: rat\<rfloor> = 0" by (simp add: floor_eq_iff)
  show ?thesis
    by (simp add: NewReadWriteTokenBucket_def Let_def readCap_def writeCap_def TryAcquire_def
        refill_def fsub_def canProceed_def consume_def Acquire_def tryAcquireOrWait_def
        calculateWaitTime_def calculateWait_def fdiv_def fadd_def fmul_def e m to_duration_def
        trunc0_def z)
qed

text \<open>A request whose read or write cost exceeds the bucket's capacity fails at once,
  whatever the clock and the context do, and leaves the bucket as it was.\<close>

theorem Acquire_over_capacity:
  assumes "readCap (cfg b) < r \<or> writeCap (cfg b) < w"
  shows "Acquire rds r w b = (AcqFailed cost_error, b)"
  using assms by (auto simp: Acquire_def)

lemma Acquire_over_capacity_witness:
  "Acquire [] 201 0 (default_bucket_at 0) = (AcqFailed cost_error, default_bucket_at 0)"
  by (rule Acquire_over_capacity) (simp add: default_simps)

text \<open>A call of \<open>Acquire\<close> that does not succeed (the context ended before or during a
  wait, the cost was too high, or it still waits) has consumed nothing: with no other
  goroutine at work the bucket is the old one after some refills.\<close>

lemma Acquire_failure_takes_nothing:
  assumes "fst (Acquire rds r w b) \<noteq> Acquired" and "\<forall>rd\<in>set rds. rd_others rd = []"
  shows "\<exists>ts. snd (Acquire rds r w b) = fold refill ts b"
proof (cases "readCap (cfg b) < r \<or> writeCap (cfg b) < w")
  case True
  then have "snd (Acquire rds r w b) = fold refill [] b" by (auto simp: Acquire_def)
  then show ?thesis ..
next
  case False
  then have "Acquire rds r w b = acquire_loop rds r w b" by (auto simp: Acquire_def)
  with acquire_loop_refills assms show ?thesis by metis
qed

lemma Acquire_failure_takes_nothing_witness:
  "\<exists>ts. snd (Acquire [\<lparr>rd_err = Some (ErrorString ''context canceled''), rd_now = 0, rd_done = None,
       rd_others = []\<rparr>] 1 1 (default_bucket_at 0)) = fold refill ts (default_bucket_at 0)"
  by (rule Acquire_failure_takes_nothing) (simp_all add: Acquire_def default_simps)

text \<open>C3: Waiting the time the limiter advises is enough. When the look at the clock after
  the wait is at least the advised time later, less half the padding (the timer rounds down to a
  nanosecond and the clock to a float64), and nobody else used the bucket, the second look of
  \<open>Acquire\<close> succeeds: the call returns nil and takes its tokens. The configured padding has to be
  at least a nanosecond and to outweigh the float64 rounding of the refill (\<open>padding_ok\<close>, which
  the default's tenth of a second does); a padding of 0 is not covered.\<close>

theorem Acquire_succeeds_after_wait:
  assumes "bucket_ok b" and "padding_ok (cfg b)" and "1 / 1000000000 \<le> SafetyPadding (cfg b)"
    and "is_f64 r" "r \<le> readCap (cfg b)" "is_f64 w" "w \<le> writeCap (cfg b)"
    and "\<not> canProceed (refill t1 b) r w"
    and "calculateWait (refill t1 b) r w - SafetyPadding (cfg b) / 2 \<le> t2 - lastRefill (refill t1 b)"
  shows "Acquire [\<lparr>rd_err = None, rd_now = t1, rd_done = None, rd_others = []\<rparr>,
                  \<lparr>rd_err = None, rd_now = t2, rd_done = None, rd_others = []\<rparr>] r w b
         = (Acquired, consume r w (refill t2 (refill t1 b)))"
proof -
  let ?b = "refill t1 b"
  have ok: "bucket_ok ?b" using assms(1) by (rule refill_ok)
  have can: "canProceed (refill t2 ?b) r w"
    by (rule waited_enough [OF ok]) (use assms in simp_all)
  have w1: "tryAcquireOrWait t1 r w b = (calculateWaitTime ?b r w, ?b)"
    using assms(8) by (simp add: tryAcquireOrWait_def Let_def)
  have w2: "tryAcquireOrWait t2 r w ?b = (0, consume r w (refill t2 ?b))"
    using can by (simp add: tryAcquireOrWait_def Let_def)
  have "calculateWaitTime ?b r w \<noteq> 0"
    using ok assms(3) by (intro padded_wait_nonzero) (simp_all add: bucket_ok_def)
  then show ?thesis using assms(5,7) by (simp add: Acquire_def w1 w2)
qed

lemma Acquire_succeeds_after_wait_witness:
  "fst (Acquire [\<lparr>rd_err = None, rd_now = 0, rd_done = None, rd_others = []\<rparr>,
                 \<lparr>rd_err = None, rd_now = 2, rd_done = None, rd_others = []\<rparr>]
          200 0 (run_op (OpTryAcquire 0 100 0) (default_bucket_at 0))) = Acquired"
proof -
  define B where "B = run_op (OpTryAcquire 0 100 0) (default_bucket_at 0)"
  have b: "B = (default_bucket_at 0)\<lparr>readTokens := 100\<rparr>"
    by (simp add: B_def TryAcquire_def default_simps Let_def refill_def fsub_def canProceed_def consume_def)
  have ok: "bucket_ok B" unfolding B_def by (rule run_op_ok [OF default_bucket_at_ok])
  have c: "cfg B = DefaultTokenBucketConfig" by (simp add: b default_bucket_at_def)
  have half: "f64 (1 / 2) = 1 / 2"
    by (rule f64_exact [of _ 1 "- 1"]) (simp_all add: power_int_def power_divide)
  have "f64 (1 / 2 + f64 (1 / 10)) \<le> 1"
    using f64_mono [of "1 / 2 + f64 (1 / 10)" 1] tenth_bounds by simp
  then have wait: "calculateWait B 200 0 \<le> 1"
    by (simp add: b calculateWait_def default_simps Let_def fsub_def fdiv_def fadd_def half)
  have idle: "refill 0 B = B" by (simp add: b refill_def fsub_def default_simps)
  have no: "\<not> canProceed B 200 0" by (simp add: b canProceed_def)
  have last: "lastRefill B = 0" by (simp add: b default_bucket_at_def)
  have pad: "1 / 16 \<le> SafetyPadding (cfg B)"
    using tenth_bounds by (simp add: c DefaultTokenBucketConfig_def)
  have caps: "readCap (cfg B) = 200" "writeCap (cfg B) = 100"
    by (simp_all add: c DefaultTokenBucketConfig_def readCap_def writeCap_def)
  show ?thesis unfolding B_def [symmetric]
    by (subst Acquire_succeeds_after_wait [OF ok])
      (use wait no last pad caps default_padding_ok in \<open>simp_all add: idle c\<close>)
qed



end
