(* ===== verification/EndpointCost.thy ===== *)
theory EndpointCost
  imports GoStrings GoFloat
begin

text \<open>
  \<open>endpoint_cost.go\<close> and the two parts of \<open>client.go\<close> that use it: the ordering of the cost
  table in \<open>ConfigureRateLimits\<close> and the lookup of a request's cost. The reference reading
  of a pattern is \<open>pattern_match\<close>, structural on the segments; \<open>segmentsMatch\<close> is the code's
  index loop, proved equal to it.
\<close>

section \<open>Routes\<close>

record costRoute =
  cr_method :: string
  segments :: "string list"
  cost :: gofloat
  literals :: goint
  rawPath :: string

definition splitPath :: "string \<Rightarrow> string list" where
  "splitPath path = (let trimmed = trim_char (CHR ''/'') path in
     if trimmed = [] then [] else split_on (CHR ''/'') trimmed)"

definition isPathPlaceholder :: "string \<Rightarrow> bool" where
  "isPathPlaceholder segment = (case segment of
      [] \<Rightarrow> False
    | c # _ \<Rightarrow>
        if c = CHR '':'' \<or> c = CHR ''*'' \<or> c = CHR ''$'' then True
        else if HasPrefix segment ''{'' \<and> HasSuffix segment ''}'' then True
        else if HasPrefix segment ''<'' \<and> HasSuffix segment ''>'' then True
        else False)"

definition isTrailingWildcard :: "string \<Rightarrow> bool" where
  "isTrailingWildcard segment = HasPrefix segment ''*''"

fun count_literals :: "string list \<Rightarrow> goint" where
  "count_literals [] = 0"
| "count_literals (seg # segs) =
     (if \<not> isPathPlaceholder seg then 1 else 0) + count_literals segs"

definition newCostRoute :: "string \<Rightarrow> string \<Rightarrow> gofloat \<Rightarrow> costRoute" where
  "newCostRoute method path c =
     (let p = (if \<not> HasPrefix path ''/trade-api'' then ''/trade-api/v2'' @ path else path);
          segs = splitPath p
      in \<lparr>cr_method = ToUpper method, segments = segs, cost = c,
          literals = count_literals segs, rawPath = p\<rparr>)"

text \<open>The loop of \<open>segmentsMatch\<close>: \<open>i\<close> is the index of the pattern segment at the head.\<close>

fun segments_loop :: "nat \<Rightarrow> string list \<Rightarrow> nat \<Rightarrow> string list \<Rightarrow> bool" where
  "segments_loop i [] plen actual = (length actual = plen)"
| "segments_loop i (want # rest) plen actual =
     (if isTrailingWildcard want then length actual > i
      else if i \<ge> length actual then False
      else if isPathPlaceholder want then segments_loop (Suc i) rest plen actual
      else if want \<noteq> actual ! i then False
      else segments_loop (Suc i) rest plen actual)"

definition segmentsMatch :: "string list \<Rightarrow> string list \<Rightarrow> bool" where
  "segmentsMatch pattern actual = segments_loop 0 pattern (length pattern) actual"

definition route_matches :: "costRoute \<Rightarrow> string \<Rightarrow> string \<Rightarrow> bool" where
  "route_matches r method path =
     (if cr_method r \<noteq> ToUpper method then False
      else segmentsMatch (segments r) (splitPath path))"

definition suspectUnmarkedPlaceholder :: "string \<Rightarrow> bool" where
  "suspectUnmarkedPlaceholder segment =
     (if isPathPlaceholder segment then False
      else segment = ''id'' \<or> HasSuffix segment ''_id'')"

fun suspects_of :: "string list \<Rightarrow> string list" where
  "suspects_of [] = []"
| "suspects_of (seg # segs) =
     (if suspectUnmarkedPlaceholder seg then seg # suspects_of segs else suspects_of segs)"

definition suspiciousSegments :: "costRoute \<Rightarrow> string list" where
  "suspiciousSegments r = suspects_of (segments r)"

section \<open>The cost table\<close>

text \<open>\<open>sort.SliceStable\<close> by descending number of literal segments.\<close>

definition sort_routes :: "costRoute list \<Rightarrow> costRoute list" where
  "sort_routes routes = sort_key (\<lambda>r. - literals r) routes"

fun lookupCost :: "costRoute list \<Rightarrow> string \<Rightarrow> string \<Rightarrow> gofloat option" where
  "lookupCost [] method path = None"
| "lookupCost (r # rs) method path =
     (if route_matches r method path then Some (cost r) else lookupCost rs method path)"

section \<open>The reference reading of a pattern\<close>

fun pattern_match :: "string list \<Rightarrow> string list \<Rightarrow> bool" where
  "pattern_match [] actual = (actual = [])"
| "pattern_match (want # rest) actual =
     (if isTrailingWildcard want then actual \<noteq> []
      else case actual of
             [] \<Rightarrow> False
           | a # as \<Rightarrow> (isPathPlaceholder want \<or> want = a) \<and> pattern_match rest as)"

lemma segments_loop_pattern:
  "i \<le> length actual \<Longrightarrow> segments_loop i rest (i + length rest) actual
     \<longleftrightarrow> pattern_match rest (drop i actual)"
proof (induction rest arbitrary: i)
  case Nil
  then show ?case by auto
next
  case (Cons want rest)
  show ?case
  proof (cases "i < length actual")
    case True
    then have "drop i actual = actual ! i # drop (Suc i) actual"
      by (rule Cons_nth_drop_Suc [symmetric])
    with True Cons.IH [of "Suc i"] show ?thesis by auto
  next
    case False
    with Cons.prems show ?thesis by simp
  qed
qed

lemma segmentsMatch_pattern: "segmentsMatch pattern actual = pattern_match pattern actual"
  using segments_loop_pattern [of 0 actual pattern] by (simp add: segmentsMatch_def)

lemma wildcard_placeholder: "isTrailingWildcard s \<Longrightarrow> isPathPlaceholder s"
  by (auto simp: isTrailingWildcard_def isPathPlaceholder_def HasPrefix_def split: list.splits)

lemma pattern_match_no_wildcard:
  assumes "\<forall>w \<in> set pattern. \<not> isTrailingWildcard w"
  shows "pattern_match pattern actual \<longleftrightarrow>
    list_all2 (\<lambda>w a. isPathPlaceholder w \<or> w = a) pattern actual"
  using assms
  by (induction pattern actual rule: pattern_match.induct) (auto split: list.splits)

lemma pattern_match_wildcard:
  assumes "\<forall>w \<in> set pre. \<not> isTrailingWildcard w" "isTrailingWildcard wc"
  shows "pattern_match (pre @ wc # post) actual \<longleftrightarrow>
    length pre < length actual \<and>
    list_all2 (\<lambda>w a. isPathPlaceholder w \<or> w = a) pre (take (length pre) actual)"
  using assms
proof (induction pre arbitrary: actual)
  case Nil
  then show ?case by auto
next
  case (Cons w pre)
  then show ?case by (cases actual) auto
qed

text \<open>A request that instantiates every placeholder by some segment matches its pattern.\<close>

lemma pattern_match_instance:
  assumes "\<forall>w \<in> set pattern. \<not> isPathPlaceholder w \<longrightarrow> f w = w"
  shows "pattern_match pattern (map f pattern)"
  using assms by (induction pattern) (auto dest: wildcard_placeholder)

lemma count_literals_filter:
  "count_literals segs = int (length (filter (\<lambda>s. \<not> isPathPlaceholder s) segs))"
  by (induction segs) auto

lemma suspects_filter: "suspects_of segs = filter suspectUnmarkedPlaceholder segs"
  by (induction segs) auto

section \<open>First match in an order by rank\<close>

text \<open>
  The contract between the table's ordering and the first-match lookup: the ordering is
  by descending rank, keeps the entries, and keeps the order of entries of equal rank.
\<close>

locale ranked_lookup =
  fixes rank :: "'r \<Rightarrow> int" and arrange :: "'r list \<Rightarrow> 'r list"
  assumes arranged: "sorted_wrt (\<lambda>a b. rank b \<le> rank a) (arrange rs)"
    and arrange_set: "set (arrange rs) = set rs"
    and arrange_stable: "filter (\<lambda>r. rank r = k) (arrange rs) = filter (\<lambda>r. rank r = k) rs"
begin

lemma first_has_max_rank:
  assumes "find hits (arrange rs) = Some r"
  shows "r \<in> set rs \<and> hits r \<and> (\<forall>r' \<in> set rs. hits r' \<longrightarrow> rank r' \<le> rank r)"
proof -
  obtain i where i: "i < length (arrange rs)" "hits (arrange rs ! i)" "r = arrange rs ! i"
      "\<forall>j<i. \<not> hits (arrange rs ! j)"
    using assms by (auto simp: find_Some_iff)
  have "rank r' \<le> rank r" if "r' \<in> set rs" "hits r'" for r'
  proof -
    from that(1) obtain j where j: "j < length (arrange rs)" "r' = arrange rs ! j"
      by (metis arrange_set in_set_conv_nth)
    with that(2) i(4) have "i \<le> j" by (metis not_le)
    then show ?thesis
      using sorted_wrt_nth_less [OF arranged, of i j rs] i j by (cases "i = j") auto
  qed
  with i show ?thesis using arrange_set [of rs] by (metis nth_mem)
qed

lemma first_is_first_of_rank:
  assumes "find hits (arrange rs) = Some r"
  shows "find hits (filter (\<lambda>q. rank q = rank r) rs) = Some r"
proof -
  have "find hits (filter (\<lambda>q. rank q = rank r) xs) = Some r"
    if "find hits xs = Some r" for xs
    using that by (induction xs) (auto split: if_splits)
  from this [OF assms] show ?thesis by (simp add: arrange_stable)
qed

lemma none_iff: "find hits (arrange rs) = None \<longleftrightarrow> (\<forall>r \<in> set rs. \<not> hits r)"
  by (auto simp: find_None_iff arrange_set)

end

interpretation cost_table: ranked_lookup literals sort_routes
proof unfold_locales
  fix rs :: "costRoute list" and k :: int
  have "sorted (map (\<lambda>r. - literals r) (sort_routes rs))"
    by (simp add: sort_routes_def)
  then show "sorted_wrt (\<lambda>a b. literals b \<le> literals a) (sort_routes rs)"
    by (simp add: sorted_wrt_map)
  show "set (sort_routes rs) = set rs" by (simp add: sort_routes_def)
  show "filter (\<lambda>r. literals r = k) (sort_routes rs) = filter (\<lambda>r. literals r = k) rs"
    using sort_key_stable [of "\<lambda>r. - literals r" "- k" rs]
    by (simp add: sort_routes_def)
qed

lemma lookupCost_find:
  "lookupCost rs method path = map_option cost (find (\<lambda>r. route_matches r method path) rs)"
  by (induction rs) auto

section \<open>Paths built from segments\<close>

definition plain_segment :: "string \<Rightarrow> bool" where
  "plain_segment s \<longleftrightarrow> s \<noteq> [] \<and> CHR ''/'' \<notin> set s"

lemma join_ends:
  assumes "\<forall>x\<in>set xs. plain_segment x" "xs \<noteq> []"
  shows "join_with ''/'' xs \<noteq> [] \<and> hd (join_with ''/'' xs) \<noteq> CHR ''/''
     \<and> last (join_with ''/'' xs) \<noteq> CHR ''/''"
  using assms
proof (induction xs rule: induct_list012)
  case (2 x)
  then show ?case by (auto simp: plain_segment_def dest: hd_in_set last_in_set)
next
  case (3 x y zs)
  then show ?case by (auto simp: plain_segment_def dest: hd_in_set)
qed simp

lemma trim_id:
  assumes "s \<noteq> []" "hd s \<noteq> c" "last s \<noteq> c"
  shows "trim_char c (c # s) = s" and "trim_char c s = s"
proof -
  have d: "dropWhile (\<lambda>x. x = c) s = s" using assms by (cases s) simp_all
  have "hd (rev s) \<noteq> c" using assms by (simp add: hd_rev)
  then have r: "dropWhile (\<lambda>x. x = c) (rev s) = rev s" using assms by (cases "rev s") simp_all
  show "trim_char c (c # s) = s" "trim_char c s = s" by (simp_all add: trim_char_def d r)
qed

lemma splitPath_join:
  assumes "\<forall>x\<in>set xs. plain_segment x" "xs \<noteq> []"
  shows "splitPath (CHR ''/'' # join_with ''/'' xs) = xs"
proof -
  have "\<forall>x\<in>set xs. CHR ''/'' \<notin> set x" using assms(1) by (simp add: plain_segment_def)
  with join_ends [OF assms] assms(2) trim_id(1) [of "join_with ''/'' xs" "CHR ''/''"]
  show ?thesis by (simp add: splitPath_def Let_def split_join)
qed

definition api_root :: "string list" where "api_root = [''trade-api'', ''v2'']"

lemma api_root_join:
  "xs \<noteq> [] \<Longrightarrow> ''/trade-api/v2/'' @ join_with ''/'' xs = CHR ''/'' # join_with ''/'' (api_root @ xs)"
  by (cases xs) (simp_all add: api_root_def)

lemma api_root_plain: "\<forall>x\<in>set api_root. plain_segment x"
  by (simp add: api_root_def plain_segment_def)

section \<open>The claims\<close>

text \<open>The index loop that compares a cost-table pattern with a request path is
  the segment-wise reading of the pattern, for all patterns and paths: equal segment counts,
  literals equal, placeholders anything, a trailing wildcard one or more segments.\<close>

lemma segmentsMatch_is_pattern_match: "segmentsMatch pattern actual = pattern_match pattern actual"
  using segments_loop_pattern [of 0 actual pattern] by (simp add: segmentsMatch_def)

text \<open>C10: The cost charged for a request is that of a matching table entry with the greatest
  number of literal segments, and among those of the entry the server listed first: the
  answer does not depend on the order of entries of different specificity.\<close>

theorem lookupCost_most_specific:
  assumes "lookupCost (sort_routes rs) method path = Some c"
  shows "\<exists>r\<in>set rs. route_matches r method path \<and> cost r = c
    \<and> (\<forall>r'\<in>set rs. route_matches r' method path \<longrightarrow> literals r' \<le> literals r)
    \<and> find (\<lambda>q. route_matches q method path) (filter (\<lambda>q. literals q = literals r) rs) = Some r"
proof -
  obtain r where r: "find (\<lambda>q. route_matches q method path) (sort_routes rs) = Some r" "cost r = c"
    using assms by (auto simp: lookupCost_find)
  from cost_table.first_has_max_rank [OF r(1)] cost_table.first_is_first_of_rank [OF r(1)] r(2)
  show ?thesis by blast
qed

lemma lookupCost_most_specific_witness:
  "let rs = [newCostRoute ''DELETE'' ''/portfolio/events/orders/:order_id'' 2,
             newCostRoute ''DELETE'' ''/portfolio/events/orders/batched'' 7]
   in \<exists>r\<in>set rs. cost r = 7
      \<and> (\<forall>r'\<in>set rs. route_matches r' ''DELETE'' ''/trade-api/v2/portfolio/events/orders/batched''
            \<longrightarrow> literals r' \<le> literals r)"
proof -
  have "lookupCost (sort_routes [newCostRoute ''DELETE'' ''/portfolio/events/orders/:order_id'' 2,
             newCostRoute ''DELETE'' ''/portfolio/events/orders/batched'' 7])
          ''DELETE'' ''/trade-api/v2/portfolio/events/orders/batched'' = Some 7"
    by code_simp
  from lookupCost_most_specific [OF this] show ?thesis by (auto simp: Let_def)
qed

text \<open>A request falls back to the default cost only when no entry of the server's table
  matches it: sorting loses no entry.\<close>

theorem lookupCost_none_iff:
  "lookupCost (sort_routes rs) method path = None \<longleftrightarrow> (\<forall>r\<in>set rs. \<not> route_matches r method path)"
  by (simp add: lookupCost_find cost_table.none_iff)

lemma lookupCost_none_iff_witness:
  "lookupCost (sort_routes [newCostRoute ''DELETE'' ''/portfolio/orders/:order_id'' 2]) ''GET'' ''/trade-api/v2/markets'' = None"
proof -
  have "\<not> route_matches (newCostRoute ''DELETE'' ''/portfolio/orders/:order_id'' 2) ''GET'' ''/trade-api/v2/markets''"
    by code_simp
  then show ?thesis by (simp add: lookupCost_none_iff)
qed

text \<open>Every entry of the table is usable: filling each placeholder of an entry's path (of
  any of the recognised forms) with a non-empty slash-free segment gives a request path under
  \<open>/trade-api/v2\<close> that the entry matches, whatever the case of the method.\<close>

theorem cost_route_matches_instances:
  assumes "segs \<noteq> []" and "\<forall>s\<in>set segs. plain_segment s \<and> plain_segment (f s)"
    and "\<forall>s\<in>set segs. \<not> isPathPlaceholder s \<longrightarrow> f s = s"
    and "\<not> HasPrefix (CHR ''/'' # join_with ''/'' segs) ''/trade-api''"
    and "ToUpper method' = ToUpper method"
  shows "route_matches (newCostRoute method (CHR ''/'' # join_with ''/'' segs) c) method'
           (''/trade-api/v2/'' @ join_with ''/'' (map f segs))"
proof -
  let ?g = "\<lambda>s. if s \<in> set segs then f s else s"
  have seg: "segments (newCostRoute method (CHR ''/'' # join_with ''/'' segs) c) = api_root @ segs"
    using assms(1,2,4) splitPath_join [of "api_root @ segs"] api_root_plain api_root_join [of segs]
    by (auto simp: newCostRoute_def Let_def)
  have split: "splitPath (''/trade-api/v2/'' @ join_with ''/'' (map f segs)) = api_root @ map f segs"
    using assms(1,2) splitPath_join [of "api_root @ map f segs"] api_root_plain
      api_root_join [of "map f segs"] by auto
  have "pattern_match (api_root @ segs) (map id api_root @ map f segs)"
  proof -
    have lit: "\<not> isPathPlaceholder ''trade-api''" "\<not> isTrailingWildcard ''trade-api''"
      "\<not> isPathPlaceholder ''v2''" "\<not> isTrailingWildcard ''v2''"
      by (simp_all add: isPathPlaceholder_def isTrailingWildcard_def HasPrefix_def)
    show ?thesis using pattern_match_instance [OF assms(3)] lit by (simp add: api_root_def)
  qed
  moreover have "cr_method (newCostRoute method (CHR ''/'' # join_with ''/'' segs) c) = ToUpper method"
    by (simp add: newCostRoute_def Let_def)
  ultimately show ?thesis
    unfolding route_matches_def seg split segmentsMatch_pattern using assms(5) by simp
qed

lemma cost_route_matches_instances_witness:
  "route_matches (newCostRoute ''DELETE'' ''/portfolio/events/orders/:order_id'' 2) ''delete''
     ''/trade-api/v2/portfolio/events/orders/a1b2''"
proof -
  let ?segs = "[''portfolio'', ''events'', ''orders'', '':order_id'']"
  let ?f = "\<lambda>s. if s = '':order_id'' then ''a1b2'' else s"
  have "ToUpper ''delete'' = ToUpper ''DELETE''" by code_simp
  from cost_route_matches_instances [OF _ _ _ _ this, of ?segs ?f 2] show ?thesis
    by (simp add: plain_segment_def HasPrefix_def isPathPlaceholder_def)
qed

end
