(* ===== verification/Query.thy ===== *)
theory Query
  imports GoStrings
begin

text \<open>
  \<open>query.go\<close>: the query builder that every endpoint's \<open>toMap\<close> uses. A builder is the map
  it accumulates; \<open>query\<close> is a chain of builder calls ended by \<open>Build\<close>.
\<close>

type_synonym query_params = "string smap"

definition NewQuery :: query_params where
  "NewQuery = []"

definition qString :: "string \<Rightarrow> string \<Rightarrow> query_params \<Rightarrow> query_params" where
  "qString key val q = (if val \<noteq> [] then AList.update key val q else q)"

definition qIntPtr :: "string \<Rightarrow> goint option \<Rightarrow> query_params \<Rightarrow> query_params" where
  "qIntPtr key val q = (case val of Some v \<Rightarrow> AList.update key (Itoa v) q | None \<Rightarrow> q)"

definition qInt :: "string \<Rightarrow> goint \<Rightarrow> query_params \<Rightarrow> query_params" where
  "qInt key val q = (if val > 0 then AList.update key (Itoa val) q else q)"

definition qInt64 :: "string \<Rightarrow> goint \<Rightarrow> query_params \<Rightarrow> query_params" where
  "qInt64 key val q = (if val > 0 then AList.update key (Itoa val) q else q)"

definition qBool :: "string \<Rightarrow> bool \<Rightarrow> query_params \<Rightarrow> query_params" where
  "qBool key val q = (if val then AList.update key ''true'' q else q)"

definition Build :: "query_params \<Rightarrow> query_params" where
  "Build q = q"

definition query :: "(query_params \<Rightarrow> query_params) list \<Rightarrow> query_params" where
  "query calls = Build (foldl (\<lambda>q f. f q) NewQuery calls)"

section \<open>The builder keeps its map well formed\<close>

definition query_ok :: "query_params \<Rightarrow> bool" where
  "query_ok q \<longleftrightarrow> distinct_keys q \<and> (\<forall>kv \<in> set q. snd kv \<noteq> [])"

named_theorems query_intros \<open>builder calls keep \<open>query_ok\<close>\<close>

lemma snd_update: "kv \<in> set (AList.update k v q) \<Longrightarrow> snd kv = v \<or> kv \<in> set q"
  by (induction q) (auto split: if_splits)

lemma query_ok_update: "query_ok q \<Longrightarrow> v \<noteq> [] \<Longrightarrow> query_ok (AList.update k v q)"
  by (auto simp: query_ok_def dest: snd_update)

lemma query_ok_qString [query_intros]: "query_ok q \<Longrightarrow> query_ok (qString k v q)"
  by (simp add: qString_def query_ok_update)

lemma query_ok_qIntPtr [query_intros]: "query_ok q \<Longrightarrow> query_ok (qIntPtr k v q)"
  by (simp add: qIntPtr_def query_ok_update split: option.split)

lemma query_ok_qInt [query_intros]: "query_ok q \<Longrightarrow> query_ok (qInt k v q)"
  by (simp add: qInt_def query_ok_update)

lemma query_ok_qInt64 [query_intros]: "query_ok q \<Longrightarrow> query_ok (qInt64 k v q)"
  by (simp add: qInt64_def query_ok_update)

lemma query_ok_qBool [query_intros]: "query_ok q \<Longrightarrow> query_ok (qBool k v q)"
  by (simp add: qBool_def query_ok_update)

lemma query_ok_NewQuery [query_intros]: "query_ok NewQuery"
  by (simp add: query_ok_def NewQuery_def)

text \<open>What a single parameter of the finished query is.\<close>

lemma map_of_calls [simp]:
  "map_of (qString k v q) = (if v \<noteq> [] then (map_of q)(k \<mapsto> v) else map_of q)"
  "map_of (qIntPtr k p q) = (case p of Some i \<Rightarrow> (map_of q)(k \<mapsto> Itoa i) | None \<Rightarrow> map_of q)"
  "map_of (qInt k i q) = (if i > 0 then (map_of q)(k \<mapsto> Itoa i) else map_of q)"
  "map_of (qInt64 k i q) = (if i > 0 then (map_of q)(k \<mapsto> Itoa i) else map_of q)"
  "map_of (qBool k b q) = (if b then (map_of q)(k \<mapsto> ''true'') else map_of q)"
  by (simp_all add: qString_def qIntPtr_def qInt_def qInt64_def qBool_def split: option.split)

end
