(* ===== verification/Auth.thy ===== *)
theory Auth
  imports ApiErrors
begin

text \<open>
  \<open>auth.go\<close>: loading of the RSA key and signing of requests. The file system, the PEM and
  X.509 parsers, SHA-256 and the RSA-PSS signature are arguments, collected in the record
  \<open>crypto\<close>; the base64 encoding of the signature is modelled. An error returned by one of
  them is an \<open>Inl\<close>.
\<close>

section \<open>Base64, standard alphabet with padding\<close>

definition b64_char :: "nat \<Rightarrow> char" where
  "b64_char n = (if n < 26 then char_of (65 + n)
     else if n < 52 then char_of (71 + n)
     else if n < 62 then char_of (n - 4)
     else if n = 62 then CHR ''+'' else CHR ''/'')"

definition b64_val :: "char \<Rightarrow> nat" where
  "b64_val c = (let n = (of_char c :: nat) in
     if 65 \<le> n \<and> n \<le> 90 then n - 65
     else if 97 \<le> n \<and> n \<le> 122 then n - 71
     else if 48 \<le> n \<and> n \<le> 57 then n + 4
     else if c = CHR ''+'' then 62 else 63)"

fun b64_encode :: "string \<Rightarrow> string" where
  "b64_encode [] = []"
| "b64_encode [a] =
     (let x = of_char a :: nat
      in [b64_char (x div 4), b64_char (x mod 4 * 16), CHR ''='', CHR ''=''])"
| "b64_encode [a, b] =
     (let x = of_char a :: nat; y = of_char b :: nat
      in [b64_char (x div 4), b64_char (x mod 4 * 16 + y div 16), b64_char (y mod 16 * 4), CHR ''=''])"
| "b64_encode (a # b # c # cs) =
     (let x = of_char a :: nat; y = of_char b :: nat; z = of_char c :: nat
      in [b64_char (x div 4), b64_char (x mod 4 * 16 + y div 16), b64_char (y mod 16 * 4 + z div 64),
          b64_char (z mod 64)] @ b64_encode cs)"

text \<open>The inverse, the reference the encoding is checked against.\<close>

fun b64_decode :: "string \<Rightarrow> string" where
  "b64_decode (p # q # r # s # rest) =
     (let a = char_of (b64_val p * 4 + b64_val q div 16);
          b = char_of (b64_val q mod 16 * 16 + b64_val r div 4);
          c = char_of (b64_val r mod 4 * 64 + b64_val s)
      in if r = CHR ''='' then [a] else if s = CHR ''='' then [a, b]
         else a # b # c # b64_decode rest)"
| "b64_decode _ = []"

section \<open>Credentials\<close>

datatype 'k private_key = RSAKey 'k | OtherKey

record ('k, 'r) crypto =
  ReadFile :: "string \<Rightarrow> goerror + string"
  pemDecode :: "string \<Rightarrow> string option"             \<comment> \<open>the block's bytes, None for a nil block\<close>
  parsePKCS8 :: "string \<Rightarrow> goerror + 'k private_key"
  parsePKCS1 :: "string \<Rightarrow> goerror + 'k"
  Sum256 :: "string \<Rightarrow> string"
  SignPSS :: "'r \<Rightarrow> 'k \<Rightarrow> string \<Rightarrow> goerror + string"  \<comment> \<open>random source, key, digest\<close>
  cryptoRand :: 'r                                    \<comment> \<open>crypto/rand.Reader\<close>

record ('k, 'r) Credentials =
  KeyID :: string
  PrivateKey :: 'k
  Rand :: "'r option"

definition randReader :: "('k, 'r) crypto \<Rightarrow> ('k, 'r) Credentials \<Rightarrow> 'r" where
  "randReader w c = (case Rand c of Some r \<Rightarrow> r | None \<Rightarrow> cryptoRand w)"

definition NewCredentials ::
  "('k, 'r) crypto \<Rightarrow> string \<Rightarrow> 'k \<Rightarrow> ('k, 'r) Credentials" where
  "NewCredentials w keyID key = \<lparr>KeyID = keyID, PrivateKey = key, Rand = Some (cryptoRand w)\<rparr>"

text \<open>The text printed with \<open>%w\<close> and \<open>%v\<close> in the middle of a message is kept as two
  pieces: the wrapped error is the one \<open>Unwrap\<close> returns, the rest is in the prefix.\<close>

definition parse_key_error :: "string \<Rightarrow> string \<Rightarrow> goerror \<Rightarrow> goerror \<Rightarrow> goerror" where
  "parse_key_error op what err pkcs1Err =
     EAuthError op (WrapError (''failed to parse private key from '' @ what
       @ '' (also tried PKCS1: '' @ Error pkcs1Err @ '')'') err)"

definition LoadCredentials ::
  "('k, 'r) crypto \<Rightarrow> string \<Rightarrow> string \<Rightarrow> goerror + ('k, 'r) Credentials" where
  "LoadCredentials w keyID privateKeyPath =
     (case ReadFile w privateKeyPath of
        Inl err \<Rightarrow> Inl (EAuthError ''load_credentials''
                     (WrapError (''failed to read private key file '' @ privateKeyPath) err))
      | Inr pemData \<Rightarrow>
     (case pemDecode w pemData of
        None \<Rightarrow> Inl (EAuthError ''load_credentials''
                  (ErrorString (''failed to decode PEM block from '' @ privateKeyPath)))
      | Some block \<Rightarrow>
     (case (case parsePKCS8 w block of
              Inl err \<Rightarrow>
                (case parsePKCS1 w block of
                   Inl pkcs1Err \<Rightarrow> Inl (parse_key_error ''load_credentials'' privateKeyPath err pkcs1Err)
                 | Inr pkcs1Key \<Rightarrow> Inr (RSAKey pkcs1Key))
            | Inr key \<Rightarrow> Inr key) of
        Inl e \<Rightarrow> Inl e
      | Inr OtherKey \<Rightarrow> Inl (EAuthError ''load_credentials''
                          (ErrorString (''private key in '' @ privateKeyPath @ '' is not RSA'')))
      | Inr (RSAKey k) \<Rightarrow>
          Inr \<lparr>KeyID = keyID, PrivateKey = k, Rand = Some (cryptoRand w)\<rparr>)))"

definition LoadCredentialsFromPEM ::
  "('k, 'r) crypto \<Rightarrow> string \<Rightarrow> string \<Rightarrow> goerror + ('k, 'r) Credentials" where
  "LoadCredentialsFromPEM w keyID pemString =
     (case pemDecode w pemString of
        None \<Rightarrow> Inl (EAuthError ''load_credentials_pem''
                  (ErrorString ''failed to decode PEM block from string''))
      | Some block \<Rightarrow>
     (case (case parsePKCS8 w block of
              Inl err \<Rightarrow>
                (case parsePKCS1 w block of
                   Inl pkcs1Err \<Rightarrow> Inl (parse_key_error ''load_credentials_pem'' ''PEM string'' err pkcs1Err)
                 | Inr pkcs1Key \<Rightarrow> Inr (RSAKey pkcs1Key))
            | Inr key \<Rightarrow> Inr key) of
        Inl e \<Rightarrow> Inl e
      | Inr OtherKey \<Rightarrow> Inl (EAuthError ''load_credentials_pem''
                          (ErrorString ''PEM string does not contain an RSA private key''))
      | Inr (RSAKey k) \<Rightarrow>
          Inr \<lparr>KeyID = keyID, PrivateKey = k, Rand = Some (cryptoRand w)\<rparr>))"

section \<open>Signing\<close>

definition SignPSSText ::
  "('k, 'r) crypto \<Rightarrow> ('k, 'r) Credentials \<Rightarrow> string \<Rightarrow> goerror + string" where
  "SignPSSText w c text =
     (case SignPSS w (randReader w c) (PrivateKey c) (Sum256 w text) of
        Inl err \<Rightarrow> Inl (EAuthError ''sign'' (WrapError ''RSA-PSS sign failed'' err))
      | Inr signature \<Rightarrow> Inr (b64_encode signature))"

text \<open>\<open>unixMilli\<close> is \<open>time.Now().UnixMilli()\<close>.\<close>

definition RequestHeaders ::
  "('k, 'r) crypto \<Rightarrow> goint \<Rightarrow> ('k, 'r) Credentials \<Rightarrow> string \<Rightarrow> string \<Rightarrow> goerror + string smap" where
  "RequestHeaders w unixMilli c method path =
     (let timestampMs = Itoa unixMilli;
          pathOnly = before_char (CHR ''?'') path;
          msgString = timestampMs @ method @ pathOnly
      in case SignPSSText w c msgString of
           Inl err \<Rightarrow> Inl (EAuthError ''request_headers'' (WrapError ''failed to sign request'' err))
         | Inr signature \<Rightarrow>
             Inr [(''Content-Type'', ''application/json''),
                  (''KALSHI-ACCESS-KEY'', KeyID c),
                  (''KALSHI-ACCESS-SIGNATURE'', signature),
                  (''KALSHI-ACCESS-TIMESTAMP'', timestampMs)])"

section \<open>Facts\<close>

lemma b64_char_code:
  "n < 64 \<Longrightarrow> of_char (b64_char n) = (if n < 26 then 65 + n else if n < 52 then 71 + n
     else if n < 62 then n - 4 else if n = 62 then 43 else 47 :: nat)"
  by (auto simp: b64_char_def)

lemma b64_val_char [simp]: "n < 64 \<Longrightarrow> b64_val (b64_char n) = n"
  by (auto simp: b64_val_def Let_def b64_char_code) (auto simp: b64_char_def split: if_splits)

lemma b64_char_not_pad [simp]: "n < 64 \<Longrightarrow> b64_char n \<noteq> CHR ''=''"
proof
  assume "n < 64" "b64_char n = CHR ''=''"
  then have "of_char (b64_char n) = (61::nat)" by simp
  with \<open>n < 64\<close> show False by (simp add: b64_char_code split: if_splits)
qed

lemma byte_lt [simp]: "(of_char (c :: char) :: nat) < 256"
  by simp

lemma b64_pieces:
  fixes x y z :: nat
  assumes "x < 256" "y < 256"
  shows "x div 4 < 64" "x mod 4 * 16 + y div 16 < 64" "y mod 16 * 4 + x div 64 < 64"
    "x mod 64 < 64" "x mod 4 * 16 < 64" "y mod 16 * 4 < 64"
proof -
  have "x mod 4 < 4" "y mod 16 < 16" "x mod 64 < 64" by simp_all
  moreover have "x div 4 < 64" "y div 16 < 16" "x div 64 < 4" using assms by (simp_all add: less_mult_imp_div_less)
  ultimately show "x div 4 < 64" "x mod 4 * 16 + y div 16 < 64" "y mod 16 * 4 + x div 64 < 64"
    "x mod 64 < 64" "x mod 4 * 16 < 64" "y mod 16 * 4 < 64" by linarith+
qed

lemma split_digits:
  fixes k r d :: nat
  assumes "r < d"
  shows "(k * d + r) div d = k" "(k * d + r) mod d = r" "k * d div d = k" "k * d mod d = 0"
  using assms by simp_all

lemma b64_bytes:
  fixes x y z :: nat
  assumes "x < 256" "y < 256" "z < 256"
  shows "x div 4 * 4 + (x mod 4 * 16 + y div 16) div 16 = x"
    and "(x mod 4 * 16 + y div 16) mod 16 * 16 + (y mod 16 * 4 + z div 64) div 4 = y"
    and "(y mod 16 * 4 + z div 64) mod 4 * 64 + z mod 64 = z"
    and "x div 4 * 4 + (x mod 4 * 16) div 16 = x"
    and "(x mod 4 * 16 + y div 16) mod 16 * 16 + (y mod 16 * 4) div 4 = y"
proof -
  have "y div 16 < 16" "z div 64 < 4" using assms by (simp_all add: less_mult_imp_div_less)
  note d = split_digits [OF this(1)] split_digits [OF this(2)]
  show "x div 4 * 4 + (x mod 4 * 16 + y div 16) div 16 = x"
    "(x mod 4 * 16 + y div 16) mod 16 * 16 + (y mod 16 * 4 + z div 64) div 4 = y"
    "(y mod 16 * 4 + z div 64) mod 4 * 64 + z mod 64 = z"
    "x div 4 * 4 + (x mod 4 * 16) div 16 = x"
    "(x mod 4 * 16 + y div 16) mod 16 * 16 + (y mod 16 * 4) div 4 = y"
    by (simp_all only: d div_mult_mod_eq)
qed

lemma b64_decode_encode: "b64_decode (b64_encode s) = s"
proof (induction s rule: b64_encode.induct)
  case (2 a)
  let ?x = "of_char a :: nat"
  show ?case
    using b64_pieces [of ?x ?x] b64_bytes [of ?x ?x ?x] by (simp add: Let_def)
next
  case (3 a b)
  let ?x = "of_char a :: nat" and ?y = "of_char b :: nat"
  show ?case
    using b64_pieces [of ?x ?y] b64_pieces [of ?y ?y] b64_bytes [of ?x ?y ?y] by (simp add: Let_def)
next
  case (4 a b c cs)
  let ?x = "of_char a :: nat" and ?y = "of_char b :: nat" and ?z = "of_char c :: nat"
  show ?case
    using 4 b64_pieces [of ?x ?y] b64_pieces [of ?z ?y] b64_bytes [of ?x ?y ?z] by (simp add: Let_def)
qed simp

section \<open>The claims\<close>

text \<open>A key pair for the witnesses: keys are strings, a signature is the key and the digest.\<close>

definition toy_crypto :: "(string, unit) crypto" where
  "toy_crypto =
     \<lparr>ReadFile = (\<lambda>p. if p = ''key.pem'' then Inr ''PEM k1'' else Inl (ErrorString ''no such file'')),
      pemDecode = (\<lambda>s. if HasPrefix s ''PEM '' then Some (drop 4 s) else None),
      parsePKCS8 = (\<lambda>s. Inl (ErrorString ''pkcs8'')), parsePKCS1 = Inr, Sum256 = rev,
      SignPSS = (\<lambda>r k d. if k = [] then Inl (ErrorString ''empty key'') else Inr (k @ d)),
      cryptoRand = ()\<rparr>"

text \<open>What a request's headers prove to the server. When headers are produced, the
  timestamp header is the decimal clock reading, the key header the key's id, and the signature
  header the standard base64 of a signature that verifies, under the credential's key, the
  digest of timestamp, method and the path without its query string.\<close>

theorem RequestHeaders_signature:
  assumes sound: "\<And>r k d s. SignPSS w r k d = Inr s \<Longrightarrow> verify k d s"
    and ok: "RequestHeaders w now c method path = Inr h"
  shows "distinct_keys h \<and> map_of h ''KALSHI-ACCESS-KEY'' = Some (KeyID c)
    \<and> (\<exists>ts sig. map_of h ''KALSHI-ACCESS-TIMESTAMP'' = Some ts \<and> parse_int ts = Some now
        \<and> map_of h ''KALSHI-ACCESS-SIGNATURE'' = Some sig
        \<and> verify (PrivateKey c) (Sum256 w (ts @ method @ before_char (CHR ''?'') path)) (b64_decode sig))"
proof -
  let ?ts = "Itoa now"
  let ?d = "Sum256 w (?ts @ method @ before_char (CHR ''?'') path)"
  obtain s where s: "SignPSS w (randReader w c) (PrivateKey c) ?d = Inr s"
    and h: "h = [(''Content-Type'', ''application/json''), (''KALSHI-ACCESS-KEY'', KeyID c),
                 (''KALSHI-ACCESS-SIGNATURE'', b64_encode s), (''KALSHI-ACCESS-TIMESTAMP'', ?ts)]"
    using ok by (auto simp: RequestHeaders_def SignPSSText_def Let_def split: sum.splits)
  have "verify (PrivateKey c) ?d (b64_decode (b64_encode s))"
    using sound [OF s] by (simp add: b64_decode_encode)
  then show ?thesis by (simp add: h distinct_keys_def parse_int_Itoa)
qed

lemma RequestHeaders_signature_witness:
  "\<exists>h. RequestHeaders toy_crypto 1700 \<lparr>KeyID = ''id'', PrivateKey = ''k'', Rand = None\<rparr> ''GET'' ''/p?x=1'' = Inr h
     \<and> (\<exists>ts sig. map_of h ''KALSHI-ACCESS-TIMESTAMP'' = Some ts \<and> parse_int ts = Some 1700
        \<and> map_of h ''KALSHI-ACCESS-SIGNATURE'' = Some sig
        \<and> b64_decode sig = ''k'' @ rev (ts @ ''GET'' @ ''/p''))"
proof -
  let ?c = "\<lparr>KeyID = ''id'', PrivateKey = ''k'', Rand = None\<rparr> :: (string, unit) Credentials"
  obtain h where h: "RequestHeaders toy_crypto 1700 ?c ''GET'' ''/p?x=1'' = Inr h"
    by (simp add: RequestHeaders_def SignPSSText_def toy_crypto_def Let_def)
  have "\<And>r k d s. SignPSS toy_crypto r k d = Inr s \<Longrightarrow> s = k @ d"
    by (simp add: toy_crypto_def split: if_splits)
  from RequestHeaders_signature [of toy_crypto "\<lambda>k d s. s = k @ d", OF this h] h show ?thesis
    by (auto simp: toy_crypto_def before_char_def)
qed

text \<open>A key file gives credentials exactly when it can be read, holds a PEM block, and
  that block parses to an RSA key as PKCS#8 or, only if PKCS#8 parsing fails, as PKCS#1. Every
  other outcome is an \<open>AuthError\<close> of operation load_credentials.\<close>

theorem LoadCredentials_iff:
  "(LoadCredentials w keyID file = Inr c \<longleftrightarrow>
      (\<exists>pem block k. ReadFile w file = Inr pem \<and> pemDecode w pem = Some block
         \<and> (parsePKCS8 w block = Inr (RSAKey k)
             \<or> (\<exists>e. parsePKCS8 w block = Inl e) \<and> parsePKCS1 w block = Inr k)
         \<and> c = \<lparr>KeyID = keyID, PrivateKey = k, Rand = Some (cryptoRand w)\<rparr>))
   \<and> (\<forall>err. LoadCredentials w keyID file = Inl err \<longrightarrow>
        map_option fst (as_AuthError err) = Some ''load_credentials'')"
  by (auto simp: LoadCredentials_def parse_key_error_def split: sum.splits option.splits private_key.splits)

lemma LoadCredentials_iff_witness:
  "LoadCredentials toy_crypto ''id'' ''key.pem''
     = Inr \<lparr>KeyID = ''id'', PrivateKey = ''k1'', Rand = Some ()\<rparr>"
  using LoadCredentials_iff [of toy_crypto "''id''" "''key.pem''"
      "\<lparr>KeyID = ''id'', PrivateKey = ''k1'', Rand = Some ()\<rparr>"]
  by (simp add: toy_crypto_def HasPrefix_def)

end
