(* ===== verification/Config.thy ===== *)
theory Config
  imports Auth
begin

text \<open>
  \<open>config.go\<close>: the environment to connect to and the configuration read from environment
  variables. \<open>os.Getenv\<close> is an argument: a function from names to values, empty when unset.
\<close>

type_synonym environment = goint

definition Demo :: environment where "Demo = 0"
definition Prod :: environment where "Prod = 1"

definition Environment_String :: "environment \<Rightarrow> string" where
  "Environment_String e = (if e = Demo then ''demo'' else if e = Prod then ''prod'' else ''unknown'')"

definition demoHTTPBase :: string where "demoHTTPBase = ''https://external-api.demo.kalshi.co''"
definition demoWSBase :: string where "demoWSBase = ''wss://external-api-ws.demo.kalshi.co''"
definition prodHTTPBase :: string where "prodHTTPBase = ''https://external-api.kalshi.com''"
definition prodWSBase :: string where "prodWSBase = ''wss://external-api-ws.kalshi.com''"

definition httpBaseForEnv :: "environment \<Rightarrow> string" where
  "httpBaseForEnv env = (if env = Prod then prodHTTPBase else if env = Demo then demoHTTPBase else [])"

record ('k, 'r) ClientConfig =
  cfg_Environment :: environment
  cfg_Credentials :: "('k, 'r) Credentials"
  cfg_HTTPBaseURL :: string
  cfg_WSBaseURL :: string

text \<open>The text \<open>%q\<close> prints is not modelled: the message holds the value unquoted.\<close>

definition parse_environment :: "string \<Rightarrow> goerror + environment" where
  "parse_environment raw =
     (let envStr = ToUpper raw in
      if envStr = ''PROD'' then Inr Prod
      else if envStr = ''DEMO'' \<or> envStr = [] then Inr Demo
      else Inl (ErrorString (''invalid KALSHI_ENVIRONMENT: '' @ Quote envStr @ '' (expected DEMO or PROD)'')))"

text \<open>The second switch: key id variable, key file variable, HTTP and WebSocket bases.\<close>

definition env_settings :: "environment \<Rightarrow> string \<times> string \<times> string \<times> string" where
  "env_settings env =
     (if env = Demo then (''KALSHI_DEMO_API_KEY_ID'', ''KALSHI_DEMO_PRIVATE_KEY_FILE'', demoHTTPBase, demoWSBase)
      else if env = Prod then (''KALSHI_PROD_API_KEY_ID'', ''KALSHI_PROD_PRIVATE_KEY_FILE'', prodHTTPBase, prodWSBase)
      else ([], [], [], []))"

definition NewClientConfig ::
  "('k, 'r) crypto \<Rightarrow> (string \<Rightarrow> string) \<Rightarrow> goerror + ('k, 'r) ClientConfig" where
  "NewClientConfig w getenv =
     (case parse_environment (getenv ''KALSHI_ENVIRONMENT'') of
        Inl e \<Rightarrow> Inl e
      | Inr env \<Rightarrow>
     (case env_settings env of (keyIDVar, keyFileVar, httpBase, wsBase) \<Rightarrow>
        let keyID = getenv keyIDVar; keyFile = getenv keyFileVar in
        if keyID = [] then Inl (ErrorString (''missing environment variable: '' @ keyIDVar))
        else if keyFile = [] then Inl (ErrorString (''missing environment variable: '' @ keyFileVar))
        else case LoadCredentials w keyID keyFile of
          Inl err \<Rightarrow> Inl (WrapError ''failed to load credentials'' err)
        | Inr creds \<Rightarrow>
            let httpBase = (if getenv ''KALSHI_HTTP_BASE_URL'' \<noteq> [] then getenv ''KALSHI_HTTP_BASE_URL'' else httpBase);
                wsBase = (if getenv ''KALSHI_WS_BASE_URL'' \<noteq> [] then getenv ''KALSHI_WS_BASE_URL'' else wsBase)
            in Inr \<lparr>cfg_Environment = env, cfg_Credentials = creds, cfg_HTTPBaseURL = httpBase,
                    cfg_WSBaseURL = wsBase\<rparr>))"

section \<open>Facts\<close>

text \<open>The variables a configuration for an environment is read from.\<close>

definition vars_of :: "environment \<Rightarrow> string list" where
  "vars_of env = (case env_settings env of (k, f, _) \<Rightarrow>
     [''KALSHI_ENVIRONMENT'', ''KALSHI_HTTP_BASE_URL'', ''KALSHI_WS_BASE_URL'', k, f])"

lemma parse_environment_cases:
  "parse_environment s = Inr e \<Longrightarrow> e = Demo \<or> e = Prod"
  by (simp add: parse_environment_def Let_def split: if_splits)

section \<open>The claims\<close>

text \<open>The environments do not mix: the configuration (or the error) depends only on the
  selected environment's own two key variables, the selector and the two URL overrides. In
  particular no DEMO key is ever paired with PROD hosts, or the other way round.\<close>

lemma NewClientConfig_isolated:
  assumes "parse_environment (getenv ''KALSHI_ENVIRONMENT'') = Inr env"
    and "\<forall>x\<in>set (vars_of env). getenv' x = getenv x"
  shows "NewClientConfig w getenv' = NewClientConfig w getenv"
proof -
  obtain k f h ws where e: "env_settings env = (k, f, h, ws)" by (cases "env_settings env")
  have same: "getenv' ''KALSHI_ENVIRONMENT'' = getenv ''KALSHI_ENVIRONMENT''"
    "getenv' ''KALSHI_HTTP_BASE_URL'' = getenv ''KALSHI_HTTP_BASE_URL''"
    "getenv' ''KALSHI_WS_BASE_URL'' = getenv ''KALSHI_WS_BASE_URL''"
    "getenv' k = getenv k" "getenv' f = getenv f"
    using assms(2) by (simp_all add: vars_of_def e)
  show ?thesis
    by (simp only: NewClientConfig_def same(1) assms(1) sum.case e prod.case Let_def same)
qed

definition prod_env :: "string \<Rightarrow> string" where
  "prod_env x = (if x = ''KALSHI_ENVIRONMENT'' then ''prod''
     else if x = ''KALSHI_PROD_API_KEY_ID'' then ''id''
     else if x = ''KALSHI_PROD_PRIVATE_KEY_FILE'' then ''key.pem'' else [])"

lemma ToUpper_prod: "ToUpper ''prod'' = ''PROD''"
  by code_simp

lemma NewClientConfig_isolated_witness:
  "NewClientConfig toy_crypto (prod_env(''KALSHI_DEMO_API_KEY_ID'' := ''other''))
     = NewClientConfig toy_crypto prod_env"
  by (rule NewClientConfig_isolated [of _ Prod])
    (simp_all add: parse_environment_def prod_env_def ToUpper_prod vars_of_def env_settings_def
      Demo_def Prod_def)

text \<open>A configuration is returned exactly when the selector is (in any letter case) PROD,
  DEMO or empty, the environment's key id and key file are set, and the key loads; it then
  names that environment, carries those credentials, and points at the environment's hosts
  unless a non-empty override replaces them.\<close>

lemma NewClientConfig_iff:
  "NewClientConfig w getenv = Inr c \<longleftrightarrow>
     (\<exists>env keyIDVar keyFileVar httpBase wsBase creds.
        parse_environment (getenv ''KALSHI_ENVIRONMENT'') = Inr env
        \<and> env_settings env = (keyIDVar, keyFileVar, httpBase, wsBase)
        \<and> getenv keyIDVar \<noteq> [] \<and> getenv keyFileVar \<noteq> []
        \<and> LoadCredentials w (getenv keyIDVar) (getenv keyFileVar) = Inr creds
        \<and> c = \<lparr>cfg_Environment = env, cfg_Credentials = creds,
               cfg_HTTPBaseURL = (if getenv ''KALSHI_HTTP_BASE_URL'' \<noteq> [] then getenv ''KALSHI_HTTP_BASE_URL''
                                  else httpBase),
               cfg_WSBaseURL = (if getenv ''KALSHI_WS_BASE_URL'' \<noteq> [] then getenv ''KALSHI_WS_BASE_URL''
                                else wsBase)\<rparr>)"
  by (auto simp: NewClientConfig_def Let_def split: sum.splits prod.splits if_splits)

end
