(* ===== verification/ApiPaths.thy ===== *)
theory ApiPaths
  imports GoStrings
begin

text \<open>
  \<open>paths.go\<close>: the path prefixes the endpoint methods build their URLs from.
\<close>

definition pathAccount :: string where
  "pathAccount = ''/trade-api/v2/account''"

definition pathAPIKeys :: string where
  "pathAPIKeys = ''/trade-api/v2/api_keys''"

definition pathCommunications :: string where
  "pathCommunications = ''/trade-api/v2/communications''"

definition pathEvents :: string where
  "pathEvents = ''/trade-api/v2/events''"

definition pathExchange :: string where
  "pathExchange = ''/trade-api/v2/exchange''"

definition pathFCM :: string where
  "pathFCM = ''/trade-api/v2/fcm''"

definition pathHistorical :: string where
  "pathHistorical = ''/trade-api/v2/historical''"

definition pathIncentivePrograms :: string where
  "pathIncentivePrograms = ''/trade-api/v2/incentive_programs''"

definition pathLiveData :: string where
  "pathLiveData = ''/trade-api/v2/live_data''"

definition pathMarkets :: string where
  "pathMarkets = ''/trade-api/v2/markets''"

definition pathMilestones :: string where
  "pathMilestones = ''/trade-api/v2/milestones''"

definition pathMVECollections :: string where
  "pathMVECollections = ''/trade-api/v2/multivariate_event_collections''"

definition pathPortfolio :: string where
  "pathPortfolio = ''/trade-api/v2/portfolio''"

definition pathSearch :: string where
  "pathSearch = ''/trade-api/v2/search''"

definition pathSeries :: string where
  "pathSeries = ''/trade-api/v2/series''"

definition pathStructuredTargets :: string where
  "pathStructuredTargets = ''/trade-api/v2/structured_targets''"

definition pathOrders :: string where
  "pathOrders = pathPortfolio @ ''/orders''"

definition pathEventOrders :: string where
  "pathEventOrders = pathPortfolio @ ''/events/orders''"

definition pathOrderGroups :: string where
  "pathOrderGroups = pathPortfolio @ ''/order_groups''"

definition pathSubaccounts :: string where
  "pathSubaccounts = pathPortfolio @ ''/subaccounts''"

definition pathTargetBalanceAllocation :: string where
  "pathTargetBalanceAllocation = pathPortfolio @ ''/target_balance_allocation''"

definition pathIntraExchangeTransfer :: string where
  "pathIntraExchangeTransfer = pathPortfolio @ ''/intra_exchange_instance_transfer''"

definition pathIntraExchangeTransfers :: string where
  "pathIntraExchangeTransfers = pathPortfolio @ ''/intra_exchange_instance_transfers''"

definition pathBlockTradeProposals :: string where
  "pathBlockTradeProposals = pathCommunications @ ''/block-trade-proposals''"

lemmas path_defs =
  pathAccount_def
  pathAPIKeys_def
  pathCommunications_def
  pathEvents_def
  pathExchange_def
  pathFCM_def
  pathHistorical_def
  pathIncentivePrograms_def
  pathLiveData_def
  pathMarkets_def
  pathMilestones_def
  pathMVECollections_def
  pathPortfolio_def
  pathSearch_def
  pathSeries_def
  pathStructuredTargets_def
  pathOrders_def
  pathEventOrders_def
  pathOrderGroups_def
  pathSubaccounts_def
  pathTargetBalanceAllocation_def
  pathIntraExchangeTransfer_def
  pathIntraExchangeTransfers_def
  pathBlockTradeProposals_def

end
