(* ===== verification/HttpClient.thy ===== *)
theory HttpClient
  imports RateLimit EndpointCost Query Config ApiPaths
begin

text \<open>
  \<open>client.go\<close>: the HTTP client. The network is an input: a call is given the passes of the
  rate limiter's loop and one \<open>attempt\<close> per round trip, each saying what the clock, the
  transport and the context answered. A call returns its result and the requests it sent. A
  list that ends before the call does leaves it pending. \<open>http.NewRequestWithContext\<close>'s check
  of method and URL is an argument; the mutex of the client is not modelled, since every
  section it guards is one definition here.
\<close>

section \<open>The client\<close>

record ('k, 'r) Client =
  httpClient :: nat               \<comment> \<open>handle of the http.Client; 0 is the default one\<close>
  baseURL :: string
  credentials :: "('k, 'r) Credentials"
  maxRetries :: goint
  baseDelay :: duration
  skipAutoConfig :: bool
  limiter :: bucket
  costRoutes :: "costRoute list option"  \<comment> \<open>None is the nil slice\<close>
  defaultCost :: gofloat

type_synonym ('k, 'r) ClientOption = "('k, 'r) Client \<Rightarrow> ('k, 'r) Client"

definition WithHTTPClient :: "nat \<Rightarrow> ('k, 'r) ClientOption" where
  "WithHTTPClient h cl = cl\<lparr>httpClient := h\<rparr>"

definition WithMaxRetries :: "goint \<Rightarrow> ('k, 'r) ClientOption" where
  "WithMaxRetries n cl = cl\<lparr>maxRetries := n\<rparr>"

definition WithBaseDelay :: "duration \<Rightarrow> ('k, 'r) ClientOption" where
  "WithBaseDelay d cl = cl\<lparr>baseDelay := d\<rparr>"

definition WithRateLimiter :: "bucket \<Rightarrow> ('k, 'r) ClientOption" where
  "WithRateLimiter l cl = cl\<lparr>limiter := l, skipAutoConfig := True\<rparr>"

record ('k, 'r) http_env =
  he_crypto :: "('k, 'r) crypto"
  he_newreq :: "string \<Rightarrow> string \<Rightarrow> goerror option"  \<comment> \<open>error of NewRequest for method, URL\<close>

section \<open>Costs of a request\<close>

definition client_lookupCost :: "('k, 'r) Client \<Rightarrow> string \<Rightarrow> string \<Rightarrow> gofloat option" where
  "client_lookupCost c method path =
     (case costRoutes c of None \<Rightarrow> None | Some rs \<Rightarrow> lookupCost rs method path)"

definition resolveCosts ::
  "('k, 'r) Client \<Rightarrow> string \<Rightarrow> string \<Rightarrow> gofloat \<Rightarrow> gofloat \<Rightarrow> goint \<Rightarrow> gofloat \<times> gofloat" where
  "resolveCosts c method path readCost writeCost units =
     (let u = f64 (of_int (if units < 1 then 1 else units)) in
      if costRoutes c = None then (fmul readCost u, fmul writeCost u)
      else
        let m = client_lookupCost c method path in
        if m = None \<and> defaultCost c \<le> 0 then (fmul readCost u, fmul writeCost u)
        else
          let unit = (case m of Some x \<Rightarrow> x | None \<Rightarrow> defaultCost c);
              total = fmul unit u
          in if method = ''GET'' then (total, 0) else (0, total))"

section \<open>Building a request\<close>

text \<open>The list order of \<open>params\<close> is the iteration order of the Go map in the run at hand.\<close>

definition url_values :: "string smap \<Rightarrow> string smap" where
  "url_values params =
     foldl (\<lambda>q (k, v). if v \<noteq> [] then AList.update k v q else q) [] params"

definition buildURL :: "string \<Rightarrow> string \<Rightarrow> string smap \<Rightarrow> string" where
  "buildURL base path params =
     (let fullURL = base @ path in
      if length params > 0 then fullURL @ ''?'' @ values_encode (url_values params) else fullURL)"

text \<open>\<open>http.Header.Set\<close> stores under the canonical form of the key.\<close>

fun canon_key :: "bool \<Rightarrow> string \<Rightarrow> string" where
  "canon_key up [] = []"
| "canon_key up (c # cs) =
     (if up then upper_char c else lower_char c) # canon_key (c = CHR ''-'') cs"

definition Header_Set :: "string \<Rightarrow> string \<Rightarrow> string smap \<Rightarrow> string smap" where
  "Header_Set k v h = AList.update (canon_key True k) v h"

record http_request =
  rq_method :: string
  rq_url :: string
  rq_body :: "string option"
  rq_headers :: "string smap"

definition buildAuthRequest ::
  "('k, 'r) http_env \<Rightarrow> goint \<Rightarrow> ('k, 'r) Client \<Rightarrow> string \<Rightarrow> string \<Rightarrow> string \<Rightarrow> string option
     \<Rightarrow> goerror + http_request" where
  "buildAuthRequest env unixMilli c method path fullURL bodyBytes =
     (case he_newreq env method fullURL of
        Some err \<Rightarrow> Inl (WrapError ''build request'' err)
      | None \<Rightarrow>
     (case RequestHeaders (he_crypto env) unixMilli (credentials c) method path of
        Inl err \<Rightarrow> Inl (WrapError ''generate auth headers'' err)
      | Inr headers \<Rightarrow>
          let h = foldl (\<lambda>h (k, v). Header_Set k v h) [] headers;
              h' = (if bodyBytes \<noteq> None then Header_Set ''Content-Type'' ''application/json'' h else h)
          in Inr \<lparr>rq_method = method, rq_url = fullURL, rq_body = bodyBytes, rq_headers = h'\<rparr>))"

section \<open>Sending it\<close>

datatype http_outcome =
    DoFailed goerror              \<comment> \<open>httpClient.Do returned an error\<close>
  | ReadFailed goint goerror      \<comment> \<open>status received, reading the body failed\<close>
  | Responded goint string        \<comment> \<open>status, body\<close>

record attempt =
  at_unixMilli :: goint           \<comment> \<open>the clock when the request is signed\<close>
  at_outcome :: http_outcome
  at_done :: "goerror option"     \<comment> \<open>ctx.Err() if the backoff's select took ctx.Done()\<close>

definition executeRequest :: "http_outcome \<Rightarrow> goerror + (string \<times> goint)" where
  "executeRequest out = (case out of
      DoFailed err \<Rightarrow> Inl err
    | ReadFailed status err \<Rightarrow> Inl (WrapError ''read response body'' err)
    | Responded status body \<Rightarrow> Inr (body, status))"

definition retryWait :: "('k, 'r) Client \<Rightarrow> goint \<Rightarrow> duration" where
  "retryWait c retries =
     (let shift = (if retries > 30 then 30 else retries)
      in baseDelay c * push_bit (nat shift) 1)"

definition handleRetry ::
  "('k, 'r) Client \<Rightarrow> string \<Rightarrow> string \<Rightarrow> goint \<Rightarrow> goerror option \<Rightarrow> goerror + bool" where
  "handleRetry c method path retries ctxDone =
     (if retries \<ge> maxRetries c
      then Inl (ERateLimitError \<lparr>rl_Method = method, rl_Path = path, rl_Retries = retries\<rparr>)
      else case ctxDone of
        Some err \<Rightarrow> Inl (WrapError ''retry cancelled'' err)
      | None \<Rightarrow> Inr True)"

text \<open>A request body: a value \<open>json.Marshal\<close> accepts, or one it rejects.\<close>

datatype gobody = JsonBody json | BadBody goerror

definition Marshal :: "gobody \<Rightarrow> goerror + string" where
  "Marshal b = (case b of JsonBody j \<Rightarrow> Inr (json_print j) | BadBody e \<Rightarrow> Inl e)"

datatype 'a outcome = Returned "goerror + 'a" | Pending

text \<open>What follows a response that is not retried.\<close>

definition finish_response :: "string \<Rightarrow> string \<Rightarrow> string \<Rightarrow> goint \<Rightarrow> goerror + string" where
  "finish_response method path respBody statusCode =
     (if statusCode \<ge> 400 then Inl (EAPIError (newAPIError statusCode method path respBody))
      else Inr respBody)"

fun do_loop ::
  "('k, 'r) http_env \<Rightarrow> ('k, 'r) Client \<Rightarrow> string \<Rightarrow> string \<Rightarrow> string \<Rightarrow> string option \<Rightarrow> goint
     \<Rightarrow> attempt list \<Rightarrow> string outcome \<times> http_request list" where
  "do_loop env c method path fullURL bodyBytes retries [] = (Pending, [])"
| "do_loop env c method path fullURL bodyBytes retries (a # as) =
     (case buildAuthRequest env (at_unixMilli a) c method path fullURL bodyBytes of
        Inl err \<Rightarrow> (Returned (Inl err), [])
      | Inr req \<Rightarrow>
     (case executeRequest (at_outcome a) of
        Inl err \<Rightarrow> (Returned (Inl (WrapError (''HTTP '' @ method @ '' '' @ path) err)), [req])
      | Inr (respBody, statusCode) \<Rightarrow>
          if statusCode = 429 then
            (case handleRetry c method path retries (at_done a) of
               Inl err \<Rightarrow> (Returned (Inl err), [req])
             | Inr retried \<Rightarrow>
                 if retried then
                   (case do_loop env c method path fullURL bodyBytes (retries + 1) as of
                      (res, reqs) \<Rightarrow> (res, req # reqs))
                 else (Returned (finish_response method path respBody statusCode), [req]))
          else (Returned (finish_response method path respBody statusCode), [req])))"

text \<open>The inputs of one call: the limiter's rounds and the round trips.\<close>

record http_run =
  hr_rounds :: "acq_round list"
  hr_attempts :: "attempt list"

text \<open>\<open>Client.do\<close>; the client it returns is the one with the tokens taken.\<close>

definition do_request ::
  "('k, 'r) http_env \<Rightarrow> http_run \<Rightarrow> ('k, 'r) Client \<Rightarrow> string \<Rightarrow> string \<Rightarrow> gofloat \<Rightarrow> gofloat \<Rightarrow> goint
     \<Rightarrow> gobody option \<Rightarrow> string smap \<Rightarrow> string outcome \<times> http_request list \<times> ('k, 'r) Client" where
  "do_request env run c method path readCost writeCost units body params =
     (case resolveCosts c method path readCost writeCost units of (readCost, writeCost) \<Rightarrow>
      case Acquire (hr_rounds run) readCost writeCost (limiter c) of (acq, b) \<Rightarrow>
        let c' = c\<lparr>limiter := b\<rparr> in
        case acq of
          AcqBlocked \<Rightarrow> (Pending, [], c')
        | AcqFailed err \<Rightarrow> (Returned (Inl (WrapError ''rate limit acquire'' err)), [], c')
        | Acquired \<Rightarrow>
            let fullURL = buildURL (baseURL c) path params in
            case (case body of None \<Rightarrow> Inr None | Some v \<Rightarrow>
                    (case Marshal v of Inl err \<Rightarrow> Inl err | Inr s \<Rightarrow> Inr (Some s))) of
              Inl err \<Rightarrow> (Returned (Inl (WrapError ''marshal request body'' err)), [], c')
            | Inr bodyBytes \<Rightarrow>
                case do_loop env c method path fullURL bodyBytes 0 (hr_attempts run) of
                  (res, reqs) \<Rightarrow> (res, reqs, c'))"

text \<open>
  \<open>doJSON\<close>, with the decoder of the result type and its zero value. A result that comes with
  an error is dropped here: callers get the error.
\<close>

definition Unmarshal :: "('a \<Rightarrow> json \<Rightarrow> 'a \<times> bool) \<Rightarrow> 'a \<Rightarrow> string \<Rightarrow> goerror + 'a" where
  "Unmarshal dec zero raw = (case json_parse raw of
      None \<Rightarrow> Inl (ErrorString ''invalid JSON'')
    | Some j \<Rightarrow> (case dec zero j of (v, bad) \<Rightarrow>
        if bad then Inl (ErrorString ''cannot unmarshal value'') else Inr v))"

definition doJSON ::
  "('a \<Rightarrow> json \<Rightarrow> 'a \<times> bool) \<Rightarrow> 'a \<Rightarrow> ('k, 'r) http_env \<Rightarrow> http_run \<Rightarrow> ('k, 'r) Client \<Rightarrow> string \<Rightarrow> string
     \<Rightarrow> gofloat \<Rightarrow> gofloat \<Rightarrow> goint \<Rightarrow> gobody option \<Rightarrow> string smap
     \<Rightarrow> 'a outcome \<times> http_request list \<times> ('k, 'r) Client" where
  "doJSON dec zero env run c method path readCost writeCost units body params =
     (case do_request env run c method path readCost writeCost units body params of
        (Pending, reqs, c') \<Rightarrow> (Pending, reqs, c')
      | (Returned (Inl err), reqs, c') \<Rightarrow> (Returned (Inl err), reqs, c')
      | (Returned (Inr raw), reqs, c') \<Rightarrow>
          (Returned (res_map_err (WrapError (''unmarshal '' @ method @ '' '' @ path @ '' response''))
             (Unmarshal dec zero raw)), reqs, c'))"

section \<open>Calls by verb\<close>

text \<open>The arguments that an endpoint method hands to \<open>do\<close> or \<open>doJSON\<close>.\<close>

record api_call =
  ac_method :: string
  ac_path :: string
  ac_readCost :: gofloat
  ac_writeCost :: gofloat
  ac_units :: goint
  ac_body :: "gobody option"
  ac_params :: "string smap"

definition get_call :: "string \<Rightarrow> string smap \<Rightarrow> api_call" where
  "get_call path params =
     \<lparr>ac_method = ''GET'', ac_path = path, ac_readCost = 10, ac_writeCost = 0, ac_units = 1,
      ac_body = None, ac_params = params\<rparr>"

definition getJSON_call :: "string \<Rightarrow> string smap \<Rightarrow> api_call" where
  "getJSON_call path params =
     \<lparr>ac_method = ''GET'', ac_path = path, ac_readCost = 10, ac_writeCost = 0, ac_units = 1,
      ac_body = None, ac_params = params\<rparr>"

definition post_call :: "string \<Rightarrow> gobody option \<Rightarrow> gofloat \<Rightarrow> api_call" where
  "post_call path body writeCost =
     \<lparr>ac_method = ''POST'', ac_path = path, ac_readCost = 0, ac_writeCost = writeCost, ac_units = 1,
      ac_body = body, ac_params = []\<rparr>"

definition postJSON_call :: "string \<Rightarrow> gobody option \<Rightarrow> gofloat \<Rightarrow> api_call" where
  "postJSON_call path body writeCost =
     \<lparr>ac_method = ''POST'', ac_path = path, ac_readCost = 0, ac_writeCost = writeCost, ac_units = 1,
      ac_body = body, ac_params = []\<rparr>"

definition delete_call :: "string \<Rightarrow> gobody option \<Rightarrow> gofloat \<Rightarrow> api_call" where
  "delete_call path body writeCost =
     \<lparr>ac_method = ''DELETE'', ac_path = path, ac_readCost = 0, ac_writeCost = writeCost, ac_units = 1,
      ac_body = body, ac_params = []\<rparr>"

definition put_call :: "string \<Rightarrow> gobody option \<Rightarrow> gofloat \<Rightarrow> api_call" where
  "put_call path body writeCost =
     \<lparr>ac_method = ''PUT'', ac_path = path, ac_readCost = 0, ac_writeCost = writeCost, ac_units = 1,
      ac_body = body, ac_params = []\<rparr>"

definition do_call ::
  "('k, 'r) http_env \<Rightarrow> http_run \<Rightarrow> ('k, 'r) Client \<Rightarrow> api_call
     \<Rightarrow> string outcome \<times> http_request list \<times> ('k, 'r) Client" where
  "do_call env run c a = do_request env run c (ac_method a) (ac_path a) (ac_readCost a)
     (ac_writeCost a) (ac_units a) (ac_body a) (ac_params a)"

definition doJSON_call ::
  "('a \<Rightarrow> json \<Rightarrow> 'a \<times> bool) \<Rightarrow> 'a \<Rightarrow> ('k, 'r) http_env \<Rightarrow> http_run \<Rightarrow> ('k, 'r) Client \<Rightarrow> api_call
     \<Rightarrow> 'a outcome \<times> http_request list \<times> ('k, 'r) Client" where
  "doJSON_call dec zero env run c a = doJSON dec zero env run c (ac_method a) (ac_path a)
     (ac_readCost a) (ac_writeCost a) (ac_units a) (ac_body a) (ac_params a)"

lemmas call_defs = get_call_def getJSON_call_def post_call_def postJSON_call_def delete_call_def
  put_call_def

section \<open>The retry loop\<close>

text \<open>What is fixed over all the requests of one call.\<close>

lemma buildAuthRequest_parts:
  "buildAuthRequest env ms c method path u bb = Inr req \<Longrightarrow>
     rq_method req = method \<and> rq_url req = u \<and> rq_body req = bb"
  by (auto simp: buildAuthRequest_def Let_def split: option.splits sum.splits)

lemma do_loop_same:
  "req \<in> set (snd (do_loop env c method path u bb n as)) \<Longrightarrow>
     rq_method req = method \<and> rq_url req = u \<and> rq_body req = bb"
proof (induction as arbitrary: n)
  case (Cons a as)
  show ?case
  proof (cases "buildAuthRequest env (at_unixMilli a) c method path u bb")
    case (Inl e)
    with Cons.prems show ?thesis by simp
  next
    case (Inr q)
    have "req = q \<or> req \<in> set (snd (do_loop env c method path u bb (n + 1) as))"
      using Cons.prems Inr by (auto split: sum.splits prod.splits if_splits)
    with Cons.IH buildAuthRequest_parts [OF Inr] show ?thesis by blast
  qed
qed simp

lemma handleRetry_Inr: "handleRetry c m p n d = Inr t \<longleftrightarrow> n < maxRetries c \<and> d = None \<and> t"
  by (auto simp: handleRetry_def split: option.splits)

lemma do_loop_bound:
  "int (length (snd (do_loop env c method path u bb n as))) \<le> max 0 (maxRetries c - n) + 1"
proof (induction as arbitrary: n)
  case (Cons a as)
  show ?case
  proof (cases "buildAuthRequest env (at_unixMilli a) c method path u bb")
    case (Inl e)
    then show ?thesis by simp
  next
    case (Inr q)
    show ?thesis
    proof (cases "executeRequest (at_outcome a)")
      case (Inl e)
      with Inr show ?thesis by simp
    next
      case resp: (Inr r)
      obtain body st where r: "r = (body, st)" by (cases r)
      show ?thesis
      proof (cases "st = 429 \<and> handleRetry c method path n (at_done a) = Inr True")
        case True
        then have "n < maxRetries c" by (simp add: handleRetry_Inr)
        moreover obtain o' rs where "do_loop env c method path u bb (n + 1) as = (o', rs)" by fastforce
        ultimately show ?thesis using Cons.IH [of "n + 1"] True Inr resp r by simp
      next
        case False
        then show ?thesis using Inr resp r by (auto split: sum.splits simp: handleRetry_Inr)
      qed
    qed
  qed
qed simp

lemma do_loop_returns:
  "int (length as) > max 0 (maxRetries c - n) \<Longrightarrow> fst (do_loop env c method path u bb n as) \<noteq> Pending"
proof (induction as arbitrary: n)
  case (Cons a as)
  show ?case
  proof (cases "n < maxRetries c")
    case True
    then have "fst (do_loop env c method path u bb (n + 1) as) \<noteq> Pending"
      using Cons.prems by (intro Cons.IH) auto
    then show ?thesis by (auto split: sum.splits prod.splits)
  next
    case False
    then show ?thesis by (auto split: sum.splits prod.splits simp: handleRetry_def)
  qed
qed simp

text \<open>Passes that were retried: a 429 with the context still alive.\<close>

definition was_retried :: "attempt \<Rightarrow> bool" where
  "was_retried a \<longleftrightarrow> (\<exists>b. at_outcome a = Responded 429 b) \<and> at_done a = None"

lemma do_loop_final:
  "do_loop env c method path u bb n as = (Returned res, reqs) \<Longrightarrow>
   \<exists>pre a post. as = pre @ a # post \<and> (\<forall>x\<in>set pre. was_retried x)
     \<and> do_loop env c method path u bb (n + int (length pre)) [a] = (Returned res, drop (length pre) reqs)
     \<and> length pre \<le> length reqs"
proof (induction as arbitrary: n reqs)
  case (Cons a as)
  show ?case
  proof (cases "fst (do_loop env c method path u bb n [a]) = Pending")
    case False
    then have "do_loop env c method path u bb n (a # as) = do_loop env c method path u bb n [a]"
      by (auto split: sum.splits prod.splits if_splits)
    with Cons.prems show ?thesis by (intro exI [of _ "[]"] exI [of _ a] exI [of _ as]) simp
  next
    case True
    then obtain q b where q: "buildAuthRequest env (at_unixMilli a) c method path u bb = Inr q"
      "at_outcome a = Responded 429 b" "handleRetry c method path n (at_done a) = Inr True"
      by (auto simp: executeRequest_def split: sum.splits prod.splits if_splits http_outcome.splits)
    then have ret: "was_retried a" by (simp add: was_retried_def handleRetry_Inr)
    obtain reqs' where rest: "do_loop env c method path u bb (n + 1) as = (Returned res, reqs')"
      "reqs = q # reqs'"
      using Cons.prems q by (auto simp: executeRequest_def split: prod.splits)
    from Cons.IH [OF this(1)] obtain pre a' post where
      "as = pre @ a' # post" "\<forall>x\<in>set pre. was_retried x" "length pre \<le> length reqs'"
      "do_loop env c method path u bb (n + 1 + int (length pre)) [a'] = (Returned res, drop (length pre) reqs')"
      by blast
    moreover have "n + 1 + int (length pre) = n + int (length (a # pre))" by simp
    ultimately show ?thesis using ret rest(2)
      by (intro exI [of _ "a # pre"] exI [of _ a'] exI [of _ post]) (simp del: do_loop.simps of_nat_Suc)
  qed
qed simp

end
