(* ===== verification/AutoConfig.thy ===== *)
theory AutoConfig
  imports HttpClient
begin

text \<open>
  The auto-configuration of \<open>client.go\<close>: \<open>ConfigureRateLimits\<close> fetches the account's limits
  and the endpoint costs (\<open>account.go\<close>), and \<open>NewClient\<close> runs it once. The responses are
  decoded into the generated structs of \<open>types_generated.go\<close> they use.
\<close>

section \<open>The response types\<close>

record BucketLimit =
  BucketCapacity :: goint
  RefillRate :: goint

record ApiUsageLevelGrant =
  g_ExchangeInstance :: string
  g_ExpiresTS :: "goint option"
  g_Level :: string
  g_Source :: string

record GetAccountApiLimitsResponse =
  lim_Grants :: "ApiUsageLevelGrant list"
  lim_Read :: BucketLimit
  lim_UsageTier :: string
  lim_Write :: BucketLimit

record EndpointTokenCost =
  etc_Cost :: goint
  etc_Method :: string
  etc_Path :: string

record GetAccountEndpointCostsResponse =
  gec_DefaultCost :: goint
  gec_EndpointCosts :: "EndpointTokenCost list"

definition zero_BucketLimit :: BucketLimit where
  "zero_BucketLimit = \<lparr>BucketCapacity = 0, RefillRate = 0\<rparr>"

definition zero_limits :: GetAccountApiLimitsResponse where
  "zero_limits = \<lparr>lim_Grants = [], lim_Read = zero_BucketLimit, lim_UsageTier = [],
                  lim_Write = zero_BucketLimit\<rparr>"

definition zero_costs :: GetAccountEndpointCostsResponse where
  "zero_costs = \<lparr>gec_DefaultCost = 0, gec_EndpointCosts = []\<rparr>"

text \<open>A slice field and a pointer field.\<close>

definition dec_list :: "('a \<Rightarrow> json \<Rightarrow> 'a \<times> bool) \<Rightarrow> 'a \<Rightarrow> 'a list \<Rightarrow> json \<Rightarrow> 'a list \<times> bool" where
  "dec_list dec zero cur j = (case j of
      JArr vs \<Rightarrow> (map (\<lambda>v. fst (dec zero v)) vs, list_ex (\<lambda>v. snd (dec zero v)) vs)
    | JNull \<Rightarrow> ([], False)
    | _ \<Rightarrow> (cur, True))"

definition dec_int_ptr :: "goint option \<Rightarrow> json \<Rightarrow> goint option \<times> bool" where
  "dec_int_ptr cur j = (case j of
      JNull \<Rightarrow> (None, False)
    | _ \<Rightarrow> (case dec_int (case cur of Some i \<Rightarrow> i | None \<Rightarrow> 0) j of (i, e) \<Rightarrow> (Some i, e)))"

definition dec_BucketLimit :: "BucketLimit \<Rightarrow> json \<Rightarrow> BucketLimit \<times> bool" where
  "dec_BucketLimit cur j =
     (case obj_pairs j of (kvs, e0) \<Rightarrow>
      (case dec_field ''bucket_capacity'' dec_int (BucketCapacity cur) kvs of (bc, e1) \<Rightarrow>
      (case dec_field ''refill_rate'' dec_int (RefillRate cur) kvs of (rr, e2) \<Rightarrow>
        (\<lparr>BucketCapacity = bc, RefillRate = rr\<rparr>, e0 \<or> e1 \<or> e2))))"

definition dec_grant :: "ApiUsageLevelGrant \<Rightarrow> json \<Rightarrow> ApiUsageLevelGrant \<times> bool" where
  "dec_grant cur j =
     (case obj_pairs j of (kvs, e0) \<Rightarrow>
      (case dec_field ''exchange_instance'' dec_string (g_ExchangeInstance cur) kvs of (ei, e1) \<Rightarrow>
      (case dec_field ''expires_ts'' dec_int_ptr (g_ExpiresTS cur) kvs of (ts, e2) \<Rightarrow>
      (case dec_field ''level'' dec_string (g_Level cur) kvs of (lv, e3) \<Rightarrow>
      (case dec_field ''source'' dec_string (g_Source cur) kvs of (so, e4) \<Rightarrow>
        (\<lparr>g_ExchangeInstance = ei, g_ExpiresTS = ts, g_Level = lv, g_Source = so\<rparr>,
         e0 \<or> e1 \<or> e2 \<or> e3 \<or> e4))))))"

definition dec_limits ::
  "GetAccountApiLimitsResponse \<Rightarrow> json \<Rightarrow> GetAccountApiLimitsResponse \<times> bool" where
  "dec_limits cur j =
     (case obj_pairs j of (kvs, e0) \<Rightarrow>
      (case dec_field ''grants'' (dec_list dec_grant
              \<lparr>g_ExchangeInstance = [], g_ExpiresTS = None, g_Level = [], g_Source = []\<rparr>)
              (lim_Grants cur) kvs of (gs, e1) \<Rightarrow>
      (case dec_field ''read'' dec_BucketLimit (lim_Read cur) kvs of (rd, e2) \<Rightarrow>
      (case dec_field ''usage_tier'' dec_string (lim_UsageTier cur) kvs of (ut, e3) \<Rightarrow>
      (case dec_field ''write'' dec_BucketLimit (lim_Write cur) kvs of (wr, e4) \<Rightarrow>
        (\<lparr>lim_Grants = gs, lim_Read = rd, lim_UsageTier = ut, lim_Write = wr\<rparr>,
         e0 \<or> e1 \<or> e2 \<or> e3 \<or> e4))))))"

definition dec_token_cost :: "EndpointTokenCost \<Rightarrow> json \<Rightarrow> EndpointTokenCost \<times> bool" where
  "dec_token_cost cur j =
     (case obj_pairs j of (kvs, e0) \<Rightarrow>
      (case dec_field ''cost'' dec_int (etc_Cost cur) kvs of (co, e1) \<Rightarrow>
      (case dec_field ''method'' dec_string (etc_Method cur) kvs of (me, e2) \<Rightarrow>
      (case dec_field ''path'' dec_string (etc_Path cur) kvs of (pa, e3) \<Rightarrow>
        (\<lparr>etc_Cost = co, etc_Method = me, etc_Path = pa\<rparr>, e0 \<or> e1 \<or> e2 \<or> e3)))))"

definition dec_costs ::
  "GetAccountEndpointCostsResponse \<Rightarrow> json \<Rightarrow> GetAccountEndpointCostsResponse \<times> bool" where
  "dec_costs cur j =
     (case obj_pairs j of (kvs, e0) \<Rightarrow>
      (case dec_field ''default_cost'' dec_int (gec_DefaultCost cur) kvs of (dc, e1) \<Rightarrow>
      (case dec_field ''endpoint_costs'' (dec_list dec_token_cost
              \<lparr>etc_Cost = 0, etc_Method = [], etc_Path = []\<rparr>) (gec_EndpointCosts cur) kvs of (ec, e2) \<Rightarrow>
        (\<lparr>gec_DefaultCost = dc, gec_EndpointCosts = ec\<rparr>, e0 \<or> e1 \<or> e2))))"

section \<open>The calls\<close>

definition GetAccountAPILimits :: api_call where
  "GetAccountAPILimits = getJSON_call (pathAccount @ ''/limits'') []"

definition GetAccountEndpointCosts :: api_call where
  "GetAccountEndpointCosts = getJSON_call (pathAccount @ ''/endpoint_costs'') []"

definition UpgradeAPIUsageLevel :: api_call where
  "UpgradeAPIUsageLevel = post_call (pathAccount @ ''/api_usage_level/upgrade'') None 30"

definition GetAccountAPIUsageLevelVolumeProgress :: api_call where
  "GetAccountAPIUsageLevelVolumeProgress =
     getJSON_call (pathAccount @ ''/api_usage_level/volume_progress'') []"

section \<open>ConfigureRateLimits and NewClient\<close>

definition limiter_config :: "GetAccountApiLimitsResponse \<Rightarrow> TokenBucketConfig" where
  "limiter_config limits =
     \<lparr>ReadRate = f64 (of_int (RefillRate (lim_Read limits))),
      WriteRate = f64 (of_int (RefillRate (lim_Write limits))),
      ReadCapacity = f64 (of_int (BucketCapacity (lim_Read limits))),
      WriteCapacity = f64 (of_int (BucketCapacity (lim_Write limits))),
      WindowSize = 1, SafetyPadding = f64 (1 / 10)\<rparr>"

fun cost_routes :: "EndpointTokenCost list \<Rightarrow> costRoute list" where
  "cost_routes [] = []"
| "cost_routes (ec # ecs) =
     newCostRoute (etc_Method ec) (etc_Path ec) (f64 (of_int (etc_Cost ec))) # cost_routes ecs"

text \<open>The log lines: method, path and the suspicious segments of a route.\<close>

fun cost_warnings :: "costRoute list \<Rightarrow> (string \<times> string \<times> string list) list" where
  "cost_warnings [] = []"
| "cost_warnings (r # rs) =
     (let suspects = suspiciousSegments r in
      if suspects \<noteq> [] then (cr_method r, rawPath r, suspects) # cost_warnings rs
      else cost_warnings rs)"

datatype configured =
    ConfigPanic string
  | ConfigError goerror
  | Configured "(string \<times> string \<times> string list) list"   \<comment> \<open>nil error, with the log lines\<close>
  | ConfigPending

text \<open>\<open>now\<close> is the clock the new bucket is built at.\<close>

definition ConfigureRateLimits ::
  "('k, 'r) http_env \<Rightarrow> http_run \<Rightarrow> gofloat \<Rightarrow> http_run \<Rightarrow> ('k, 'r) Client
     \<Rightarrow> configured \<times> ('k, 'r) Client" where
  "ConfigureRateLimits env limitsRun now costsRun c =
     (case doJSON_call dec_limits zero_limits env limitsRun c GetAccountAPILimits of
        (Pending, _, c1) \<Rightarrow> (ConfigPending, c1)
      | (Returned (Inl err), _, c1) \<Rightarrow> (ConfigError (WrapError ''fetch account limits'' err), c1)
      | (Returned (Inr limits), _, c1) \<Rightarrow>
     (case NewReadWriteTokenBucket (limiter_config limits) now of
        Inl msg \<Rightarrow> (ConfigPanic msg, c1)
      | Inr newLimiter \<Rightarrow>
     (case doJSON_call dec_costs zero_costs env costsRun c1 GetAccountEndpointCosts of
        (Pending, _, c2) \<Rightarrow> (ConfigPending, c2)
      | (Returned (Inl err), _, c2) \<Rightarrow> (ConfigError (WrapError ''fetch endpoint costs'' err), c2)
      | (Returned (Inr endpointCosts), _, c2) \<Rightarrow>
          let routes = sort_routes (cost_routes (gec_EndpointCosts endpointCosts))
          in (Configured (cost_warnings routes),
              c2\<lparr>limiter := newLimiter, costRoutes := Some routes,
                 defaultCost := f64 (of_int (gec_DefaultCost endpointCosts))\<rparr>))))"

definition new_client_defaults ::
  "('k, 'r) ClientConfig \<Rightarrow> gofloat \<Rightarrow> string + ('k, 'r) Client" where
  "new_client_defaults cc now =
     (let base = (if cfg_HTTPBaseURL cc = [] then httpBaseForEnv (cfg_Environment cc)
                  else cfg_HTTPBaseURL cc)
      in case NewReadWriteTokenBucket DefaultTokenBucketConfig now of
           Inl msg \<Rightarrow> Inl msg
         | Inr l \<Rightarrow> Inr \<lparr>httpClient = 0, baseURL = base, credentials = cfg_Credentials cc,
                        maxRetries = 4, baseDelay = 100000000, skipAutoConfig = False,
                        limiter = l, costRoutes = None, defaultCost = 0\<rparr>)"

datatype ('k, 'r) new_client =
    ClientPanic string
  | ClientReady "('k, 'r) Client"
  | ClientPending

definition NewClient ::
  "('k, 'r) http_env \<Rightarrow> gofloat \<Rightarrow> http_run \<Rightarrow> gofloat \<Rightarrow> http_run \<Rightarrow> ('k, 'r) ClientConfig
     \<Rightarrow> ('k, 'r) ClientOption list \<Rightarrow> ('k, 'r) new_client" where
  "NewClient env now0 limitsRun now costsRun cc opts =
     (case new_client_defaults cc now0 of
        Inl msg \<Rightarrow> ClientPanic msg
      | Inr c0 \<Rightarrow>
          let c = foldl (\<lambda>cl opt. opt cl) c0 opts in
          if \<not> skipAutoConfig c then
            (case ConfigureRateLimits env limitsRun now costsRun c of
               (ConfigPanic msg, _) \<Rightarrow> ClientPanic msg
             | (ConfigPending, _) \<Rightarrow> ClientPending
             | (_, c') \<Rightarrow> ClientReady c')
          else ClientReady c)"

section \<open>Facts\<close>

lemma do_request_client:
  assumes "do_request env run c m p r w u bd ps = (res, reqs, c')"
  shows "c' = c\<lparr>limiter := snd (Acquire (hr_rounds run) (fst (resolveCosts c m p r w u))
                  (snd (resolveCosts c m p r w u)) (limiter c))\<rparr>"
  using assms
  by (auto simp: do_request_def Let_def split: prod.splits acq_result.splits sum.splits option.splits)

lemma doJSON_call_client:
  assumes "doJSON_call dec z env run c a = (res, reqs, c')"
  shows "\<exists>r w. c' = c\<lparr>limiter := snd (Acquire (hr_rounds run) r w (limiter c))\<rparr>"
proof -
  obtain o' rs c2 where d: "do_request env run c (ac_method a) (ac_path a) (ac_readCost a)
     (ac_writeCost a) (ac_units a) (ac_body a) (ac_params a) = (o', rs, c2)"
    by (metis prod_cases3)
  have "c' = c2" using assms by (auto simp: doJSON_call_def doJSON_def d split: outcome.splits sum.splits)
  with do_request_client [OF d] show ?thesis by blast
qed

lemma Acquire_cfg: "cfg (snd (Acquire rds r w b)) = cfg b"
  by (simp add: Acquire_def acquire_loop_run)

text \<open>What a call leaves of the client: everything but the tokens of its limiter.\<close>

definition same_but_tokens :: "('k, 'r) Client \<Rightarrow> ('k, 'r) Client \<Rightarrow> bool" where
  "same_but_tokens c c' \<longleftrightarrow> (\<exists>b. c' = c\<lparr>limiter := b\<rparr> \<and> cfg b = cfg (limiter c)
      \<and> (bucket_ok (limiter c) \<longrightarrow> bucket_ok b))"

lemma same_but_tokens_refl: "same_but_tokens c c"
  unfolding same_but_tokens_def by (rule exI [of _ "limiter c"]) simp

lemma same_but_tokens_trans:
  "same_but_tokens a b \<Longrightarrow> same_but_tokens b c \<Longrightarrow> same_but_tokens a c"
  by (auto simp: same_but_tokens_def)

lemma doJSON_call_same:
  "doJSON_call dec z env run c a = (res, reqs, c') \<Longrightarrow> same_but_tokens c c'"
  using doJSON_call_client [of dec z env run c a res reqs c']
  by (auto simp: same_but_tokens_def Acquire_cfg Acquire_ok)

end
