(* ===== verification/HttpProps.thy ===== *)
theory HttpProps
  imports AutoConfig RateLimitProps
begin

text \<open>
  What the HTTP client of \<open>client.go\<close> promises: how often it retries, which requests it
  sends, what its results say about the server's answers, what a URL is a function of, how
  costs scale, and that reconfiguration is all or nothing.
\<close>

section \<open>A client for the witnesses\<close>

definition demo_env :: "(string, unit) http_env" where
  "demo_env = \<lparr>he_crypto = toy_crypto, he_newreq = (\<lambda>m u. None)\<rparr>"

definition demo_client :: "(string, unit) Client" where
  "demo_client = \<lparr>httpClient = 0, baseURL = ''https://h'', credentials = \<lparr>KeyID = ''id'', PrivateKey = ''k'', Rand = None\<rparr>,
     maxRetries = 1, baseDelay = 100000000, skipAutoConfig = True, limiter = default_bucket_at 0,
     costRoutes = None, defaultCost = 0\<rparr>"

definition answer :: "goint \<Rightarrow> string \<Rightarrow> attempt" where
  "answer st body = \<lparr>at_unixMilli = 7, at_outcome = Responded st body, at_done = None\<rparr>"

definition one_round :: "acq_round list" where
  "one_round = [\<lparr>rd_err = None, rd_now = 0, rd_done = None, rd_others = []\<rparr>]"

lemma demo_acquire:
  "Acquire one_round 10 0 (limiter demo_client) = (Acquired, (default_bucket_at 0)\<lparr>readTokens := 190\<rparr>)"
  by (simp add: demo_client_def one_round_def default_acquire)

lemma demo_costs: "resolveCosts demo_client ''GET'' p 10 0 1 = (10, 0)"
  by (simp add: resolveCosts_def demo_client_def fmul_def)

lemma demo_build: "\<exists>req. buildAuthRequest demo_env 7 demo_client m p u b = Inr req"
  by (simp add: buildAuthRequest_def demo_env_def demo_client_def RequestHeaders_def SignPSSText_def
      toy_crypto_def randReader_def Let_def)

section \<open>The do call\<close>

lemma do_request_cases:
  assumes "do_request env run c m p r w u bd ps = (res, reqs, c')"
  shows "(reqs = [] \<and> (res = Pending \<or> (\<exists>e. res = Returned (Inl e))))
    \<or> (\<exists>bb. Acquire (hr_rounds run) (fst (resolveCosts c m p r w u)) (snd (resolveCosts c m p r w u))
              (limiter c) = (Acquired, limiter c')
         \<and> (bb = None \<longleftrightarrow> bd = None)
         \<and> do_loop env c m p (buildURL (baseURL c) p ps) bb 0 (hr_attempts run) = (res, reqs))"
proof -
  obtain rc wc where rw: "resolveCosts c m p r w u = (rc, wc)" by fastforce
  obtain q b where a: "Acquire (hr_rounds run) rc wc (limiter c) = (q, b)" by fastforce
  show ?thesis
  proof (cases q)
    case Acquired
    then show ?thesis
      using assms rw a
      by (auto simp: do_request_def Let_def split: prod.splits sum.splits option.splits)
  next
    case (AcqFailed e)
    then show ?thesis using assms rw a by (auto simp: do_request_def Let_def)
  next
    case AcqBlocked
    then show ?thesis using assms rw a by (auto simp: do_request_def Let_def)
  qed
qed

lemma do_loop_one:
  "do_loop env c m p u bb n [a] = (Returned (Inr raw), reqs) \<Longrightarrow>
     \<exists>st req. at_outcome a = Responded st raw \<and> st \<noteq> 429 \<and> st < 400 \<and> reqs = [req]"
  by (auto simp: executeRequest_def finish_response_def handleRetry_def
      split: sum.splits http_outcome.splits if_splits option.splits)

lemma do_loop_one_api:
  "do_loop env c m p u bb n [a] = (Returned (Inl (EAPIError e)), reqs) \<Longrightarrow>
     \<exists>st body. at_outcome a = Responded st body \<and> st \<noteq> 429 \<and> 400 \<le> st \<and> e = newAPIError st m p body"
  by (auto simp: executeRequest_def finish_response_def handleRetry_def buildAuthRequest_def Let_def
      split: sum.splits http_outcome.splits if_splits option.splits)

lemma do_loop_all_429:
  assumes "\<forall>a\<in>set as. (\<exists>b. at_outcome a = Responded 429 b) \<and> at_done a = None"
    and "\<forall>a\<in>set as. \<exists>req. buildAuthRequest env (at_unixMilli a) c m p u bb = Inr req"
    and "n \<le> maxRetries c" "int (length as) = maxRetries c - n + 1"
  shows "fst (do_loop env c m p u bb n as)
       = Returned (Inl (ERateLimitError \<lparr>rl_Method = m, rl_Path = p, rl_Retries = maxRetries c\<rparr>))
     \<and> length (snd (do_loop env c m p u bb n as)) = length as"
  using assms
proof (induction as arbitrary: n)
  case (Cons a as)
  obtain b req where a: "at_outcome a = Responded 429 b" "at_done a = None"
    "buildAuthRequest env (at_unixMilli a) c m p u bb = Inr req"
    using Cons.prems(1,2) by auto
  show ?case
  proof (cases "n = maxRetries c")
    case True
    then have "as = []" using Cons.prems(4) by simp
    with True a show ?thesis by (simp add: executeRequest_def handleRetry_def)
  next
    case False
    obtain o' rs where "do_loop env c m p u bb (n + 1) as = (o', rs)" by fastforce
    moreover have "fst (do_loop env c m p u bb (n + 1) as)
        = Returned (Inl (ERateLimitError \<lparr>rl_Method = m, rl_Path = p, rl_Retries = maxRetries c\<rparr>))
      \<and> length (snd (do_loop env c m p u bb (n + 1) as)) = length as"
      using Cons.prems False by (intro Cons.IH) simp_all
    ultimately show ?thesis using a False Cons.prems(3) by (simp add: executeRequest_def handleRetry_def)
  qed
qed simp

text \<open>C5: One call of \<open>do\<close> sends at most \<open>maxRetries + 1\<close> requests, takes its tokens from the
  limiter once however often it retries (and sends nothing before it has them), and every
  request it sends has the same method, URL and body.\<close>

theorem do_request_attempts:
  assumes "do_request env run c m p r w u bd ps = (res, reqs, c')"
  shows "int (length reqs) \<le> max 0 (maxRetries c) + 1
    \<and> (reqs \<noteq> [] \<longrightarrow>
        (case resolveCosts c m p r w u of (rc, wc) \<Rightarrow>
           Acquire (hr_rounds run) rc wc (limiter c) = (Acquired, limiter c')))
    \<and> (\<exists>bb. \<forall>q\<in>set reqs. rq_method q = m \<and> rq_url q = buildURL (baseURL c) p ps \<and> rq_body q = bb)"
proof (cases "reqs = []")
  case True
  then show ?thesis by simp
next
  case False
  then obtain bb where acq: "Acquire (hr_rounds run) (fst (resolveCosts c m p r w u)) (snd (resolveCosts c m p r w u))
              (limiter c) = (Acquired, limiter c')"
    and l: "do_loop env c m p (buildURL (baseURL c) p ps) bb 0 (hr_attempts run) = (res, reqs)"
    using do_request_cases [OF assms] by blast
  have "\<forall>q\<in>set reqs. rq_method q = m \<and> rq_url q = buildURL (baseURL c) p ps \<and> rq_body q = bb"
    using do_loop_same [of _ env c m p _ bb 0 "hr_attempts run"] l by (metis snd_conv)
  moreover have "int (length reqs) \<le> max 0 (maxRetries c) + 1"
    using do_loop_bound [of env c m p _ bb 0 "hr_attempts run"] l by (metis diff_zero snd_conv)
  ultimately show ?thesis using acq by (auto split: prod.splits)
qed

lemma do_request_attempts_witness:
  "\<exists>res reqs c'. do_request demo_env \<lparr>hr_rounds = one_round, hr_attempts = [answer 429 [], answer 200 ''{}'']\<rparr>
       demo_client ''GET'' ''/p'' 10 0 1 None [] = (res, reqs, c') \<and> length reqs \<le> 2"
proof -
  obtain res reqs c' where d: "do_request demo_env \<lparr>hr_rounds = one_round, hr_attempts = [answer 429 [], answer 200 ''{}'']\<rparr>
       demo_client ''GET'' ''/p'' 10 0 1 None [] = (res, reqs, c')" by (metis prod_cases3)
  from do_request_attempts [OF d] d show ?thesis by (auto simp: demo_client_def)
qed

text \<open>C6: \<open>do\<close> returns a body only if the server's last answer had a status below 400 and that
  body, and every earlier answer was a 429 after which the context was still alive; it
  returns an \<open>APIError\<close> only for a status of at least 400 other than 429, built from that
  status and body.\<close>

theorem do_request_answer:
  assumes "do_request env run c m p r w u bd ps = (Returned res, reqs, c')"
  shows "(\<forall>raw. res = Inr raw \<longrightarrow>
      (\<exists>pre a post st. hr_attempts run = pre @ a # post \<and> (\<forall>x\<in>set pre. was_retried x)
         \<and> length reqs = length pre + 1 \<and> at_outcome a = Responded st raw \<and> st < 400))
    \<and> (\<forall>e. res = Inl (EAPIError e) \<and> reqs \<noteq> [] \<longrightarrow>
      (\<exists>pre a post st body. hr_attempts run = pre @ a # post \<and> (\<forall>x\<in>set pre. was_retried x)
         \<and> at_outcome a = Responded st body \<and> 400 \<le> st \<and> st \<noteq> 429 \<and> e = newAPIError st m p body))"
proof (cases "\<exists>bb. do_loop env c m p (buildURL (baseURL c) p ps) bb 0 (hr_attempts run) = (Returned res, reqs)")
  case True
  then obtain bb where "do_loop env c m p (buildURL (baseURL c) p ps) bb 0 (hr_attempts run) = (Returned res, reqs)"
    by blast
  from do_loop_final [OF this] obtain pre a post where f: "hr_attempts run = pre @ a # post"
    "\<forall>x\<in>set pre. was_retried x" "length pre \<le> length reqs"
    "do_loop env c m p (buildURL (baseURL c) p ps) bb (0 + int (length pre)) [a]
       = (Returned res, drop (length pre) reqs)"
    by blast
  have "length reqs = length pre + 1" if "drop (length pre) reqs = [q]" for q
    using that f(3) by (metis add.commute append_take_drop_id length_append length_take min.absorb2
        One_nat_def length_Cons list.size(3))
  then show ?thesis
    using f do_loop_one [of env c m p _ bb _ a _ "drop (length pre) reqs"]
      do_loop_one_api [of env c m p _ bb _ a _ "drop (length pre) reqs"] by blast
next
  case False
  then show ?thesis using do_request_cases [OF assms] by auto
qed

lemma demo_success:
  "\<exists>q. rq_method q = ''GET'' \<and> do_request demo_env \<lparr>hr_rounds = one_round, hr_attempts = [answer 200 ''ok'']\<rparr>
      demo_client ''GET'' ''/p'' 10 0 1 None []
    = (Returned (Inr ''ok''), [q], demo_client\<lparr>limiter := (default_bucket_at 0)\<lparr>readTokens := 190\<rparr>\<rparr>)"
proof -
  obtain q where "buildAuthRequest demo_env 7 demo_client ''GET'' ''/p''
      (buildURL (baseURL demo_client) ''/p'' []) None = Inr q" using demo_build by blast
  with buildAuthRequest_parts [OF this] show ?thesis
    by (simp add: do_request_def demo_costs demo_acquire answer_def executeRequest_def finish_response_def)
qed

lemma do_request_answer_witness:
  "\<exists>st a. [answer 200 ''ok''] = [a] \<and> at_outcome a = Responded st ''ok'' \<and> st < 400"
proof -
  obtain q where "do_request demo_env \<lparr>hr_rounds = one_round, hr_attempts = [answer 200 ''ok'']\<rparr>
      demo_client ''GET'' ''/p'' 10 0 1 None []
    = (Returned (Inr ''ok''), [q], demo_client\<lparr>limiter := (default_bucket_at 0)\<lparr>readTokens := 190\<rparr>\<rparr>)"
    using demo_success by blast
  from do_request_answer [OF this] show ?thesis by (auto simp: Cons_eq_append_conv)
qed

text \<open>C8: When the server keeps answering 429, \<open>do\<close> makes exactly \<open>maxRetries + 1\<close> requests
  and then returns a \<open>RateLimitError\<close> naming the method, the path and \<open>maxRetries\<close>.\<close>

theorem do_request_exhausted:
  assumes "0 \<le> maxRetries c" "int (length (hr_attempts run)) = maxRetries c + 1"
    and "\<forall>a\<in>set (hr_attempts run). (\<exists>b. at_outcome a = Responded 429 b) \<and> at_done a = None"
    and "\<forall>a\<in>set (hr_attempts run). \<forall>bb. \<exists>req.
           buildAuthRequest env (at_unixMilli a) c m p (buildURL (baseURL c) p ps) bb = Inr req"
    and "Acquire (hr_rounds run) (fst (resolveCosts c m p r w u)) (snd (resolveCosts c m p r w u)) (limiter c)
       = (Acquired, b)"
    and "\<forall>e. bd \<noteq> Some (BadBody e)"
  shows "\<exists>reqs. do_request env run c m p r w u bd ps
      = (Returned (Inl (ERateLimitError \<lparr>rl_Method = m, rl_Path = p, rl_Retries = maxRetries c\<rparr>)),
         reqs, c\<lparr>limiter := b\<rparr>) \<and> int (length reqs) = maxRetries c + 1"
proof -
  obtain bb where bb: "(case bd of None \<Rightarrow> Inr None | Some v \<Rightarrow>
      (case Marshal v of Inl err \<Rightarrow> Inl err | Inr s \<Rightarrow> Inr (Some s))) = (Inr bb :: goerror + string option)"
    using assms(6) by (cases bd; cases "the bd") (auto simp: Marshal_def)
  let ?l = "do_loop env c m p (buildURL (baseURL c) p ps) bb 0 (hr_attempts run)"
  have "fst ?l = Returned (Inl (ERateLimitError \<lparr>rl_Method = m, rl_Path = p, rl_Retries = maxRetries c\<rparr>))
      \<and> length (snd ?l) = length (hr_attempts run)"
    using assms by (intro do_loop_all_429) auto
  then obtain reqs where l: "?l = (Returned (Inl (ERateLimitError
        \<lparr>rl_Method = m, rl_Path = p, rl_Retries = maxRetries c\<rparr>)), reqs)"
    "length reqs = length (hr_attempts run)" by (metis prod.collapse)
  obtain rc wc where "resolveCosts c m p r w u = (rc, wc)" by fastforce
  then have "do_request env run c m p r w u bd ps = (fst ?l, snd ?l, c\<lparr>limiter := b\<rparr>)"
    using assms(5) bb l(1) by (simp add: do_request_def Let_def)
  with l assms(2) show ?thesis by simp
qed

lemma do_request_exhausted_witness:
  "\<exists>reqs c'. do_request demo_env \<lparr>hr_rounds = one_round, hr_attempts = [answer 429 [], answer 429 []]\<rparr>
      demo_client ''GET'' ''/p'' 10 0 1 None []
    = (Returned (Inl (ERateLimitError \<lparr>rl_Method = ''GET'', rl_Path = ''/p'', rl_Retries = 1\<rparr>)), reqs, c')"
proof -
  have m: "maxRetries demo_client = 1" by (simp add: demo_client_def)
  show ?thesis
    using do_request_exhausted [of demo_client "\<lparr>hr_rounds = one_round, hr_attempts = [answer 429 [], answer 429 []]\<rparr>"
        demo_env "''GET''" "''/p''" "[]" 10 0 1 "(default_bucket_at 0)\<lparr>readTokens := 190\<rparr>" None]
    by (auto simp: m answer_def demo_build demo_costs demo_acquire)
qed

text \<open>C9: \<open>do\<close> terminates: once its tokens are acquired it returns, with a result, after at
  most \<open>maxRetries + 1\<close> round trips.\<close>

theorem do_request_returns:
  assumes "int (length (hr_attempts run)) > max 0 (maxRetries c)"
    and "fst (Acquire (hr_rounds run) (fst (resolveCosts c m p r w u)) (snd (resolveCosts c m p r w u)) (limiter c))
         \<noteq> AcqBlocked"
  shows "fst (do_request env run c m p r w u bd ps) \<noteq> Pending"
proof -
  obtain rc wc where rw: "resolveCosts c m p r w u = (rc, wc)" by fastforce
  obtain q b where a: "Acquire (hr_rounds run) rc wc (limiter c) = (q, b)" by fastforce
  have l: "fst (do_loop env c m p url bb 0 (hr_attempts run)) \<noteq> Pending" for url bb
    using assms(1) by (intro do_loop_returns) simp
  have "q \<noteq> AcqBlocked" using assms(2) rw a by simp
  then show ?thesis
    using l rw a by (cases q) (auto simp: do_request_def Let_def split: prod.splits sum.splits, metis fst_conv)
qed

lemma do_request_returns_witness:
  "fst (do_request demo_env \<lparr>hr_rounds = one_round, hr_attempts = [answer 200 ''ok'', answer 200 ''ok'']\<rparr>
      demo_client ''GET'' ''/p'' 10 0 1 None []) \<noteq> Pending"
  by (rule do_request_returns) (simp_all add: demo_costs demo_acquire, simp add: demo_client_def)

section \<open>URLs\<close>

lemma url_values_aux:
  "distinct (map fst (acc @ ps)) \<Longrightarrow>
     foldl (\<lambda>q (k, v). if v \<noteq> [] then AList.update k v q else q) acc ps
       = acc @ filter (\<lambda>kv. snd kv \<noteq> []) ps"
proof (induction ps arbitrary: acc)
  case (Cons kv ps)
  obtain k v where kv: "kv = (k, v)" by fastforce
  have new: "k \<notin> fst ` set xs \<Longrightarrow> AList.update k v xs = xs @ [(k, v)]" for xs
    by (induction xs) auto
  show ?case
  proof (cases "v = []")
    case True
    then show ?thesis using Cons.IH [of acc] Cons.prems kv by simp
  next
    case False
    then show ?thesis using Cons.IH [of "acc @ [(k, v)]"] Cons.prems kv new by auto
  qed
qed simp

lemma url_values_filter: "distinct_keys ps \<Longrightarrow> url_values ps = filter (\<lambda>kv. snd kv \<noteq> []) ps"
  using url_values_aux [of "[]" ps] by (simp add: url_values_def distinct_keys_def)

lemma sort_fst_unique:
  assumes "distinct (map fst (p :: string smap))" "mset p = mset q"
  shows "sort_key fst p = sort_key fst q"
proof -
  have q: "distinct (map fst q)" using assms by (metis mset_eq_imp_distinct_iff mset_map)
  have set: "set (sort_key fst p) = set (sort_key fst q)" using assms(2) by (metis set_mset_mset set_sort)
  have d: "distinct (map fst (sort_key fst x))" if "distinct (map fst x)" for x :: "string smap"
    using that by (metis mset_eq_imp_distinct_iff mset_map mset_sort)
  have inj: "inj_on fst (set p)" using assms(1) by (simp add: distinct_map)
  then have "inj_on fst (set (sort_key fst p) \<union> set (sort_key fst q))" using set by simp
  then show ?thesis
    using d [OF assms(1)] d [OF q] set
    by (intro map_sorted_distinct_set_unique [of fst]) simp_all
qed

lemma values_encode_inj:
  assumes "values_encode p = values_encode q" "p \<noteq> []" "q \<noteq> []"
  shows "set p = set q"
proof -
  let ?L = "\<lambda>m :: string smap. map encode_pair (sort_key fst m)"
  have amp: "\<forall>x\<in>set (?L m). CHR ''&'' \<notin> set x" for m by (auto simp: encode_pair_no_amp)
  have "split_on (CHR ''&'') (values_encode m) = ?L m" if "m \<noteq> []" for m
  proof -
    have "?L m \<noteq> []" using that by (metis Nil_is_map_conv set_empty set_sort)
    then show ?thesis using split_join [OF _ amp] by (simp add: values_encode_def)
  qed
  with assms have "?L p = ?L q" by metis
  then have "sort_key fst p = sort_key fst q"
    using encode_pair_inj by (metis injI inj_map_eq_map)
  then show ?thesis by (metis set_sort)
qed

lemma buildURL_perm:
  assumes "distinct_keys ps" "mset ps = mset qs"
  shows "buildURL base path ps = buildURL base path qs"
proof -
  have d: "distinct (map fst qs)"
    using assms by (metis distinct_keys_def mset_eq_imp_distinct_iff mset_map)
  have "sort_key fst (url_values ps) = sort_key fst (url_values qs)"
    using assms d
    by (simp add: url_values_filter distinct_keys_def sort_fst_unique distinct_map_filter)
  moreover have "length ps = length qs" using assms(2) by (metis size_mset)
  ultimately show ?thesis by (simp add: buildURL_def values_encode_def Let_def)
qed

text \<open>The URL does not depend on Go's random map iteration order: any two orders of the
  same parameters give the same URL.\<close>

theorem buildURL_order:
  assumes "distinct_keys ps" "mset ps = mset qs"
  shows "buildURL base path ps = buildURL base path qs"
  using assms by (rule buildURL_perm)

lemma buildURL_order_witness:
  "buildURL ''https://h'' ''/p'' [(''limit'', ''5''), (''cursor'', ''a b'')]
     = buildURL ''https://h'' ''/p'' [(''cursor'', ''a b''), (''limit'', ''5'')]"
  by (rule buildURL_order) (simp_all add: distinct_keys_def add_mset_commute)

text \<open>C13: The query string loses nothing: two parameter maps made by the query builder that
  give the same URL are the same map, whatever bytes their values hold.\<close>

theorem buildURL_injective:
  assumes "query_ok ps" "query_ok qs" "buildURL base path ps = buildURL base path qs"
  shows "map_of ps = map_of qs"
proof -
  have v: "url_values m = m" if "query_ok m" for m
    using that by (simp add: url_values_filter query_ok_def)
  consider "ps = [] \<and> qs = []" | "ps \<noteq> []" "qs \<noteq> []"
    using assms(3) by (cases ps; cases qs) (simp_all add: buildURL_def Let_def)
  then show ?thesis
  proof cases
    case 2
    with assms v have "values_encode ps = values_encode qs" by (simp add: buildURL_def Let_def)
    with 2 have "set ps = set qs" by (intro values_encode_inj)
    with assms(1,2) show ?thesis by (simp add: query_ok_def distinct_keys_def map_of_inject_set)
  qed simp
qed

lemma buildURL_injective_witness:
  "map_of [(''ticker'', ''A&B=C''), (''limit'', ''5'')] = map_of [(''limit'', ''5''), (''ticker'', ''A&B=C'')]"
proof (rule buildURL_injective)
  show "query_ok [(''ticker'', ''A&B=C''), (''limit'', ''5'')]" "query_ok [(''limit'', ''5''), (''ticker'', ''A&B=C'')]"
    by (simp_all add: query_ok_def distinct_keys_def)
  show "buildURL [] [] [(''ticker'', ''A&B=C''), (''limit'', ''5'')]
      = buildURL [] [] [(''limit'', ''5''), (''ticker'', ''A&B=C'')]"
    by (rule buildURL_perm) (simp_all add: distinct_keys_def add_mset_commute)
qed

section \<open>Costs and waits\<close>

lemma f64_product:
  "0 \<le> k \<Longrightarrow> 1 \<le> n \<Longrightarrow> n \<le> 2 ^ 52 \<Longrightarrow> n * k \<le> 2 ^ 52 \<Longrightarrow>
     fmul (of_int k) (f64 (of_int n)) = of_int (n * k)"
proof -
  assume a: "0 \<le> k" "1 \<le> n" "n \<le> 2 ^ 52" "n * k \<le> 2 ^ 52"
  have "f64 (of_int n) = of_int n" using a by (intro f64_of_int) simp
  moreover have "f64 (of_int (n * k)) = of_int (n * k)"
    using a by (intro f64_of_int) (simp add: abs_mult)
  ultimately show ?thesis by (simp add: fmul_def mult.commute)
qed

text \<open>C11: A batch is billed per item, exactly: for a write request of \<open>n\<close> units whose unit cost
  is the integer \<open>k\<close>, taken from the server's table or, with no table loaded, from the caller,
  \<open>do\<close> debits \<open>n * k\<close> write tokens and no read tokens, as long as the product is at most
  \<open>2^52\<close>; fewer than one unit counts as one.\<close>

theorem resolveCosts_batch_exact:
  assumes "m \<noteq> ''GET''" "0 \<le> k" "n \<le> 2 ^ 52" "max 1 n * k \<le> 2 ^ 52"
    and "costRoutes c = None \<and> r = 0 \<and> w = of_int k \<or> client_lookupCost c m p = Some (of_int k)"
  shows "resolveCosts c m p r w n = (0, of_int (max 1 n * k))"
proof -
  have u: "(if n < 1 then 1 else n) = max 1 n" by simp
  have f: "fmul (of_int k) (f64 (of_int (max 1 n))) = of_int (max 1 n * k)"
    using assms by (intro f64_product) simp_all
  have z: "fmul 0 x = 0" for x by (simp add: fmul_def)
  show ?thesis
  proof (cases "costRoutes c = None")
    case True
    then have "r = 0" "w = of_int k" using assms(5) by (auto simp: client_lookupCost_def)
    with True show ?thesis by (simp only: resolveCosts_def Let_def u f z) simp
  next
    case False
    with assms(5) have "client_lookupCost c m p = Some (of_int k)" by blast
    with False assms(1) show ?thesis by (simp only: resolveCosts_def Let_def u) (simp add: f)
  qed
qed

lemma resolveCosts_batch_exact_witness:
  "resolveCosts (demo_client\<lparr>costRoutes := Some [newCostRoute ''POST'' ''/portfolio/orders/batched'' 2],
      defaultCost := 10\<rparr>) ''POST'' ''/trade-api/v2/portfolio/orders/batched'' 0 10 50 = (0, 100)"
proof -
  have "lookupCost [newCostRoute ''POST'' ''/portfolio/orders/batched'' 2] ''POST''
      ''/trade-api/v2/portfolio/orders/batched'' = Some 2" by code_simp
  with resolveCosts_batch_exact [of "''POST''" 2 50 "demo_client\<lparr>costRoutes := Some
      [newCostRoute ''POST'' ''/portfolio/orders/batched'' 2], defaultCost := 10\<rparr>" 0 10
      "''/trade-api/v2/portfolio/orders/batched''"]
  show ?thesis by (simp add: client_lookupCost_def)
qed

lemma sint_of_small: "0 \<le> d \<Longrightarrow> d < 2 ^ 63 \<Longrightarrow> sint (word_of_int d :: 64 word) = d"
  by (simp add: sint_sbintrunc' signed_take_bit_int_eq_self)

text \<open>The backoff before retry number \<open>n\<close> is \<open>baseDelay * 2^min(n, 30)\<close>, non-negative and
  without wrap-around, for any base delay under \<open>2^33\<close> nanoseconds (8.5 seconds; the
  default is a tenth of a second).\<close>

lemma retryWait_exact:
  assumes "0 \<le> sint (baseDelay c)" "sint (baseDelay c) < 2 ^ 33" "0 \<le> n"
  shows "sint (retryWait c n) = sint (baseDelay c) * 2 ^ min (nat n) 30"
proof -
  let ?d = "sint (baseDelay c)" and ?k = "min (nat n) 30"
  have k: "nat (if n > 30 then 30 else n) = ?k" using assms(3) by auto
  have w: "baseDelay c * push_bit ?k 1 = word_of_int (?d * 2 ^ ?k)"
    by (simp add: push_bit_eq_mult)
  have "(2::int) ^ ?k \<le> 2 ^ 30" by (intro power_increasing) simp_all
  then have "?d * 2 ^ ?k \<le> ?d * 2 ^ 30" using assms(1) by (intro mult_left_mono) simp_all
  also have "\<dots> < 2 ^ 63" using assms(2) by simp
  finally have "?d * 2 ^ ?k < 2 ^ 63" .
  then show ?thesis
    unfolding retryWait_def Let_def k w using assms(1) by (intro sint_of_small) simp_all
qed

lemma retryWait_exact_witness:
  "sint (retryWait demo_client 3) = 800000000"
  using retryWait_exact [of demo_client 3] by (simp add: demo_client_def)

text \<open>With a base delay of ten seconds the multiplication of the thirtieth retry wraps
  around the 64-bit duration: the wait is negative, so the timer fires at once.\<close>

theorem retryWait_wraps:
  "sint (retryWait (demo_client\<lparr>baseDelay := 10000000000, maxRetries := 40\<rparr>) 30) < 0
   \<and> handleRetry (demo_client\<lparr>baseDelay := 10000000000, maxRetries := 40\<rparr>) m p 30 None = Inr True"
  by (simp add: retryWait_def handleRetry_def push_bit_eq_mult)

section \<open>Signatures\<close>

lemma canon_consts:
  "canon_key True ''Content-Type'' = ''Content-Type''"
  "canon_key True ''KALSHI-ACCESS-KEY'' = ''Kalshi-Access-Key''"
  "canon_key True ''KALSHI-ACCESS-SIGNATURE'' = ''Kalshi-Access-Signature''"
  "canon_key True ''KALSHI-ACCESS-TIMESTAMP'' = ''Kalshi-Access-Timestamp''"
  by code_simp+

lemma do_loop_built:
  "q \<in> set (snd (do_loop env c m p u bb n as)) \<Longrightarrow> \<exists>ms. buildAuthRequest env ms c m p u bb = Inr q"
proof (induction as arbitrary: n)
  case (Cons a as)
  obtain res rs where l: "do_loop env c m p u bb (n + 1) as = (res, rs)" by fastforce
  show ?case
  proof (cases "buildAuthRequest env (at_unixMilli a) c m p u bb")
    case (Inl e)
    with Cons.prems show ?thesis by simp
  next
    case (Inr q')
    have "q = q' \<or> q \<in> set rs" using Cons.prems Inr l by (auto split: sum.splits if_splits)
    with Cons.IH [of "n + 1"] l Inr show ?thesis by auto
  qed
qed simp

lemma built_headers:
  assumes "buildAuthRequest env ms c m p u bb = Inr q"
  shows "\<exists>s. SignPSS (he_crypto env) (randReader (he_crypto env) (credentials c)) (PrivateKey (credentials c))
        (Sum256 (he_crypto env) (Itoa ms @ m @ before_char (CHR ''?'') p)) = Inr s
     \<and> map_of (rq_headers q) ''Kalshi-Access-Signature'' = Some (b64_encode s)
     \<and> map_of (rq_headers q) ''Kalshi-Access-Timestamp'' = Some (Itoa ms)"
proof -
  let ?d = "Sum256 (he_crypto env) (Itoa ms @ m @ before_char (CHR ''?'') p)"
  obtain h where h: "RequestHeaders (he_crypto env) ms (credentials c) m p = Inr h"
    using assms by (auto simp: buildAuthRequest_def split: option.splits sum.splits)
  then obtain s where s: "SignPSS (he_crypto env) (randReader (he_crypto env) (credentials c))
        (PrivateKey (credentials c)) ?d = Inr s"
      "h = [(''Content-Type'', ''application/json''), (''KALSHI-ACCESS-KEY'', KeyID (credentials c)),
            (''KALSHI-ACCESS-SIGNATURE'', b64_encode s), (''KALSHI-ACCESS-TIMESTAMP'', Itoa ms)]"
    by (auto simp: RequestHeaders_def SignPSSText_def Let_def split: sum.splits)
  have "he_newreq env m u = None" using assms by (simp add: buildAuthRequest_def split: option.splits)
  then have "rq_headers q = (let g = foldl (\<lambda>h (k, v). Header_Set k v h) [] h in
      if bb \<noteq> None then Header_Set ''Content-Type'' ''application/json'' g else g)"
    using assms h by (auto simp: buildAuthRequest_def Let_def)
  then have "map_of (rq_headers q) ''Kalshi-Access-Signature'' = Some (b64_encode s)"
    "map_of (rq_headers q) ''Kalshi-Access-Timestamp'' = Some (Itoa ms)"
    unfolding s(2) Header_Set_def foldl_Cons foldl_Nil prod.case canon_consts Let_def
    by (simp_all del: canon_key.simps)
  with s(1) show ?thesis by blast
qed

text \<open>C7: Every request that \<open>do\<close> puts on the wire, first or retried, is authenticated on its
  own: it carries a timestamp and a base64 signature that verifies, under the client's key, the
  digest of that timestamp, the request's method and its path without query parameters.\<close>

theorem sent_requests_signed:
  assumes "\<And>r k d s. SignPSS (he_crypto env) r k d = Inr s \<Longrightarrow> verify k d s"
    and "do_request env run c m p r w u bd ps = (res, reqs, c')" and "q \<in> set reqs"
  shows "\<exists>ts sig. map_of (rq_headers q) ''Kalshi-Access-Timestamp'' = Some ts
    \<and> map_of (rq_headers q) ''Kalshi-Access-Signature'' = Some sig
    \<and> verify (PrivateKey (credentials c))
        (Sum256 (he_crypto env) (ts @ rq_method q @ before_char (CHR ''?'') p)) (b64_decode sig)"
proof -
  from assms(3) obtain bb where
    "do_loop env c m p (buildURL (baseURL c) p ps) bb 0 (hr_attempts run) = (res, reqs)"
    using do_request_cases [OF assms(2)] by auto
  with assms(3) do_loop_built [of q env c m p "buildURL (baseURL c) p ps" bb 0 "hr_attempts run"]
  obtain ms where ms: "buildAuthRequest env ms c m p (buildURL (baseURL c) p ps) bb = Inr q" by auto
  with built_headers [OF ms] buildAuthRequest_parts [OF ms] assms(1) show ?thesis
    by (auto simp: b64_decode_encode)
qed

lemma sent_requests_signed_witness:
  "\<exists>(q :: http_request) ts sig. map_of (rq_headers q) ''Kalshi-Access-Timestamp'' = Some ts
    \<and> map_of (rq_headers q) ''Kalshi-Access-Signature'' = Some sig
    \<and> b64_decode sig = ''k'' @ rev (ts @ ''GET'' @ ''/p'')"
proof -
  obtain q where g: "rq_method q = ''GET''"
    and d: "do_request demo_env \<lparr>hr_rounds = one_round, hr_attempts = [answer 200 ''ok'']\<rparr>
      demo_client ''GET'' ''/p'' 10 0 1 None []
    = (Returned (Inr ''ok''), [q], demo_client\<lparr>limiter := (default_bucket_at 0)\<lparr>readTokens := 190\<rparr>\<rparr>)"
    using demo_success by blast
  have v: "s = k @ d" if "SignPSS (he_crypto demo_env) r k d = Inr s" for r k d s
    using that by (simp add: demo_env_def toy_crypto_def split: if_splits)
  have "\<exists>ts sig. map_of (rq_headers q) ''Kalshi-Access-Timestamp'' = Some ts
    \<and> map_of (rq_headers q) ''Kalshi-Access-Signature'' = Some sig
    \<and> b64_decode sig = PrivateKey (credentials demo_client)
        @ Sum256 (he_crypto demo_env) (ts @ rq_method q @ before_char (CHR ''?'') ''/p'')"
    by (rule sent_requests_signed [where verify = "\<lambda>k d s. s = k @ d", OF v d]) simp_all
  then have "\<exists>ts sig. map_of (rq_headers q) ''Kalshi-Access-Timestamp'' = Some ts
    \<and> map_of (rq_headers q) ''Kalshi-Access-Signature'' = Some sig
    \<and> b64_decode sig = ''k'' @ rev (ts @ ''GET'' @ ''/p'')"
    by (simp add: demo_env_def toy_crypto_def demo_client_def before_char_def g)
  then show ?thesis by blast
qed

section \<open>Reconfiguration\<close>

lemma ConfigureRateLimits_cases:
  assumes "ConfigureRateLimits env lr now cr c = (res, c')"
  shows "(\<forall>ws. res \<noteq> Configured ws) \<and> same_but_tokens c c'
     \<or> (\<exists>limits (costs :: GetAccountEndpointCostsResponse) l c2 ws. res = Configured ws \<and> same_but_tokens c c2
          \<and> c' = c2\<lparr>limiter := l, costRoutes := Some (sort_routes (cost_routes (gec_EndpointCosts costs))),
                    defaultCost := f64 (of_int (gec_DefaultCost costs))\<rparr>
          \<and> NewReadWriteTokenBucket (limiter_config limits) now = Inr l)"
proof -
  obtain o1 q1 c1 where d1: "doJSON_call dec_limits zero_limits env lr c GetAccountAPILimits = (o1, q1, c1)"
    by (metis prod_cases3)
  obtain o2 q2 c2 where d2: "doJSON_call dec_costs zero_costs env cr c1 GetAccountEndpointCosts = (o2, q2, c2)"
    by (metis prod_cases3)
  note s1 = doJSON_call_same [OF d1]
  note s2 = same_but_tokens_trans [OF s1 doJSON_call_same [OF d2]]
  show ?thesis
  proof (cases "\<exists>limits l. o1 = Returned (Inr limits) \<and> NewReadWriteTokenBucket (limiter_config limits) now = Inr l")
    case False
    then have "(\<forall>ws. res \<noteq> Configured ws) \<and> c' = c1"
      using assms by (auto simp: ConfigureRateLimits_def d1 split: outcome.splits sum.splits)
    with s1 show ?thesis by blast
  next
    case True
    then obtain limits l where l: "o1 = Returned (Inr limits)"
      "NewReadWriteTokenBucket (limiter_config limits) now = Inr l" by blast
    show ?thesis
    proof (cases "\<exists>costs. o2 = Returned (Inr costs)")
      case False
      then have "(\<forall>ws. res \<noteq> Configured ws) \<and> c' = c2"
        using assms l by (auto simp: ConfigureRateLimits_def d1 d2 split: outcome.splits sum.splits)
      with s2 show ?thesis by blast
    next
      case True
      then obtain costs where "o2 = Returned (Inr costs)" by blast
      then have "res = Configured (cost_warnings (sort_routes (cost_routes (gec_EndpointCosts costs))))"
        "c' = c2\<lparr>limiter := l, costRoutes := Some (sort_routes (cost_routes (gec_EndpointCosts costs))),
                  defaultCost := f64 (of_int (gec_DefaultCost costs))\<rparr>"
        using assms l by (simp_all add: ConfigureRateLimits_def d1 d2 Let_def)
      with s2 l(2) show ?thesis by blast
    qed
  qed
qed

text \<open>C12: \<open>ConfigureRateLimits\<close> is all or nothing: if either call or the decoding of its answer
  fails (or it panics, or still waits) the client keeps its cost table, default cost and
  limiter settings, only tokens having been spent; if it succeeds the limiter, the table and the
  default cost have been replaced together: the limiter by a full bucket for some limits of an
  answer, the table and its default by those of one answer, sorted.\<close>

theorem ConfigureRateLimits_atomic:
  assumes "ConfigureRateLimits env lr now cr c = (res, c')"
  shows "((\<forall>ws. res \<noteq> Configured ws) \<longrightarrow> same_but_tokens c c') \<and>
    ((\<exists>ws. res = Configured ws) \<longrightarrow> (\<exists>limits (costs :: GetAccountEndpointCostsResponse) l c2. same_but_tokens c c2
         \<and> c' = c2\<lparr>limiter := l,
            costRoutes := Some (sort_routes (cost_routes (gec_EndpointCosts costs))),
            defaultCost := f64 (of_int (gec_DefaultCost costs))\<rparr>
         \<and> NewReadWriteTokenBucket (limiter_config limits) now = Inr l))"
  using ConfigureRateLimits_cases [OF assms] by blast

definition limits_run :: http_run where
  "limits_run = \<lparr>hr_rounds = one_round, hr_attempts = [answer 200 ''{}'']\<rparr>"

lemma empty_object: "json_parse ''{}'' = Some (JObj [])"
  by code_simp

lemma demo_limits:
  "\<exists>q c1. doJSON_call dec_limits zero_limits demo_env limits_run demo_client GetAccountAPILimits
      = (Returned (Inr zero_limits), q, c1)"
proof -
  obtain q where "buildAuthRequest demo_env 7 demo_client ''GET'' (pathAccount @ ''/limits'')
      (buildURL (baseURL demo_client) (pathAccount @ ''/limits'') []) None = Inr q" using demo_build by blast
  then show ?thesis
    by (simp add: doJSON_call_def doJSON_def GetAccountAPILimits_def getJSON_call_def limits_run_def
        do_request_def demo_costs demo_acquire answer_def executeRequest_def finish_response_def
        Unmarshal_def empty_object dec_limits_def obj_pairs_def dec_field_def zero_limits_def)
qed

lemma limits_panic:
  assumes "doJSON_call dec_limits zero_limits env lr c GetAccountAPILimits = (Returned (Inr limits), q, c1)"
    and "RefillRate (lim_Read limits) \<le> 0 \<or> RefillRate (lim_Write limits) \<le> 0"
  shows "\<exists>msg. ConfigureRateLimits env lr now cr c = (ConfigPanic msg, c1)"
proof -
  have "f64 (of_int k) \<le> 0" if "k \<le> 0" for k :: int
    using that f64_mono [of "of_int k" 0] by simp
  then have "\<exists>msg. NewReadWriteTokenBucket (limiter_config limits) now = Inl msg"
    using assms(2) by (auto simp: NewReadWriteTokenBucket_def limiter_config_def)
  then show ?thesis by (auto simp: ConfigureRateLimits_def assms(1))
qed

lemma ConfigureRateLimits_atomic_witness:
  "\<exists>msg c1. ConfigureRateLimits demo_env limits_run 0 limits_run demo_client = (ConfigPanic msg, c1)
     \<and> same_but_tokens demo_client c1"
proof -
  obtain q c1 where d: "doJSON_call dec_limits zero_limits demo_env limits_run demo_client GetAccountAPILimits
      = (Returned (Inr zero_limits), q, c1)" using demo_limits by blast
  obtain msg where m: "ConfigureRateLimits demo_env limits_run 0 limits_run demo_client = (ConfigPanic msg, c1)"
    using limits_panic [OF d, of 0 limits_run] by (auto simp: zero_limits_def zero_BucketLimit_def)
  from ConfigureRateLimits_atomic [OF m] m show ?thesis by simp
qed

text \<open>If the account-limits answer decodes to a refill rate of zero or less for either
  bucket (an empty object does), \<open>NewClient\<close> without a custom limiter panics instead of
  falling back to the defaults as it does on an error.\<close>

theorem NewClient_panics_on_zero_rate:
  assumes "new_client_defaults cc now0 = Inr c0" and "c = foldl (\<lambda>cl opt. opt cl) c0 opts"
    and "\<not> skipAutoConfig c"
    and "doJSON_call dec_limits zero_limits env lr c GetAccountAPILimits = (Returned (Inr limits), q, c1)"
    and "RefillRate (lim_Read limits) \<le> 0 \<or> RefillRate (lim_Write limits) \<le> 0"
  shows "\<exists>msg. NewClient env now0 lr now cr cc opts = ClientPanic msg"
  using limits_panic [OF assms(4,5), of now cr] assms(1-3) by (auto simp: NewClient_def Let_def)

lemma NewClient_panics_on_zero_rate_witness:
  "\<exists>msg. NewClient demo_env 0 limits_run 0 limits_run
     \<lparr>cfg_Environment = Demo, cfg_Credentials = credentials demo_client, cfg_HTTPBaseURL = ''https://h'',
      cfg_WSBaseURL = []\<rparr> [\<lambda>cl. demo_client\<lparr>skipAutoConfig := False\<rparr>] = ClientPanic msg"
proof -
  let ?c = "demo_client\<lparr>skipAutoConfig := False\<rparr>"
  let ?cc = "\<lparr>cfg_Environment = Demo, cfg_Credentials = credentials demo_client, cfg_HTTPBaseURL = ''https://h'',
      cfg_WSBaseURL = []\<rparr> :: (string, unit) ClientConfig"
  obtain q where "buildAuthRequest demo_env 7 ?c ''GET'' (pathAccount @ ''/limits'')
      (buildURL (baseURL ?c) (pathAccount @ ''/limits'') []) None = Inr q"
    by (auto simp: buildAuthRequest_def demo_env_def demo_client_def RequestHeaders_def SignPSSText_def
      toy_crypto_def randReader_def Let_def)
  moreover have "resolveCosts ?c ''GET'' p 10 0 1 = (10, 0)" for p
    by (simp add: resolveCosts_def demo_client_def fmul_def)
  ultimately obtain c1 where d: "doJSON_call dec_limits zero_limits demo_env limits_run ?c GetAccountAPILimits
      = (Returned (Inr zero_limits), [q], c1)"
    by (simp add: doJSON_call_def doJSON_def GetAccountAPILimits_def getJSON_call_def limits_run_def
        do_request_def demo_acquire answer_def executeRequest_def finish_response_def
        Unmarshal_def empty_object dec_limits_def obj_pairs_def dec_field_def zero_limits_def)
  obtain c0 where "new_client_defaults ?cc 0 = Inr c0"
    by (auto simp: new_client_defaults_def default_bucket_at_new Let_def)
  from NewClient_panics_on_zero_rate [OF this _ _ d, of "[\<lambda>cl. ?c]" 0 limits_run] show ?thesis
    by (simp add: zero_limits_def zero_BucketLimit_def)
qed

end
