(* ===== verification/Enums.thy ===== *)
theory Enums
  imports Main
begin

text \<open>
  \<open>enums.go\<close>: the string enumerations of the API. A Go enumeration type is a string type, so a
  value may be any string; the constants are the documented values, and \<open>T_values\<close> lists those
  of type \<open>T\<close> in the order of the source.
\<close>

type_synonym Side = string

definition SideYes :: Side where "SideYes = ''yes''"
definition SideNo :: Side where "SideNo = ''no''"

definition Side_values :: "Side list" where
  "Side_values =
     [SideYes,
      SideNo]"

type_synonym Action = string

definition ActionBuy :: Action where "ActionBuy = ''buy''"
definition ActionSell :: Action where "ActionSell = ''sell''"

definition Action_values :: "Action list" where
  "Action_values =
     [ActionBuy,
      ActionSell]"

type_synonym OrderStatus = string

definition OrderStatusResting :: OrderStatus where "OrderStatusResting = ''resting''"
definition OrderStatusCanceled :: OrderStatus where "OrderStatusCanceled = ''canceled''"
definition OrderStatusExecuted :: OrderStatus where "OrderStatusExecuted = ''executed''"

definition OrderStatus_values :: "OrderStatus list" where
  "OrderStatus_values =
     [OrderStatusResting,
      OrderStatusCanceled,
      OrderStatusExecuted]"

type_synonym OrderType = string

definition OrderTypeLimit :: OrderType where "OrderTypeLimit = ''limit''"
definition OrderTypeMarket :: OrderType where "OrderTypeMarket = ''market''"

definition OrderType_values :: "OrderType list" where
  "OrderType_values =
     [OrderTypeLimit,
      OrderTypeMarket]"

type_synonym TimeInForce = string

definition TimeInForceFOK :: TimeInForce where "TimeInForceFOK = ''fill_or_kill''"
definition TimeInForceGTC :: TimeInForce where "TimeInForceGTC = ''good_till_canceled''"
definition TimeInForceIOC :: TimeInForce where "TimeInForceIOC = ''immediate_or_cancel''"

definition TimeInForce_values :: "TimeInForce list" where
  "TimeInForce_values =
     [TimeInForceFOK,
      TimeInForceGTC,
      TimeInForceIOC]"

type_synonym STPType = string

definition STPTakerAtCross :: STPType where "STPTakerAtCross = ''taker_at_cross''"
definition STPMaker :: STPType where "STPMaker = ''maker''"

definition STPType_values :: "STPType list" where
  "STPType_values =
     [STPTakerAtCross,
      STPMaker]"

type_synonym SelfTradePreventionType = STPType

type_synonym BookSide = string

definition BookSideBid :: BookSide where "BookSideBid = ''bid''"
definition BookSideAsk :: BookSide where "BookSideAsk = ''ask''"

definition BookSide_values :: "BookSide list" where
  "BookSide_values =
     [BookSideBid,
      BookSideAsk]"

type_synonym MarketStatus = string

definition MarketStatusInitialized :: MarketStatus where "MarketStatusInitialized = ''initialized''"
definition MarketStatusInactive :: MarketStatus where "MarketStatusInactive = ''inactive''"
definition MarketStatusActive :: MarketStatus where "MarketStatusActive = ''active''"
definition MarketStatusClosed :: MarketStatus where "MarketStatusClosed = ''closed''"
definition MarketStatusDetermined :: MarketStatus where "MarketStatusDetermined = ''determined''"
definition MarketStatusDisputed :: MarketStatus where "MarketStatusDisputed = ''disputed''"
definition MarketStatusAmended :: MarketStatus where "MarketStatusAmended = ''amended''"
definition MarketStatusFinalized :: MarketStatus where "MarketStatusFinalized = ''finalized''"

definition MarketStatus_values :: "MarketStatus list" where
  "MarketStatus_values =
     [MarketStatusInitialized,
      MarketStatusInactive,
      MarketStatusActive,
      MarketStatusClosed,
      MarketStatusDetermined,
      MarketStatusDisputed,
      MarketStatusAmended,
      MarketStatusFinalized]"

type_synonym MarketResult = string

definition MarketResultYes :: MarketResult where "MarketResultYes = ''yes''"
definition MarketResultNo :: MarketResult where "MarketResultNo = ''no''"
definition MarketResultScalar :: MarketResult where "MarketResultScalar = ''scalar''"
definition MarketResultVoid :: MarketResult where "MarketResultVoid = ''void''"
definition MarketResultNone :: MarketResult where "MarketResultNone = []"

definition MarketResult_values :: "MarketResult list" where
  "MarketResult_values =
     [MarketResultYes,
      MarketResultNo,
      MarketResultScalar,
      MarketResultVoid,
      MarketResultNone]"

type_synonym MarketType = string

definition MarketTypeBinary :: MarketType where "MarketTypeBinary = ''binary''"
definition MarketTypeScalar :: MarketType where "MarketTypeScalar = ''scalar''"

definition MarketType_values :: "MarketType list" where
  "MarketType_values =
     [MarketTypeBinary,
      MarketTypeScalar]"

type_synonym FeeType = string

definition FeeTypeQuadratic :: FeeType where "FeeTypeQuadratic = ''quadratic''"
definition FeeTypeQuadraticWithMaker :: FeeType where "FeeTypeQuadraticWithMaker = ''quadratic_with_maker_fees''"
definition FeeTypeQuadraticWithComboMaker :: FeeType where "FeeTypeQuadraticWithComboMaker = ''quadratic_with_combo_maker_fees''"
definition FeeTypeFlat :: FeeType where "FeeTypeFlat = ''flat''"

definition FeeType_values :: "FeeType list" where
  "FeeType_values =
     [FeeTypeQuadratic,
      FeeTypeQuadraticWithMaker,
      FeeTypeQuadraticWithComboMaker,
      FeeTypeFlat]"

type_synonym CollateralReturnType = string

definition CollateralReturnMECNET :: CollateralReturnType where "CollateralReturnMECNET = ''MECNET''"
definition CollateralReturnDIRECNET :: CollateralReturnType where "CollateralReturnDIRECNET = ''DIRECNET''"
definition CollateralReturnNone :: CollateralReturnType where "CollateralReturnNone = []"

definition CollateralReturnType_values :: "CollateralReturnType list" where
  "CollateralReturnType_values =
     [CollateralReturnMECNET,
      CollateralReturnDIRECNET,
      CollateralReturnNone]"

type_synonym MarketLifecycleEventType = string

definition MLCreated :: MarketLifecycleEventType where "MLCreated = ''created''"
definition MLActivated :: MarketLifecycleEventType where "MLActivated = ''activated''"
definition MLDeactivated :: MarketLifecycleEventType where "MLDeactivated = ''deactivated''"
definition MLCloseDateUpdated :: MarketLifecycleEventType where "MLCloseDateUpdated = ''close_date_updated''"
definition MLDetermined :: MarketLifecycleEventType where "MLDetermined = ''determined''"
definition MLSettled :: MarketLifecycleEventType where "MLSettled = ''settled''"
definition MLFractionalTradingUpdated :: MarketLifecycleEventType where "MLFractionalTradingUpdated = ''fractional_trading_updated''"
definition MLPriceLevelStructUpdated :: MarketLifecycleEventType where "MLPriceLevelStructUpdated = ''price_level_structure_updated''"
definition MLMetadataUpdated :: MarketLifecycleEventType where "MLMetadataUpdated = ''metadata_updated''"

definition MarketLifecycleEventType_values :: "MarketLifecycleEventType list" where
  "MarketLifecycleEventType_values =
     [MLCreated,
      MLActivated,
      MLDeactivated,
      MLCloseDateUpdated,
      MLDetermined,
      MLSettled,
      MLFractionalTradingUpdated,
      MLPriceLevelStructUpdated,
      MLMetadataUpdated]"

type_synonym OrderGroupEventType = string

definition OGCreated :: OrderGroupEventType where "OGCreated = ''created''"
definition OGTriggered :: OrderGroupEventType where "OGTriggered = ''triggered''"
definition OGReset :: OrderGroupEventType where "OGReset = ''reset''"
definition OGDeleted :: OrderGroupEventType where "OGDeleted = ''deleted''"
definition OGLimitUpdated :: OrderGroupEventType where "OGLimitUpdated = ''limit_updated''"

definition OrderGroupEventType_values :: "OrderGroupEventType list" where
  "OrderGroupEventType_values =
     [OGCreated,
      OGTriggered,
      OGReset,
      OGDeleted,
      OGLimitUpdated]"

type_synonym WSCmd = string

definition WSCmdSubscribe :: WSCmd where "WSCmdSubscribe = ''subscribe''"
definition WSCmdUnsubscribe :: WSCmd where "WSCmdUnsubscribe = ''unsubscribe''"
definition WSCmdUpdateSubscription :: WSCmd where "WSCmdUpdateSubscription = ''update_subscription''"
definition WSCmdListSubscriptions :: WSCmd where "WSCmdListSubscriptions = ''list_subscriptions''"

definition WSCmd_values :: "WSCmd list" where
  "WSCmd_values =
     [WSCmdSubscribe,
      WSCmdUnsubscribe,
      WSCmdUpdateSubscription,
      WSCmdListSubscriptions]"

type_synonym WSUpdateAction = string

definition WSUpdateAddMarkets :: WSUpdateAction where "WSUpdateAddMarkets = ''add_markets''"
definition WSUpdateDeleteMarkets :: WSUpdateAction where "WSUpdateDeleteMarkets = ''delete_markets''"
definition WSUpdateGetSnapshot :: WSUpdateAction where "WSUpdateGetSnapshot = ''get_snapshot''"
definition WSUpdateSubscribeIndices :: WSUpdateAction where "WSUpdateSubscribeIndices = ''subscribe_indices''"
definition WSUpdateUnsubscribeIndices :: WSUpdateAction where "WSUpdateUnsubscribeIndices = ''unsubscribe_indices''"
definition WSUpdateIndexlist :: WSUpdateAction where "WSUpdateIndexlist = ''indexlist''"
definition WSUpdateSubscribeUnderlyings :: WSUpdateAction where "WSUpdateSubscribeUnderlyings = ''subscribe_underlyings''"
definition WSUpdateUnsubscribeUnderlyings :: WSUpdateAction where "WSUpdateUnsubscribeUnderlyings = ''unsubscribe_underlyings''"
definition WSUpdateUnderlyingList :: WSUpdateAction where "WSUpdateUnderlyingList = ''underlying_list''"

definition WSUpdateAction_values :: "WSUpdateAction list" where
  "WSUpdateAction_values =
     [WSUpdateAddMarkets,
      WSUpdateDeleteMarkets,
      WSUpdateGetSnapshot,
      WSUpdateSubscribeIndices,
      WSUpdateUnsubscribeIndices,
      WSUpdateIndexlist,
      WSUpdateSubscribeUnderlyings,
      WSUpdateUnsubscribeUnderlyings,
      WSUpdateUnderlyingList]"

type_synonym WSMessageType = string

definition WSMsgOrderbookSnapshot :: WSMessageType where "WSMsgOrderbookSnapshot = ''orderbook_snapshot''"
definition WSMsgOrderbookDelta :: WSMessageType where "WSMsgOrderbookDelta = ''orderbook_delta''"
definition WSMsgTicker :: WSMessageType where "WSMsgTicker = ''ticker''"
definition WSMsgTrade :: WSMessageType where "WSMsgTrade = ''trade''"
definition WSMsgFill :: WSMessageType where "WSMsgFill = ''fill''"
definition WSMsgMarketPosition :: WSMessageType where "WSMsgMarketPosition = ''market_position''"
definition WSMsgMarketLifecycleV2 :: WSMessageType where "WSMsgMarketLifecycleV2 = ''market_lifecycle_v2''"
definition WSMsgEventLifecycle :: WSMessageType where "WSMsgEventLifecycle = ''event_lifecycle''"
definition WSMsgMultivariateMarketLifecycle :: WSMessageType where "WSMsgMultivariateMarketLifecycle = ''multivariate_market_lifecycle''"
definition WSMsgUserOrder :: WSMessageType where "WSMsgUserOrder = ''user_order''"
definition WSMsgOrderGroupUpdates :: WSMessageType where "WSMsgOrderGroupUpdates = ''order_group_updates''"
definition WSMsgRFQCreated :: WSMessageType where "WSMsgRFQCreated = ''rfq_created''"
definition WSMsgRFQDeleted :: WSMessageType where "WSMsgRFQDeleted = ''rfq_deleted''"
definition WSMsgQuoteCreated :: WSMessageType where "WSMsgQuoteCreated = ''quote_created''"
definition WSMsgQuoteAccepted :: WSMessageType where "WSMsgQuoteAccepted = ''quote_accepted''"
definition WSMsgQuoteExecuted :: WSMessageType where "WSMsgQuoteExecuted = ''quote_executed''"
definition WSMsgEventFeeUpdate :: WSMessageType where "WSMsgEventFeeUpdate = ''event_fee_update''"
definition WSMsgCfbenchmarksValue :: WSMessageType where "WSMsgCfbenchmarksValue = ''cfbenchmarks_value''"
definition WSMsgCfbenchmarksValueIndexlist :: WSMessageType where "WSMsgCfbenchmarksValueIndexlist = ''cfbenchmarks_value_indexlist''"
definition WSMsgCfbenchmarksValue5Hz :: WSMessageType where "WSMsgCfbenchmarksValue5Hz = ''cfbenchmarks_value_5hz''"
definition WSMsgCfbenchmarksValue5HzIndexlist :: WSMessageType where "WSMsgCfbenchmarksValue5HzIndexlist = ''cfbenchmarks_value_5hz_indexlist''"
definition WSMsgPythValue :: WSMessageType where "WSMsgPythValue = ''pyth_value''"
definition WSMsgPythValueUnderlyingList :: WSMessageType where "WSMsgPythValueUnderlyingList = ''pyth_value_underlying_list''"

definition WSMessageType_values :: "WSMessageType list" where
  "WSMessageType_values =
     [WSMsgOrderbookSnapshot,
      WSMsgOrderbookDelta,
      WSMsgTicker,
      WSMsgTrade,
      WSMsgFill,
      WSMsgMarketPosition,
      WSMsgMarketLifecycleV2,
      WSMsgEventLifecycle,
      WSMsgMultivariateMarketLifecycle,
      WSMsgUserOrder,
      WSMsgOrderGroupUpdates,
      WSMsgRFQCreated,
      WSMsgRFQDeleted,
      WSMsgQuoteCreated,
      WSMsgQuoteAccepted,
      WSMsgQuoteExecuted,
      WSMsgEventFeeUpdate,
      WSMsgCfbenchmarksValue,
      WSMsgCfbenchmarksValueIndexlist,
      WSMsgCfbenchmarksValue5Hz,
      WSMsgCfbenchmarksValue5HzIndexlist,
      WSMsgPythValue,
      WSMsgPythValueUnderlyingList]"

type_synonym WSResponseType = string

definition WSRespSubscribed :: WSResponseType where "WSRespSubscribed = ''subscribed''"
definition WSRespOk :: WSResponseType where "WSRespOk = ''ok''"
definition WSRespUnsubscribed :: WSResponseType where "WSRespUnsubscribed = ''unsubscribed''"
definition WSRespError :: WSResponseType where "WSRespError = ''error''"

definition WSResponseType_values :: "WSResponseType list" where
  "WSResponseType_values =
     [WSRespSubscribed,
      WSRespOk,
      WSRespUnsubscribed,
      WSRespError]"

type_synonym ApiKeyScope = string

definition ApiKeyScopeRead :: ApiKeyScope where "ApiKeyScopeRead = ''read''"
definition ApiKeyScopeWrite :: ApiKeyScope where "ApiKeyScopeWrite = ''write''"
definition ApiKeyScopeReadBlockTradeAccept :: ApiKeyScope where "ApiKeyScopeReadBlockTradeAccept = ''read::block_trade_accept''"
definition ApiKeyScopeReadPortfolioBalance :: ApiKeyScope where "ApiKeyScopeReadPortfolioBalance = ''read::portfolio_balance''"
definition ApiKeyScopeWriteTrade :: ApiKeyScope where "ApiKeyScopeWriteTrade = ''write::trade''"
definition ApiKeyScopeWriteTransfer :: ApiKeyScope where "ApiKeyScopeWriteTransfer = ''write::transfer''"
definition ApiKeyScopeWriteBlockTradeAccept :: ApiKeyScope where "ApiKeyScopeWriteBlockTradeAccept = ''write::block_trade_accept''"

definition ApiKeyScope_values :: "ApiKeyScope list" where
  "ApiKeyScope_values =
     [ApiKeyScopeRead,
      ApiKeyScopeWrite,
      ApiKeyScopeReadBlockTradeAccept,
      ApiKeyScopeReadPortfolioBalance,
      ApiKeyScopeWriteTrade,
      ApiKeyScopeWriteTransfer,
      ApiKeyScopeWriteBlockTradeAccept]"

type_synonym ExchangeInstance = string

definition ExchangeInstanceEventContract :: ExchangeInstance where "ExchangeInstanceEventContract = ''event_contract''"
definition ExchangeInstanceMargined :: ExchangeInstance where "ExchangeInstanceMargined = ''margined''"

definition ExchangeInstance_values :: "ExchangeInstance list" where
  "ExchangeInstance_values =
     [ExchangeInstanceEventContract,
      ExchangeInstanceMargined]"

type_synonym RestingMarginReservation = string

definition RestingMarginReservationMax :: RestingMarginReservation where "RestingMarginReservationMax = ''max''"
definition RestingMarginReservationSum :: RestingMarginReservation where "RestingMarginReservationSum = ''sum''"

definition RestingMarginReservation_values :: "RestingMarginReservation list" where
  "RestingMarginReservation_values =
     [RestingMarginReservationMax,
      RestingMarginReservationSum]"

type_synonym IntraExchangeInstanceTransferStatus = string

definition IntraExchangeInstanceTransferStatusPending :: IntraExchangeInstanceTransferStatus where "IntraExchangeInstanceTransferStatusPending = ''pending''"
definition IntraExchangeInstanceTransferStatusComplete :: IntraExchangeInstanceTransferStatus where "IntraExchangeInstanceTransferStatusComplete = ''complete''"

definition IntraExchangeInstanceTransferStatus_values :: "IntraExchangeInstanceTransferStatus list" where
  "IntraExchangeInstanceTransferStatus_values =
     [IntraExchangeInstanceTransferStatusPending,
      IntraExchangeInstanceTransferStatusComplete]"

type_synonym UserFilter = string

definition UserFilterSelf :: UserFilter where "UserFilterSelf = ''self''"

definition UserFilter_values :: "UserFilter list" where
  "UserFilter_values =
     [UserFilterSelf]"

lemmas enum_defs =
  SideYes_def
  SideNo_def
  ActionBuy_def
  ActionSell_def
  OrderStatusResting_def
  OrderStatusCanceled_def
  OrderStatusExecuted_def
  OrderTypeLimit_def
  OrderTypeMarket_def
  TimeInForceFOK_def
  TimeInForceGTC_def
  TimeInForceIOC_def
  STPTakerAtCross_def
  STPMaker_def
  BookSideBid_def
  BookSideAsk_def
  MarketStatusInitialized_def
  MarketStatusInactive_def
  MarketStatusActive_def
  MarketStatusClosed_def
  MarketStatusDetermined_def
  MarketStatusDisputed_def
  MarketStatusAmended_def
  MarketStatusFinalized_def
  MarketResultYes_def
  MarketResultNo_def
  MarketResultScalar_def
  MarketResultVoid_def
  MarketResultNone_def
  MarketTypeBinary_def
  MarketTypeScalar_def
  FeeTypeQuadratic_def
  FeeTypeQuadraticWithMaker_def
  FeeTypeQuadraticWithComboMaker_def
  FeeTypeFlat_def
  CollateralReturnMECNET_def
  CollateralReturnDIRECNET_def
  CollateralReturnNone_def
  MLCreated_def
  MLActivated_def
  MLDeactivated_def
  MLCloseDateUpdated_def
  MLDetermined_def
  MLSettled_def
  MLFractionalTradingUpdated_def
  MLPriceLevelStructUpdated_def
  MLMetadataUpdated_def
  OGCreated_def
  OGTriggered_def
  OGReset_def
  OGDeleted_def
  OGLimitUpdated_def
  WSCmdSubscribe_def
  WSCmdUnsubscribe_def
  WSCmdUpdateSubscription_def
  WSCmdListSubscriptions_def
  WSUpdateAddMarkets_def
  WSUpdateDeleteMarkets_def
  WSUpdateGetSnapshot_def
  WSUpdateSubscribeIndices_def
  WSUpdateUnsubscribeIndices_def
  WSUpdateIndexlist_def
  WSUpdateSubscribeUnderlyings_def
  WSUpdateUnsubscribeUnderlyings_def
  WSUpdateUnderlyingList_def
  WSMsgOrderbookSnapshot_def
  WSMsgOrderbookDelta_def
  WSMsgTicker_def
  WSMsgTrade_def
  WSMsgFill_def
  WSMsgMarketPosition_def
  WSMsgMarketLifecycleV2_def
  WSMsgEventLifecycle_def
  WSMsgMultivariateMarketLifecycle_def
  WSMsgUserOrder_def
  WSMsgOrderGroupUpdates_def
  WSMsgRFQCreated_def
  WSMsgRFQDeleted_def
  WSMsgQuoteCreated_def
  WSMsgQuoteAccepted_def
  WSMsgQuoteExecuted_def
  WSMsgEventFeeUpdate_def
  WSMsgCfbenchmarksValue_def
  WSMsgCfbenchmarksValueIndexlist_def
  WSMsgCfbenchmarksValue5Hz_def
  WSMsgCfbenchmarksValue5HzIndexlist_def
  WSMsgPythValue_def
  WSMsgPythValueUnderlyingList_def
  WSRespSubscribed_def
  WSRespOk_def
  WSRespUnsubscribed_def
  WSRespError_def
  ApiKeyScopeRead_def
  ApiKeyScopeWrite_def
  ApiKeyScopeReadBlockTradeAccept_def
  ApiKeyScopeReadPortfolioBalance_def
  ApiKeyScopeWriteTrade_def
  ApiKeyScopeWriteTransfer_def
  ApiKeyScopeWriteBlockTradeAccept_def
  ExchangeInstanceEventContract_def
  ExchangeInstanceMargined_def
  RestingMarginReservationMax_def
  RestingMarginReservationSum_def
  IntraExchangeInstanceTransferStatusPending_def
  IntraExchangeInstanceTransferStatusComplete_def
  UserFilterSelf_def

lemmas enum_values_defs =
  Side_values_def
  Action_values_def
  OrderStatus_values_def
  OrderType_values_def
  TimeInForce_values_def
  STPType_values_def
  BookSide_values_def
  MarketStatus_values_def
  MarketResult_values_def
  MarketType_values_def
  FeeType_values_def
  CollateralReturnType_values_def
  MarketLifecycleEventType_values_def
  OrderGroupEventType_values_def
  WSCmd_values_def
  WSUpdateAction_values_def
  WSMessageType_values_def
  WSResponseType_values_def
  ApiKeyScope_values_def
  ExchangeInstance_values_def
  RestingMarginReservation_values_def
  IntraExchangeInstanceTransferStatus_values_def
  UserFilter_values_def

end
