(* ===== verification/WSTypes.thy ===== *)
theory WSTypes
  imports GoJson Enums "HOL-Library.Word"
begin

text \<open>
  The data of the WebSocket client: \<open>ws_types.go\<close>, \<open>ws_options.go\<close> and the commands and
  response bodies of \<open>ws_messages_generated.go\<close>, with their JSON encoding (outgoing) and decoding
  (incoming). A set of tickers, \<open>map[string]struct{}\<close> in the code, is a list without
  duplicates whose order is the map's iteration order in the run at hand.
\<close>

section \<open>Channel state\<close>

definition wsPathSuffix :: string where "wsPathSuffix = ''/trade-api/ws/v2''"

record ChannelState =
  cs_Name :: string
  cs_Markets :: "string list"
  cs_PendingMarkets :: "string list"
  cs_SID :: "goint option"
  cs_Seq :: goint
  cs_Global :: bool

definition NewChannelState :: "string \<Rightarrow> ChannelState" where
  "NewChannelState name =
     \<lparr>cs_Name = name, cs_Markets = [], cs_PendingMarkets = [], cs_SID = None, cs_Seq = 0, cs_Global = False\<rparr>"

text \<open>\<open>set[t] = struct{}{}\<close> for each ticker in turn, and \<open>delete(set, t)\<close>.\<close>

definition set_add :: "string list \<Rightarrow> string list \<Rightarrow> string list" where
  "set_add ts s = foldl (\<lambda>s t. if t \<in> set s then s else s @ [t]) s ts"

definition set_remove :: "string list \<Rightarrow> string list \<Rightarrow> string list" where
  "set_remove ts s = filter (\<lambda>t. t \<notin> set ts) s"

section \<open>Options\<close>

record subscribeOpts =
  sendInitialSnapshot :: bool

type_synonym SubscribeOption = "subscribeOpts \<Rightarrow> subscribeOpts"

definition applyOpts :: "SubscribeOption list \<Rightarrow> subscribeOpts" where
  "applyOpts opts = foldl (\<lambda>o' opt. opt o') \<lparr>sendInitialSnapshot = False\<rparr> opts"

definition WithInitialSnapshot :: SubscribeOption where
  "WithInitialSnapshot o' = o'\<lparr>sendInitialSnapshot := True\<rparr>"

section \<open>Outgoing commands\<close>

record SubscribeParams =
  sp_Channels :: "string list"
  sp_IndexIds :: "string list"
  sp_MarketID :: string
  sp_MarketIds :: "string list"
  sp_MarketTicker :: string
  sp_MarketTickers :: "string list"
  sp_SendInitialSnapshot :: bool
  sp_ShardFactor :: goint
  sp_ShardKey :: goint
  sp_SkipTickerAck :: bool
  sp_UnderlyingTickers :: "string list"
  sp_UseYesPrice :: bool

record UnsubscribeParams =
  up_SIDs :: "goint list"

record UpdateSubParams =
  us_Action :: WSUpdateAction
  us_IndexIds :: "string list"
  us_MarketID :: string
  us_MarketIds :: "string list"
  us_MarketTicker :: string
  us_MarketTickers :: "string list"
  us_SendInitialSnapshot :: bool
  us_SID :: goint
  us_SIDs :: "goint list"

datatype ws_params =
    PSubscribe SubscribeParams
  | PUnsubscribe UnsubscribeParams
  | PUpdate UpdateSubParams

record WSCommand =
  cmd_ID :: goint
  cmd_Cmd :: WSCmd
  cmd_Params :: ws_params

text \<open>Struct literals name some fields; the others have their zero values.\<close>

definition zero_SubscribeParams :: SubscribeParams where
  "zero_SubscribeParams =
     \<lparr>sp_Channels = [], sp_IndexIds = [], sp_MarketID = [], sp_MarketIds = [], sp_MarketTicker = [],
      sp_MarketTickers = [], sp_SendInitialSnapshot = False, sp_ShardFactor = 0, sp_ShardKey = 0,
      sp_SkipTickerAck = False, sp_UnderlyingTickers = [], sp_UseYesPrice = False\<rparr>"

definition zero_UpdateSubParams :: UpdateSubParams where
  "zero_UpdateSubParams =
     \<lparr>us_Action = [], us_IndexIds = [], us_MarketID = [], us_MarketIds = [], us_MarketTicker = [],
      us_MarketTickers = [], us_SendInitialSnapshot = False, us_SID = 0, us_SIDs = []\<rparr>"

text \<open>Fields with the omitempty option are left out when they have the zero value.\<close>

definition j_strings :: "string list \<Rightarrow> json" where "j_strings ss = JArr (map JStr ss)"
definition j_ints :: "goint list \<Rightarrow> json" where "j_ints is = JArr (map JInt is)"

definition opt_str :: "string \<Rightarrow> string \<Rightarrow> (string \<times> json) list" where
  "opt_str k s = (if s = [] then [] else [(k, JStr s)])"
definition opt_strs :: "string \<Rightarrow> string list \<Rightarrow> (string \<times> json) list" where
  "opt_strs k ss = (if ss = [] then [] else [(k, j_strings ss)])"
definition opt_int :: "string \<Rightarrow> goint \<Rightarrow> (string \<times> json) list" where
  "opt_int k i = (if i = 0 then [] else [(k, JInt i)])"
definition opt_ints :: "string \<Rightarrow> goint list \<Rightarrow> (string \<times> json) list" where
  "opt_ints k is = (if is = [] then [] else [(k, j_ints is)])"
definition opt_bool :: "string \<Rightarrow> bool \<Rightarrow> (string \<times> json) list" where
  "opt_bool k b = (if b then [(k, JBool True)] else [])"

definition SubscribeParams_json :: "SubscribeParams \<Rightarrow> json" where
  "SubscribeParams_json p = JObj ([(''channels'', j_strings (sp_Channels p))]
     @ opt_strs ''index_ids'' (sp_IndexIds p) @ opt_str ''market_id'' (sp_MarketID p)
     @ opt_strs ''market_ids'' (sp_MarketIds p) @ opt_str ''market_ticker'' (sp_MarketTicker p)
     @ opt_strs ''market_tickers'' (sp_MarketTickers p)
     @ opt_bool ''send_initial_snapshot'' (sp_SendInitialSnapshot p)
     @ opt_int ''shard_factor'' (sp_ShardFactor p) @ opt_int ''shard_key'' (sp_ShardKey p)
     @ opt_bool ''skip_ticker_ack'' (sp_SkipTickerAck p)
     @ opt_strs ''underlying_tickers'' (sp_UnderlyingTickers p)
     @ opt_bool ''use_yes_price'' (sp_UseYesPrice p))"

definition UnsubscribeParams_json :: "UnsubscribeParams \<Rightarrow> json" where
  "UnsubscribeParams_json p = JObj [(''sids'', j_ints (up_SIDs p))]"

definition UpdateSubParams_json :: "UpdateSubParams \<Rightarrow> json" where
  "UpdateSubParams_json p = JObj ([(''action'', JStr (us_Action p))]
     @ opt_strs ''index_ids'' (us_IndexIds p) @ opt_str ''market_id'' (us_MarketID p)
     @ opt_strs ''market_ids'' (us_MarketIds p) @ opt_str ''market_ticker'' (us_MarketTicker p)
     @ opt_strs ''market_tickers'' (us_MarketTickers p)
     @ opt_bool ''send_initial_snapshot'' (us_SendInitialSnapshot p)
     @ opt_int ''sid'' (us_SID p) @ opt_ints ''sids'' (us_SIDs p))"

definition WSCommand_json :: "WSCommand \<Rightarrow> json" where
  "WSCommand_json c = JObj [(''id'', JInt (cmd_ID c)), (''cmd'', JStr (cmd_Cmd c)),
     (''params'', case cmd_Params c of PSubscribe p \<Rightarrow> SubscribeParams_json p
        | PUnsubscribe p \<Rightarrow> UnsubscribeParams_json p | PUpdate p \<Rightarrow> UpdateSubParams_json p)]"

section \<open>Incoming messages\<close>

record WSMessage =
  msg_Type :: WSMessageType
  msg_ID :: goint
  msg_SID :: goint
  msg_Seq :: goint
  msg_Msg :: "json option"   \<comment> \<open>None is the empty RawMessage\<close>

definition zero_WSMessage :: WSMessage where
  "zero_WSMessage = \<lparr>msg_Type = [], msg_ID = 0, msg_SID = 0, msg_Seq = 0, msg_Msg = None\<rparr>"

definition dec_WSMessage :: "json \<Rightarrow> WSMessage \<times> bool" where
  "dec_WSMessage j =
     (case obj_pairs j of (kvs, e0) \<Rightarrow>
      (case dec_field ''type'' dec_string [] kvs of (ty, e1) \<Rightarrow>
      (case dec_field ''id'' dec_int 0 kvs of (i, e2) \<Rightarrow>
      (case dec_field ''sid'' dec_int 0 kvs of (s, e3) \<Rightarrow>
      (case dec_field ''seq'' dec_int 0 kvs of (q, e4) \<Rightarrow>
      (case dec_field ''msg'' dec_raw None kvs of (m, e5) \<Rightarrow>
        (\<lparr>msg_Type = ty, msg_ID = i, msg_SID = s, msg_Seq = q, msg_Msg = m\<rparr>,
         e0 \<or> e1 \<or> e2 \<or> e3 \<or> e4 \<or> e5)))))))"

record SubscribedBody =
  sb_Channel :: string
  sb_SID :: goint

definition dec_SubscribedBody :: "json \<Rightarrow> SubscribedBody \<times> bool" where
  "dec_SubscribedBody j =
     (case obj_pairs j of (kvs, e0) \<Rightarrow>
      (case dec_field ''channel'' dec_string [] kvs of (ch, e1) \<Rightarrow>
      (case dec_field ''sid'' dec_int 0 kvs of (s, e2) \<Rightarrow>
        (\<lparr>sb_Channel = ch, sb_SID = s\<rparr>, e0 \<or> e1 \<or> e2))))"

record OkBody =
  ok_MarketIds :: "string list"
  ok_MarketTickers :: "string list"

definition dec_OkBody :: "json \<Rightarrow> OkBody \<times> bool" where
  "dec_OkBody j =
     (case obj_pairs j of (kvs, e0) \<Rightarrow>
      (case dec_field ''market_ids'' dec_strings [] kvs of (is, e1) \<Rightarrow>
      (case dec_field ''market_tickers'' dec_strings [] kvs of (ts, e2) \<Rightarrow>
        (\<lparr>ok_MarketIds = is, ok_MarketTickers = ts\<rparr>, e0 \<or> e1 \<or> e2))))"

record WSErrorBody =
  eb_Code :: goint
  eb_Msg :: string

definition dec_WSErrorBody :: "json \<Rightarrow> WSErrorBody \<times> bool" where
  "dec_WSErrorBody j =
     (case obj_pairs j of (kvs, e0) \<Rightarrow>
      (case dec_field ''code'' dec_int 0 kvs of (co, e1) \<Rightarrow>
      (case dec_field ''msg'' dec_string [] kvs of (m, e2) \<Rightarrow>
        (\<lparr>eb_Code = co, eb_Msg = m\<rparr>, e0 \<or> e1 \<or> e2))))"

text \<open>\<open>json.Unmarshal\<close> of a message's body: an empty body is an error.\<close>

definition unmarshal_body :: "(json \<Rightarrow> 'a \<times> bool) \<Rightarrow> json option \<Rightarrow> 'a option" where
  "unmarshal_body dec m = (case m of None \<Rightarrow> None | Some j \<Rightarrow>
     (case dec j of (v, bad) \<Rightarrow> if bad then None else Some v))"

definition MsgTypeToChannel :: "(WSMessageType \<times> string list) list" where
  "MsgTypeToChannel =
     [(WSMsgCfbenchmarksValue, [''cfbenchmarks_value'']),
      (WSMsgCfbenchmarksValue5Hz, [''cfbenchmarks_value_5hz'']),
      (WSMsgCfbenchmarksValue5HzIndexlist, [''cfbenchmarks_value_5hz'']),
      (WSMsgCfbenchmarksValueIndexlist, [''cfbenchmarks_value'']),
      (WSMsgEventFeeUpdate, [''market_lifecycle_v2'']),
      (WSMsgEventLifecycle, [''market_lifecycle_v2'', ''multivariate_market_lifecycle'']),
      (WSMsgFill, [''fill'']),
      (WSMsgMarketLifecycleV2, [''market_lifecycle_v2'']),
      (WSMsgMarketPosition, [''market_positions'']),
      (WSMsgMultivariateMarketLifecycle, [''multivariate_market_lifecycle'']),
      (WSMsgOrderGroupUpdates, [''order_group_updates'']),
      (WSMsgOrderbookDelta, [''orderbook_delta'']),
      (WSMsgOrderbookSnapshot, [''orderbook_delta'']),
      (WSMsgPythValue, [''pyth_value'']),
      (WSMsgPythValueUnderlyingList, [''pyth_value'']),
      (WSMsgQuoteAccepted, [''communications'']),
      (WSMsgQuoteCreated, [''communications'']),
      (WSMsgQuoteExecuted, [''communications'']),
      (WSMsgRFQCreated, [''communications'']),
      (WSMsgRFQDeleted, [''communications'']),
      (WSMsgTicker, [''ticker'']),
      (WSMsgTrade, [''trade'']),
      (WSMsgUserOrder, [''user_orders''])]"

section \<open>Facts about ticker sets\<close>

lemma set_set_add [simp]: "set (set_add ts s) = set s \<union> set ts"
proof -
  have "set (foldl (\<lambda>s t. if t \<in> set s then s else s @ [t]) s ts) = set s \<union> set ts"
    by (induction ts arbitrary: s) auto
  then show ?thesis by (simp add: set_add_def)
qed

lemma distinct_set_add [simp]: "distinct s \<Longrightarrow> distinct (set_add ts s)"
proof -
  have "distinct s \<Longrightarrow> distinct (foldl (\<lambda>s t. if t \<in> set s then s else s @ [t]) s ts)"
    by (induction ts arbitrary: s) auto
  then show "distinct s \<Longrightarrow> ?thesis" by (simp add: set_add_def)
qed

lemma set_add_Nil [simp]: "set_add [] s = s"
  by (simp add: set_add_def)

lemma set_add_distinct: "distinct ts \<Longrightarrow> set_add ts [] = ts"
proof -
  have "distinct (s @ ts) \<Longrightarrow> foldl (\<lambda>s t. if t \<in> set s then s else s @ [t]) s ts = s @ ts" for s
    by (induction ts arbitrary: s) auto
  from this [of "[]"] show "distinct ts \<Longrightarrow> ?thesis" by (simp add: set_add_def)
qed

lemma set_set_remove [simp]: "set (set_remove ts s) = set s - set ts"
  by (auto simp: set_remove_def)

lemma distinct_set_remove [simp]: "distinct s \<Longrightarrow> distinct (set_remove ts s)"
  by (simp add: set_remove_def)

end
