(* ===== verification/WSClient.thy ===== *)
theory WSClient
  imports WSTypes Config
begin

text \<open>
  \<open>ws_client.go\<close>: the state of the WebSocket client, its atomic sections, and the operations
  composed of them.

  \<^item> The \<open>*ChannelState\<close> pointers that the maps share are addresses into the store \<open>ws_heap\<close>;
    maps from names and subscription ids hold addresses.
  \<^item> Everything between two changes of the mutex is one atomic section. The sections other
    goroutines run while an operation has released the mutex are its input: a \<open>window\<close> gives
    those of one send, and what the write to the connection returned.
  \<^item> \<open>ws_trace\<close> records what leaves the client: commands written to a connection, messages put
    on the message channel, calls of the two callbacks.
\<close>

section \<open>State\<close>

datatype ws_event =
    Sent nat WSCommand          \<comment> \<open>connection, command\<close>
  | Dispatched string           \<comment> \<open>raw message put on msgCh\<close>
  | OnDisconnect
  | OnReconnect

record ('k, 'r) WSClient =
  ws_cfg :: "('k, 'r) ClientConfig"
  ws_conn :: "nat option"
  ws_msgChSize :: goint
  ws_msgID :: goint
  ws_channels :: "(string \<times> nat) list"
  ws_sidMap :: "(goint \<times> nat) list"
  ws_pendingInit :: "(goint \<times> string) list"
  ws_heap :: "ChannelState list"
  ws_readLimit :: goint
  ws_minBackoff :: duration
  ws_maxBackoff :: duration
  ws_hasOnDisconnect :: bool
  ws_hasOnReconnect :: bool
  ws_closed :: bool
  ws_forceReconnect :: bool
  ws_trace :: "ws_event list"

type_synonym ('k, 'r) WSClientOption = "('k, 'r) WSClient \<Rightarrow> ('k, 'r) WSClient"

definition WithWSMsgBufSize :: "goint \<Rightarrow> ('k, 'r) WSClientOption" where
  "WithWSMsgBufSize n c = c\<lparr>ws_msgChSize := n\<rparr>"

definition WithWSReadLimit :: "goint \<Rightarrow> ('k, 'r) WSClientOption" where
  "WithWSReadLimit bytes c = c\<lparr>ws_readLimit := bytes\<rparr>"

definition WithWSBackoff :: "duration \<Rightarrow> duration \<Rightarrow> ('k, 'r) WSClientOption" where
  "WithWSBackoff lo hi c = c\<lparr>ws_minBackoff := lo, ws_maxBackoff := hi\<rparr>"

definition NewWSClient ::
  "('k, 'r) ClientConfig \<Rightarrow> ('k, 'r) WSClientOption list \<Rightarrow> ('k, 'r) WSClient" where
  "NewWSClient cc opts =
     foldl (\<lambda>c opt. opt c)
       \<lparr>ws_cfg = cc, ws_conn = None, ws_msgChSize = 4096, ws_msgID = 0, ws_channels = [],
        ws_sidMap = [], ws_pendingInit = [], ws_heap = [], ws_readLimit = 0,
        ws_minBackoff = 1000000000, ws_maxBackoff = 32000000000, ws_hasOnDisconnect = False,
        ws_hasOnReconnect = False, ws_closed = False, ws_forceReconnect = False, ws_trace = []\<rparr>
       opts"

definition Connected :: "('k, 'r) WSClient \<Rightarrow> bool" where
  "Connected c = (ws_conn c \<noteq> None)"

definition state_at :: "('k, 'r) WSClient \<Rightarrow> nat \<Rightarrow> ChannelState" where
  "state_at c a = ws_heap c ! a"

definition upd_state ::
  "nat \<Rightarrow> (ChannelState \<Rightarrow> ChannelState) \<Rightarrow> ('k, 'r) WSClient \<Rightarrow> ('k, 'r) WSClient" where
  "upd_state a f c = c\<lparr>ws_heap := (ws_heap c)[a := f (ws_heap c ! a)]\<rparr>"

section \<open>Pending subscribes\<close>

fun pending_find :: "string \<Rightarrow> (goint \<times> string) list \<Rightarrow> goint option" where
  "pending_find ch [] = None"
| "pending_find ch ((i, name) # m) = (if name = ch then Some i else pending_find ch m)"

definition pendingInitForChannel :: "string \<Rightarrow> ('k, 'r) WSClient \<Rightarrow> goint \<times> bool" where
  "pendingInitForChannel ch c = (case pending_find ch (ws_pendingInit c) of
      Some i \<Rightarrow> (i, True) | None \<Rightarrow> (0, False))"

definition deletePendingInitForChannel ::
  "string \<Rightarrow> ('k, 'r) WSClient \<Rightarrow> ('k, 'r) WSClient" where
  "deletePendingInitForChannel ch c = (case pending_find ch (ws_pendingInit c) of
      Some i \<Rightarrow> c\<lparr>ws_pendingInit := AList.delete i (ws_pendingInit c)\<rparr> | None \<Rightarrow> c)"

section \<open>Atomic sections\<close>

text \<open>\<open>state = NewChannelState(ch)\<close> and \<open>c.channels[ch] = state\<close>, with the state's first contents.\<close>

definition new_channel ::
  "string \<Rightarrow> bool \<Rightarrow> string list \<Rightarrow> ('k, 'r) WSClient \<Rightarrow> ('k, 'r) WSClient" where
  "new_channel ch global tickers c =
     c\<lparr>ws_channels := AList.update ch (length (ws_heap c)) (ws_channels c),
       ws_heap := ws_heap c @ [(NewChannelState ch)\<lparr>cs_Global := global, cs_Markets := set_add tickers []\<rparr>]\<rparr>"

definition alloc_id :: "('k, 'r) WSClient \<Rightarrow> ('k, 'r) WSClient" where
  "alloc_id c = c\<lparr>ws_msgID := ws_msgID c + 1\<rparr>"

definition alloc_pending :: "string \<Rightarrow> ('k, 'r) WSClient \<Rightarrow> ('k, 'r) WSClient" where
  "alloc_pending ch c =
     (let c1 = alloc_id c
      in c1\<lparr>ws_pendingInit := AList.update (ws_msgID c1) ch (ws_pendingInit c1)\<rparr>)"

definition drop_channel :: "string \<Rightarrow> ('k, 'r) WSClient \<Rightarrow> ('k, 'r) WSClient" where
  "drop_channel ch c =
     deletePendingInitForChannel ch (c\<lparr>ws_channels := AList.delete ch (ws_channels c)\<rparr>)"

definition drop_sid :: "goint \<Rightarrow> string \<Rightarrow> ('k, 'r) WSClient \<Rightarrow> ('k, 'r) WSClient" where
  "drop_sid sid ch c =
     c\<lparr>ws_sidMap := AList.delete sid (ws_sidMap c), ws_channels := AList.delete ch (ws_channels c)\<rparr>"

definition set_global :: "nat \<Rightarrow> bool \<Rightarrow> ('k, 'r) WSClient \<Rightarrow> ('k, 'r) WSClient" where
  "set_global a b = upd_state a (\<lambda>s. s\<lparr>cs_Global := b\<rparr>)"

definition add_markets :: "nat \<Rightarrow> string list \<Rightarrow> ('k, 'r) WSClient \<Rightarrow> ('k, 'r) WSClient" where
  "add_markets a ts = upd_state a (\<lambda>s. s\<lparr>cs_Markets := set_add ts (cs_Markets s)\<rparr>)"

definition queue_markets :: "nat \<Rightarrow> string list \<Rightarrow> ('k, 'r) WSClient \<Rightarrow> ('k, 'r) WSClient" where
  "queue_markets a ts = upd_state a (\<lambda>s. s\<lparr>cs_PendingMarkets := set_add ts (cs_PendingMarkets s)\<rparr>)"

definition remove_markets :: "nat \<Rightarrow> string list \<Rightarrow> ('k, 'r) WSClient \<Rightarrow> ('k, 'r) WSClient" where
  "remove_markets a ts = upd_state a (\<lambda>s. s\<lparr>cs_Markets := set_remove ts (cs_Markets s)\<rparr>)"

definition take_pending :: "nat \<Rightarrow> ('k, 'r) WSClient \<Rightarrow> ('k, 'r) WSClient" where
  "take_pending a = upd_state a (\<lambda>s. s\<lparr>cs_PendingMarkets := []\<rparr>)"

definition force_reconnect :: "bool \<Rightarrow> ('k, 'r) WSClient \<Rightarrow> ('k, 'r) WSClient" where
  "force_reconnect b c = c\<lparr>ws_forceReconnect := b\<rparr>"

definition log_event :: "ws_event \<Rightarrow> ('k, 'r) WSClient \<Rightarrow> ('k, 'r) WSClient" where
  "log_event e c = c\<lparr>ws_trace := ws_trace c @ [e]\<rparr>"

text \<open>The part of \<open>handleSubscribed\<close> before the flush: \<open>Some (a, sid)\<close> if it gets there.\<close>

definition subscribed_enter ::
  "WSMessage \<Rightarrow> ('k, 'r) WSClient \<Rightarrow> (nat \<times> goint) option \<times> ('k, 'r) WSClient" where
  "subscribed_enter msg c =
     (case map_of (ws_pendingInit c) (msg_ID msg) of
        None \<Rightarrow> (None, c)
      | Some channelName \<Rightarrow>
          let c1 = c\<lparr>ws_pendingInit := AList.delete (msg_ID msg) (ws_pendingInit c)\<rparr> in
          case unmarshal_body dec_SubscribedBody (msg_Msg msg) of
            None \<Rightarrow> (None, c1)
          | Some body \<Rightarrow>
              (case map_of (ws_channels c1) channelName of
                 None \<Rightarrow> (None, c1)
               | Some a \<Rightarrow>
                   let sid = sb_SID body;
                       c2 = upd_state a (\<lambda>s. s\<lparr>cs_SID := Some sid\<rparr>) c1
                   in (Some (a, sid), c2\<lparr>ws_sidMap := AList.update sid a (ws_sidMap c2)\<rparr>)))"

definition check_seq :: "nat \<Rightarrow> goint \<Rightarrow> ('k, 'r) WSClient \<Rightarrow> ('k, 'r) WSClient" where
  "check_seq a seq c =
     (let s = state_at c a;
          c1 = (if cs_Seq s \<noteq> 0 \<and> cs_Seq s + 1 \<noteq> seq then force_reconnect True c else c)
      in upd_state a (\<lambda>s. s\<lparr>cs_Seq := seq\<rparr>) c1)"

definition handleOK :: "WSMessage \<Rightarrow> ('k, 'r) WSClient \<Rightarrow> ('k, 'r) WSClient" where
  "handleOK msg c =
     (case map_of (ws_sidMap c) (msg_SID msg) of
        None \<Rightarrow> c
      | Some a \<Rightarrow>
          let c1 = check_seq a (msg_Seq msg) c in
          case unmarshal_body dec_OkBody (msg_Msg msg) of
            None \<Rightarrow> c1
          | Some body \<Rightarrow>
              if ok_MarketTickers body \<noteq> []
              then upd_state a (\<lambda>s. s\<lparr>cs_Markets := set_add (ok_MarketTickers body) []\<rparr>) c1
              else c1)"

definition handleUnsubscribed :: "WSMessage \<Rightarrow> ('k, 'r) WSClient \<Rightarrow> ('k, 'r) WSClient" where
  "handleUnsubscribed msg c = c\<lparr>ws_sidMap := AList.delete (msg_SID msg) (ws_sidMap c)\<rparr>"

definition handleDataMessage ::
  "WSMessage \<Rightarrow> string \<Rightarrow> ('k, 'r) WSClient \<Rightarrow> string option \<times> ('k, 'r) WSClient" where
  "handleDataMessage msg raw c =
     (case map_of MsgTypeToChannel (msg_Type msg) of
        None \<Rightarrow> (None, c)
      | Some _ \<Rightarrow>
          (case map_of (ws_sidMap c) (msg_SID msg) of
             None \<Rightarrow> (None, c)
           | Some a \<Rightarrow> (Some raw, check_seq a (msg_Seq msg) c)))"

text \<open>The critical section of \<open>handleConnectionLoss\<close>.\<close>

definition connection_loss :: "('k, 'r) WSClient \<Rightarrow> ('k, 'r) WSClient" where
  "connection_loss c =
     (let c1 = c\<lparr>ws_sidMap := [], ws_pendingInit := []\<rparr>;
          c2 = foldl (\<lambda>c (name, a). upd_state a (\<lambda>s. s\<lparr>cs_SID := None, cs_Seq := 0\<rparr>) c) c1 (ws_channels c1)
      in c2\<lparr>ws_conn := None\<rparr>)"

section \<open>Sections of other goroutines\<close>

datatype ws_section =
    ANewChannel string bool "string list"
  | AAllocId
  | AAllocPending string
  | ADropChannel string
  | ADropSid goint string
  | ASetGlobal nat bool
  | AAddMarkets nat "string list"
  | AQueueMarkets nat "string list"
  | ARemoveMarkets nat "string list"
  | ATakePending nat
  | AForce bool
  | ALog ws_event
  | ASubscribed WSMessage
  | AOk WSMessage
  | AUnsubscribed WSMessage
  | AData WSMessage
  | ALoss
  | AConn "nat option"
  | AClosed

text \<open>
  A new channel only replaces no other: both places that create one do so after looking the
  name up in the same section.
\<close>

fun run_section :: "ws_section \<Rightarrow> ('k, 'r) WSClient \<Rightarrow> ('k, 'r) WSClient" where
  "run_section (ANewChannel ch g ts) c =
     (if map_of (ws_channels c) ch = None then new_channel ch g ts c else c)"
| "run_section AAllocId c = alloc_id c"
| "run_section (AAllocPending ch) c = alloc_pending ch c"
| "run_section (ADropChannel ch) c = drop_channel ch c"
| "run_section (ADropSid sid ch) c = drop_sid sid ch c"
| "run_section (ASetGlobal a b) c = set_global a b c"
| "run_section (AAddMarkets a ts) c = add_markets a ts c"
| "run_section (AQueueMarkets a ts) c = queue_markets a ts c"
| "run_section (ARemoveMarkets a ts) c = remove_markets a ts c"
| "run_section (ATakePending a) c = take_pending a c"
| "run_section (AForce b) c = force_reconnect b c"
| "run_section (ALog e) c = log_event e c"
| "run_section (ASubscribed msg) c = snd (subscribed_enter msg c)"
| "run_section (AOk msg) c = handleOK msg c"
| "run_section (AUnsubscribed msg) c = handleUnsubscribed msg c"
| "run_section (AData msg) c = snd (handleDataMessage msg [] c)"
| "run_section ALoss c = connection_loss c"
| "run_section (AConn k) c = c\<lparr>ws_conn := k\<rparr>"
| "run_section AClosed c = c\<lparr>ws_closed := True\<rparr>"

fun run_sections :: "ws_section list \<Rightarrow> ('k, 'r) WSClient \<Rightarrow> ('k, 'r) WSClient" where
  "run_sections [] c = c"
| "run_sections (x # xs) c = run_sections xs (run_section x c)"

end
