(* ===== verification/WSOps.thy ===== *)
theory WSOps
  imports WSClient
begin

text \<open>
  The operations of \<open>ws_client.go\<close>. An operation that sends takes a list of windows, one per
  send it makes, and is blocked when the list ends first.
\<close>

section \<open>Sending\<close>

record window =
  win_before :: "ws_section list"    \<comment> \<open>between releasing the mutex and the send's own lock\<close>
  win_between :: "ws_section list"   \<comment> \<open>between allocating the id and reading the connection\<close>
  win_write :: "goerror option"      \<comment> \<open>what \<open>conn.Write\<close> returned\<close>
  win_after :: "ws_section list"     \<comment> \<open>during the write, until the mutex is taken again\<close>

definition writeJSON ::
  "WSCommand \<Rightarrow> goerror option \<Rightarrow> ('k, 'r) WSClient \<Rightarrow> goerror option \<times> ('k, 'r) WSClient" where
  "writeJSON cmd wr c =
     (case ws_conn c of
        None \<Rightarrow> (Some (ErrorString ''ws not connected''), c)
      | Some k \<Rightarrow> (case wr of Some e \<Rightarrow> (Some e, c) | None \<Rightarrow> (None, log_event (Sent k cmd) c)))"

definition subscribe_command :: "goint \<Rightarrow> string \<Rightarrow> string list \<Rightarrow> bool \<Rightarrow> WSCommand" where
  "subscribe_command i channelName tickers sendSnapshot =
     \<lparr>cmd_ID = i, cmd_Cmd = WSCmdSubscribe,
      cmd_Params = PSubscribe (zero_SubscribeParams\<lparr>sp_Channels := [channelName],
        sp_MarketTickers := tickers, sp_SendInitialSnapshot := sendSnapshot\<rparr>)\<rparr>"

definition unsubscribe_command :: "goint \<Rightarrow> goint \<Rightarrow> WSCommand" where
  "unsubscribe_command i sid =
     \<lparr>cmd_ID = i, cmd_Cmd = WSCmdUnsubscribe, cmd_Params = PUnsubscribe \<lparr>up_SIDs = [sid]\<rparr>\<rparr>"

definition update_command ::
  "goint \<Rightarrow> goint \<Rightarrow> string list \<Rightarrow> WSUpdateAction \<Rightarrow> bool \<Rightarrow> WSCommand" where
  "update_command i sid tickers action sendSnapshot =
     \<lparr>cmd_ID = i, cmd_Cmd = WSCmdUpdateSubscription,
      cmd_Params = PUpdate (zero_UpdateSubParams\<lparr>us_SIDs := [sid], us_MarketTickers := tickers,
        us_Action := action, us_SendInitialSnapshot := sendSnapshot\<rparr>)\<rparr>"

definition sendSubscribe ::
  "window \<Rightarrow> string \<Rightarrow> string list \<Rightarrow> bool \<Rightarrow> ('k, 'r) WSClient
     \<Rightarrow> goerror option \<times> ('k, 'r) WSClient" where
  "sendSubscribe w channelName tickers sendSnapshot c =
     (let c1 = alloc_pending channelName (run_sections (win_before w) c);
          i = ws_msgID c1
      in case writeJSON (subscribe_command i channelName tickers sendSnapshot) (win_write w)
                (run_sections (win_between w) c1) of
           (err, c2) \<Rightarrow> (err, run_sections (win_after w) c2))"

definition sendUnsubscribe ::
  "window \<Rightarrow> goint \<Rightarrow> ('k, 'r) WSClient \<Rightarrow> goerror option \<times> ('k, 'r) WSClient" where
  "sendUnsubscribe w sid c =
     (let c1 = alloc_id (run_sections (win_before w) c);
          i = ws_msgID c1
      in case writeJSON (unsubscribe_command i sid) (win_write w) (run_sections (win_between w) c1) of
           (err, c2) \<Rightarrow> (err, run_sections (win_after w) c2))"

definition sendUpdateSub ::
  "window \<Rightarrow> goint \<Rightarrow> string list \<Rightarrow> WSUpdateAction \<Rightarrow> bool \<Rightarrow> ('k, 'r) WSClient
     \<Rightarrow> goerror option \<times> ('k, 'r) WSClient" where
  "sendUpdateSub w sid tickers action sendSnapshot c =
     (let c1 = alloc_id (run_sections (win_before w) c);
          i = ws_msgID c1
      in case writeJSON (update_command i sid tickers action sendSnapshot) (win_write w)
                (run_sections (win_between w) c1) of
           (err, c2) \<Rightarrow> (err, run_sections (win_after w) c2))"

section \<open>Subscribe and Unsubscribe\<close>

datatype ws_result = WSOk | WSErr goerror | WSBlocked

definition invalid_argument :: "string \<Rightarrow> ws_result" where
  "invalid_argument s = WSErr (WrapError s ErrInvalidArgument)"

text \<open>\<open>tickers\<close> is \<open>None\<close> for a nil slice.\<close>

fun subscribe_loop ::
  "window list \<Rightarrow> string list option \<Rightarrow> bool \<Rightarrow> string list \<Rightarrow> ('k, 'r) WSClient
     \<Rightarrow> ws_result \<times> ('k, 'r) WSClient" where
  "subscribe_loop ws tickers snap [] c = (WSOk, c)"
| "subscribe_loop ws tickers snap (ch # chs) c =
     (if map_of (ws_channels c) ch \<noteq> None
      then (invalid_argument (''channel '' @ Quote ch @ '' already subscribed; call Unsubscribe first''), c)
      else
        let ts = (case tickers of None \<Rightarrow> [] | Some ts \<Rightarrow> ts);
            c1 = new_channel ch (tickers = None) ts c
        in case ws of
             [] \<Rightarrow> (WSBlocked, c1)
           | w # ws' \<Rightarrow>
               (case sendSubscribe w ch ts snap c1 of
                  (Some err, c2) \<Rightarrow> (WSErr err, drop_channel ch c2)
                | (None, c2) \<Rightarrow> subscribe_loop ws' tickers snap chs c2))"

definition Subscribe ::
  "window list \<Rightarrow> string list \<Rightarrow> string list option \<Rightarrow> SubscribeOption list \<Rightarrow> ('k, 'r) WSClient
     \<Rightarrow> ws_result \<times> ('k, 'r) WSClient" where
  "Subscribe ws channels tickers opts c =
     (if channels = [] then (invalid_argument ''channels must not be empty'', c)
      else if tickers = Some [] then (invalid_argument ''tickers must be nil (global) or non-empty'', c)
      else subscribe_loop ws tickers (sendInitialSnapshot (applyOpts opts)) channels c)"

fun unsubscribe_loop ::
  "window list \<Rightarrow> string list \<Rightarrow> ('k, 'r) WSClient \<Rightarrow> ws_result \<times> ('k, 'r) WSClient" where
  "unsubscribe_loop ws [] c = (WSOk, c)"
| "unsubscribe_loop ws (ch # chs) c =
     (case map_of (ws_channels c) ch of
        None \<Rightarrow> unsubscribe_loop ws chs c
      | Some a \<Rightarrow>
          (case cs_SID (state_at c a) of
             Some sid \<Rightarrow>
               (case ws of
                  [] \<Rightarrow> (WSBlocked, c)
                | w # ws' \<Rightarrow>
                    (case sendUnsubscribe w sid c of
                       (Some err, c2) \<Rightarrow> (WSErr err, c2)
                     | (None, c2) \<Rightarrow> unsubscribe_loop ws' chs (drop_sid sid ch c2)))
           | None \<Rightarrow> unsubscribe_loop ws chs (drop_channel ch c)))"

definition Unsubscribe ::
  "window list \<Rightarrow> string list \<Rightarrow> ('k, 'r) WSClient \<Rightarrow> ws_result \<times> ('k, 'r) WSClient" where
  "Unsubscribe ws channels c =
     (if channels = [] then (invalid_argument ''channels must not be empty'', c)
      else unsubscribe_loop ws channels c)"

section \<open>AddMarkets, RemoveMarkets, GetSnapshot\<close>

text \<open>The state of a channel, made when there is none and narrowed when it is global.\<close>

definition add_enter :: "string \<Rightarrow> ('k, 'r) WSClient \<Rightarrow> nat \<times> ('k, 'r) WSClient" where
  "add_enter ch c =
     (case map_of (ws_channels c) ch of
        Some a \<Rightarrow> (a, if cs_Global (state_at c a) then set_global a False c else c)
      | None \<Rightarrow> (length (ws_heap c), new_channel ch False [] c))"

definition new_tickers :: "string list \<Rightarrow> ChannelState \<Rightarrow> string list" where
  "new_tickers tickers s = filter (\<lambda>t. t \<notin> set (cs_Markets s)) tickers"

fun add_loop ::
  "window list \<Rightarrow> string list \<Rightarrow> bool \<Rightarrow> string list \<Rightarrow> ('k, 'r) WSClient
     \<Rightarrow> ws_result \<times> ('k, 'r) WSClient" where
  "add_loop ws tickers snap [] c = (WSOk, c)"
| "add_loop ws tickers snap (ch # chs) c =
     (case add_enter ch c of (a, c1) \<Rightarrow>
        let newTickers = new_tickers tickers (state_at c1 a) in
        if newTickers = [] then add_loop ws tickers snap chs c1
        else case cs_SID (state_at c1 a) of
          Some sid \<Rightarrow>
            (case ws of
               [] \<Rightarrow> (WSBlocked, c1)
             | w # ws' \<Rightarrow>
                 (case sendUpdateSub w sid newTickers WSUpdateAddMarkets snap c1 of
                    (Some err, c2) \<Rightarrow> (WSErr err, c2)
                  | (None, c2) \<Rightarrow> add_loop ws' tickers snap chs (add_markets a newTickers c2)))
        | None \<Rightarrow>
            if snd (pendingInitForChannel ch c1)
            then add_loop ws tickers snap chs (queue_markets a newTickers c1)
            else (case ws of
               [] \<Rightarrow> (WSBlocked, c1)
             | w # ws' \<Rightarrow>
                 (case sendSubscribe w ch newTickers snap c1 of
                    (Some err, c2) \<Rightarrow>
                      (WSErr err, if map_of (ws_channels c) ch = None then drop_channel ch c2 else c2)
                  | (None, c2) \<Rightarrow> add_loop ws' tickers snap chs (add_markets a newTickers c2))))"

definition AddMarkets ::
  "window list \<Rightarrow> string list \<Rightarrow> string list \<Rightarrow> SubscribeOption list \<Rightarrow> ('k, 'r) WSClient
     \<Rightarrow> ws_result \<times> ('k, 'r) WSClient" where
  "AddMarkets ws tickers channels opts c =
     (if tickers = [] then (invalid_argument ''tickers must not be empty'', c)
      else if channels = [] then (invalid_argument ''channels must not be empty'', c)
      else add_loop ws tickers (sendInitialSnapshot (applyOpts opts)) channels c)"

fun remove_loop ::
  "window list \<Rightarrow> string list \<Rightarrow> string list \<Rightarrow> ('k, 'r) WSClient \<Rightarrow> ws_result \<times> ('k, 'r) WSClient" where
  "remove_loop ws tickers [] c = (WSOk, c)"
| "remove_loop ws tickers (ch # chs) c =
     (case map_of (ws_channels c) ch of
        None \<Rightarrow> remove_loop ws tickers chs c
      | Some a \<Rightarrow>
          (case cs_SID (state_at c a) of
             None \<Rightarrow> remove_loop ws tickers chs c
           | Some sid \<Rightarrow>
               let c1 = (if cs_Global (state_at c a) then set_global a False c else c) in
               (case ws of
                  [] \<Rightarrow> (WSBlocked, c1)
                | w # ws' \<Rightarrow>
                    (case sendUpdateSub w sid tickers WSUpdateDeleteMarkets False c1 of
                       (Some err, c2) \<Rightarrow> (WSErr err, c2)
                     | (None, c2) \<Rightarrow> remove_loop ws' tickers chs (remove_markets a tickers c2)))))"

definition RemoveMarkets ::
  "window list \<Rightarrow> string list \<Rightarrow> string list \<Rightarrow> ('k, 'r) WSClient \<Rightarrow> ws_result \<times> ('k, 'r) WSClient" where
  "RemoveMarkets ws tickers channels c =
     (if tickers = [] then (invalid_argument ''tickers must not be empty'', c)
      else if channels = [] then (invalid_argument ''channels must not be empty'', c)
      else remove_loop ws tickers channels c)"

fun snapshot_loop ::
  "window list \<Rightarrow> string list \<Rightarrow> string list \<Rightarrow> ('k, 'r) WSClient \<Rightarrow> ws_result \<times> ('k, 'r) WSClient" where
  "snapshot_loop ws tickers [] c = (WSOk, c)"
| "snapshot_loop ws tickers (ch # chs) c =
     (case map_of (ws_channels c) ch of
        None \<Rightarrow> snapshot_loop ws tickers chs c
      | Some a \<Rightarrow>
          (case cs_SID (state_at c a) of
             None \<Rightarrow> snapshot_loop ws tickers chs c
           | Some sid \<Rightarrow>
               (case ws of
                  [] \<Rightarrow> (WSBlocked, c)
                | w # ws' \<Rightarrow>
                    (case sendUpdateSub w sid tickers WSUpdateGetSnapshot False c of
                       (Some err, c2) \<Rightarrow> (WSErr err, c2)
                     | (None, c2) \<Rightarrow> snapshot_loop ws' tickers chs c2))))"

definition GetSnapshot ::
  "window list \<Rightarrow> string list \<Rightarrow> string list \<Rightarrow> ('k, 'r) WSClient \<Rightarrow> ws_result \<times> ('k, 'r) WSClient" where
  "GetSnapshot ws tickers channels c =
     (if tickers = [] then (invalid_argument ''tickers must not be empty'', c)
      else if channels = [] then (invalid_argument ''channels must not be empty'', c)
      else snapshot_loop ws tickers channels c)"

section \<open>Incoming messages\<close>

text \<open>The flush of \<open>handleSubscribed\<close>; \<open>False\<close> if it is still waiting for a send.\<close>

fun flush_loop ::
  "window list \<Rightarrow> nat \<Rightarrow> goint \<Rightarrow> ('k, 'r) WSClient \<Rightarrow> bool \<times> ('k, 'r) WSClient" where
  "flush_loop [] a sid c =
     (if cs_PendingMarkets (state_at c a) = [] then (True, c) else (False, take_pending a c))"
| "flush_loop (w # ws) a sid c =
     (let tickers = cs_PendingMarkets (state_at c a) in
      if tickers = [] then (True, c)
      else case sendUpdateSub w sid tickers WSUpdateAddMarkets False (take_pending a c) of
        (Some err, c2) \<Rightarrow> (True, force_reconnect True c2)
      | (None, c2) \<Rightarrow> flush_loop ws a sid c2)"

definition handleSubscribed ::
  "window list \<Rightarrow> WSMessage \<Rightarrow> ('k, 'r) WSClient \<Rightarrow> bool \<times> ('k, 'r) WSClient" where
  "handleSubscribed ws msg c =
     (case subscribed_enter msg c of
        (None, c1) \<Rightarrow> (True, c1)
      | (Some (a, sid), c1) \<Rightarrow> flush_loop ws a sid c1)"

text \<open>An \<open>error\<close> message is only logged.\<close>

definition handleIncoming ::
  "window list \<Rightarrow> string \<Rightarrow> ('k, 'r) WSClient \<Rightarrow> bool \<times> ('k, 'r) WSClient" where
  "handleIncoming ws data c =
     (case json_parse data of
        None \<Rightarrow> (True, c)
      | Some j \<Rightarrow>
     (case dec_WSMessage j of (msg, bad) \<Rightarrow>
        if bad then (True, c)
        else if msg_Type msg = WSRespSubscribed then handleSubscribed ws msg c
        else if msg_Type msg = WSRespOk then (True, handleOK msg c)
        else if msg_Type msg = WSRespUnsubscribed then (True, handleUnsubscribed msg c)
        else if msg_Type msg = WSRespError then (True, c)
        else (case handleDataMessage msg data c of
           (None, c1) \<Rightarrow> (True, c1)
         | (Some dispatch, c1) \<Rightarrow> (True, log_event (Dispatched dispatch) c1))))"

section \<open>Connection\<close>

text \<open>\<open>dial\<close> is what \<open>websocket.Dial\<close> returned; \<open>others\<close> ran until the new connection is stored.\<close>

definition Connect ::
  "('k, 'r) crypto \<Rightarrow> goint \<Rightarrow> goerror + nat \<Rightarrow> ws_section list \<Rightarrow> ('k, 'r) WSClient
     \<Rightarrow> goerror option \<times> ('k, 'r) WSClient" where
  "Connect w unixMilli dial others c =
     (let url = cfg_WSBaseURL (ws_cfg c) @ wsPathSuffix in
      case RequestHeaders w unixMilli (cfg_Credentials (ws_cfg c)) ''GET'' wsPathSuffix of
        Inl err \<Rightarrow> (Some (WrapError ''generate WS auth headers'' err), c)
      | Inr headers \<Rightarrow>
          (case dial of
             Inl err \<Rightarrow> (Some (WrapError (''WS dial '' @ url) err), run_sections others c)
           | Inr k \<Rightarrow> (None, (run_sections others c)\<lparr>ws_conn := Some k\<rparr>)))"

definition Close :: "ws_section list \<Rightarrow> ('k, 'r) WSClient \<Rightarrow> nat option \<times> ('k, 'r) WSClient" where
  "Close others c =
     (let c1 = run_sections others (c\<lparr>ws_closed := True\<rparr>)
      in (ws_conn c1, c1\<lparr>ws_conn := None\<rparr>))"

definition handleConnectionLoss :: "ws_section list \<Rightarrow> ('k, 'r) WSClient \<Rightarrow> ('k, 'r) WSClient" where
  "handleConnectionLoss others c =
     (let c1 = (if ws_hasOnDisconnect c then log_event OnDisconnect c else c)
      in connection_loss (run_sections others c1))"

text \<open>
  \<open>order\<close> is the order in which the map of channels is iterated; an entry removed meanwhile is
  not visited.
\<close>

fun recover_loop ::
  "window list \<Rightarrow> string list \<Rightarrow> ('k, 'r) WSClient \<Rightarrow> ws_result \<times> ('k, 'r) WSClient" where
  "recover_loop ws [] c = (WSOk, c)"
| "recover_loop ws (name # order) c =
     (case map_of (ws_channels c) name of
        None \<Rightarrow> recover_loop ws order c
      | Some a \<Rightarrow>
          let s = state_at c a in
          if \<not> cs_Global s \<and> cs_Markets s = [] then recover_loop ws order c
          else
            let tickers = (if cs_Global s then [] else cs_Markets s) in
            (case ws of
               [] \<Rightarrow> (WSBlocked, c)
             | w # ws' \<Rightarrow>
                 (case sendSubscribe w (cs_Name s) tickers False c of
                    (Some err, c2) \<Rightarrow> (WSErr err, c2)
                  | (None, c2) \<Rightarrow> recover_loop ws' order c2)))"

definition recoverSubscriptions ::
  "window list \<Rightarrow> string list \<Rightarrow> ('k, 'r) WSClient \<Rightarrow> ws_result \<times> ('k, 'r) WSClient" where
  "recoverSubscriptions ws order c = recover_loop ws order c"

section \<open>The listen loop\<close>

definition nextBackoff :: "('k, 'r) WSClient \<Rightarrow> duration \<Rightarrow> duration" where
  "nextBackoff c current =
     (let next = current * 2
      in if sint next > sint (ws_maxBackoff c) then ws_maxBackoff c else next)"

datatype read_event =
    ReadMessage "ws_section list" string "window list"  \<comment> \<open>others, data, sends of its handler\<close>
  | ReadError "ws_section list" goerror

datatype read_result = ReadEnded goerror | ReadBlocked

fun read_loop ::
  "read_event list \<Rightarrow> ('k, 'r) WSClient \<Rightarrow> read_result \<times> ('k, 'r) WSClient" where
  "read_loop [] c = (ReadBlocked, c)"
| "read_loop (ReadError others err # evs) c = (ReadEnded err, run_sections others c)"
| "read_loop (ReadMessage others data ws # evs) c =
     (case handleIncoming ws data (run_sections others c) of
        (False, c1) \<Rightarrow> (ReadBlocked, c1)
      | (True, c1) \<Rightarrow>
          if ws_forceReconnect c1
          then (ReadEnded (ErrorString ''sequence gap detected, forcing reconnect''), force_reconnect False c1)
          else read_loop evs c1)"

text \<open>The inputs of one pass of \<open>ListenLoop\<close>, in the order it meets them.\<close>

record listen_round =
  lr_others :: "ws_section list"
  lr_ctxErr :: bool                      \<comment> \<open>\<open>ctx.Err() != nil\<close> at the top\<close>
  lr_dialing :: "ws_section list"
  lr_unixMilli :: goint
  lr_dial :: "goerror + nat"             \<comment> \<open>the dial at the top, if there is no connection\<close>
  lr_done :: bool                        \<comment> \<open>the wait after a failed dial ended by ctx.Done()\<close>
  lr_handover :: "ws_section list"       \<comment> \<open>until the read loop takes its connection\<close>
  lr_reads :: "read_event list"
  lr_ended :: bool                       \<comment> \<open>\<open>ctx.Err() != nil\<close> after the read loop\<close>
  lr_lost :: "ws_section list"           \<comment> \<open>others during \<open>OnDisconnect\<close>\<close>
  lr_lostDone :: bool                    \<comment> \<open>the wait before the reconnect ended by ctx.Done()\<close>
  lr_redialing :: "ws_section list"
  lr_reUnixMilli :: goint
  lr_redial :: "goerror + nat"
  lr_order :: "string list"
  lr_windows :: "window list"

datatype listen_result = ListenReturned | ListenPanic | ListenBlocked | ListenNext duration

definition listen_pass ::
  "('k, 'r) crypto \<Rightarrow> listen_round \<Rightarrow> duration \<Rightarrow> ('k, 'r) WSClient
     \<Rightarrow> listen_result \<times> ('k, 'r) WSClient" where
  "listen_pass w r backoff c0 =
     (let c = run_sections (lr_others r) c0 in
      if lr_ctxErr r then (ListenReturned, c)
      else
        case (if ws_conn c = None then Connect w (lr_unixMilli r) (lr_dial r) (lr_dialing r) c
              else (None, c)) of
          (Some err, c1) \<Rightarrow>
            if lr_done r then (ListenReturned, c1) else (ListenNext (nextBackoff c1 backoff), c1)
        | (None, c0) \<Rightarrow>
            let c1 = run_sections (lr_handover r) c0 in
            if ws_conn c1 = None then (ListenPanic, c1)
            else
              case read_loop (lr_reads r) c1 of
                (ReadBlocked, c2) \<Rightarrow> (ListenBlocked, c2)
              | (ReadEnded err, c2) \<Rightarrow>
                  if lr_ended r \<or> ws_closed c2 then (ListenReturned, c2)
                  else
                    let c3 = handleConnectionLoss (lr_lost r) c2 in
                    if lr_lostDone r then (ListenReturned, c3)
                    else
                      case Connect w (lr_reUnixMilli r) (lr_redial r) (lr_redialing r) c3 of
                        (Some err, c4) \<Rightarrow> (ListenNext (nextBackoff c4 backoff), c4)
                      | (None, c4) \<Rightarrow>
                          (case recoverSubscriptions (lr_windows r) (lr_order r) c4 of
                             (WSBlocked, c5) \<Rightarrow> (ListenBlocked, c5)
                           | (WSErr err, c5) \<Rightarrow> (ListenNext (ws_minBackoff c5), c5)
                           | (WSOk, c5) \<Rightarrow>
                               (ListenNext (ws_minBackoff c5),
                                if ws_hasOnReconnect c5 then log_event OnReconnect c5 else c5)))"

fun listen_loop ::
  "('k, 'r) crypto \<Rightarrow> listen_round list \<Rightarrow> duration \<Rightarrow> ('k, 'r) WSClient
     \<Rightarrow> listen_result \<times> ('k, 'r) WSClient" where
  "listen_loop w [] backoff c = (ListenNext backoff, c)"
| "listen_loop w (r # rs) backoff c =
     (case listen_pass w r backoff c of
        (ListenNext b, c') \<Rightarrow> listen_loop w rs b c'
      | (res, c') \<Rightarrow> (res, c'))"

definition ListenLoop ::
  "('k, 'r) crypto \<Rightarrow> listen_round list \<Rightarrow> ('k, 'r) WSClient \<Rightarrow> listen_result \<times> ('k, 'r) WSClient" where
  "ListenLoop w rs c = listen_loop w rs (ws_minBackoff c) c"

end
