(* ===== verification/WSReach.thy ===== *)
theory WSReach
  imports WSOps
begin

text \<open>
  The WebSocket client as a transition system: its steps are the atomic sections, and every
  operation, under any interleaving with other goroutines, is a sequence of steps. An
  invariant of the steps is therefore an invariant of the client.
\<close>

section \<open>Reachability\<close>

inductive ws_reach :: "('k, 'r) WSClient \<Rightarrow> ('k, 'r) WSClient \<Rightarrow> bool" where
  ws_refl: "ws_reach c c"
| ws_step: "ws_reach c c' \<Longrightarrow> ws_reach c (run_section x c')"

named_theorems reach_intros \<open>every piece of an operation is a sequence of steps\<close>

lemma ws_one: "ws_reach c (run_section x c)"
  by (rule ws_step [OF ws_refl])

lemma ws_trans: "ws_reach b c \<Longrightarrow> ws_reach a b \<Longrightarrow> ws_reach a c"
  by (induction rule: ws_reach.induct) (auto intro: ws_step)

lemma run_sections_reach [reach_intros]: "ws_reach a c \<Longrightarrow> ws_reach a (run_sections xs c)"
  by (induction xs arbitrary: c) (auto intro: ws_step)

lemma reach_invariant:
  assumes "ws_reach c c'" "I c" "\<And>x d. I d \<Longrightarrow> I (run_section x d)"
  shows "I c'"
  using assms by (induction rule: ws_reach.induct) auto

text \<open>The sections by the names the operations use.\<close>

lemma reach_sections [reach_intros]:
  "ws_reach a c \<Longrightarrow> ws_reach a (alloc_id c)"
  "ws_reach a c \<Longrightarrow> ws_reach a (alloc_pending ch c)"
  "ws_reach a c \<Longrightarrow> ws_reach a (drop_channel ch c)"
  "ws_reach a c \<Longrightarrow> ws_reach a (drop_sid sid ch c)"
  "ws_reach a c \<Longrightarrow> ws_reach a (set_global x b c)"
  "ws_reach a c \<Longrightarrow> ws_reach a (add_markets x ts c)"
  "ws_reach a c \<Longrightarrow> ws_reach a (queue_markets x ts c)"
  "ws_reach a c \<Longrightarrow> ws_reach a (remove_markets x ts c)"
  "ws_reach a c \<Longrightarrow> ws_reach a (take_pending x c)"
  "ws_reach a c \<Longrightarrow> ws_reach a (force_reconnect b c)"
  "ws_reach a c \<Longrightarrow> ws_reach a (log_event e c)"
  "ws_reach a c \<Longrightarrow> ws_reach a (handleOK msg c)"
  "ws_reach a c \<Longrightarrow> ws_reach a (handleUnsubscribed msg c)"
  "ws_reach a c \<Longrightarrow> ws_reach a (connection_loss c)"
  "ws_reach a c \<Longrightarrow> ws_reach a (c\<lparr>ws_conn := k\<rparr>)"
  "ws_reach a c \<Longrightarrow> ws_reach a (c\<lparr>ws_closed := True\<rparr>)"
  by (metis ws_step run_section.simps)+

lemma reach_new_channel [reach_intros]:
  "ws_reach a c \<Longrightarrow> map_of (ws_channels c) ch = None \<Longrightarrow> ws_reach a (new_channel ch g ts c)"
  using ws_step [of a c "ANewChannel ch g ts"] by simp

lemma reach_subscribed_enter: "ws_reach a c \<Longrightarrow> ws_reach a (snd (subscribed_enter msg c))"
  using ws_step [of a c "ASubscribed msg"] by simp

lemma handleDataMessage_raw: "snd (handleDataMessage msg raw c) = snd (handleDataMessage msg [] c)"
  by (simp add: handleDataMessage_def split: option.split)

lemma reach_handleData: "ws_reach a c \<Longrightarrow> ws_reach a (snd (handleDataMessage msg raw c))"
  using ws_step [of a c "AData msg"] by (simp add: handleDataMessage_raw [of msg raw])

section \<open>Operations are sequences of steps\<close>

lemma reach_writeJSON: "ws_reach a c \<Longrightarrow> ws_reach a (snd (writeJSON cmd wr c))"
  by (auto simp: writeJSON_def split: option.splits intro: reach_intros)

lemma reach_sends:
  "ws_reach a c \<Longrightarrow> ws_reach a (snd (sendSubscribe w ch ts sn c))"
  "ws_reach a c \<Longrightarrow> ws_reach a (snd (sendUnsubscribe w sid c))"
  "ws_reach a c \<Longrightarrow> ws_reach a (snd (sendUpdateSub w sid ts act sn c))"
  by (simp_all add: sendSubscribe_def sendUnsubscribe_def sendUpdateSub_def Let_def case_prod_unfold
      reach_intros reach_writeJSON)

text \<open>The same, for a send whose result has been taken apart.\<close>

lemma reach_send_eqs:
  "sendSubscribe w ch ts sn c = (e, c') \<Longrightarrow> ws_reach a c \<Longrightarrow> ws_reach a c'"
  "sendUnsubscribe w sid c = (e, c') \<Longrightarrow> ws_reach a c \<Longrightarrow> ws_reach a c'"
  "sendUpdateSub w sid ts act sn c = (e, c') \<Longrightarrow> ws_reach a c \<Longrightarrow> ws_reach a c'"
  using reach_sends by (metis snd_conv)+

lemma reach_subscribe_loop: "ws_reach a c \<Longrightarrow> ws_reach a (snd (subscribe_loop ws ts sn chs c))"
proof (induction chs arbitrary: ts ws c)
  case (Cons ch chs)
  show ?case
    by (cases ws) (auto simp: Let_def case_prod_unfold Cons.prems split: option.splits
        intro!: Cons.IH reach_intros reach_sends Cons.prems)
qed simp

lemma reach_unsubscribe_loop: "ws_reach a c \<Longrightarrow> ws_reach a (snd (unsubscribe_loop ws chs c))"
proof (induction chs arbitrary: ws c)
  case (Cons ch chs)
  show ?case
    by (cases ws) (auto simp: case_prod_unfold Cons.prems split: option.splits
        intro!: Cons.IH reach_intros reach_sends Cons.prems)
qed simp

lemma reach_add_enter: "ws_reach a c \<Longrightarrow> ws_reach a (snd (add_enter ch c))"
  by (auto simp: add_enter_def split: option.splits intro!: reach_intros)

lemma reach_add_loop: "ws_reach a c \<Longrightarrow> ws_reach a (snd (add_loop ws ts sn chs c))"
proof (induction chs arbitrary: ws c)
  case (Cons ch chs)
  note enter = reach_add_enter [OF Cons.prems]
  show ?case
    by (cases ws) (auto simp: Let_def case_prod_unfold split: option.splits
        intro!: Cons.IH reach_intros reach_sends enter)
qed simp

lemma reach_remove_loop: "ws_reach a c \<Longrightarrow> ws_reach a (snd (remove_loop ws ts chs c))"
proof (induction chs arbitrary: ws c)
  case (Cons ch chs)
  show ?case
    by (cases ws) (auto simp: Let_def case_prod_unfold Cons.prems split: option.splits
        intro!: Cons.IH reach_intros reach_sends Cons.prems)
qed simp

lemma reach_snapshot_loop: "ws_reach a c \<Longrightarrow> ws_reach a (snd (snapshot_loop ws ts chs c))"
proof (induction chs arbitrary: ws c)
  case (Cons ch chs)
  show ?case
    by (cases ws) (auto simp: case_prod_unfold Cons.prems split: option.splits
        intro!: Cons.IH reach_sends Cons.prems)
qed simp

lemma reach_flush_loop: "ws_reach a c \<Longrightarrow> ws_reach a (snd (flush_loop ws x sid c))"
proof (induction ws arbitrary: c)
  case Nil
  then show ?case by (simp add: reach_intros)
next
  case (Cons w ws)
  show ?case
    by (auto simp: Let_def case_prod_unfold Cons.prems split: option.splits
        intro!: Cons.IH reach_intros reach_sends Cons.prems)
qed

lemma reach_handleSubscribed: "ws_reach a c \<Longrightarrow> ws_reach a (snd (handleSubscribed ws msg c))"
  using reach_subscribed_enter [of a c msg]
  by (auto simp: handleSubscribed_def case_prod_unfold split: option.splits intro!: reach_flush_loop)

lemma reach_handleIncoming: "ws_reach a c \<Longrightarrow> ws_reach a (snd (handleIncoming ws raw c))"
proof -
  assume r: "ws_reach a c"
  have data: "ws_reach a (snd (handleDataMessage msg raw c))" for msg by (rule reach_handleData [OF r])
  show ?thesis
    by (auto simp: handleIncoming_def case_prod_unfold r split: option.splits
        intro!: reach_intros reach_handleSubscribed data r)
qed

lemma reach_recover_loop: "ws_reach a c \<Longrightarrow> ws_reach a (snd (recover_loop ws order c))"
proof (induction order arbitrary: ws c)
  case (Cons ch order)
  show ?case
    by (cases ws) (auto simp: Let_def case_prod_unfold Cons.prems split: option.splits
        intro!: Cons.IH reach_sends Cons.prems)
qed simp

lemma reach_Connect: "ws_reach a c \<Longrightarrow> ws_reach a (snd (Connect w ms dial os c))"
  by (auto simp: Connect_def Let_def split: sum.splits intro!: reach_intros)

lemma reach_Close: "ws_reach a c \<Longrightarrow> ws_reach a (snd (Close os c))"
  by (auto simp: Close_def Let_def intro!: reach_intros)

lemma reach_handleConnectionLoss: "ws_reach a c \<Longrightarrow> ws_reach a (handleConnectionLoss os c)"
  by (auto simp: handleConnectionLoss_def Let_def intro!: reach_intros)

lemma reach_read_loop: "ws_reach a c \<Longrightarrow> ws_reach a (snd (read_loop evs c))"
proof (induction evs arbitrary: c)
  case (Cons ev evs)
  show ?case
  proof (cases ev)
    case (ReadMessage os raw ws)
    have h: "ws_reach a (snd (handleIncoming ws raw (run_sections os c)))"
      using Cons.prems by (intro reach_handleIncoming reach_intros)
    obtain d c1 where e: "handleIncoming ws raw (run_sections os c) = (d, c1)" by fastforce
    then have "ws_reach a c1" using h by simp
    then show ?thesis using ReadMessage e Cons.IH by (cases d) (auto intro: reach_intros)
  next
    case (ReadError os e)
    then show ?thesis using Cons.prems by (simp add: reach_intros)
  qed
qed simp

lemma reach_listen_pass: "ws_reach a c \<Longrightarrow> ws_reach a (snd (listen_pass w r b c))"
proof -
  assume "ws_reach a c"
  then have c: "ws_reach a (run_sections (lr_others r) c)" by (rule reach_intros)
  let ?c = "run_sections (lr_others r) c"
  obtain e1 c0 where d: "(if ws_conn ?c = None then Connect w (lr_unixMilli r) (lr_dial r) (lr_dialing r) ?c
              else (None, ?c)) = (e1, c0)" by fastforce
  have c0: "ws_reach a c0"
    using d c reach_Connect [OF c, of w "lr_unixMilli r" "lr_dial r" "lr_dialing r"]
    by (auto split: if_splits)
  let ?c1 = "run_sections (lr_handover r) c0"
  have c1: "ws_reach a ?c1" using c0 by (rule reach_intros)
  obtain rr c2 where rd: "read_loop (lr_reads r) ?c1 = (rr, c2)" by fastforce
  have c2: "ws_reach a c2" using reach_read_loop [OF c1, of "lr_reads r"] rd by simp
  let ?c3 = "handleConnectionLoss (lr_lost r) c2"
  have c3: "ws_reach a ?c3" by (rule reach_handleConnectionLoss [OF c2])
  obtain e2 c4 where rc: "Connect w (lr_reUnixMilli r) (lr_redial r) (lr_redialing r) ?c3 = (e2, c4)" by fastforce
  have c4: "ws_reach a c4" using reach_Connect [OF c3] rc by (metis snd_conv)
  obtain rs c5 where rec: "recoverSubscriptions (lr_windows r) (lr_order r) c4 = (rs, c5)" by fastforce
  have c5: "ws_reach a c5"
    using reach_recover_loop [OF c4] rec by (metis recoverSubscriptions_def snd_conv)
  show ?thesis
    using c c0 c1 c2 c3 c4 c5
    by (simp add: listen_pass_def Let_def d rd rc rec reach_intros split: option.split read_result.split
        ws_result.split)
qed

lemma reach_listen_loop: "ws_reach a c \<Longrightarrow> ws_reach a (snd (listen_loop w rs b c))"
proof (induction rs arbitrary: b c)
  case (Cons r rs)
  obtain res c' where p: "listen_pass w r b c = (res, c')" by fastforce
  have "ws_reach a c'" using reach_listen_pass [OF Cons.prems, of w r b] p by simp
  then show ?case using p Cons.IH by (cases res) simp_all
qed simp

section \<open>The client's operations as one type\<close>

datatype ws_op =
    OpSubscribe "window list" "string list" "string list option" "SubscribeOption list"
  | OpUnsubscribe "window list" "string list"
  | OpAddMarkets "window list" "string list" "string list" "SubscribeOption list"
  | OpRemoveMarkets "window list" "string list" "string list"
  | OpGetSnapshot "window list" "string list" "string list"
  | OpIncoming "window list" string
  | OpClose "ws_section list"
  | OpListen "listen_round list"

fun run_ws_op :: "('k, 'r) crypto \<Rightarrow> ws_op \<Rightarrow> ('k, 'r) WSClient \<Rightarrow> ('k, 'r) WSClient" where
  "run_ws_op w (OpSubscribe ws chs ts os) c = snd (Subscribe ws chs ts os c)"
| "run_ws_op w (OpUnsubscribe ws chs) c = snd (Unsubscribe ws chs c)"
| "run_ws_op w (OpAddMarkets ws ts chs os) c = snd (AddMarkets ws ts chs os c)"
| "run_ws_op w (OpRemoveMarkets ws ts chs) c = snd (RemoveMarkets ws ts chs c)"
| "run_ws_op w (OpGetSnapshot ws ts chs) c = snd (GetSnapshot ws ts chs c)"
| "run_ws_op w (OpIncoming ws raw) c = snd (handleIncoming ws raw c)"
| "run_ws_op w (OpClose os) c = snd (Close os c)"
| "run_ws_op w (OpListen rs) c = snd (ListenLoop w rs c)"

fun run_ws_ops :: "('k, 'r) crypto \<Rightarrow> ws_op list \<Rightarrow> ('k, 'r) WSClient \<Rightarrow> ('k, 'r) WSClient" where
  "run_ws_ops w [] c = c"
| "run_ws_ops w (x # xs) c = run_ws_ops w xs (run_ws_op w x c)"

lemma reach_run_ws_op: "ws_reach a c \<Longrightarrow> ws_reach a (run_ws_op w x c)"
  by (cases x) (simp_all add: Subscribe_def Unsubscribe_def AddMarkets_def RemoveMarkets_def
      GetSnapshot_def ListenLoop_def reach_subscribe_loop reach_unsubscribe_loop reach_add_loop
      reach_remove_loop reach_snapshot_loop reach_handleIncoming reach_Close reach_listen_loop)

lemma reach_run_ws_ops: "ws_reach a c \<Longrightarrow> ws_reach a (run_ws_ops w xs c)"
  by (induction xs arbitrary: c) (simp_all add: reach_run_ws_op)

end
