(* ===== verification/WSInvariant.thy ===== *)
theory WSInvariant
  imports WSReach
begin

text \<open>
  The client's well-formedness invariant: the maps have one entry per key, every address in
  them is allocated, the state found under a channel's name carries that name and the one found
  under a subscription id carries a subscription id, every pending subscribe's id has been
  allocated, and ticker sets have no duplicates. In runs whose acknowledgements are orderly it
  carries that very id.
\<close>

definition ws_inv :: "('k, 'r) WSClient \<Rightarrow> bool" where
  "ws_inv c \<longleftrightarrow>
     distinct_keys (ws_channels c) \<and> distinct_keys (ws_sidMap c) \<and> distinct_keys (ws_pendingInit c)
     \<and> (\<forall>n a. map_of (ws_channels c) n = Some a \<longrightarrow> a < length (ws_heap c) \<and> cs_Name (ws_heap c ! a) = n)
     \<and> (\<forall>s a. map_of (ws_sidMap c) s = Some a \<longrightarrow> a < length (ws_heap c) \<and> cs_SID (ws_heap c ! a) \<noteq> None)
     \<and> (\<forall>i n. map_of (ws_pendingInit c) i = Some n \<longrightarrow> 1 \<le> i \<and> i \<le> ws_msgID c)
     \<and> 0 \<le> ws_msgID c
     \<and> (\<forall>s\<in>set (ws_heap c). distinct (cs_Markets s) \<and> distinct (cs_PendingMarkets s))"

text \<open>Updates of a state that keep its name and its sets free of duplicates.\<close>

definition keeps_state :: "(ChannelState \<Rightarrow> ChannelState) \<Rightarrow> bool" where
  "keeps_state f \<longleftrightarrow> (\<forall>s. cs_Name (f s) = cs_Name s
     \<and> (distinct (cs_Markets s) \<longrightarrow> distinct (cs_Markets (f s)))
     \<and> (distinct (cs_PendingMarkets s) \<longrightarrow> distinct (cs_PendingMarkets (f s))))"

text \<open>Updates that leave no state that has a subscription id without one.\<close>

definition keeps_sid :: "(ChannelState \<Rightarrow> ChannelState) \<Rightarrow> bool" where
  "keeps_sid f \<longleftrightarrow> (\<forall>s. cs_SID s \<noteq> None \<longrightarrow> cs_SID (f s) \<noteq> None)"

lemma upd_state_sel [simp]:
  "ws_channels (upd_state a f c) = ws_channels c" "ws_sidMap (upd_state a f c) = ws_sidMap c"
  "ws_pendingInit (upd_state a f c) = ws_pendingInit c" "ws_msgID (upd_state a f c) = ws_msgID c"
  "ws_conn (upd_state a f c) = ws_conn c" "ws_trace (upd_state a f c) = ws_trace c"
  "ws_forceReconnect (upd_state a f c) = ws_forceReconnect c" "ws_closed (upd_state a f c) = ws_closed c"
  "ws_heap (upd_state a f c) = (ws_heap c)[a := f (ws_heap c ! a)]"
  "ws_minBackoff (upd_state a f c) = ws_minBackoff c" "ws_maxBackoff (upd_state a f c) = ws_maxBackoff c"
  by (simp_all add: upd_state_def)

lemma upd_state_inv:
  assumes "ws_inv c" "keeps_state f" "keeps_sid f \<or> ws_sidMap c = []"
  shows "ws_inv (upd_state a f c)"
proof (cases "a < length (ws_heap c)")
  case False
  then have "upd_state a f c = c" by (cases c) (simp add: upd_state_def list_update_beyond)
  with assms(1) show ?thesis by simp
next
  case True
  then have "ws_heap c ! a \<in> set (ws_heap c)" by simp
  with assms have ok: "distinct (cs_Markets (f (ws_heap c ! a)))" "distinct (cs_PendingMarkets (f (ws_heap c ! a)))"
    by (simp_all add: ws_inv_def keeps_state_def)
  have sets: "\<forall>s\<in>set ((ws_heap c)[a := f (ws_heap c ! a)]). distinct (cs_Markets s) \<and> distinct (cs_PendingMarkets s)"
    using assms(1) ok set_update_subset_insert [of "ws_heap c" a] by (fastforce simp: ws_inv_def)
  have names: "cs_Name ((ws_heap c)[a := f (ws_heap c ! a)] ! x) = cs_Name (ws_heap c ! x)" for x
    using assms(2) True by (cases "x = a") (simp_all add: keeps_state_def)
  have sids: "cs_SID ((ws_heap c)[a := f (ws_heap c ! a)] ! x) \<noteq> None"
    if "keeps_sid f" "cs_SID (ws_heap c ! x) \<noteq> None" for x
    using that True by (cases "x = a") (simp_all add: keeps_sid_def)
  have "cs_SID ((ws_heap c)[a := f (ws_heap c ! a)] ! x) \<noteq> None" if "map_of (ws_sidMap c) i = Some x" for i x
    using assms(1,3) that sids [of x] by (auto simp: ws_inv_def)
  then show ?thesis using assms(1) sets names by (simp add: ws_inv_def)
qed

lemma keeps_simps:
  "keeps_state (\<lambda>s. s\<lparr>cs_Global := b\<rparr>)"
  "keeps_state (\<lambda>s. s\<lparr>cs_Markets := set_add ts (cs_Markets s)\<rparr>)"
  "keeps_state (\<lambda>s. s\<lparr>cs_Markets := set_add ts []\<rparr>)"
  "keeps_state (\<lambda>s. s\<lparr>cs_PendingMarkets := set_add ts (cs_PendingMarkets s)\<rparr>)"
  "keeps_state (\<lambda>s. s\<lparr>cs_Markets := set_remove ts (cs_Markets s)\<rparr>)"
  "keeps_state (\<lambda>s. s\<lparr>cs_PendingMarkets := []\<rparr>)"
  "keeps_state (\<lambda>s. s\<lparr>cs_SID := x\<rparr>)"
  "keeps_state (\<lambda>s. s\<lparr>cs_Seq := q\<rparr>)"
  "keeps_state (\<lambda>s. s\<lparr>cs_SID := x, cs_Seq := q\<rparr>)"
  by (simp_all add: keeps_state_def)

lemma keeps_sid_simps:
  "keeps_sid (\<lambda>s. s\<lparr>cs_Global := b\<rparr>)"
  "keeps_sid (\<lambda>s. s\<lparr>cs_Markets := f s\<rparr>)"
  "keeps_sid (\<lambda>s. s\<lparr>cs_PendingMarkets := f s\<rparr>)"
  "keeps_sid (\<lambda>s. s\<lparr>cs_SID := Some i\<rparr>)"
  "keeps_sid (\<lambda>s. s\<lparr>cs_Seq := q\<rparr>)"
  by (simp_all add: keeps_sid_def)

section \<open>One lemma per atomic section\<close>

lemma inv_new_channel:
  assumes "ws_inv c"
  shows "ws_inv (new_channel ch g ts c)"
  using assms by (auto simp: ws_inv_def new_channel_def NewChannelState_def nth_append less_Suc_eq)

lemma inv_alloc_id: "ws_inv c \<Longrightarrow> ws_inv (alloc_id c)"
  by (fastforce simp: ws_inv_def alloc_id_def)

lemma inv_alloc_pending: "ws_inv c \<Longrightarrow> ws_inv (alloc_pending ch c)"
  by (auto simp: ws_inv_def alloc_pending_def alloc_id_def Let_def add_increasing2 split: if_splits)

lemma inv_drop_channel: "ws_inv c \<Longrightarrow> ws_inv (drop_channel ch c)"
  by (auto simp: ws_inv_def drop_channel_def deletePendingInitForChannel_def split: option.splits if_splits)

lemma inv_drop_sid: "ws_inv c \<Longrightarrow> ws_inv (drop_sid sid ch c)"
  by (auto simp: ws_inv_def drop_sid_def split: if_splits)

lemma inv_flags [simp]:
  "ws_inv (force_reconnect b c) = ws_inv c" "ws_inv (log_event e c) = ws_inv c"
  "ws_inv (c\<lparr>ws_conn := k\<rparr>) = ws_inv c" "ws_inv (c\<lparr>ws_closed := b\<rparr>) = ws_inv c"
  by (simp_all add: ws_inv_def force_reconnect_def log_event_def)

lemma inv_subscribed_enter:
  assumes "ws_inv c"
  shows "ws_inv (snd (subscribed_enter msg c))"
proof (cases "map_of (ws_pendingInit c) (msg_ID msg)")
  case None
  with assms show ?thesis by (simp add: subscribed_enter_def)
next
  case (Some ch)
  let ?c1 = "c\<lparr>ws_pendingInit := AList.delete (msg_ID msg) (ws_pendingInit c)\<rparr>"
  have c1: "ws_inv ?c1" using assms by (auto simp: ws_inv_def split: if_splits)
  show ?thesis
  proof (cases "unmarshal_body dec_SubscribedBody (msg_Msg msg)")
    case None
    with Some c1 show ?thesis by (simp add: subscribed_enter_def)
  next
    case body: (Some body)
    show ?thesis
    proof (cases "map_of (ws_channels ?c1) ch")
      case None
      with Some body c1 show ?thesis by (simp add: subscribed_enter_def Let_def)
    next
      case a: (Some a)
      have "ws_inv (upd_state a (\<lambda>s. s\<lparr>cs_SID := Some (sb_SID body)\<rparr>) ?c1)"
        by (rule upd_state_inv [OF c1 keeps_simps(7)]) (simp add: keeps_sid_simps)
      moreover have "a < length (ws_heap c)" using assms a by (simp add: ws_inv_def)
      ultimately show ?thesis using Some body a
        by (auto simp: subscribed_enter_def Let_def ws_inv_def split: if_splits)
    qed
  qed
qed

lemma inv_check_seq: "ws_inv c \<Longrightarrow> ws_inv (check_seq a q c)"
  by (simp add: check_seq_def Let_def upd_state_inv keeps_simps keeps_sid_simps)

lemma inv_handleOK: "ws_inv c \<Longrightarrow> ws_inv (handleOK msg c)"
  by (auto simp: handleOK_def Let_def inv_check_seq upd_state_inv keeps_simps keeps_sid_simps split: option.split)

lemma inv_handleUnsubscribed: "ws_inv c \<Longrightarrow> ws_inv (handleUnsubscribed msg c)"
  by (auto simp: ws_inv_def handleUnsubscribed_def split: if_splits)

lemma inv_handleData: "ws_inv c \<Longrightarrow> ws_inv (snd (handleDataMessage msg raw c))"
  by (auto simp: handleDataMessage_def inv_check_seq split: option.split)

lemma loss_fold_inv:
  "ws_inv c \<Longrightarrow> ws_sidMap c = []
    \<Longrightarrow> ws_inv (foldl (\<lambda>c (name, a). upd_state a (\<lambda>s. s\<lparr>cs_SID := None, cs_Seq := 0\<rparr>) c) c m)"
  by (induction m arbitrary: c) (auto simp: upd_state_inv keeps_simps)

lemma inv_connection_loss: "ws_inv c \<Longrightarrow> ws_inv (connection_loss c)"
proof -
  assume "ws_inv c"
  then have "ws_inv (c\<lparr>ws_sidMap := [], ws_pendingInit := []\<rparr>)" by (simp add: ws_inv_def)
  then show ?thesis unfolding connection_loss_def Let_def inv_flags
    by (rule loss_fold_inv) simp
qed

lemma inv_run_section: "ws_inv c \<Longrightarrow> ws_inv (run_section x c)"
  by (cases x) (simp_all add: inv_new_channel inv_alloc_id inv_alloc_pending inv_drop_channel inv_drop_sid
      inv_subscribed_enter inv_handleOK inv_handleUnsubscribed inv_handleData inv_connection_loss
      set_global_def add_markets_def queue_markets_def remove_markets_def take_pending_def
      upd_state_inv keeps_simps keeps_sid_simps)

interpretation ws_steps: guarded_steps run_section ws_inv
  by unfold_locales (rule inv_run_section)

lemma run_sections_fold: "run_sections xs c = fold run_section xs c"
  by (induction xs arbitrary: c) simp_all

lemma inv_run_sections: "ws_inv c \<Longrightarrow> ws_inv (run_sections xs c)"
  unfolding run_sections_fold by (rule ws_steps.run_inv)

lemma reach_fold: "ws_reach c c' \<longleftrightarrow> (\<exists>xs. c' = fold run_section xs c)"
proof
  show "ws_reach c c' \<Longrightarrow> \<exists>xs. c' = fold run_section xs c"
  proof (induction rule: ws_reach.induct)
    case (ws_refl c)
    show ?case by (rule exI [of _ "[]"]) simp
  next
    case (ws_step c c' x)
    then obtain xs where "c' = fold run_section xs c" by blast
    then show ?case by (intro exI [of _ "xs @ [x]"]) simp
  qed
  show "\<exists>xs. c' = fold run_section xs c \<Longrightarrow> ws_reach c c'"
    using run_sections_reach [OF ws_refl] run_sections_fold by metis
qed

lemma inv_reach: "ws_reach c c' \<Longrightarrow> ws_inv c \<Longrightarrow> ws_inv c'"
  by (auto simp: reach_fold intro: ws_steps.run_inv)

section \<open>Orderly acknowledgements\<close>

text \<open>
  The server acknowledges a subscribe with the subscription id of its channel. A run is orderly
  if a channel is acknowledged only while it has no subscription id, that is, once between two
  losses of the connection; the sections of the run are otherwise arbitrary.
\<close>

definition orderly :: "ws_section \<Rightarrow> ('k, 'r) WSClient \<Rightarrow> bool" where
  "orderly x c \<longleftrightarrow> (\<forall>msg n a. x = ASubscribed msg \<and> map_of (ws_pendingInit c) (msg_ID msg) = Some n
     \<and> map_of (ws_channels c) n = Some a \<longrightarrow> cs_SID (ws_heap c ! a) = None)"

inductive orderly_reach :: "('k, 'r) WSClient \<Rightarrow> ('k, 'r) WSClient \<Rightarrow> bool" where
  orderly_refl: "orderly_reach c c"
| orderly_step: "orderly_reach c c' \<Longrightarrow> orderly x c' \<Longrightarrow> orderly_reach c (run_section x c')"

text \<open>The state registered for a subscription id carries that id.\<close>

definition sids_consistent :: "('k, 'r) WSClient \<Rightarrow> bool" where
  "sids_consistent c \<longleftrightarrow>
     (\<forall>s a. map_of (ws_sidMap c) s = Some a \<longrightarrow> cs_SID (ws_heap c ! a) = Some s)"

lemma consistent_upd:
  assumes "sids_consistent c" "\<And>s. cs_SID (f s) = cs_SID s"
  shows "sids_consistent (upd_state a f c)"
  using assms
  by (cases "a < length (ws_heap c)") (auto simp: sids_consistent_def nth_list_update list_update_beyond)

lemma consistent_flags [simp]:
  "sids_consistent (force_reconnect b c) = sids_consistent c"
  "sids_consistent (log_event e c) = sids_consistent c"
  "sids_consistent (c\<lparr>ws_conn := k\<rparr>) = sids_consistent c"
  "sids_consistent (c\<lparr>ws_closed := b\<rparr>) = sids_consistent c"
  "sids_consistent (alloc_id c) = sids_consistent c"
  "sids_consistent (alloc_pending ch c) = sids_consistent c"
  by (simp_all add: sids_consistent_def force_reconnect_def log_event_def alloc_id_def
      alloc_pending_def Let_def)

lemma consistent_new_channel:
  assumes "ws_inv c" "sids_consistent c"
  shows "sids_consistent (new_channel ch g ts c)"
  using assms by (auto simp: ws_inv_def sids_consistent_def new_channel_def nth_append)

lemma consistent_drop_channel: "sids_consistent (drop_channel ch c) = sids_consistent c"
  by (simp add: sids_consistent_def drop_channel_def deletePendingInitForChannel_def split: option.split)

lemma consistent_drop_sid: "sids_consistent c \<Longrightarrow> sids_consistent (drop_sid sid ch c)"
  by (simp add: sids_consistent_def drop_sid_def)

lemma consistent_unsubscribed: "sids_consistent c \<Longrightarrow> sids_consistent (handleUnsubscribed msg c)"
  by (simp add: sids_consistent_def handleUnsubscribed_def)

lemma consistent_check_seq: "sids_consistent c \<Longrightarrow> sids_consistent (check_seq a q c)"
  by (simp add: check_seq_def Let_def consistent_upd)

lemma consistent_handleOK: "sids_consistent c \<Longrightarrow> sids_consistent (handleOK msg c)"
  by (auto simp: handleOK_def Let_def consistent_check_seq consistent_upd split: option.split)

lemma consistent_handleData: "sids_consistent c \<Longrightarrow> sids_consistent (snd (handleDataMessage msg raw c))"
  by (auto simp: handleDataMessage_def consistent_check_seq split: option.split)

lemma loss_fold_sidMap:
  "ws_sidMap (foldl (\<lambda>c (name, x). upd_state x f c) c m) = ws_sidMap c"
  by (induction m arbitrary: c) auto

lemma consistent_loss: "sids_consistent (connection_loss c)"
  by (simp add: sids_consistent_def connection_loss_def Let_def loss_fold_sidMap)

lemma consistent_subscribed:
  assumes inv: "ws_inv c" and cons: "sids_consistent c" and ord: "orderly (ASubscribed msg) c"
  shows "sids_consistent (snd (subscribed_enter msg c))"
proof (cases "fst (subscribed_enter msg c)")
  case None
  with cons show ?thesis
    by (auto simp: subscribed_enter_def Let_def sids_consistent_def split: option.splits)
next
  case (Some p)
  then obtain n body a where e: "map_of (ws_pendingInit c) (msg_ID msg) = Some n"
    "unmarshal_body dec_SubscribedBody (msg_Msg msg) = Some body" "map_of (ws_channels c) n = Some a"
    by (auto simp: subscribed_enter_def Let_def split: option.splits)
  have none: "cs_SID (ws_heap c ! a) = None" using ord e(1,3) by (simp add: orderly_def)
  have a: "a < length (ws_heap c)" using inv e(3) by (simp add: ws_inv_def)
  have "map_of (ws_sidMap c) i \<noteq> Some a" for i using cons none by (auto simp: sids_consistent_def)
  with cons e a show ?thesis
    by (auto simp: subscribed_enter_def Let_def sids_consistent_def nth_list_update)
qed

lemma consistent_section:
  assumes "ws_inv c" "sids_consistent c" "orderly x c"
  shows "sids_consistent (run_section x c)"
  using assms
  by (cases x) (simp_all add: consistent_new_channel consistent_drop_channel consistent_drop_sid
      consistent_unsubscribed consistent_handleOK consistent_handleData consistent_loss
      consistent_subscribed set_global_def add_markets_def queue_markets_def remove_markets_def
      take_pending_def consistent_upd)

lemma orderly_reaches: "orderly_reach c c' \<Longrightarrow> ws_reach c c'"
  by (induction rule: orderly_reach.induct) (auto intro: ws_refl ws_step)

lemma consistent_reach: "orderly_reach c c' \<Longrightarrow> ws_inv c \<Longrightarrow> sids_consistent c \<Longrightarrow> sids_consistent c'"
proof (induction rule: orderly_reach.induct)
  case (orderly_step c c' x)
  then show ?case using inv_reach [OF orderly_reaches [OF orderly_step.hyps(1)]] consistent_section by blast
qed

text \<open>Options that only configure a client leave it empty.\<close>

definition fresh_client :: "('k, 'r) WSClient \<Rightarrow> bool" where
  "fresh_client c \<longleftrightarrow> ws_channels c = [] \<and> ws_sidMap c = [] \<and> ws_pendingInit c = [] \<and> ws_heap c = []
     \<and> ws_msgID c = 0"

lemma fresh_inv: "fresh_client c \<Longrightarrow> ws_inv c"
  by (simp add: fresh_client_def ws_inv_def)

lemma NewWSClient_fresh: "fresh_client (NewWSClient cc [])"
  by (simp add: NewWSClient_def fresh_client_def)

lemma option_fresh:
  "fresh_client c \<Longrightarrow> fresh_client (WithWSMsgBufSize n c)"
  "fresh_client c \<Longrightarrow> fresh_client (WithWSReadLimit n c)"
  "fresh_client c \<Longrightarrow> fresh_client (WithWSBackoff lo hi c)"
  by (simp_all add: fresh_client_def WithWSMsgBufSize_def WithWSReadLimit_def WithWSBackoff_def)

end
