(* ===== verification/WSProps.thy ===== *)
theory WSProps
  imports WSInvariant
begin

text \<open>
  What the WebSocket client of \<open>ws_client.go\<close> promises: its invariant under every
  interleaving, sequence checking and dispatch, subscription life cycle, loss and recovery.
\<close>

section \<open>Undisturbed sends\<close>

definition quiet :: window where
  "quiet = \<lparr>win_before = [], win_between = [], win_write = None, win_after = []\<rparr>"

definition failing :: "goerror \<Rightarrow> window" where
  "failing e = quiet\<lparr>win_write := Some e\<rparr>"

lemma quiet_sel [simp]:
  "win_before quiet = []" "win_between quiet = []" "win_write quiet = None" "win_after quiet = []"
  "win_before (failing e) = []" "win_between (failing e) = []" "win_write (failing e) = Some e"
  "win_after (failing e) = []"
  by (simp_all add: quiet_def failing_def)

lemma alloc_pending_sel [simp]:
  "ws_msgID (alloc_pending ch c) = ws_msgID c + 1" "ws_conn (alloc_pending ch c) = ws_conn c"
  "ws_heap (alloc_pending ch c) = ws_heap c" "ws_channels (alloc_pending ch c) = ws_channels c"
  "ws_sidMap (alloc_pending ch c) = ws_sidMap c" "ws_trace (alloc_pending ch c) = ws_trace c"
  "ws_pendingInit (alloc_pending ch c) = AList.update (ws_msgID c + 1) ch (ws_pendingInit c)"
  "ws_forceReconnect (alloc_pending ch c) = ws_forceReconnect c"
  by (simp_all add: alloc_pending_def alloc_id_def Let_def)

lemma alloc_id_sel [simp]:
  "ws_msgID (alloc_id c) = ws_msgID c + 1" "ws_conn (alloc_id c) = ws_conn c"
  "ws_heap (alloc_id c) = ws_heap c" "ws_channels (alloc_id c) = ws_channels c"
  "ws_sidMap (alloc_id c) = ws_sidMap c" "ws_trace (alloc_id c) = ws_trace c"
  "ws_pendingInit (alloc_id c) = ws_pendingInit c" "ws_forceReconnect (alloc_id c) = ws_forceReconnect c"
  by (simp_all add: alloc_id_def)

lemma log_event_sel [simp]:
  "ws_msgID (log_event e c) = ws_msgID c" "ws_conn (log_event e c) = ws_conn c"
  "ws_heap (log_event e c) = ws_heap c" "ws_channels (log_event e c) = ws_channels c"
  "ws_sidMap (log_event e c) = ws_sidMap c" "ws_trace (log_event e c) = ws_trace c @ [e]"
  "ws_pendingInit (log_event e c) = ws_pendingInit c" "ws_forceReconnect (log_event e c) = ws_forceReconnect c"
  by (simp_all add: log_event_def)

lemma sendSubscribe_quiet [simp]:
  "ws_conn c = Some k \<Longrightarrow> sendSubscribe quiet ch ts sn c
     = (None, log_event (Sent k (subscribe_command (ws_msgID c + 1) ch ts sn)) (alloc_pending ch c))"
  by (simp add: sendSubscribe_def writeJSON_def Let_def)

lemma sendSubscribe_failing [simp]:
  "ws_conn c = Some k \<Longrightarrow> sendSubscribe (failing e) ch ts sn c = (Some e, alloc_pending ch c)"
  by (simp add: sendSubscribe_def writeJSON_def Let_def)

lemma sendUpdateSub_quiet [simp]:
  "ws_conn c = Some k \<Longrightarrow> sendUpdateSub quiet sid ts act sn c
     = (None, log_event (Sent k (update_command (ws_msgID c + 1) sid ts act sn)) (alloc_id c))"
  by (simp add: sendUpdateSub_def writeJSON_def Let_def)

lemma sendUnsubscribe_quiet [simp]:
  "ws_conn c = Some k \<Longrightarrow> sendUnsubscribe quiet sid c
     = (None, log_event (Sent k (unsubscribe_command (ws_msgID c + 1) sid)) (alloc_id c))"
  by (simp add: sendUnsubscribe_def writeJSON_def Let_def)

section \<open>A client for the witnesses\<close>

definition demo_ws :: "(string, unit) WSClient" where
  "demo_ws = (NewWSClient \<lparr>cfg_Environment = Demo, cfg_Credentials = \<lparr>KeyID = ''id'', PrivateKey = ''k'', Rand = None\<rparr>,
      cfg_HTTPBaseURL = ''https://h'', cfg_WSBaseURL = ''wss://w''\<rparr> [])\<lparr>ws_conn := Some 1\<rparr>"

lemma demo_ws_sel [simp]:
  "ws_conn demo_ws = Some 1" "ws_channels demo_ws = []" "ws_sidMap demo_ws = []"
  "ws_pendingInit demo_ws = []" "ws_heap demo_ws = []" "ws_msgID demo_ws = 0" "ws_trace demo_ws = []"
  "ws_forceReconnect demo_ws = False" "ws_closed demo_ws = False"
  "ws_minBackoff demo_ws = 1000000000" "ws_maxBackoff demo_ws = 32000000000"
  "ws_hasOnDisconnect demo_ws = False"
  by (simp_all add: demo_ws_def NewWSClient_def)

lemma demo_ws_fresh: "fresh_client demo_ws"
  by (simp add: fresh_client_def)

section \<open>The invariant\<close>

text \<open>C15: In every state the client can reach, also in the middle of an operation and whatever
  other goroutines and the server do, the maps have one entry per key, every state pointer in
  them is valid, the state found under a channel's name carries that name, a state registered
  for a subscription id has a subscription id, pending ids have been allocated, and ticker sets
  have no duplicates. If moreover the server acknowledges no channel that already has a
  subscription id (\<open>orderly\<close>), the state registered for a subscription id carries that very id,
  so that no two ids lead to the same state, and none outlives a lost connection.\<close>

theorem ws_invariant:
  assumes "fresh_client c"
  shows "(ws_reach c c' \<longrightarrow> ws_inv c') \<and> (orderly_reach c c' \<longrightarrow> sids_consistent c')"
proof -
  have "sids_consistent c" using assms by (simp add: fresh_client_def sids_consistent_def)
  then show ?thesis using inv_reach consistent_reach fresh_inv [OF assms] by blast
qed

definition acknowledge :: "goint \<Rightarrow> goint \<Rightarrow> WSMessage" where
  "acknowledge i sid = \<lparr>msg_Type = ''subscribed'', msg_ID = i, msg_SID = 0, msg_Seq = 0,
     msg_Msg = Some (JObj [(''channel'', JStr ''ticker''), (''sid'', JInt sid)])\<rparr>"

lemma acknowledge_body:
  assumes "in_int64 sid"
  shows "unmarshal_body dec_SubscribedBody (msg_Msg (acknowledge i sid))
    = Some \<lparr>sb_Channel = ''ticker'', sb_SID = sid\<rparr>"
proof -
  have keys: "key_matches ''channel'' ''channel''" "key_matches ''sid'' ''sid''" "\<not> key_matches ''channel'' ''sid''"
    "\<not> key_matches ''sid'' ''channel''" by code_simp+
  show ?thesis using assms
    by (simp add: acknowledge_def unmarshal_body_def dec_SubscribedBody_def obj_pairs_def dec_field_def keys dec_string_def)
qed

text \<open>The client after a subscribe and its acknowledgement.\<close>

definition demo_subscribed :: "(string, unit) WSClient" where
  "demo_subscribed = run_section (ASubscribed (acknowledge 1 7))
     (run_section (AAllocPending ''ticker'') (run_section (ANewChannel ''ticker'' False [''A'']) demo_ws))"

lemma demo_subscribed_reach: "orderly_reach demo_ws demo_subscribed"
  unfolding demo_subscribed_def
  by (intro orderly_step orderly_refl) (simp_all add: orderly_def new_channel_def NewChannelState_def
      alloc_pending_def alloc_id_def Let_def nth_append)

lemma demo_subscribed_ids: "ws_sidMap demo_subscribed = [(7, 0)]"
  using acknowledge_body [of 7 1]
  by (simp add: demo_subscribed_def subscribed_enter_def Let_def new_channel_def alloc_pending_def alloc_id_def
      in_int64_def) (simp add: acknowledge_def)

lemma ws_invariant_witness:
  "ws_inv (run_ws_ops toy_crypto [OpSubscribe [quiet] [''ticker''] (Some [''A'']) [],
      OpAddMarkets [] [''B''] [''ticker''] []] demo_ws)
   \<and> cs_SID (ws_heap demo_subscribed ! 0) = Some 7"
proof -
  have "ws_reach demo_ws (run_ws_ops toy_crypto [OpSubscribe [quiet] [''ticker''] (Some [''A'']) [],
      OpAddMarkets [] [''B''] [''ticker''] []] demo_ws)"
    by (rule reach_run_ws_ops) (rule ws_refl)
  moreover have "sids_consistent demo_subscribed"
    using ws_invariant [OF demo_ws_fresh] demo_subscribed_reach by blast
  ultimately show ?thesis
    using ws_invariant [OF demo_ws_fresh] by (simp add: sids_consistent_def demo_subscribed_ids)
qed

text \<open>C16: A subscribe never loses another one that is in flight: in every reachable state the
  message id it takes is unused, so registering it keeps every earlier pending entry.\<close>

theorem pending_ids_fresh:
  assumes "fresh_client c" "ws_reach c c'"
  shows "map_of (ws_pendingInit c') (ws_msgID (alloc_pending ch c')) = None
    \<and> map_of (ws_pendingInit (alloc_pending ch c')) = (map_of (ws_pendingInit c'))(ws_msgID c' + 1 \<mapsto> ch)"
proof -
  have "ws_inv c'" using inv_reach [OF assms(2)] fresh_inv [OF assms(1)] by blast
  then have "map_of (ws_pendingInit c') (ws_msgID c' + 1) = None"
    by (cases "map_of (ws_pendingInit c') (ws_msgID c' + 1)") (force simp: ws_inv_def)+
  then show ?thesis by simp
qed

lemma pending_ids_fresh_witness:
  "map_of (ws_pendingInit (run_section (AAllocPending ''fill'') demo_ws)) 2 = None"
  using pending_ids_fresh [OF demo_ws_fresh ws_one [of demo_ws "AAllocPending ''fill''"], of "''trade''"] by simp

section \<open>Data messages\<close>

text \<open>The sequence number of a data message for subscription \<open>sid\<close>.\<close>

definition data_seq :: "goint \<Rightarrow> string \<Rightarrow> goint option" where
  "data_seq sid raw = (case json_parse raw of None \<Rightarrow> None | Some j \<Rightarrow>
     (case dec_WSMessage j of (msg, bad) \<Rightarrow>
        if \<not> bad \<and> map_of MsgTypeToChannel (msg_Type msg) \<noteq> None \<and> msg_SID msg = sid
        then Some (msg_Seq msg) else None))"

definition gap :: "ChannelState \<Rightarrow> goint \<Rightarrow> bool" where
  "gap s q \<longleftrightarrow> cs_Seq s \<noteq> 0 \<and> q \<noteq> cs_Seq s + 1"

lemma data_types: "map_of MsgTypeToChannel t \<noteq> None \<Longrightarrow>
    t \<noteq> WSRespSubscribed \<and> t \<noteq> WSRespOk \<and> t \<noteq> WSRespUnsubscribed \<and> t \<noteq> WSRespError"
proof -
  have "list_all (\<lambda>x. x \<noteq> WSRespSubscribed \<and> x \<noteq> WSRespOk \<and> x \<noteq> WSRespUnsubscribed \<and> x \<noteq> WSRespError)
      (map fst MsgTypeToChannel)" by code_simp
  then show "map_of MsgTypeToChannel t \<noteq> None \<Longrightarrow> ?thesis"
    by (auto simp: list_all_iff dest!: map_of_SomeD)
qed

lemma incoming_data:
  assumes "data_seq sid raw = Some q"
  shows "handleIncoming ws raw c =
    (True, case map_of (ws_sidMap c) sid of None \<Rightarrow> c
       | Some a \<Rightarrow> log_event (Dispatched raw) (check_seq a q c))"
proof -
  obtain j msg where m: "json_parse raw = Some j" "dec_WSMessage j = (msg, False)"
    "map_of MsgTypeToChannel (msg_Type msg) \<noteq> None" "msg_SID msg = sid" "msg_Seq msg = q"
    using assms by (auto simp: data_seq_def split: option.splits prod.splits if_splits)
  from data_types [OF m(3)] m show ?thesis
    by (auto simp: handleIncoming_def handleDataMessage_def split: option.split)
qed

text \<open>A data message of a known type whose subscription id is registered is put on the
  message channel, raw bytes unchanged, exactly once; its sequence number becomes the
  channel's; a number that is not the successor of the last one (unless that was 0) requests
  a reconnect; nothing else changes. With an unregistered id it is dropped and nothing
  changes.\<close>

lemma data_message_dispatch:
  assumes "data_seq sid raw = Some q"
  shows "handleIncoming ws raw c = (True,
    (case map_of (ws_sidMap c) sid of
       None \<Rightarrow> c
     | Some a \<Rightarrow> c\<lparr>ws_heap := (ws_heap c)[a := (ws_heap c ! a)\<lparr>cs_Seq := q\<rparr>],
                   ws_forceReconnect := ws_forceReconnect c \<or> gap (ws_heap c ! a) q,
                   ws_trace := ws_trace c @ [Dispatched raw]\<rparr>))"
  unfolding incoming_data [OF assms(1)]
  by (cases c) (auto simp: check_seq_def Let_def upd_state_def log_event_def force_reconnect_def
      state_at_def gap_def split: option.split)

definition ticker_msg :: string where
  "ticker_msg = json_print (JObj [(''type'', JStr ''ticker''), (''sid'', JInt 7), (''seq'', JInt 4)])"

lemma ticker_msg_seq: "data_seq 7 ticker_msg = Some 4"
proof -
  have p: "json_parse ticker_msg = Some (JObj [(''type'', JStr ''ticker''), (''sid'', JInt 7), (''seq'', JInt 4)])"
    unfolding ticker_msg_def by (rule json_parse_print) simp
  have k: "map_of MsgTypeToChannel ''ticker'' \<noteq> None" by code_simp
  have keys: "key_matches ''type'' ''type''" "key_matches ''sid'' ''sid''" "key_matches ''seq'' ''seq''"
    "\<not> key_matches ''type'' ''sid''" "\<not> key_matches ''type'' ''seq''" "\<not> key_matches ''id'' ''type''"
    "\<not> key_matches ''id'' ''sid''" "\<not> key_matches ''id'' ''seq''" "\<not> key_matches ''sid'' ''type''"
    "\<not> key_matches ''sid'' ''seq''" "\<not> key_matches ''seq'' ''type''" "\<not> key_matches ''seq'' ''sid''"
    "\<not> key_matches ''msg'' ''type''" "\<not> key_matches ''msg'' ''sid''" "\<not> key_matches ''msg'' ''seq''"
    by code_simp+
  have i: "in_int64 7" "in_int64 4" by (simp_all add: in_int64_def)
  show ?thesis
    using k by (simp add: data_seq_def p dec_WSMessage_def obj_pairs_def dec_field_def keys dec_string_def i)
qed

definition demo_listening :: "(string, unit) WSClient" where
  "demo_listening = demo_ws\<lparr>ws_channels := [(''ticker'', 0)], ws_sidMap := [(7, 0)], ws_msgID := 1,
     ws_heap := [\<lparr>cs_Name = ''ticker'', cs_Markets = [''A''], cs_PendingMarkets = [], cs_SID = Some 7,
                  cs_Seq = 3, cs_Global = False\<rparr>]\<rparr>"

lemma demo_listening_inv: "ws_inv demo_listening"
  by (simp add: demo_listening_def ws_inv_def distinct_keys_def)

lemma data_message_dispatch_witness:
  "ws_trace (snd (handleIncoming [] ticker_msg demo_listening)) = [Dispatched ticker_msg]
   \<and> \<not> ws_forceReconnect (snd (handleIncoming [] ticker_msg demo_listening))"
  using data_message_dispatch [OF ticker_msg_seq, of "[]" demo_listening]
  by (simp add: demo_listening_def gap_def)

text \<open>Successive sequence numbers, after \<open>q\<close>; 0 stands for none seen yet.\<close>

fun in_order :: "goint \<Rightarrow> goint list \<Rightarrow> bool" where
  "in_order q [] = True"
| "in_order q (x # xs) = ((q = 0 \<or> x = q + 1) \<and> in_order x xs)"

definition gap_error :: goerror where
  "gap_error = ErrorString ''sequence gap detected, forcing reconnect''"

lemma read_loop_data:
  assumes "list_all2 (\<lambda>raw q. data_seq sid raw = Some q) raws qs"
    and "map_of (ws_sidMap c) sid = Some a" "a < length (ws_heap c)" "\<not> ws_forceReconnect c"
  shows "if in_order (cs_Seq (ws_heap c ! a)) qs
    then \<exists>c'. read_loop (map (\<lambda>raw. ReadMessage [] raw []) raws @ [ReadError [] e]) c = (ReadEnded e, c')
        \<and> ws_trace c' = ws_trace c @ map Dispatched raws
    else \<exists>n c'. read_loop (map (\<lambda>raw. ReadMessage [] raw []) raws @ [ReadError [] e]) c = (ReadEnded gap_error, c')
        \<and> n < length raws \<and> in_order (cs_Seq (ws_heap c ! a)) (take n qs)
        \<and> \<not> in_order (cs_Seq (ws_heap c ! a)) (take (Suc n) qs)
        \<and> ws_trace c' = ws_trace c @ map Dispatched (take (Suc n) raws) \<and> \<not> ws_forceReconnect c'"
  using assms
proof (induction raws arbitrary: qs c)
  case Nil
  then show ?case by simp
next
  case (Cons raw raws)
  then obtain q qs' where qs: "qs = q # qs'" "data_seq sid raw = Some q"
    "list_all2 (\<lambda>raw q. data_seq sid raw = Some q) raws qs'" by (cases qs) auto
  let ?c = "log_event (Dispatched raw) (check_seq a q c)"
  have h: "handleIncoming [] raw c = (True, ?c)"
    using incoming_data [OF qs(2), of "[]" c] Cons.prems(2) by simp
  have f: "ws_forceReconnect ?c = gap (ws_heap c ! a) q"
    using Cons.prems(4) by (simp add: check_seq_def Let_def gap_def state_at_def force_reconnect_def)
  have s: "map_of (ws_sidMap ?c) sid = Some a" "a < length (ws_heap ?c)" "cs_Seq (ws_heap ?c ! a) = q"
    "ws_trace ?c = ws_trace c @ [Dispatched raw]"
    using Cons.prems(2,3) by (simp_all add: check_seq_def Let_def force_reconnect_def)
  show ?case
  proof (cases "gap (ws_heap c ! a) q")
    case True
    let ?c' = "force_reconnect False ?c"
    have "ws_trace ?c' = ws_trace c @ map Dispatched (take 1 (raw # raws))" "\<not> ws_forceReconnect ?c'"
      "\<not> in_order (cs_Seq (ws_heap c ! a)) (take 1 qs)"
      using True s(4) qs by (auto simp: force_reconnect_def gap_def)
    moreover have "read_loop (map (\<lambda>raw. ReadMessage [] raw []) (raw # raws) @ [ReadError [] e]) c
        = (ReadEnded gap_error, ?c')"
      using h f True by (simp add: gap_error_def)
    moreover have "\<not> in_order (cs_Seq (ws_heap c ! a)) qs" using True qs by (auto simp: gap_def)
    ultimately show ?thesis by (auto intro!: exI [of _ 0])
  next
    case False
    then have o: "in_order (cs_Seq (ws_heap c ! a)) (q # ys) = in_order q ys" for ys by (auto simp: gap_def)
    have r: "read_loop (map (\<lambda>raw. ReadMessage [] raw []) (raw # raws) @ [ReadError [] e]) c
        = read_loop (map (\<lambda>raw. ReadMessage [] raw []) raws @ [ReadError [] e]) ?c"
      using h f False by simp
    have nf: "\<not> ws_forceReconnect ?c" using f False by simp
    note IH = Cons.IH [OF qs(3) s(1,2) nf, unfolded s(3,4)]
    show ?thesis
    proof (cases "in_order q qs'")
      case True
      with IH show ?thesis unfolding qs(1) o r by simp
    next
      case nord: False
      with IH obtain n c' where "read_loop (map (\<lambda>raw. ReadMessage [] raw []) raws @ [ReadError [] e]) ?c
          = (ReadEnded gap_error, c')" "n < length raws" "in_order q (take n qs')"
        "\<not> in_order q (take (Suc n) qs')"
        "ws_trace c' = ws_trace c @ [Dispatched raw] @ map Dispatched (take (Suc n) raws)" "\<not> ws_forceReconnect c'"
        by auto
      with nord show ?thesis unfolding qs(1) o r
        by (auto intro!: exI [of _ "Suc n"] simp: o simp del: in_order.simps)
    qed
  qed
qed

text \<open>C17: Gap detection is exact, and stops exactly at the first gap. The read loop receives
  data messages of one registered subscription, then an error. If the sequence numbers follow the
  last one seen, every message is dispatched, in order, and the loop ends with that error.
  Otherwise there is a first message whose number does not follow: the loop ends with the gap
  error right after it, having dispatched the messages up to and including it and none of the
  later ones, and the request to reconnect is taken back.\<close>

theorem gap_detection:
  assumes "list_all2 (\<lambda>raw q. data_seq sid raw = Some q) raws qs" "ws_inv c"
    and "map_of (ws_sidMap c) sid = Some a" "\<not> ws_forceReconnect c" "e \<noteq> gap_error"
    and "read_loop (map (\<lambda>raw. ReadMessage [] raw []) raws @ [ReadError [] e]) c = (res, c')"
  shows "if in_order (cs_Seq (ws_heap c ! a)) qs
    then res = ReadEnded e \<and> ws_trace c' = ws_trace c @ map Dispatched raws
    else \<exists>n<length raws. in_order (cs_Seq (ws_heap c ! a)) (take n qs)
       \<and> \<not> in_order (cs_Seq (ws_heap c ! a)) (take (Suc n) qs)
       \<and> res = ReadEnded gap_error
       \<and> ws_trace c' = ws_trace c @ map Dispatched (take (Suc n) raws) \<and> \<not> ws_forceReconnect c'"
proof -
  have "a < length (ws_heap c)" using assms(2,3) by (simp add: ws_inv_def)
  from read_loop_data [OF assms(1,3) this assms(4), of e] assms(6) show ?thesis
    by (auto split: if_splits)
qed

lemma gap_detection_witness:
  "\<exists>c'. read_loop [ReadMessage [] ticker_msg [], ReadMessage [] ticker_msg [], ReadMessage [] ticker_msg [],
       ReadError [] (ErrorString ''EOF'')] demo_listening = (ReadEnded gap_error, c')
     \<and> ws_trace c' = [Dispatched ticker_msg, Dispatched ticker_msg]"
proof -
  have l: "list_all2 (\<lambda>raw q. data_seq 7 raw = Some q) [ticker_msg, ticker_msg, ticker_msg] [4, 4, 4]"
    by (simp add: ticker_msg_seq)
  let ?evs = "map (\<lambda>raw. ReadMessage [] raw []) [ticker_msg, ticker_msg, ticker_msg]
    @ [ReadError [] (ErrorString ''EOF'')]"
  obtain res c' where r: "read_loop ?evs demo_listening = (res, c')" by fastforce
  have s: "cs_Seq (ws_heap demo_listening ! 0) = 3" "ws_trace demo_listening = []"
    by (simp_all add: demo_listening_def)
  have "\<exists>n<3. in_order 3 (take n [4, 4, 4]) \<and> \<not> in_order 3 (take (Suc n) [4, 4, 4])
      \<and> res = ReadEnded gap_error
      \<and> ws_trace c' = map Dispatched (take (Suc n) [ticker_msg, ticker_msg, ticker_msg])"
    using gap_detection [OF l demo_listening_inv _ _ _ r, of 0] s
    by (simp add: demo_listening_def gap_error_def) (auto simp: eval_nat_numeral)
  then obtain n where n: "n < 3" "in_order 3 (take n [4, 4, 4])" "\<not> in_order 3 (take (Suc n) [4, 4, 4])"
    "res = ReadEnded gap_error" "ws_trace c' = map Dispatched (take (Suc n) [ticker_msg, ticker_msg, ticker_msg])"
    by blast
  have "n = 1" using n(1-3) by (cases n; cases "n - 1") auto
  with n(4,5) r show ?thesis by simp
qed

section \<open>Life cycle of a subscription\<close>

lemma pending_find_new:
  "map_of m i = None \<Longrightarrow> ch \<notin> snd ` set m \<Longrightarrow> pending_find ch (AList.update i ch m) = Some i"
  by (induction m) (auto split: if_splits)

lemma new_channel_sel [simp]:
  "ws_conn (new_channel ch g ts c) = ws_conn c" "ws_msgID (new_channel ch g ts c) = ws_msgID c"
  "ws_sidMap (new_channel ch g ts c) = ws_sidMap c" "ws_trace (new_channel ch g ts c) = ws_trace c"
  "ws_pendingInit (new_channel ch g ts c) = ws_pendingInit c"
  "ws_forceReconnect (new_channel ch g ts c) = ws_forceReconnect c"
  "ws_channels (new_channel ch g ts c) = AList.update ch (length (ws_heap c)) (ws_channels c)"
  "ws_heap (new_channel ch g ts c)
     = ws_heap c @ [(NewChannelState ch)\<lparr>cs_Global := g, cs_Markets := set_add ts []\<rparr>]"
  by (simp_all add: new_channel_def)

lemma next_id_unused: "ws_inv c \<Longrightarrow> map_of (ws_pendingInit c) (ws_msgID c + 1) = None"
  by (cases "map_of (ws_pendingInit c) (ws_msgID c + 1)") (force simp: ws_inv_def)+

text \<open>C18: A subscribe whose write fails leaves no trace: with nobody else at work, a
  \<open>Subscribe\<close> of one unsubscribed channel that fails to send returns the write's error, and
  channels, subscription ids, pending ids and output are what they were; only the id counter
  advanced.\<close>

theorem Subscribe_failure_rolls_back:
  assumes "ws_inv c" "ws_conn c = Some k" "map_of (ws_channels c) ch = None"
    and "ch \<notin> snd ` set (ws_pendingInit c)" "tickers \<noteq> Some []"
  shows "\<exists>c'. Subscribe [failing e] [ch] tickers opts c = (WSErr e, c')
    \<and> map_of (ws_channels c') = map_of (ws_channels c) \<and> ws_sidMap c' = ws_sidMap c
    \<and> map_of (ws_pendingInit c') = map_of (ws_pendingInit c) \<and> ws_trace c' = ws_trace c
    \<and> ws_msgID c' = ws_msgID c + 1"
proof -
  note f = pending_find_new [OF next_id_unused [OF assms(1)] assms(4)]
  show ?thesis
    using assms f next_id_unused [OF assms(1)]
    by (simp add: Subscribe_def Let_def drop_channel_def deletePendingInitForChannel_def fun_upd_idem)
qed

lemma Subscribe_failure_rolls_back_witness:
  "\<exists>c'. Subscribe [failing (ErrorString ''broken pipe'')] [''fill''] None [] demo_ws = (WSErr (ErrorString ''broken pipe''), c')
     \<and> map_of (ws_channels c') = Map.empty"
  using Subscribe_failure_rolls_back [OF fresh_inv [OF demo_ws_fresh], of 1 "''fill''" None "ErrorString ''broken pipe''" "[]"]
  by auto

text \<open>C19: From request to data: after an undisturbed \<open>Subscribe\<close> of a fresh channel, the
  server's answer with the id of that command registers its subscription id for the channel
  and ends the pending state, and from then on a data message with that id is dispatched,
  whatever its first sequence number.\<close>

theorem subscribe_acknowledged:
  assumes "ws_inv c" "ws_conn c = Some k" "map_of (ws_channels c) ch = None" "ts \<noteq> []"
    and "msg_ID msg = ws_msgID c + 1" "unmarshal_body dec_SubscribedBody (msg_Msg msg) = Some body"
    and "data_seq (sb_SID body) raw = Some q"
  shows "\<exists>c1 c2 c3 a. Subscribe [quiet] [ch] (Some ts) opts c = (WSOk, c1)
    \<and> ws_trace c1 = ws_trace c @ [Sent k (subscribe_command (ws_msgID c + 1) ch ts (sendInitialSnapshot (applyOpts opts)))]
    \<and> handleSubscribed [] msg c1 = (True, c2)
    \<and> map_of (ws_channels c2) ch = Some a \<and> map_of (ws_sidMap c2) (sb_SID body) = Some a
    \<and> cs_SID (ws_heap c2 ! a) = Some (sb_SID body) \<and> set (cs_Markets (ws_heap c2 ! a)) = set ts
    \<and> map_of (ws_pendingInit c2) (msg_ID msg) = None
    \<and> handleIncoming [] raw c2 = (True, c3) \<and> ws_trace c3 = ws_trace c1 @ [Dispatched raw]
    \<and> ws_forceReconnect c3 = ws_forceReconnect c"
proof -
  let ?sn = "sendInitialSnapshot (applyOpts opts)" and ?sid = "sb_SID body" and ?a = "length (ws_heap c)"
  let ?c1 = "log_event (Sent k (subscribe_command (ws_msgID c + 1) ch ts ?sn))
      (alloc_pending ch (new_channel ch False ts c))"
  have s1: "Subscribe [quiet] [ch] (Some ts) opts c = (WSOk, ?c1)"
    using assms(2,3,4) by (simp add: Subscribe_def Let_def)
  let ?d = "?c1\<lparr>ws_pendingInit := AList.delete (msg_ID msg) (ws_pendingInit ?c1)\<rparr>"
  let ?u = "upd_state ?a (\<lambda>s. s\<lparr>cs_SID := Some ?sid\<rparr>) ?d"
  let ?c2 = "?u\<lparr>ws_sidMap := AList.update ?sid ?a (ws_sidMap ?u)\<rparr>"
  have "subscribed_enter msg ?c1 = (Some (?a, ?sid), ?c2)"
    using assms(5,6) by (simp add: subscribed_enter_def Let_def)
  then have s2: "handleSubscribed [] msg ?c1 = (True, ?c2)"
    by (simp add: handleSubscribed_def state_at_def nth_append NewChannelState_def)
  have sid: "map_of (ws_sidMap ?c2) ?sid = Some ?a" by simp
  let ?c3 = "log_event (Dispatched raw) (check_seq ?a q ?c2)"
  have s3: "handleIncoming [] raw ?c2 = (True, ?c3)"
    using incoming_data [OF assms(7), of "[]" ?c2] sid by simp
  have "ws_trace ?c3 = ws_trace ?c1 @ [Dispatched raw]" "ws_forceReconnect ?c3 = ws_forceReconnect c"
    by (simp_all add: check_seq_def Let_def state_at_def nth_append NewChannelState_def)
  then show ?thesis
    using s1 s2 s3 sid
    by (intro exI [of _ ?c1] exI [of _ ?c2] exI [of _ ?c3] exI [of _ ?a])
      (simp add: nth_append NewChannelState_def del: log_event_def)
qed

lemma subscribe_acknowledged_witness:
  "\<exists>c1. Subscribe [quiet] [''ticker''] (Some [''A'']) [] demo_ws = (WSOk, c1)
     \<and> (\<exists>c2 a. handleSubscribed [] \<lparr>msg_Type = ''subscribed'', msg_ID = 1, msg_SID = 0, msg_Seq = 0,
          msg_Msg = Some (JObj [(''channel'', JStr ''ticker''), (''sid'', JInt 7)])\<rparr> c1 = (True, c2)
        \<and> map_of (ws_sidMap c2) 7 = Some a)"
proof -
  let ?m = "\<lparr>msg_Type = ''subscribed'', msg_ID = 1, msg_SID = 0, msg_Seq = 0,
          msg_Msg = Some (JObj [(''channel'', JStr ''ticker''), (''sid'', JInt 7)])\<rparr> :: WSMessage"
  have keys: "key_matches ''channel'' ''channel''" "key_matches ''sid'' ''sid''" "\<not> key_matches ''channel'' ''sid''"
    "\<not> key_matches ''sid'' ''channel''" by code_simp+
  have "in_int64 7" by (simp add: in_int64_def)
  then have b: "unmarshal_body dec_SubscribedBody (msg_Msg ?m) = Some \<lparr>sb_Channel = ''ticker'', sb_SID = 7\<rparr>"
    by (simp add: unmarshal_body_def dec_SubscribedBody_def obj_pairs_def dec_field_def keys dec_string_def)
  show ?thesis
    using subscribe_acknowledged [OF fresh_inv [OF demo_ws_fresh] _ _ _ _ b, of 1 "''ticker''" "[''A'']" ticker_msg 4 "[]"]
    by (auto simp: ticker_msg_seq)
qed

lemma pending_find_some: "ch \<in> snd ` set m \<Longrightarrow> \<exists>i. pending_find ch m = Some i"
  by (induction ch m rule: pending_find.induct) auto

definition demo_waiting :: "(string, unit) WSClient" where
  "demo_waiting = demo_ws\<lparr>ws_channels := [(''ticker'', 0)], ws_pendingInit := [(1, ''ticker'')], ws_msgID := 1,
     ws_heap := [\<lparr>cs_Name = ''ticker'', cs_Markets = [''A''], cs_PendingMarkets = [], cs_SID = None,
                  cs_Seq = 0, cs_Global = False\<rparr>]\<rparr>"

lemma demo_waiting_inv: "ws_inv demo_waiting"
  by (simp add: demo_waiting_def ws_inv_def distinct_keys_def)

text \<open>C20: \<open>AddMarkets\<close> asks for new tickers only. For one channel of a connected client that
  has a ticker subscription the server acknowledged (it has a subscription id and is not
  global), an undisturbed call sends one update with exactly the tickers not yet subscribed, the
  channel's set becomes the union, and repeating the call sends nothing and changes nothing. A
  call made while the subscribe is still unanswered sends nothing: it leaves the channel's set
  alone and queues exactly the missing tickers for the acknowledgement.\<close>

theorem AddMarkets_incremental:
  assumes "ws_inv c" "ws_conn c = Some k" "map_of (ws_channels c) ch = Some a"
    and "\<not> cs_Global (ws_heap c ! a)" "\<not> set ts \<subseteq> set (cs_Markets (ws_heap c ! a))"
  shows "(\<forall>sid. cs_SID (ws_heap c ! a) = Some sid \<longrightarrow> (\<exists>c'. AddMarkets [quiet] ts [ch] opts c = (WSOk, c')
    \<and> ws_trace c' = ws_trace c @ [Sent k (update_command (ws_msgID c + 1) sid
          (filter (\<lambda>t. t \<notin> set (cs_Markets (ws_heap c ! a))) ts) WSUpdateAddMarkets
          (sendInitialSnapshot (applyOpts opts)))]
    \<and> set (cs_Markets (ws_heap c' ! a)) = set (cs_Markets (ws_heap c ! a)) \<union> set ts
    \<and> AddMarkets [] ts [ch] opts c' = (WSOk, c')))
    \<and> (cs_SID (ws_heap c ! a) = None \<and> ch \<in> snd ` set (ws_pendingInit c) \<longrightarrow> (\<exists>c'.
      AddMarkets [] ts [ch] opts c = (WSOk, c') \<and> ws_trace c' = ws_trace c
      \<and> cs_Markets (ws_heap c' ! a) = cs_Markets (ws_heap c ! a)
      \<and> set (cs_PendingMarkets (ws_heap c' ! a)) = set (cs_PendingMarkets (ws_heap c ! a))
          \<union> (set ts - set (cs_Markets (ws_heap c ! a)))))"
proof (intro conjI allI impI)
  fix sid assume sid: "cs_SID (ws_heap c ! a) = Some sid"
  let ?new = "filter (\<lambda>t. t \<notin> set (cs_Markets (ws_heap c ! a))) ts"
  let ?c1 = "log_event (Sent k (update_command (ws_msgID c + 1) sid ?new WSUpdateAddMarkets
      (sendInitialSnapshot (applyOpts opts)))) (alloc_id c)"
  let ?c' = "add_markets a ?new ?c1"
  have a: "a < length (ws_heap c)" using assms(1,3) by (simp add: ws_inv_def)
  have new: "?new \<noteq> []" "ts \<noteq> []" using assms(5) by (auto simp: filter_empty_conv)
  have h: "ws_heap ?c' ! a = (ws_heap c ! a)\<lparr>cs_Markets := set_add ?new (cs_Markets (ws_heap c ! a))\<rparr>"
    using a by (simp add: add_markets_def)
  have e: "add_enter ch c = (a, c)" using assms(3,4) by (simp add: add_enter_def state_at_def)
  have e': "add_enter ch ?c' = (a, ?c')"
    using assms(3,4) h by (simp add: add_enter_def state_at_def add_markets_def)
  have "AddMarkets [quiet] ts [ch] opts c = (WSOk, ?c')"
    using new assms(2) sid e by (simp add: AddMarkets_def Let_def new_tickers_def state_at_def)
  moreover have "AddMarkets [] ts [ch] opts ?c' = (WSOk, ?c')"
  proof -
    have "new_tickers ts (state_at ?c' a) = []" by (auto simp: new_tickers_def state_at_def h filter_empty_conv)
    then show ?thesis using new e' by (simp add: AddMarkets_def Let_def)
  qed
  moreover have "set (cs_Markets (ws_heap ?c' ! a)) = set (cs_Markets (ws_heap c ! a)) \<union> set ts"
    by (auto simp: h)
  ultimately show "\<exists>c'. AddMarkets [quiet] ts [ch] opts c = (WSOk, c')
    \<and> ws_trace c' = ws_trace c @ [Sent k (update_command (ws_msgID c + 1) sid
          (filter (\<lambda>t. t \<notin> set (cs_Markets (ws_heap c ! a))) ts) WSUpdateAddMarkets
          (sendInitialSnapshot (applyOpts opts)))]
    \<and> set (cs_Markets (ws_heap c' ! a)) = set (cs_Markets (ws_heap c ! a)) \<union> set ts
    \<and> AddMarkets [] ts [ch] opts c' = (WSOk, c')"
    by (intro exI [of _ ?c']) (simp add: add_markets_def)
next
  assume p: "cs_SID (ws_heap c ! a) = None \<and> ch \<in> snd ` set (ws_pendingInit c)"
  let ?new = "filter (\<lambda>t. t \<notin> set (cs_Markets (ws_heap c ! a))) ts"
  let ?c' = "queue_markets a ?new c"
  have a: "a < length (ws_heap c)" using assms(1,3) by (simp add: ws_inv_def)
  have new: "?new \<noteq> []" "ts \<noteq> []" using assms(5) by (auto simp: filter_empty_conv)
  have e: "add_enter ch c = (a, c)" using assms(3,4) by (simp add: add_enter_def state_at_def)
  have "AddMarkets [] ts [ch] opts c = (WSOk, ?c')"
    using new e p pending_find_some [of ch "ws_pendingInit c"]
    by (auto simp: AddMarkets_def Let_def new_tickers_def state_at_def pendingInitForChannel_def)
  then show "\<exists>c'. AddMarkets [] ts [ch] opts c = (WSOk, c') \<and> ws_trace c' = ws_trace c
      \<and> cs_Markets (ws_heap c' ! a) = cs_Markets (ws_heap c ! a)
      \<and> set (cs_PendingMarkets (ws_heap c' ! a)) = set (cs_PendingMarkets (ws_heap c ! a))
          \<union> (set ts - set (cs_Markets (ws_heap c ! a)))"
    using a by (intro exI [of _ ?c']) (auto simp: queue_markets_def)
qed

lemma AddMarkets_incremental_witness:
  "(\<exists>c'. AddMarkets [quiet] [''A'', ''B''] [''ticker''] [] demo_listening = (WSOk, c')
     \<and> ws_trace c' = [Sent 1 (update_command 2 7 [''B''] WSUpdateAddMarkets False)])
   \<and> (\<exists>c'. AddMarkets [] [''A'', ''B''] [''ticker''] [] demo_waiting = (WSOk, c')
     \<and> ws_trace c' = [] \<and> set (cs_PendingMarkets (ws_heap c' ! 0)) = {''B''})"
  using AddMarkets_incremental [OF demo_listening_inv, of 1 "''ticker''" 0 "[''A'', ''B'']" "[]"]
    AddMarkets_incremental [OF demo_waiting_inv, of 1 "''ticker''" 0 "[''A'', ''B'']" "[]"]
  by (auto simp: demo_listening_def demo_waiting_def applyOpts_def)

section \<open>Loss and recovery\<close>

lemma loss_fold_heap:
  assumes "a < length (ws_heap c)"
  shows "ws_heap (foldl (\<lambda>c (name, x). upd_state x (\<lambda>s. s\<lparr>cs_SID := None, cs_Seq := 0\<rparr>) c) c m) ! a
    = (if a \<in> snd ` set m then (ws_heap c ! a)\<lparr>cs_SID := None, cs_Seq := 0\<rparr> else ws_heap c ! a)"
  using assms
proof (induction m arbitrary: c)
  case (Cons p m)
  obtain n x where "p = (n, x)" by fastforce
  with Cons.prems show ?case
    by (cases "x = a"; cases "x < length (ws_heap c)") (auto simp: Cons.IH)
qed simp

lemma loss_fold_frame:
  "ws_channels (foldl (\<lambda>c (name, x). upd_state x f c) c m) = ws_channels c"
  "ws_sidMap (foldl (\<lambda>c (name, x). upd_state x f c) c m) = ws_sidMap c"
  "ws_pendingInit (foldl (\<lambda>c (name, x). upd_state x f c) c m) = ws_pendingInit c"
  "ws_msgID (foldl (\<lambda>c (name, x). upd_state x f c) c m) = ws_msgID c"
  "ws_trace (foldl (\<lambda>c (name, x). upd_state x f c) c m) = ws_trace c"
  "length (ws_heap (foldl (\<lambda>c (name, x). upd_state x f c) c m)) = length (ws_heap c)"
  by (induction m arbitrary: c) auto

lemma connection_loss_sel [simp]:
  "ws_channels (connection_loss c) = ws_channels c" "ws_sidMap (connection_loss c) = []"
  "ws_pendingInit (connection_loss c) = []" "ws_msgID (connection_loss c) = ws_msgID c"
  "ws_trace (connection_loss c) = ws_trace c" "ws_conn (connection_loss c) = None"
  "length (ws_heap (connection_loss c)) = length (ws_heap c)"
  by (simp_all add: connection_loss_def Let_def loss_fold_frame)

lemma connection_loss_state:
  assumes "ws_inv c" "map_of (ws_channels c) n = Some a"
  shows "ws_heap (connection_loss c) ! a = (ws_heap c ! a)\<lparr>cs_SID := None, cs_Seq := 0\<rparr>"
proof -
  have "a \<in> snd ` set (ws_channels c)" using map_of_SomeD [OF assms(2)] by force
  moreover have "a < length (ws_heap c)" using assms by (simp add: ws_inv_def)
  ultimately show ?thesis by (simp add: connection_loss_def Let_def loss_fold_heap)
qed

text \<open>The commands that restore the subscriptions of \<open>c\<close>, for an iteration order.\<close>

fun recovery_commands :: "goint \<Rightarrow> string list \<Rightarrow> ('k, 'r) WSClient \<Rightarrow> WSCommand list" where
  "recovery_commands i [] c = []"
| "recovery_commands i (n # ns) c =
     (case map_of (ws_channels c) n of
        None \<Rightarrow> recovery_commands i ns c
      | Some a \<Rightarrow>
          if cs_Global (ws_heap c ! a) then subscribe_command (i + 1) n [] False # recovery_commands (i + 1) ns c
          else if cs_Markets (ws_heap c ! a) \<noteq> []
          then subscribe_command (i + 1) n (cs_Markets (ws_heap c ! a)) False # recovery_commands (i + 1) ns c
          else recovery_commands i ns c)"

lemma recovery_commands_cong:
  assumes "ws_channels d = ws_channels c"
    and "\<And>n a. map_of (ws_channels c) n = Some a \<Longrightarrow> cs_Global (ws_heap d ! a) = cs_Global (ws_heap c ! a)
       \<and> cs_Markets (ws_heap d ! a) = cs_Markets (ws_heap c ! a)"
  shows "recovery_commands i order d = recovery_commands i order c"
  using assms by (induction order arbitrary: i) (auto split: option.split)

lemma recover_quiet:
  assumes "ws_conn c = Some k"
    and "\<And>n a. map_of (ws_channels c) n = Some a \<Longrightarrow> cs_Name (ws_heap c ! a) = n"
    and "length (recovery_commands (ws_msgID c) order c) \<le> m"
  shows "\<exists>c'. recover_loop (replicate m quiet) order c = (WSOk, c')
     \<and> ws_trace c' = ws_trace c @ map (Sent k) (recovery_commands (ws_msgID c) order c)
     \<and> ws_channels c' = ws_channels c \<and> ws_heap c' = ws_heap c"
  using assms
proof (induction order arbitrary: c m)
  case Nil
  then show ?case by simp
next
  case (Cons n order)
  show ?case
  proof (cases "map_of (ws_channels c) n")
    case None
    with Cons show ?thesis by simp
  next
    case (Some a)
    let ?s = "ws_heap c ! a"
    show ?thesis
    proof (cases "\<not> cs_Global ?s \<and> cs_Markets ?s = []")
      case True
      with Some Cons show ?thesis by (simp add: state_at_def)
    next
      case False
      let ?ts = "if cs_Global ?s then [] else cs_Markets ?s"
      let ?cmd = "subscribe_command (ws_msgID c + 1) n ?ts False"
      let ?c2 = "log_event (Sent k ?cmd) (alloc_pending n c)"
      have cmds: "recovery_commands (ws_msgID c) (n # order) c
          = ?cmd # recovery_commands (ws_msgID c + 1) order c"
        using Some False by auto
      then obtain m' where m: "m = Suc m'" using Cons.prems(3) by (cases m) auto
      have cong: "recovery_commands i order ?c2 = recovery_commands i order c" for i
        by (rule recovery_commands_cong) simp_all
      have len: "length (recovery_commands (ws_msgID ?c2) order ?c2) \<le> m'"
        using Cons.prems(3) m unfolding cmds cong by simp
      obtain c' where c': "recover_loop (replicate m' quiet) order ?c2 = (WSOk, c')"
        "ws_trace c' = ws_trace ?c2 @ map (Sent k) (recovery_commands (ws_msgID ?c2) order ?c2)"
        "ws_channels c' = ws_channels ?c2" "ws_heap c' = ws_heap ?c2"
        using Cons.IH [OF _ _ len] Cons.prems(1,2) by auto
      have "recover_loop (replicate m quiet) (n # order) c = (WSOk, c')"
        using Some False Cons.prems(1,2) m c'(1) by (auto simp: Let_def state_at_def)
      with c'(2-4) show ?thesis unfolding cmds cong by simp
    qed
  qed
qed

text \<open>C21: What recovery asks for after a lost connection. Handling the loss forgets every
  subscription id, pending id and sequence number; after a new connection, recovery with
  undisturbed writes sends, for each channel in the map's iteration order, one subscribe with
  exactly the tickers it had before the loss (none for a global one; a channel that is neither
  global nor has tickers is passed over), under fresh ids, and keeps every channel's record.\<close>

theorem loss_then_recovery:
  assumes "ws_inv c" "length (recovery_commands (ws_msgID c) order c) \<le> m"
  shows "ws_sidMap (connection_loss c) = [] \<and> ws_pendingInit (connection_loss c) = []
    \<and> (\<exists>c'. recoverSubscriptions (replicate m quiet) order ((connection_loss c)\<lparr>ws_conn := Some k\<rparr>) = (WSOk, c')
       \<and> ws_trace c' = ws_trace c @ map (Sent k) (recovery_commands (ws_msgID c) order c)
       \<and> ws_channels c' = ws_channels c
       \<and> (\<forall>n a. map_of (ws_channels c) n = Some a \<longrightarrow>
            ws_heap c' ! a = (ws_heap c ! a)\<lparr>cs_SID := None, cs_Seq := 0\<rparr>))"
proof -
  let ?d = "(connection_loss c)\<lparr>ws_conn := Some k\<rparr>"
  have cong: "recovery_commands (ws_msgID ?d) order ?d = recovery_commands (ws_msgID c) order c"
    using connection_loss_state [OF assms(1)]
    by (simp, intro recovery_commands_cong) simp_all
  have names: "cs_Name (ws_heap ?d ! a) = n" if "map_of (ws_channels ?d) n = Some a" for n a
    using that assms(1) connection_loss_state [OF assms(1), of n a] by (simp add: ws_inv_def)
  obtain c' where "recover_loop (replicate m quiet) order ?d = (WSOk, c')"
    "ws_trace c' = ws_trace ?d @ map (Sent k) (recovery_commands (ws_msgID ?d) order ?d)"
    "ws_channels c' = ws_channels ?d" "ws_heap c' = ws_heap ?d"
    using recover_quiet [of ?d k order m] names assms(2) unfolding cong by auto
  then show ?thesis
    using connection_loss_state [OF assms(1)] unfolding cong by (simp add: recoverSubscriptions_def)
qed

lemma loss_then_recovery_witness:
  "\<exists>c'. recoverSubscriptions [quiet] [''ticker''] ((connection_loss demo_listening)\<lparr>ws_conn := Some 2\<rparr>) = (WSOk, c')
     \<and> ws_trace c' = [Sent 2 (subscribe_command 2 ''ticker'' [''A''] False)]"
  using loss_then_recovery [OF demo_listening_inv, of "[''ticker'']" 1 2]
  by (auto simp: demo_listening_def)

section \<open>Backoff\<close>

lemma loss_fold_backoffs:
  "ws_minBackoff (foldl (\<lambda>c (name, x). upd_state x f c) c m) = ws_minBackoff c"
  "ws_maxBackoff (foldl (\<lambda>c (name, x). upd_state x f c) c m) = ws_maxBackoff c"
  by (induction m arbitrary: c) auto

definition same_backoffs :: "('k, 'r) WSClient \<Rightarrow> ('k, 'r) WSClient \<Rightarrow> bool" where
  "same_backoffs c d \<longleftrightarrow> ws_minBackoff d = ws_minBackoff c \<and> ws_maxBackoff d = ws_maxBackoff c"

lemma section_backoffs: "same_backoffs c (run_section x c)"
  by (cases x) (auto simp: same_backoffs_def new_channel_def alloc_id_def alloc_pending_def Let_def drop_channel_def
      deletePendingInitForChannel_def drop_sid_def set_global_def add_markets_def queue_markets_def
      remove_markets_def take_pending_def force_reconnect_def log_event_def subscribed_enter_def
      handleOK_def check_seq_def handleUnsubscribed_def handleDataMessage_def connection_loss_def
      loss_fold_backoffs split: option.split)

interpretation ws_backoffs: framed_steps run_section "\<lambda>c. (ws_minBackoff c, ws_maxBackoff c)"
  by unfold_locales (simp add: section_backoffs [unfolded same_backoffs_def])

lemma reach_backoffs: "ws_reach c d \<Longrightarrow> same_backoffs c d"
  using ws_backoffs.run_view by (fastforce simp: reach_fold same_backoffs_def)

lemma sint_double:
  assumes "0 \<le> sint (b :: duration)" "sint b < 2 ^ 62"
  shows "sint (b * 2) = sint b * 2"
proof -
  have "b * 2 = word_of_int (sint b * 2)" by simp
  also have "sint \<dots> = sint b * 2"
    using assms by (simp only: sint_sbintrunc') (simp add: signed_take_bit_int_eq_self)
  finally show ?thesis .
qed

lemma nextBackoff_exact:
  assumes "0 \<le> sint b" "sint b < 2 ^ 62"
  shows "sint (nextBackoff c b) = min (sint b * 2) (sint (ws_maxBackoff c))"
  using sint_double [OF assms] by (simp add: nextBackoff_def Let_def)

lemma listen_pass_next:
  assumes "listen_pass w r b c = (ListenNext b', c')"
  shows "b' = nextBackoff c' b \<or> b' = ws_minBackoff c'"
  using assms
  by (auto simp: listen_pass_def Let_def log_event_def split: if_splits option.splits prod.splits
      read_result.splits ws_result.splits)

text \<open>Reconnection backs off exponentially and stays within its bounds: with
  \<open>0 <= minBackoff <= maxBackoff < 2^62\<close> nanoseconds, whatever happens on the network, every
  pass of \<open>ListenLoop\<close> that continues leaves a backoff between the two, and that is either
  the minimum (it was connected) or twice the last one capped at the maximum.\<close>

theorem listen_backoff_bounds:
  assumes "0 \<le> sint (ws_minBackoff c)" "sint (ws_minBackoff c) \<le> sint (ws_maxBackoff c)"
    and "sint (ws_maxBackoff c) < 2 ^ 62"
    and "sint (ws_minBackoff c) \<le> sint b" "sint b \<le> sint (ws_maxBackoff c)"
    and "listen_pass w r b c = (ListenNext b', c')"
  shows "sint (ws_minBackoff c) \<le> sint b' \<and> sint b' \<le> sint (ws_maxBackoff c)
    \<and> (b' = ws_minBackoff c \<or> sint b' = min (sint b * 2) (sint (ws_maxBackoff c)))"
proof -
  have "ws_reach c c'" using reach_listen_pass [OF ws_refl [of c], of w r b] assms(6) by simp
  then have same: "ws_minBackoff c' = ws_minBackoff c" "ws_maxBackoff c' = ws_maxBackoff c"
    using reach_backoffs [of c c'] by (simp_all add: same_backoffs_def)
  have "sint (nextBackoff c' b) = min (sint b * 2) (sint (ws_maxBackoff c))"
    using nextBackoff_exact [of b c'] assms same by simp
  then show ?thesis using listen_pass_next [OF assms(6)] same assms by auto
qed

definition failed_dial :: listen_round where
  "failed_dial = \<lparr>lr_others = [], lr_ctxErr = False, lr_dialing = [], lr_unixMilli = 0,
     lr_dial = Inl (ErrorString ''refused''), lr_done = False, lr_handover = [], lr_reads = [], lr_ended = False,
     lr_lost = [], lr_lostDone = False, lr_redialing = [], lr_reUnixMilli = 0,
     lr_redial = Inl (ErrorString ''refused''), lr_order = [], lr_windows = []\<rparr>"

lemma demo_connect_fails:
  "Connect toy_crypto 0 (Inl e) [] (demo_ws\<lparr>ws_conn := None\<rparr>)
     = (Some (WrapError ''WS dial wss://w/trade-api/ws/v2'' e), demo_ws\<lparr>ws_conn := None\<rparr>)"
  by (simp add: Connect_def demo_ws_def NewWSClient_def wsPathSuffix_def RequestHeaders_def SignPSSText_def
      toy_crypto_def randReader_def Let_def)

lemma listen_backoff_bounds_witness:
  "\<exists>b c'. listen_pass toy_crypto failed_dial 20000000000 (demo_ws\<lparr>ws_conn := None\<rparr>) = (ListenNext b, c')
     \<and> sint b \<le> 32000000000"
proof -
  let ?c = "demo_ws\<lparr>ws_conn := None\<rparr>"
  have p: "listen_pass toy_crypto failed_dial 20000000000 ?c = (ListenNext (nextBackoff ?c 20000000000), ?c)"
    by (simp add: listen_pass_def failed_dial_def Let_def demo_connect_fails)
  from listen_backoff_bounds [OF _ _ _ _ _ p] p show ?thesis by simp
qed

section \<open>The wire format\<close>

lemma json_ok_cmds:
  "json_ok (WSCommand_json (subscribe_command i ch ts sn))"
  "json_ok (WSCommand_json (update_command i sid ts act sn))"
  "json_ok (WSCommand_json (unsubscribe_command i sid))"
  by (auto simp: WSCommand_json_def subscribe_command_def update_command_def unsubscribe_command_def
      SubscribeParams_json_def UpdateSubParams_json_def UnsubscribeParams_json_def zero_SubscribeParams_def
      zero_UpdateSubParams_def j_strings_def j_ints_def opt_str_def opt_strs_def opt_int_def opt_ints_def
      opt_bool_def list_all_iff)

lemma print_inj: "json_ok j \<Longrightarrow> json_ok j' \<Longrightarrow> json_print j = json_print j' \<Longrightarrow> j = j'"
  by (metis json_parse_print option.inject)

lemma JInt_inj [simp]: "JInt i = JInt j \<longleftrightarrow> i = j"
  by (simp add: JInt_def Itoa_inj)

lemma JStr_map_inj [simp]: "map JStr ts = map JStr ts' \<longleftrightarrow> ts = ts'"
  by (simp add: inj_map_eq_map inj_def)

lemmas command_json_defs = WSCommand_json_def subscribe_command_def update_command_def
  unsubscribe_command_def SubscribeParams_json_def UpdateSubParams_json_def UnsubscribeParams_json_def
  zero_SubscribeParams_def zero_UpdateSubParams_def j_strings_def j_ints_def opt_str_def opt_strs_def
  opt_int_def opt_ints_def opt_bool_def

lemma command_jsons:
  "WSCommand_json (subscribe_command i ch ts sn) = WSCommand_json (subscribe_command i' ch' ts' sn')
     \<longleftrightarrow> i = i' \<and> ch = ch' \<and> ts = ts' \<and> sn = sn'"
  "WSCommand_json (update_command i sid ts act sn) = WSCommand_json (update_command i' sid' ts' act' sn')
     \<longleftrightarrow> i = i' \<and> sid = sid' \<and> ts = ts' \<and> act = act' \<and> sn = sn'"
  "WSCommand_json (unsubscribe_command i sid) = WSCommand_json (unsubscribe_command i' sid')
     \<longleftrightarrow> i = i' \<and> sid = sid'"
  "WSCommand_json (subscribe_command i ch ts sn) \<noteq> WSCommand_json (update_command i' sid' ts' act' sn')"
  "WSCommand_json (subscribe_command i ch ts sn) \<noteq> WSCommand_json (unsubscribe_command i' sid')"
  "WSCommand_json (update_command i sid ts act sn) \<noteq> WSCommand_json (unsubscribe_command i' sid')"
  by (auto simp: command_json_defs WSCmdSubscribe_def WSCmdUpdateSubscription_def WSCmdUnsubscribe_def
      split: if_splits)

lemma print_eq_iff: "json_ok j \<Longrightarrow> json_ok j' \<Longrightarrow> json_print j = json_print j' \<longleftrightarrow> j = j'"
  using print_inj by blast

text \<open>The wire format of the client's commands is unambiguous: two subscribe (or update, or
  unsubscribe) commands with the same bytes agree in id, channel or subscription id, tickers,
  action and snapshot flag, and the three kinds never share a message.\<close>

lemma commands_unambiguous:
  "(json_print (WSCommand_json (subscribe_command i ch ts sn))
      = json_print (WSCommand_json (subscribe_command i' ch' ts' sn'))
      \<longleftrightarrow> i = i' \<and> ch = ch' \<and> ts = ts' \<and> sn = sn')
   \<and> (json_print (WSCommand_json (update_command i sid ts act sn))
      = json_print (WSCommand_json (update_command i' sid' ts' act' sn'))
      \<longleftrightarrow> i = i' \<and> sid = sid' \<and> ts = ts' \<and> act = act' \<and> sn = sn')
   \<and> (json_print (WSCommand_json (unsubscribe_command i sid))
      = json_print (WSCommand_json (unsubscribe_command i' sid')) \<longleftrightarrow> i = i' \<and> sid = sid')
   \<and> json_print (WSCommand_json (subscribe_command i ch ts sn)) \<noteq> json_print (WSCommand_json (update_command i' sid' ts' act' sn'))
   \<and> json_print (WSCommand_json (subscribe_command i ch ts sn)) \<noteq> json_print (WSCommand_json (unsubscribe_command i' sid'))
   \<and> json_print (WSCommand_json (update_command i sid ts act sn)) \<noteq> json_print (WSCommand_json (unsubscribe_command i' sid'))"
  by (simp only: print_eq_iff [OF json_ok_cmds(1) json_ok_cmds(1)] print_eq_iff [OF json_ok_cmds(2) json_ok_cmds(2)]
      print_eq_iff [OF json_ok_cmds(3) json_ok_cmds(3)] print_eq_iff [OF json_ok_cmds(1) json_ok_cmds(2)]
      print_eq_iff [OF json_ok_cmds(1) json_ok_cmds(3)] print_eq_iff [OF json_ok_cmds(2) json_ok_cmds(3)]
      command_jsons not_False_eq_True simp_thms)

section \<open>Where the code loses subscriptions\<close>

definition ack_msg :: WSMessage where
  "ack_msg = \<lparr>msg_Type = ''subscribed'', msg_ID = 1, msg_SID = 0, msg_Seq = 0,
     msg_Msg = Some (JObj [(''channel'', JStr ''ticker''), (''sid'', JInt 7)])\<rparr>"

text \<open>Tickers added while a subscribe is unanswered are sent to the server when the answer
  comes, but never enter the channel's set, so they are not restored after a reconnect: after
  \<open>AddMarkets\<close> of A, then of B before the answer, both calls having returned nil and B having
  been requested, recovery asks for A only.\<close>

theorem pending_tickers_lost_on_reconnect:
  "\<exists>c1 c2 c3 c4. AddMarkets [quiet] [''A''] [''ticker''] [] demo_ws = (WSOk, c1)
     \<and> AddMarkets [] [''B''] [''ticker''] [] c1 = (WSOk, c2)
     \<and> handleSubscribed [quiet] ack_msg c2 = (True, c3)
     \<and> Sent 1 (update_command 2 7 [''B''] WSUpdateAddMarkets False) \<in> set (ws_trace c3)
     \<and> recoverSubscriptions [quiet] [''ticker''] ((connection_loss c3)\<lparr>ws_conn := Some 2\<rparr>) = (WSOk, c4)
     \<and> ws_trace c4 = ws_trace c3 @ [Sent 2 (subscribe_command 3 ''ticker'' [''A''] False)]"
proof -
  have keys: "key_matches ''channel'' ''channel''" "key_matches ''sid'' ''sid''" "\<not> key_matches ''channel'' ''sid''"
    "\<not> key_matches ''sid'' ''channel''" by code_simp+
  have "in_int64 7" by (simp add: in_int64_def)
  then have b: "unmarshal_body dec_SubscribedBody (msg_Msg ack_msg) = Some \<lparr>sb_Channel = ''ticker'', sb_SID = 7\<rparr>"
    by (simp add: ack_msg_def unmarshal_body_def dec_SubscribedBody_def obj_pairs_def dec_field_def keys dec_string_def)
  have i: "msg_ID ack_msg = 1" by (simp add: ack_msg_def)
  show ?thesis
    by (simp add: AddMarkets_def Let_def add_enter_def new_tickers_def state_at_def NewChannelState_def
        pendingInitForChannel_def add_markets_def queue_markets_def handleSubscribed_def subscribed_enter_def
        b i take_pending_def recoverSubscriptions_def applyOpts_def connection_loss_def set_add_def)
qed

text \<open>Recovery does not look at the pending subscribes. A \<open>Subscribe\<close> that gets in between the new
  connection and \<open>recoverSubscriptions\<close> is sent a second time; when the server answers both, two
  subscription ids lead to the same state, which carries only the second: such a run is not
  orderly.\<close>

theorem recovery_repeats_pending_subscribe:
  "\<exists>c1 c2 c3 c4. Subscribe [quiet] [''ticker''] (Some [''A'']) [] demo_ws = (WSOk, c1)
     \<and> recoverSubscriptions [quiet] [''ticker''] c1 = (WSOk, c2)
     \<and> ws_trace c2 = [Sent 1 (subscribe_command 1 ''ticker'' [''A''] False),
                       Sent 1 (subscribe_command 2 ''ticker'' [''A''] False)]
     \<and> handleSubscribed [] (acknowledge 1 7) c2 = (True, c3)
     \<and> handleSubscribed [] (acknowledge 2 8) c3 = (True, c4)
     \<and> ws_sidMap c4 = [(7, 0), (8, 0)] \<and> cs_SID (ws_heap c4 ! 0) = Some 8"
proof -
  have b: "unmarshal_body dec_SubscribedBody (msg_Msg (acknowledge i 7)) = Some \<lparr>sb_Channel = ''ticker'', sb_SID = 7\<rparr>"
    "unmarshal_body dec_SubscribedBody (msg_Msg (acknowledge i 8)) = Some \<lparr>sb_Channel = ''ticker'', sb_SID = 8\<rparr>" for i
    by (rule acknowledge_body, simp add: in_int64_def)+
  have i: "msg_ID (acknowledge i s) = i" for i s by (simp add: acknowledge_def)
  show ?thesis
    by (simp add: Subscribe_def Let_def state_at_def NewChannelState_def handleSubscribed_def subscribed_enter_def
        b i recoverSubscriptions_def applyOpts_def set_add_def)
qed

definition eof_then_no_redial :: listen_round where
  "eof_then_no_redial = failed_dial\<lparr>lr_reads := [ReadError [] (ErrorString ''EOF'')]\<rparr>"

definition dial_two :: listen_round where
  "dial_two = failed_dial\<lparr>lr_dial := Inr 2\<rparr>"

lemma toy_headers:
  "\<exists>h. RequestHeaders toy_crypto n (cfg_Credentials (ws_cfg demo_ws)) m p = Inr h"
  by (simp add: RequestHeaders_def SignPSSText_def toy_crypto_def demo_ws_def NewWSClient_def Let_def)

lemma connect_two: "ws_cfg c = ws_cfg demo_ws \<Longrightarrow> Connect toy_crypto n (Inr k) [] c = (None, c\<lparr>ws_conn := Some k\<rparr>)"
  using toy_headers [of n "''GET''" wsPathSuffix] by (auto simp: Connect_def Let_def)

lemma connect_none: "ws_cfg c = ws_cfg demo_ws \<Longrightarrow> \<exists>e'. Connect toy_crypto n (Inl e) [] c = (Some e', c)"
  using toy_headers [of n "''GET''" wsPathSuffix] by (auto simp: Connect_def Let_def)

text \<open>If the first reconnect after a loss fails, recovery never happens: the next pass
  dials at the top of the loop and goes straight to reading. Here the channel with ticker A is
  still in the client, the new connection is up, and no subscribe has been sent on it.\<close>

theorem failed_reconnect_skips_recovery:
  "\<exists>c. ListenLoop toy_crypto [eof_then_no_redial, dial_two] demo_listening = (ListenBlocked, c)
     \<and> ws_conn c = Some 2 \<and> ws_trace c = []
     \<and> map_of (ws_channels c) ''ticker'' = Some 0 \<and> cs_Markets (ws_heap c ! 0) = [''A'']
     \<and> ws_sidMap c = [] \<and> ws_pendingInit c = []"
proof -
  let ?l = "connection_loss demo_listening"
  have sel: "ws_conn demo_listening = Some 1" "ws_hasOnDisconnect demo_listening = False"
    "ws_closed demo_listening = False" "ws_minBackoff demo_listening = 1000000000"
    by (simp_all add: demo_listening_def)
  have cfg: "ws_cfg ?l = ws_cfg demo_ws"
    by (simp add: connection_loss_def demo_listening_def Let_def upd_state_def)
  obtain e where e: "Connect toy_crypto 0 (Inl (ErrorString ''refused'')) [] ?l = (Some e, ?l)"
    using connect_none [OF cfg] by blast
  have p1: "listen_pass toy_crypto eof_then_no_redial 1000000000 demo_listening
      = (ListenNext (nextBackoff ?l 1000000000), ?l)"
    by (simp add: listen_pass_def eof_then_no_redial_def failed_dial_def Let_def sel handleConnectionLoss_def e)
  have p2: "listen_pass toy_crypto dial_two b ?l = (ListenBlocked, ?l\<lparr>ws_conn := Some 2\<rparr>)" for b
    by (simp add: listen_pass_def dial_two_def failed_dial_def Let_def connect_two [OF cfg])
  have "cs_Markets (ws_heap ?l ! 0) = [''A'']"
    by (simp add: connection_loss_def demo_listening_def Let_def)
  then show ?thesis
    by (simp add: ListenLoop_def sel p1 p2) (simp add: demo_listening_def)
qed

text \<open>Closing the client while the loop waits to reconnect does not end the loop: it dials again
  and reads from the new connection.\<close>

lemma close_does_not_stop_redial:
  "\<exists>c. listen_pass toy_crypto dial_two b (snd (Close [] (demo_ws\<lparr>ws_conn := None\<rparr>))) = (ListenBlocked, c)
     \<and> ws_closed c \<and> ws_conn c = Some 2"
proof -
  let ?c = "snd (Close [] (demo_ws\<lparr>ws_conn := None\<rparr>))"
  have cfg: "ws_cfg ?c = ws_cfg demo_ws" by (simp add: Close_def)
  have "ws_conn ?c = None" by (simp add: Close_def)
  then show ?thesis
    by (simp add: listen_pass_def dial_two_def failed_dial_def Let_def connect_two [OF cfg])
      (simp add: Close_def)
qed

end
