(* ===== verification/WSTable.thy ===== *)
theory WSTable
  imports WSProps
begin

text \<open>
  What \<open>Subscribe\<close> and \<open>Unsubscribe\<close> of \<open>ws_client.go\<close> promise their caller, without heap,
  pointers and pending ids: a table from channel names to subscriptions, a counter of message
  ids and the commands sent. The view of a client as such a table is the abstraction; the two
  operations are shown to have exactly the effect of the table's operations, also when they
  stop half way.
\<close>

section \<open>The table\<close>

record subscription =
  sub_global :: bool
  sub_tickers :: "string set"
  sub_sid :: "goint option"

record subscription_table =
  tab_subs :: "string \<Rightarrow> subscription option"
  tab_next :: goint
  tab_sent :: "ws_event list"

definition view_state :: "ChannelState \<Rightarrow> subscription" where
  "view_state s = \<lparr>sub_global = cs_Global s, sub_tickers = set (cs_Markets s), sub_sid = cs_SID s\<rparr>"

definition table_of :: "('k, 'r) WSClient \<Rightarrow> subscription_table" where
  "table_of c = \<lparr>tab_subs = (\<lambda>n. map_option (\<lambda>a. view_state (ws_heap c ! a)) (map_of (ws_channels c) n)),
     tab_next = ws_msgID c, tab_sent = ws_trace c\<rparr>"

definition fresh_subscription :: "string list option \<Rightarrow> subscription" where
  "fresh_subscription tickers = \<lparr>sub_global = (tickers = None),
     sub_tickers = (case tickers of None \<Rightarrow> {} | Some ts \<Rightarrow> set ts), sub_sid = None\<rparr>"

text \<open>
  The two operations on the table. Subscribing the channels \<open>chs\<close> over connection \<open>k\<close> enters a
  fresh subscription for each and sends one subscribe per channel with consecutive ids.
  Unsubscribing removes each, and sends one unsubscribe for each that had a subscription id.
\<close>

definition tab_subscribe ::
  "nat \<Rightarrow> string list option \<Rightarrow> bool \<Rightarrow> string list \<Rightarrow> subscription_table \<Rightarrow> subscription_table" where
  "tab_subscribe k tickers snap chs t =
     \<lparr>tab_subs = (\<lambda>n. if n \<in> set chs then Some (fresh_subscription tickers) else tab_subs t n),
      tab_next = tab_next t + int (length chs),
      tab_sent = tab_sent t @ map (\<lambda>i. Sent k (subscribe_command (tab_next t + 1 + int i) (chs ! i)
        (case tickers of None \<Rightarrow> [] | Some ts \<Rightarrow> ts) snap)) [0..<length chs]\<rparr>"

definition tab_sids :: "subscription_table \<Rightarrow> string list \<Rightarrow> goint list" where
  "tab_sids t chs = List.map_filter (\<lambda>n. Option.bind (tab_subs t n) sub_sid) chs"

definition tab_unsubscribe :: "nat \<Rightarrow> string list \<Rightarrow> subscription_table \<Rightarrow> subscription_table" where
  "tab_unsubscribe k chs t =
     \<lparr>tab_subs = (\<lambda>n. if n \<in> set chs then None else tab_subs t n),
      tab_next = tab_next t + int (length (tab_sids t chs)),
      tab_sent = tab_sent t @ map (\<lambda>i. Sent k (unsubscribe_command (tab_next t + 1 + int i)
        (tab_sids t chs ! i))) [0..<length (tab_sids t chs)]\<rparr>"

text \<open>An id that was taken by a command that was not sent.\<close>

definition tab_skip :: "subscription_table \<Rightarrow> subscription_table" where
  "tab_skip t = t\<lparr>tab_next := tab_next t + 1\<rparr>"

section \<open>The sections, seen through the table\<close>

lemma table_sel [simp]:
  "tab_next (table_of c) = ws_msgID c" "tab_sent (table_of c) = ws_trace c"
  "tab_subs (table_of c) n = map_option (\<lambda>a. view_state (ws_heap c ! a)) (map_of (ws_channels c) n)"
  by (simp_all add: table_of_def)

lemma table_eqI:
  "(\<And>n. tab_subs t n = tab_subs u n) \<Longrightarrow> tab_next t = tab_next u \<Longrightarrow> tab_sent t = tab_sent u
    \<Longrightarrow> t = (u :: subscription_table)"
  by (cases t; cases u) auto

lemma table_new_channel:
  assumes "ws_inv c"
  shows "tab_subs (table_of (new_channel ch (tickers = None) (case tickers of None \<Rightarrow> [] | Some ts \<Rightarrow> ts) c)) n
    = (if n = ch then Some (fresh_subscription tickers) else tab_subs (table_of c) n)"
proof -
  have old: "(ws_heap c @ [s]) ! a = ws_heap c ! a" if "map_of (ws_channels c) n = Some a" for a s
    using assms that by (simp add: ws_inv_def nth_append)
  show ?thesis
    by (cases "map_of (ws_channels c) n")
      (auto simp: old view_state_def fresh_subscription_def NewChannelState_def split: option.split)
qed

lemma drop_channel_sel [simp]:
  "ws_msgID (drop_channel ch c) = ws_msgID c" "ws_trace (drop_channel ch c) = ws_trace c"
  "ws_conn (drop_channel ch c) = ws_conn c" "ws_heap (drop_channel ch c) = ws_heap c"
  "ws_channels (drop_channel ch c) = AList.delete ch (ws_channels c)"
  by (simp_all add: drop_channel_def deletePendingInitForChannel_def split: option.split)

lemma drop_sid_sel [simp]:
  "ws_msgID (drop_sid sid ch c) = ws_msgID c" "ws_trace (drop_sid sid ch c) = ws_trace c"
  "ws_conn (drop_sid sid ch c) = ws_conn c" "ws_heap (drop_sid sid ch c) = ws_heap c"
  "ws_channels (drop_sid sid ch c) = AList.delete ch (ws_channels c)"
  by (simp_all add: drop_sid_def)

lemma map_upt_shift:
  "map f [0..<Suc n] = f 0 # map (\<lambda>i. f (Suc i)) [0..<n]"
  by (simp only: upt_conv_Cons [OF zero_less_Suc] list.map map_Suc_upt [symmetric] map_map comp_def)

lemma tab_subscribe_Cons:
  "tab_subscribe k tickers snap (ch # chs) t = tab_subscribe k tickers snap chs (tab_subscribe k tickers snap [ch] t)"
  by (rule table_eqI) (auto simp: tab_subscribe_def map_upt_shift algebra_simps simp del: upt_Suc)

section \<open>Subscribe\<close>

lemma subscribe_step:
  fixes c :: "('k, 'r) WSClient" and tickers :: "string list option" and snap :: bool
  assumes "ws_inv c" "ws_conn c = Some k" "map_of (ws_channels c) ch = None"
  defines "ts \<equiv> (case tickers of None \<Rightarrow> [] | Some ts \<Rightarrow> ts)"
  defines "c' \<equiv> log_event (Sent k (subscribe_command (ws_msgID c + 1) ch ts snap))
     (alloc_pending ch (new_channel ch (tickers = None) ts c))"
  shows "subscribe_loop (quiet # ws) tickers snap (ch # chs) c = subscribe_loop ws tickers snap chs c'"
    and "ws_inv c'" "ws_conn c' = Some k" "table_of c' = tab_subscribe k tickers snap [ch] (table_of c)"
proof -
  show "subscribe_loop (quiet # ws) tickers snap (ch # chs) c = subscribe_loop ws tickers snap chs c'"
    using assms(2,3) by (simp add: ts_def c'_def Let_def)
  show "ws_inv c'" using assms(1) by (simp add: c'_def inv_alloc_pending inv_new_channel)
  show "ws_conn c' = Some k" using assms(2) by (simp add: c'_def)
  have "tab_subs (table_of c') n = tab_subs (table_of (new_channel ch (tickers = None) ts c)) n" for n
    by (simp add: c'_def)
  then show "table_of c' = tab_subscribe k tickers snap [ch] (table_of c)"
    using table_new_channel [OF assms(1), of ch tickers]
    by (intro table_eqI) (simp_all add: tab_subscribe_def c'_def ts_def del: table_sel(3))
qed

text \<open>The loop up to the channel where it stops.\<close>

lemma subscribe_prefix:
  assumes "ws_inv c" "ws_conn c = Some k" "distinct chs" "set chs \<inter> dom (tab_subs (table_of c)) = {}"
  shows "\<exists>c'. subscribe_loop (replicate (length chs) quiet @ ws) tickers snap (chs @ rest) c
      = subscribe_loop ws tickers snap rest c'
    \<and> ws_inv c' \<and> ws_conn c' = Some k \<and> table_of c' = tab_subscribe k tickers snap chs (table_of c)"
  using assms
proof (induction chs arbitrary: c)
  case Nil
  have "table_of c = tab_subscribe k tickers snap [] (table_of c)"
    by (rule table_eqI) (simp_all add: tab_subscribe_def)
  with Nil show ?case by auto
next
  case (Cons ch chs)
  have new: "map_of (ws_channels c) ch = None" using Cons.prems(4) by auto
  note step = subscribe_step [OF Cons.prems(1,2) new, where tickers = tickers and snap = snap]
  let ?ts = "case tickers of None \<Rightarrow> [] | Some ts \<Rightarrow> ts"
  let ?c = "log_event (Sent k (subscribe_command (ws_msgID c + 1) ch ?ts snap))
     (alloc_pending ch (new_channel ch (tickers = None) ?ts c))"
  have "set chs \<inter> dom (tab_subs (table_of ?c)) = {}"
    using Cons.prems(3,4) unfolding step(4) by (auto simp: tab_subscribe_def dom_def split: if_splits)
  from Cons.IH [OF step(2,3) _ this] Cons.prems(3) show ?case
    unfolding length_Cons replicate_Suc append_Cons step(1) step(4) tab_subscribe_Cons [of _ _ _ ch chs]
    by simp
qed

lemma subscribe_fails:
  assumes "ws_inv c" "ws_conn c = Some k" "ch \<notin> dom (tab_subs (table_of c))"
  shows "\<exists>c'. subscribe_loop (failing e # ws) tickers snap (ch # chs) c = (WSErr e, c')
    \<and> table_of c' = tab_skip (table_of c)"
proof -
  let ?ts = "case tickers of None \<Rightarrow> [] | Some ts \<Rightarrow> ts"
  let ?c = "drop_channel ch (alloc_pending ch (new_channel ch (tickers = None) ?ts c))"
  have new: "map_of (ws_channels c) ch = None" using assms(3) by auto
  have old: "(ws_heap c @ [s]) ! a = ws_heap c ! a" if "map_of (ws_channels c) n = Some a" for a s n
    using assms(1) that by (simp add: ws_inv_def nth_append)
  have "tab_subs (table_of ?c) n = tab_subs (table_of c) n" for n
    using new by (cases "map_of (ws_channels c) n") (auto simp: old)
  then have "table_of ?c = tab_skip (table_of c)"
    by (intro table_eqI) (simp_all add: tab_skip_def)
  moreover have "subscribe_loop (failing e # ws) tickers snap (ch # chs) c = (WSErr e, ?c)"
    using assms(2) new by (simp add: Let_def)
  ultimately show ?thesis by blast
qed

section \<open>Unsubscribe\<close>

lemma tab_sids_simps:
  "tab_sids t [] = []"
  "tab_sids t (ch # chs) = (case Option.bind (tab_subs t ch) sub_sid of None \<Rightarrow> tab_sids t chs
     | Some sid \<Rightarrow> sid # tab_sids t chs)"
  by (simp_all add: tab_sids_def List.map_filter_simps split: option.split)

lemma tab_sids_cong: "(\<And>n. n \<in> set chs \<Longrightarrow> tab_subs t n = tab_subs u n) \<Longrightarrow> tab_sids t chs = tab_sids u chs"
  by (induction chs) (simp_all add: tab_sids_simps split: option.split)

lemma tab_unsubscribe_Cons:
  assumes "ch \<notin> set chs"
  shows "tab_unsubscribe k (ch # chs) t = tab_unsubscribe k chs (tab_unsubscribe k [ch] t)"
proof -
  have "tab_sids (tab_unsubscribe k [ch] t) chs = tab_sids t chs"
    by (rule tab_sids_cong) (use assms in \<open>auto simp: tab_unsubscribe_def\<close>)
  then show ?thesis
    by (intro table_eqI) (auto simp: tab_unsubscribe_def tab_sids_simps map_upt_shift algebra_simps
        simp del: upt_Suc split: option.split)
qed

lemma unsubscribe_prefix:
  assumes "ws_inv c" "ws_conn c = Some k" "distinct chs"
  shows "\<exists>c'. unsubscribe_loop (replicate (length (tab_sids (table_of c) chs)) quiet @ ws) (chs @ rest) c
      = unsubscribe_loop ws rest c'
    \<and> ws_inv c' \<and> ws_conn c' = Some k \<and> table_of c' = tab_unsubscribe k chs (table_of c)"
  using assms
proof (induction chs arbitrary: c)
  case Nil
  have "table_of c = tab_unsubscribe k [] (table_of c)"
    by (rule table_eqI) (simp_all add: tab_unsubscribe_def tab_sids_simps)
  with Nil show ?case by (auto simp: tab_sids_simps)
next
  case (Cons ch chs)
  have step: ?case
    if d: "unsubscribe_loop (replicate (length (tab_sids (table_of c) (ch # chs))) quiet @ ws) ((ch # chs) @ rest) c
        = unsubscribe_loop (replicate (length (tab_sids (table_of c) chs)) quiet @ ws) (chs @ rest) d"
      and "ws_inv d" "ws_conn d = Some k" "table_of d = tab_unsubscribe k [ch] (table_of c)" for d
  proof -
    have "tab_sids (table_of d) chs = tab_sids (table_of c) chs"
      unfolding that(4) by (rule tab_sids_cong) (use Cons.prems(3) in \<open>auto simp: tab_unsubscribe_def\<close>)
    with Cons.IH [OF that(2,3)] Cons.prems(3) tab_unsubscribe_Cons [of ch chs k "table_of c"]
    show ?thesis unfolding d that(4) [symmetric] by simp
  qed
  show ?case
  proof (cases "map_of (ws_channels c) ch")
    case None
    show ?thesis
      by (rule step [of c]) (use Cons.prems None in \<open>auto simp: tab_sids_simps tab_unsubscribe_def intro!: table_eqI\<close>)
  next
    case a: (Some a)
    show ?thesis
    proof (cases "cs_SID (ws_heap c ! a)")
      case None
      show ?thesis
        by (rule step [of "drop_channel ch c"]) (use Cons.prems a None in
          \<open>auto simp: tab_sids_simps tab_unsubscribe_def state_at_def inv_drop_channel view_state_def intro!: table_eqI\<close>)
    next
      case (Some sid)
      let ?d = "drop_sid sid ch (log_event (Sent k (unsubscribe_command (ws_msgID c + 1) sid)) (alloc_id c))"
      show ?thesis
        by (rule step [of ?d]) (use Cons.prems a Some in
          \<open>auto simp: tab_sids_simps tab_unsubscribe_def state_at_def inv_drop_sid inv_alloc_id view_state_def
             intro!: table_eqI\<close>)
    qed
  qed
qed

lemma sendUnsubscribe_failing:
  "ws_conn c = Some k \<Longrightarrow> sendUnsubscribe (failing e) sid c = (Some e, alloc_id c)"
  by (simp add: sendUnsubscribe_def writeJSON_def Let_def)

lemma unsubscribe_fails:
  assumes "ws_conn c = Some k" "Option.bind (tab_subs (table_of c) ch) sub_sid = Some sid"
  shows "\<exists>c'. unsubscribe_loop (failing e # ws) (ch # chs) c = (WSErr e, c')
    \<and> table_of c' = tab_skip (table_of c)"
proof -
  obtain a where "map_of (ws_channels c) ch = Some a" "cs_SID (ws_heap c ! a) = Some sid"
    using assms(2) by (cases "map_of (ws_channels c) ch") (auto simp: view_state_def)
  moreover have "table_of (alloc_id c) = tab_skip (table_of c)"
    by (rule table_eqI) (simp_all add: tab_skip_def)
  ultimately show ?thesis
    using sendUnsubscribe_failing [OF assms(1)] by (simp add: state_at_def)
qed

section \<open>The property\<close>

text \<open>How a call can stop: \<open>None\<close> when it does all its channels.\<close>

datatype sub_stop = AllDone | AlreadySubscribed string | WriteFailed goerror

fun stop_result :: "sub_stop \<Rightarrow> ws_result" where
  "stop_result AllDone = WSOk"
| "stop_result (AlreadySubscribed ch) =
     invalid_argument (''channel '' @ Quote ch @ '' already subscribed; call Unsubscribe first'')"
| "stop_result (WriteFailed e) = WSErr e"

fun stop_windows :: "sub_stop \<Rightarrow> window list" where
  "stop_windows (WriteFailed e) = [failing e]"
| "stop_windows _ = []"

fun stop_table :: "sub_stop \<Rightarrow> subscription_table \<Rightarrow> subscription_table" where
  "stop_table (WriteFailed e) t = tab_skip t"
| "stop_table _ t = t"

text \<open>The reason why a call stops at the head of \<open>rest\<close>, given the table it has reached.\<close>

fun subscribe_stop :: "sub_stop \<Rightarrow> string list \<Rightarrow> subscription_table \<Rightarrow> bool" where
  "subscribe_stop AllDone rest t = (rest = [])"
| "subscribe_stop (AlreadySubscribed ch) rest t = (rest \<noteq> [] \<and> hd rest = ch \<and> tab_subs t ch \<noteq> None)"
| "subscribe_stop (WriteFailed e) rest t = (rest \<noteq> [] \<and> tab_subs t (hd rest) = None)"

fun unsubscribe_stop :: "sub_stop \<Rightarrow> string list \<Rightarrow> subscription_table \<Rightarrow> bool" where
  "unsubscribe_stop AllDone rest t = (rest = [])"
| "unsubscribe_stop (AlreadySubscribed ch) rest t = False"
| "unsubscribe_stop (WriteFailed e) rest t =
     (rest \<noteq> [] \<and> Option.bind (tab_subs t (hd rest)) sub_sid \<noteq> None)"

text \<open>C14: Seen through the table of subscriptions, undisturbed \<open>Subscribe\<close> and \<open>Unsubscribe\<close>
  calls of a connected client do what the table's operations do, in full or up to the channel
  where they stop. \<open>Subscribe\<close> enters the channels \<open>chs\<close> not subscribed so far, each once, with
  one command per channel in order and consecutive ids. If it stops at the next channel because
  that is subscribed already (also earlier in the same call), it returns the invalid-argument
  error; if it stops because the write fails, it returns the write's error: either way that
  channel and the ones after it keep the entry they had, and only the id of the failed command is
  used up. \<open>Unsubscribe\<close> of distinct channels removes them, sends one command for each that has a
  subscription id and none for the others; when a write fails, that channel and the ones after it
  stay.\<close>

theorem subscription_table_refined:
  assumes "ws_inv c" "ws_conn c = Some k" "distinct chs" "chs @ rest \<noteq> []"
  shows "(tickers \<noteq> Some [] \<and> set chs \<inter> dom (tab_subs (table_of c)) = {}
      \<and> subscribe_stop stop rest
            (tab_subscribe k tickers (sendInitialSnapshot (applyOpts opts)) chs (table_of c))
     \<longrightarrow> (\<exists>c'. Subscribe (replicate (length chs) quiet @ stop_windows stop) (chs @ rest) tickers opts c
          = (stop_result stop, c')
        \<and> table_of c' = stop_table stop
            (tab_subscribe k tickers (sendInitialSnapshot (applyOpts opts)) chs (table_of c))))
    \<and> (unsubscribe_stop stop rest (tab_unsubscribe k chs (table_of c))
     \<longrightarrow> (\<exists>c'. Unsubscribe (replicate (length (tab_sids (table_of c) chs)) quiet @ stop_windows stop) (chs @ rest) c
          = (stop_result stop, c')
        \<and> table_of c' = stop_table stop (tab_unsubscribe k chs (table_of c))))"
    (is "(?S \<longrightarrow> ?P) \<and> (?U \<longrightarrow> ?Q)")
proof (intro conjI impI)
  assume S: ?S
  let ?ws = "stop_windows stop" and ?snap = "sendInitialSnapshot (applyOpts opts)"
  have new: "set chs \<inter> dom (tab_subs (table_of c)) = {}" using S by (elim conjE)
  obtain c1 where c1: "subscribe_loop (replicate (length chs) quiet @ ?ws) tickers ?snap (chs @ rest) c
      = subscribe_loop ?ws tickers ?snap rest c1" "ws_inv c1" "ws_conn c1 = Some k"
    "table_of c1 = tab_subscribe k tickers ?snap chs (table_of c)"
    using subscribe_prefix [OF assms(1-3) new, of ?ws tickers ?snap rest] by blast
  have e: "Subscribe (replicate (length chs) quiet @ ?ws) (chs @ rest) tickers opts c
      = subscribe_loop ?ws tickers ?snap rest c1"
    using S assms(4) c1(1) unfolding Subscribe_def by (simp only: if_False)
  have stop: "subscribe_stop stop rest (table_of c1)" using S c1(4) by simp
  have "\<exists>c'. subscribe_loop ?ws tickers ?snap rest c1 = (stop_result stop, c')
      \<and> table_of c' = stop_table stop (table_of c1)"
  proof (cases stop)
    case (WriteFailed err)
    with stop obtain ch more where "rest = ch # more" "ch \<notin> dom (tab_subs (table_of c1))"
      by (cases rest) (auto simp: dom_def)
    with subscribe_fails [OF c1(2,3)] WriteFailed show ?thesis by simp
  qed (use stop in \<open>cases rest; auto\<close>)+
  then show ?P unfolding e c1(4) .
next
  assume U: ?U
  let ?ws = "stop_windows stop" and ?n = "length (tab_sids (table_of c) chs)"
  obtain c1 where c1: "unsubscribe_loop (replicate ?n quiet @ ?ws) (chs @ rest) c = unsubscribe_loop ?ws rest c1"
    "ws_inv c1" "ws_conn c1 = Some k" "table_of c1 = tab_unsubscribe k chs (table_of c)"
    using unsubscribe_prefix [OF assms(1-3), of ?ws rest] by blast
  have e: "Unsubscribe (replicate ?n quiet @ ?ws) (chs @ rest) c = unsubscribe_loop ?ws rest c1"
    using assms(4) c1(1) unfolding Unsubscribe_def by (simp only: if_False)
  have stop: "unsubscribe_stop stop rest (table_of c1)" using U c1(4) by simp
  have "\<exists>c'. unsubscribe_loop ?ws rest c1 = (stop_result stop, c') \<and> table_of c' = stop_table stop (table_of c1)"
  proof (cases stop)
    case (WriteFailed err)
    with stop obtain ch more sid where "rest = ch # more"
      "Option.bind (tab_subs (table_of c1) ch) sub_sid = Some sid"
      by (cases rest) auto
    with unsubscribe_fails [OF c1(3)] WriteFailed show ?thesis by simp
  qed (use stop in simp_all)
  then show ?Q unfolding e c1(4) .
qed

lemma subscription_table_refined_witness:
  "(\<exists>c'. Subscribe [quiet, failing (ErrorString ''broken pipe'')] [''trade'', ''fill'', ''ticker''] (Some [''A'']) []
        demo_listening = (WSErr (ErrorString ''broken pipe''), c')
     \<and> dom (tab_subs (table_of c')) = {''trade'', ''ticker''}
     \<and> ws_trace c' = [Sent 1 (subscribe_command 2 ''trade'' [''A''] False)])
   \<and> (\<exists>c'. Unsubscribe [quiet] [''trade'', ''ticker''] demo_listening = (WSOk, c')
     \<and> dom (tab_subs (table_of c')) = {} \<and> ws_trace c' = [Sent 1 (unsubscribe_command 2 7)])"
proof -
  have sel: "ws_conn demo_listening = Some 1" "ws_msgID demo_listening = 1" "ws_trace demo_listening = []"
    "map_of (ws_channels demo_listening) = [''ticker'' \<mapsto> 0]" "cs_SID (ws_heap demo_listening ! 0) = Some 7"
    by (simp_all add: demo_listening_def)
  note t = subscription_table_refined [OF demo_listening_inv sel(1)]
  let ?stop = "WriteFailed (ErrorString ''broken pipe'')"
  have dom: "dom (tab_subs (table_of demo_listening)) = {''ticker''}" by (auto simp: sel dom_def)
  obtain c1 where c1: "Subscribe [quiet, failing (ErrorString ''broken pipe'')] [''trade'', ''fill'', ''ticker'']
      (Some [''A'']) [] demo_listening = (WSErr (ErrorString ''broken pipe''), c1)"
    "table_of c1 = tab_skip (tab_subscribe 1 (Some [''A'']) False [''trade''] (table_of demo_listening))"
    using t [of "[''trade'']" "[''fill'', ''ticker'']" "Some [''A'']" ?stop "[]"]
    by (auto simp: dom) (auto simp: sel tab_subscribe_def applyOpts_def)
  obtain c2 where c2: "Unsubscribe [quiet] [''trade'', ''ticker''] demo_listening = (WSOk, c2)"
    "table_of c2 = tab_unsubscribe 1 [''trade'', ''ticker''] (table_of demo_listening)"
    using t [of "[''trade'', ''ticker'']" "[]" "Some []" AllDone "[]"] by (auto simp: sel tab_sids_simps view_state_def)
  have "ws_trace c1 = [Sent 1 (subscribe_command 2 ''trade'' [''A''] False)]"
    using arg_cong [OF c1(2), of tab_sent] by (simp add: tab_skip_def tab_subscribe_def sel)
  moreover have "dom (tab_subs (table_of c1)) = {''trade'', ''ticker''}"
    using dom unfolding c1(2)
    by (auto simp: tab_skip_def tab_subscribe_def sel dom_def split: if_splits)
  moreover have "ws_trace c2 = [Sent 1 (unsubscribe_command 2 7)]"
    using arg_cong [OF c2(2), of tab_sent] by (simp add: tab_unsubscribe_def tab_sids_simps sel view_state_def)
  moreover have "dom (tab_subs (table_of c2)) = {}"
    using dom unfolding c2(2)
    by (auto simp: tab_unsubscribe_def tab_sids_simps sel view_state_def dom_def split: if_splits)
  ultimately show ?thesis using c1(1) c2(1) by blast
qed

end
