(* ===== verification/EndpointBase.thy ===== *)
theory EndpointBase
  imports HttpClient Enums
begin

text \<open>
  What the endpoint methods share: a method is its \<open>api_call\<close> and what it does with the
  answer, namely decode it into a named Go type or keep the error only. \<open>run_endpoint\<close> runs
  a method against the client. The routes the methods are documented with, and when a list
  of routes tells its requests apart, are stated here too.
\<close>

section \<open>Endpoint methods\<close>

datatype endpoint =
    Decodes string api_call      \<comment> \<open>Go type of the result\<close>
  | ErrorOnly api_call           \<comment> \<open>\<open>_, err := ...; return err\<close>\<close>

primrec endpoint_call :: "endpoint \<Rightarrow> api_call" where
  "endpoint_call (Decodes T a) = a"
| "endpoint_call (ErrorOnly a) = a"

text \<open>The decoders of the result types: for each type name, decoder and zero value.\<close>

type_synonym 'v decoders = "string \<Rightarrow> ('v \<Rightarrow> json \<Rightarrow> 'v \<times> bool) \<times> 'v"

definition run_endpoint ::
  "'v decoders \<Rightarrow> ('k, 'r) http_env \<Rightarrow> http_run \<Rightarrow> ('k, 'r) Client \<Rightarrow> endpoint
     \<Rightarrow> 'v option outcome \<times> http_request list \<times> ('k, 'r) Client" where
  "run_endpoint decs env run c e = (case e of
      Decodes T a \<Rightarrow>
        (case doJSON_call (fst (decs T)) (snd (decs T)) env run c a of
           (Pending, reqs, c') \<Rightarrow> (Pending, reqs, c')
         | (Returned (Inl err), reqs, c') \<Rightarrow> (Returned (Inl err), reqs, c')
         | (Returned (Inr v), reqs, c') \<Rightarrow> (Returned (Inr (Some v)), reqs, c'))
    | ErrorOnly a \<Rightarrow>
        (case do_call env run c a of
           (Pending, reqs, c') \<Rightarrow> (Pending, reqs, c')
         | (Returned (Inl err), reqs, c') \<Rightarrow> (Returned (Inl err), reqs, c')
         | (Returned (Inr body), reqs, c') \<Rightarrow> (Returned (Inr None), reqs, c')))"

section \<open>Batches\<close>

text \<open>\<open>len\<close> of a slice, None being nil, and the marshalled \<open>orders\<close> field.\<close>

definition len_orders :: "'a list option \<Rightarrow> goint" where
  "len_orders os = (case os of None \<Rightarrow> 0 | Some xs \<Rightarrow> int (length xs))"

fun marshal_items :: "gobody list \<Rightarrow> goerror + json list" where
  "marshal_items [] = Inr []"
| "marshal_items (BadBody e # bs) = Inl e"
| "marshal_items (JsonBody j # bs) =
     (case marshal_items bs of Inl e \<Rightarrow> Inl e | Inr js \<Rightarrow> Inr (j # js))"

definition orders_body :: "gobody list option \<Rightarrow> gobody" where
  "orders_body os = (case os of
      None \<Rightarrow> JsonBody (JObj [(''orders'', JNull)])
    | Some xs \<Rightarrow> (case marshal_items xs of
          Inl e \<Rightarrow> BadBody e
        | Inr js \<Rightarrow> JsonBody (JObj [(''orders'', JArr js)])))"

section \<open>Documented routes\<close>

text \<open>A verb and the segments below \<open>/trade-api/v2\<close>; \<open>fill\<close> puts values for the parameters.\<close>

type_synonym api_route = "string \<times> string list"

fun fill :: "string list \<Rightarrow> string list \<Rightarrow> string list" where
  "fill [] args = []"
| "fill (t # ts) args =
     (if isPathPlaceholder t
      then (case args of [] \<Rightarrow> t # fill ts [] | a # as \<Rightarrow> a # fill ts as)
      else t # fill ts args)"

definition path_of :: "string list \<Rightarrow> string" where
  "path_of segs = CHR ''/'' # join_with ''/'' (api_root @ segs)"

end
