(* ===== verification/CostRoutes.thy ===== *)
theory CostRoutes
  imports EndpointBase
begin

text \<open>
  When a table of routes tells its requests apart: a check on the templates alone
  (\<open>unambiguous\<close>), and the lemma that under it the client's lookup bills every request by its
  own entry, in whatever order and with whatever placeholder syntax the server lists them.
\<close>

lemmas placeholder_defs = isPathPlaceholder_def HasPrefix_def HasSuffix_def

section \<open>Routes that tell their requests apart\<close>

text \<open>
  A cost table may spell path parameters its own way (\<open>:id\<close>, \<open>*\<close>, \<open>{id}\<close>, ...): a \<open>spelling\<close>
  keeps literals and turns placeholders into placeholders that stand for one segment.
\<close>

definition spelling :: "(string \<Rightarrow> string) \<Rightarrow> bool" where
  "spelling sp \<longleftrightarrow> (\<forall>s. if isPathPlaceholder s
      then isPathPlaceholder (sp s) \<and> \<not> isTrailingWildcard (sp s) \<and> plain_segment (sp s)
      else sp s = s)"

definition cost_entry :: "(string \<Rightarrow> string) \<Rightarrow> (api_route \<Rightarrow> gofloat) \<Rightarrow> api_route \<Rightarrow> costRoute" where
  "cost_entry sp cf r = newCostRoute (fst r) (path_of (map sp (snd r))) (cf r)"

text \<open>The second template can match a request of the first one whose arguments are no literal.\<close>

definition overlaps :: "string list \<Rightarrow> string list \<Rightarrow> bool" where
  "overlaps t t' = list_all2 (\<lambda>w w'. isPathPlaceholder w' \<or> w' = w) t t'"

definition reserved_segments :: "api_route list \<Rightarrow> string set" where
  "reserved_segments rs = set (concat (map snd rs))"

definition good_args :: "api_route list \<Rightarrow> string list \<Rightarrow> bool" where
  "good_args rs args = list_all (\<lambda>a. plain_segment a \<and> a \<notin> reserved_segments rs) args"

definition holes :: "string list \<Rightarrow> nat" where
  "holes t = length (filter isPathPlaceholder t)"

definition unambiguous :: "api_route list \<Rightarrow> bool" where
  "unambiguous rs = list_all (\<lambda>r. list_all (\<lambda>r'. r' = r \<or> fst r' \<noteq> fst r \<or> \<not> overlaps (snd r) (snd r')
      \<or> count_literals (snd r') < count_literals (snd r)) rs) rs"

definition well_formed_routes :: "api_route list \<Rightarrow> bool" where
  "well_formed_routes rs = list_all (\<lambda>r. ToUpper (fst r) = fst r \<and> list_all plain_segment (snd r)) rs"

lemma spelling_simps:
  assumes "spelling sp"
  shows "isPathPlaceholder (sp s) = isPathPlaceholder s"
    and "isPathPlaceholder s \<Longrightarrow> \<not> isTrailingWildcard (sp s)"
    and "\<not> isPathPlaceholder s \<Longrightarrow> sp s = s"
    and "plain_segment s \<Longrightarrow> plain_segment (sp s)"
proof -
  from assms have *: "if isPathPlaceholder s
      then isPathPlaceholder (sp s) \<and> \<not> isTrailingWildcard (sp s) \<and> plain_segment (sp s)
      else sp s = s" unfolding spelling_def by blast
  show "isPathPlaceholder (sp s) = isPathPlaceholder s"
    and "isPathPlaceholder s \<Longrightarrow> \<not> isTrailingWildcard (sp s)"
    and "\<not> isPathPlaceholder s \<Longrightarrow> sp s = s"
    and "plain_segment s \<Longrightarrow> plain_segment (sp s)"
    using * by (cases "isPathPlaceholder s"; simp)+
qed

lemma spelled_match:
  assumes "spelling sp"
  shows "pattern_match (map sp t) actual \<longleftrightarrow> list_all2 (\<lambda>w a. isPathPlaceholder w \<or> w = a) t actual"
proof -
  have "\<not> isTrailingWildcard (sp w)" for w
    using spelling_simps(1,2) [OF assms, of w] wildcard_placeholder [of "sp w"] by blast
  then have "\<forall>w\<in>set (map sp t). \<not> isTrailingWildcard w" by simp
  then have "pattern_match (map sp t) actual
      \<longleftrightarrow> list_all2 (\<lambda>w a. isPathPlaceholder (sp w) \<or> sp w = a) t actual"
    by (simp add: pattern_match_no_wildcard list_all2_map1)
  also have "(\<lambda>w a. isPathPlaceholder (sp w) \<or> sp w = a) = (\<lambda>w a. isPathPlaceholder w \<or> w = a)"
    using spelling_simps(1,3) [OF assms] by fastforce
  finally show ?thesis .
qed

lemma fill_matches_own:
  "length args = holes t \<Longrightarrow> list_all2 (\<lambda>w a. isPathPlaceholder w \<or> w = a) t (fill t args)"
proof (induction t arbitrary: args)
  case (Cons w t)
  then show ?case by (cases args) (auto simp: holes_def split: if_splits)
qed (simp add: holes_def)

lemma fill_plain:
  assumes "list_all plain_segment t" "list_all plain_segment args"
  shows "list_all plain_segment (fill t args)"
  using assms
proof (induction t arbitrary: args)
  case (Cons w t)
  then show ?case by (cases args) auto
qed simp

lemma match_overlaps:
  assumes "list_all2 (\<lambda>w a. isPathPlaceholder w \<or> w = a) t' (fill t args)"
    and "length args = holes t" "\<forall>a\<in>set args. a \<notin> set t'"
  shows "overlaps t t'"
  using assms
proof (induction t arbitrary: t' args)
  case Nil
  then show ?case by (simp add: overlaps_def)
next
  case (Cons w t)
  then obtain w' u where t': "t' = w' # u"
    by (cases t') (auto split: if_splits list.splits)
  show ?case
  proof (cases "isPathPlaceholder w")
    case True
    with Cons.prems(2) obtain a as where "args = a # as" by (cases args) (auto simp: holes_def)
    with True Cons.prems Cons.IH [of u as] t' show ?thesis by (auto simp: overlaps_def holes_def)
  next
    case False
    with Cons.prems Cons.IH [of u args] t' show ?thesis by (auto simp: overlaps_def holes_def)
  qed
qed

lemma path_of_split: "list_all plain_segment segs \<Longrightarrow> splitPath (path_of segs) = api_root @ segs"
  unfolding path_of_def using api_root_plain
  by (intro splitPath_join) (auto simp: list_all_iff api_root_def)

lemma path_of_prefix: "HasPrefix (path_of segs) ''/trade-api''"
  by (cases segs) (simp_all add: path_of_def api_root_def HasPrefix_def)

lemma cost_entry_parts:
  assumes "spelling sp" "list_all plain_segment (snd r)"
  shows "segments (cost_entry sp cf r) = map sp (api_root @ snd r)"
    and "literals (cost_entry sp cf r) = 2 + count_literals (snd r)"
    and "cost (cost_entry sp cf r) = cf r"
    and "cr_method (cost_entry sp cf r) = ToUpper (fst r)"
proof -
  have lit: "\<not> isPathPlaceholder ''trade-api''" "\<not> isPathPlaceholder ''v2''"
    by (simp_all add: placeholder_defs)
  have root: "map sp api_root = api_root"
    using lit spelling_simps(3) [OF assms(1)] by (simp add: api_root_def)
  have split: "splitPath (path_of (map sp (snd r))) = api_root @ map sp (snd r)"
    using assms spelling_simps(4) [OF assms(1)] by (intro path_of_split) (auto simp: list_all_iff)
  have cnt: "count_literals (map sp t) = count_literals t" for t
    by (induction t) (simp_all add: spelling_simps(1) [OF assms(1)])
  show "segments (cost_entry sp cf r) = map sp (api_root @ snd r)"
    by (simp add: cost_entry_def newCostRoute_def Let_def path_of_prefix split root)
  show "literals (cost_entry sp cf r) = 2 + count_literals (snd r)"
    using lit by (simp add: cost_entry_def newCostRoute_def Let_def path_of_prefix split)
      (simp add: api_root_def cnt)
  show "cost (cost_entry sp cf r) = cf r" "cr_method (cost_entry sp cf r) = ToUpper (fst r)"
    by (simp_all add: cost_entry_def newCostRoute_def Let_def)
qed

lemma cost_entry_matches:
  assumes "spelling sp" "list_all plain_segment t" "list_all plain_segment t'" "list_all plain_segment args"
  shows "route_matches (cost_entry sp cf (m', t')) m (path_of (fill t args)) \<longleftrightarrow>
    ToUpper m' = ToUpper m \<and> list_all2 (\<lambda>w a. isPathPlaceholder w \<or> w = a) t' (fill t args)"
proof -
  have "splitPath (path_of (fill t args)) = api_root @ fill t args"
    using fill_plain [OF assms(2,4)] by (rule path_of_split)
  moreover have "segments (cost_entry sp cf (m', t')) = map sp (api_root @ t')"
    "cr_method (cost_entry sp cf (m', t')) = ToUpper m'"
    using cost_entry_parts [OF assms(1), of "(m', t')"] assms(3) by simp_all
  ultimately show ?thesis
    unfolding route_matches_def segmentsMatch_pattern by (simp add: spelled_match [OF assms(1)] api_root_def del: list.map map_append)
qed

lemma billed_by_own_entry:
  assumes "unambiguous all" "well_formed_routes all" "spelling sp"
    and "set rs \<subseteq> set all" "r \<in> set rs"
    and "length args = holes (snd r)" "good_args all args"
  shows "lookupCost (sort_routes (map (cost_entry sp cf) rs)) (fst r) (path_of (fill (snd r) args)) = Some (cf r)"
proof -
  let ?path = "path_of (fill (snd r) args)" and ?tab = "map (cost_entry sp cf) rs"
  let ?hits = "\<lambda>e. route_matches e (fst r) ?path"
  have wf: "ToUpper (fst q) = fst q" "list_all plain_segment (snd q)" if "q \<in> set rs" for q
    using that assms(2,4) by (auto simp: well_formed_routes_def list_all_iff)
  have plain: "list_all plain_segment args"
    using assms(7) by (simp add: good_args_def list_all_iff)
  have match: "?hits (cost_entry sp cf q) \<longleftrightarrow> fst q = fst r
      \<and> list_all2 (\<lambda>w a. isPathPlaceholder w \<or> w = a) (snd q) (fill (snd r) args)" if "q \<in> set rs" for q
    using cost_entry_matches [OF assms(3) wf(2) [OF assms(5)] wf(2) [OF that] plain, of cf "fst q" "fst r"]
      wf(1) that assms(5) by simp
  have own: "?hits (cost_entry sp cf r)"
    using match [OF assms(5)] fill_matches_own [OF assms(6)] by simp
  have "find ?hits (sort_routes ?tab) \<noteq> None"
    using own assms(5) by (auto simp: cost_table.none_iff)
  then obtain e where e: "find ?hits (sort_routes ?tab) = Some e" by blast
  from cost_table.first_has_max_rank [OF this] obtain q where q: "q \<in> set rs" "e = cost_entry sp cf q"
    "?hits e" "literals (cost_entry sp cf r) \<le> literals e"
    using own assms(5) by auto
  have "q = r"
  proof (rule ccontr)
    assume "q \<noteq> r"
    have "\<forall>a\<in>set args. a \<notin> set (snd q)"
      using assms(4,7) q(1) by (auto simp: good_args_def list_all_iff reserved_segments_def)
    with match [OF q(1)] q(2,3) assms(6) have "fst q = fst r" "overlaps (snd r) (snd q)"
      using match_overlaps by auto
    with \<open>q \<noteq> r\<close> assms(1,4,5) q(1) have "count_literals (snd q) < count_literals (snd r)"
      by (force simp: unambiguous_def list_all_iff)
    with q(1,2,4) cost_entry_parts(2) [OF assms(3)] wf(2) assms(5) show False by simp
  qed
  with e q(2) show ?thesis
    using cost_entry_parts(3) [OF assms(3) wf(2) [OF assms(5)]] by (simp add: lookupCost_find)
qed

text \<open>
  \<open>unambiguous\<close> for evaluation: segments become numbers once for each route, and every two
  routes of the table are compared by these. Equal strings have equal numbers.
\<close>

fun seg_code :: "string \<Rightarrow> int" where
  "seg_code [] = 0"
| "seg_code (c # cs) = of_char c + 2 * seg_code cs"

type_synonym coded_route = "int \<times> int option list \<times> goint"

definition code_segment :: "string \<Rightarrow> int option" where
  "code_segment s = (if isPathPlaceholder s then None else Some (seg_code s))"

definition route_code :: "api_route \<Rightarrow> coded_route" where
  "route_code r = (seg_code (fst r), map code_segment (snd r), count_literals (snd r))"

fun code_overlap :: "int option list \<Rightarrow> int option list \<Rightarrow> bool" where
  "code_overlap [] [] = True"
| "code_overlap (a # as) (b # bs) =
     (case b of None \<Rightarrow> code_overlap as bs
      | Some y \<Rightarrow> if a = Some y then code_overlap as bs else False)"
| "code_overlap _ _ = False"

definition codes_ok :: "coded_route \<Rightarrow> coded_route \<Rightarrow> bool" where
  "codes_ok a b =
     (if fst a = fst b then if code_overlap (fst (snd a)) (fst (snd b))
        then snd (snd b) < snd (snd a) else True else True)"

fun separated :: "coded_route list \<Rightarrow> bool" where
  "separated [] = True"
| "separated (a # as) = (list_all (\<lambda>b. codes_ok a b \<and> codes_ok b a) as \<and> separated as)"

lemma code_overlap: "overlaps t t' \<Longrightarrow> code_overlap (map code_segment t) (map code_segment t')"
proof (induction t arbitrary: t')
  case Nil
  then show ?case by (cases t') (simp_all add: overlaps_def)
next
  case (Cons w t)
  then show ?case by (cases t') (auto simp: overlaps_def code_segment_def)
qed

definition apart :: "api_route \<Rightarrow> api_route \<Rightarrow> bool" where
  "apart r r' \<longleftrightarrow> (fst r' = fst r \<and> overlaps (snd r) (snd r')
      \<longrightarrow> count_literals (snd r') < count_literals (snd r))"

lemma codes_ok_apart: "codes_ok (route_code r) (route_code r') \<Longrightarrow> apart r r'"
  using code_overlap [of "snd r" "snd r'"]
  by (auto simp: codes_ok_def route_code_def apart_def split: if_splits)

lemma separated_unambiguous: "separated (map route_code rs) \<Longrightarrow> unambiguous rs"
proof -
  assume "separated (map route_code rs)"
  then have "\<forall>r\<in>set rs. \<forall>r'\<in>set rs. r' = r \<or> apart r r'"
  proof (induction rs)
    case (Cons q rs)
    then have "\<forall>r\<in>set rs. apart q r \<and> apart r q"
      by (auto simp: list_all_iff intro: codes_ok_apart)
    with Cons show ?case by auto
  qed simp
  then show ?thesis by (auto simp: unambiguous_def apart_def list_all_iff)
qed

end
