(* ===== verification/EndpointsMarket.thy ===== *)
theory EndpointsMarket
  imports EndpointBase
begin

text \<open>
  The endpoint methods for the read-only market data: events, markets, series, milestones, structured targets, multivariate collections, live data, search, incentives, exchange and historical. Each definition is what the method hands to
  the client: path, costs, units, body and parameters. Each \<open>toMap\<close> is the query of its
  parameter struct; fields carry the struct's name.
\<close>

section \<open>\<^verbatim>\<open>events.go\<close>\<close>

record GetEventParams =
  GetEvent_WithNestedMarkets :: bool

definition GetEventParams_toMap :: "GetEventParams \<Rightarrow> query_params" where
  "GetEventParams_toMap p = query
     [qBool ''with_nested_markets'' (GetEvent_WithNestedMarkets p)]"

record GetEventsParams =
  GetEvents_Limit :: goint
  GetEvents_Cursor :: string
  GetEvents_WithNestedMarkets :: bool
  GetEvents_WithMilestones :: bool
  GetEvents_Status :: MarketStatus
  GetEvents_SeriesTicker :: string
  GetEvents_MinCloseTs :: goint
  GetEvents_MinUpdatedTs :: goint

definition GetEventsParams_toMap :: "GetEventsParams \<Rightarrow> query_params" where
  "GetEventsParams_toMap p = query
     [qInt ''limit'' (GetEvents_Limit p),
      qString ''cursor'' (GetEvents_Cursor p),
      qBool ''with_nested_markets'' (GetEvents_WithNestedMarkets p),
      qBool ''with_milestones'' (GetEvents_WithMilestones p),
      qString ''status'' (GetEvents_Status p),
      qString ''series_ticker'' (GetEvents_SeriesTicker p),
      qInt64 ''min_close_ts'' (GetEvents_MinCloseTs p),
      qInt64 ''min_updated_ts'' (GetEvents_MinUpdatedTs p)]"

record GetMultivariateEventsParams =
  GetMultivariateEvents_Limit :: goint
  GetMultivariateEvents_Cursor :: string
  GetMultivariateEvents_SeriesTicker :: string
  GetMultivariateEvents_CollectionTicker :: string
  GetMultivariateEvents_WithNestedMarkets :: bool

definition GetMultivariateEventsParams_toMap :: "GetMultivariateEventsParams \<Rightarrow> query_params" where
  "GetMultivariateEventsParams_toMap p = query
     [qInt ''limit'' (GetMultivariateEvents_Limit p),
      qString ''cursor'' (GetMultivariateEvents_Cursor p),
      qString ''series_ticker'' (GetMultivariateEvents_SeriesTicker p),
      qString ''collection_ticker'' (GetMultivariateEvents_CollectionTicker p),
      qBool ''with_nested_markets'' (GetMultivariateEvents_WithNestedMarkets p)]"

record GetEventCandlesticksParams =
  GetEventCandlesticks_StartTs :: goint
  GetEventCandlesticks_EndTs :: goint
  GetEventCandlesticks_PeriodInterval :: goint

definition GetEventCandlesticksParams_toMap :: "GetEventCandlesticksParams \<Rightarrow> query_params" where
  "GetEventCandlesticksParams_toMap p = query
     [qInt64 ''start_ts'' (GetEventCandlesticks_StartTs p),
      qInt64 ''end_ts'' (GetEventCandlesticks_EndTs p),
      qInt ''period_interval'' (GetEventCandlesticks_PeriodInterval p)]"

record GetEventForecastPercentileHistoryParams =
  GetEventForecastPercentileHistory_Percentiles :: string
  GetEventForecastPercentileHistory_StartTs :: goint
  GetEventForecastPercentileHistory_EndTs :: goint
  GetEventForecastPercentileHistory_PeriodInterval :: goint

definition GetEventForecastPercentileHistoryParams_toMap :: "GetEventForecastPercentileHistoryParams \<Rightarrow> query_params" where
  "GetEventForecastPercentileHistoryParams_toMap p = query
     [qString ''percentiles'' (GetEventForecastPercentileHistory_Percentiles p),
      qInt64 ''start_ts'' (GetEventForecastPercentileHistory_StartTs p),
      qInt64 ''end_ts'' (GetEventForecastPercentileHistory_EndTs p),
      qInt ''period_interval'' (GetEventForecastPercentileHistory_PeriodInterval p)]"

record GetEventFeeChangesParams =
  GetEventFeeChanges_EventTicker :: string
  GetEventFeeChanges_Limit :: goint
  GetEventFeeChanges_Cursor :: string

definition GetEventFeeChangesParams_toMap :: "GetEventFeeChangesParams \<Rightarrow> query_params" where
  "GetEventFeeChangesParams_toMap p = query
     [qString ''event_ticker'' (GetEventFeeChanges_EventTicker p),
      qInt ''limit'' (GetEventFeeChanges_Limit p),
      qString ''cursor'' (GetEventFeeChanges_Cursor p)]"

definition GetEvent :: "string \<Rightarrow> GetEventParams \<Rightarrow> endpoint" where
  "GetEvent eventTicker params =
     Decodes ''GetEventResponse'' (getJSON_call (pathEvents @ ''/'' @ eventTicker) (GetEventParams_toMap params))"

definition GetEvents :: "GetEventsParams \<Rightarrow> endpoint" where
  "GetEvents params =
     Decodes ''GetEventsResponse'' (getJSON_call pathEvents (GetEventsParams_toMap params))"

definition GetEventMetadata :: "string \<Rightarrow> endpoint" where
  "GetEventMetadata eventTicker =
     Decodes ''GetEventMetadataResponse'' (getJSON_call (pathEvents @ ''/'' @ eventTicker @ ''/metadata'') [])"

definition GetMultivariateEvents :: "GetMultivariateEventsParams \<Rightarrow> endpoint" where
  "GetMultivariateEvents params =
     Decodes ''GetMultivariateEventsResponse'' (getJSON_call (pathEvents @ ''/multivariate'') (GetMultivariateEventsParams_toMap params))"

definition GetEventCandlesticks :: "string \<Rightarrow> string \<Rightarrow> GetEventCandlesticksParams \<Rightarrow> endpoint" where
  "GetEventCandlesticks seriesTicker eventTicker params =
     Decodes ''GetEventCandlesticksResponse'' (getJSON_call (''/trade-api/v2/series/'' @ seriesTicker @ ''/events/'' @ eventTicker @ ''/candlesticks'') (GetEventCandlesticksParams_toMap params))"

definition GetEventForecastPercentileHistory :: "string \<Rightarrow> string \<Rightarrow> GetEventForecastPercentileHistoryParams \<Rightarrow> endpoint" where
  "GetEventForecastPercentileHistory seriesTicker eventTicker params =
     Decodes ''GetEventForecastPercentilesHistoryResponse'' (getJSON_call (''/trade-api/v2/series/'' @ seriesTicker @ ''/events/'' @ eventTicker @ ''/forecast_percentile_history'') (GetEventForecastPercentileHistoryParams_toMap params))"

definition GetEventFeeChanges :: "GetEventFeeChangesParams \<Rightarrow> endpoint" where
  "GetEventFeeChanges params =
     Decodes ''GetEventFeeChangesResponse'' (getJSON_call (pathEvents @ ''/fee_changes'') (GetEventFeeChangesParams_toMap params))"

section \<open>\<^verbatim>\<open>markets.go\<close>\<close>

record GetOrderbookParams =
  GetOrderbook_Depth :: goint

definition GetOrderbookParams_toMap :: "GetOrderbookParams \<Rightarrow> query_params" where
  "GetOrderbookParams_toMap p = query
     [qInt ''depth'' (GetOrderbook_Depth p)]"

record GetMarketOrderbooksParams =
  GetMarketOrderbooks_Tickers :: string

definition GetMarketOrderbooksParams_toMap :: "GetMarketOrderbooksParams \<Rightarrow> query_params" where
  "GetMarketOrderbooksParams_toMap p = query
     [qString ''tickers'' (GetMarketOrderbooks_Tickers p)]"

record GetTradesParams =
  GetTrades_Ticker :: string
  GetTrades_Limit :: goint
  GetTrades_Cursor :: string
  GetTrades_MinTs :: goint
  GetTrades_MaxTs :: goint

definition GetTradesParams_toMap :: "GetTradesParams \<Rightarrow> query_params" where
  "GetTradesParams_toMap p = query
     [qString ''ticker'' (GetTrades_Ticker p),
      qInt ''limit'' (GetTrades_Limit p),
      qString ''cursor'' (GetTrades_Cursor p),
      qInt64 ''min_ts'' (GetTrades_MinTs p),
      qInt64 ''max_ts'' (GetTrades_MaxTs p)]"

record GetMarketsParams =
  GetMarkets_Limit :: goint
  GetMarkets_Cursor :: string
  GetMarkets_EventTicker :: string
  GetMarkets_SeriesTicker :: string
  GetMarkets_Status :: MarketStatus
  GetMarkets_Tickers :: string
  GetMarkets_MVEFilter :: string
  GetMarkets_MinCreatedTs :: goint
  GetMarkets_MaxCreatedTs :: goint
  GetMarkets_MinUpdatedTs :: goint
  GetMarkets_MinCloseTs :: goint
  GetMarkets_MaxCloseTs :: goint
  GetMarkets_MinSettledTs :: goint
  GetMarkets_MaxSettledTs :: goint

definition GetMarketsParams_toMap :: "GetMarketsParams \<Rightarrow> query_params" where
  "GetMarketsParams_toMap p = query
     [qInt ''limit'' (GetMarkets_Limit p),
      qString ''cursor'' (GetMarkets_Cursor p),
      qString ''event_ticker'' (GetMarkets_EventTicker p),
      qString ''series_ticker'' (GetMarkets_SeriesTicker p),
      qString ''status'' (GetMarkets_Status p),
      qString ''tickers'' (GetMarkets_Tickers p),
      qString ''mve_filter'' (GetMarkets_MVEFilter p),
      qInt64 ''min_created_ts'' (GetMarkets_MinCreatedTs p),
      qInt64 ''max_created_ts'' (GetMarkets_MaxCreatedTs p),
      qInt64 ''min_updated_ts'' (GetMarkets_MinUpdatedTs p),
      qInt64 ''min_close_ts'' (GetMarkets_MinCloseTs p),
      qInt64 ''max_close_ts'' (GetMarkets_MaxCloseTs p),
      qInt64 ''min_settled_ts'' (GetMarkets_MinSettledTs p),
      qInt64 ''max_settled_ts'' (GetMarkets_MaxSettledTs p)]"

record GetMarketCandlesticksParams =
  GetMarketCandlesticks_StartTs :: goint
  GetMarketCandlesticks_EndTs :: goint
  GetMarketCandlesticks_PeriodInterval :: goint
  GetMarketCandlesticks_IncludeLatestBeforeStart :: bool

definition GetMarketCandlesticksParams_toMap :: "GetMarketCandlesticksParams \<Rightarrow> query_params" where
  "GetMarketCandlesticksParams_toMap p = query
     [qInt64 ''start_ts'' (GetMarketCandlesticks_StartTs p),
      qInt64 ''end_ts'' (GetMarketCandlesticks_EndTs p),
      qInt ''period_interval'' (GetMarketCandlesticks_PeriodInterval p),
      qBool ''include_latest_before_start'' (GetMarketCandlesticks_IncludeLatestBeforeStart p)]"

record GetBatchMarketCandlesticksParams =
  GetBatchMarketCandlesticks_MarketTickers :: string
  GetBatchMarketCandlesticks_StartTs :: goint
  GetBatchMarketCandlesticks_EndTs :: goint
  GetBatchMarketCandlesticks_PeriodInterval :: goint
  GetBatchMarketCandlesticks_IncludeLatestBeforeStart :: bool

definition GetBatchMarketCandlesticksParams_toMap :: "GetBatchMarketCandlesticksParams \<Rightarrow> query_params" where
  "GetBatchMarketCandlesticksParams_toMap p = query
     [qString ''market_tickers'' (GetBatchMarketCandlesticks_MarketTickers p),
      qInt64 ''start_ts'' (GetBatchMarketCandlesticks_StartTs p),
      qInt64 ''end_ts'' (GetBatchMarketCandlesticks_EndTs p),
      qInt ''period_interval'' (GetBatchMarketCandlesticks_PeriodInterval p),
      qBool ''include_latest_before_start'' (GetBatchMarketCandlesticks_IncludeLatestBeforeStart p)]"

definition GetMarketOrderbook :: "string \<Rightarrow> GetOrderbookParams \<Rightarrow> endpoint" where
  "GetMarketOrderbook ticker params =
     Decodes ''GetMarketOrderbookResponse'' (getJSON_call (pathMarkets @ ''/'' @ ticker @ ''/orderbook'') (GetOrderbookParams_toMap params))"

definition GetMarketOrderbooks :: "GetMarketOrderbooksParams \<Rightarrow> endpoint" where
  "GetMarketOrderbooks params =
     Decodes ''GetMarketOrderbooksResponse'' (getJSON_call (pathMarkets @ ''/orderbooks'') (GetMarketOrderbooksParams_toMap params))"

definition GetTrades :: "GetTradesParams \<Rightarrow> endpoint" where
  "GetTrades params =
     Decodes ''GetTradesResponse'' (getJSON_call (pathMarkets @ ''/trades'') (GetTradesParams_toMap params))"

definition GetMarket :: "string \<Rightarrow> endpoint" where
  "GetMarket ticker =
     Decodes ''GetMarketResponse'' (getJSON_call (pathMarkets @ ''/'' @ ticker) [])"

definition GetMarkets :: "GetMarketsParams \<Rightarrow> endpoint" where
  "GetMarkets params =
     Decodes ''GetMarketsResponse'' (getJSON_call pathMarkets (GetMarketsParams_toMap params))"

definition GetMarketCandlesticks :: "string \<Rightarrow> string \<Rightarrow> GetMarketCandlesticksParams \<Rightarrow> endpoint" where
  "GetMarketCandlesticks seriesTicker ticker params =
     Decodes ''GetMarketCandlesticksResponse'' (getJSON_call (''/trade-api/v2/series/'' @ seriesTicker @ ''/markets/'' @ ticker @ ''/candlesticks'') (GetMarketCandlesticksParams_toMap params))"

definition GetBatchMarketCandlesticks :: "GetBatchMarketCandlesticksParams \<Rightarrow> endpoint" where
  "GetBatchMarketCandlesticks params =
     Decodes ''BatchGetMarketCandlesticksResponse'' (getJSON_call (pathMarkets @ ''/candlesticks'') (GetBatchMarketCandlesticksParams_toMap params))"

section \<open>\<^verbatim>\<open>series.go\<close>\<close>

record GetSeriesParams =
  GetSeries_IncludeVolume :: bool

definition GetSeriesParams_toMap :: "GetSeriesParams \<Rightarrow> query_params" where
  "GetSeriesParams_toMap p = query
     [qBool ''include_volume'' (GetSeries_IncludeVolume p)]"

record GetSeriesListParams =
  GetSeriesList_Category :: string
  GetSeriesList_Tags :: string
  GetSeriesList_IncludeProductMetadata :: bool
  GetSeriesList_IncludeVolume :: bool
  GetSeriesList_MinUpdatedTs :: goint

definition GetSeriesListParams_toMap :: "GetSeriesListParams \<Rightarrow> query_params" where
  "GetSeriesListParams_toMap p = query
     [qString ''category'' (GetSeriesList_Category p),
      qString ''tags'' (GetSeriesList_Tags p),
      qBool ''include_product_metadata'' (GetSeriesList_IncludeProductMetadata p),
      qBool ''include_volume'' (GetSeriesList_IncludeVolume p),
      qInt64 ''min_updated_ts'' (GetSeriesList_MinUpdatedTs p)]"

definition GetSeries :: "string \<Rightarrow> GetSeriesParams \<Rightarrow> endpoint" where
  "GetSeries seriesTicker params =
     Decodes ''GetSeriesResponse'' (getJSON_call (pathSeries @ ''/'' @ seriesTicker) (GetSeriesParams_toMap params))"

definition GetSeriesList :: "GetSeriesListParams \<Rightarrow> endpoint" where
  "GetSeriesList params =
     Decodes ''GetSeriesListResponse'' (getJSON_call pathSeries (GetSeriesListParams_toMap params))"

section \<open>\<^verbatim>\<open>milestones.go\<close>\<close>

record GetMilestonesParams =
  GetMilestones_Cursor :: string
  GetMilestones_Limit :: goint
  GetMilestones_EventTicker :: string

definition GetMilestonesParams_toMap :: "GetMilestonesParams \<Rightarrow> query_params" where
  "GetMilestonesParams_toMap p = query
     [qString ''cursor'' (GetMilestones_Cursor p),
      qInt ''limit'' (GetMilestones_Limit p),
      qString ''event_ticker'' (GetMilestones_EventTicker p)]"

definition GetMilestones :: "GetMilestonesParams \<Rightarrow> endpoint" where
  "GetMilestones params =
     Decodes ''GetMilestonesResponse'' (getJSON_call pathMilestones (GetMilestonesParams_toMap params))"

definition GetMilestone :: "string \<Rightarrow> endpoint" where
  "GetMilestone milestoneID =
     Decodes ''GetMilestoneResponse'' (getJSON_call (pathMilestones @ ''/'' @ milestoneID) [])"

section \<open>\<^verbatim>\<open>structured_targets.go\<close>\<close>

record GetStructuredTargetsParams =
  GetStructuredTargets_Cursor :: string
  GetStructuredTargets_Limit :: goint
  GetStructuredTargets_EventTicker :: string

definition GetStructuredTargetsParams_toMap :: "GetStructuredTargetsParams \<Rightarrow> query_params" where
  "GetStructuredTargetsParams_toMap p = query
     [qString ''cursor'' (GetStructuredTargets_Cursor p),
      qInt ''limit'' (GetStructuredTargets_Limit p),
      qString ''event_ticker'' (GetStructuredTargets_EventTicker p)]"

definition GetStructuredTargets :: "GetStructuredTargetsParams \<Rightarrow> endpoint" where
  "GetStructuredTargets params =
     Decodes ''GetStructuredTargetsResponse'' (getJSON_call pathStructuredTargets (GetStructuredTargetsParams_toMap params))"

definition GetStructuredTarget :: "string \<Rightarrow> endpoint" where
  "GetStructuredTarget structuredTargetID =
     Decodes ''GetStructuredTargetResponse'' (getJSON_call (pathStructuredTargets @ ''/'' @ structuredTargetID) [])"

section \<open>\<^verbatim>\<open>mve_collections.go\<close>\<close>

record GetMultivariateEventCollectionsParams =
  GetMultivariateEventCollections_Cursor :: string
  GetMultivariateEventCollections_Limit :: goint

definition GetMultivariateEventCollectionsParams_toMap :: "GetMultivariateEventCollectionsParams \<Rightarrow> query_params" where
  "GetMultivariateEventCollectionsParams_toMap p = query
     [qString ''cursor'' (GetMultivariateEventCollections_Cursor p),
      qInt ''limit'' (GetMultivariateEventCollections_Limit p)]"

definition GetMultivariateEventCollections :: "GetMultivariateEventCollectionsParams \<Rightarrow> endpoint" where
  "GetMultivariateEventCollections params =
     Decodes ''GetMultivariateEventCollectionsResponse'' (getJSON_call pathMVECollections (GetMultivariateEventCollectionsParams_toMap params))"

definition GetMultivariateEventCollection :: "string \<Rightarrow> endpoint" where
  "GetMultivariateEventCollection collectionTicker =
     Decodes ''GetMultivariateEventCollectionResponse'' (getJSON_call (pathMVECollections @ ''/'' @ collectionTicker) [])"

definition CreateMarketInMultivariateEventCollection :: "string \<Rightarrow> gobody \<Rightarrow> endpoint" where
  "CreateMarketInMultivariateEventCollection collectionTicker req =
     Decodes ''CreateMarketInMultivariateEventCollectionResponse'' (postJSON_call (pathMVECollections @ ''/'' @ collectionTicker) (Some req) 10)"

section \<open>\<^verbatim>\<open>live_data.go\<close>\<close>

record GetLiveDataBatchParams =
  GetLiveDataBatch_MilestoneIDs :: string

definition GetLiveDataBatchParams_toMap :: "GetLiveDataBatchParams \<Rightarrow> query_params" where
  "GetLiveDataBatchParams_toMap p = query
     [qString ''milestone_ids'' (GetLiveDataBatch_MilestoneIDs p)]"

record GetLiveDataParams =
  GetLiveData_IncludePlayerStats :: bool

definition GetLiveDataParams_toMap :: "GetLiveDataParams \<Rightarrow> query_params" where
  "GetLiveDataParams_toMap p = query
     [qBool ''include_player_stats'' (GetLiveData_IncludePlayerStats p)]"

record GetEventLiveDataParams =
  GetEventLiveData_Range :: string

definition GetEventLiveDataParams_toMap :: "GetEventLiveDataParams \<Rightarrow> query_params" where
  "GetEventLiveDataParams_toMap p = query
     [qString ''range'' (GetEventLiveData_Range p)]"

record GetWeatherIndexParams =
  GetWeatherIndex_From :: goint
  GetWeatherIndex_To :: goint
  GetWeatherIndex_LastSec :: goint
  GetWeatherIndex_Detailed :: bool

definition GetWeatherIndexParams_toMap :: "GetWeatherIndexParams \<Rightarrow> query_params" where
  "GetWeatherIndexParams_toMap p = query
     [qInt64 ''from'' (GetWeatherIndex_From p),
      qInt64 ''to'' (GetWeatherIndex_To p),
      qInt ''last_sec'' (GetWeatherIndex_LastSec p),
      qBool ''detailed'' (GetWeatherIndex_Detailed p)]"

definition GetLiveDataBatch :: "GetLiveDataBatchParams \<Rightarrow> endpoint" where
  "GetLiveDataBatch params =
     Decodes ''GetLiveDatasResponse'' (getJSON_call (pathLiveData @ ''/batch'') (GetLiveDataBatchParams_toMap params))"

definition GetLiveDataByMilestone :: "string \<Rightarrow> GetLiveDataParams \<Rightarrow> endpoint" where
  "GetLiveDataByMilestone milestoneID params =
     Decodes ''GetLiveDataResponse'' (getJSON_call (pathLiveData @ ''/milestone/'' @ milestoneID) (GetLiveDataParams_toMap params))"

definition GetMilestoneGameStats :: "string \<Rightarrow> endpoint" where
  "GetMilestoneGameStats milestoneID =
     Decodes ''GetGameStatsResponse'' (getJSON_call (pathLiveData @ ''/milestone/'' @ milestoneID @ ''/game_stats'') [])"

definition GetLiveData :: "string \<Rightarrow> string \<Rightarrow> GetLiveDataParams \<Rightarrow> endpoint" where
  "GetLiveData dataType milestoneID params =
     Decodes ''GetLiveDataResponse'' (getJSON_call (pathLiveData @ ''/'' @ dataType @ ''/milestone/'' @ milestoneID) (GetLiveDataParams_toMap params))"

definition GetEventLiveData :: "string \<Rightarrow> GetEventLiveDataParams \<Rightarrow> endpoint" where
  "GetEventLiveData eventTicker params =
     Decodes ''GetEventLiveDataResponse'' (getJSON_call (pathLiveData @ ''/events/'' @ eventTicker) (GetEventLiveDataParams_toMap params))"

definition GetWeatherIndex :: "string \<Rightarrow> GetWeatherIndexParams \<Rightarrow> endpoint" where
  "GetWeatherIndex city params =
     Decodes ''GetWeatherIndexResponse'' (getJSON_call (pathLiveData @ ''/weather/'' @ city) (GetWeatherIndexParams_toMap params))"

definition GetWeatherIndexCalibrations :: "string \<Rightarrow> endpoint" where
  "GetWeatherIndexCalibrations city =
     Decodes ''GetWeatherIndexCalibrationsResponse'' (getJSON_call (pathLiveData @ ''/weather/'' @ city @ ''/calibrations'') [])"

section \<open>\<^verbatim>\<open>search.go\<close>\<close>

definition GetTagsByCategories :: "endpoint" where
  "GetTagsByCategories =
     Decodes ''GetTagsForSeriesCategoriesResponse'' (getJSON_call (pathSearch @ ''/tags_by_categories'') [])"

definition GetFiltersBySport :: "endpoint" where
  "GetFiltersBySport =
     Decodes ''GetFiltersBySportsResponse'' (getJSON_call (pathSearch @ ''/filters_by_sport'') [])"

section \<open>\<^verbatim>\<open>incentive.go\<close>\<close>

definition GetIncentivePrograms :: "endpoint" where
  "GetIncentivePrograms =
     Decodes ''GetIncentiveProgramsResponse'' (getJSON_call pathIncentivePrograms [])"

section \<open>\<^verbatim>\<open>exchange.go\<close>\<close>

record GetSeriesFeeChangesParams =
  GetSeriesFeeChanges_SeriesTicker :: string
  GetSeriesFeeChanges_ShowHistorical :: bool

definition GetSeriesFeeChangesParams_toMap :: "GetSeriesFeeChangesParams \<Rightarrow> query_params" where
  "GetSeriesFeeChangesParams_toMap p = query
     [qString ''series_ticker'' (GetSeriesFeeChanges_SeriesTicker p),
      qBool ''show_historical'' (GetSeriesFeeChanges_ShowHistorical p)]"

definition GetExchangeStatus :: "endpoint" where
  "GetExchangeStatus =
     Decodes ''ExchangeStatus'' (getJSON_call (pathExchange @ ''/status'') [])"

definition GetExchangeSchedule :: "endpoint" where
  "GetExchangeSchedule =
     Decodes ''GetExchangeScheduleResponse'' (getJSON_call (pathExchange @ ''/schedule'') [])"

definition GetUserDataTimestamp :: "endpoint" where
  "GetUserDataTimestamp =
     Decodes ''GetUserDataTimestampResponse'' (getJSON_call (pathExchange @ ''/user_data_timestamp'') [])"

definition GetSeriesFeeChanges :: "GetSeriesFeeChangesParams \<Rightarrow> endpoint" where
  "GetSeriesFeeChanges params =
     Decodes ''GetSeriesFeeChangesResponse'' (getJSON_call (pathSeries @ ''/fee_changes'') (GetSeriesFeeChangesParams_toMap params))"

section \<open>\<^verbatim>\<open>historical.go\<close>\<close>

record GetHistoricalFillsParams =
  GetHistoricalFills_Cursor :: string
  GetHistoricalFills_Limit :: goint
  GetHistoricalFills_Ticker :: string

definition GetHistoricalFillsParams_toMap :: "GetHistoricalFillsParams \<Rightarrow> query_params" where
  "GetHistoricalFillsParams_toMap p = query
     [qString ''cursor'' (GetHistoricalFills_Cursor p),
      qInt ''limit'' (GetHistoricalFills_Limit p),
      qString ''ticker'' (GetHistoricalFills_Ticker p)]"

record GetHistoricalOrdersParams =
  GetHistoricalOrders_Cursor :: string
  GetHistoricalOrders_Limit :: goint
  GetHistoricalOrders_Ticker :: string

definition GetHistoricalOrdersParams_toMap :: "GetHistoricalOrdersParams \<Rightarrow> query_params" where
  "GetHistoricalOrdersParams_toMap p = query
     [qString ''cursor'' (GetHistoricalOrders_Cursor p),
      qInt ''limit'' (GetHistoricalOrders_Limit p),
      qString ''ticker'' (GetHistoricalOrders_Ticker p)]"

record GetHistoricalTradesParams =
  GetHistoricalTrades_Cursor :: string
  GetHistoricalTrades_Limit :: goint
  GetHistoricalTrades_Ticker :: string

definition GetHistoricalTradesParams_toMap :: "GetHistoricalTradesParams \<Rightarrow> query_params" where
  "GetHistoricalTradesParams_toMap p = query
     [qString ''cursor'' (GetHistoricalTrades_Cursor p),
      qInt ''limit'' (GetHistoricalTrades_Limit p),
      qString ''ticker'' (GetHistoricalTrades_Ticker p)]"

record GetHistoricalMarketsParams =
  GetHistoricalMarkets_Cursor :: string
  GetHistoricalMarkets_Limit :: goint

definition GetHistoricalMarketsParams_toMap :: "GetHistoricalMarketsParams \<Rightarrow> query_params" where
  "GetHistoricalMarketsParams_toMap p = query
     [qString ''cursor'' (GetHistoricalMarkets_Cursor p),
      qInt ''limit'' (GetHistoricalMarkets_Limit p)]"

record GetHistoricalMarketCandlesticksParams =
  GetHistoricalMarketCandlesticks_StartTS :: goint
  GetHistoricalMarketCandlesticks_EndTS :: goint
  GetHistoricalMarketCandlesticks_PeriodInterval :: goint

definition GetHistoricalMarketCandlesticksParams_toMap :: "GetHistoricalMarketCandlesticksParams \<Rightarrow> query_params" where
  "GetHistoricalMarketCandlesticksParams_toMap p = query
     [qInt64 ''start_ts'' (GetHistoricalMarketCandlesticks_StartTS p),
      qInt64 ''end_ts'' (GetHistoricalMarketCandlesticks_EndTS p),
      qInt ''period_interval'' (GetHistoricalMarketCandlesticks_PeriodInterval p)]"

record GetHistoricalPositionsParams =
  GetHistoricalPositions_Ticker :: string
  GetHistoricalPositions_EventTicker :: string
  GetHistoricalPositions_Subaccount :: "goint option"
  GetHistoricalPositions_Limit :: goint
  GetHistoricalPositions_Cursor :: string

definition GetHistoricalPositionsParams_toMap :: "GetHistoricalPositionsParams \<Rightarrow> query_params" where
  "GetHistoricalPositionsParams_toMap p = query
     [qString ''ticker'' (GetHistoricalPositions_Ticker p),
      qString ''event_ticker'' (GetHistoricalPositions_EventTicker p),
      qIntPtr ''subaccount'' (GetHistoricalPositions_Subaccount p),
      qInt ''limit'' (GetHistoricalPositions_Limit p),
      qString ''cursor'' (GetHistoricalPositions_Cursor p)]"

definition GetHistoricalCutoff :: "endpoint" where
  "GetHistoricalCutoff =
     Decodes ''GetHistoricalCutoffResponse'' (getJSON_call (pathHistorical @ ''/cutoff'') [])"

definition GetHistoricalFills :: "GetHistoricalFillsParams \<Rightarrow> endpoint" where
  "GetHistoricalFills params =
     Decodes ''GetFillsResponse'' (getJSON_call (pathHistorical @ ''/fills'') (GetHistoricalFillsParams_toMap params))"

definition GetHistoricalOrders :: "GetHistoricalOrdersParams \<Rightarrow> endpoint" where
  "GetHistoricalOrders params =
     Decodes ''GetOrdersResponse'' (getJSON_call (pathHistorical @ ''/orders'') (GetHistoricalOrdersParams_toMap params))"

definition GetHistoricalTrades :: "GetHistoricalTradesParams \<Rightarrow> endpoint" where
  "GetHistoricalTrades params =
     Decodes ''GetTradesResponse'' (getJSON_call (pathHistorical @ ''/trades'') (GetHistoricalTradesParams_toMap params))"

definition GetHistoricalMarkets :: "GetHistoricalMarketsParams \<Rightarrow> endpoint" where
  "GetHistoricalMarkets params =
     Decodes ''GetMarketsResponse'' (getJSON_call (pathHistorical @ ''/markets'') (GetHistoricalMarketsParams_toMap params))"

definition GetHistoricalMarket :: "string \<Rightarrow> endpoint" where
  "GetHistoricalMarket ticker =
     Decodes ''GetMarketResponse'' (getJSON_call (pathHistorical @ ''/markets/'' @ ticker) [])"

definition GetHistoricalMarketCandlesticks :: "string \<Rightarrow> GetHistoricalMarketCandlesticksParams \<Rightarrow> endpoint" where
  "GetHistoricalMarketCandlesticks ticker params =
     Decodes ''GetMarketCandlesticksHistoricalResponse'' (getJSON_call (pathHistorical @ ''/markets/'' @ ticker @ ''/candlesticks'') (GetHistoricalMarketCandlesticksParams_toMap params))"

definition GetHistoricalPositions :: "GetHistoricalPositionsParams \<Rightarrow> endpoint" where
  "GetHistoricalPositions params =
     Decodes ''GetPositionsResponse'' (getJSON_call (pathHistorical @ ''/positions'') (GetHistoricalPositionsParams_toMap params))"

section \<open>The calls of this group\<close>

datatype market_op =
    Call_GetEvent string GetEventParams
  | Call_GetEvents GetEventsParams
  | Call_GetEventMetadata string
  | Call_GetMultivariateEvents GetMultivariateEventsParams
  | Call_GetEventCandlesticks string string GetEventCandlesticksParams
  | Call_GetEventForecastPercentileHistory string string GetEventForecastPercentileHistoryParams
  | Call_GetEventFeeChanges GetEventFeeChangesParams
  | Call_GetMarketOrderbook string GetOrderbookParams
  | Call_GetMarketOrderbooks GetMarketOrderbooksParams
  | Call_GetTrades GetTradesParams
  | Call_GetMarket string
  | Call_GetMarkets GetMarketsParams
  | Call_GetMarketCandlesticks string string GetMarketCandlesticksParams
  | Call_GetBatchMarketCandlesticks GetBatchMarketCandlesticksParams
  | Call_GetSeries string GetSeriesParams
  | Call_GetSeriesList GetSeriesListParams
  | Call_GetMilestones GetMilestonesParams
  | Call_GetMilestone string
  | Call_GetStructuredTargets GetStructuredTargetsParams
  | Call_GetStructuredTarget string
  | Call_GetMultivariateEventCollections GetMultivariateEventCollectionsParams
  | Call_GetMultivariateEventCollection string
  | Call_CreateMarketInMultivariateEventCollection string gobody
  | Call_GetLiveDataBatch GetLiveDataBatchParams
  | Call_GetLiveDataByMilestone string GetLiveDataParams
  | Call_GetMilestoneGameStats string
  | Call_GetLiveData string string GetLiveDataParams
  | Call_GetEventLiveData string GetEventLiveDataParams
  | Call_GetWeatherIndex string GetWeatherIndexParams
  | Call_GetWeatherIndexCalibrations string
  | Call_GetTagsByCategories
  | Call_GetFiltersBySport
  | Call_GetIncentivePrograms
  | Call_GetExchangeStatus
  | Call_GetExchangeSchedule
  | Call_GetUserDataTimestamp
  | Call_GetSeriesFeeChanges GetSeriesFeeChangesParams
  | Call_GetHistoricalCutoff
  | Call_GetHistoricalFills GetHistoricalFillsParams
  | Call_GetHistoricalOrders GetHistoricalOrdersParams
  | Call_GetHistoricalTrades GetHistoricalTradesParams
  | Call_GetHistoricalMarkets GetHistoricalMarketsParams
  | Call_GetHistoricalMarket string
  | Call_GetHistoricalMarketCandlesticks string GetHistoricalMarketCandlesticksParams
  | Call_GetHistoricalPositions GetHistoricalPositionsParams

primrec market_endpoint :: "market_op \<Rightarrow> endpoint" where
  "market_endpoint (Call_GetEvent eventTicker params) = GetEvent eventTicker params"
| "market_endpoint (Call_GetEvents params) = GetEvents params"
| "market_endpoint (Call_GetEventMetadata eventTicker) = GetEventMetadata eventTicker"
| "market_endpoint (Call_GetMultivariateEvents params) = GetMultivariateEvents params"
| "market_endpoint (Call_GetEventCandlesticks seriesTicker eventTicker params) = GetEventCandlesticks seriesTicker eventTicker params"
| "market_endpoint (Call_GetEventForecastPercentileHistory seriesTicker eventTicker params) = GetEventForecastPercentileHistory seriesTicker eventTicker params"
| "market_endpoint (Call_GetEventFeeChanges params) = GetEventFeeChanges params"
| "market_endpoint (Call_GetMarketOrderbook ticker params) = GetMarketOrderbook ticker params"
| "market_endpoint (Call_GetMarketOrderbooks params) = GetMarketOrderbooks params"
| "market_endpoint (Call_GetTrades params) = GetTrades params"
| "market_endpoint (Call_GetMarket ticker) = GetMarket ticker"
| "market_endpoint (Call_GetMarkets params) = GetMarkets params"
| "market_endpoint (Call_GetMarketCandlesticks seriesTicker ticker params) = GetMarketCandlesticks seriesTicker ticker params"
| "market_endpoint (Call_GetBatchMarketCandlesticks params) = GetBatchMarketCandlesticks params"
| "market_endpoint (Call_GetSeries seriesTicker params) = GetSeries seriesTicker params"
| "market_endpoint (Call_GetSeriesList params) = GetSeriesList params"
| "market_endpoint (Call_GetMilestones params) = GetMilestones params"
| "market_endpoint (Call_GetMilestone milestoneID) = GetMilestone milestoneID"
| "market_endpoint (Call_GetStructuredTargets params) = GetStructuredTargets params"
| "market_endpoint (Call_GetStructuredTarget structuredTargetID) = GetStructuredTarget structuredTargetID"
| "market_endpoint (Call_GetMultivariateEventCollections params) = GetMultivariateEventCollections params"
| "market_endpoint (Call_GetMultivariateEventCollection collectionTicker) = GetMultivariateEventCollection collectionTicker"
| "market_endpoint (Call_CreateMarketInMultivariateEventCollection collectionTicker req) = CreateMarketInMultivariateEventCollection collectionTicker req"
| "market_endpoint (Call_GetLiveDataBatch params) = GetLiveDataBatch params"
| "market_endpoint (Call_GetLiveDataByMilestone milestoneID params) = GetLiveDataByMilestone milestoneID params"
| "market_endpoint (Call_GetMilestoneGameStats milestoneID) = GetMilestoneGameStats milestoneID"
| "market_endpoint (Call_GetLiveData dataType milestoneID params) = GetLiveData dataType milestoneID params"
| "market_endpoint (Call_GetEventLiveData eventTicker params) = GetEventLiveData eventTicker params"
| "market_endpoint (Call_GetWeatherIndex city params) = GetWeatherIndex city params"
| "market_endpoint (Call_GetWeatherIndexCalibrations city) = GetWeatherIndexCalibrations city"
| "market_endpoint Call_GetTagsByCategories = GetTagsByCategories"
| "market_endpoint Call_GetFiltersBySport = GetFiltersBySport"
| "market_endpoint Call_GetIncentivePrograms = GetIncentivePrograms"
| "market_endpoint Call_GetExchangeStatus = GetExchangeStatus"
| "market_endpoint Call_GetExchangeSchedule = GetExchangeSchedule"
| "market_endpoint Call_GetUserDataTimestamp = GetUserDataTimestamp"
| "market_endpoint (Call_GetSeriesFeeChanges params) = GetSeriesFeeChanges params"
| "market_endpoint Call_GetHistoricalCutoff = GetHistoricalCutoff"
| "market_endpoint (Call_GetHistoricalFills params) = GetHistoricalFills params"
| "market_endpoint (Call_GetHistoricalOrders params) = GetHistoricalOrders params"
| "market_endpoint (Call_GetHistoricalTrades params) = GetHistoricalTrades params"
| "market_endpoint (Call_GetHistoricalMarkets params) = GetHistoricalMarkets params"
| "market_endpoint (Call_GetHistoricalMarket ticker) = GetHistoricalMarket ticker"
| "market_endpoint (Call_GetHistoricalMarketCandlesticks ticker params) = GetHistoricalMarketCandlesticks ticker params"
| "market_endpoint (Call_GetHistoricalPositions params) = GetHistoricalPositions params"

text \<open>The documented routes: the verb and the path below \<open>/trade-api/v2\<close> that each method's
  comment gives, and the values of its path parameters.\<close>

definition route_GetEvent :: api_route where "route_GetEvent = (''GET'', [''events'', ''{event_ticker}''])"
definition route_GetEvents :: api_route where "route_GetEvents = (''GET'', [''events''])"
definition route_GetEventMetadata :: api_route where "route_GetEventMetadata = (''GET'', [''events'', ''{event_ticker}'', ''metadata''])"
definition route_GetMultivariateEvents :: api_route where "route_GetMultivariateEvents = (''GET'', [''events'', ''multivariate''])"
definition route_GetEventCandlesticks :: api_route where "route_GetEventCandlesticks = (''GET'', [''series'', ''{series_ticker}'', ''events'', ''{ticker}'', ''candlesticks''])"
definition route_GetEventForecastPercentileHistory :: api_route where "route_GetEventForecastPercentileHistory = (''GET'', [''series'', ''{series_ticker}'', ''events'', ''{ticker}'', ''forecast_percentile_history''])"
definition route_GetEventFeeChanges :: api_route where "route_GetEventFeeChanges = (''GET'', [''events'', ''fee_changes''])"
definition route_GetMarketOrderbook :: api_route where "route_GetMarketOrderbook = (''GET'', [''markets'', ''{ticker}'', ''orderbook''])"
definition route_GetMarketOrderbooks :: api_route where "route_GetMarketOrderbooks = (''GET'', [''markets'', ''orderbooks''])"
definition route_GetTrades :: api_route where "route_GetTrades = (''GET'', [''markets'', ''trades''])"
definition route_GetMarket :: api_route where "route_GetMarket = (''GET'', [''markets'', ''{ticker}''])"
definition route_GetMarkets :: api_route where "route_GetMarkets = (''GET'', [''markets''])"
definition route_GetMarketCandlesticks :: api_route where "route_GetMarketCandlesticks = (''GET'', [''series'', ''{series_ticker}'', ''markets'', ''{ticker}'', ''candlesticks''])"
definition route_GetBatchMarketCandlesticks :: api_route where "route_GetBatchMarketCandlesticks = (''GET'', [''markets'', ''candlesticks''])"
definition route_GetSeries :: api_route where "route_GetSeries = (''GET'', [''series'', ''{series_ticker}''])"
definition route_GetSeriesList :: api_route where "route_GetSeriesList = (''GET'', [''series''])"
definition route_GetMilestones :: api_route where "route_GetMilestones = (''GET'', [''milestones''])"
definition route_GetMilestone :: api_route where "route_GetMilestone = (''GET'', [''milestones'', ''{milestone_id}''])"
definition route_GetStructuredTargets :: api_route where "route_GetStructuredTargets = (''GET'', [''structured_targets''])"
definition route_GetStructuredTarget :: api_route where "route_GetStructuredTarget = (''GET'', [''structured_targets'', ''{structured_target_id}''])"
definition route_GetMultivariateEventCollections :: api_route where "route_GetMultivariateEventCollections = (''GET'', [''multivariate_event_collections''])"
definition route_GetMultivariateEventCollection :: api_route where "route_GetMultivariateEventCollection = (''GET'', [''multivariate_event_collections'', ''{collection_ticker}''])"
definition route_CreateMarketInMultivariateEventCollection :: api_route where "route_CreateMarketInMultivariateEventCollection = (''POST'', [''multivariate_event_collections'', ''{collection_ticker}''])"
definition route_GetLiveDataBatch :: api_route where "route_GetLiveDataBatch = (''GET'', [''live_data'', ''batch''])"
definition route_GetLiveDataByMilestone :: api_route where "route_GetLiveDataByMilestone = (''GET'', [''live_data'', ''milestone'', ''{milestone_id}''])"
definition route_GetMilestoneGameStats :: api_route where "route_GetMilestoneGameStats = (''GET'', [''live_data'', ''milestone'', ''{milestone_id}'', ''game_stats''])"
definition route_GetLiveData :: api_route where "route_GetLiveData = (''GET'', [''live_data'', ''{type}'', ''milestone'', ''{milestone_id}''])"
definition route_GetEventLiveData :: api_route where "route_GetEventLiveData = (''GET'', [''live_data'', ''events'', ''{event_ticker}''])"
definition route_GetWeatherIndex :: api_route where "route_GetWeatherIndex = (''GET'', [''live_data'', ''weather'', ''{city}''])"
definition route_GetWeatherIndexCalibrations :: api_route where "route_GetWeatherIndexCalibrations = (''GET'', [''live_data'', ''weather'', ''{city}'', ''calibrations''])"
definition route_GetTagsByCategories :: api_route where "route_GetTagsByCategories = (''GET'', [''search'', ''tags_by_categories''])"
definition route_GetFiltersBySport :: api_route where "route_GetFiltersBySport = (''GET'', [''search'', ''filters_by_sport''])"
definition route_GetIncentivePrograms :: api_route where "route_GetIncentivePrograms = (''GET'', [''incentive_programs''])"
definition route_GetExchangeStatus :: api_route where "route_GetExchangeStatus = (''GET'', [''exchange'', ''status''])"
definition route_GetExchangeSchedule :: api_route where "route_GetExchangeSchedule = (''GET'', [''exchange'', ''schedule''])"
definition route_GetUserDataTimestamp :: api_route where "route_GetUserDataTimestamp = (''GET'', [''exchange'', ''user_data_timestamp''])"
definition route_GetSeriesFeeChanges :: api_route where "route_GetSeriesFeeChanges = (''GET'', [''series'', ''fee_changes''])"
definition route_GetHistoricalCutoff :: api_route where "route_GetHistoricalCutoff = (''GET'', [''historical'', ''cutoff''])"
definition route_GetHistoricalFills :: api_route where "route_GetHistoricalFills = (''GET'', [''historical'', ''fills''])"
definition route_GetHistoricalOrders :: api_route where "route_GetHistoricalOrders = (''GET'', [''historical'', ''orders''])"
definition route_GetHistoricalTrades :: api_route where "route_GetHistoricalTrades = (''GET'', [''historical'', ''trades''])"
definition route_GetHistoricalMarkets :: api_route where "route_GetHistoricalMarkets = (''GET'', [''historical'', ''markets''])"
definition route_GetHistoricalMarket :: api_route where "route_GetHistoricalMarket = (''GET'', [''historical'', ''markets'', ''{ticker}''])"
definition route_GetHistoricalMarketCandlesticks :: api_route where "route_GetHistoricalMarketCandlesticks = (''GET'', [''historical'', ''markets'', ''{ticker}'', ''candlesticks''])"
definition route_GetHistoricalPositions :: api_route where "route_GetHistoricalPositions = (''GET'', [''historical'', ''positions''])"

lemmas market_route_defs =
  route_GetEvent_def
  route_GetEvents_def
  route_GetEventMetadata_def
  route_GetMultivariateEvents_def
  route_GetEventCandlesticks_def
  route_GetEventForecastPercentileHistory_def
  route_GetEventFeeChanges_def
  route_GetMarketOrderbook_def
  route_GetMarketOrderbooks_def
  route_GetTrades_def
  route_GetMarket_def
  route_GetMarkets_def
  route_GetMarketCandlesticks_def
  route_GetBatchMarketCandlesticks_def
  route_GetSeries_def
  route_GetSeriesList_def
  route_GetMilestones_def
  route_GetMilestone_def
  route_GetStructuredTargets_def
  route_GetStructuredTarget_def
  route_GetMultivariateEventCollections_def
  route_GetMultivariateEventCollection_def
  route_CreateMarketInMultivariateEventCollection_def
  route_GetLiveDataBatch_def
  route_GetLiveDataByMilestone_def
  route_GetMilestoneGameStats_def
  route_GetLiveData_def
  route_GetEventLiveData_def
  route_GetWeatherIndex_def
  route_GetWeatherIndexCalibrations_def
  route_GetTagsByCategories_def
  route_GetFiltersBySport_def
  route_GetIncentivePrograms_def
  route_GetExchangeStatus_def
  route_GetExchangeSchedule_def
  route_GetUserDataTimestamp_def
  route_GetSeriesFeeChanges_def
  route_GetHistoricalCutoff_def
  route_GetHistoricalFills_def
  route_GetHistoricalOrders_def
  route_GetHistoricalTrades_def
  route_GetHistoricalMarkets_def
  route_GetHistoricalMarket_def
  route_GetHistoricalMarketCandlesticks_def
  route_GetHistoricalPositions_def

primrec market_route :: "market_op \<Rightarrow> api_route" where
  "market_route (Call_GetEvent eventTicker params) = route_GetEvent"
| "market_route (Call_GetEvents params) = route_GetEvents"
| "market_route (Call_GetEventMetadata eventTicker) = route_GetEventMetadata"
| "market_route (Call_GetMultivariateEvents params) = route_GetMultivariateEvents"
| "market_route (Call_GetEventCandlesticks seriesTicker eventTicker params) = route_GetEventCandlesticks"
| "market_route (Call_GetEventForecastPercentileHistory seriesTicker eventTicker params) = route_GetEventForecastPercentileHistory"
| "market_route (Call_GetEventFeeChanges params) = route_GetEventFeeChanges"
| "market_route (Call_GetMarketOrderbook ticker params) = route_GetMarketOrderbook"
| "market_route (Call_GetMarketOrderbooks params) = route_GetMarketOrderbooks"
| "market_route (Call_GetTrades params) = route_GetTrades"
| "market_route (Call_GetMarket ticker) = route_GetMarket"
| "market_route (Call_GetMarkets params) = route_GetMarkets"
| "market_route (Call_GetMarketCandlesticks seriesTicker ticker params) = route_GetMarketCandlesticks"
| "market_route (Call_GetBatchMarketCandlesticks params) = route_GetBatchMarketCandlesticks"
| "market_route (Call_GetSeries seriesTicker params) = route_GetSeries"
| "market_route (Call_GetSeriesList params) = route_GetSeriesList"
| "market_route (Call_GetMilestones params) = route_GetMilestones"
| "market_route (Call_GetMilestone milestoneID) = route_GetMilestone"
| "market_route (Call_GetStructuredTargets params) = route_GetStructuredTargets"
| "market_route (Call_GetStructuredTarget structuredTargetID) = route_GetStructuredTarget"
| "market_route (Call_GetMultivariateEventCollections params) = route_GetMultivariateEventCollections"
| "market_route (Call_GetMultivariateEventCollection collectionTicker) = route_GetMultivariateEventCollection"
| "market_route (Call_CreateMarketInMultivariateEventCollection collectionTicker req) = route_CreateMarketInMultivariateEventCollection"
| "market_route (Call_GetLiveDataBatch params) = route_GetLiveDataBatch"
| "market_route (Call_GetLiveDataByMilestone milestoneID params) = route_GetLiveDataByMilestone"
| "market_route (Call_GetMilestoneGameStats milestoneID) = route_GetMilestoneGameStats"
| "market_route (Call_GetLiveData dataType milestoneID params) = route_GetLiveData"
| "market_route (Call_GetEventLiveData eventTicker params) = route_GetEventLiveData"
| "market_route (Call_GetWeatherIndex city params) = route_GetWeatherIndex"
| "market_route (Call_GetWeatherIndexCalibrations city) = route_GetWeatherIndexCalibrations"
| "market_route Call_GetTagsByCategories = route_GetTagsByCategories"
| "market_route Call_GetFiltersBySport = route_GetFiltersBySport"
| "market_route Call_GetIncentivePrograms = route_GetIncentivePrograms"
| "market_route Call_GetExchangeStatus = route_GetExchangeStatus"
| "market_route Call_GetExchangeSchedule = route_GetExchangeSchedule"
| "market_route Call_GetUserDataTimestamp = route_GetUserDataTimestamp"
| "market_route (Call_GetSeriesFeeChanges params) = route_GetSeriesFeeChanges"
| "market_route Call_GetHistoricalCutoff = route_GetHistoricalCutoff"
| "market_route (Call_GetHistoricalFills params) = route_GetHistoricalFills"
| "market_route (Call_GetHistoricalOrders params) = route_GetHistoricalOrders"
| "market_route (Call_GetHistoricalTrades params) = route_GetHistoricalTrades"
| "market_route (Call_GetHistoricalMarkets params) = route_GetHistoricalMarkets"
| "market_route (Call_GetHistoricalMarket ticker) = route_GetHistoricalMarket"
| "market_route (Call_GetHistoricalMarketCandlesticks ticker params) = route_GetHistoricalMarketCandlesticks"
| "market_route (Call_GetHistoricalPositions params) = route_GetHistoricalPositions"

primrec market_args :: "market_op \<Rightarrow> string list" where
  "market_args (Call_GetEvent eventTicker params) = [eventTicker]"
| "market_args (Call_GetEvents params) = []"
| "market_args (Call_GetEventMetadata eventTicker) = [eventTicker]"
| "market_args (Call_GetMultivariateEvents params) = []"
| "market_args (Call_GetEventCandlesticks seriesTicker eventTicker params) = [seriesTicker, eventTicker]"
| "market_args (Call_GetEventForecastPercentileHistory seriesTicker eventTicker params) = [seriesTicker, eventTicker]"
| "market_args (Call_GetEventFeeChanges params) = []"
| "market_args (Call_GetMarketOrderbook ticker params) = [ticker]"
| "market_args (Call_GetMarketOrderbooks params) = []"
| "market_args (Call_GetTrades params) = []"
| "market_args (Call_GetMarket ticker) = [ticker]"
| "market_args (Call_GetMarkets params) = []"
| "market_args (Call_GetMarketCandlesticks seriesTicker ticker params) = [seriesTicker, ticker]"
| "market_args (Call_GetBatchMarketCandlesticks params) = []"
| "market_args (Call_GetSeries seriesTicker params) = [seriesTicker]"
| "market_args (Call_GetSeriesList params) = []"
| "market_args (Call_GetMilestones params) = []"
| "market_args (Call_GetMilestone milestoneID) = [milestoneID]"
| "market_args (Call_GetStructuredTargets params) = []"
| "market_args (Call_GetStructuredTarget structuredTargetID) = [structuredTargetID]"
| "market_args (Call_GetMultivariateEventCollections params) = []"
| "market_args (Call_GetMultivariateEventCollection collectionTicker) = [collectionTicker]"
| "market_args (Call_CreateMarketInMultivariateEventCollection collectionTicker req) = [collectionTicker]"
| "market_args (Call_GetLiveDataBatch params) = []"
| "market_args (Call_GetLiveDataByMilestone milestoneID params) = [milestoneID]"
| "market_args (Call_GetMilestoneGameStats milestoneID) = [milestoneID]"
| "market_args (Call_GetLiveData dataType milestoneID params) = [dataType, milestoneID]"
| "market_args (Call_GetEventLiveData eventTicker params) = [eventTicker]"
| "market_args (Call_GetWeatherIndex city params) = [city]"
| "market_args (Call_GetWeatherIndexCalibrations city) = [city]"
| "market_args Call_GetTagsByCategories = []"
| "market_args Call_GetFiltersBySport = []"
| "market_args Call_GetIncentivePrograms = []"
| "market_args Call_GetExchangeStatus = []"
| "market_args Call_GetExchangeSchedule = []"
| "market_args Call_GetUserDataTimestamp = []"
| "market_args (Call_GetSeriesFeeChanges params) = []"
| "market_args Call_GetHistoricalCutoff = []"
| "market_args (Call_GetHistoricalFills params) = []"
| "market_args (Call_GetHistoricalOrders params) = []"
| "market_args (Call_GetHistoricalTrades params) = []"
| "market_args (Call_GetHistoricalMarkets params) = []"
| "market_args (Call_GetHistoricalMarket ticker) = [ticker]"
| "market_args (Call_GetHistoricalMarketCandlesticks ticker params) = [ticker]"
| "market_args (Call_GetHistoricalPositions params) = []"

definition market_routes :: "api_route list" where
  "market_routes =
     [route_GetEvent,
      route_GetEvents,
      route_GetEventMetadata,
      route_GetMultivariateEvents,
      route_GetEventCandlesticks,
      route_GetEventForecastPercentileHistory,
      route_GetEventFeeChanges,
      route_GetMarketOrderbook,
      route_GetMarketOrderbooks,
      route_GetTrades,
      route_GetMarket,
      route_GetMarkets,
      route_GetMarketCandlesticks,
      route_GetBatchMarketCandlesticks,
      route_GetSeries,
      route_GetSeriesList,
      route_GetMilestones,
      route_GetMilestone,
      route_GetStructuredTargets,
      route_GetStructuredTarget,
      route_GetMultivariateEventCollections,
      route_GetMultivariateEventCollection,
      route_CreateMarketInMultivariateEventCollection,
      route_GetLiveDataBatch,
      route_GetLiveDataByMilestone,
      route_GetMilestoneGameStats,
      route_GetLiveData,
      route_GetEventLiveData,
      route_GetWeatherIndex,
      route_GetWeatherIndexCalibrations,
      route_GetTagsByCategories,
      route_GetFiltersBySport,
      route_GetIncentivePrograms,
      route_GetExchangeStatus,
      route_GetExchangeSchedule,
      route_GetUserDataTimestamp,
      route_GetSeriesFeeChanges,
      route_GetHistoricalCutoff,
      route_GetHistoricalFills,
      route_GetHistoricalOrders,
      route_GetHistoricalTrades,
      route_GetHistoricalMarkets,
      route_GetHistoricalMarket,
      route_GetHistoricalMarketCandlesticks,
      route_GetHistoricalPositions]"

lemmas market_endpoint_defs =
  GetEvent_def
  GetEvents_def
  GetEventMetadata_def
  GetMultivariateEvents_def
  GetEventCandlesticks_def
  GetEventForecastPercentileHistory_def
  GetEventFeeChanges_def
  GetMarketOrderbook_def
  GetMarketOrderbooks_def
  GetTrades_def
  GetMarket_def
  GetMarkets_def
  GetMarketCandlesticks_def
  GetBatchMarketCandlesticks_def
  GetSeries_def
  GetSeriesList_def
  GetMilestones_def
  GetMilestone_def
  GetStructuredTargets_def
  GetStructuredTarget_def
  GetMultivariateEventCollections_def
  GetMultivariateEventCollection_def
  CreateMarketInMultivariateEventCollection_def
  GetLiveDataBatch_def
  GetLiveDataByMilestone_def
  GetMilestoneGameStats_def
  GetLiveData_def
  GetEventLiveData_def
  GetWeatherIndex_def
  GetWeatherIndexCalibrations_def
  GetTagsByCategories_def
  GetFiltersBySport_def
  GetIncentivePrograms_def
  GetExchangeStatus_def
  GetExchangeSchedule_def
  GetUserDataTimestamp_def
  GetSeriesFeeChanges_def
  GetHistoricalCutoff_def
  GetHistoricalFills_def
  GetHistoricalOrders_def
  GetHistoricalTrades_def
  GetHistoricalMarkets_def
  GetHistoricalMarket_def
  GetHistoricalMarketCandlesticks_def
  GetHistoricalPositions_def

lemmas market_toMap_defs =
  GetEventParams_toMap_def
  GetEventsParams_toMap_def
  GetMultivariateEventsParams_toMap_def
  GetEventCandlesticksParams_toMap_def
  GetEventForecastPercentileHistoryParams_toMap_def
  GetEventFeeChangesParams_toMap_def
  GetOrderbookParams_toMap_def
  GetMarketOrderbooksParams_toMap_def
  GetTradesParams_toMap_def
  GetMarketsParams_toMap_def
  GetMarketCandlesticksParams_toMap_def
  GetBatchMarketCandlesticksParams_toMap_def
  GetSeriesParams_toMap_def
  GetSeriesListParams_toMap_def
  GetMilestonesParams_toMap_def
  GetStructuredTargetsParams_toMap_def
  GetMultivariateEventCollectionsParams_toMap_def
  GetLiveDataBatchParams_toMap_def
  GetLiveDataParams_toMap_def
  GetEventLiveDataParams_toMap_def
  GetWeatherIndexParams_toMap_def
  GetSeriesFeeChangesParams_toMap_def
  GetHistoricalFillsParams_toMap_def
  GetHistoricalOrdersParams_toMap_def
  GetHistoricalTradesParams_toMap_def
  GetHistoricalMarketsParams_toMap_def
  GetHistoricalMarketCandlesticksParams_toMap_def
  GetHistoricalPositionsParams_toMap_def

end
