(* ===== verification/EndpointsTrading.thy ===== *)
theory EndpointsTrading
  imports EndpointBase
begin

text \<open>
  The endpoint methods for trading: orders, event orders, order groups, RFQs and quotes, block trades and the FCM endpoints. Each definition is what the method hands to
  the client: path, costs, units, body and parameters. Each \<open>toMap\<close> is the query of its
  parameter struct; fields carry the struct's name.
\<close>

section \<open>\<^verbatim>\<open>orders.go\<close>\<close>

record GetOrdersParams =
  GetOrders_Ticker :: string
  GetOrders_EventTicker :: string
  GetOrders_Status :: OrderStatus
  GetOrders_Limit :: goint
  GetOrders_Cursor :: string
  GetOrders_MinTs :: goint
  GetOrders_MaxTs :: goint
  GetOrders_Subaccount :: goint

definition GetOrdersParams_toMap :: "GetOrdersParams \<Rightarrow> query_params" where
  "GetOrdersParams_toMap p = query
     [qString ''ticker'' (GetOrders_Ticker p),
      qString ''event_ticker'' (GetOrders_EventTicker p),
      qString ''status'' (GetOrders_Status p),
      qInt ''limit'' (GetOrders_Limit p),
      qString ''cursor'' (GetOrders_Cursor p),
      qInt64 ''min_ts'' (GetOrders_MinTs p),
      qInt64 ''max_ts'' (GetOrders_MaxTs p),
      qInt ''subaccount'' (GetOrders_Subaccount p)]"

record GetQueuePositionsParams =
  GetQueuePositions_MarketTickers :: string
  GetQueuePositions_EventTicker :: string
  GetQueuePositions_Subaccount :: goint

definition GetQueuePositionsParams_toMap :: "GetQueuePositionsParams \<Rightarrow> query_params" where
  "GetQueuePositionsParams_toMap p = query
     [qString ''market_tickers'' (GetQueuePositions_MarketTickers p),
      qString ''event_ticker'' (GetQueuePositions_EventTicker p),
      qInt ''subaccount'' (GetQueuePositions_Subaccount p)]"

definition GetOrder :: "string \<Rightarrow> endpoint" where
  "GetOrder orderID =
     Decodes ''GetOrderResponse'' (getJSON_call (pathOrders @ ''/'' @ orderID) [])"

definition GetOrders :: "GetOrdersParams \<Rightarrow> endpoint" where
  "GetOrders params =
     Decodes ''GetOrdersResponse'' (getJSON_call pathOrders (GetOrdersParams_toMap params))"

definition GetQueuePositions :: "GetQueuePositionsParams \<Rightarrow> endpoint" where
  "GetQueuePositions params =
     Decodes ''GetOrderQueuePositionsResponse'' (getJSON_call (pathOrders @ ''/queue_positions'') (GetQueuePositionsParams_toMap params))"

definition GetQueuePosition :: "string \<Rightarrow> endpoint" where
  "GetQueuePosition orderID =
     Decodes ''GetOrderQueuePositionResponse'' (getJSON_call (pathOrders @ ''/'' @ orderID @ ''/queue_position'') [])"

section \<open>\<^verbatim>\<open>event_orders.go\<close>\<close>

definition costCreateOrder :: gofloat where "costCreateOrder = 10"
definition costCancelOrder :: gofloat where "costCancelOrder = 2"

text \<open>The batch requests: \<open>Orders\<close> is None for the nil slice, an element is an order as JSON.\<close>

record BatchCreateOrdersV2Request =
  BatchCreateOrders_Orders :: "gobody list option"

definition BatchCreateOrdersV2Request_body :: "BatchCreateOrdersV2Request \<Rightarrow> gobody" where
  "BatchCreateOrdersV2Request_body req = orders_body (BatchCreateOrders_Orders req)"

record BatchCancelOrdersV2Request =
  BatchCancelOrders_Orders :: "gobody list option"

definition BatchCancelOrdersV2Request_body :: "BatchCancelOrdersV2Request \<Rightarrow> gobody" where
  "BatchCancelOrdersV2Request_body req = orders_body (BatchCancelOrders_Orders req)"

record CancelOrderV2Params =
  CancelOrderV2_MarketTicker :: string
  CancelOrderV2_Subaccount :: goint
  CancelOrderV2_ExchangeIndex :: "goint option"

definition CancelOrderV2Params_toMap :: "CancelOrderV2Params \<Rightarrow> query_params" where
  "CancelOrderV2Params_toMap p = query
     [qString ''market_ticker'' (CancelOrderV2_MarketTicker p),
      qInt ''subaccount'' (CancelOrderV2_Subaccount p),
      qIntPtr ''exchange_index'' (CancelOrderV2_ExchangeIndex p)]"

record CancelAllOrdersParams =
  CancelAllOrders_Subaccount :: "goint option"

definition CancelAllOrdersParams_toMap :: "CancelAllOrdersParams \<Rightarrow> query_params" where
  "CancelAllOrdersParams_toMap p = query
     [qIntPtr ''subaccount'' (CancelAllOrders_Subaccount p)]"

definition CreateOrderV2 :: "gobody \<Rightarrow> endpoint" where
  "CreateOrderV2 req =
     Decodes ''CreateOrderV2Response'' (postJSON_call pathEventOrders (Some req) 10)"

definition BatchCreateOrdersV2 :: "BatchCreateOrdersV2Request \<Rightarrow> endpoint" where
  "BatchCreateOrdersV2 req =
     Decodes ''BatchCreateOrdersV2Response'' 
       \<lparr>ac_method = ''POST'', ac_path = (pathEventOrders @ ''/batched''),
        ac_readCost = 0, ac_writeCost = costCreateOrder, ac_units = (len_orders (BatchCreateOrders_Orders req)),
        ac_body = (Some (BatchCreateOrdersV2Request_body req)), ac_params = []\<rparr>"

definition BatchCancelOrdersV2 :: "BatchCancelOrdersV2Request \<Rightarrow> endpoint" where
  "BatchCancelOrdersV2 req =
     Decodes ''BatchCancelOrdersV2Response'' 
       \<lparr>ac_method = ''DELETE'', ac_path = (pathEventOrders @ ''/batched''),
        ac_readCost = 0, ac_writeCost = costCancelOrder, ac_units = (len_orders (BatchCancelOrders_Orders req)),
        ac_body = (Some (BatchCancelOrdersV2Request_body req)), ac_params = []\<rparr>"

definition CancelOrderV2 :: "string \<Rightarrow> CancelOrderV2Params \<Rightarrow> endpoint" where
  "CancelOrderV2 orderID params =
     Decodes ''CancelOrderV2Response'' 
       \<lparr>ac_method = ''DELETE'', ac_path = (pathEventOrders @ ''/'' @ orderID),
        ac_readCost = 0, ac_writeCost = costCancelOrder, ac_units = 1,
        ac_body = None, ac_params = (CancelOrderV2Params_toMap params)\<rparr>"

definition AmendOrderV2 :: "string \<Rightarrow> gobody \<Rightarrow> endpoint" where
  "AmendOrderV2 orderID req =
     Decodes ''AmendOrderV2Response'' (postJSON_call (pathEventOrders @ ''/'' @ orderID @ ''/amend'') (Some req) 10)"

definition DecreaseOrderV2 :: "string \<Rightarrow> gobody \<Rightarrow> endpoint" where
  "DecreaseOrderV2 orderID req =
     Decodes ''DecreaseOrderV2Response'' (postJSON_call (pathEventOrders @ ''/'' @ orderID @ ''/decrease'') (Some req) 10)"

definition CancelAllOrders :: "CancelAllOrdersParams \<Rightarrow> endpoint" where
  "CancelAllOrders params =
     ErrorOnly 
       \<lparr>ac_method = ''DELETE'', ac_path = pathEventOrders,
        ac_readCost = 0, ac_writeCost = costCancelOrder, ac_units = 1,
        ac_body = None, ac_params = (CancelAllOrdersParams_toMap params)\<rparr>"

section \<open>\<^verbatim>\<open>order_groups.go\<close>\<close>

record GetOrderGroupsParams =
  GetOrderGroups_Subaccount :: string

definition GetOrderGroupsParams_toMap :: "GetOrderGroupsParams \<Rightarrow> query_params" where
  "GetOrderGroupsParams_toMap p = query
     [qString ''subaccount'' (GetOrderGroups_Subaccount p)]"

record GetOrderGroupParams =
  GetOrderGroup_Subaccount :: string

definition GetOrderGroupParams_toMap :: "GetOrderGroupParams \<Rightarrow> query_params" where
  "GetOrderGroupParams_toMap p = query
     [qString ''subaccount'' (GetOrderGroup_Subaccount p)]"

record DeleteOrderGroupParams =
  DeleteOrderGroup_Subaccount :: string
  DeleteOrderGroup_ExchangeIndex :: goint

definition DeleteOrderGroupParams_toMap :: "DeleteOrderGroupParams \<Rightarrow> query_params" where
  "DeleteOrderGroupParams_toMap p = query
     [qString ''subaccount'' (DeleteOrderGroup_Subaccount p),
      qInt ''exchange_index'' (DeleteOrderGroup_ExchangeIndex p)]"

record OrderGroupActionParams =
  OrderGroupAction_Subaccount :: string
  OrderGroupAction_ExchangeIndex :: goint

definition OrderGroupActionParams_toMap :: "OrderGroupActionParams \<Rightarrow> query_params" where
  "OrderGroupActionParams_toMap p = query
     [qString ''subaccount'' (OrderGroupAction_Subaccount p),
      qInt ''exchange_index'' (OrderGroupAction_ExchangeIndex p)]"

record UpdateOrderGroupLimitParams =
  UpdateOrderGroupLimit_ExchangeIndex :: goint

definition UpdateOrderGroupLimitParams_toMap :: "UpdateOrderGroupLimitParams \<Rightarrow> query_params" where
  "UpdateOrderGroupLimitParams_toMap p = query
     [qInt ''exchange_index'' (UpdateOrderGroupLimit_ExchangeIndex p)]"

definition CreateOrderGroup :: "gobody \<Rightarrow> endpoint" where
  "CreateOrderGroup req =
     Decodes ''CreateOrderGroupResponse'' (postJSON_call (pathOrderGroups @ ''/create'') (Some req) 10)"

definition GetOrderGroups :: "GetOrderGroupsParams \<Rightarrow> endpoint" where
  "GetOrderGroups params =
     Decodes ''GetOrderGroupsResponse'' (getJSON_call pathOrderGroups (GetOrderGroupsParams_toMap params))"

definition GetOrderGroup :: "string \<Rightarrow> GetOrderGroupParams \<Rightarrow> endpoint" where
  "GetOrderGroup orderGroupID params =
     Decodes ''GetOrderGroupResponse'' (getJSON_call (pathOrderGroups @ ''/'' @ orderGroupID) (GetOrderGroupParams_toMap params))"

definition DeleteOrderGroup :: "string \<Rightarrow> DeleteOrderGroupParams \<Rightarrow> endpoint" where
  "DeleteOrderGroup orderGroupID params =
     ErrorOnly 
       \<lparr>ac_method = ''DELETE'', ac_path = (pathOrderGroups @ ''/'' @ orderGroupID),
        ac_readCost = 0, ac_writeCost = 10, ac_units = 1,
        ac_body = None, ac_params = (DeleteOrderGroupParams_toMap params)\<rparr>"

definition ResetOrderGroup :: "string \<Rightarrow> OrderGroupActionParams \<Rightarrow> endpoint" where
  "ResetOrderGroup orderGroupID params =
     ErrorOnly 
       \<lparr>ac_method = ''PUT'', ac_path = (pathOrderGroups @ ''/'' @ orderGroupID @ ''/reset''),
        ac_readCost = 0, ac_writeCost = 10, ac_units = 1,
        ac_body = None, ac_params = (OrderGroupActionParams_toMap params)\<rparr>"

definition TriggerOrderGroup :: "string \<Rightarrow> OrderGroupActionParams \<Rightarrow> endpoint" where
  "TriggerOrderGroup orderGroupID params =
     ErrorOnly 
       \<lparr>ac_method = ''PUT'', ac_path = (pathOrderGroups @ ''/'' @ orderGroupID @ ''/trigger''),
        ac_readCost = 0, ac_writeCost = 10, ac_units = 1,
        ac_body = None, ac_params = (OrderGroupActionParams_toMap params)\<rparr>"

definition UpdateOrderGroupLimit :: "string \<Rightarrow> gobody \<Rightarrow> UpdateOrderGroupLimitParams \<Rightarrow> endpoint" where
  "UpdateOrderGroupLimit orderGroupID req params =
     ErrorOnly 
       \<lparr>ac_method = ''PUT'', ac_path = (pathOrderGroups @ ''/'' @ orderGroupID @ ''/limit''),
        ac_readCost = 0, ac_writeCost = 10, ac_units = 1,
        ac_body = (Some req), ac_params = (UpdateOrderGroupLimitParams_toMap params)\<rparr>"

section \<open>\<^verbatim>\<open>communications.go\<close>\<close>

definition rfqQuotePath :: "string \<Rightarrow> string \<Rightarrow> string" where
  "rfqQuotePath rfqID quoteID = pathCommunications @ ''/rfqs/'' @ rfqID @ ''/quotes/'' @ quoteID"

record GetRFQsParams =
  GetRFQs_Cursor :: string
  GetRFQs_EventTicker :: string
  GetRFQs_Ticker :: string
  GetRFQs_Subaccount :: string
  GetRFQs_Limit :: goint
  GetRFQs_Status :: string
  GetRFQs_UserFilter :: string

definition GetRFQsParams_toMap :: "GetRFQsParams \<Rightarrow> query_params" where
  "GetRFQsParams_toMap p = query
     [qString ''cursor'' (GetRFQs_Cursor p),
      qString ''event_ticker'' (GetRFQs_EventTicker p),
      qString ''market_ticker'' (GetRFQs_Ticker p),
      qString ''subaccount'' (GetRFQs_Subaccount p),
      qInt ''limit'' (GetRFQs_Limit p),
      qString ''status'' (GetRFQs_Status p),
      qString ''user_filter'' (GetRFQs_UserFilter p)]"

record GetQuotesParams =
  GetQuotes_Cursor :: string
  GetQuotes_EventTicker :: string
  GetQuotes_Ticker :: string
  GetQuotes_Limit :: goint
  GetQuotes_Status :: string
  GetQuotes_UserFilter :: string
  GetQuotes_RFQUserFilter :: string
  GetQuotes_RFQID :: string

definition GetQuotesParams_toMap :: "GetQuotesParams \<Rightarrow> query_params" where
  "GetQuotesParams_toMap p = query
     [qString ''cursor'' (GetQuotes_Cursor p),
      qString ''event_ticker'' (GetQuotes_EventTicker p),
      qString ''market_ticker'' (GetQuotes_Ticker p),
      qInt ''limit'' (GetQuotes_Limit p),
      qString ''status'' (GetQuotes_Status p),
      qString ''user_filter'' (GetQuotes_UserFilter p),
      qString ''rfq_user_filter'' (GetQuotes_RFQUserFilter p),
      qString ''rfq_id'' (GetQuotes_RFQID p)]"

definition GetCommunicationsID :: "endpoint" where
  "GetCommunicationsID =
     Decodes ''GetCommunicationsIDResponse'' (getJSON_call (pathCommunications @ ''/id'') [])"

definition CreateRFQ :: "gobody \<Rightarrow> endpoint" where
  "CreateRFQ req =
     Decodes ''CreateRFQResponse'' (postJSON_call (pathCommunications @ ''/rfqs'') (Some req) 10)"

definition GetRFQs :: "GetRFQsParams \<Rightarrow> endpoint" where
  "GetRFQs params =
     Decodes ''GetRFQsResponse'' (getJSON_call (pathCommunications @ ''/rfqs'') (GetRFQsParams_toMap params))"

definition GetRFQ :: "string \<Rightarrow> endpoint" where
  "GetRFQ rfqID =
     Decodes ''GetRFQResponse'' (getJSON_call (pathCommunications @ ''/rfqs/'' @ rfqID) [])"

definition DeleteRFQ :: "string \<Rightarrow> endpoint" where
  "DeleteRFQ rfqID =
     ErrorOnly (delete_call (pathCommunications @ ''/rfqs/'' @ rfqID) None 10)"

definition CreateQuote :: "gobody \<Rightarrow> endpoint" where
  "CreateQuote req =
     Decodes ''CreateQuoteResponse'' (postJSON_call (pathCommunications @ ''/quotes'') (Some req) 10)"

definition GetQuotes :: "GetQuotesParams \<Rightarrow> endpoint" where
  "GetQuotes params =
     Decodes ''GetQuotesResponse'' (getJSON_call (pathCommunications @ ''/quotes'') (GetQuotesParams_toMap params))"

definition GetQuote :: "string \<Rightarrow> endpoint" where
  "GetQuote quoteID =
     Decodes ''GetQuoteResponse'' (getJSON_call (pathCommunications @ ''/quotes/'' @ quoteID) [])"

definition DeleteQuote :: "string \<Rightarrow> endpoint" where
  "DeleteQuote quoteID =
     ErrorOnly (delete_call (pathCommunications @ ''/quotes/'' @ quoteID) None 10)"

definition AcceptQuote :: "string \<Rightarrow> gobody \<Rightarrow> endpoint" where
  "AcceptQuote quoteID req =
     ErrorOnly (put_call (pathCommunications @ ''/quotes/'' @ quoteID @ ''/accept'') (Some req) 10)"

definition ConfirmQuote :: "string \<Rightarrow> endpoint" where
  "ConfirmQuote quoteID =
     ErrorOnly (put_call (pathCommunications @ ''/quotes/'' @ quoteID @ ''/confirm'') None 10)"

definition GetRFQQuote :: "string \<Rightarrow> string \<Rightarrow> endpoint" where
  "GetRFQQuote rfqID quoteID =
     Decodes ''GetQuoteResponse'' 
       \<lparr>ac_method = ''GET'', ac_path = (rfqQuotePath rfqID quoteID),
        ac_readCost = 2, ac_writeCost = 0, ac_units = 1,
        ac_body = None, ac_params = []\<rparr>"

definition DeleteRFQQuote :: "string \<Rightarrow> string \<Rightarrow> endpoint" where
  "DeleteRFQQuote rfqID quoteID =
     ErrorOnly 
       \<lparr>ac_method = ''DELETE'', ac_path = (rfqQuotePath rfqID quoteID),
        ac_readCost = 0, ac_writeCost = 2, ac_units = 1,
        ac_body = None, ac_params = []\<rparr>"

definition AcceptRFQQuote :: "string \<Rightarrow> string \<Rightarrow> gobody \<Rightarrow> endpoint" where
  "AcceptRFQQuote rfqID quoteID req =
     ErrorOnly (put_call (rfqQuotePath rfqID quoteID @ ''/accept'') (Some req) 10)"

definition ConfirmRFQQuote :: "string \<Rightarrow> string \<Rightarrow> endpoint" where
  "ConfirmRFQQuote rfqID quoteID =
     ErrorOnly (put_call (rfqQuotePath rfqID quoteID @ ''/confirm'') (Some (JsonBody (JObj []))) 10)"

section \<open>\<^verbatim>\<open>block_trades.go\<close>\<close>

record GetBlockTradeProposalsParams =
  GetBlockTradeProposals_MarketTicker :: string
  GetBlockTradeProposals_Status :: string
  GetBlockTradeProposals_Limit :: goint
  GetBlockTradeProposals_Cursor :: string

definition GetBlockTradeProposalsParams_toMap :: "GetBlockTradeProposalsParams \<Rightarrow> query_params" where
  "GetBlockTradeProposalsParams_toMap p = query
     [qString ''market_ticker'' (GetBlockTradeProposals_MarketTicker p),
      qString ''status'' (GetBlockTradeProposals_Status p),
      qInt ''limit'' (GetBlockTradeProposals_Limit p),
      qString ''cursor'' (GetBlockTradeProposals_Cursor p)]"

definition GetBlockTradeProposals :: "GetBlockTradeProposalsParams \<Rightarrow> endpoint" where
  "GetBlockTradeProposals params =
     Decodes ''GetBlockTradeProposalsResponse'' (getJSON_call pathBlockTradeProposals (GetBlockTradeProposalsParams_toMap params))"

definition ProposeBlockTrade :: "gobody \<Rightarrow> endpoint" where
  "ProposeBlockTrade req =
     Decodes ''ProposeBlockTradeResponse'' (postJSON_call pathBlockTradeProposals (Some req) 10)"

definition AcceptBlockTradeProposal :: "string \<Rightarrow> gobody \<Rightarrow> endpoint" where
  "AcceptBlockTradeProposal proposalID req =
     ErrorOnly (post_call (pathBlockTradeProposals @ ''/'' @ proposalID @ ''/accept'') (Some req) 10)"

section \<open>\<^verbatim>\<open>fcm.go\<close>\<close>

record GetFCMOrdersParams =
  GetFCMOrders_SubtraderID :: string
  GetFCMOrders_ClientOrderIDs :: string
  GetFCMOrders_EventTicker :: string
  GetFCMOrders_Ticker :: string
  GetFCMOrders_Status :: string
  GetFCMOrders_MinTS :: goint
  GetFCMOrders_MaxTS :: goint
  GetFCMOrders_Limit :: goint
  GetFCMOrders_Cursor :: string

definition GetFCMOrdersParams_toMap :: "GetFCMOrdersParams \<Rightarrow> query_params" where
  "GetFCMOrdersParams_toMap p = query
     [qString ''subtrader_id'' (GetFCMOrders_SubtraderID p),
      qString ''client_order_ids'' (GetFCMOrders_ClientOrderIDs p),
      qString ''event_ticker'' (GetFCMOrders_EventTicker p),
      qString ''ticker'' (GetFCMOrders_Ticker p),
      qString ''status'' (GetFCMOrders_Status p),
      qInt64 ''min_ts'' (GetFCMOrders_MinTS p),
      qInt64 ''max_ts'' (GetFCMOrders_MaxTS p),
      qInt ''limit'' (GetFCMOrders_Limit p),
      qString ''cursor'' (GetFCMOrders_Cursor p)]"

record GetFCMPositionsParams =
  GetFCMPositions_SubtraderID :: string
  GetFCMPositions_Ticker :: string
  GetFCMPositions_EventTicker :: string
  GetFCMPositions_CountFilter :: string
  GetFCMPositions_SettlementStatus :: string
  GetFCMPositions_Limit :: goint
  GetFCMPositions_Cursor :: string

definition GetFCMPositionsParams_toMap :: "GetFCMPositionsParams \<Rightarrow> query_params" where
  "GetFCMPositionsParams_toMap p = query
     [qString ''subtrader_id'' (GetFCMPositions_SubtraderID p),
      qString ''ticker'' (GetFCMPositions_Ticker p),
      qString ''event_ticker'' (GetFCMPositions_EventTicker p),
      qString ''count_filter'' (GetFCMPositions_CountFilter p),
      qString ''settlement_status'' (GetFCMPositions_SettlementStatus p),
      qInt ''limit'' (GetFCMPositions_Limit p),
      qString ''cursor'' (GetFCMPositions_Cursor p)]"

definition GetFCMOrders :: "GetFCMOrdersParams \<Rightarrow> endpoint" where
  "GetFCMOrders params =
     Decodes ''GetOrdersResponse'' (getJSON_call (pathFCM @ ''/orders'') (GetFCMOrdersParams_toMap params))"

definition GetFCMPositions :: "GetFCMPositionsParams \<Rightarrow> endpoint" where
  "GetFCMPositions params =
     Decodes ''GetPositionsResponse'' (getJSON_call (pathFCM @ ''/positions'') (GetFCMPositionsParams_toMap params))"

section \<open>The calls of this group\<close>

datatype trading_op =
    Call_GetOrder string
  | Call_GetOrders GetOrdersParams
  | Call_GetQueuePositions GetQueuePositionsParams
  | Call_GetQueuePosition string
  | Call_CreateOrderV2 gobody
  | Call_BatchCreateOrdersV2 BatchCreateOrdersV2Request
  | Call_BatchCancelOrdersV2 BatchCancelOrdersV2Request
  | Call_CancelOrderV2 string CancelOrderV2Params
  | Call_AmendOrderV2 string gobody
  | Call_DecreaseOrderV2 string gobody
  | Call_CancelAllOrders CancelAllOrdersParams
  | Call_CreateOrderGroup gobody
  | Call_GetOrderGroups GetOrderGroupsParams
  | Call_GetOrderGroup string GetOrderGroupParams
  | Call_DeleteOrderGroup string DeleteOrderGroupParams
  | Call_ResetOrderGroup string OrderGroupActionParams
  | Call_TriggerOrderGroup string OrderGroupActionParams
  | Call_UpdateOrderGroupLimit string gobody UpdateOrderGroupLimitParams
  | Call_GetCommunicationsID
  | Call_CreateRFQ gobody
  | Call_GetRFQs GetRFQsParams
  | Call_GetRFQ string
  | Call_DeleteRFQ string
  | Call_CreateQuote gobody
  | Call_GetQuotes GetQuotesParams
  | Call_GetQuote string
  | Call_DeleteQuote string
  | Call_AcceptQuote string gobody
  | Call_ConfirmQuote string
  | Call_GetRFQQuote string string
  | Call_DeleteRFQQuote string string
  | Call_AcceptRFQQuote string string gobody
  | Call_ConfirmRFQQuote string string
  | Call_GetBlockTradeProposals GetBlockTradeProposalsParams
  | Call_ProposeBlockTrade gobody
  | Call_AcceptBlockTradeProposal string gobody
  | Call_GetFCMOrders GetFCMOrdersParams
  | Call_GetFCMPositions GetFCMPositionsParams

primrec trading_endpoint :: "trading_op \<Rightarrow> endpoint" where
  "trading_endpoint (Call_GetOrder orderID) = GetOrder orderID"
| "trading_endpoint (Call_GetOrders params) = GetOrders params"
| "trading_endpoint (Call_GetQueuePositions params) = GetQueuePositions params"
| "trading_endpoint (Call_GetQueuePosition orderID) = GetQueuePosition orderID"
| "trading_endpoint (Call_CreateOrderV2 req) = CreateOrderV2 req"
| "trading_endpoint (Call_BatchCreateOrdersV2 req) = BatchCreateOrdersV2 req"
| "trading_endpoint (Call_BatchCancelOrdersV2 req) = BatchCancelOrdersV2 req"
| "trading_endpoint (Call_CancelOrderV2 orderID params) = CancelOrderV2 orderID params"
| "trading_endpoint (Call_AmendOrderV2 orderID req) = AmendOrderV2 orderID req"
| "trading_endpoint (Call_DecreaseOrderV2 orderID req) = DecreaseOrderV2 orderID req"
| "trading_endpoint (Call_CancelAllOrders params) = CancelAllOrders params"
| "trading_endpoint (Call_CreateOrderGroup req) = CreateOrderGroup req"
| "trading_endpoint (Call_GetOrderGroups params) = GetOrderGroups params"
| "trading_endpoint (Call_GetOrderGroup orderGroupID params) = GetOrderGroup orderGroupID params"
| "trading_endpoint (Call_DeleteOrderGroup orderGroupID params) = DeleteOrderGroup orderGroupID params"
| "trading_endpoint (Call_ResetOrderGroup orderGroupID params) = ResetOrderGroup orderGroupID params"
| "trading_endpoint (Call_TriggerOrderGroup orderGroupID params) = TriggerOrderGroup orderGroupID params"
| "trading_endpoint (Call_UpdateOrderGroupLimit orderGroupID req params) = UpdateOrderGroupLimit orderGroupID req params"
| "trading_endpoint Call_GetCommunicationsID = GetCommunicationsID"
| "trading_endpoint (Call_CreateRFQ req) = CreateRFQ req"
| "trading_endpoint (Call_GetRFQs params) = GetRFQs params"
| "trading_endpoint (Call_GetRFQ rfqID) = GetRFQ rfqID"
| "trading_endpoint (Call_DeleteRFQ rfqID) = DeleteRFQ rfqID"
| "trading_endpoint (Call_CreateQuote req) = CreateQuote req"
| "trading_endpoint (Call_GetQuotes params) = GetQuotes params"
| "trading_endpoint (Call_GetQuote quoteID) = GetQuote quoteID"
| "trading_endpoint (Call_DeleteQuote quoteID) = DeleteQuote quoteID"
| "trading_endpoint (Call_AcceptQuote quoteID req) = AcceptQuote quoteID req"
| "trading_endpoint (Call_ConfirmQuote quoteID) = ConfirmQuote quoteID"
| "trading_endpoint (Call_GetRFQQuote rfqID quoteID) = GetRFQQuote rfqID quoteID"
| "trading_endpoint (Call_DeleteRFQQuote rfqID quoteID) = DeleteRFQQuote rfqID quoteID"
| "trading_endpoint (Call_AcceptRFQQuote rfqID quoteID req) = AcceptRFQQuote rfqID quoteID req"
| "trading_endpoint (Call_ConfirmRFQQuote rfqID quoteID) = ConfirmRFQQuote rfqID quoteID"
| "trading_endpoint (Call_GetBlockTradeProposals params) = GetBlockTradeProposals params"
| "trading_endpoint (Call_ProposeBlockTrade req) = ProposeBlockTrade req"
| "trading_endpoint (Call_AcceptBlockTradeProposal proposalID req) = AcceptBlockTradeProposal proposalID req"
| "trading_endpoint (Call_GetFCMOrders params) = GetFCMOrders params"
| "trading_endpoint (Call_GetFCMPositions params) = GetFCMPositions params"

text \<open>The documented routes: the verb and the path below \<open>/trade-api/v2\<close> that each method's
  comment gives, and the values of its path parameters.\<close>

definition route_GetOrder :: api_route where "route_GetOrder = (''GET'', [''portfolio'', ''orders'', ''{order_id}''])"
definition route_GetOrders :: api_route where "route_GetOrders = (''GET'', [''portfolio'', ''orders''])"
definition route_GetQueuePositions :: api_route where "route_GetQueuePositions = (''GET'', [''portfolio'', ''orders'', ''queue_positions''])"
definition route_GetQueuePosition :: api_route where "route_GetQueuePosition = (''GET'', [''portfolio'', ''orders'', ''{order_id}'', ''queue_position''])"
definition route_CreateOrderV2 :: api_route where "route_CreateOrderV2 = (''POST'', [''portfolio'', ''events'', ''orders''])"
definition route_BatchCreateOrdersV2 :: api_route where "route_BatchCreateOrdersV2 = (''POST'', [''portfolio'', ''events'', ''orders'', ''batched''])"
definition route_BatchCancelOrdersV2 :: api_route where "route_BatchCancelOrdersV2 = (''DELETE'', [''portfolio'', ''events'', ''orders'', ''batched''])"
definition route_CancelOrderV2 :: api_route where "route_CancelOrderV2 = (''DELETE'', [''portfolio'', ''events'', ''orders'', ''{order_id}''])"
definition route_AmendOrderV2 :: api_route where "route_AmendOrderV2 = (''POST'', [''portfolio'', ''events'', ''orders'', ''{order_id}'', ''amend''])"
definition route_DecreaseOrderV2 :: api_route where "route_DecreaseOrderV2 = (''POST'', [''portfolio'', ''events'', ''orders'', ''{order_id}'', ''decrease''])"
definition route_CancelAllOrders :: api_route where "route_CancelAllOrders = (''DELETE'', [''portfolio'', ''events'', ''orders''])"
definition route_CreateOrderGroup :: api_route where "route_CreateOrderGroup = (''POST'', [''portfolio'', ''order_groups'', ''create''])"
definition route_GetOrderGroups :: api_route where "route_GetOrderGroups = (''GET'', [''portfolio'', ''order_groups''])"
definition route_GetOrderGroup :: api_route where "route_GetOrderGroup = (''GET'', [''portfolio'', ''order_groups'', ''{order_group_id}''])"
definition route_DeleteOrderGroup :: api_route where "route_DeleteOrderGroup = (''DELETE'', [''portfolio'', ''order_groups'', ''{order_group_id}''])"
definition route_ResetOrderGroup :: api_route where "route_ResetOrderGroup = (''PUT'', [''portfolio'', ''order_groups'', ''{order_group_id}'', ''reset''])"
definition route_TriggerOrderGroup :: api_route where "route_TriggerOrderGroup = (''PUT'', [''portfolio'', ''order_groups'', ''{order_group_id}'', ''trigger''])"
definition route_UpdateOrderGroupLimit :: api_route where "route_UpdateOrderGroupLimit = (''PUT'', [''portfolio'', ''order_groups'', ''{order_group_id}'', ''limit''])"
definition route_GetCommunicationsID :: api_route where "route_GetCommunicationsID = (''GET'', [''communications'', ''id''])"
definition route_CreateRFQ :: api_route where "route_CreateRFQ = (''POST'', [''communications'', ''rfqs''])"
definition route_GetRFQs :: api_route where "route_GetRFQs = (''GET'', [''communications'', ''rfqs''])"
definition route_GetRFQ :: api_route where "route_GetRFQ = (''GET'', [''communications'', ''rfqs'', ''{rfq_id}''])"
definition route_DeleteRFQ :: api_route where "route_DeleteRFQ = (''DELETE'', [''communications'', ''rfqs'', ''{rfq_id}''])"
definition route_CreateQuote :: api_route where "route_CreateQuote = (''POST'', [''communications'', ''quotes''])"
definition route_GetQuotes :: api_route where "route_GetQuotes = (''GET'', [''communications'', ''quotes''])"
definition route_GetQuote :: api_route where "route_GetQuote = (''GET'', [''communications'', ''quotes'', ''{quote_id}''])"
definition route_DeleteQuote :: api_route where "route_DeleteQuote = (''DELETE'', [''communications'', ''quotes'', ''{quote_id}''])"
definition route_AcceptQuote :: api_route where "route_AcceptQuote = (''PUT'', [''communications'', ''quotes'', ''{quote_id}'', ''accept''])"
definition route_ConfirmQuote :: api_route where "route_ConfirmQuote = (''PUT'', [''communications'', ''quotes'', ''{quote_id}'', ''confirm''])"
definition route_GetRFQQuote :: api_route where "route_GetRFQQuote = (''GET'', [''communications'', ''rfqs'', ''{rfq_id}'', ''quotes'', ''{quote_id}''])"
definition route_DeleteRFQQuote :: api_route where "route_DeleteRFQQuote = (''DELETE'', [''communications'', ''rfqs'', ''{rfq_id}'', ''quotes'', ''{quote_id}''])"
definition route_AcceptRFQQuote :: api_route where "route_AcceptRFQQuote = (''PUT'', [''communications'', ''rfqs'', ''{rfq_id}'', ''quotes'', ''{quote_id}'', ''accept''])"
definition route_ConfirmRFQQuote :: api_route where "route_ConfirmRFQQuote = (''PUT'', [''communications'', ''rfqs'', ''{rfq_id}'', ''quotes'', ''{quote_id}'', ''confirm''])"
definition route_GetBlockTradeProposals :: api_route where "route_GetBlockTradeProposals = (''GET'', [''communications'', ''block-trade-proposals''])"
definition route_ProposeBlockTrade :: api_route where "route_ProposeBlockTrade = (''POST'', [''communications'', ''block-trade-proposals''])"
definition route_AcceptBlockTradeProposal :: api_route where "route_AcceptBlockTradeProposal = (''POST'', [''communications'', ''block-trade-proposals'', ''{block_trade_proposal_id}'', ''accept''])"
definition route_GetFCMOrders :: api_route where "route_GetFCMOrders = (''GET'', [''fcm'', ''orders''])"
definition route_GetFCMPositions :: api_route where "route_GetFCMPositions = (''GET'', [''fcm'', ''positions''])"

lemmas trading_route_defs =
  route_GetOrder_def
  route_GetOrders_def
  route_GetQueuePositions_def
  route_GetQueuePosition_def
  route_CreateOrderV2_def
  route_BatchCreateOrdersV2_def
  route_BatchCancelOrdersV2_def
  route_CancelOrderV2_def
  route_AmendOrderV2_def
  route_DecreaseOrderV2_def
  route_CancelAllOrders_def
  route_CreateOrderGroup_def
  route_GetOrderGroups_def
  route_GetOrderGroup_def
  route_DeleteOrderGroup_def
  route_ResetOrderGroup_def
  route_TriggerOrderGroup_def
  route_UpdateOrderGroupLimit_def
  route_GetCommunicationsID_def
  route_CreateRFQ_def
  route_GetRFQs_def
  route_GetRFQ_def
  route_DeleteRFQ_def
  route_CreateQuote_def
  route_GetQuotes_def
  route_GetQuote_def
  route_DeleteQuote_def
  route_AcceptQuote_def
  route_ConfirmQuote_def
  route_GetRFQQuote_def
  route_DeleteRFQQuote_def
  route_AcceptRFQQuote_def
  route_ConfirmRFQQuote_def
  route_GetBlockTradeProposals_def
  route_ProposeBlockTrade_def
  route_AcceptBlockTradeProposal_def
  route_GetFCMOrders_def
  route_GetFCMPositions_def

primrec trading_route :: "trading_op \<Rightarrow> api_route" where
  "trading_route (Call_GetOrder orderID) = route_GetOrder"
| "trading_route (Call_GetOrders params) = route_GetOrders"
| "trading_route (Call_GetQueuePositions params) = route_GetQueuePositions"
| "trading_route (Call_GetQueuePosition orderID) = route_GetQueuePosition"
| "trading_route (Call_CreateOrderV2 req) = route_CreateOrderV2"
| "trading_route (Call_BatchCreateOrdersV2 req) = route_BatchCreateOrdersV2"
| "trading_route (Call_BatchCancelOrdersV2 req) = route_BatchCancelOrdersV2"
| "trading_route (Call_CancelOrderV2 orderID params) = route_CancelOrderV2"
| "trading_route (Call_AmendOrderV2 orderID req) = route_AmendOrderV2"
| "trading_route (Call_DecreaseOrderV2 orderID req) = route_DecreaseOrderV2"
| "trading_route (Call_CancelAllOrders params) = route_CancelAllOrders"
| "trading_route (Call_CreateOrderGroup req) = route_CreateOrderGroup"
| "trading_route (Call_GetOrderGroups params) = route_GetOrderGroups"
| "trading_route (Call_GetOrderGroup orderGroupID params) = route_GetOrderGroup"
| "trading_route (Call_DeleteOrderGroup orderGroupID params) = route_DeleteOrderGroup"
| "trading_route (Call_ResetOrderGroup orderGroupID params) = route_ResetOrderGroup"
| "trading_route (Call_TriggerOrderGroup orderGroupID params) = route_TriggerOrderGroup"
| "trading_route (Call_UpdateOrderGroupLimit orderGroupID req params) = route_UpdateOrderGroupLimit"
| "trading_route Call_GetCommunicationsID = route_GetCommunicationsID"
| "trading_route (Call_CreateRFQ req) = route_CreateRFQ"
| "trading_route (Call_GetRFQs params) = route_GetRFQs"
| "trading_route (Call_GetRFQ rfqID) = route_GetRFQ"
| "trading_route (Call_DeleteRFQ rfqID) = route_DeleteRFQ"
| "trading_route (Call_CreateQuote req) = route_CreateQuote"
| "trading_route (Call_GetQuotes params) = route_GetQuotes"
| "trading_route (Call_GetQuote quoteID) = route_GetQuote"
| "trading_route (Call_DeleteQuote quoteID) = route_DeleteQuote"
| "trading_route (Call_AcceptQuote quoteID req) = route_AcceptQuote"
| "trading_route (Call_ConfirmQuote quoteID) = route_ConfirmQuote"
| "trading_route (Call_GetRFQQuote rfqID quoteID) = route_GetRFQQuote"
| "trading_route (Call_DeleteRFQQuote rfqID quoteID) = route_DeleteRFQQuote"
| "trading_route (Call_AcceptRFQQuote rfqID quoteID req) = route_AcceptRFQQuote"
| "trading_route (Call_ConfirmRFQQuote rfqID quoteID) = route_ConfirmRFQQuote"
| "trading_route (Call_GetBlockTradeProposals params) = route_GetBlockTradeProposals"
| "trading_route (Call_ProposeBlockTrade req) = route_ProposeBlockTrade"
| "trading_route (Call_AcceptBlockTradeProposal proposalID req) = route_AcceptBlockTradeProposal"
| "trading_route (Call_GetFCMOrders params) = route_GetFCMOrders"
| "trading_route (Call_GetFCMPositions params) = route_GetFCMPositions"

primrec trading_args :: "trading_op \<Rightarrow> string list" where
  "trading_args (Call_GetOrder orderID) = [orderID]"
| "trading_args (Call_GetOrders params) = []"
| "trading_args (Call_GetQueuePositions params) = []"
| "trading_args (Call_GetQueuePosition orderID) = [orderID]"
| "trading_args (Call_CreateOrderV2 req) = []"
| "trading_args (Call_BatchCreateOrdersV2 req) = []"
| "trading_args (Call_BatchCancelOrdersV2 req) = []"
| "trading_args (Call_CancelOrderV2 orderID params) = [orderID]"
| "trading_args (Call_AmendOrderV2 orderID req) = [orderID]"
| "trading_args (Call_DecreaseOrderV2 orderID req) = [orderID]"
| "trading_args (Call_CancelAllOrders params) = []"
| "trading_args (Call_CreateOrderGroup req) = []"
| "trading_args (Call_GetOrderGroups params) = []"
| "trading_args (Call_GetOrderGroup orderGroupID params) = [orderGroupID]"
| "trading_args (Call_DeleteOrderGroup orderGroupID params) = [orderGroupID]"
| "trading_args (Call_ResetOrderGroup orderGroupID params) = [orderGroupID]"
| "trading_args (Call_TriggerOrderGroup orderGroupID params) = [orderGroupID]"
| "trading_args (Call_UpdateOrderGroupLimit orderGroupID req params) = [orderGroupID]"
| "trading_args Call_GetCommunicationsID = []"
| "trading_args (Call_CreateRFQ req) = []"
| "trading_args (Call_GetRFQs params) = []"
| "trading_args (Call_GetRFQ rfqID) = [rfqID]"
| "trading_args (Call_DeleteRFQ rfqID) = [rfqID]"
| "trading_args (Call_CreateQuote req) = []"
| "trading_args (Call_GetQuotes params) = []"
| "trading_args (Call_GetQuote quoteID) = [quoteID]"
| "trading_args (Call_DeleteQuote quoteID) = [quoteID]"
| "trading_args (Call_AcceptQuote quoteID req) = [quoteID]"
| "trading_args (Call_ConfirmQuote quoteID) = [quoteID]"
| "trading_args (Call_GetRFQQuote rfqID quoteID) = [rfqID, quoteID]"
| "trading_args (Call_DeleteRFQQuote rfqID quoteID) = [rfqID, quoteID]"
| "trading_args (Call_AcceptRFQQuote rfqID quoteID req) = [rfqID, quoteID]"
| "trading_args (Call_ConfirmRFQQuote rfqID quoteID) = [rfqID, quoteID]"
| "trading_args (Call_GetBlockTradeProposals params) = []"
| "trading_args (Call_ProposeBlockTrade req) = []"
| "trading_args (Call_AcceptBlockTradeProposal proposalID req) = [proposalID]"
| "trading_args (Call_GetFCMOrders params) = []"
| "trading_args (Call_GetFCMPositions params) = []"

definition trading_routes :: "api_route list" where
  "trading_routes =
     [route_GetOrder,
      route_GetOrders,
      route_GetQueuePositions,
      route_GetQueuePosition,
      route_CreateOrderV2,
      route_BatchCreateOrdersV2,
      route_BatchCancelOrdersV2,
      route_CancelOrderV2,
      route_AmendOrderV2,
      route_DecreaseOrderV2,
      route_CancelAllOrders,
      route_CreateOrderGroup,
      route_GetOrderGroups,
      route_GetOrderGroup,
      route_DeleteOrderGroup,
      route_ResetOrderGroup,
      route_TriggerOrderGroup,
      route_UpdateOrderGroupLimit,
      route_GetCommunicationsID,
      route_CreateRFQ,
      route_GetRFQs,
      route_GetRFQ,
      route_DeleteRFQ,
      route_CreateQuote,
      route_GetQuotes,
      route_GetQuote,
      route_DeleteQuote,
      route_AcceptQuote,
      route_ConfirmQuote,
      route_GetRFQQuote,
      route_DeleteRFQQuote,
      route_AcceptRFQQuote,
      route_ConfirmRFQQuote,
      route_GetBlockTradeProposals,
      route_ProposeBlockTrade,
      route_AcceptBlockTradeProposal,
      route_GetFCMOrders,
      route_GetFCMPositions]"

lemmas trading_endpoint_defs =
  GetOrder_def
  GetOrders_def
  GetQueuePositions_def
  GetQueuePosition_def
  CreateOrderV2_def
  BatchCreateOrdersV2_def
  BatchCancelOrdersV2_def
  CancelOrderV2_def
  AmendOrderV2_def
  DecreaseOrderV2_def
  CancelAllOrders_def
  CreateOrderGroup_def
  GetOrderGroups_def
  GetOrderGroup_def
  DeleteOrderGroup_def
  ResetOrderGroup_def
  TriggerOrderGroup_def
  UpdateOrderGroupLimit_def
  GetCommunicationsID_def
  CreateRFQ_def
  GetRFQs_def
  GetRFQ_def
  DeleteRFQ_def
  CreateQuote_def
  GetQuotes_def
  GetQuote_def
  DeleteQuote_def
  AcceptQuote_def
  ConfirmQuote_def
  GetRFQQuote_def
  DeleteRFQQuote_def
  AcceptRFQQuote_def
  ConfirmRFQQuote_def
  GetBlockTradeProposals_def
  ProposeBlockTrade_def
  AcceptBlockTradeProposal_def
  GetFCMOrders_def
  GetFCMPositions_def

lemmas trading_toMap_defs =
  GetOrdersParams_toMap_def
  GetQueuePositionsParams_toMap_def
  CancelOrderV2Params_toMap_def
  CancelAllOrdersParams_toMap_def
  GetOrderGroupsParams_toMap_def
  GetOrderGroupParams_toMap_def
  DeleteOrderGroupParams_toMap_def
  OrderGroupActionParams_toMap_def
  UpdateOrderGroupLimitParams_toMap_def
  GetRFQsParams_toMap_def
  GetQuotesParams_toMap_def
  GetBlockTradeProposalsParams_toMap_def
  GetFCMOrdersParams_toMap_def
  GetFCMPositionsParams_toMap_def

end
