(* ===== verification/EndpointsAccount.thy ===== *)
theory EndpointsAccount
  imports EndpointBase AutoConfig
begin

text \<open>
  The endpoint methods for the account: portfolio, subaccounts, transfers, API keys and the calls of account.go. Each definition is what the method hands to
  the client: path, costs, units, body and parameters. Each \<open>toMap\<close> is the query of its
  parameter struct; fields carry the struct's name.
\<close>

section \<open>\<^verbatim>\<open>portfolio.go\<close>\<close>

record GetPositionsParams =
  GetPositions_Ticker :: string
  GetPositions_EventTicker :: string
  GetPositions_CountFilter :: string
  GetPositions_Limit :: goint
  GetPositions_Cursor :: string
  GetPositions_Subaccount :: goint

definition GetPositionsParams_toMap :: "GetPositionsParams \<Rightarrow> query_params" where
  "GetPositionsParams_toMap p = query
     [qString ''ticker'' (GetPositions_Ticker p),
      qString ''event_ticker'' (GetPositions_EventTicker p),
      qString ''count_filter'' (GetPositions_CountFilter p),
      qInt ''limit'' (GetPositions_Limit p),
      qString ''cursor'' (GetPositions_Cursor p),
      qInt ''subaccount'' (GetPositions_Subaccount p)]"

record GetFillsParams =
  GetFills_Ticker :: string
  GetFills_OrderID :: string
  GetFills_MinTs :: goint
  GetFills_MaxTs :: goint
  GetFills_Limit :: goint
  GetFills_Cursor :: string
  GetFills_Subaccount :: goint

definition GetFillsParams_toMap :: "GetFillsParams \<Rightarrow> query_params" where
  "GetFillsParams_toMap p = query
     [qString ''ticker'' (GetFills_Ticker p),
      qString ''order_id'' (GetFills_OrderID p),
      qInt64 ''min_ts'' (GetFills_MinTs p),
      qInt64 ''max_ts'' (GetFills_MaxTs p),
      qInt ''limit'' (GetFills_Limit p),
      qString ''cursor'' (GetFills_Cursor p),
      qInt ''subaccount'' (GetFills_Subaccount p)]"

record GetSettlementsParams =
  GetSettlements_Ticker :: string
  GetSettlements_EventTicker :: string
  GetSettlements_MinTs :: goint
  GetSettlements_MaxTs :: goint
  GetSettlements_Limit :: goint
  GetSettlements_Cursor :: string
  GetSettlements_Subaccount :: goint

definition GetSettlementsParams_toMap :: "GetSettlementsParams \<Rightarrow> query_params" where
  "GetSettlementsParams_toMap p = query
     [qString ''ticker'' (GetSettlements_Ticker p),
      qString ''event_ticker'' (GetSettlements_EventTicker p),
      qInt64 ''min_ts'' (GetSettlements_MinTs p),
      qInt64 ''max_ts'' (GetSettlements_MaxTs p),
      qInt ''limit'' (GetSettlements_Limit p),
      qString ''cursor'' (GetSettlements_Cursor p),
      qInt ''subaccount'' (GetSettlements_Subaccount p)]"

record GetDepositsParams =
  GetDeposits_Limit :: goint
  GetDeposits_Cursor :: string

definition GetDepositsParams_toMap :: "GetDepositsParams \<Rightarrow> query_params" where
  "GetDepositsParams_toMap p = query
     [qInt ''limit'' (GetDeposits_Limit p),
      qString ''cursor'' (GetDeposits_Cursor p)]"

record GetWithdrawalsParams =
  GetWithdrawals_Limit :: goint
  GetWithdrawals_Cursor :: string

definition GetWithdrawalsParams_toMap :: "GetWithdrawalsParams \<Rightarrow> query_params" where
  "GetWithdrawalsParams_toMap p = query
     [qInt ''limit'' (GetWithdrawals_Limit p),
      qString ''cursor'' (GetWithdrawals_Cursor p)]"

definition GetBalance :: "endpoint" where
  "GetBalance =
     Decodes ''GetBalanceResponse'' (getJSON_call (pathPortfolio @ ''/balance'') [])"

definition GetPositions :: "GetPositionsParams \<Rightarrow> endpoint" where
  "GetPositions params =
     Decodes ''GetPositionsResponse'' (getJSON_call (pathPortfolio @ ''/positions'') (GetPositionsParams_toMap params))"

definition GetFills :: "GetFillsParams \<Rightarrow> endpoint" where
  "GetFills params =
     Decodes ''GetFillsResponse'' (getJSON_call (pathPortfolio @ ''/fills'') (GetFillsParams_toMap params))"

definition GetSettlements :: "GetSettlementsParams \<Rightarrow> endpoint" where
  "GetSettlements params =
     Decodes ''GetSettlementsResponse'' (getJSON_call (pathPortfolio @ ''/settlements'') (GetSettlementsParams_toMap params))"

definition GetDeposits :: "GetDepositsParams \<Rightarrow> endpoint" where
  "GetDeposits params =
     Decodes ''GetDepositsResponse'' (getJSON_call (pathPortfolio @ ''/deposits'') (GetDepositsParams_toMap params))"

definition GetWithdrawals :: "GetWithdrawalsParams \<Rightarrow> endpoint" where
  "GetWithdrawals params =
     Decodes ''GetWithdrawalsResponse'' (getJSON_call (pathPortfolio @ ''/withdrawals'') (GetWithdrawalsParams_toMap params))"

section \<open>\<^verbatim>\<open>subaccounts.go\<close>\<close>

record GetSubaccountTransfersParams =
  GetSubaccountTransfers_Limit :: goint
  GetSubaccountTransfers_Cursor :: string

definition GetSubaccountTransfersParams_toMap :: "GetSubaccountTransfersParams \<Rightarrow> query_params" where
  "GetSubaccountTransfersParams_toMap p = query
     [qInt ''limit'' (GetSubaccountTransfers_Limit p),
      qString ''cursor'' (GetSubaccountTransfers_Cursor p)]"

definition CreateSubaccount :: "endpoint" where
  "CreateSubaccount =
     Decodes ''CreateSubaccountResponse'' (postJSON_call pathSubaccounts None 10)"

definition GetSubaccountBalances :: "endpoint" where
  "GetSubaccountBalances =
     Decodes ''GetSubaccountBalancesResponse'' (getJSON_call (pathSubaccounts @ ''/balances'') [])"

definition GetSubaccountNetting :: "endpoint" where
  "GetSubaccountNetting =
     Decodes ''GetSubaccountNettingResponse'' (getJSON_call (pathSubaccounts @ ''/netting'') [])"

definition UpdateSubaccountNetting :: "gobody \<Rightarrow> endpoint" where
  "UpdateSubaccountNetting req =
     ErrorOnly (put_call (pathSubaccounts @ ''/netting'') (Some req) 10)"

definition ApplySubaccountTransfer :: "gobody \<Rightarrow> endpoint" where
  "ApplySubaccountTransfer req =
     Decodes ''ApplySubaccountTransferResponse'' (postJSON_call (pathSubaccounts @ ''/transfer'') (Some req) 10)"

definition GetSubaccountTransfers :: "GetSubaccountTransfersParams \<Rightarrow> endpoint" where
  "GetSubaccountTransfers params =
     Decodes ''GetSubaccountTransfersResponse'' (getJSON_call (pathSubaccounts @ ''/transfers'') (GetSubaccountTransfersParams_toMap params))"

section \<open>\<^verbatim>\<open>summary.go\<close>\<close>

definition GetPortfolioRestingOrderTotalValue :: "endpoint" where
  "GetPortfolioRestingOrderTotalValue =
     Decodes ''GetPortfolioRestingOrderTotalValueResponse'' (getJSON_call (pathPortfolio @ ''/summary/total_resting_order_value'') [])"

section \<open>\<^verbatim>\<open>target_balance.go\<close>\<close>

definition GetTargetBalanceAllocation :: "endpoint" where
  "GetTargetBalanceAllocation =
     Decodes ''GetTargetBalanceAllocationResponse'' (getJSON_call pathTargetBalanceAllocation [])"

definition SetTargetBalanceAllocation :: "gobody \<Rightarrow> endpoint" where
  "SetTargetBalanceAllocation req =
     Decodes ''EmptyResponse'' (postJSON_call pathTargetBalanceAllocation (Some req) 10)"

section \<open>\<^verbatim>\<open>intra_exchange.go\<close>\<close>

record GetIntraExchangeInstanceTransfersParams =
  GetIntraExchangeInstanceTransfers_Limit :: goint
  GetIntraExchangeInstanceTransfers_Cursor :: string

definition GetIntraExchangeInstanceTransfersParams_toMap :: "GetIntraExchangeInstanceTransfersParams \<Rightarrow> query_params" where
  "GetIntraExchangeInstanceTransfersParams_toMap p = query
     [qInt ''limit'' (GetIntraExchangeInstanceTransfers_Limit p),
      qString ''cursor'' (GetIntraExchangeInstanceTransfers_Cursor p)]"

definition IntraExchangeInstanceTransfer :: "gobody \<Rightarrow> endpoint" where
  "IntraExchangeInstanceTransfer req =
     Decodes ''IntraExchangeInstanceTransferResponse'' (postJSON_call pathIntraExchangeTransfer (Some req) 10)"

definition GetIntraExchangeInstanceTransfers :: "GetIntraExchangeInstanceTransfersParams \<Rightarrow> endpoint" where
  "GetIntraExchangeInstanceTransfers params =
     Decodes ''GetIntraExchangeInstanceTransfersResponse'' (getJSON_call pathIntraExchangeTransfers (GetIntraExchangeInstanceTransfersParams_toMap params))"

definition GetIntraExchangeInstanceTransfer :: "string \<Rightarrow> endpoint" where
  "GetIntraExchangeInstanceTransfer transferID =
     Decodes ''GetIntraExchangeInstanceTransferResponse'' (getJSON_call (pathIntraExchangeTransfers @ ''/'' @ transferID) [])"

section \<open>\<^verbatim>\<open>api_keys.go\<close>\<close>

definition GetAPIKeys :: "endpoint" where
  "GetAPIKeys =
     Decodes ''GetApiKeysResponse'' (getJSON_call pathAPIKeys [])"

definition CreateAPIKey :: "gobody \<Rightarrow> endpoint" where
  "CreateAPIKey req =
     Decodes ''CreateApiKeyResponse'' (postJSON_call pathAPIKeys (Some req) 10)"

definition GenerateAPIKey :: "gobody \<Rightarrow> endpoint" where
  "GenerateAPIKey req =
     Decodes ''GenerateApiKeyResponse'' (postJSON_call (pathAPIKeys @ ''/generate'') (Some req) 10)"

definition DeleteAPIKey :: "string \<Rightarrow> endpoint" where
  "DeleteAPIKey apiKey =
     ErrorOnly (delete_call (pathAPIKeys @ ''/'' @ apiKey) None 10)"

section \<open>\<^verbatim>\<open>account.go\<close>\<close>

section \<open>The calls of this group\<close>

datatype account_op =
    Call_GetBalance
  | Call_GetPositions GetPositionsParams
  | Call_GetFills GetFillsParams
  | Call_GetSettlements GetSettlementsParams
  | Call_GetDeposits GetDepositsParams
  | Call_GetWithdrawals GetWithdrawalsParams
  | Call_CreateSubaccount
  | Call_GetSubaccountBalances
  | Call_GetSubaccountNetting
  | Call_UpdateSubaccountNetting gobody
  | Call_ApplySubaccountTransfer gobody
  | Call_GetSubaccountTransfers GetSubaccountTransfersParams
  | Call_GetPortfolioRestingOrderTotalValue
  | Call_GetTargetBalanceAllocation
  | Call_SetTargetBalanceAllocation gobody
  | Call_IntraExchangeInstanceTransfer gobody
  | Call_GetIntraExchangeInstanceTransfers GetIntraExchangeInstanceTransfersParams
  | Call_GetIntraExchangeInstanceTransfer string
  | Call_GetAPIKeys
  | Call_CreateAPIKey gobody
  | Call_GenerateAPIKey gobody
  | Call_DeleteAPIKey string
  | Call_GetAccountAPILimits
  | Call_GetAccountEndpointCosts
  | Call_UpgradeAPIUsageLevel
  | Call_GetAccountAPIUsageLevelVolumeProgress

primrec account_endpoint :: "account_op \<Rightarrow> endpoint" where
  "account_endpoint Call_GetBalance = GetBalance"
| "account_endpoint (Call_GetPositions params) = GetPositions params"
| "account_endpoint (Call_GetFills params) = GetFills params"
| "account_endpoint (Call_GetSettlements params) = GetSettlements params"
| "account_endpoint (Call_GetDeposits params) = GetDeposits params"
| "account_endpoint (Call_GetWithdrawals params) = GetWithdrawals params"
| "account_endpoint Call_CreateSubaccount = CreateSubaccount"
| "account_endpoint Call_GetSubaccountBalances = GetSubaccountBalances"
| "account_endpoint Call_GetSubaccountNetting = GetSubaccountNetting"
| "account_endpoint (Call_UpdateSubaccountNetting req) = UpdateSubaccountNetting req"
| "account_endpoint (Call_ApplySubaccountTransfer req) = ApplySubaccountTransfer req"
| "account_endpoint (Call_GetSubaccountTransfers params) = GetSubaccountTransfers params"
| "account_endpoint Call_GetPortfolioRestingOrderTotalValue = GetPortfolioRestingOrderTotalValue"
| "account_endpoint Call_GetTargetBalanceAllocation = GetTargetBalanceAllocation"
| "account_endpoint (Call_SetTargetBalanceAllocation req) = SetTargetBalanceAllocation req"
| "account_endpoint (Call_IntraExchangeInstanceTransfer req) = IntraExchangeInstanceTransfer req"
| "account_endpoint (Call_GetIntraExchangeInstanceTransfers params) = GetIntraExchangeInstanceTransfers params"
| "account_endpoint (Call_GetIntraExchangeInstanceTransfer transferID) = GetIntraExchangeInstanceTransfer transferID"
| "account_endpoint Call_GetAPIKeys = GetAPIKeys"
| "account_endpoint (Call_CreateAPIKey req) = CreateAPIKey req"
| "account_endpoint (Call_GenerateAPIKey req) = GenerateAPIKey req"
| "account_endpoint (Call_DeleteAPIKey apiKey) = DeleteAPIKey apiKey"
| "account_endpoint Call_GetAccountAPILimits = Decodes ''GetAccountApiLimitsResponse'' GetAccountAPILimits"
| "account_endpoint Call_GetAccountEndpointCosts = Decodes ''GetAccountEndpointCostsResponse'' GetAccountEndpointCosts"
| "account_endpoint Call_UpgradeAPIUsageLevel = ErrorOnly UpgradeAPIUsageLevel"
| "account_endpoint Call_GetAccountAPIUsageLevelVolumeProgress = Decodes ''GetAccountApiUsageLevelVolumeProgressResponse'' GetAccountAPIUsageLevelVolumeProgress"

text \<open>The documented routes: the verb and the path below \<open>/trade-api/v2\<close> that each method's
  comment gives, and the values of its path parameters.\<close>

definition route_GetBalance :: api_route where "route_GetBalance = (''GET'', [''portfolio'', ''balance''])"
definition route_GetPositions :: api_route where "route_GetPositions = (''GET'', [''portfolio'', ''positions''])"
definition route_GetFills :: api_route where "route_GetFills = (''GET'', [''portfolio'', ''fills''])"
definition route_GetSettlements :: api_route where "route_GetSettlements = (''GET'', [''portfolio'', ''settlements''])"
definition route_GetDeposits :: api_route where "route_GetDeposits = (''GET'', [''portfolio'', ''deposits''])"
definition route_GetWithdrawals :: api_route where "route_GetWithdrawals = (''GET'', [''portfolio'', ''withdrawals''])"
definition route_CreateSubaccount :: api_route where "route_CreateSubaccount = (''POST'', [''portfolio'', ''subaccounts''])"
definition route_GetSubaccountBalances :: api_route where "route_GetSubaccountBalances = (''GET'', [''portfolio'', ''subaccounts'', ''balances''])"
definition route_GetSubaccountNetting :: api_route where "route_GetSubaccountNetting = (''GET'', [''portfolio'', ''subaccounts'', ''netting''])"
definition route_UpdateSubaccountNetting :: api_route where "route_UpdateSubaccountNetting = (''PUT'', [''portfolio'', ''subaccounts'', ''netting''])"
definition route_ApplySubaccountTransfer :: api_route where "route_ApplySubaccountTransfer = (''POST'', [''portfolio'', ''subaccounts'', ''transfer''])"
definition route_GetSubaccountTransfers :: api_route where "route_GetSubaccountTransfers = (''GET'', [''portfolio'', ''subaccounts'', ''transfers''])"
definition route_GetPortfolioRestingOrderTotalValue :: api_route where "route_GetPortfolioRestingOrderTotalValue = (''GET'', [''portfolio'', ''summary'', ''total_resting_order_value''])"
definition route_GetTargetBalanceAllocation :: api_route where "route_GetTargetBalanceAllocation = (''GET'', [''portfolio'', ''target_balance_allocation''])"
definition route_SetTargetBalanceAllocation :: api_route where "route_SetTargetBalanceAllocation = (''POST'', [''portfolio'', ''target_balance_allocation''])"
definition route_IntraExchangeInstanceTransfer :: api_route where "route_IntraExchangeInstanceTransfer = (''POST'', [''portfolio'', ''intra_exchange_instance_transfer''])"
definition route_GetIntraExchangeInstanceTransfers :: api_route where "route_GetIntraExchangeInstanceTransfers = (''GET'', [''portfolio'', ''intra_exchange_instance_transfers''])"
definition route_GetIntraExchangeInstanceTransfer :: api_route where "route_GetIntraExchangeInstanceTransfer = (''GET'', [''portfolio'', ''intra_exchange_instance_transfers'', ''{transfer_id}''])"
definition route_GetAPIKeys :: api_route where "route_GetAPIKeys = (''GET'', [''api_keys''])"
definition route_CreateAPIKey :: api_route where "route_CreateAPIKey = (''POST'', [''api_keys''])"
definition route_GenerateAPIKey :: api_route where "route_GenerateAPIKey = (''POST'', [''api_keys'', ''generate''])"
definition route_DeleteAPIKey :: api_route where "route_DeleteAPIKey = (''DELETE'', [''api_keys'', ''{api_key}''])"
definition route_GetAccountAPILimits :: api_route where "route_GetAccountAPILimits = (''GET'', [''account'', ''limits''])"
definition route_GetAccountEndpointCosts :: api_route where "route_GetAccountEndpointCosts = (''GET'', [''account'', ''endpoint_costs''])"
definition route_UpgradeAPIUsageLevel :: api_route where "route_UpgradeAPIUsageLevel = (''POST'', [''account'', ''api_usage_level'', ''upgrade''])"
definition route_GetAccountAPIUsageLevelVolumeProgress :: api_route where "route_GetAccountAPIUsageLevelVolumeProgress = (''GET'', [''account'', ''api_usage_level'', ''volume_progress''])"

lemmas account_route_defs =
  route_GetBalance_def
  route_GetPositions_def
  route_GetFills_def
  route_GetSettlements_def
  route_GetDeposits_def
  route_GetWithdrawals_def
  route_CreateSubaccount_def
  route_GetSubaccountBalances_def
  route_GetSubaccountNetting_def
  route_UpdateSubaccountNetting_def
  route_ApplySubaccountTransfer_def
  route_GetSubaccountTransfers_def
  route_GetPortfolioRestingOrderTotalValue_def
  route_GetTargetBalanceAllocation_def
  route_SetTargetBalanceAllocation_def
  route_IntraExchangeInstanceTransfer_def
  route_GetIntraExchangeInstanceTransfers_def
  route_GetIntraExchangeInstanceTransfer_def
  route_GetAPIKeys_def
  route_CreateAPIKey_def
  route_GenerateAPIKey_def
  route_DeleteAPIKey_def
  route_GetAccountAPILimits_def
  route_GetAccountEndpointCosts_def
  route_UpgradeAPIUsageLevel_def
  route_GetAccountAPIUsageLevelVolumeProgress_def

primrec account_route :: "account_op \<Rightarrow> api_route" where
  "account_route Call_GetBalance = route_GetBalance"
| "account_route (Call_GetPositions params) = route_GetPositions"
| "account_route (Call_GetFills params) = route_GetFills"
| "account_route (Call_GetSettlements params) = route_GetSettlements"
| "account_route (Call_GetDeposits params) = route_GetDeposits"
| "account_route (Call_GetWithdrawals params) = route_GetWithdrawals"
| "account_route Call_CreateSubaccount = route_CreateSubaccount"
| "account_route Call_GetSubaccountBalances = route_GetSubaccountBalances"
| "account_route Call_GetSubaccountNetting = route_GetSubaccountNetting"
| "account_route (Call_UpdateSubaccountNetting req) = route_UpdateSubaccountNetting"
| "account_route (Call_ApplySubaccountTransfer req) = route_ApplySubaccountTransfer"
| "account_route (Call_GetSubaccountTransfers params) = route_GetSubaccountTransfers"
| "account_route Call_GetPortfolioRestingOrderTotalValue = route_GetPortfolioRestingOrderTotalValue"
| "account_route Call_GetTargetBalanceAllocation = route_GetTargetBalanceAllocation"
| "account_route (Call_SetTargetBalanceAllocation req) = route_SetTargetBalanceAllocation"
| "account_route (Call_IntraExchangeInstanceTransfer req) = route_IntraExchangeInstanceTransfer"
| "account_route (Call_GetIntraExchangeInstanceTransfers params) = route_GetIntraExchangeInstanceTransfers"
| "account_route (Call_GetIntraExchangeInstanceTransfer transferID) = route_GetIntraExchangeInstanceTransfer"
| "account_route Call_GetAPIKeys = route_GetAPIKeys"
| "account_route (Call_CreateAPIKey req) = route_CreateAPIKey"
| "account_route (Call_GenerateAPIKey req) = route_GenerateAPIKey"
| "account_route (Call_DeleteAPIKey apiKey) = route_DeleteAPIKey"
| "account_route Call_GetAccountAPILimits = route_GetAccountAPILimits"
| "account_route Call_GetAccountEndpointCosts = route_GetAccountEndpointCosts"
| "account_route Call_UpgradeAPIUsageLevel = route_UpgradeAPIUsageLevel"
| "account_route Call_GetAccountAPIUsageLevelVolumeProgress = route_GetAccountAPIUsageLevelVolumeProgress"

primrec account_args :: "account_op \<Rightarrow> string list" where
  "account_args Call_GetBalance = []"
| "account_args (Call_GetPositions params) = []"
| "account_args (Call_GetFills params) = []"
| "account_args (Call_GetSettlements params) = []"
| "account_args (Call_GetDeposits params) = []"
| "account_args (Call_GetWithdrawals params) = []"
| "account_args Call_CreateSubaccount = []"
| "account_args Call_GetSubaccountBalances = []"
| "account_args Call_GetSubaccountNetting = []"
| "account_args (Call_UpdateSubaccountNetting req) = []"
| "account_args (Call_ApplySubaccountTransfer req) = []"
| "account_args (Call_GetSubaccountTransfers params) = []"
| "account_args Call_GetPortfolioRestingOrderTotalValue = []"
| "account_args Call_GetTargetBalanceAllocation = []"
| "account_args (Call_SetTargetBalanceAllocation req) = []"
| "account_args (Call_IntraExchangeInstanceTransfer req) = []"
| "account_args (Call_GetIntraExchangeInstanceTransfers params) = []"
| "account_args (Call_GetIntraExchangeInstanceTransfer transferID) = [transferID]"
| "account_args Call_GetAPIKeys = []"
| "account_args (Call_CreateAPIKey req) = []"
| "account_args (Call_GenerateAPIKey req) = []"
| "account_args (Call_DeleteAPIKey apiKey) = [apiKey]"
| "account_args Call_GetAccountAPILimits = []"
| "account_args Call_GetAccountEndpointCosts = []"
| "account_args Call_UpgradeAPIUsageLevel = []"
| "account_args Call_GetAccountAPIUsageLevelVolumeProgress = []"

definition account_routes :: "api_route list" where
  "account_routes =
     [route_GetBalance,
      route_GetPositions,
      route_GetFills,
      route_GetSettlements,
      route_GetDeposits,
      route_GetWithdrawals,
      route_CreateSubaccount,
      route_GetSubaccountBalances,
      route_GetSubaccountNetting,
      route_UpdateSubaccountNetting,
      route_ApplySubaccountTransfer,
      route_GetSubaccountTransfers,
      route_GetPortfolioRestingOrderTotalValue,
      route_GetTargetBalanceAllocation,
      route_SetTargetBalanceAllocation,
      route_IntraExchangeInstanceTransfer,
      route_GetIntraExchangeInstanceTransfers,
      route_GetIntraExchangeInstanceTransfer,
      route_GetAPIKeys,
      route_CreateAPIKey,
      route_GenerateAPIKey,
      route_DeleteAPIKey,
      route_GetAccountAPILimits,
      route_GetAccountEndpointCosts,
      route_UpgradeAPIUsageLevel,
      route_GetAccountAPIUsageLevelVolumeProgress]"

lemmas account_endpoint_defs =
  GetBalance_def
  GetPositions_def
  GetFills_def
  GetSettlements_def
  GetDeposits_def
  GetWithdrawals_def
  CreateSubaccount_def
  GetSubaccountBalances_def
  GetSubaccountNetting_def
  UpdateSubaccountNetting_def
  ApplySubaccountTransfer_def
  GetSubaccountTransfers_def
  GetPortfolioRestingOrderTotalValue_def
  GetTargetBalanceAllocation_def
  SetTargetBalanceAllocation_def
  IntraExchangeInstanceTransfer_def
  GetIntraExchangeInstanceTransfers_def
  GetIntraExchangeInstanceTransfer_def
  GetAPIKeys_def
  CreateAPIKey_def
  GenerateAPIKey_def
  DeleteAPIKey_def
  GetAccountAPILimits_def
  GetAccountEndpointCosts_def
  UpgradeAPIUsageLevel_def
  GetAccountAPIUsageLevelVolumeProgress_def

lemmas account_toMap_defs =
  GetPositionsParams_toMap_def
  GetFillsParams_toMap_def
  GetSettlementsParams_toMap_def
  GetDepositsParams_toMap_def
  GetWithdrawalsParams_toMap_def
  GetSubaccountTransfersParams_toMap_def
  GetIntraExchangeInstanceTransfersParams_toMap_def

end
