(* ===== verification/EndpointOps.thy ===== *)
theory EndpointOps
  imports CostRoutes EndpointsMarket EndpointsTrading EndpointsAccount
begin

text \<open>
  All the calls of the SDK as one type, with their documented routes: every call's verb and
  path are those of its route, its parameters are well formed, its costs are on the side of
  its verb, and the table of all routes is unambiguous (evaluated by the kernel).
\<close>

section \<open>All calls\<close>

datatype api_op =
    MarketOp market_op
  | TradingOp trading_op
  | AccountOp account_op

primrec op_endpoint :: "api_op \<Rightarrow> endpoint" where
  "op_endpoint (MarketOp m) = market_endpoint m"
| "op_endpoint (TradingOp t) = trading_endpoint t"
| "op_endpoint (AccountOp a) = account_endpoint a"

primrec op_route :: "api_op \<Rightarrow> api_route" where
  "op_route (MarketOp m) = market_route m"
| "op_route (TradingOp t) = trading_route t"
| "op_route (AccountOp a) = account_route a"

primrec op_args :: "api_op \<Rightarrow> string list" where
  "op_args (MarketOp m) = market_args m"
| "op_args (TradingOp t) = trading_args t"
| "op_args (AccountOp a) = account_args a"

definition op_call :: "api_op \<Rightarrow> api_call" where
  "op_call op = endpoint_call (op_endpoint op)"

definition op_path :: "api_op \<Rightarrow> string" where
  "op_path op = path_of (fill (snd (op_route op)) (op_args op))"

definition documented_routes :: "api_route list" where
  "documented_routes = market_routes @ trading_routes @ account_routes"

definition batch_orders :: "api_op \<Rightarrow> goint option" where
  "batch_orders op = (case op of
      TradingOp (Call_BatchCreateOrdersV2 req) \<Rightarrow> Some (len_orders (BatchCreateOrders_Orders req))
    | TradingOp (Call_BatchCancelOrdersV2 req) \<Rightarrow> Some (len_orders (BatchCancelOrders_Orders req))
    | _ \<Rightarrow> None)"

lemmas op_defs = op_call_def op_path_def batch_orders_def call_defs path_of_def api_root_def path_defs

section \<open>Every call against its documented route\<close>

lemma market_conforms:
  "ac_method (op_call (MarketOp m)) = fst (market_route m)"
  "ac_path (op_call (MarketOp m)) = op_path (MarketOp m)"
  by (cases m; simp add: op_defs market_endpoint_defs market_route_defs placeholder_defs)+

lemma trading_conforms:
  "ac_method (op_call (TradingOp t)) = fst (trading_route t)"
  "ac_path (op_call (TradingOp t)) = op_path (TradingOp t)"
  by (cases t; simp add: op_defs trading_endpoint_defs trading_route_defs placeholder_defs rfqQuotePath_def)+

lemma account_conforms:
  "ac_method (op_call (AccountOp a)) = fst (account_route a)"
  "ac_path (op_call (AccountOp a)) = op_path (AccountOp a)"
  by (cases a; simp add: op_defs account_endpoint_defs account_route_defs placeholder_defs)+

lemma op_method: "ac_method (op_call op) = fst (op_route op)"
  by (cases op) (simp_all add: market_conforms trading_conforms account_conforms)

lemma op_path: "ac_path (op_call op) = op_path op"
  by (cases op) (simp_all only: market_conforms trading_conforms account_conforms)

lemma market_routed: "market_route m \<in> set market_routes"
  by (cases m) (simp_all add: market_routes_def)

lemma trading_routed: "trading_route t \<in> set trading_routes"
  by (cases t) (simp_all add: trading_routes_def)

lemma account_routed: "account_route a \<in> set account_routes"
  by (cases a) (simp_all add: account_routes_def)

lemma op_routed: "op_route op \<in> set documented_routes"
  by (cases op) (simp_all add: documented_routes_def market_routed trading_routed account_routed)

section \<open>Costs, bodies and parameters\<close>

lemma query_ok_query: "\<forall>f\<in>set fs. \<forall>q. query_ok q \<longrightarrow> query_ok (f q) \<Longrightarrow> query_ok (query fs)"
proof -
  assume fs: "\<forall>f\<in>set fs. \<forall>q. query_ok q \<longrightarrow> query_ok (f q)"
  have "query_ok (foldl (\<lambda>q f. f q) q fs)" if "query_ok q" for q
    using that fs by (induction fs arbitrary: q) simp_all
  then show ?thesis by (simp add: query_def Build_def query_ok_NewQuery)
qed

lemma query_ok_nil [simp]: "query_ok []"
  by (simp add: query_ok_def)

lemmas toMap_ok_intros = query_ok_query ballI allI impI query_intros

lemma market_params: "query_ok (ac_params (op_call (MarketOp m)))"
  by (cases m; simp add: op_call_def call_defs market_endpoint_defs market_toMap_defs query_ok_query query_intros)

lemma trading_params: "query_ok (ac_params (op_call (TradingOp t)))"
  by (cases t; simp add: op_call_def call_defs trading_endpoint_defs trading_toMap_defs query_ok_query query_intros)

lemma account_params: "query_ok (ac_params (op_call (AccountOp a)))"
  by (cases a; simp add: op_call_def call_defs account_endpoint_defs account_toMap_defs query_ok_query query_intros)

lemma op_params: "query_ok (ac_params (op_call op))"
  by (cases op) (simp_all add: market_params trading_params account_params)

text \<open>Which bucket a call debits, and how often.\<close>

definition sided :: "api_call \<Rightarrow> bool" where
  "sided a \<longleftrightarrow> (if ac_method a = ''GET''
     then 0 < ac_readCost a \<and> ac_writeCost a = 0 \<and> ac_body a = None
     else ac_method a \<in> set [''POST'', ''PUT'', ''DELETE''] \<and> ac_readCost a = 0 \<and> 0 < ac_writeCost a)"

lemma market_sided: "sided (op_call (MarketOp m))"
  by (cases m; simp add: sided_def op_call_def call_defs market_endpoint_defs)

lemma trading_sided: "sided (op_call (TradingOp t))"
  by (cases t; simp add: sided_def op_call_def call_defs trading_endpoint_defs costCreateOrder_def costCancelOrder_def)

lemma account_sided: "sided (op_call (AccountOp a))"
  by (cases a; simp add: sided_def op_call_def call_defs account_endpoint_defs)

lemma op_sided: "sided (op_call op)"
  by (cases op) (simp_all add: market_sided trading_sided account_sided)

lemma op_units: "ac_units (op_call op) = (case batch_orders op of Some n \<Rightarrow> n | None \<Rightarrow> 1)"
proof (cases op)
  case (MarketOp m)
  then show ?thesis by (cases m; simp add: op_call_def batch_orders_def call_defs market_endpoint_defs)
next
  case (TradingOp t)
  then show ?thesis by (cases t; simp add: op_call_def batch_orders_def call_defs trading_endpoint_defs)
next
  case (AccountOp a)
  then show ?thesis by (cases a; simp add: op_call_def batch_orders_def call_defs account_endpoint_defs)
qed

section \<open>The documented routes as a table\<close>

lemma documented_unambiguous: "unambiguous documented_routes"
proof (rule separated_unambiguous)
  show "separated (map route_code documented_routes)" by code_simp
qed

lemma documented_well_formed: "well_formed_routes documented_routes"
  by code_simp

lemma market_holes: "length (market_args m) = holes (snd (market_route m))"
  by (cases m; simp add: market_route_defs holes_def placeholder_defs)

lemma trading_holes: "length (trading_args t) = holes (snd (trading_route t))"
  by (cases t; simp add: trading_route_defs holes_def placeholder_defs)

lemma account_holes: "length (account_args a) = holes (snd (account_route a))"
  by (cases a; simp add: account_route_defs holes_def placeholder_defs)

lemma op_holes: "length (op_args op) = holes (snd (op_route op))"
  by (cases op) (simp_all add: market_holes trading_holes account_holes)

end
