(* ===== verification/EndpointProps.thy ===== *)
theory EndpointProps
  imports HttpProps EndpointOps
begin

text \<open>
  The claims about the endpoint methods: what goes over the wire, what is debited, and which
  entry of the server's cost table a call is billed by.
\<close>

section \<open>Running a call\<close>

lemma run_endpoint_do:
  assumes "run_endpoint decs env run c e = (res, reqs, c')"
  shows "\<exists>o'. do_request env run c (ac_method (endpoint_call e)) (ac_path (endpoint_call e))
     (ac_readCost (endpoint_call e)) (ac_writeCost (endpoint_call e)) (ac_units (endpoint_call e))
     (ac_body (endpoint_call e)) (ac_params (endpoint_call e)) = (o', reqs, c')"
  using assms
  by (cases e) (auto simp: run_endpoint_def doJSON_call_def doJSON_def do_call_def
      split: prod.splits outcome.splits sum.splits)

text \<open>C22: What goes over the wire: every request that any of the SDK's calls sends has the verb
  of its documented operation and, as URL, the base URL, the documented path with the
  arguments put in for its parameters, and a query in which no parameter is empty or twice;
  a GET has no body.\<close>

theorem endpoint_requests:
  assumes "run_endpoint decs env run c (op_endpoint op) = (res, reqs, c')" and "q \<in> set reqs"
  shows "rq_method q = fst (op_route op)
    \<and> rq_url q = buildURL (baseURL c) (op_path op) (ac_params (op_call op))
    \<and> query_ok (ac_params (op_call op))
    \<and> (fst (op_route op) = ''GET'' \<longrightarrow> rq_body q = None)"
proof -
  let ?a = "op_call op"
  obtain o' where d: "do_request env run c (ac_method ?a) (ac_path ?a) (ac_readCost ?a) (ac_writeCost ?a)
      (ac_units ?a) (ac_body ?a) (ac_params ?a) = (o', reqs, c')"
    using run_endpoint_do [OF assms(1)] by (auto simp: op_call_def)
  have "reqs \<noteq> []" using assms(2) by auto
  obtain bb where bb: "bb = None \<longleftrightarrow> ac_body ?a = None"
    "do_loop env c (ac_method ?a) (ac_path ?a) (buildURL (baseURL c) (ac_path ?a) (ac_params ?a)) bb 0
       (hr_attempts run) = (o', reqs)"
    using do_request_cases [OF d] \<open>reqs \<noteq> []\<close>
    by (elim disjE exE conjE) (erule (1) notE, erule (1) notE, rule that, assumption+)
  have "rq_method q = ac_method ?a \<and> rq_url q = buildURL (baseURL c) (ac_path ?a) (ac_params ?a)
      \<and> rq_body q = bb"
    by (rule do_loop_same [of q env c _ "ac_path ?a" _ bb 0 "hr_attempts run"]) (simp add: bb(2) assms(2))
  moreover have "fst (op_route op) = ''GET'' \<longrightarrow> bb = None"
    using op_sided [of op] bb(1) by (simp add: sided_def op_method)
  ultimately show ?thesis using op_params [of op] by (simp add: op_method op_path)
qed

lemma demo_get:
  "\<exists>q c'. do_request demo_env \<lparr>hr_rounds = one_round, hr_attempts = [answer 200 body]\<rparr>
      demo_client ''GET'' p 10 0 1 None ps = (Returned (Inr body), [q], c')"
proof -
  obtain q where "buildAuthRequest demo_env 7 demo_client ''GET'' p (buildURL (baseURL demo_client) p ps) None = Inr q"
    using demo_build by blast
  then show ?thesis
    by (simp add: do_request_def demo_costs demo_acquire answer_def executeRequest_def finish_response_def)
qed

lemma endpoint_requests_witness:
  "\<exists>res c' q. run_endpoint (\<lambda>T. (\<lambda>z j. (z, False), ())) demo_env
       \<lparr>hr_rounds = one_round, hr_attempts = [answer 200 ''{}'']\<rparr> demo_client
       (op_endpoint (TradingOp (Call_GetOrder ''a1''))) = (res, [q], c')
     \<and> rq_method q = ''GET'' \<and> rq_url q = ''https://h/trade-api/v2/portfolio/orders/a1'' \<and> rq_body q = None"
proof -
  let ?run = "\<lparr>hr_rounds = one_round, hr_attempts = [answer 200 ''{}'']\<rparr>"
  let ?op = "TradingOp (Call_GetOrder ''a1'')"
  obtain res reqs c' where r: "run_endpoint (\<lambda>T. (\<lambda>z j. (z, False), ())) demo_env ?run demo_client
       (op_endpoint ?op) = (res, reqs, c')" by (metis prod_cases3)
  obtain q c2 where "do_request demo_env ?run demo_client ''GET'' (ac_path (op_call ?op)) 10 0 1 None []
      = (Returned (Inr ''{}''), [q], c2)" using demo_get by blast
  then have "reqs = [q]" using run_endpoint_do [OF r]
    by (auto simp: op_call_def GetOrder_def getJSON_call_def)
  moreover have "ac_params (op_call ?op) = []" by (simp add: op_call_def GetOrder_def getJSON_call_def)
  moreover have "op_path ?op = ''/trade-api/v2/portfolio/orders/a1''" "fst (op_route ?op) = ''GET''"
    by (simp_all add: op_path_def path_of_def api_root_def route_GetOrder_def placeholder_defs)
  ultimately show ?thesis
    using endpoint_requests [OF r, of q] r by (simp add: buildURL_def demo_client_def)
qed

text \<open>C23: Every call debits the bucket its verb stands for, whatever cost table is loaded: a GET
  takes read tokens only, every other verb write tokens only. Only the two batch calls are
  billed in units, one for each order.\<close>

theorem endpoint_debits:
  "(if fst (op_route op) = ''GET''
      then snd (resolveCosts c (ac_method (op_call op)) (ac_path (op_call op)) (ac_readCost (op_call op))
                  (ac_writeCost (op_call op)) (ac_units (op_call op))) = 0
      else fst (resolveCosts c (ac_method (op_call op)) (ac_path (op_call op)) (ac_readCost (op_call op))
                  (ac_writeCost (op_call op)) (ac_units (op_call op))) = 0)
   \<and> sided (op_call op)
   \<and> ac_units (op_call op) = (case batch_orders op of Some n \<Rightarrow> n | None \<Rightarrow> 1)"
proof -
  have z: "fmul 0 x = 0" for x by (simp add: fmul_def)
  show ?thesis
    using op_sided [of op] op_method [of op] op_units [of op]
    by (auto simp: sided_def resolveCosts_def Let_def z)
qed

text \<open>With a table of documented operations loaded, in any order and any placeholder
  syntax, every call is billed by the entry of its own operation, times its units, although
  entries such as \<open>/events/{event_ticker}\<close> also match requests of other operations. The
  arguments must be path segments that are no fixed segment of the API.\<close>

lemma endpoint_billed_by_own_entry:
  assumes "spelling sp" "set rs \<subseteq> set documented_routes" "op_route op \<in> set rs"
    and "good_args documented_routes (op_args op)"
    and "costRoutes c = Some (sort_routes (map (cost_entry sp cf) rs))"
  shows "resolveCosts c (ac_method (op_call op)) (ac_path (op_call op)) (ac_readCost (op_call op))
           (ac_writeCost (op_call op)) (ac_units (op_call op))
    = (let t = fmul (cf (op_route op)) (f64 (of_int (max 1 (ac_units (op_call op)))))
       in if fst (op_route op) = ''GET'' then (t, 0) else (0, t))"
proof -
  have "client_lookupCost c (ac_method (op_call op)) (ac_path (op_call op)) = Some (cf (op_route op))"
    using billed_by_own_entry [OF documented_unambiguous documented_well_formed assms(1-3) op_holes assms(4)]
    by (simp add: client_lookupCost_def assms(5) op_method op_path op_path_def)
  moreover have "(if n < 1 then 1 else n) = max 1 n" for n :: goint by simp
  ultimately show ?thesis by (simp add: resolveCosts_def Let_def assms(5) op_method)
qed

lemma colon_spelling: "spelling (\<lambda>s. if isPathPlaceholder s then '':id'' else s)"
  by (simp add: spelling_def placeholder_defs isTrailingWildcard_def plain_segment_def)

lemma endpoint_billed_by_own_entry_witness:
  "let op = TradingOp (Call_BatchCancelOrdersV2 \<lparr>BatchCancelOrders_Orders = Some [JsonBody JNull, JsonBody JNull]\<rparr>);
       rs = [route_CancelOrderV2, route_BatchCancelOrdersV2];
       c = demo_client\<lparr>costRoutes := Some (sort_routes (map (cost_entry
             (\<lambda>s. if isPathPlaceholder s then '':id'' else s)
             (\<lambda>r. if r = route_CancelOrderV2 then 2 else 3)) rs))\<rparr>
   in resolveCosts c (ac_method (op_call op)) (ac_path (op_call op)) (ac_readCost (op_call op))
        (ac_writeCost (op_call op)) (ac_units (op_call op)) = (0, 6)"
proof -
  let ?op = "TradingOp (Call_BatchCancelOrdersV2 \<lparr>BatchCancelOrders_Orders = Some [JsonBody JNull, JsonBody JNull]\<rparr>)"
  have r: "set [route_CancelOrderV2, route_BatchCancelOrdersV2] \<subseteq> set documented_routes"
    "op_route ?op \<in> set [route_CancelOrderV2, route_BatchCancelOrdersV2]"
    by (simp_all add: documented_routes_def trading_routes_def)
  have g: "good_args documented_routes (op_args ?op)" by (simp add: good_args_def)
  have u: "ac_units (op_call ?op) = 2" by (simp add: op_units batch_orders_def len_orders_def)
  have ne: "route_BatchCancelOrdersV2 \<noteq> route_CancelOrderV2"
    by (simp add: route_BatchCancelOrdersV2_def route_CancelOrderV2_def)
  let ?cf = "\<lambda>r. if r = route_CancelOrderV2 then 2 else 3 :: gofloat"
  let ?c = "demo_client\<lparr>costRoutes := Some (sort_routes (map (cost_entry
      (\<lambda>s. if isPathPlaceholder s then '':id'' else s) ?cf) [route_CancelOrderV2, route_BatchCancelOrdersV2]))\<rparr>"
  have "costRoutes ?c = Some (sort_routes (map (cost_entry
      (\<lambda>s. if isPathPlaceholder s then '':id'' else s) ?cf) [route_CancelOrderV2, route_BatchCancelOrdersV2]))"
    by simp
  from endpoint_billed_by_own_entry [OF colon_spelling r g this]
  have "resolveCosts ?c (ac_method (op_call ?op)) (ac_path (op_call ?op)) (ac_readCost (op_call ?op))
      (ac_writeCost (op_call ?op)) (ac_units (op_call ?op)) = (0, fmul 3 (f64 (of_int (max 1 2))))"
    using ne by (simp only: Let_def u) (simp add: route_BatchCancelOrdersV2_def)
  then show ?thesis unfolding Let_def by (simp add: fmul_def)
qed

text \<open>An entry that the server leaves out because it has the default cost is billed by a
  wider entry that is listed: here a batch cancel at the cost of a single one.\<close>

lemma omitted_entry_shadowed:
  "lookupCost (sort_routes [newCostRoute ''DELETE'' ''/portfolio/events/orders/:order_id'' 2])
     (ac_method (op_call (TradingOp (Call_BatchCancelOrdersV2 req))))
     (ac_path (op_call (TradingOp (Call_BatchCancelOrdersV2 req)))) = Some 2"
proof -
  have "ac_method (op_call (TradingOp (Call_BatchCancelOrdersV2 req))) = ''DELETE''"
    "ac_path (op_call (TradingOp (Call_BatchCancelOrdersV2 req))) = ''/trade-api/v2/portfolio/events/orders/batched''"
    by (simp_all add: op_method op_path op_path_def path_of_def api_root_def
        route_BatchCancelOrdersV2_def placeholder_defs)
  moreover have "lookupCost (sort_routes [newCostRoute ''DELETE'' ''/portfolio/events/orders/:order_id'' 2])
     ''DELETE'' ''/trade-api/v2/portfolio/events/orders/batched'' = Some 2" by code_simp
  ultimately show ?thesis by simp
qed

end
