(* ===== verification/GenSchema.thy ===== *)
theory GenSchema
  imports GoStrings
begin

text \<open>
  The data of \<open>tools/generate_types/main.go\<close>, the generator of \<open>types_generated.go\<close>: the
  OpenAPI specification as the YAML decoder leaves it, the tables that steer the generator,
  and the functions from names and schemas to Go names and types. A nil pointer in a map or
  slice of schemas is \<open>None\<close>; reading through one panics, and a function that can do so returns
  \<open>None\<close> for the panic.
\<close>

section \<open>The specification\<close>

text \<open>
  \<open>AdditionalProperties\<close> has type any: \<open>Some s\<close> if its dynamic type is \<open>*Schema\<close>, \<open>None\<close> for any
  other value. \<open>Enum\<close> holds the values as \<open>fmt.Sprint\<close> shows them.
\<close>

datatype Schema = Schema
  (sc_Type: string)
  (sc_Format: string)
  (sc_Description: string)
  (sc_Enum: "string list")
  (sc_Properties: "(string \<times> Schema option) list")
  (sc_Required: "string list")
  (sc_Items: "Schema option")
  (sc_Ref: string)
  (sc_AllOf: "Schema option list")
  (sc_Nullable: bool)
  (sc_Deprecated: bool)
  (sc_AdditionalProperties: "Schema option option")

type_synonym schemas = "Schema option smap"

record MediaType =
  mt_Schema :: "Schema option"

record RequestBody =
  rb_Content :: "MediaType option smap"

record ResponseDef =
  rd_Content :: "MediaType option smap"

record Operation =
  op_OperationID :: string
  op_Summary :: string
  op_Description :: string
  op_RequestBody :: "RequestBody option"
  op_Responses :: "ResponseDef option smap"

record Spec =
  spec_Schemas :: schemas
  spec_Paths :: "Operation option smap smap"

section \<open>Tables\<close>

definition skipPrefixes :: "string list" where
  "skipPrefixes = []"

definition typeAliases :: "string smap" where
  "typeAliases = [(''FixedPointDollars'', ''string''), (''FixedPointCount'', ''string'')]"

definition meaningfulZeroOverrides :: "(string \<times> string) list" where
  "meaningfulZeroOverrides =
     [(''CreateOrderV2Request'', ''exchange_index''),
      (''AmendOrderV2Request'', ''exchange_index''),
      (''DecreaseOrderV2Request'', ''exchange_index'')]"

definition nullableOverrides :: "(string \<times> string) list" where
  "nullableOverrides =
     [(''Series'', ''contract_url''), (''Series'', ''contract_terms_url'')]"

definition fieldTypeOverrides :: "((string \<times> string) \<times> string) list" where
  "fieldTypeOverrides =
     [((''CreateOrderRequest'', ''side''), ''Side''),
      ((''AmendOrderRequest'', ''side''), ''Side''),
      ((''Order'', ''side''), ''Side''),
      ((''Trade'', ''taker_side''), ''Side''),
      ((''Fill'', ''side''), ''Side''),
      ((''MveSelectedLeg'', ''side''), ''Side''),
      ((''CreateOrderRequest'', ''action''), ''Action''),
      ((''AmendOrderRequest'', ''action''), ''Action''),
      ((''Order'', ''action''), ''Action''),
      ((''Fill'', ''action''), ''Action''),
      ((''Order'', ''type''), ''OrderType''),
      ((''CreateOrderV2Request'', ''time_in_force''), ''TimeInForce''),
      ((''Market'', ''status''), ''MarketStatus''),
      ((''Market'', ''result''), ''MarketResult''),
      ((''Market'', ''market_type''), ''MarketType''),
      ((''Series'', ''fee_type''), ''FeeType''),
      ((''SeriesFeeChange'', ''fee_type''), ''FeeType''),
      ((''EventData'', ''collateral_return_type''), ''CollateralReturnType''),
      ((''AcceptQuoteRequest'', ''accepted_side''), ''Side''),
      ((''Quote'', ''accepted_side''), ''Side'')]"

section \<open>Names\<close>

definition shouldSkip :: "string \<Rightarrow> bool" where
  "shouldSkip name = list_ex (\<lambda>prefix. HasPrefix name prefix) skipPrefixes"

definition isParameterSchema :: "string \<Rightarrow> bool" where
  "isParameterSchema name = list_ex (\<lambda>s. HasSuffix name s) [''Query'', ''Path'']"

definition sortedKeys :: "(string \<times> 'v) list \<Rightarrow> string list" where
  "sortedKeys m = sort (map fst m)"

definition refToName :: "string \<Rightarrow> string" where
  "refToName ref = (let parts = split_on (CHR ''/'') ref in parts ! (length parts - 1))"

text \<open>\<open>strings.ToUpper(w[:1]) + w[1:]\<close>, and the same on runes, on ASCII initials.\<close>

definition capital :: "string \<Rightarrow> string" where
  "capital w = (case w of [] \<Rightarrow> [] | c # cs \<Rightarrow> upper_char c # cs)"

definition abbreviations :: "string list" where
  "abbreviations = [''ID'', ''URL'', ''API'', ''FP'', ''TS'', ''IP'', ''RFQ'', ''FCM'', ''MVE'', ''OHLC'', ''STP'']"

definition toGoFieldName :: "string \<Rightarrow> string" where
  "toGoFieldName s =
     concat (map (\<lambda>part. if part = [] then []
                    else let upper = ToUpper part in
                         if upper \<in> set abbreviations then upper else capital part)
       (split_on (CHR ''_'') s))"

definition enumConstName :: "string \<Rightarrow> string \<Rightarrow> string" where
  "enumConstName typeName value =
     (let clean = map (\<lambda>c. if c = CHR ''-'' \<or> c = CHR '' '' then CHR ''_'' else c) value
      in typeName @ concat (map (\<lambda>part. if part = [] then [] else capital part)
           (split_on (CHR ''_'') clean)))"

section \<open>Groups\<close>

definition groupNames :: "string smap" where
  "groupNames =
     [(''account'', ''Account''),
      (''api_keys'', ''API Keys''),
      (''communications'', ''Communications''),
      (''events'', ''Events''),
      (''exchange'', ''Exchange''),
      (''fcm'', ''FCM''),
      (''historical'', ''Historical''),
      (''incentive_programs'', ''Incentive Programs''),
      (''live_data'', ''Live Data''),
      (''markets'', ''Markets''),
      (''milestones'', ''Milestones''),
      (''multivariate_event_collections'', ''Multivariate Event Collections''),
      (''portfolio'', ''Portfolio''),
      (''search'', ''Search''),
      (''series'', ''Series''),
      (''structured_targets'', ''Structured Targets'')]"

definition subGroups :: "string smap" where
  "subGroups =
     [(''orders'', ''Orders''),
      (''events'', ''Event Orders''),
      (''order_groups'', ''Order Groups''),
      (''subaccounts'', ''Subaccounts''),
      (''summary'', ''Portfolio''),
      (''balance'', ''Portfolio''),
      (''positions'', ''Portfolio''),
      (''fills'', ''Portfolio''),
      (''settlements'', ''Portfolio''),
      (''deposits'', ''Portfolio''),
      (''withdrawals'', ''Portfolio'')]"

text \<open>\<open>parts\<close> has one element or two: the text before the first slash and the text after it.\<close>

definition groupNameFromPath :: "string \<Rightarrow> string" where
  "groupNameFromPath path0 =
     (let path = (if HasPrefix path0 ''/'' then drop 1 path0 else path0);
          seg = before_char (CHR ''/'') path
      in case map_of groupNames seg of
           Some name \<Rightarrow>
             if seg = ''portfolio'' \<and> CHR ''/'' \<in> set path then
               (case map_of subGroups (before_char (CHR ''/'') (drop (length seg + 1) path)) of
                  Some subName \<Rightarrow> subName
                | None \<Rightarrow> name)
             else name
         | None \<Rightarrow> join_with '' '' (map capital (split_on (CHR ''_'') seg)))"

text \<open>The schemas that an operation's bodies refer to, in the order the walk meets them.\<close>

definition media_refs :: "MediaType option \<Rightarrow> string list option" where
  "media_refs m = (case m of
      None \<Rightarrow> None
    | Some mt \<Rightarrow> Some (case mt_Schema mt of
          Some s \<Rightarrow> if sc_Ref s \<noteq> [] then [refToName (sc_Ref s)] else []
        | None \<Rightarrow> []))"

definition content_refs :: "MediaType option smap \<Rightarrow> string list option" where
  "content_refs content =
     map_option concat (those (map (\<lambda>ct. media_refs (the (map_of content ct))) (sortedKeys content)))"

definition request_refs :: "Operation \<Rightarrow> string list option" where
  "request_refs op = (case op_RequestBody op of None \<Rightarrow> Some [] | Some rb \<Rightarrow> content_refs (rb_Content rb))"

definition response_refs :: "Operation \<Rightarrow> string list option" where
  "response_refs op =
     map_option concat (those (map (\<lambda>code. case the (map_of (op_Responses op) code) of
         None \<Rightarrow> Some []
       | Some resp \<Rightarrow> content_refs (rd_Content resp)) (sortedKeys (op_Responses op))))"

definition operation_refs :: "Operation option \<Rightarrow> string list option" where
  "operation_refs op = (case op of
      None \<Rightarrow> Some []
    | Some op \<Rightarrow> (case (request_refs op, response_refs op) of
          (Some a, Some b) \<Rightarrow> Some (a @ b)
        | _ \<Rightarrow> None))"

definition path_refs :: "Operation option smap \<Rightarrow> string list option" where
  "path_refs methods =
     map_option concat (those (map (\<lambda>method. operation_refs (the (map_of methods method))) (sortedKeys methods)))"

text \<open>\<open>if _, ok := groups[name]; !ok\<close> stores the group of the first reference.\<close>

definition store_group :: "string \<Rightarrow> string smap \<Rightarrow> string \<Rightarrow> string smap" where
  "store_group grp groups name = (if map_of groups name = None then AList.update name grp groups else groups)"

definition store_groups :: "string smap \<Rightarrow> string \<times> string list \<Rightarrow> string smap" where
  "store_groups groups e = foldl (store_group (groupNameFromPath (fst e))) groups (snd e)"

definition buildSchemaGroups :: "Spec \<Rightarrow> string smap option" where
  "buildSchemaGroups spec =
     map_option (foldl store_groups [])
       (those (map (\<lambda>path. map_option (Pair path) (path_refs (the (map_of (spec_Paths spec) path))))
          (sortedKeys (spec_Paths spec))))"

section \<open>Go types\<close>

lemma size_all_of: "sc_AllOf p = [Some s] \<Longrightarrow> size s < size p"
  by (cases p) simp

lemma size_items: "sc_Items p = Some s \<Longrightarrow> size s < size p"
  by (cases p) simp

lemma size_additional: "sc_AdditionalProperties p = Some (Some s) \<Longrightarrow> size s < size p"
  by (cases p) simp

lemma size_option_in: "Some s \<in> set os \<Longrightarrow> size s < size_list (size_option size) os"
  by (induction os) auto

lemma size_snd_in: "(k, Some s) \<in> set m \<Longrightarrow> size s < size_list (size_prod (\<lambda>x. 0) (size_option size)) m"
  by (induction m) auto

lemma size_property: "(k, Some s) \<in> set (sc_Properties p) \<Longrightarrow> size s < size p"
  by (cases p) (auto dest: size_snd_in)

lemma size_all_of_in: "Some s \<in> set (sc_AllOf p) \<Longrightarrow> size s < size p"
  by (cases p) (auto dest: size_option_in)

lemmas schema_sizes = size_all_of size_items size_additional size_property size_all_of_in

function resolveGoTypeInner :: "Schema \<Rightarrow> string option" where
  "resolveGoTypeInner prop =
     (case sc_AllOf prop of
        [inner] \<Rightarrow> (case inner of None \<Rightarrow> None | Some s \<Rightarrow> resolveGoTypeInner s)
      | _ \<Rightarrow>
        if sc_Ref prop \<noteq> [] then
          (let refName = refToName (sc_Ref prop) in
           case map_of typeAliases refName of
             Some alias \<Rightarrow> Some alias
           | None \<Rightarrow> Some (if shouldSkip refName then ''any'' else refName))
        else if sc_Type prop = ''string'' then Some ''string''
        else if sc_Type prop = ''integer'' then
          Some (if sc_Format prop = ''int64'' then ''int64'' else ''int'')
        else if sc_Type prop = ''number'' then Some ''float64''
        else if sc_Type prop = ''boolean'' then Some ''bool''
        else if sc_Type prop = ''array'' then
          (case sc_Items prop of
             Some items \<Rightarrow> map_option (\<lambda>itemType. ''[]'' @ itemType) (resolveGoTypeInner items)
           | None \<Rightarrow> Some ''[]any'')
        else if sc_Type prop = ''object'' then
          (case sc_AdditionalProperties prop of
             Some (Some ap) \<Rightarrow> map_option (\<lambda>valType. ''map[string]'' @ valType) (resolveGoTypeInner ap)
           | _ \<Rightarrow> Some ''map[string]any'')
        else Some ''any'')"
  by pat_completeness auto
termination
  by (relation "measure size") (auto dest: schema_sizes)

declare resolveGoTypeInner.simps [simp del]

definition needs_pointer :: "string \<Rightarrow> string \<Rightarrow> Schema \<Rightarrow> bool" where
  "needs_pointer schemaName fieldName prop \<longleftrightarrow> sc_Nullable prop
     \<or> (schemaName, fieldName) \<in> set nullableOverrides
     \<or> (schemaName, fieldName) \<in> set meaningfulZeroOverrides"

text \<open>The parameters \<open>required\<close> and \<open>schemas\<close> are not used by the code.\<close>

definition resolveGoType :: "string \<Rightarrow> string \<Rightarrow> Schema \<Rightarrow> string option" where
  "resolveGoType schemaName fieldName prop =
     (case map_of fieldTypeOverrides (schemaName, fieldName) of
        Some override \<Rightarrow>
          Some (if needs_pointer schemaName fieldName prop then ''*'' @ override else override)
      | None \<Rightarrow>
          map_option (\<lambda>goType.
            if needs_pointer schemaName fieldName prop
               \<and> \<not> HasPrefix goType ''[]'' \<and> \<not> HasPrefix goType ''map[''
            then ''*'' @ goType else goType) (resolveGoTypeInner prop))"

function collectRefs :: "Schema \<Rightarrow> string list" where
  "collectRefs s =
     (if sc_Ref s \<noteq> [] then [refToName (sc_Ref s)] else [])
     @ concat (map (\<lambda>kp. case snd kp of None \<Rightarrow> [] | Some p \<Rightarrow> collectRefs p) (sc_Properties s))
     @ (case sc_Items s of None \<Rightarrow> [] | Some i \<Rightarrow> collectRefs i)
     @ concat (map (\<lambda>a. case a of None \<Rightarrow> [] | Some p \<Rightarrow> collectRefs p) (sc_AllOf s))"
  by pat_completeness auto
termination
  by (relation "measure size") (auto dest: schema_sizes)

declare collectRefs.simps [simp del]

end
