(* ===== verification/GenOrder.thy ===== *)
theory GenOrder
  imports GenSchema
begin

text \<open>
  \<open>topologicalSort\<close> of \<open>tools/generate_types/main.go\<close>: the order in which schemas are declared.
  The dependencies of a name are the other names of the list that its schema refers to. The
  recursive closure \<open>visit\<close> is \<open>visit_all\<close> on a list of names, with the stack \<open>visiting\<close> as an
  argument, since each call takes its own name off it before it returns. A missing schema
  (\<open>schemas[name]\<close> of an absent key, or a nil value) refers to nothing.
\<close>

section \<open>The sort\<close>

type_synonym graph = "string list \<times> (string \<Rightarrow> string list)"

definition schema_of :: "schemas \<Rightarrow> string \<Rightarrow> Schema option" where
  "schema_of ss name = (case map_of ss name of Some s \<Rightarrow> s | None \<Rightarrow> None)"

text \<open>\<open>deps[name]\<close> as a list in sorted order.\<close>

definition deps_of :: "string list \<Rightarrow> schemas \<Rightarrow> string \<Rightarrow> string list" where
  "deps_of names ss name =
     (if name \<in> set names
      then sort (remdups (filter (\<lambda>r. r \<noteq> name \<and> r \<in> set names)
             (case schema_of ss name of None \<Rightarrow> [] | Some s \<Rightarrow> collectRefs s)))
      else [])"

record visit_state =
  vs_sorted :: "string list"
  vs_visited :: "string list"

definition mark_done :: "string \<Rightarrow> visit_state \<Rightarrow> visit_state" where
  "mark_done name st = st\<lparr>vs_visited := name # vs_visited st, vs_sorted := vs_sorted st @ [name]\<rparr>"

function visit_all :: "graph \<Rightarrow> string list \<Rightarrow> string list \<Rightarrow> visit_state \<Rightarrow> visit_state" where
  "visit_all g visiting [] st = st"
| "visit_all g visiting (name # rest) st =
     (if name \<in> set (vs_visited st) \<or> name \<in> set visiting then visit_all g visiting rest st
      else if name \<in> set (fst g)
      then visit_all g visiting rest (mark_done name (visit_all g (name # visiting) (snd g name) st))
      else visit_all g visiting rest (mark_done name st))"
  by pat_completeness auto
termination
proof (relation "measures [\<lambda>(g, visiting, ns, st). card (set (fst g) - set visiting),
                           \<lambda>(g, visiting, ns, st). length ns]", goal_cases)
  case (3 g visiting name rest st)
  then have "set (fst g) - set (name # visiting) \<subset> set (fst g) - set visiting" by auto
  then have "card (set (fst g) - set (name # visiting)) < card (set (fst g) - set visiting)"
    by (intro psubset_card_mono) auto
  then show ?case by simp
qed auto

definition topologicalSort :: "string list \<Rightarrow> schemas \<Rightarrow> string list" where
  "topologicalSort names ss =
     vs_sorted (visit_all (names, deps_of names ss) [] names \<lparr>vs_sorted = [], vs_visited = []\<rparr>)"

section \<open>What the walk keeps\<close>

definition vs_ok :: "visit_state \<Rightarrow> bool" where
  "vs_ok st \<longleftrightarrow> set (vs_visited st) = set (vs_sorted st) \<and> distinct (vs_sorted st)"

definition before :: "'a list \<Rightarrow> 'a \<Rightarrow> 'a \<Rightarrow> bool" where
  "before xs a b \<longleftrightarrow> (\<exists>us vs. xs = us @ b # vs \<and> a \<in> set us)"

definition depends :: "graph \<Rightarrow> (string \<times> string) set" where
  "depends g = {(n, d). n \<in> set (fst g) \<and> d \<in> set (snd g n)}"

lemma before_append: "before xs a b \<Longrightarrow> before (xs @ ys) a b"
  unfolding before_def by fastforce

lemma before_last: "a \<in> set xs \<Longrightarrow> before (xs @ [b]) a b"
  unfolding before_def by blast

lemma mark_done_simps [simp]:
  "vs_sorted (mark_done n st) = vs_sorted st @ [n]"
  "set (vs_visited (mark_done n st)) = insert n (set (vs_visited st))"
  by (simp_all add: mark_done_def)

lemma mark_done_ok: "vs_ok st \<Longrightarrow> n \<notin> set (vs_sorted st) \<Longrightarrow> vs_ok (mark_done n st)"
  by (simp add: vs_ok_def)

text \<open>The walk only appends, never a name on the stack, and misses none of its names.\<close>

definition walked :: "string list \<Rightarrow> string list \<Rightarrow> visit_state \<Rightarrow> visit_state \<Rightarrow> bool" where
  "walked visiting ns st st' \<longleftrightarrow> vs_ok st' \<and> set ns \<subseteq> set (vs_sorted st') \<union> set visiting
     \<and> (\<exists>xs. vs_sorted st' = vs_sorted st @ xs \<and> set xs \<inter> set visiting = {})"

lemma walked_mark:
  assumes "walked (n # visiting) ds st st'" "vs_ok st" "n \<notin> set (vs_visited st)" "n \<notin> set visiting"
  shows "walked visiting [n] st (mark_done n st')"
proof -
  obtain xs where xs: "vs_sorted st' = vs_sorted st @ xs" "set xs \<inter> set (n # visiting) = {}" "vs_ok st'"
    using assms(1) by (auto simp: walked_def)
  with assms(2,3) have "n \<notin> set (vs_sorted st')" by (auto simp: vs_ok_def)
  with xs assms(4) show ?thesis by (simp add: walked_def mark_done_ok)
qed

lemma walked_trans:
  "walked visiting as st st1 \<Longrightarrow> walked visiting bs st1 st2 \<Longrightarrow> walked visiting (as @ bs) st st2"
  unfolding walked_def by fastforce

lemma walked_refl: "vs_ok st \<Longrightarrow> set ns \<subseteq> set (vs_sorted st) \<union> set visiting \<Longrightarrow> walked visiting ns st st"
  by (simp add: walked_def)

lemma visit_all_walked: "vs_ok st \<Longrightarrow> walked visiting ns st (visit_all g visiting ns st)"
proof (induction g visiting ns st rule: visit_all.induct)
  case (1 g visiting st)
  then show ?case by (simp add: walked_refl)
next
  case (2 g visiting n rest st)
  show ?case
  proof (cases "n \<in> set (vs_visited st) \<or> n \<in> set visiting")
    case True
    with "2.prems" have "walked visiting [n] st st" by (intro walked_refl) (auto simp: vs_ok_def)
    with True "2.IH"(1) "2.prems" walked_trans [of visiting "[n]"] show ?thesis by simp
  next
    case False
    define st1 where "st1 = mark_done n (if n \<in> set (fst g) then visit_all g (n # visiting) (snd g n) st else st)"
    have "walked visiting [n] st st1"
    proof (cases "n \<in> set (fst g)")
      case True
      with False "2.IH"(2) "2.prems" show ?thesis
        unfolding st1_def by (auto intro!: walked_mark [where ds = "snd g n"])
    next
      case nin: False
      have "walked (n # visiting) [] st st" using "2.prems" by (intro walked_refl) auto
      with nin False "2.prems" show ?thesis
        unfolding st1_def by (auto intro!: walked_mark)
    qed
    moreover from this have "vs_ok st1" by (simp add: walked_def)
    then have "walked visiting rest st1 (visit_all g visiting rest st1)"
      using "2.IH"(3,4) False by (cases "n \<in> set (fst g)") (auto simp: st1_def)
    moreover have "visit_all g visiting (n # rest) st = visit_all g visiting rest st1"
      using False by (simp add: st1_def)
    ultimately show ?thesis using walked_trans [of visiting "[n]" st st1 rest] by simp
  qed
qed

text \<open>Every name that is new in the result has its dependencies before it, or is one of theirs.\<close>

definition in_dep_order :: "graph \<Rightarrow> string list \<Rightarrow> string list \<Rightarrow> bool" where
  "in_dep_order g old res \<longleftrightarrow>
     (\<forall>n \<in> set res - set old. \<forall>d. (n, d) \<in> depends g \<longrightarrow> before res d n \<or> (d, n) \<in> (depends g)\<^sup>*)"

lemma in_dep_order_trans:
  assumes "in_dep_order g a b" "in_dep_order g b c" "c = b @ xs"
  shows "in_dep_order g a c"
  using assms before_append [of b _ _ xs] by (fastforce simp: in_dep_order_def)

lemma visit_all_order:
  assumes "vs_ok st" "\<forall>p\<in>set visiting. \<forall>n\<in>set ns. (p, n) \<in> (depends g)\<^sup>*"
  shows "in_dep_order g (vs_sorted st) (vs_sorted (visit_all g visiting ns st))"
  using assms
proof (induction g visiting ns st rule: visit_all.induct)
  case (1 g visiting st)
  then show ?case by (simp add: in_dep_order_def)
next
  case (2 g visiting n rest st)
  show ?case
  proof (cases "n \<in> set (vs_visited st) \<or> n \<in> set visiting")
    case True
    with 2 show ?thesis by simp
  next
    case False
    define st0 where "st0 = (if n \<in> set (fst g) then visit_all g (n # visiting) (snd g n) st else st)"
    define st1 where "st1 = mark_done n st0"
    have w0: "walked (n # visiting) (if n \<in> set (fst g) then snd g n else []) st st0"
      using visit_all_walked [OF "2.prems"(1)] walked_refl [OF "2.prems"(1), of "[]"] by (simp add: st0_def)
    have w1: "walked visiting [n] st st1"
      using walked_mark [OF w0 "2.prems"(1)] False by (simp add: st1_def)
    then have ok1: "vs_ok st1" by (simp add: walked_def)
    have o0: "in_dep_order g (vs_sorted st) (vs_sorted st0)"
    proof (cases "n \<in> set (fst g)")
      case True
      have "(p, d) \<in> (depends g)\<^sup>*" if "p \<in> set (n # visiting)" "d \<in> set (snd g n)" for p d
      proof -
        have "(n, d) \<in> depends g" using that(2) True by (simp add: depends_def)
        moreover have "(p, n) \<in> (depends g)\<^sup>*" using that(1) "2.prems"(2) by auto
        ultimately show ?thesis by (rule rtrancl_into_rtrancl [rotated])
      qed
      with True False "2.IH"(2) "2.prems"(1) show ?thesis by (simp add: st0_def)
    next
      case nin: False
      then show ?thesis by (simp add: st0_def in_dep_order_def)
    qed
    have "in_dep_order g (vs_sorted st0) (vs_sorted st1)"
    proof -
      have "before (vs_sorted st0 @ [n]) d n \<or> (d, n) \<in> (depends g)\<^sup>*" if "(n, d) \<in> depends g" for d
      proof -
        have "d \<in> set (vs_sorted st0) \<union> set (n # visiting)"
          using w0 that by (auto simp: walked_def depends_def)
        with "2.prems"(2) show ?thesis by (auto simp: before_last)
      qed
      then show ?thesis by (auto simp: in_dep_order_def st1_def)
    qed
    with o0 have o1: "in_dep_order g (vs_sorted st) (vs_sorted st1)"
      by (rule in_dep_order_trans [where xs = "[n]"]) (simp add: st1_def)
    have eq: "visit_all g visiting (n # rest) st = visit_all g visiting rest st1"
      using False by (simp add: st1_def st0_def)
    have "in_dep_order g (vs_sorted st1) (vs_sorted (visit_all g visiting rest st1))"
      using "2.IH"(3,4) False ok1 "2.prems"(2) by (cases "n \<in> set (fst g)") (auto simp: st1_def st0_def)
    moreover obtain xs where "vs_sorted (visit_all g visiting rest st1) = vs_sorted st1 @ xs"
      using visit_all_walked [OF ok1, of visiting rest g] by (auto simp: walked_def)
    ultimately show ?thesis unfolding eq using o1 in_dep_order_trans by blast
  qed
qed

lemma visit_all_bounded:
  assumes "\<forall>n\<in>set (fst g). set (snd g n) \<subseteq> set (fst g)"
  shows "set (vs_sorted (visit_all g visiting ns st)) \<subseteq> set (vs_sorted st) \<union> set ns \<union> set (fst g)"
  using assms
proof (induction g visiting ns st rule: visit_all.induct)
  case (2 g visiting n rest st)
  let ?U = "set (vs_sorted st) \<union> set (n # rest) \<union> set (fst g)"
  consider "n \<in> set (vs_visited st) \<or> n \<in> set visiting"
    | "\<not> (n \<in> set (vs_visited st) \<or> n \<in> set visiting)" "n \<in> set (fst g)"
    | "\<not> (n \<in> set (vs_visited st) \<or> n \<in> set visiting)" "n \<notin> set (fst g)"
    by blast
  then show ?case
  proof cases
    case 1
    with "2.IH"(1) "2.prems" show ?thesis by auto
  next
    case 2
    have "set (snd g n) \<subseteq> set (fst g)" using "2.prems" 2(2) by blast
    with "2.IH"(2) [OF 2 "2.prems"] have "set (vs_sorted (visit_all g (n # visiting) (snd g n) st)) \<subseteq> ?U"
      by auto
    with "2.IH"(3) [OF 2 "2.prems"] have "set (vs_sorted (visit_all g visiting rest
        (mark_done n (visit_all g (n # visiting) (snd g n) st)))) \<subseteq> ?U"
      by (elim order_trans) auto
    with 2 show ?thesis by simp
  next
    case 3
    with "2.IH"(4) [OF 3 "2.prems"] show ?thesis by simp
  qed
qed simp

lemma deps_within: "set (deps_of names ss n) \<subseteq> set names"
  by (auto simp: deps_of_def)

definition dep_graph :: "string list \<Rightarrow> schemas \<Rightarrow> graph" where
  "dep_graph names ss = (names, deps_of names ss)"

lemma topologicalSort_facts:
  "set (topologicalSort names ss) = set names" "distinct (topologicalSort names ss)"
  "in_dep_order (dep_graph names ss) [] (topologicalSort names ss)"
proof -
  let ?st = "\<lparr>vs_sorted = [], vs_visited = []\<rparr>"
  have ok: "vs_ok ?st" by (simp add: vs_ok_def)
  from visit_all_walked [OF this, of "[]" names "dep_graph names ss"]
  have "distinct (topologicalSort names ss)" "set names \<subseteq> set (topologicalSort names ss)"
    by (simp_all add: walked_def vs_ok_def topologicalSort_def dep_graph_def)
  moreover have "set (topologicalSort names ss) \<subseteq> set names"
    using visit_all_bounded [of "dep_graph names ss" "[]" names ?st] deps_within
    by (auto simp: topologicalSort_def dep_graph_def)
  ultimately show "set (topologicalSort names ss) = set names" "distinct (topologicalSort names ss)"
    by auto
  show "in_dep_order (dep_graph names ss) [] (topologicalSort names ss)"
    using visit_all_order [OF ok, of "[]" names "dep_graph names ss"]
    by (simp add: topologicalSort_def dep_graph_def)
qed

end
