(* ===== verification/SpecSrc.thy ===== *)
theory SpecSrc
  imports GoJson ApiErrors
begin

text \<open>
  \<open>tools/internal/specsrc\<close>: where the generators find the vendored specifications. The file
  system is an argument: the working directory, which paths exist, and what reading a file
  gives. Paths are those \<open>os.Getwd\<close> returns: absolute and without empty segments, for which
  \<open>filepath.Dir\<close> drops the last segment and \<open>filepath.Join\<close> puts a slash in between.
\<close>

datatype Kind = OpenAPI | AsyncAPI

definition kind_string :: "Kind \<Rightarrow> string" where
  "kind_string k = (case k of OpenAPI \<Rightarrow> ''openapi'' | AsyncAPI \<Rightarrow> ''asyncapi'')"

record OpenAPISnapshot =
  oa_URL :: string
  oa_Version :: string
  oa_SHA256 :: string

record AsyncAPISnapshot =
  aa_URL :: string
  aa_InfoVersion :: string
  aa_AsyncAPIVersion :: string
  aa_SHA256 :: string

record Snapshot =
  sn_FetchedAt :: string
  sn_OpenAPI :: OpenAPISnapshot
  sn_AsyncAPI :: AsyncAPISnapshot

definition Provenance :: "Snapshot \<Rightarrow> Kind \<Rightarrow> string \<times> string \<times> string" where
  "Provenance s kind =
     (if kind = AsyncAPI
      then (aa_URL (sn_AsyncAPI s), aa_InfoVersion (sn_AsyncAPI s), aa_SHA256 (sn_AsyncAPI s))
      else (oa_URL (sn_OpenAPI s), oa_Version (sn_OpenAPI s), oa_SHA256 (sn_OpenAPI s)))"

definition path_dir :: "string \<Rightarrow> string" where
  "path_dir p = (let d = rev (dropWhile (\<lambda>c. c \<noteq> CHR ''/'') (rev p))
                 in if d = ''/'' \<or> d = [] then ''/'' else butlast d)"

definition path_join :: "string \<Rightarrow> string \<Rightarrow> string" where
  "path_join dir name = (if dir = ''/'' then dir @ name else dir @ ''/'' @ name)"

text \<open>The errors of the package, with their texts.\<close>

datatype load_error =
    GetwdError goerror
  | NoModuleRoot
  | ReadError string string goerror     \<comment> \<open>what, path, cause\<close>
  | ParseError string goerror

primrec load_error_text :: "load_error \<Rightarrow> string" where
  "load_error_text (GetwdError e) = ''getwd: '' @ Error e"
| "load_error_text NoModuleRoot = ''cannot find module root (go.mod) above working directory''"
| "load_error_text (ReadError what path e) =
     what @ '' '' @ path @ '': '' @ Error e @ '' (run ./tools/vendor_spec.sh)''"
| "load_error_text (ParseError path e) = ''parse '' @ path @ '': '' @ Error e"

record file_system =
  fs_getwd :: "goerror + string"
  fs_exists :: "string \<Rightarrow> bool"
  fs_read :: "string \<Rightarrow> goerror + string"

fun root_loop :: "(string \<Rightarrow> bool) \<Rightarrow> nat \<Rightarrow> string \<Rightarrow> string option" where
  "root_loop exists 0 dir = None"
| "root_loop exists (Suc i) dir =
     (if exists (path_join dir ''go.mod'') then Some dir
      else let parent = path_dir dir in
           if parent = dir then None else root_loop exists i parent)"

definition RepoRoot :: "file_system \<Rightarrow> load_error + string" where
  "RepoRoot fs =
     (case fs_getwd fs of
        Inl err \<Rightarrow> Inl (GetwdError err)
      | Inr dir \<Rightarrow>
          (case root_loop (fs_exists fs) 5 dir of
             Some dir' \<Rightarrow> Inr dir'
           | None \<Rightarrow> Inl NoModuleRoot))"

definition dec_OpenAPISnapshot :: "OpenAPISnapshot \<Rightarrow> json \<Rightarrow> OpenAPISnapshot \<times> bool" where
  "dec_OpenAPISnapshot z j =
     (case obj_pairs j of (kvs, e0) \<Rightarrow>
      (case dec_field ''url'' dec_string (oa_URL z) kvs of (u, e1) \<Rightarrow>
      (case dec_field ''version'' dec_string (oa_Version z) kvs of (v, e2) \<Rightarrow>
      (case dec_field ''sha256'' dec_string (oa_SHA256 z) kvs of (h, e3) \<Rightarrow>
        (\<lparr>oa_URL = u, oa_Version = v, oa_SHA256 = h\<rparr>, e0 \<or> e1 \<or> e2 \<or> e3)))))"

definition dec_AsyncAPISnapshot :: "AsyncAPISnapshot \<Rightarrow> json \<Rightarrow> AsyncAPISnapshot \<times> bool" where
  "dec_AsyncAPISnapshot z j =
     (case obj_pairs j of (kvs, e0) \<Rightarrow>
      (case dec_field ''url'' dec_string (aa_URL z) kvs of (u, e1) \<Rightarrow>
      (case dec_field ''info_version'' dec_string (aa_InfoVersion z) kvs of (v, e2) \<Rightarrow>
      (case dec_field ''asyncapi_version'' dec_string (aa_AsyncAPIVersion z) kvs of (w, e3) \<Rightarrow>
      (case dec_field ''sha256'' dec_string (aa_SHA256 z) kvs of (h, e4) \<Rightarrow>
        (\<lparr>aa_URL = u, aa_InfoVersion = v, aa_AsyncAPIVersion = w, aa_SHA256 = h\<rparr>,
         e0 \<or> e1 \<or> e2 \<or> e3 \<or> e4))))))"

definition zero_Snapshot :: Snapshot where
  "zero_Snapshot =
     \<lparr>sn_FetchedAt = [], sn_OpenAPI = \<lparr>oa_URL = [], oa_Version = [], oa_SHA256 = []\<rparr>,
      sn_AsyncAPI = \<lparr>aa_URL = [], aa_InfoVersion = [], aa_AsyncAPIVersion = [], aa_SHA256 = []\<rparr>\<rparr>"

definition dec_Snapshot :: "json \<Rightarrow> Snapshot \<times> bool" where
  "dec_Snapshot j =
     (case obj_pairs j of (kvs, e0) \<Rightarrow>
      (case dec_field ''fetched_at'' dec_string (sn_FetchedAt zero_Snapshot) kvs of (f, e1) \<Rightarrow>
      (case dec_field ''openapi'' dec_OpenAPISnapshot (sn_OpenAPI zero_Snapshot) kvs of (oa, e2) \<Rightarrow>
      (case dec_field ''asyncapi'' dec_AsyncAPISnapshot (sn_AsyncAPI zero_Snapshot) kvs of (aa, e3) \<Rightarrow>
        (\<lparr>sn_FetchedAt = f, sn_OpenAPI = oa, sn_AsyncAPI = aa\<rparr>, e0 \<or> e1 \<or> e2 \<or> e3)))))"

text \<open>\<open>Load\<close>: the bytes of the specification and the decoded snapshot.\<close>

definition Load :: "file_system \<Rightarrow> Kind \<Rightarrow> load_error + (string \<times> Snapshot)" where
  "Load fs kind =
     (case RepoRoot fs of
        Inl err \<Rightarrow> Inl err
      | Inr rootDir \<Rightarrow>
          let specPath = path_join rootDir (''specs/'' @ kind_string kind @ ''.yaml'') in
          (case fs_read fs specPath of
             Inl err \<Rightarrow> Inl (ReadError ''read vendored spec'' specPath err)
           | Inr body \<Rightarrow>
               let snapPath = path_join rootDir ''specs/SNAPSHOT.json'' in
               (case fs_read fs snapPath of
                  Inl err \<Rightarrow> Inl (ReadError ''read'' snapPath err)
                | Inr snapBytes \<Rightarrow>
                    (case json_parse snapBytes of
                       None \<Rightarrow> Inl (ParseError snapPath (ErrorString ''invalid JSON''))
                     | Some j \<Rightarrow> (case dec_Snapshot j of (snap, bad) \<Rightarrow>
                         if bad then Inl (ParseError snapPath (ErrorString ''cannot unmarshal value''))
                         else Inr (body, snap))))))"

section \<open>Facts\<close>

text \<open>The directories the search looks at: the working directory and up to four above it.\<close>

fun ancestors :: "nat \<Rightarrow> string \<Rightarrow> string list" where
  "ancestors 0 dir = []"
| "ancestors (Suc i) dir = dir # (if path_dir dir = dir then [] else ancestors i (path_dir dir))"

lemma root_loop_find: "root_loop exists i dir = find (\<lambda>d. exists (path_join d ''go.mod'')) (ancestors i dir)"
  by (induction i arbitrary: dir) (auto simp: Let_def)

lemma ancestors_bound: "length (ancestors i dir) \<le> i"
  by (induction i arbitrary: dir) (auto simp: le_SucI)

end
