(* ===== verification/GenTypes.thy ===== *)
theory GenTypes
  imports GenOrder SpecSrc
begin

text \<open>
  The text that \<open>tools/generate_types/main.go\<close> writes: which schemas become declarations, the
  comments, and the declarations in the order of \<open>topologicalSort\<close> regrouped by API domain.
  Loading the specification, \<open>gofmt\<close> and writing the file are left out. White space is the
  ASCII one.
\<close>

section \<open>Which schemas\<close>

definition categorize :: "schemas \<Rightarrow> (string list \<times> string list) option" where
  "categorize ss =
     (let kept = filter (\<lambda>(name, s). \<not> shouldSkip name \<and> map_of typeAliases name = None
                                    \<and> \<not> isParameterSchema name) ss;
          is_enum = (\<lambda>s. sc_Type s = ''string'' \<and> length (sc_Enum s) > 0)
      in if list_ex (\<lambda>(name, s). s = None) kept then None
         else Some (sort (map fst (filter (\<lambda>(name, s). is_enum (the s)) kept)),
                    sort (map fst (filter (\<lambda>(name, s). \<not> is_enum (the s)) kept))))"

section \<open>Comments\<close>

definition is_space :: "char \<Rightarrow> bool" where
  "is_space c \<longleftrightarrow> (let n = (of_char c :: nat) in n = 32 \<or> (9 \<le> n \<and> n \<le> 13))"

definition re_space :: "char \<Rightarrow> bool" where
  "re_space c \<longleftrightarrow> (let n = (of_char c :: nat) in n = 32 \<or> n = 9 \<or> n = 10 \<or> n = 12 \<or> n = 13)"

definition TrimSpace :: "string \<Rightarrow> string" where
  "TrimSpace s = rev (dropWhile is_space (rev (dropWhile is_space s)))"

text \<open>\<open>multiSpaceRe.ReplaceAllString(s, " ")\<close>; the flag says that the run has been replaced.\<close>

fun collapse_spaces :: "bool \<Rightarrow> string \<Rightarrow> string" where
  "collapse_spaces run [] = []"
| "collapse_spaces run (c # cs) =
     (if re_space c then (if run then collapse_spaces True cs else CHR '' '' # collapse_spaces True cs)
      else c # collapse_spaces False cs)"

definition cleanDescription :: "string \<Rightarrow> string" where
  "cleanDescription s0 =
     (let s1 = TrimSpace s0;
          s2 = TrimSpace (before_char (CHR 0x0A) s1);
          s3 = dropWhile (\<lambda>c. c = CHR ''#'' \<or> c = CHR '' '') s2
      in collapse_spaces False s3)"

definition nl :: string where "nl = [CHR 0x0A]"
definition tab :: string where "tab = [CHR 0x09]"

definition comment_line :: "string \<Rightarrow> string" where
  "comment_line s = ''// '' @ s @ nl"

definition fileHeader :: "Snapshot \<Rightarrow> string" where
  "fileHeader snap =
     (case Provenance snap OpenAPI of (url, version, sha) \<Rightarrow>
        comment_line (''Code generated by tools/generate_types '' @ [CHR 0xE2, CHR 0x80, CHR 0x94]
                      @ '' DO NOT EDIT.'')
        @ comment_line (''Spec: '' @ url @ '' (version '' @ version @ '', fetched ''
                        @ sn_FetchedAt snap @ '')'')
        @ comment_line (''sha256: '' @ sha) @ nl)"

section \<open>Declarations\<close>

definition field_lines :: "string \<Rightarrow> string list \<Rightarrow> string \<times> Schema option \<Rightarrow> string option" where
  "field_lines name required kp = (case kp of
      (propName, None) \<Rightarrow> None
    | (propName, Some prop) \<Rightarrow>
        (case resolveGoType name propName prop of
           None \<Rightarrow> None
         | Some goType \<Rightarrow>
             let goFieldName = toGoFieldName propName;
                 jsonTag = (if propName \<notin> set required then propName @ '',omitempty'' else propName);
                 desc = cleanDescription (sc_Description prop);
                 desc' = (if length desc > 100 then take 97 desc @ ''...'' else desc)
             in Some ((if sc_Description prop \<noteq> [] then tab @ comment_line desc' else [])
                      @ (if sc_Deprecated prop then tab @ comment_line ''Deprecated.'' else [])
                      @ tab @ goFieldName @ '' '' @ goType @ '' '' @ [CHR 0x60] @ ''json:'' @ [CHR 0x22]
                      @ jsonTag @ [CHR 0x22, CHR 0x60] @ nl)))"

definition doc_comment :: "string \<Rightarrow> Schema \<Rightarrow> string" where
  "doc_comment name s =
     (if sc_Description s \<noteq> [] then comment_line (name @ '' '' @ cleanDescription (sc_Description s)) else [])"

definition struct_block :: "string \<Rightarrow> Schema \<Rightarrow> string option" where
  "struct_block name s =
     (let head = (if sc_Description s \<noteq> [] then doc_comment name s
                  else comment_line (name @ '' is a generated type from the Kalshi OpenAPI spec.''))
                 @ ''type '' @ name @ '' struct {'' @ nl;
          props = sc_Properties s
      in if props = [] then Some (head @ ''}'' @ nl @ nl)
         else (case those (map (\<lambda>propName. field_lines name (sc_Required s) (propName, the (map_of props propName)))
                  (sortedKeys props)) of
                 None \<Rightarrow> None
               | Some lns \<Rightarrow> Some (head @ concat lns @ ''}'' @ nl @ nl)))"

definition object_block :: "string \<Rightarrow> Schema \<Rightarrow> string option" where
  "object_block name s =
     (if sc_Type s = ''array'' \<and> sc_Items s \<noteq> None then
        map_option (\<lambda>itemType. doc_comment name s @ ''type '' @ name @ '' = []'' @ itemType @ nl @ nl)
          (resolveGoTypeInner (the (sc_Items s)))
      else if sc_Properties s = [] \<and> sc_Type s \<noteq> [] \<and> sc_Type s \<noteq> ''object'' then
        map_option (\<lambda>goType. doc_comment name s @ ''type '' @ name @ '' = '' @ goType @ nl @ nl)
          (resolveGoTypeInner s)
      else struct_block name s)"

definition groupOf :: "string smap \<Rightarrow> string \<Rightarrow> string" where
  "groupOf groups name = (case map_of groups name of Some g \<Rightarrow> g | None \<Rightarrow> ''Core'')"

definition dashes :: string where
  "dashes = comment_line (replicate 75 (CHR ''-''))"

definition group_banner :: "string \<Rightarrow> string" where
  "group_banner grp = dashes @ comment_line grp @ dashes @ nl"

fun objects_loop :: "string smap \<Rightarrow> schemas \<Rightarrow> string \<Rightarrow> string list \<Rightarrow> string option" where
  "objects_loop groups ss currentGroup [] = Some []"
| "objects_loop groups ss currentGroup (name # rest) =
     (let grp = groupOf groups name;
          banner = (if grp \<noteq> currentGroup then group_banner grp else [])
      in case schema_of ss name of
           None \<Rightarrow> map_option (\<lambda>out. banner @ out) (objects_loop groups ss grp rest)
         | Some s \<Rightarrow>
             (case object_block name s of
                None \<Rightarrow> None
              | Some block \<Rightarrow>
                  map_option (\<lambda>out. banner @ block @ out) (objects_loop groups ss grp rest)))"

definition declaration_order :: "string list \<Rightarrow> schemas \<Rightarrow> string smap \<Rightarrow> string list" where
  "declaration_order names ss groups = sort_key (groupOf groups) (topologicalSort names ss)"

definition generateObjects :: "string list \<Rightarrow> schemas \<Rightarrow> string smap \<Rightarrow> Snapshot \<Rightarrow> string option" where
  "generateObjects names ss groups snap =
     map_option (\<lambda>out. fileHeader snap @ ''package gokalshi'' @ nl @ nl @ out)
       (objects_loop groups ss [] (declaration_order names ss groups))"

section \<open>Enums\<close>

text \<open>\<open>generateEnums\<close> is not called by \<open>main\<close>. A missing schema panics.\<close>

definition enum_block :: "string \<Rightarrow> Schema \<Rightarrow> string" where
  "enum_block name s =
     doc_comment name s @ ''type '' @ name @ '' string'' @ nl @ nl @ ''const ('' @ nl
     @ concat (map (\<lambda>v. tab @ enumConstName name v @ '' '' @ name @ '' = '' @ Quote v @ nl) (sc_Enum s))
     @ '')'' @ nl @ nl"

definition generateEnums :: "string list \<Rightarrow> schemas \<Rightarrow> Snapshot \<Rightarrow> string option" where
  "generateEnums names ss snap =
     map_option (\<lambda>blocks. fileHeader snap @ ''package gokalshi'' @ nl @ nl @ concat blocks)
       (those (map (\<lambda>name. map_option (enum_block name) (schema_of ss name)) names))"

end
