(* ===== verification/GenProps.thy ===== *)
theory GenProps
  imports GenTypes
begin

text \<open>
  The claims about the type generator: the order of the declarations, the Go types it gives to
  fields, the grouping of schemas, and the shape of the generated file.
\<close>

section \<open>Order of the declarations\<close>

text \<open>C24: \<open>topologicalSort\<close> lists every name once and no other, and declares what a schema
  refers to before the schema itself; a dependency may come later only if it refers back,
  directly or through others, to the schema that needs it.\<close>

theorem topologicalSort_correct:
  "set (topologicalSort names ss) = set names \<and> distinct (topologicalSort names ss)
   \<and> (\<forall>(n, d) \<in> depends (dep_graph names ss).
        before (topologicalSort names ss) d n \<or> (d, n) \<in> (depends (dep_graph names ss))\<^sup>*)"
proof -
  have "before (topologicalSort names ss) d n \<or> (d, n) \<in> (depends (dep_graph names ss))\<^sup>*"
    if "(n, d) \<in> depends (dep_graph names ss)" for n d
  proof -
    have "n \<in> set (topologicalSort names ss)"
      using that by (auto simp: depends_def dep_graph_def topologicalSort_facts)
    with that topologicalSort_facts(3) [of names ss] show ?thesis by (auto simp: in_dep_order_def)
  qed
  then show ?thesis using topologicalSort_facts by auto
qed

definition ref_schema :: "string \<Rightarrow> Schema" where
  "ref_schema ref = Schema [] [] [] [] [] [] None ref [] False False None"

definition object_schema :: "(string \<times> Schema option) list \<Rightarrow> Schema" where
  "object_schema props = Schema ''object'' [] [] [] props [] None [] [] False False None"

definition demo_schemas :: schemas where
  "demo_schemas =
     [(''Order'', Some (object_schema [(''fills'', Some (ref_schema ''#/components/schemas/Fill''))])),
      (''Fill'', Some (object_schema []))]"

lemma topologicalSort_correct_witness:
  "topologicalSort [''Order'', ''Fill''] demo_schemas = [''Fill'', ''Order'']
   \<and> before [''Fill'', ''Order''] ''Fill'' ''Order''"
proof -
  let ?names = "[''Order'', ''Fill'']"
  have deps: "deps_of ?names demo_schemas ''Order'' = [''Fill'']" "deps_of ?names demo_schemas ''Fill'' = []"
    by (simp_all add: deps_of_def demo_schemas_def schema_of_def object_schema_def ref_schema_def
        collectRefs.simps refToName_def)
  have sort: "topologicalSort ?names demo_schemas = [''Fill'', ''Order'']"
    by (simp add: topologicalSort_def deps mark_done_def)
  have dep: "(''Order'', ''Fill'') \<in> depends (dep_graph ?names demo_schemas)"
    by (simp add: depends_def dep_graph_def deps)
  have last: "(''Fill'', y) \<notin> depends (dep_graph ?names demo_schemas)" for y
    by (simp add: depends_def dep_graph_def deps)
  have "z = ''Fill''" if "(''Fill'', z) \<in> (depends (dep_graph ?names demo_schemas))\<^sup>*" for z
    using that by (cases rule: converse_rtranclE) (simp_all add: last)
  then have "(''Fill'', ''Order'') \<notin> (depends (dep_graph ?names demo_schemas))\<^sup>*" by blast
  moreover have "before (topologicalSort ?names demo_schemas) ''Fill'' ''Order''
      \<or> (''Fill'', ''Order'') \<in> (depends (dep_graph ?names demo_schemas))\<^sup>*"
    using topologicalSort_correct [of ?names demo_schemas] dep by blast
  ultimately show ?thesis by (simp add: sort)
qed

section \<open>Go types\<close>

text \<open>Schemas as the YAML decoder makes them: no nil pointers, and no \<open>*Schema\<close> in a field of type any.\<close>

function decoded :: "Schema \<Rightarrow> bool" where
  "decoded s \<longleftrightarrow> sc_AdditionalProperties s = None
     \<and> (\<forall>kp \<in> set (sc_Properties s). case snd kp of None \<Rightarrow> False | Some p \<Rightarrow> decoded p)
     \<and> (case sc_Items s of None \<Rightarrow> True | Some i \<Rightarrow> decoded i)
     \<and> (\<forall>a \<in> set (sc_AllOf s). case a of None \<Rightarrow> False | Some p \<Rightarrow> decoded p)"
  by pat_completeness auto
termination
  by (relation "measure size") (auto dest: schema_sizes)

declare decoded.simps [simp del]

inductive go_type :: "string set \<Rightarrow> string \<Rightarrow> bool" for named :: "string set" where
  builtin: "t \<in> {''string'', ''int'', ''int64'', ''float64'', ''bool'', ''any''} \<Longrightarrow> go_type named t"
| named: "t \<in> named \<Longrightarrow> go_type named t"
| slice: "go_type named t \<Longrightarrow> go_type named (''[]'' @ t)"
| map_of_string: "go_type named t \<Longrightarrow> go_type named (''map[string]'' @ t)"
| pointer: "go_type named t \<Longrightarrow> go_type named (''*'' @ t)"

lemma go_type_mono: "go_type A t \<Longrightarrow> A \<subseteq> B \<Longrightarrow> go_type B t"
proof (induction rule: go_type.induct)
  case (builtin t)
  then show ?case by (intro go_type.builtin)
next
  case (named t)
  then show ?case by (intro go_type.named) blast
next
  case (slice t)
  then show ?case by (intro go_type.slice)
next
  case (map_of_string t)
  then show ?case by (intro go_type.map_of_string)
next
  case (pointer t)
  then show ?case by (intro go_type.pointer)
qed

lemma map_of_typeAliases: "map_of typeAliases r = Some t \<Longrightarrow> t = ''string''"
  by (auto simp: typeAliases_def split: if_splits)

lemma collectRefs_ref: "sc_Ref s \<noteq> [] \<Longrightarrow> refToName (sc_Ref s) \<in> set (collectRefs s)"
  by (subst collectRefs.simps) simp

lemma collectRefs_items: "sc_Items s = Some i \<Longrightarrow> set (collectRefs i) \<subseteq> set (collectRefs s)"
  by (subst (2) collectRefs.simps) auto

lemma collectRefs_all_of: "sc_AllOf s = [Some p] \<Longrightarrow> set (collectRefs p) \<subseteq> set (collectRefs s)"
  by (subst (2) collectRefs.simps) auto

lemma resolve_inner_typed: "decoded s \<Longrightarrow> \<exists>t. resolveGoTypeInner s = Some t \<and> go_type (set (collectRefs s)) t"
proof (induction s rule: measure_induct_rule [of size])
  case (less s)
  have dec: "sc_AdditionalProperties s = None"
    "\<And>i. sc_Items s = Some i \<Longrightarrow> decoded i" "\<And>p. sc_AllOf s = [p] \<Longrightarrow> \<exists>q. p = Some q \<and> decoded q"
    using less.prems by (subst (asm) decoded.simps; auto split: option.splits)+
  show ?case
  proof (cases "\<exists>p. sc_AllOf s = [p]")
    case True
    then obtain q where q: "sc_AllOf s = [Some q]" "decoded q" using dec(3) by blast
    with less.IH [OF size_all_of [OF q(1)]] obtain t
      where "resolveGoTypeInner q = Some t" "go_type (set (collectRefs q)) t" by blast
    with q collectRefs_all_of [OF q(1)] show ?thesis
      by (subst resolveGoTypeInner.simps) (auto intro: go_type_mono)
  next
    case no_wrap: False
    have unwrap: "(case sc_AllOf s of [a] \<Rightarrow> f a | _ \<Rightarrow> r) = r" for f and r :: "string option"
      using no_wrap by (auto split: list.splits)
    show ?thesis
    proof (cases "sc_Ref s = [] \<and> sc_Type s = ''array'' \<and> sc_Items s \<noteq> None")
      case True
      then obtain i where i: "sc_Items s = Some i" "decoded i" using dec(2) by blast
      with less.IH [OF size_items [OF i(1)]] obtain t
        where t: "resolveGoTypeInner i = Some t" "go_type (set (collectRefs i)) t" by blast
      have "resolveGoTypeInner s = Some (''[]'' @ t)"
        using True i t by (subst resolveGoTypeInner.simps) (simp add: unwrap)
      with go_type.slice [OF go_type_mono [OF t(2) collectRefs_items [OF i(1)]]] show ?thesis by blast
    next
      case False
      have b: "go_type N t" if "t \<in> {''string'', ''int'', ''int64'', ''float64'', ''bool'', ''any''}" for N t
        using that by (rule go_type.builtin)
      have any: "go_type N ''[]any''" "go_type N ''map[string]any''" for N
        using go_type.slice [OF b [of "''any''"]] go_type.map_of_string [OF b [of "''any''"]] by simp_all
      have ref: "go_type (set (collectRefs s)) (refToName (sc_Ref s))" if "sc_Ref s \<noteq> []"
        using collectRefs_ref [OF that] by (rule go_type.named)
      have ali: "go_type N t" if "map_of typeAliases r = Some t" for N r t
        using map_of_typeAliases [OF that] by (intro b) simp
      show ?thesis
        using False dec(1) any ref ali b
        by (subst resolveGoTypeInner.simps)
          (simp add: unwrap Let_def shouldSkip_def skipPrefixes_def split: option.split)
    qed
  qed
qed

definition override_types :: "string set" where
  "override_types = set (map snd fieldTypeOverrides)"

text \<open>C25: Every property of a decoded schema gets a Go type, without a panic: one built from the
  basic types, the generator's named enums and the schemas the property refers to. It is a
  pointer only where the specification says nullable or an override asks for one, and such a
  field is always one unless its type is a slice or a map.\<close>

theorem resolveGoType_typed:
  assumes "decoded prop"
  shows "\<exists>t. resolveGoType schemaName fieldName prop = Some t
    \<and> go_type (set (collectRefs prop) \<union> override_types) t
    \<and> (needs_pointer schemaName fieldName prop \<longrightarrow>
         HasPrefix t ''*'' \<or> HasPrefix t ''[]'' \<or> HasPrefix t ''map['')
    \<and> (\<not> needs_pointer schemaName fieldName prop \<longrightarrow>
         map_of fieldTypeOverrides (schemaName, fieldName) = Some t \<or> resolveGoTypeInner prop = Some t)"
proof (cases "map_of fieldTypeOverrides (schemaName, fieldName)")
  case None
  obtain t where t: "resolveGoTypeInner prop = Some t" "go_type (set (collectRefs prop)) t"
    using resolve_inner_typed [OF assms] by blast
  have g: "go_type (set (collectRefs prop) \<union> override_types) t"
    using t(2) by (rule go_type_mono) blast
  with go_type.pointer [OF g] show ?thesis
    by (simp add: resolveGoType_def None t(1)) (simp add: HasPrefix_def)
next
  case (Some t)
  then have "t \<in> override_types" by (force simp: override_types_def dest: map_of_SomeD)
  then have g: "go_type (set (collectRefs prop) \<union> override_types) t" by (intro go_type.named) blast
  with go_type.pointer [OF g] show ?thesis
    by (simp add: resolveGoType_def Some HasPrefix_def)
qed

lemma resolveGoType_typed_witness:
  "resolveGoType ''Event'' ''markets'' (object_schema [])  = Some ''map[string]any''
   \<and> go_type override_types ''map[string]any''"
proof -
  have "decoded (object_schema [])" by (subst decoded.simps) (simp add: object_schema_def)
  moreover have "resolveGoType ''Event'' ''markets'' (object_schema []) = Some ''map[string]any''"
    by (simp add: resolveGoType_def fieldTypeOverrides_def needs_pointer_def nullableOverrides_def
        meaningfulZeroOverrides_def resolveGoTypeInner.simps object_schema_def)
  moreover have "collectRefs (object_schema []) = []" by (simp add: collectRefs.simps object_schema_def)
  ultimately show ?thesis using resolveGoType_typed [of "object_schema []" "''Event''" "''markets''"] by simp
qed

text \<open>The values of \<open>additionalProperties\<close> never shape a type: decoding leaves no \<open>*Schema\<close> there.\<close>

lemma decoded_object_is_any:
  "decoded s \<Longrightarrow> sc_Type s = ''object'' \<Longrightarrow> sc_Ref s = [] \<Longrightarrow> sc_AllOf s = []
     \<Longrightarrow> resolveGoTypeInner s = Some ''map[string]any''"
  by (subst (asm) decoded.simps) (simp add: resolveGoTypeInner.simps)

section \<open>Groups\<close>

text \<open>What storing the first group of every reference amounts to.\<close>

lemma store_group_map:
  "map_of (foldl (store_group g) groups names) n =
     (case map_of groups n of Some g' \<Rightarrow> Some g' | None \<Rightarrow> if n \<in> set names then Some g else None)"
  by (induction names arbitrary: groups) (auto simp: store_group_def update_conv split: option.splits)

lemma store_groups_map:
  "map_of (foldl store_groups groups es) n =
     (case map_of groups n of
        Some g \<Rightarrow> Some g
      | None \<Rightarrow> map_option (\<lambda>e. groupNameFromPath (fst e)) (find (\<lambda>e. n \<in> set (snd e)) es))"
  by (induction es arbitrary: groups) (auto simp: store_groups_def store_group_map split: option.splits)

lemma those_Some: "those xs = Some ys \<longleftrightarrow> xs = map Some ys"
proof (induction xs arbitrary: ys)
  case Nil
  then show ?case by auto
next
  case (Cons x xs)
  then show ?case by (cases ys) (auto split: option.splits)
qed

lemma find_sorted_least:
  assumes "sorted xs" "find P xs = Some x"
  shows "x \<in> set xs \<and> P x \<and> (\<forall>y\<in>set xs. P y \<longrightarrow> x \<le> y)"
  using assms by (induction xs) (auto split: if_splits)

lemma find_of_map: "find P (map f xs) = map_option f (find (\<lambda>x. P (f x)) xs)"
  by (induction xs) auto

definition refs_of_path :: "Spec \<Rightarrow> string \<Rightarrow> string list" where
  "refs_of_path spec path = the (path_refs (the (map_of (spec_Paths spec) path)))"

lemma those_pairs:
  "those (map (\<lambda>p. map_option (Pair p) (f p)) ps) = Some es \<Longrightarrow> es = map (\<lambda>p. (p, the (f p))) ps"
proof (induction ps arbitrary: es)
  case (Cons p ps)
  then show ?case by (cases "f p") (auto split: option.splits)
qed simp

text \<open>A schema that request or response bodies refer to belongs to the group of the least
  path, in byte order, that has such a body; other schemas have no group. The outcome does
  not depend on the order of the maps.\<close>

lemma buildSchemaGroups_least_path:
  assumes "buildSchemaGroups spec = Some groups"
  shows "map_of groups name = Some g \<longleftrightarrow>
    (\<exists>path \<in> fst ` set (spec_Paths spec). name \<in> set (refs_of_path spec path) \<and> g = groupNameFromPath path
       \<and> (\<forall>path' \<in> fst ` set (spec_Paths spec). name \<in> set (refs_of_path spec path') \<longrightarrow> path \<le> path'))"
proof -
  let ?keys = "sortedKeys (spec_Paths spec)" and ?P = "\<lambda>p. name \<in> set (refs_of_path spec p)"
  have keys: "set ?keys = fst ` set (spec_Paths spec)" "sorted ?keys" by (simp_all add: sortedKeys_def)
  obtain es where "those (map (\<lambda>path. map_option (Pair path) (path_refs (the (map_of (spec_Paths spec) path)))) ?keys) = Some es"
    and groups: "groups = foldl store_groups [] es"
    using assms by (auto simp: buildSchemaGroups_def)
  then have "es = map (\<lambda>p. (p, refs_of_path spec p)) ?keys"
    by (auto simp: refs_of_path_def dest: those_pairs)
  then have "map_of groups name = map_option groupNameFromPath (find ?P ?keys)"
    by (simp add: groups store_groups_map find_of_map comp_def option.map_comp)
  then have m: "map_of groups name = Some g \<longleftrightarrow> (\<exists>p. find ?P ?keys = Some p \<and> g = groupNameFromPath p)"
    by auto
  have iff: "find ?P ?keys = Some p \<longleftrightarrow> p \<in> set ?keys \<and> ?P p \<and> (\<forall>q\<in>set ?keys. ?P q \<longrightarrow> p \<le> q)" for p
  proof
    assume "find ?P ?keys = Some p"
    then show "p \<in> set ?keys \<and> ?P p \<and> (\<forall>q\<in>set ?keys. ?P q \<longrightarrow> p \<le> q)"
      using find_sorted_least [OF keys(2)] by blast
  next
    assume p: "p \<in> set ?keys \<and> ?P p \<and> (\<forall>q\<in>set ?keys. ?P q \<longrightarrow> p \<le> q)"
    then obtain q where q: "find ?P ?keys = Some q" by (metis find_None_iff not_None_eq)
    from find_sorted_least [OF keys(2) q] p have "p = q" by (meson order_antisym)
    with q show "find ?P ?keys = Some p" by simp
  qed
  show ?thesis unfolding m iff keys(1) Bex_def by (intro iff_exI) auto
qed

definition demo_operation :: "string \<Rightarrow> Operation" where
  "demo_operation ref =
     \<lparr>op_OperationID = [], op_Summary = [], op_Description = [], op_RequestBody = None,
      op_Responses = [(''200'', Some \<lparr>rd_Content =
        [(''application/json'', Some \<lparr>mt_Schema = Some (ref_schema ref)\<rparr>)]\<rparr>)]\<rparr>"

definition demo_spec :: Spec where
  "demo_spec =
     \<lparr>spec_Schemas = [],
      spec_Paths = [(''/portfolio/fills'', [(''get'', Some (demo_operation ''#/GetFillsResponse''))]),
                    (''/historical/fills'', [(''get'', Some (demo_operation ''#/GetFillsResponse''))])]\<rparr>"

lemma buildSchemaGroups_least_path_witness:
  "\<exists>groups. buildSchemaGroups demo_spec = Some groups
     \<and> map_of groups ''GetFillsResponse'' = Some ''Historical''"
proof -
  have keys: "sortedKeys (spec_Paths demo_spec) = [''/historical/fills'', ''/portfolio/fills'']" by code_simp
  have refs: "path_refs (the (map_of (spec_Paths demo_spec) ''/historical/fills'')) = Some [''GetFillsResponse'']"
    "path_refs (the (map_of (spec_Paths demo_spec) ''/portfolio/fills'')) = Some [''GetFillsResponse'']"
    by code_simp+
  obtain groups where g: "buildSchemaGroups demo_spec = Some groups"
    by (simp add: buildSchemaGroups_def keys refs)
  have "groupNameFromPath ''/historical/fills'' = ''Historical''" by code_simp
  moreover have "fst ` set (spec_Paths demo_spec) = {''/historical/fills'', ''/portfolio/fills''}"
    by (auto simp: demo_spec_def)
  moreover have "''/historical/fills'' \<le> ''/portfolio/fills''" by code_simp
  moreover have "refs_of_path demo_spec ''/historical/fills'' = [''GetFillsResponse'']"
    by (simp add: refs_of_path_def refs)
  ultimately show ?thesis
    using g buildSchemaGroups_least_path [OF g, of "''GetFillsResponse''" "''Historical''"] by simp
qed

section \<open>The generated file\<close>

lemma before_filterI: "before xs a b \<Longrightarrow> P a \<Longrightarrow> P b \<Longrightarrow> before (filter P xs) a b"
  unfolding before_def by fastforce

lemma before_Cons: "before (x # xs) a b \<longleftrightarrow> (x = a \<and> b \<in> set xs) \<or> before xs a b"
proof
  assume "before (x # xs) a b"
  then obtain us vs where "x # xs = us @ b # vs" "a \<in> set us" by (auto simp: before_def)
  then show "(x = a \<and> b \<in> set xs) \<or> before xs a b"
    by (cases us) (auto simp: before_def)
next
  assume "(x = a \<and> b \<in> set xs) \<or> before xs a b"
  then show "before (x # xs) a b"
  proof
    assume "x = a \<and> b \<in> set xs"
    then obtain us vs where "x # xs = (x # us) @ b # vs" "a \<in> set (x # us)" by (auto dest: split_list)
    then show ?thesis unfolding before_def by blast
  next
    assume "before xs a b"
    then obtain us vs where "x # xs = (x # us) @ b # vs" "a \<in> set (x # us)" by (auto simp: before_def)
    then show ?thesis unfolding before_def by blast
  qed
qed

lemma before_filterD: "before (filter P xs) a b \<Longrightarrow> before xs a b"
  by (induction xs) (auto simp: before_Cons split: if_splits)

lemma before_sort_key:
  assumes "before xs a b" "f a = f b"
  shows "before (sort_key f xs) a b"
proof -
  have "before (filter (\<lambda>x. f x = f b) xs) a b" using assms by (intro before_filterI) auto
  then have "before (filter (\<lambda>x. f x = f b) (sort_key f xs)) a b"
    using sort_key_stable [of f "f b" xs] by simp
  then show ?thesis by (rule before_filterD)
qed

text \<open>The part of the file that a name accounts for: its group's banner, if any, and its declaration.\<close>

definition part_of :: "string smap \<Rightarrow> schemas \<Rightarrow> string \<Rightarrow> string \<Rightarrow> bool" where
  "part_of groups ss name part \<longleftrightarrow>
     (\<exists>banner block. part = banner @ block \<and> banner \<in> {[], group_banner (groupOf groups name)}
        \<and> (case schema_of ss name of None \<Rightarrow> block = [] | Some s \<Rightarrow> object_block name s = Some block))"

lemma objects_loop_parts:
  "objects_loop groups ss cur names = Some out \<Longrightarrow>
     \<exists>parts. out = concat parts \<and> list_all2 (part_of groups ss) names parts"
proof (induction names arbitrary: cur out)
  case Nil
  then show ?case by simp
next
  case (Cons n names)
  let ?g = "groupOf groups n"
  let ?b = "if ?g \<noteq> cur then group_banner ?g else []"
  obtain block rest where o: "out = ?b @ block @ rest" "objects_loop groups ss ?g names = Some rest"
    and blk: "case schema_of ss n of None \<Rightarrow> block = [] | Some s \<Rightarrow> object_block n s = Some block"
    using Cons.prems by (auto simp: Let_def split: option.splits)
  from Cons.IH [OF o(2)] obtain parts where p: "rest = concat parts" "list_all2 (part_of groups ss) names parts"
    by blast
  have "part_of groups ss n (?b @ block)"
    unfolding part_of_def using blk by (intro exI [of _ ?b] exI [of _ block]) simp
  with p o(1) show ?case by (intro exI [of _ "(?b @ block) # parts"]) simp
qed

text \<open>The generated file is the header followed by one part for each schema, in an order that
  lists every schema once, the groups in byte order, and within a group every schema after
  those it refers to, unless they refer back to it.\<close>

lemma generateObjects_order:
  assumes "generateObjects names ss groups snap = Some out"
  shows "\<exists>order parts. out = fileHeader snap @ ''package gokalshi'' @ nl @ nl @ concat parts
    \<and> list_all2 (part_of groups ss) order parts
    \<and> distinct order \<and> set order = set names \<and> sorted (map (groupOf groups) order)
    \<and> (\<forall>(n, d) \<in> depends (dep_graph names ss). groupOf groups d = groupOf groups n \<longrightarrow>
         before order d n \<or> (d, n) \<in> (depends (dep_graph names ss))\<^sup>*)"
proof -
  let ?order = "declaration_order names ss groups" and ?R = "depends (dep_graph names ss)"
  obtain rest where out: "out = fileHeader snap @ ''package gokalshi'' @ nl @ nl @ rest"
    "objects_loop groups ss [] ?order = Some rest"
    using assms by (auto simp: generateObjects_def)
  from objects_loop_parts [OF out(2)] obtain parts
    where parts: "rest = concat parts" "list_all2 (part_of groups ss) ?order parts" by blast
  have "before ?order d n \<or> (d, n) \<in> ?R\<^sup>*"
    if nd: "(n, d) \<in> ?R" "groupOf groups d = groupOf groups n" for n d
  proof -
    have "n \<in> set (topologicalSort names ss)"
      using nd(1) by (auto simp: depends_def dep_graph_def topologicalSort_facts)
    then have "before (topologicalSort names ss) d n \<or> (d, n) \<in> ?R\<^sup>*"
      using nd(1) topologicalSort_facts(3) [of names ss] by (auto simp: in_dep_order_def)
    then show ?thesis
      unfolding declaration_order_def using before_sort_key [where f = "groupOf groups"] nd(2) by blast
  qed
  moreover have "distinct ?order" "set ?order = set names" "sorted (map (groupOf groups) ?order)"
    by (simp_all add: declaration_order_def topologicalSort_facts)
  ultimately show ?thesis using out(1) parts
    by (intro exI [of _ ?order] exI [of _ parts]) auto
qed

definition demo_snapshot :: Snapshot where
  "demo_snapshot = zero_Snapshot\<lparr>sn_FetchedAt := ''today''\<rparr>"

lemma generateObjects_order_witness:
  "\<exists>out. generateObjects [''Fill''] demo_schemas [(''Fill'', ''Portfolio'')] demo_snapshot = Some out
     \<and> (\<exists>part. out = fileHeader demo_snapshot @ ''package gokalshi'' @ nl @ nl @ part
          \<and> part_of [(''Fill'', ''Portfolio'')] demo_schemas ''Fill'' part)"
proof -
  let ?gen = "generateObjects [''Fill''] demo_schemas [(''Fill'', ''Portfolio'')] demo_snapshot"
  have "topologicalSort [''Fill''] demo_schemas = [''Fill'']"
    by (simp add: topologicalSort_def deps_of_def demo_schemas_def schema_of_def object_schema_def
        collectRefs.simps mark_done_def)
  then have "?gen \<noteq> None"
    by (simp add: generateObjects_def declaration_order_def demo_schemas_def schema_of_def object_schema_def
        object_block_def struct_block_def Let_def)
  then obtain out where g: "?gen = Some out" by blast
  from generateObjects_order [OF g] obtain order parts where
    o: "out = fileHeader demo_snapshot @ ''package gokalshi'' @ nl @ nl @ concat parts"
    "list_all2 (part_of [(''Fill'', ''Portfolio'')] demo_schemas) order parts" "distinct order" "set order = {''Fill''}"
    by auto
  have "order = [''Fill'']"
  proof (cases order)
    case (Cons x xs)
    with o(3,4) have "x = ''Fill''" "set xs \<subseteq> {''Fill''}" "''Fill'' \<notin> set xs" by auto
    with Cons show ?thesis by (cases xs) auto
  qed (use o(4) in simp)
  with o(2) obtain part where "parts = [part]" "part_of [(''Fill'', ''Portfolio'')] demo_schemas ''Fill'' part"
    by (auto simp: list_all2_Cons1)
  with o(1) g show ?thesis by auto
qed

text \<open>A description never breaks out of its comment line.\<close>

lemma collapse_no_newline: "c \<in> set (collapse_spaces r s) \<Longrightarrow> \<not> re_space c \<or> c = CHR '' ''"
  by (induction r s rule: collapse_spaces.induct) (auto split: if_splits)

lemma cleanDescription_one_line:
  "c \<in> set (cleanDescription s) \<Longrightarrow> c \<noteq> CHR 0x0A \<and> c \<noteq> CHR 0x0D"
  by (auto simp: cleanDescription_def Let_def re_space_def dest!: collapse_no_newline)

end
