(* ===== verification/GenTypesFile.thy ===== *)
theory GenTypesFile
  imports GenProps
begin

text \<open>
  The whole text of \<open>types_generated.go\<close> as a function of the specification, and that it does not
  depend on the order in which Go visits its maps: not the maps of schemas, of paths and of
  operations, and not the properties of any schema, however deep.
\<close>

section \<open>The file\<close>

definition types_file :: "Spec \<Rightarrow> Snapshot \<Rightarrow> string option" where
  "types_file spec snap =
     (case categorize (spec_Schemas spec) of
        None \<Rightarrow> None
      | Some (enums, objects) \<Rightarrow> (case buildSchemaGroups spec of
          None \<Rightarrow> None
        | Some groups \<Rightarrow> generateObjects objects (spec_Schemas spec) groups snap))"

section \<open>Maps listed in different orders\<close>

definition same_map :: "('a \<Rightarrow> 'b \<Rightarrow> bool) \<Rightarrow> 'a smap \<Rightarrow> 'b smap \<Rightarrow> bool" where
  "same_map R m m' \<longleftrightarrow> distinct_keys m \<and> distinct_keys m' \<and> (\<forall>k. rel_option R (map_of m k) (map_of m' k))"

lemma same_map_mono [mono]:
  "(\<And>a b. R a b \<longrightarrow> S a b) \<Longrightarrow> same_map R m m' \<longrightarrow> same_map S m m'"
  unfolding same_map_def by (blast intro: option.rel_mono_strong)

lemma same_map_keys: "same_map R m m' \<Longrightarrow> fst ` set m = fst ` set m'"
  unfolding same_map_def dom_map_of_conv_image_fst [symmetric] dom_def
  by (metis (no_types) option.rel_distinct(1,2) option.exhaust)

lemma sort_same_set:
  fixes xs ys :: "'a::linorder list"
  assumes "set xs = set ys" "distinct xs" "distinct ys"
  shows "sort xs = sort ys"
  using assms by (metis set_eq_iff_mset_eq_distinct properties_for_sort sorted_sort mset_sort)

lemma same_map_sortedKeys: "same_map R m m' \<Longrightarrow> sortedKeys m = sortedKeys m'"
  unfolding sortedKeys_def using same_map_keys [of R m m']
  by (intro sort_same_set) (auto simp: same_map_def distinct_keys_def)

lemma same_map_at: "same_map R m m' \<Longrightarrow> k \<in> set (sortedKeys m) \<Longrightarrow> R (the (map_of m k)) (the (map_of m' k))"
proof -
  assume s: "same_map R m m'" and "k \<in> set (sortedKeys m)"
  then obtain a where "map_of m k = Some a" by (auto simp: sortedKeys_def dest: weak_map_of_SomeI)
  then show ?thesis using s unfolding same_map_def by (metis option.rel_sel option.distinct(1))
qed

text \<open>A walk over the sorted keys of a map gives the same for both.\<close>

lemma same_map_walk:
  assumes "same_map R m m'" and "\<And>k a b. k \<in> fst ` set m \<Longrightarrow> R a b \<Longrightarrow> f k a = g k b"
  shows "map (\<lambda>k. f k (the (map_of m k))) (sortedKeys m) = map (\<lambda>k. g k (the (map_of m' k))) (sortedKeys m')"
  unfolding same_map_sortedKeys [OF assms(1), symmetric]
  by (rule map_cong [OF refl]) (use assms same_map_at [OF assms(1)] in \<open>auto simp: sortedKeys_def\<close>)

lemma same_map_Nil: "same_map R m m' \<Longrightarrow> m = [] \<longleftrightarrow> m' = []"
  using same_map_keys by fastforce

inductive same_schema :: "Schema \<Rightarrow> Schema \<Rightarrow> bool" where
  "\<lbrakk>same_map (rel_option same_schema) ps ps'; rel_option same_schema it it';
    list_all2 (rel_option same_schema) ao ao'; rel_option (rel_option same_schema) ap ap'\<rbrakk>
   \<Longrightarrow> same_schema (Schema ty fo de en ps re it rf ao nu dp ap) (Schema ty fo de en ps' re it' rf ao' nu dp ap')"

inductive_cases same_schemaE: "same_schema s s'"

section \<open>Schemas\<close>

lemma same_schema_sel:
  assumes "same_schema s s'"
  shows "sc_Type s' = sc_Type s" "sc_Format s' = sc_Format s" "sc_Description s' = sc_Description s"
    "sc_Enum s' = sc_Enum s" "sc_Required s' = sc_Required s" "sc_Ref s' = sc_Ref s"
    "sc_Nullable s' = sc_Nullable s" "sc_Deprecated s' = sc_Deprecated s"
    "same_map (rel_option same_schema) (sc_Properties s) (sc_Properties s')"
    "rel_option same_schema (sc_Items s) (sc_Items s')"
    "list_all2 (rel_option same_schema) (sc_AllOf s) (sc_AllOf s')"
    "rel_option (rel_option same_schema) (sc_AdditionalProperties s) (sc_AdditionalProperties s')"
  using assms by (auto elim: same_schemaE)

text \<open>Types and references do not depend on the order of the properties.\<close>

lemma same_resolve_inner: "same_schema s s' \<Longrightarrow> resolveGoTypeInner s' = resolveGoTypeInner s"
proof (induction s arbitrary: s' rule: measure_induct_rule [of size])
  case (less s)
  note sel = same_schema_sel [OF less.prems]
  have items: "resolveGoTypeInner i' = resolveGoTypeInner i"
    if "sc_Items s = Some i" "sc_Items s' = Some i'" for i i'
    using sel(10) that less.IH [OF size_items [OF that(1)]] by simp
  have add: "resolveGoTypeInner i' = resolveGoTypeInner i"
    if "sc_AdditionalProperties s = Some (Some i)" "sc_AdditionalProperties s' = Some (Some i')" for i i'
    using sel(12) that less.IH [OF size_additional [OF that(1)]] by simp
  show ?case
  proof (cases "\<exists>o1. sc_AllOf s = [o1]")
    case True
    then obtain o1 where o1: "sc_AllOf s = [o1]" by blast
    then obtain o2 where o2: "sc_AllOf s' = [o2]" "rel_option same_schema o1 o2"
      using sel(11) by (auto simp: list_all2_Cons1)
    show ?thesis
    proof (cases o1)
      case None
      with o2 show ?thesis by (simp add: resolveGoTypeInner.simps [of s] resolveGoTypeInner.simps [of s'] o1)
    next
      case (Some i)
      then obtain i' where i': "o2 = Some i'" "same_schema i i'" using o2(2) by (auto simp: option_rel_Some1)
      have "resolveGoTypeInner i' = resolveGoTypeInner i"
        by (rule less.IH [OF size_all_of i'(2)]) (simp add: o1 Some)
      then show ?thesis
        by (simp add: resolveGoTypeInner.simps [of s] resolveGoTypeInner.simps [of s'] o1 o2 Some i')
    qed
  next
    case False
    have len: "length (sc_AllOf s') = length (sc_AllOf s)" using sel(11) by (simp add: list_all2_lengthD)
    have no: "\<nexists>o2. sc_AllOf s' = [o2]"
    proof
      assume "\<exists>o2. sc_AllOf s' = [o2]"
      then have "length (sc_AllOf s) = 1" using len by auto
      then show False using False by (auto simp: length_Suc_conv)
    qed
    have skip: "(case xs of [x] \<Rightarrow> f x | _ \<Rightarrow> y) = y" if "\<nexists>x. xs = [x]" for xs :: "Schema option list" and f and y :: "string option"
      using that by (auto split: list.splits)
    have it: "(case sc_Items s' of Some i \<Rightarrow> map_option g (resolveGoTypeInner i) | None \<Rightarrow> z)
        = (case sc_Items s of Some i \<Rightarrow> map_option g (resolveGoTypeInner i) | None \<Rightarrow> z)" for g :: "string \<Rightarrow> string" and z
      using sel(10) items by (auto simp: rel_option_iff split: option.splits)
    have ad: "(case sc_AdditionalProperties s' of Some (Some a) \<Rightarrow> map_option g (resolveGoTypeInner a) | _ \<Rightarrow> z)
        = (case sc_AdditionalProperties s of Some (Some a) \<Rightarrow> map_option g (resolveGoTypeInner a) | _ \<Rightarrow> z)" for g :: "string \<Rightarrow> string" and z
      using sel(12) add by (auto simp: rel_option_iff split: option.splits)
    show ?thesis
      unfolding resolveGoTypeInner.simps [of s] resolveGoTypeInner.simps [of s'] skip [OF False] skip [OF no] it ad
      by (simp only: sel)
  qed
qed

lemma same_resolve: "same_schema s s' \<Longrightarrow> resolveGoType n k s' = resolveGoType n k s"
  unfolding resolveGoType_def needs_pointer_def by (simp only: same_resolve_inner same_schema_sel)

fun refs_opt :: "Schema option \<Rightarrow> string list" where
  "refs_opt None = []"
| "refs_opt (Some s) = collectRefs s"

lemma collectRefs_set:
  "set (collectRefs s) = (if sc_Ref s \<noteq> [] then {refToName (sc_Ref s)} else {})
     \<union> (\<Union>v \<in> snd ` set (sc_Properties s). set (refs_opt v)) \<union> set (refs_opt (sc_Items s))
     \<union> (\<Union>a \<in> set (sc_AllOf s). set (refs_opt a))"
proof -
  have "(case x of None \<Rightarrow> [] | Some p \<Rightarrow> collectRefs p) = refs_opt x" for x by (cases x) simp_all
  then show ?thesis by (subst collectRefs.simps) (auto simp: image_image)
qed

lemma same_map_values:
  assumes "same_map R m m'" and "\<And>a b. a \<in> snd ` set m \<Longrightarrow> R a b \<Longrightarrow> f a = g b"
  shows "f ` snd ` set m = g ` snd ` set m'"
proof -
  have d: "distinct (map fst m)" "distinct (map fst m')" using assms(1) by (simp_all add: same_map_def distinct_keys_def)
  have r: "rel_option R (map_of m k) (map_of m' k)" for k using assms(1) by (simp add: same_map_def)
  have "\<exists>b. (k, b) \<in> set m' \<and> f a = g b" if "(k, a) \<in> set m" for k a
  proof -
    have "map_of m k = Some a" using that d by simp
    then obtain b where "map_of m' k = Some b" "R a b" using r [of k] by (auto simp: option_rel_Some1)
    then show ?thesis using assms(2) [of a b] that by (force dest: map_of_SomeD)
  qed
  moreover have "\<exists>a. (k, a) \<in> set m \<and> f a = g b" if "(k, b) \<in> set m'" for k b
  proof -
    have "map_of m' k = Some b" using that d by simp
    then obtain a where a: "map_of m k = Some a" "R a b" using r [of k] by (auto simp: option_rel_Some2)
    then have "(k, a) \<in> set m" by (simp add: map_of_SomeD)
    then show ?thesis using assms(2) [of a b] a by force
  qed
  ultimately show ?thesis by (force simp: image_iff)
qed

lemma same_walk:
  "list_all2 R xs ys \<Longrightarrow> (\<And>a b. a \<in> set xs \<Longrightarrow> R a b \<Longrightarrow> f a = g b) \<Longrightarrow> map f xs = map g ys"
  by (induction rule: list_all2_induct) auto

lemma same_refs: "same_schema s s' \<Longrightarrow> set (collectRefs s') = set (collectRefs s)"
proof (induction s arbitrary: s' rule: measure_induct_rule [of size])
  case (less s)
  note sel = same_schema_sel [OF less.prems]
  have step: "set (refs_opt b) = set (refs_opt a)"
    if "rel_option same_schema a b" "\<And>x. a = Some x \<Longrightarrow> size x < size s" for a b
    using that less.IH by (cases a; cases b) auto
  have "(set \<circ> refs_opt) ` snd ` set (sc_Properties s) = (set \<circ> refs_opt) ` snd ` set (sc_Properties s')"
    by (rule same_map_values [OF sel(9)]) (auto intro!: step [symmetric] dest: size_property)
  moreover have "set (refs_opt (sc_Items s')) = set (refs_opt (sc_Items s))"
    by (rule step [OF sel(10)]) (rule size_items)
  moreover have "(\<Union>a \<in> set (sc_AllOf s'). set (refs_opt a)) = (\<Union>a \<in> set (sc_AllOf s). set (refs_opt a))"
  proof -
    have "map (set \<circ> refs_opt) (sc_AllOf s) = map (set \<circ> refs_opt) (sc_AllOf s')"
      by (rule same_walk [OF sel(11)]) (auto intro!: step [symmetric] dest: size_all_of_in)
    then have "(set \<circ> refs_opt) ` set (sc_AllOf s) = (set \<circ> refs_opt) ` set (sc_AllOf s')"
      by (simp only: set_map [symmetric])
    then show ?thesis by (simp add: comp_def)
  qed
  ultimately show ?case unfolding collectRefs_set [of s] collectRefs_set [of s'] by (simp add: sel image_image)
qed

section \<open>Declarations\<close>

lemma same_map_walk_in:
  assumes "same_map R m m'" and "\<And>k a b. R a b \<Longrightarrow> f k a = f k b"
  shows "map (\<lambda>k. f k (the (map_of m' k))) (sortedKeys m') = map (\<lambda>k. f k (the (map_of m k))) (sortedKeys m)"
  by (rule same_map_walk [OF assms(1), symmetric]) (rule assms(2))

lemma same_field_lines: "rel_option same_schema a b \<Longrightarrow> field_lines n req (k, a) = field_lines n req (k, b)"
proof (cases a)
  case (Some x)
  assume "rel_option same_schema a b"
  then obtain y where b: "b = Some y" "same_schema x y" using Some by (auto simp: option_rel_Some1)
  show ?thesis
    unfolding Some b(1) field_lines_def prod.case option.case same_resolve [OF b(2)] same_schema_sel [OF b(2)] ..
qed simp

lemma same_struct_block: "same_schema s s' \<Longrightarrow> struct_block n s' = struct_block n s"
proof -
  assume s: "same_schema s s'"
  note sel = same_schema_sel [OF s]
  have walk: "map (\<lambda>k. field_lines n (sc_Required s) (k, the (map_of (sc_Properties s') k))) (sortedKeys (sc_Properties s'))
      = map (\<lambda>k. field_lines n (sc_Required s) (k, the (map_of (sc_Properties s) k))) (sortedKeys (sc_Properties s))"
    by (rule same_map_walk_in [OF sel(9), where f = "\<lambda>k p. field_lines n (sc_Required s) (k, p)"])
      (rule same_field_lines)
  show ?thesis
    unfolding struct_block_def doc_comment_def Let_def sel(1-8) walk same_map_Nil [OF sel(9), symmetric] ..
qed

lemma same_object_block: "same_schema s s' \<Longrightarrow> object_block n s' = object_block n s"
proof -
  assume s: "same_schema s s'"
  note sel = same_schema_sel [OF s]
  have items: "sc_Items s' = None \<longleftrightarrow> sc_Items s = None" using sel(10) by (auto simp: rel_option_iff split: option.splits)
  have inner: "resolveGoTypeInner (the (sc_Items s')) = resolveGoTypeInner (the (sc_Items s))" if "sc_Items s \<noteq> None"
  proof -
    obtain i i' where i: "sc_Items s = Some i" "sc_Items s' = Some i'" "same_schema i i'"
      using sel(10) \<open>sc_Items s \<noteq> None\<close> by (auto simp: option_rel_Some1)
    show ?thesis unfolding i(1,2) option.sel by (rule same_resolve_inner [OF i(3)])
  qed
  note eqs = object_block_def doc_comment_def same_struct_block [OF s] same_resolve_inner [OF s] items sel(1-8)
    same_map_Nil [OF sel(9), symmetric]
  show ?thesis
  proof (cases "sc_Items s = None")
    case True
    then show ?thesis unfolding eqs by simp
  next
    case False
    show ?thesis unfolding eqs inner [OF False] ..
  qed
qed

lemma same_schema_of:
  "same_map (rel_option same_schema) ss ss' \<Longrightarrow> rel_option same_schema (schema_of ss n) (schema_of ss' n)"
proof -
  assume "same_map (rel_option same_schema) ss ss'"
  then have "rel_option (rel_option same_schema) (map_of ss n) (map_of ss' n)" by (simp add: same_map_def)
  then show ?thesis by (auto simp: schema_of_def rel_option_iff split: option.splits)
qed

lemma same_objects_loop:
  assumes "same_map (rel_option same_schema) ss ss'"
  shows "objects_loop groups ss' cur names = objects_loop groups ss cur names"
proof (induction names arbitrary: cur)
  case (Cons n names)
  show ?case
    using same_schema_of [OF assms, of n] Cons
    by (cases "schema_of ss n"; cases "schema_of ss' n") (auto simp: Let_def same_object_block split: option.splits)
qed simp

lemma same_deps:
  assumes "same_map (rel_option same_schema) ss ss'"
  shows "deps_of names ss' = deps_of names ss"
proof
  fix n
  have "set (case schema_of ss' n of None \<Rightarrow> [] | Some s \<Rightarrow> collectRefs s)
      = set (case schema_of ss n of None \<Rightarrow> [] | Some s \<Rightarrow> collectRefs s)"
    using same_schema_of [OF assms, of n] by (auto simp: rel_option_iff same_refs split: option.splits)
  then show "deps_of names ss' n = deps_of names ss n"
    unfolding deps_of_def by (auto intro!: sort_same_set)
qed

text \<open>Which schemas are enumerations, and which are objects.\<close>

lemma sort_keys_same:
  assumes m: "same_map R m m'" and P: "\<And>k a b. k \<in> fst ` set m \<Longrightarrow> R a b \<Longrightarrow> P (k, a) = P (k, b)"
  shows "sort (map fst (filter P m')) = sort (map fst (filter P m))"
proof (rule sort_same_set)
  have d: "distinct (map fst m)" "distinct (map fst m')" and r: "\<And>k. rel_option R (map_of m k) (map_of m' k)"
    using m by (simp_all add: same_map_def distinct_keys_def)
  have "k \<in> fst ` set (filter P m') \<longleftrightarrow> k \<in> fst ` set (filter P m)" for k
  proof -
    have "k \<in> fst ` set (filter P n) \<longleftrightarrow> (\<exists>a. map_of n k = Some a \<and> P (k, a))" if "distinct (map fst n)" for n
      using that by (force simp: image_iff)
    moreover have "(\<exists>a. map_of m' k = Some a \<and> P (k, a)) \<longleftrightarrow> (\<exists>a. map_of m k = Some a \<and> P (k, a))"
    proof (cases "map_of m k")
      case (Some a)
      then obtain b where "map_of m' k = Some b" "R a b" using r [of k] by (auto simp: option_rel_Some1)
      moreover have "k \<in> fst ` set m" using Some by (force dest: map_of_SomeD)
      ultimately show ?thesis using Some P by simp
    qed (use r [of k] in simp)
    ultimately show ?thesis using d by simp
  qed
  then show "set (map fst (filter P m')) = set (map fst (filter P m))" by auto
  show "distinct (map fst (filter P m'))" "distinct (map fst (filter P m))"
    using d by (simp_all add: distinct_map_filter)
qed

lemma same_categorize:
  assumes "same_map (rel_option same_schema) ss ss'"
  shows "categorize ss' = categorize ss"
proof -
  let ?keep = "\<lambda>e :: string \<times> Schema option. \<not> shouldSkip (fst e) \<and> map_of typeAliases (fst e) = None \<and> \<not> isParameterSchema (fst e)"
  let ?enum = "\<lambda>e :: string \<times> Schema option. sc_Type (the (snd e)) = ''string'' \<and> length (sc_Enum (the (snd e))) > 0"
  have norm: "categorize m = (if None \<in> snd ` set (filter ?keep m) then None
      else Some (sort (map fst (filter (\<lambda>e. ?keep e \<and> ?enum e) m)), sort (map fst (filter (\<lambda>e. ?keep e \<and> \<not> ?enum e) m))))" for m
  proof -
    have "(\<lambda>(name, s). \<not> shouldSkip name \<and> map_of typeAliases name = None \<and> \<not> isParameterSchema name) = ?keep"
      "(\<lambda>(name, s). sc_Type (the s) = ''string'' \<and> length (sc_Enum (the s)) > 0) = ?enum"
      "(\<lambda>(name, s). \<not> (sc_Type (the s) = ''string'' \<and> length (sc_Enum (the s)) > 0)) = (\<lambda>e. \<not> ?enum e)"
      by (auto simp: fun_eq_iff)
    moreover have "list_ex (\<lambda>(name, s). s = None) xs \<longleftrightarrow> None \<in> snd ` set xs" for xs :: schemas
      by (force simp: list_ex_iff)
    ultimately show ?thesis by (simp add: categorize_def Let_def conj_commute)
  qed
  have R: "rel_option same_schema a b \<Longrightarrow> ?enum (k, a) = ?enum (k, b)" for k a b
    by (cases a; cases b) (auto simp: same_schema_sel)
  have "None \<in> snd ` set (filter ?keep ss') \<longleftrightarrow> None \<in> snd ` set (filter ?keep ss)"
  proof -
    have at: "None \<in> snd ` set (filter ?keep m) \<longleftrightarrow> (\<exists>k. (k, None) \<in> set m \<and> ?keep (k, None))" for m :: schemas
      by (force simp: image_iff)
    have "(k, None) \<in> set ss' \<longleftrightarrow> (k, None) \<in> set ss" for k
    proof -
      have "rel_option (rel_option same_schema) (map_of ss k) (map_of ss' k)" "distinct_keys ss" "distinct_keys ss'"
        using assms by (simp_all add: same_map_def)
      then show ?thesis unfolding set_distinct_map_of [OF \<open>distinct_keys ss\<close>] set_distinct_map_of [OF \<open>distinct_keys ss'\<close>]
        by (auto simp: rel_option_iff simp del: map_of_eq_Some_iff split: option.splits)
    qed
    then show ?thesis unfolding at by simp
  qed
  moreover have "sort (map fst (filter (\<lambda>e. ?keep e \<and> ?enum e) ss')) = sort (map fst (filter (\<lambda>e. ?keep e \<and> ?enum e) ss))"
    by (rule sort_keys_same [OF assms]) (use R in auto)
  moreover have "sort (map fst (filter (\<lambda>e. ?keep e \<and> \<not> ?enum e) ss')) = sort (map fst (filter (\<lambda>e. ?keep e \<and> \<not> ?enum e) ss))"
    by (rule sort_keys_same [OF assms]) (use R in auto)
  ultimately show ?thesis unfolding norm by simp
qed

section \<open>Operations and paths\<close>

text \<open>
  The same bodies and responses; what else the operations hold does not reach the file.
\<close>

definition same_media :: "MediaType \<Rightarrow> MediaType \<Rightarrow> bool" where
  "same_media a b \<longleftrightarrow> rel_option same_schema (mt_Schema a) (mt_Schema b)"

definition same_body :: "RequestBody \<Rightarrow> RequestBody \<Rightarrow> bool" where
  "same_body a b \<longleftrightarrow> same_map (rel_option same_media) (rb_Content a) (rb_Content b)"

definition same_response :: "ResponseDef \<Rightarrow> ResponseDef \<Rightarrow> bool" where
  "same_response a b \<longleftrightarrow> same_map (rel_option same_media) (rd_Content a) (rd_Content b)"

definition same_operation :: "Operation \<Rightarrow> Operation \<Rightarrow> bool" where
  "same_operation a b \<longleftrightarrow> rel_option same_body (op_RequestBody a) (op_RequestBody b)
     \<and> same_map (rel_option same_response) (op_Responses a) (op_Responses b)"

definition same_spec :: "Spec \<Rightarrow> Spec \<Rightarrow> bool" where
  "same_spec a b \<longleftrightarrow> same_map (rel_option same_schema) (spec_Schemas a) (spec_Schemas b)
     \<and> same_map (same_map (rel_option same_operation)) (spec_Paths a) (spec_Paths b)"

lemma same_media_refs: "rel_option same_media a b \<Longrightarrow> media_refs b = media_refs a"
  by (cases a; cases b)
    (auto simp: media_refs_def same_media_def rel_option_iff same_schema_sel split: option.splits)

lemma same_content_refs: "same_map (rel_option same_media) a b \<Longrightarrow> content_refs b = content_refs a"
  unfolding content_refs_def
  using same_map_walk_in [of "rel_option same_media" a b "\<lambda>k. media_refs"] by (simp add: same_media_refs)

lemma same_operation_refs: "rel_option same_operation a b \<Longrightarrow> operation_refs b = operation_refs a"
proof (cases a)
  case (Some x)
  assume "rel_option same_operation a b"
  then obtain y where b: "b = Some y" "same_operation x y" using Some by (auto simp: option_rel_Some1)
  have "request_refs y = request_refs x"
    using b(2) same_content_refs
    by (auto simp: request_refs_def same_operation_def same_body_def rel_option_iff split: option.splits)
  moreover have "response_refs y = response_refs x"
  proof -
    let ?f = "\<lambda>k :: string. \<lambda>r. case r of None \<Rightarrow> Some [] | Some resp \<Rightarrow> content_refs (rd_Content resp)"
    have "map (\<lambda>k. ?f k (the (map_of (op_Responses y) k))) (sortedKeys (op_Responses y))
        = map (\<lambda>k. ?f k (the (map_of (op_Responses x) k))) (sortedKeys (op_Responses x))"
    proof (rule same_map_walk_in [where f = ?f])
      show "same_map (rel_option same_response) (op_Responses x) (op_Responses y)"
        using b(2) by (simp add: same_operation_def)
      show "?f k r = ?f k r'" if "rel_option same_response r r'" for k r r'
        using that same_content_refs by (auto simp: rel_option_iff same_response_def split: option.splits)
    qed
    then show ?thesis unfolding response_refs_def by simp
  qed
  ultimately show ?thesis using Some b(1) by (simp add: operation_refs_def)
qed (simp add: operation_refs_def)

lemma same_path_refs: "same_map (rel_option same_operation) a b \<Longrightarrow> path_refs b = path_refs a"
  unfolding path_refs_def
  using same_map_walk_in [of "rel_option same_operation" a b "\<lambda>k. operation_refs"] by (simp add: same_operation_refs)

lemma same_groups: "same_spec a b \<Longrightarrow> buildSchemaGroups b = buildSchemaGroups a"
proof -
  assume "same_spec a b"
  then have p: "same_map (same_map (rel_option same_operation)) (spec_Paths a) (spec_Paths b)" by (simp add: same_spec_def)
  have "map (\<lambda>k. map_option (Pair k) (path_refs (the (map_of (spec_Paths b) k)))) (sortedKeys (spec_Paths b))
      = map (\<lambda>k. map_option (Pair k) (path_refs (the (map_of (spec_Paths a) k)))) (sortedKeys (spec_Paths a))"
    by (rule same_map_walk_in [OF p, where f = "\<lambda>k m. map_option (Pair k) (path_refs m)"]) (simp add: same_path_refs)
  then show ?thesis by (simp add: buildSchemaGroups_def)
qed

lemma same_types_file: "same_spec a b \<Longrightarrow> types_file b snap = types_file a snap"
proof -
  assume s: "same_spec a b"
  then have ss: "same_map (rel_option same_schema) (spec_Schemas a) (spec_Schemas b)" by (simp add: same_spec_def)
  have gen: "generateObjects names (spec_Schemas b) groups snap = generateObjects names (spec_Schemas a) groups snap" for names groups
    unfolding generateObjects_def declaration_order_def topologicalSort_def same_deps [OF ss] same_objects_loop [OF ss] ..
  show ?thesis
    unfolding types_file_def same_categorize [OF ss] same_groups [OF s] gen ..
qed

section \<open>The claim\<close>

text \<open>The schemas that become declarations.\<close>

definition declared :: "schemas \<Rightarrow> string \<Rightarrow> bool" where
  "declared ss name \<longleftrightarrow> \<not> shouldSkip name \<and> map_of typeAliases name = None \<and> \<not> isParameterSchema name
     \<and> (\<exists>s. (name, Some s) \<in> set ss \<and> \<not> (sc_Type s = ''string'' \<and> sc_Enum s \<noteq> []))"

lemma ex_Some: "(\<And>x. P x \<Longrightarrow> x \<noteq> None) \<Longrightarrow> (\<exists>x. P x) \<longleftrightarrow> (\<exists>y. P (Some y))"
  by (metis not_None_eq)

lemma categorize_objects:
  assumes "categorize ss = Some (enums, objects)"
  shows "set objects = {n. declared ss n}"
proof -
  let ?kept = "filter (\<lambda>(n, s). \<not> shouldSkip n \<and> map_of typeAliases n = None \<and> \<not> isParameterSchema n) ss"
  let ?enum = "\<lambda>s :: Schema option. sc_Type (the s) = ''string'' \<and> length (sc_Enum (the s)) > 0"
  have if_Some: "\<not> P \<and> y = v" if "(if P then None else Some (x, y)) = Some (u, v)" for P and x y u v :: "string list"
    using that by (simp split: if_splits)
  note cat = if_Some [OF assms [unfolded categorize_def Let_def]]
  have c: "\<not> list_ex (\<lambda>(name, s). s = None) ?kept" by (rule cat [THEN conjunct1])
  have o: "objects = sort (map fst (filter (\<lambda>(n, s). \<not> ?enum s) ?kept))" by (rule cat [THEN conjunct2, symmetric])
  have there: "s \<noteq> None" if "(n, s) \<in> set ?kept" for n s
    using c that unfolding list_ex_iff by blast
  have "n \<in> set objects \<longleftrightarrow> declared ss n" for n
  proof -
    have "n \<in> set objects \<longleftrightarrow> (\<exists>s. (n, s) \<in> set ?kept \<and> \<not> ?enum s)" unfolding o by force
    also have "\<dots> \<longleftrightarrow> (\<exists>s. (n, Some s) \<in> set ?kept \<and> \<not> ?enum (Some s))" by (rule ex_Some) (use there in blast)
    also have "\<dots> \<longleftrightarrow> declared ss n" by (auto simp: declared_def)
    finally show ?thesis .
  qed
  then show ?thesis by blast
qed

lemma depends_same_names: "set as = set bs \<Longrightarrow> depends (dep_graph as ss) = depends (dep_graph bs ss)"
  by (simp add: depends_def dep_graph_def deps_of_def)

text \<open>C40: \<open>types_generated.go\<close> is the same text for every order in which Go visits the maps of the
  specification, nested properties included. It is the header followed by one part for each schema
  that is neither skipped, an alias, a parameter nor an enumeration: each exactly once, the groups in
  byte order, and within a group each after those it refers to, unless they refer back to it.\<close>

theorem types_file_determined:
  assumes "types_file spec snap = Some out" and "same_spec spec spec'"
  shows "types_file spec' snap = Some out
    \<and> (\<exists>groups order parts. buildSchemaGroups spec = Some groups
        \<and> out = fileHeader snap @ ''package gokalshi'' @ nl @ nl @ concat parts
        \<and> list_all2 (part_of groups (spec_Schemas spec)) order parts
        \<and> distinct order \<and> set order = {n. declared (spec_Schemas spec) n} \<and> sorted (map (groupOf groups) order)
        \<and> (\<forall>(n, d) \<in> depends (dep_graph order (spec_Schemas spec)).
             groupOf groups d = groupOf groups n \<longrightarrow>
               before order d n \<or> (d, n) \<in> (depends (dep_graph order (spec_Schemas spec)))\<^sup>*))"
proof
  show "types_file spec' snap = Some out" using same_types_file [OF assms(2)] assms(1) by simp
  obtain enums objects groups where c: "categorize (spec_Schemas spec) = Some (enums, objects)"
    and g: "buildSchemaGroups spec = Some groups" and o: "generateObjects objects (spec_Schemas spec) groups snap = Some out"
    using assms(1) by (auto simp: types_file_def split: option.splits)
  from generateObjects_order [OF o] obtain order parts where parts:
    "out = fileHeader snap @ ''package gokalshi'' @ nl @ nl @ concat parts"
    "list_all2 (part_of groups (spec_Schemas spec)) order parts" "distinct order" "set order = set objects"
    "sorted (map (groupOf groups) order)"
    "\<forall>(n, d) \<in> depends (dep_graph objects (spec_Schemas spec)). groupOf groups d = groupOf groups n \<longrightarrow>
       before order d n \<or> (d, n) \<in> (depends (dep_graph objects (spec_Schemas spec)))\<^sup>*" by blast
  note same = depends_same_names [OF parts(4), of "spec_Schemas spec"]
  show "\<exists>groups order parts. buildSchemaGroups spec = Some groups
        \<and> out = fileHeader snap @ ''package gokalshi'' @ nl @ nl @ concat parts
        \<and> list_all2 (part_of groups (spec_Schemas spec)) order parts
        \<and> distinct order \<and> set order = {n. declared (spec_Schemas spec) n} \<and> sorted (map (groupOf groups) order)
        \<and> (\<forall>(n, d) \<in> depends (dep_graph order (spec_Schemas spec)). groupOf groups d = groupOf groups n \<longrightarrow>
             before order d n \<or> (d, n) \<in> (depends (dep_graph order (spec_Schemas spec)))\<^sup>*)"
    using g parts(1-3) parts(4) [unfolded categorize_objects [OF c]] parts(5) parts(6) [folded same] by blast
qed

text \<open>Two specifications that list their schemas and the properties of one in opposite orders.\<close>

definition two_schemas :: "bool \<Rightarrow> Spec" where
  "two_schemas flip =
     (let turn = (if flip then rev else id);
          str = Schema ''string'' [] [] [] [] [] None [] [] False False None;
          fill = object_schema ((if flip then rev else id) [(''price'', Some str), (''side'', Some str)])
      in \<lparr>spec_Schemas = turn [(''Fill'', Some fill), (''Name'', Some str)], spec_Paths = []\<rparr>)"

lemma same_string: "same_schema (Schema ty fo de en [] re None rf [] nu dp None) (Schema ty fo de en [] re None rf [] nu dp None)"
  by (rule same_schema.intros) (simp_all add: same_map_def)

lemma two_schemas_same: "same_spec (two_schemas False) (two_schemas True)"
proof -
  let ?str = "Schema ''string'' [] [] [] [] [] None [] [] False False None"
  have "same_schema (object_schema [(''price'', Some ?str), (''side'', Some ?str)]) (object_schema [(''side'', Some ?str), (''price'', Some ?str)])"
    unfolding object_schema_def by (rule same_schema.intros) (simp_all add: same_map_def distinct_keys_def same_string)
  then show ?thesis
    by (simp add: same_spec_def two_schemas_def Let_def same_map_def distinct_keys_def same_string)
qed

lemma types_file_determined_witness:
  "\<exists>out order. types_file (two_schemas False) zero_Snapshot = Some out \<and> types_file (two_schemas True) zero_Snapshot = Some out
     \<and> set order = {n. declared (spec_Schemas (two_schemas False)) n}"
proof -
  have "types_file (two_schemas False) zero_Snapshot \<noteq> None" by code_simp
  then obtain out where o: "types_file (two_schemas False) zero_Snapshot = Some out" by blast
  from types_file_determined [OF o two_schemas_same] o show ?thesis by blast
qed

end
