(* ===== verification/GenWSSchema.thy ===== *)
theory GenWSSchema
  imports GenTypes
begin

text \<open>
  The data of \<open>tools/generate_ws_types/main.go\<close>, the generator of \<open>ws_messages_generated.go\<close>:
  the AsyncAPI specification as the YAML decoder leaves it, the naming tables, the collection of
  the data messages and their channels, and the choice of schemas. Nil pointers in maps and
  slices are \<open>None\<close>; a function that would read through one returns \<open>None\<close> for the panic.
  The helpers the tool repeats from \<open>generate_types\<close> word for word (\<open>refToName\<close>,
  \<open>sortedKeys\<close>, \<open>cleanDescription\<close>) are the ones of theories GenSchema and GenTypes.

  A map the tool builds itself has no order of its own: where the code ranges over such a map,
  the order is an argument \<open>ord\<close>, which rearranges the entries.
\<close>

section \<open>The specification\<close>

text \<open>The tool's \<open>Schema\<close> has the fields of the OpenAPI tool's, and \<open>Const\<close>, which is never read.\<close>

type_synonym WSSchema = Schema

record MsgRef =
  mr_Ref :: string

record Channel =
  ch_Address :: string
  ch_Messages :: "MsgRef option smap"

record Message =
  me_Name :: string
  me_Payload :: "WSSchema option"

record ErrorCode =
  ec_Code :: goint
  ec_Name :: string
  ec_Description :: string

record AsyncAPISpec =
  as_Channels :: "Channel option smap"
  as_Messages :: "Message option smap"
  as_Schemas :: schemas
  as_ErrorCodes :: "ErrorCode list option"

record dataMsg =
  dm_Name :: string
  dm_StructName :: string
  dm_MsgSchema :: "WSSchema option"
  dm_Channels :: "string list"

record inlineSub =
  is_StructName :: string
  is_Schema :: WSSchema

section \<open>Tables\<close>

definition msgTypeToStructName :: "string smap" where
  "msgTypeToStructName =
     [(''orderbook_snapshot'', ''OrderbookSnapshotData''),
      (''orderbook_delta'', ''OrderbookDeltaData''),
      (''ticker'', ''TickerData''),
      (''trade'', ''TradeData''),
      (''fill'', ''FillData''),
      (''market_position'', ''MarketPositionData''),
      (''market_lifecycle_v2'', ''MarketLifecycleV2Data''),
      (''event_lifecycle'', ''EventLifecycleData''),
      (''multivariate_market_lifecycle'', ''MultivariateMarketLifecycleData''),
      (''user_order'', ''UserOrderData''),
      (''order_group_updates'', ''OrderGroupUpdateData''),
      (''rfq_created'', ''RFQCreatedData''),
      (''rfq_deleted'', ''RFQDeletedData''),
      (''quote_created'', ''QuoteCreatedData''),
      (''quote_accepted'', ''QuoteAcceptedData''),
      (''quote_executed'', ''QuoteExecutedData''),
      (''event_fee_update'', ''EventFeeUpdateData''),
      (''cfbenchmarks_value'', ''CfbenchmarksValueData''),
      (''cfbenchmarks_value_indexlist'', ''CfbenchmarksValueIndexlistData''),
      (''cfbenchmarks_value_5hz'', ''CfbenchmarksValue5HzData''),
      (''cfbenchmarks_value_5hz_indexlist'', ''CfbenchmarksValue5HzIndexlistData''),
      (''pyth_value'', ''PythValueData''),
      (''pyth_value_underlying_list'', ''PythValueUnderlyingListData'')]"

definition msgTypeToConstName :: "string smap" where
  "msgTypeToConstName =
     [(''orderbook_snapshot'', ''WSMsgOrderbookSnapshot''),
      (''orderbook_delta'', ''WSMsgOrderbookDelta''),
      (''ticker'', ''WSMsgTicker''),
      (''trade'', ''WSMsgTrade''),
      (''fill'', ''WSMsgFill''),
      (''market_position'', ''WSMsgMarketPosition''),
      (''market_lifecycle_v2'', ''WSMsgMarketLifecycleV2''),
      (''event_lifecycle'', ''WSMsgEventLifecycle''),
      (''multivariate_market_lifecycle'', ''WSMsgMultivariateMarketLifecycle''),
      (''user_order'', ''WSMsgUserOrder''),
      (''order_group_updates'', ''WSMsgOrderGroupUpdates''),
      (''rfq_created'', ''WSMsgRFQCreated''),
      (''rfq_deleted'', ''WSMsgRFQDeleted''),
      (''quote_created'', ''WSMsgQuoteCreated''),
      (''quote_accepted'', ''WSMsgQuoteAccepted''),
      (''quote_executed'', ''WSMsgQuoteExecuted''),
      (''event_fee_update'', ''WSMsgEventFeeUpdate''),
      (''cfbenchmarks_value'', ''WSMsgCfbenchmarksValue''),
      (''cfbenchmarks_value_indexlist'', ''WSMsgCfbenchmarksValueIndexlist''),
      (''cfbenchmarks_value_5hz'', ''WSMsgCfbenchmarksValue5Hz''),
      (''cfbenchmarks_value_5hz_indexlist'', ''WSMsgCfbenchmarksValue5HzIndexlist''),
      (''pyth_value'', ''WSMsgPythValue''),
      (''pyth_value_underlying_list'', ''WSMsgPythValueUnderlyingList'')]"

definition refTypeOverrides :: "string smap" where
  "refTypeOverrides =
     [(''marketSide'', ''Side''),
      (''bookSide'', ''BookSide''),
      (''orderAction'', ''Action''),
      (''marketTicker'', ''string''),
      (''marketId'', ''string''),
      (''commandId'', ''int''),
      (''subscriptionId'', ''int''),
      (''sequenceNumber'', ''int'')]"

definition sharedSchemaNames :: "string smap" where
  "sharedSchemaNames =
     [(''cfbenchmarksAvgData'', ''CfbenchmarksAvgData'')]"

definition goFieldNameOverrides :: "string smap" where
  "goFieldNameOverrides =
     [(''sids'', ''SIDs'')]"

definition wsFieldTypeOverrides :: "((string \<times> string) \<times> string) list" where
  "wsFieldTypeOverrides =
     [((''MarketLifecycleV2Data'', ''event_type''), ''MarketLifecycleEventType''),
      ((''OrderGroupUpdateData'', ''event_type''), ''OrderGroupEventType''),
      ((''EventLifecycleData'', ''collateral_return_type''), ''CollateralReturnType''),
      ((''UserOrderData'', ''status''), ''OrderStatus''),
      ((''UserOrderData'', ''self_trade_prevention_type''), ''STPType''),
      ((''QuoteAcceptedData'', ''accepted_side''), ''Side''),
      ((''MultivariateLookupSelectedMarket'', ''side''), ''Side''),
      ((''EventFeeUpdateData'', ''fee_type_override''), ''FeeType''),
      ((''UpdateSubParams'', ''action''), ''WSUpdateAction'')]"

definition inlineSubObjectNames :: "((string \<times> string) \<times> string) list" where
  "inlineSubObjectNames =
     [((''MarketLifecycleV2Data'', ''additional_metadata''), ''MarketLifecycleAdditionalMetadata''),
      ((''MultivariateLookupData'', ''selected_markets''), ''MultivariateLookupSelectedMarket''),
      ((''RFQCreatedData'', ''mve_selected_legs''), ''MveSelectedLeg'')]"

definition wsNullableOverrides :: "(string \<times> string) list" where
  "wsNullableOverrides =
     [(''MarketLifecycleV2Data'', ''is_deactivated'')]"

definition skipInlineGeneration :: "string list" where
  "skipInlineGeneration =
     [''MveSelectedLeg'']"

definition skipChannels :: "string list" where
  "skipChannels =
     [''root'',
      ''control_frames'']"

definition errorCodeNames :: "(goint \<times> string) list" where
  "errorCodeNames =
     [(1, ''WSErrUnableToProcess''),
      (2, ''WSErrParamsRequired''),
      (3, ''WSErrChannelsRequired''),
      (4, ''WSErrSIDsRequired''),
      (5, ''WSErrUnknownCommand''),
      (6, ''WSErrAlreadySubscribed''),
      (7, ''WSErrUnknownSID''),
      (8, ''WSErrUnknownChannel''),
      (9, ''WSErrAuthRequired''),
      (10, ''WSErrChannelError''),
      (11, ''WSErrInvalidParam''),
      (12, ''WSErrExactlyOneSID''),
      (13, ''WSErrUnsupportedAction''),
      (14, ''WSErrMarketTickerReq''),
      (15, ''WSErrActionRequired''),
      (16, ''WSErrMarketNotFound''),
      (17, ''WSErrInternal''),
      (18, ''WSErrCommandTimeout''),
      (19, ''WSErrShardFactorPositive''),
      (20, ''WSErrShardFactorRequired''),
      (21, ''WSErrShardKeyRange''),
      (22, ''WSErrShardFactorTooLarge''),
      (23, ''WSErrMatchIDsRequired''),
      (24, ''WSErrIndexIDsRequired''),
      (25, ''WSErrSubBufferOverflow''),
      (26, ''WSErrSubscriptionLimit''),
      (27, ''WSErrTooManyRequests''),
      (28, ''WSErrUnderlyingTickersRequired'')]"

section \<open>Names\<close>

definition ws_abbreviations :: "string list" where
  "ws_abbreviations = abbreviations @ [''SID'']"

definition ws_toGoFieldName :: "string \<Rightarrow> string" where
  "ws_toGoFieldName s =
     (case map_of goFieldNameOverrides s of
        Some override \<Rightarrow> override
      | None \<Rightarrow>
          concat (map (\<lambda>part. if part = [] then []
                         else let upper = ToUpper part in
                              if upper \<in> set ws_abbreviations then upper else capital part)
            (split_on (CHR ''_'') s)))"

text \<open>Letters and digits are the ASCII ones.\<close>

definition is_letter :: "char \<Rightarrow> bool" where
  "is_letter c \<longleftrightarrow> (let n = (of_char c :: nat) in (65 \<le> n \<and> n \<le> 90) \<or> (97 \<le> n \<and> n \<le> 122))"

fun identifier_loop :: "bool \<Rightarrow> string \<Rightarrow> string" where
  "identifier_loop upperNext [] = []"
| "identifier_loop upperNext (c # cs) =
     (if is_letter c \<or> is_digit c
      then (if upperNext then upper_char c else c) # identifier_loop False cs
      else identifier_loop True cs)"

definition toGoIdentifier :: "string \<Rightarrow> string" where
  "toGoIdentifier s = identifier_loop True s"

definition struct_name :: "string \<Rightarrow> string" where
  "struct_name wsType =
     (case map_of msgTypeToStructName wsType of
        Some n \<Rightarrow> n
      | None \<Rightarrow> ws_toGoFieldName wsType @ ''Data'')"

definition const_name :: "string \<Rightarrow> string" where
  "const_name wsType =
     (case map_of msgTypeToConstName wsType of
        Some n \<Rightarrow> n
      | None \<Rightarrow> ''WSMsg'' @ ws_toGoFieldName wsType)"

section \<open>Looking schemas up\<close>

text \<open>\<open>m[k]\<close> on a map of pointers: nil for a missing key and for a key that holds nil.\<close>

definition lookup_ptr :: "'v option smap \<Rightarrow> string \<Rightarrow> 'v option" where
  "lookup_ptr m k = (case map_of m k of Some v \<Rightarrow> v | None \<Rightarrow> None)"

text \<open>\<open>if s, ok := schemas[name]; ok { return s }\<close>, else the schema that carried the reference.\<close>

definition deref :: "schemas \<Rightarrow> WSSchema \<Rightarrow> WSSchema option" where
  "deref ss p =
     (if sc_Ref p \<noteq> [] then
        (case map_of ss (refToName (sc_Ref p)) of Some s \<Rightarrow> s | None \<Rightarrow> Some p)
      else Some p)"

definition property_of :: "string \<Rightarrow> schemas \<Rightarrow> WSSchema \<Rightarrow> WSSchema option" where
  "property_of k ss payload =
     (case lookup_ptr (sc_Properties payload) k of None \<Rightarrow> None | Some p \<Rightarrow> deref ss p)"

definition resolvePayloadSchema :: "Message \<Rightarrow> schemas \<Rightarrow> WSSchema option" where
  "resolvePayloadSchema msg ss =
     (case me_Payload msg of
        None \<Rightarrow> None
      | Some p \<Rightarrow> if sc_Ref p \<noteq> [] then lookup_ptr ss (refToName (sc_Ref p)) else Some p)"

definition extractMsgFromPayload :: "WSSchema \<Rightarrow> schemas \<Rightarrow> WSSchema option" where
  "extractMsgFromPayload payload ss =
     (if length (sc_AllOf payload) > 0 then None else property_of ''msg'' ss payload)"

definition extractParamsSchema :: "schemas \<Rightarrow> string \<Rightarrow> WSSchema option" where
  "extractParamsSchema ss payloadName =
     (case lookup_ptr ss payloadName of None \<Rightarrow> None | Some payload \<Rightarrow> property_of ''params'' ss payload)"

definition extractMsgSchema :: "schemas \<Rightarrow> string \<Rightarrow> WSSchema option" where
  "extractMsgSchema ss payloadName =
     (case lookup_ptr ss payloadName of None \<Rightarrow> None | Some payload \<Rightarrow> property_of ''msg'' ss payload)"

text \<open>The two loops over the properties, and the union of the required names.\<close>

definition merge_properties :: "(string \<times> WSSchema option) list \<Rightarrow> (string \<times> WSSchema option) list
    \<Rightarrow> (string \<times> WSSchema option) list" where
  "merge_properties regular cfb =
     fold (\<lambda>(k, v) merged. if map_of merged k = None then AList.update k v merged else merged) cfb
       (fold (\<lambda>(k, v) merged. AList.update k v merged) regular [])"

definition merge_required :: "string list \<Rightarrow> string list \<Rightarrow> string list" where
  "merge_required regular cfb = sort (remdups (regular @ cfb))"

definition mergeUpdateSubParams :: "schemas \<Rightarrow> WSSchema option" where
  "mergeUpdateSubParams ss =
     (let regular = extractParamsSchema ss ''updateSubscriptionCommandPayload'';
          cfb = extractParamsSchema ss ''cfbenchmarksUpdateSubscriptionCommandPayload''
      in case (regular, cfb) of
           (None, _) \<Rightarrow> cfb
         | (Some _, None) \<Rightarrow> regular
         | (Some r, Some c) \<Rightarrow>
             Some (Schema (sc_Type r) [] [] [] (merge_properties (sc_Properties r) (sc_Properties c))
                     (merge_required (sc_Required r) (sc_Required c)) None [] [] False False None))"

section \<open>Data messages\<close>

definition appendUnique :: "string list \<Rightarrow> string \<Rightarrow> string list" where
  "appendUnique xs val = (if val \<in> set xs then xs else xs @ [val])"

record msg_state =
  st_Channels :: "string list smap"            \<comment> \<open>msgToChannels\<close>
  st_Schemas :: "WSSchema option smap"         \<comment> \<open>msgSchemas\<close>

text \<open>The message a reference names, if it exists and has a name.\<close>

definition referenced :: "AsyncAPISpec \<Rightarrow> MsgRef \<Rightarrow> Message option" where
  "referenced spec msgRef =
     (if mr_Ref msgRef = [] then None
      else case lookup_ptr (as_Messages spec) (refToName (mr_Ref msgRef)) of
             None \<Rightarrow> None
           | Some resolved \<Rightarrow> if me_Name resolved = [] then None else Some resolved)"

definition collect_message :: "AsyncAPISpec \<Rightarrow> string \<Rightarrow> MsgRef \<Rightarrow> msg_state \<Rightarrow> msg_state" where
  "collect_message spec address msgRef st =
     (case referenced spec msgRef of
        None \<Rightarrow> st
      | Some resolved \<Rightarrow>
          let wsType = me_Name resolved;
              chans = (case map_of (st_Channels st) wsType of None \<Rightarrow> [] | Some cs \<Rightarrow> cs);
              st1 = st\<lparr>st_Channels := AList.update wsType (appendUnique chans address) (st_Channels st)\<rparr>
          in if map_of (st_Schemas st1) wsType \<noteq> None then st1
             else case resolvePayloadSchema resolved (as_Schemas spec) of
                    None \<Rightarrow> st1
                  | Some payloadSchema \<Rightarrow>
                      st1\<lparr>st_Schemas := AList.update wsType
                            (extractMsgFromPayload payloadSchema (as_Schemas spec)) (st_Schemas st1)\<rparr>)"

fun messages_loop :: "AsyncAPISpec \<Rightarrow> string \<Rightarrow> MsgRef option smap \<Rightarrow> msg_state \<Rightarrow> msg_state option" where
  "messages_loop spec address [] st = Some st"
| "messages_loop spec address ((key, msgRef) # rest) st =
     (case msgRef of
        None \<Rightarrow> None
      | Some r \<Rightarrow> messages_loop spec address rest (collect_message spec address r st))"

definition address_of :: "string \<Rightarrow> Channel \<Rightarrow> string" where
  "address_of channelKey channelDef =
     (if ch_Address channelDef = [] then channelKey else ch_Address channelDef)"

fun channels_loop :: "AsyncAPISpec \<Rightarrow> Channel option smap \<Rightarrow> msg_state \<Rightarrow> msg_state option" where
  "channels_loop spec [] st = Some st"
| "channels_loop spec ((channelKey, channelDef) # rest) st =
     (if channelKey \<in> set skipChannels then channels_loop spec rest st
      else case channelDef of
             None \<Rightarrow> None
           | Some ch \<Rightarrow>
               (case messages_loop spec (address_of channelKey ch) (ch_Messages ch) st of
                  None \<Rightarrow> None
                | Some st' \<Rightarrow> channels_loop spec rest st'))"

definition data_msg :: "WSSchema option smap \<Rightarrow> string \<times> string list \<Rightarrow> dataMsg" where
  "data_msg msgSchemas e =
     \<lparr>dm_Name = fst e, dm_StructName = struct_name (fst e),
      dm_MsgSchema = lookup_ptr msgSchemas (fst e), dm_Channels = snd e\<rparr>"

text \<open>
  \<open>sort.Strings\<close> sorts in place the slices that \<open>msgToChannels\<close> holds, so both results have
  the sorted lists.
\<close>

definition sort_channels :: "string list smap \<Rightarrow> string list smap" where
  "sort_channels m = map (\<lambda>(wsType, channels). (wsType, sort channels)) m"

definition collectDataMessages :: "(string list smap \<Rightarrow> string list smap) \<Rightarrow> AsyncAPISpec
    \<Rightarrow> (dataMsg list \<times> string list smap) option" where
  "collectDataMessages ord spec =
     (case channels_loop spec (as_Channels spec) \<lparr>st_Channels = [], st_Schemas = []\<rparr> of
        None \<Rightarrow> None
      | Some st \<Rightarrow>
          let m = sort_channels (st_Channels st)
          in Some (map (data_msg (st_Schemas st)) (ord m), m))"

definition countDataChannels :: "AsyncAPISpec \<Rightarrow> nat" where
  "countDataChannels spec = length (filter (\<lambda>k. k \<notin> set skipChannels) (map fst (as_Channels spec)))"

definition buildMsgTypeToChannel :: "string list smap \<Rightarrow> string list smap" where
  "buildMsgTypeToChannel msgToChannels = sort_channels msgToChannels"

section \<open>Shared and nested objects\<close>

definition collectSharedSchemas :: "schemas \<Rightarrow> schemas" where
  "collectSharedSchemas ss =
     concat (map (\<lambda>name. case map_of ss name of Some s \<Rightarrow> [(name, s)] | None \<Rightarrow> [])
       (map fst sharedSchemaNames))"

definition inline_object :: "string \<Rightarrow> WSSchema \<Rightarrow> inlineSub list" where
  "inline_object goName p =
     (case sc_Items p of
        Some items \<Rightarrow>
          if sc_Type p = ''array'' then
            (if sc_Ref items \<noteq> [] then [] else [\<lparr>is_StructName = goName, is_Schema = items\<rparr>])
          else if sc_Type p = ''object'' \<and> length (sc_Properties p) > 0
          then [\<lparr>is_StructName = goName, is_Schema = p\<rparr>] else []
      | None \<Rightarrow>
          if sc_Type p = ''object'' \<and> length (sc_Properties p) > 0
          then [\<lparr>is_StructName = goName, is_Schema = p\<rparr>] else [])"

record inline_state =
  in_result :: "inlineSub list"
  in_seen :: "string list"

fun inline_fields :: "string \<Rightarrow> (string \<times> WSSchema option) list \<Rightarrow> inline_state \<Rightarrow> inline_state option" where
  "inline_fields structName [] st = Some st"
| "inline_fields structName ((fieldName, prop) # rest) st =
     (case map_of inlineSubObjectNames (structName, fieldName) of
        None \<Rightarrow> inline_fields structName rest st
      | Some goName \<Rightarrow>
          if goName \<in> set (in_seen st) then inline_fields structName rest st
          else case prop of
                 None \<Rightarrow> None
               | Some p \<Rightarrow> inline_fields structName rest
                     \<lparr>in_result = in_result st @ inline_object goName p, in_seen = goName # in_seen st\<rparr>)"

fun inline_messages :: "dataMsg list \<Rightarrow> inline_state \<Rightarrow> inline_state option" where
  "inline_messages [] st = Some st"
| "inline_messages (dm # rest) st =
     (case dm_MsgSchema dm of
        None \<Rightarrow> inline_messages rest st
      | Some s \<Rightarrow>
          (case inline_fields (dm_StructName dm) (sc_Properties s) st of
             None \<Rightarrow> None
           | Some st' \<Rightarrow> inline_messages rest st'))"

definition collectInlineSubObjects :: "dataMsg list \<Rightarrow> inlineSub list option" where
  "collectInlineSubObjects dataMsgs =
     map_option in_result (inline_messages dataMsgs \<lparr>in_result = [], in_seen = []\<rparr>)"

end
