(* ===== verification/GenWSTypes.thy ===== *)
theory GenWSTypes
  imports GenWSSchema
begin

text \<open>
  The text that \<open>tools/generate_ws_types/main.go\<close> writes: the Go type of a property, the
  declarations, the error codes, the table from message types to channels, and the layout of
  \<open>ws_messages_generated.go\<close>. Loading the specification, the warnings on standard error, \<open>gofmt\<close>
  and writing the file are left out.
\<close>

section \<open>Go types\<close>

text \<open>\<open>ap, ok := prop.AdditionalProperties.(*Schema); ok && ap != nil\<close>.\<close>

definition additional_schema :: "WSSchema \<Rightarrow> WSSchema option" where
  "additional_schema prop = (case sc_AdditionalProperties prop of Some ap \<Rightarrow> ap | None \<Rightarrow> None)"

text \<open>
  References are followed through the schemas, which may refer to each other in a circle: the
  result is \<open>None\<close> when the recursion does not end, and when it meets a nil pointer. The names of
  the struct and the field travel together, as the key of the tables.
\<close>

partial_function (option) ws_resolveGoTypeInner ::
    "string \<times> string \<Rightarrow> schemas \<Rightarrow> WSSchema option \<Rightarrow> string option" where
  "ws_resolveGoTypeInner field ss p =
     (case p of
        None \<Rightarrow> None
      | Some prop \<Rightarrow>
          if length (sc_AllOf prop) = 1 then
            ws_resolveGoTypeInner field ss (hd (sc_AllOf prop))
          else if sc_Ref prop \<noteq> [] then
            (case map_of refTypeOverrides (refToName (sc_Ref prop)) of
               Some override \<Rightarrow> Some override
             | None \<Rightarrow>
                 (case map_of sharedSchemaNames (refToName (sc_Ref prop)) of
                    Some goName \<Rightarrow> Some goName
                  | None \<Rightarrow>
                      (case map_of ss (refToName (sc_Ref prop)) of
                         Some resolved \<Rightarrow> ws_resolveGoTypeInner field ss resolved
                       | None \<Rightarrow> Some ''any'')))
          else if sc_Type prop = ''object'' \<and> length (sc_Properties prop) > 0 then
            (case map_of inlineSubObjectNames field of
               Some goName \<Rightarrow> Some (''*'' @ goName)
             | None \<Rightarrow> Some ''map[string]any'')
          else if sc_Type prop = ''string'' then Some ''string''
          else if sc_Type prop = ''integer'' then
            Some (if sc_Format prop = ''int64'' then ''int64'' else ''int'')
          else if sc_Type prop = ''number'' then Some ''float64''
          else if sc_Type prop = ''boolean'' then Some ''bool''
          else if sc_Type prop = ''array'' then
            (case sc_Items prop of
               None \<Rightarrow> Some ''[]any''
             | Some items \<Rightarrow>
                 if sc_Type items = ''object'' \<and> length (sc_Properties items) > 0
                    \<and> map_of inlineSubObjectNames field \<noteq> None
                 then Some (''[]'' @ the (map_of inlineSubObjectNames field))
                 else if sc_Type items = ''array'' then
                   (case sc_Items items of
                      Some inner \<Rightarrow>
                        Option.bind (ws_resolveGoTypeInner field ss (Some inner))
                          (\<lambda>innerType. Some (''[][]'' @ innerType))
                    | None \<Rightarrow> Some ''[][]any'')
                 else Option.bind (ws_resolveGoTypeInner field ss (Some items))
                        (\<lambda>itemType. Some (''[]'' @ itemType)))
          else if sc_Type prop = ''object'' then
            (case additional_schema prop of
               Some ap \<Rightarrow>
                 Option.bind (ws_resolveGoTypeInner field ss (Some ap))
                   (\<lambda>valType. Some (''map[string]'' @ valType))
             | None \<Rightarrow> Some ''map[string]any'')
          else Some ''any'')"

definition ws_resolveGoType :: "string \<Rightarrow> string \<Rightarrow> schemas \<Rightarrow> WSSchema option \<Rightarrow> string option" where
  "ws_resolveGoType structName fieldName ss prop =
     (case map_of wsFieldTypeOverrides (structName, fieldName) of
        Some override \<Rightarrow> Some override
      | None \<Rightarrow> ws_resolveGoTypeInner (structName, fieldName) ss prop)"

section \<open>Structs\<close>

definition force_pointer :: "string \<Rightarrow> string \<Rightarrow> WSSchema \<Rightarrow> string \<Rightarrow> bool" where
  "force_pointer structName propName prop goType \<longleftrightarrow>
     (sc_Nullable prop \<or> (structName, propName) \<in> set wsNullableOverrides)
     \<and> \<not> HasPrefix goType ''[]'' \<and> \<not> HasPrefix goType ''map['' \<and> \<not> HasPrefix goType ''*''"

definition tick :: string where "tick = [CHR 0x60]"
definition dquote :: string where "dquote = [CHR 0x22]"

definition json_tag :: "string \<Rightarrow> string" where
  "json_tag t = tick @ ''json:'' @ dquote @ t @ dquote @ tick"

definition ws_field_lines :: "string \<Rightarrow> schemas \<Rightarrow> string list \<Rightarrow> string \<times> WSSchema option \<Rightarrow> string option" where
  "ws_field_lines structName ss required kp = (case kp of
      (propName, None) \<Rightarrow> None
    | (propName, Some prop) \<Rightarrow>
        (case ws_resolveGoType structName propName ss (Some prop) of
           None \<Rightarrow> None
         | Some goType0 \<Rightarrow>
             let goType = (if force_pointer structName propName prop goType0 then ''*'' @ goType0 else goType0);
                 goFieldName = ws_toGoFieldName propName;
                 jsonTag = (if propName \<notin> set required then propName @ '',omitempty'' else propName);
                 desc = cleanDescription (sc_Description prop);
                 desc' = (if length desc > 100 then take 97 desc @ ''...'' else desc)
             in Some ((if sc_Description prop \<noteq> [] then tab @ comment_line desc' else [])
                      @ (if sc_Deprecated prop then tab @ comment_line ''Deprecated.'' else [])
                      @ tab @ goFieldName @ '' '' @ goType @ '' '' @ json_tag jsonTag @ nl)))"

definition writeStruct :: "string \<Rightarrow> string \<Rightarrow> WSSchema option \<Rightarrow> schemas \<Rightarrow> string option" where
  "writeStruct structName comment schema ss =
     (case schema of
        None \<Rightarrow> Some []
      | Some s \<Rightarrow>
          let head = comment_line comment @ ''type '' @ structName @ '' struct {'' @ nl;
              props = sc_Properties s
          in if length props = 0 then Some (head @ ''}'' @ nl @ nl)
             else (case those (map (\<lambda>propName. ws_field_lines structName ss (sc_Required s)
                        (propName, the (map_of props propName))) (sortedKeys props)) of
                     None \<Rightarrow> None
                   | Some lns \<Rightarrow> Some (head @ concat lns @ ''}'' @ nl @ nl)))"

section \<open>Error codes and channels\<close>

definition error_code_name :: "ErrorCode \<Rightarrow> string" where
  "error_code_name ec =
     (case map_of errorCodeNames (ec_Code ec) of
        Some constName \<Rightarrow> constName
      | None \<Rightarrow> ''WSErr'' @ toGoIdentifier (ec_Name ec))"

definition writeErrorCodes :: "ErrorCode list \<Rightarrow> string" where
  "writeErrorCodes codes =
     ''const ('' @ nl
     @ concat (map (\<lambda>ec. tab @ error_code_name ec @ '' = '' @ Itoa (ec_Code ec) @ nl) codes)
     @ '')'' @ nl @ nl"

definition channel_line :: "string \<times> string list \<Rightarrow> string" where
  "channel_line e = tab @ fst e @ '': {'' @ join_with '', '' (map Quote (snd e)) @ ''},'' @ nl"

text \<open>
  \<open>sort.Slice\<close> leaves the order of entries with equal names open; the stable order is one of the
  possible ones. Equal names do not occur where the claims speak of the result.
\<close>

definition channel_entries :: "string list smap \<Rightarrow> (string \<times> string list) list" where
  "channel_entries m = sort_key fst (map (\<lambda>(wsType, channels). (const_name wsType, channels)) m)"

definition writeMsgTypeToChannel :: "(string list smap \<Rightarrow> string list smap) \<Rightarrow> string list smap \<Rightarrow> string" where
  "writeMsgTypeToChannel ord msgTypeToChannel =
     comment_line ''MsgTypeToChannel maps incoming WS message types to the channel(s) they can arrive on.''
     @ comment_line (''Also used as a set of known message types '' @ [CHR 0xE2, CHR 0x80, CHR 0x94]
                     @ '' actual routing uses SID.'')
     @ ''var MsgTypeToChannel = map[WSMessageType][]string{'' @ nl
     @ concat (map channel_line (channel_entries (ord msgTypeToChannel)))
     @ ''}'' @ nl"

section \<open>The file\<close>

definition ws_fileHeader :: "Snapshot \<Rightarrow> string" where
  "ws_fileHeader snap =
     (case Provenance snap AsyncAPI of (url, version, sha) \<Rightarrow>
        comment_line (''Code generated by tools/generate_ws_types '' @ [CHR 0xE2, CHR 0x80, CHR 0x94]
                      @ '' DO NOT EDIT.'')
        @ comment_line (''Spec: '' @ url @ '' (version '' @ version @ '', fetched ''
                        @ sn_FetchedAt snap @ '')'')
        @ comment_line (''sha256: '' @ sha) @ nl)"

definition ws_command_text :: string where
  "ws_command_text =
     comment_line ''WSCommand is the generic envelope for outgoing WebSocket commands.''
     @ comment_line ''Cmd values: see WSCmd constants.''
     @ ''type WSCommand struct {'' @ nl
     @ tab @ ''ID     int   '' @ json_tag ''id'' @ nl
     @ tab @ ''Cmd    WSCmd '' @ json_tag ''cmd'' @ nl
     @ tab @ ''Params any   '' @ json_tag ''params,omitempty'' @ '' // nil for list_subscriptions'' @ nl
     @ ''}'' @ nl @ nl"

text \<open>The parts of the file in a row, \<open>None\<close> if one of them panics.\<close>

definition parts :: "string option list \<Rightarrow> string option" where
  "parts ps = map_option concat (those ps)"

definition quoted :: "string \<Rightarrow> string" where
  "quoted s = dquote @ s @ dquote"

definition commands_section :: "schemas \<Rightarrow> string option" where
  "commands_section ss = parts
     [Some (group_banner ''Outgoing commands''),
      Some ws_command_text,
      writeStruct ''SubscribeParams''
        (''SubscribeParams are the parameters for a '' @ quoted ''subscribe'' @ '' command.'')
        (extractParamsSchema ss ''subscribeCommandPayload'') ss,
      writeStruct ''UnsubscribeParams''
        (''UnsubscribeParams are the parameters for an '' @ quoted ''unsubscribe'' @ '' command.'')
        (extractParamsSchema ss ''unsubscribeCommandPayload'') ss,
      writeStruct ''UpdateSubParams''
        (''UpdateSubParams are the parameters for an '' @ quoted ''update_subscription'' @ '' command.'')
        (mergeUpdateSubParams ss) ss]"

definition responses_section :: "schemas \<Rightarrow> string option" where
  "responses_section ss = parts
     [Some (group_banner ''Incoming response msg bodies (parsed from WSMessage.Msg)''),
      writeStruct ''SubscribedBody''
        (''SubscribedBody is the msg body for a '' @ quoted ''subscribed'' @ '' response.'')
        (extractMsgSchema ss ''subscribedResponsePayload'') ss,
      writeStruct ''OkBody'' (''OkBody is the msg body for an '' @ quoted ''ok'' @ '' response.'')
        (extractMsgSchema ss ''okResponsePayload'') ss,
      writeStruct ''WSErrorBody'' (''WSErrorBody is the msg body for an '' @ quoted ''error'' @ '' response.'')
        (extractMsgSchema ss ''errorResponsePayload'') ss]"

definition errors_section :: "ErrorCode list option \<Rightarrow> string" where
  "errors_section xErrorCodes =
     (case xErrorCodes of
        None \<Rightarrow> []
      | Some codes \<Rightarrow>
          if length codes > 0
          then group_banner ''WS error codes (from Kalshi API spec)'' @ writeErrorCodes codes else [])"

definition shared_block :: "schemas \<Rightarrow> schemas \<Rightarrow> string \<Rightarrow> string option" where
  "shared_block ss sharedStructs name =
     (case lookup_ptr sharedStructs name of
        None \<Rightarrow> None
      | Some s \<Rightarrow>
          let goName = (case map_of sharedSchemaNames name of Some n \<Rightarrow> n | None \<Rightarrow> []);
              desc = (if sc_Description s \<noteq> [] then goName @ '' '' @ cleanDescription (sc_Description s)
                      else goName @ '' is a shared sub-type used by multiple WS messages.'')
          in writeStruct goName desc (Some s) ss)"

definition shared_section :: "schemas \<Rightarrow> string option" where
  "shared_section ss =
     (let sharedStructs = collectSharedSchemas ss
      in if length sharedStructs > 0
         then parts (Some (group_banner ''Shared sub-types'')
                # map (shared_block ss sharedStructs) (sortedKeys sharedStructs))
         else Some [])"

definition seen_subs :: "inlineSub list \<Rightarrow> inlineSub smap" where
  "seen_subs inlineSubs =
     fold (\<lambda>sub seen. if is_StructName sub \<in> set skipInlineGeneration then seen
                      else if map_of seen (is_StructName sub) = None
                           then AList.update (is_StructName sub) sub seen else seen) inlineSubs []"

definition inline_block :: "schemas \<Rightarrow> inlineSub \<Rightarrow> string option" where
  "inline_block ss sub =
     writeStruct (is_StructName sub) (is_StructName sub @ '' is a nested object type within a WS data message.'')
       (Some (is_Schema sub)) ss"

definition inline_section :: "schemas \<Rightarrow> inlineSub list \<Rightarrow> string option" where
  "inline_section ss inlineSubs =
     (if length inlineSubs > 0
      then let seen = seen_subs inlineSubs
           in parts (Some (group_banner ''Inline sub-types'')
                # map (\<lambda>name. inline_block ss (the (map_of seen name))) (sortedKeys seen))
      else Some [])"

definition data_block :: "schemas \<Rightarrow> dataMsg \<Rightarrow> string option" where
  "data_block ss dm =
     writeStruct (dm_StructName dm)
       (dm_StructName dm @ '' is the msg body for a '' @ Quote (dm_Name dm) @ '' message.'') (dm_MsgSchema dm) ss"

definition alias_block :: "dataMsg \<Rightarrow> string" where
  "alias_block dm =
     (if dm_MsgSchema dm = None \<and> dm_StructName dm = ''MultivariateMarketLifecycleData''
      then comment_line ''MultivariateMarketLifecycleData has the same shape as MarketLifecycleV2Data.''
           @ ''type MultivariateMarketLifecycleData = MarketLifecycleV2Data'' @ nl @ nl
      else [])"

definition data_section :: "schemas \<Rightarrow> dataMsg list \<Rightarrow> string option" where
  "data_section ss dataMsgs =
     (let sortedMsgs = sort_key dm_StructName dataMsgs
      in parts (Some (group_banner ''Incoming channel data messages'')
           # map (data_block ss) sortedMsgs @ map (Some \<circ> alias_block) sortedMsgs))"

definition ws_file :: "(string list smap \<Rightarrow> string list smap) \<Rightarrow> (string list smap \<Rightarrow> string list smap)
    \<Rightarrow> AsyncAPISpec \<Rightarrow> Snapshot \<Rightarrow> string option" where
  "ws_file ord1 ord2 spec snap =
     (case collectDataMessages ord1 spec of
        None \<Rightarrow> None
      | Some (dataMsgs, msgToChannels) \<Rightarrow>
          (case collectInlineSubObjects dataMsgs of
             None \<Rightarrow> None
           | Some inlineSubs \<Rightarrow>
               let ss = as_Schemas spec
               in parts [Some (ws_fileHeader snap), Some (''package gokalshi'' @ nl @ nl),
                    commands_section ss, responses_section ss, Some (errors_section (as_ErrorCodes spec)),
                    shared_section ss, inline_section ss inlineSubs, data_section ss dataMsgs,
                    Some (group_banner ''Channel mapping''),
                    Some (writeMsgTypeToChannel ord2 (buildMsgTypeToChannel msgToChannels))]))"

end
