(* ===== verification/GenWSProps.thy ===== *)
theory GenWSProps
  imports GenWSTypes GenProps
begin

text \<open>
  The claims about the generator of the WebSocket types: which channels each message type is
  listed with, that the file it writes does not depend on the order in which maps are visited,
  the Go types of fields (and that computing them ends when references are not circular), and
  the merged parameters of \<open>update_subscription\<close>.
\<close>

section \<open>Collecting the messages\<close>

text \<open>The references the two loops visit, each with the address of its channel, and one step over one of them.\<close>

definition message_refs :: "string \<Rightarrow> MsgRef option smap \<Rightarrow> (string \<times> MsgRef) list" where
  "message_refs address ms = concat (map (\<lambda>e. case snd e of None \<Rightarrow> [] | Some r \<Rightarrow> [(address, r)]) ms)"

definition channel_refs :: "Channel option smap \<Rightarrow> (string \<times> MsgRef) list" where
  "channel_refs chs =
     concat (map (\<lambda>e. if fst e \<in> set skipChannels then []
        else case snd e of None \<Rightarrow> [] | Some ch \<Rightarrow> message_refs (address_of (fst e) ch) (ch_Messages ch)) chs)"

definition collect_step :: "AsyncAPISpec \<Rightarrow> string \<times> MsgRef \<Rightarrow> msg_state \<Rightarrow> msg_state" where
  "collect_step spec e st = collect_message spec (fst e) (snd e) st"

text \<open>No nil pointer among the channels the loops visit.\<close>

definition no_nil :: "Channel option smap \<Rightarrow> bool" where
  "no_nil chs \<longleftrightarrow> (\<forall>(k, c) \<in> set chs. k \<in> set skipChannels
      \<or> (\<exists>ch. c = Some ch \<and> (\<forall>e \<in> set (ch_Messages ch). snd e \<noteq> None)))"

lemma messages_loop_fold:
  "messages_loop spec address ms st =
     (if \<forall>e \<in> set ms. snd e \<noteq> None then Some (fold (collect_step spec) (message_refs address ms) st) else None)"
proof (induction ms arbitrary: st)
  case (Cons e ms)
  then show ?case
    by (cases e; cases "snd e") (simp_all add: message_refs_def collect_step_def)
qed (simp add: message_refs_def)

lemma channels_loop_fold:
  "channels_loop spec chs st =
     (if no_nil chs then Some (fold (collect_step spec) (channel_refs chs) st) else None)"
proof (induction chs arbitrary: st)
  case Nil
  then show ?case by (simp add: no_nil_def channel_refs_def)
next
  case (Cons e chs)
  obtain k c where e: "e = (k, c)" by (cases e)
  show ?case
  proof (cases "k \<in> set skipChannels")
    case True
    with Cons.IH show ?thesis by (simp add: e no_nil_def channel_refs_def)
  next
    case False
    then show ?thesis
      by (cases c) (auto simp: e no_nil_def channel_refs_def messages_loop_fold Cons.IH)
  qed
qed

text \<open>What a list of references says of a message type: its addresses, and its payloads.\<close>

definition addresses :: "AsyncAPISpec \<Rightarrow> string \<Rightarrow> (string \<times> MsgRef) list \<Rightarrow> string list" where
  "addresses spec t refs =
     concat (map (\<lambda>e. case referenced spec (snd e) of None \<Rightarrow> []
        | Some m \<Rightarrow> if me_Name m = t then [fst e] else []) refs)"

definition payload_of :: "AsyncAPISpec \<Rightarrow> Message \<Rightarrow> WSSchema option option" where
  "payload_of spec m =
     map_option (\<lambda>p. extractMsgFromPayload p (as_Schemas spec)) (resolvePayloadSchema m (as_Schemas spec))"

definition payloads :: "AsyncAPISpec \<Rightarrow> string \<Rightarrow> (string \<times> MsgRef) list \<Rightarrow> WSSchema option list" where
  "payloads spec t refs =
     concat (map (\<lambda>e. case referenced spec (snd e) of None \<Rightarrow> []
        | Some m \<Rightarrow> if me_Name m = t then (case payload_of spec m of None \<Rightarrow> [] | Some p \<Rightarrow> [p]) else []) refs)"

lemma addresses_append [simp]: "addresses spec t (xs @ ys) = addresses spec t xs @ addresses spec t ys"
  by (simp add: addresses_def)

lemma payloads_append [simp]: "payloads spec t (xs @ ys) = payloads spec t xs @ payloads spec t ys"
  by (simp add: payloads_def)

lemma collect_channels:
  "map_of (st_Channels (fold (collect_step spec) refs \<lparr>st_Channels = [], st_Schemas = []\<rparr>)) t =
     (if addresses spec t refs = [] then None else Some (foldl appendUnique [] (addresses spec t refs)))"
proof (induction refs rule: rev_induct)
  case Nil
  then show ?case by (simp add: addresses_def)
next
  case (snoc e refs)
  show ?case
  proof (cases "referenced spec (snd e)")
    case None
    then have "addresses spec t [e] = []" by (simp add: addresses_def)
    with None snoc.IH show ?thesis by (simp add: collect_step_def collect_message_def)
  next
    case (Some m)
    then have "addresses spec t [e] = (if me_Name m = t then [fst e] else [])" by (simp add: addresses_def)
    with Some snoc.IH show ?thesis
      by (auto simp: collect_step_def collect_message_def Let_def split: option.splits)
  qed
qed

lemma collect_schemas:
  "map_of (st_Schemas (fold (collect_step spec) refs \<lparr>st_Channels = [], st_Schemas = []\<rparr>)) t =
     (case payloads spec t refs of [] \<Rightarrow> None | p # ps \<Rightarrow> Some p)"
proof (induction refs rule: rev_induct)
  case Nil
  then show ?case by (simp add: payloads_def)
next
  case (snoc e refs)
  show ?case
  proof (cases "referenced spec (snd e)")
    case None
    then have "payloads spec t [e] = []" by (simp add: payloads_def)
    with None snoc.IH show ?thesis by (simp add: collect_step_def collect_message_def)
  next
    case (Some m)
    then have "payloads spec t [e] =
        (if me_Name m = t then (case payload_of spec m of None \<Rightarrow> [] | Some p \<Rightarrow> [p]) else [])"
      by (simp add: payloads_def)
    with Some snoc.IH show ?thesis
      by (auto simp: collect_step_def collect_message_def payload_of_def Let_def split: option.splits list.splits)
  qed
qed

lemma foldl_appendUnique:
  "distinct ys \<Longrightarrow> distinct (foldl appendUnique ys xs) \<and> set (foldl appendUnique ys xs) = set ys \<union> set xs"
  by (induction xs arbitrary: ys) (auto simp: appendUnique_def)

lemma collect_distinct_keys:
  "distinct_keys (st_Channels st) \<Longrightarrow> distinct_keys (st_Channels (fold (collect_step spec) refs st))"
proof (induction refs arbitrary: st)
  case (Cons e refs)
  have "distinct_keys (st_Channels (collect_step spec e st))"
    using Cons.prems by (auto simp: collect_step_def collect_message_def Let_def split: option.splits)
  with Cons.IH show ?case by simp
qed simp

text \<open>The specification delivers messages of type \<open>t\<close> on the channel with address \<open>a\<close>.\<close>

definition delivers :: "AsyncAPISpec \<Rightarrow> string \<Rightarrow> string \<Rightarrow> bool" where
  "delivers spec t a \<longleftrightarrow>
     (\<exists>k ch mk r m. (k, Some ch) \<in> set (as_Channels spec) \<and> k \<notin> set skipChannels \<and> a = address_of k ch
        \<and> (mk, Some r) \<in> set (ch_Messages ch) \<and> referenced spec r = Some m \<and> me_Name m = t)"

lemma in_message_refs: "(a, r) \<in> set (message_refs b ms) \<longleftrightarrow> a = b \<and> (\<exists>mk. (mk, Some r) \<in> set ms)"
  by (force simp: message_refs_def split: option.splits)

lemma in_channel_refs:
  "(a, r) \<in> set (channel_refs chs) \<longleftrightarrow>
     (\<exists>k ch mk. (k, Some ch) \<in> set chs \<and> k \<notin> set skipChannels \<and> a = address_of k ch
        \<and> (mk, Some r) \<in> set (ch_Messages ch))"
proof (induction chs)
  case Nil
  then show ?case by (simp add: channel_refs_def)
next
  case (Cons e chs)
  obtain k c where e: "e = (k, c)" by (cases e)
  have "channel_refs (e # chs) = (if k \<in> set skipChannels then [] else case c of None \<Rightarrow> []
      | Some ch \<Rightarrow> message_refs (address_of k ch) (ch_Messages ch)) @ channel_refs chs"
    by (cases c) (simp_all add: channel_refs_def e)
  then show ?case
    by (cases c) (auto simp: e Cons.IH in_message_refs)
qed

lemma in_addresses:
  "a \<in> set (addresses spec t refs) \<longleftrightarrow> (\<exists>r m. (a, r) \<in> set refs \<and> referenced spec r = Some m \<and> me_Name m = t)"
  unfolding addresses_def by (force split: option.splits if_splits)

lemma set_addresses: "a \<in> set (addresses spec t (channel_refs (as_Channels spec))) \<longleftrightarrow> delivers spec t a"
  unfolding in_addresses in_channel_refs delivers_def by blast

definition channels_of :: "AsyncAPISpec \<Rightarrow> string \<Rightarrow> string list" where
  "channels_of spec t = sort (remdups (addresses spec t (channel_refs (as_Channels spec))))"

lemma sort_distinct_set: "distinct xs \<Longrightarrow> sort xs = sorted_list_of_set (set xs)"
  by (simp add: sorted_list_of_set_sort_remdups distinct_remdups_id)

lemma map_of_sort_channels: "map_of (sort_channels m) t = map_option sort (map_of m t)"
  by (induction m) (auto simp: sort_channels_def)

lemma distinct_sort_channels [simp]: "distinct_keys (sort_channels m) = distinct_keys m"
  by (simp add: sort_channels_def distinct_keys_def comp_def case_prod_beta)

lemma finite_delivers: "finite {a. delivers spec t a}"
proof -
  have "{a. delivers spec t a} = set (addresses spec t (channel_refs (as_Channels spec)))"
    using set_addresses by blast
  then show ?thesis by simp
qed

text \<open>The map from message types to channels after the loops.\<close>

lemma collected:
  assumes "collectDataMessages ord spec = Some (dms, m)"
  shows "no_nil (as_Channels spec)" and "distinct_keys m"
    and "map_of m t = (if \<exists>a. delivers spec t a then Some (sorted_list_of_set {a. delivers spec t a}) else None)"
    and "\<exists>st :: msg_state. dms = map (data_msg (st_Schemas st)) (ord m)
         \<and> (\<forall>t. map_of (st_Schemas st) t =
              (case payloads spec t (channel_refs (as_Channels spec)) of [] \<Rightarrow> None | p # ps \<Rightarrow> Some p))"
proof -
  let ?refs = "channel_refs (as_Channels spec)"
  let ?st = "fold (collect_step spec) ?refs \<lparr>st_Channels = [], st_Schemas = []\<rparr>"
  show nn: "no_nil (as_Channels spec)"
    using assms by (simp add: collectDataMessages_def channels_loop_fold split: if_splits)
  have m: "m = sort_channels (st_Channels ?st)" and d: "dms = map (data_msg (st_Schemas ?st)) (ord m)"
    using assms nn by (auto simp: collectDataMessages_def channels_loop_fold Let_def)
  show "distinct_keys m" by (simp add: m collect_distinct_keys)
  have "set (addresses spec t ?refs) = {a. delivers spec t a}" using set_addresses by blast
  moreover have "addresses spec t ?refs = [] \<longleftrightarrow> \<not> (\<exists>a. delivers spec t a)"
    using set_addresses [of _ spec t] by (metis list.set_intros(1) neq_Nil_conv empty_iff empty_set)
  moreover have "distinct (foldl appendUnique [] (addresses spec t ?refs))"
    "set (foldl appendUnique [] (addresses spec t ?refs)) = set (addresses spec t ?refs)"
    using foldl_appendUnique [of "[]" "addresses spec t ?refs"] by auto
  ultimately show "map_of m t =
      (if \<exists>a. delivers spec t a then Some (sorted_list_of_set {a. delivers spec t a}) else None)"
    by (simp add: m map_of_sort_channels collect_channels sort_distinct_set)
  show "\<exists>st :: msg_state. dms = map (data_msg (st_Schemas st)) (ord m)
         \<and> (\<forall>t. map_of (st_Schemas st) t = (case payloads spec t ?refs of [] \<Rightarrow> None | p # ps \<Rightarrow> Some p))"
    unfolding d by (intro exI [of _ ?st] conjI allI refl collect_schemas)
qed

lemma sort_channels_idem: "sort_channels (sort_channels m) = sort_channels m"
  by (simp add: sort_channels_def case_prod_beta comp_def sorted_sort_id)

lemma buildMsgTypeToChannel_collected:
  "collectDataMessages ord spec = Some (dms, m) \<Longrightarrow> buildMsgTypeToChannel m = m"
  by (auto simp: collectDataMessages_def buildMsgTypeToChannel_def Let_def sort_channels_idem split: option.splits)

text \<open>The channels that the generated table lists for a message type are exactly the addresses of
  the data channels the specification delivers that type on, in byte order and without
  duplicates; there is one data message for each delivered type, with the same channels. All of
  it is the same for every order in which the runtime visits the channels and their messages.\<close>

lemma collectDataMessages_exact:
  assumes "collectDataMessages ord spec = Some (dms, m)" and "\<And>e. mset (ord e) = mset e"
  shows "(\<forall>t. map_of (buildMsgTypeToChannel m) t =
              (if \<exists>a. delivers spec t a then Some (sorted_list_of_set {a. delivers spec t a}) else None))
    \<and> distinct (map dm_Name dms) \<and> set (map dm_Name dms) = {t. \<exists>a. delivers spec t a}
    \<and> (\<forall>dm \<in> set dms. dm_Channels dm = sorted_list_of_set {a. delivers spec (dm_Name dm) a}
                     \<and> dm_StructName dm = struct_name (dm_Name dm))"
proof -
  note c = collected [OF assms(1)]
  obtain st :: msg_state where dms: "dms = map (data_msg (st_Schemas st)) (ord m)" using c(4) by blast
  have perm: "mset (ord m) = mset m" "set (ord m) = set m"
    using assms(2) [of m] by (auto dest: mset_eq_setD)
  have names: "map dm_Name dms = map fst (ord m)" by (simp add: dms data_msg_def)
  have "distinct (map fst (ord m))"
    using c(2) perm(1) unfolding distinct_keys_def by (metis mset_eq_imp_distinct_iff mset_map)
  moreover have "fst ` set m = {t. \<exists>a. delivers spec t a}"
    unfolding dom_map_of_conv_image_fst [symmetric] by (auto simp: dom_def c(3))
  moreover have "dm_Channels dm = sorted_list_of_set {a. delivers spec (dm_Name dm) a}
      \<and> dm_StructName dm = struct_name (dm_Name dm)" if dm: "dm \<in> set dms" for dm
  proof -
    obtain e where e: "e \<in> set m" "dm = data_msg (st_Schemas st) e"
      using dm perm(2) by (auto simp: dms)
    then have "map_of m (fst e) = Some (snd e)"
      using c(2) by (simp add: set_distinct_map_of [symmetric])
    with e(2) show ?thesis by (simp add: data_msg_def c(3) split: if_splits)
  qed
  ultimately show ?thesis
    using c(3) by (simp add: names perm(2) buildMsgTypeToChannel_collected [OF assms(1)])
qed

definition demo_message :: Message where
  "demo_message = \<lparr>me_Name = ''trade'', me_Payload = Some (object_schema [(''msg'', Some (object_schema []))])\<rparr>"

definition demo_channel :: "string \<Rightarrow> Channel" where
  "demo_channel address =
     \<lparr>ch_Address = address, ch_Messages = [(''trade'', Some \<lparr>mr_Ref = ''#/components/messages/trade''\<rparr>)]\<rparr>"

definition demo_async :: "Channel option smap \<Rightarrow> AsyncAPISpec" where
  "demo_async chs = \<lparr>as_Channels = chs, as_Messages = [(''trade'', Some demo_message)], as_Schemas = [],
      as_ErrorCodes = None\<rparr>"

definition demo_channels :: "Channel option smap" where
  "demo_channels = [(''root'', None), (''trade_all'', Some (demo_channel [])), (''fills'', Some (demo_channel ''fill''))]"

lemma collectDataMessages_exact_witness:
  "\<exists>dms m. collectDataMessages rev (demo_async demo_channels) = Some (dms, m)
     \<and> map_of (buildMsgTypeToChannel m) ''trade'' =
         Some (sorted_list_of_set {a. delivers (demo_async demo_channels) ''trade'' a})
     \<and> map_of m ''trade'' = Some [''fill'', ''trade_all'']"
proof -
  obtain dms m where c: "collectDataMessages rev (demo_async demo_channels) = Some (dms, m)"
    and m: "map_of m ''trade'' = Some [''fill'', ''trade_all'']"
    by (simp add: collectDataMessages_def demo_async_def demo_channels_def demo_channel_def demo_message_def
        skipChannels_def collect_message_def referenced_def lookup_ptr_def refToName_def address_of_def
        appendUnique_def resolvePayloadSchema_def object_schema_def sort_channels_def Let_def less_list_code)
  have "map_of (buildMsgTypeToChannel m) ''trade'' \<noteq> None"
    using m buildMsgTypeToChannel_collected [OF c] by simp
  with c m collectDataMessages_exact [OF c] show ?thesis by (auto split: if_splits)
qed

section \<open>Go types\<close>

definition ws_type_names :: "string list" where
  "ws_type_names = map snd refTypeOverrides @ map snd sharedSchemaNames @ map snd inlineSubObjectNames
     @ map snd wsFieldTypeOverrides"

abbreviation ws_typed :: "string \<Rightarrow> bool" where
  "ws_typed \<equiv> go_type (set ws_type_names)"

lemma ws_typed_tables:
  "map_of refTypeOverrides k = Some t \<Longrightarrow> ws_typed t"
  "map_of sharedSchemaNames k = Some t \<Longrightarrow> ws_typed t"
  "map_of inlineSubObjectNames f = Some t \<Longrightarrow> ws_typed t"
  "map_of wsFieldTypeOverrides f = Some t \<Longrightarrow> ws_typed t"
  by (rule go_type.named; force simp: ws_type_names_def dest: map_of_SomeD)+

lemma ws_typed_constants:
  "ws_typed ''any''" "ws_typed ''string''" "ws_typed ''int64''" "ws_typed ''int''" "ws_typed ''float64''"
  "ws_typed ''bool''" "ws_typed ''[]any''" "ws_typed ''[][]any''" "ws_typed ''map[string]any''"
proof -
  show any: "ws_typed ''any''" by (rule go_type.builtin) simp
  show "ws_typed ''[]any''" "ws_typed ''map[string]any''"
    using go_type.slice [OF any] go_type.map_of_string [OF any] by simp_all
  then show "ws_typed ''[][]any''" using go_type.slice [of _ "''[]any''"] by simp
qed (rule go_type.builtin, simp)+

definition resolves :: "string \<times> string \<Rightarrow> schemas \<Rightarrow> Schema \<Rightarrow> bool" where
  "resolves field ss s \<longleftrightarrow> (\<exists>t. ws_resolveGoTypeInner field ss (Some s) = Some t \<and> ws_typed t)"

lemma decodedD:
  assumes "decoded s"
  shows "sc_AdditionalProperties s = None" and "sc_Items s = Some i \<Longrightarrow> decoded i"
    and "p \<in> set (sc_AllOf s) \<Longrightarrow> \<exists>q. p = Some q \<and> decoded q"
  using assms by (subst (asm) decoded.simps; auto split: option.splits)+

lemma ws_slices: "ws_typed t \<Longrightarrow> ws_typed (''[]'' @ t)" "ws_typed t \<Longrightarrow> ws_typed (''[][]'' @ t)"
proof -
  show one: "ws_typed t \<Longrightarrow> ws_typed (''[]'' @ t)" for t by (rule go_type.slice)
  show "ws_typed t \<Longrightarrow> ws_typed (''[][]'' @ t)" using one [of "''[]'' @ t"] one [of t] by simp
qed

lemmas ws_built = ws_slices [simplified] go_type.pointer [of "set ws_type_names", simplified]

text \<open>A schema resolves if every schema it may refer to does.\<close>

lemma resolves_step:
  assumes "decoded s"
    and "\<And>n r. n \<in> set (collectRefs s) \<Longrightarrow> map_of ss n = Some r \<Longrightarrow> \<exists>q. r = Some q \<and> resolves field ss q"
  shows "resolves field ss s"
  using assms
proof (induction s rule: measure_induct_rule [of size])
  case (less s)
  note dec = decodedD [OF less.prems(1)]
  have sub: "resolves field ss q" if "size q < size s" "decoded q" "set (collectRefs q) \<subseteq> set (collectRefs s)" for q
    using less.IH [OF that(1,2)] less.prems(2) that(3) by blast
  have unfold_s: "ws_resolveGoTypeInner field ss (Some s) = X \<Longrightarrow> X = Some t \<Longrightarrow> ws_typed t \<Longrightarrow> resolves field ss s" for X t
    by (auto simp: resolves_def)
  note simps = ws_resolveGoTypeInner.simps [of field ss "Some s"]
  consider (all_of) "length (sc_AllOf s) = 1"
    | (ref) "length (sc_AllOf s) \<noteq> 1" "sc_Ref s \<noteq> []"
    | (items) i where "length (sc_AllOf s) \<noteq> 1" "sc_Ref s = []" "sc_Type s = ''array''" "sc_Items s = Some i"
    | (other) "length (sc_AllOf s) \<noteq> 1" "sc_Ref s = []" "sc_Type s \<noteq> ''array'' \<or> sc_Items s = None"
    by (cases "sc_Items s") blast+
  then show ?case
  proof cases
    case all_of
    then obtain p where p: "sc_AllOf s = [p]" by (cases "sc_AllOf s") auto
    then obtain q where q: "sc_AllOf s = [Some q]" "decoded q" using dec(3) [of p] by auto
    have "resolves field ss q" by (rule sub [OF size_all_of [OF q(1)] q(2) collectRefs_all_of [OF q(1)]])
    then show ?thesis by (simp add: resolves_def simps q(1))
  next
    case ref
    let ?n = "refToName (sc_Ref s)"
    have "\<exists>q. r = Some q \<and> resolves field ss q" if "map_of ss ?n = Some r" for r
      by (rule less.prems(2) [OF collectRefs_ref [OF ref(2)] that])
    then show ?thesis
      using ref by (auto simp: resolves_def simps ws_typed_tables ws_typed_constants split: option.splits)
  next
    case items
    have i: "resolves field ss i" "decoded i"
      using sub [OF size_items [OF items(4)] dec(2) [OF items(4)] collectRefs_items [OF items(4)]] dec(2) [OF items(4)]
      by auto
    have "resolves field ss j" if j: "sc_Items i = Some j" for j
      by (rule sub) (use size_items [OF items(4)] size_items [OF j] decodedD(2) [OF i(2) j]
          collectRefs_items [OF items(4)] collectRefs_items [OF j] in auto)
    with i(1) items show ?thesis
      by (auto simp: resolves_def simps intro!: ws_built intro: ws_typed_tables ws_typed_constants split: option.splits)
  next
    case other
    then show ?thesis
      using dec(1)
      by (auto simp: resolves_def simps additional_schema_def
          intro!: ws_built intro: ws_typed_tables ws_typed_constants split: option.splits)
  qed
qed

text \<open>\<open>(d, n)\<close>: the schema \<open>n\<close> refers to \<open>d\<close>.\<close>

definition ref_edges :: "schemas \<Rightarrow> (string \<times> string) set" where
  "ref_edges ss = {(d, n). \<exists>s. map_of ss n = Some (Some s) \<and> d \<in> set (collectRefs s)}"

lemma finite_ref_edges: "finite (ref_edges ss)"
proof -
  have "ref_edges ss \<subseteq> (\<Union>(n, os) \<in> set ss. case os of None \<Rightarrow> {} | Some s \<Rightarrow> (\<lambda>d. (d, n)) ` set (collectRefs s))"
    by (auto simp: ref_edges_def dest!: map_of_SomeD)
  then show ?thesis by (rule finite_subset) (auto split: option.splits)
qed

lemma all_resolve:
  assumes "acyclic (ref_edges ss)" and "\<And>n r. map_of ss n = Some r \<Longrightarrow> \<exists>q. r = Some q \<and> decoded q"
  shows "map_of ss n = Some r \<Longrightarrow> \<exists>q. r = Some q \<and> resolves field ss q"
proof -
  have "wf (ref_edges ss)" by (rule finite_acyclic_wf [OF finite_ref_edges assms(1)])
  then show "map_of ss n = Some r \<Longrightarrow> \<exists>q. r = Some q \<and> resolves field ss q"
  proof (induction n arbitrary: r)
    case (less n)
    obtain q where q: "r = Some q" "decoded q" using assms(2) [OF less.prems] by blast
    have "resolves field ss q"
    proof (rule resolves_step [OF q(2)])
      fix d e assume "d \<in> set (collectRefs q)" "map_of ss d = Some e"
      moreover from this have "(d, n) \<in> ref_edges ss" using less.prems q(1) by (auto simp: ref_edges_def)
      ultimately show "\<exists>p. e = Some p \<and> resolves field ss p" using less.IH by blast
    qed
    with q(1) show ?case by blast
  qed
qed

text \<open>C27: If the decoded schemas do not refer to each other in a circle, the search for the Go type
  of a field ends, and gives a well-formed Go type over the names in the generator's tables: no
  schema name reaches the file unless a table maps it.\<close>

theorem ws_resolveGoType_typed:
  assumes "acyclic (ref_edges ss)" and "\<And>n r. map_of ss n = Some r \<Longrightarrow> \<exists>q. r = Some q \<and> decoded q"
    and "decoded prop"
  shows "\<exists>t. ws_resolveGoType structName fieldName ss (Some prop) = Some t \<and> go_type (set ws_type_names) t"
proof -
  have "resolves (structName, fieldName) ss prop"
    by (rule resolves_step [OF assms(3) all_resolve [OF assms(1,2)]])
  then show ?thesis
    by (auto simp: ws_resolveGoType_def resolves_def ws_typed_tables split: option.splits)
qed

definition level_schemas :: schemas where
  "level_schemas =
     [(''level'', Some (Schema ''array'' [] [] [] [] [] (Some (ref_schema ''#/components/schemas/price'')) [] [] False False None)),
      (''price'', Some (Schema ''integer'' ''int64'' [] [] [] [] None [] [] False False None))]"

lemma ws_resolveGoType_typed_witness:
  "ws_resolveGoType ''TradeData'' ''yes'' level_schemas (Some (ref_schema ''#/components/schemas/level'')) = Some ''[]int64''
   \<and> go_type (set ws_type_names) ''[]int64''"
proof -
  let ?p = "ref_schema ''#/components/schemas/level''"
  have refs: "collectRefs ?p = [''level'']"
    "\<And>s. map_of level_schemas ''level'' = Some (Some s) \<Longrightarrow> collectRefs s = [''price'']"
    "\<And>s. map_of level_schemas ''price'' = Some (Some s) \<Longrightarrow> collectRefs s = []"
    by (auto simp: level_schemas_def ref_schema_def collectRefs.simps refToName_def)
  have "ref_edges level_schemas \<subseteq> {(''price'', ''level'')}"
  proof
    fix e assume "e \<in> ref_edges level_schemas"
    then obtain d n s where e: "e = (d, n)" "map_of level_schemas n = Some (Some s)" "d \<in> set (collectRefs s)"
      by (auto simp: ref_edges_def)
    then have "n = ''level'' \<or> n = ''price''" by (auto simp: level_schemas_def split: if_splits)
    with e refs(2,3) show "e \<in> {(''price'', ''level'')}" by auto
  qed
  moreover have "acyclic {(''price'', ''level'')}" by (auto simp: acyclic_def trancl_insert)
  ultimately have acyc: "acyclic (ref_edges level_schemas)" by (rule acyclic_subset [rotated])
  have dec: "\<exists>q. r = Some q \<and> decoded q" if "map_of level_schemas n = Some r" for n r
    using that by (auto simp: level_schemas_def ref_schema_def decoded.simps split: if_splits)
  have p: "decoded ?p" by (simp add: ref_schema_def decoded.simps)
  have "\<exists>t. ws_resolveGoType ''TradeData'' ''yes'' level_schemas (Some ?p) = Some t \<and> ws_typed t"
    by (rule ws_resolveGoType_typed [OF acyc _ p]) (rule dec)
  then obtain t
    where t: "ws_resolveGoType ''TradeData'' ''yes'' level_schemas (Some ?p) = Some t" "ws_typed t" by blast
  have "ws_resolveGoType ''TradeData'' ''yes'' level_schemas (Some ?p) = Some ''[]int64''"
    by (simp add: ws_resolveGoType_def wsFieldTypeOverrides_def level_schemas_def ref_schema_def refToName_def
        ws_resolveGoTypeInner.simps refTypeOverrides_def sharedSchemaNames_def)
  with t show ?thesis by simp
qed

text \<open>A schema that refers to itself sends the generator into an endless recursion.\<close>

definition loop_schemas :: schemas where
  "loop_schemas = [(''a'', Some (ref_schema ''a''))]"

lemma ws_resolveGoType_circular:
  "ws_resolveGoTypeInner field loop_schemas (Some (ref_schema ''a'')) = None"
proof -
  have step: "map_of loop_schemas (refToName (sc_Ref (ref_schema ''a''))) = Some (Some (ref_schema ''a''))"
    "map_of refTypeOverrides (refToName (sc_Ref (ref_schema ''a''))) = None"
    "map_of sharedSchemaNames (refToName (sc_Ref (ref_schema ''a''))) = None"
    "sc_AllOf (ref_schema ''a'') = []" "sc_Ref (ref_schema ''a'') \<noteq> []"
    by (simp_all add: loop_schemas_def ref_schema_def refToName_def refTypeOverrides_def sharedSchemaNames_def)
  have "ss = loop_schemas \<longrightarrow> p \<noteq> Some (ref_schema ''a'')"
    if "ws_resolveGoTypeInner field ss p = Some y" for field ss p y
  proof (rule ws_resolveGoTypeInner.raw_induct [OF _ that], goal_cases)
    case (1 g key ss p y)
    show ?case
    proof (intro impI notI)
      assume circle: "ss = loop_schemas" "p = Some (ref_schema ''a'')"
      have "g key loop_schemas (Some (ref_schema ''a'')) = Some y"
        using 1(2) by (simp add: circle step)
      from 1(1) [OF this] show False by simp
    qed
  qed
  from this [of field loop_schemas "Some (ref_schema ''a'')"] show ?thesis
    by (cases "ws_resolveGoTypeInner field loop_schemas (Some (ref_schema ''a''))") simp_all
qed

section \<open>Parameters of update_subscription\<close>

lemma map_of_fold_update:
  "distinct_keys r \<Longrightarrow> map_of (fold (\<lambda>(k, v) merged. AList.update k v merged) r m) = map_of m ++ map_of r"
proof (induction r arbitrary: m)
  case (Cons e r)
  obtain k v where e: "e = (k, v)" by (cases e)
  have "map_of r k = None" using Cons.prems by (simp add: e distinct_keys_def map_of_eq_None_iff)
  moreover have "distinct_keys r" using Cons.prems by (simp add: e distinct_keys_def)
  ultimately show ?case by (auto simp: e Cons.IH fun_eq_iff map_add_def split: option.splits)
qed simp

lemma map_of_fold_missing:
  "map_of (fold (\<lambda>(k, v) merged. if map_of merged k = None then AList.update k v merged else merged) c m) =
     map_of c ++ map_of m"
proof (induction c arbitrary: m)
  case (Cons e c)
  obtain k v where e: "e = (k, v)" by (cases e)
  show ?case
    by (cases "map_of m k") (auto simp: e Cons.IH fun_eq_iff map_add_def split: option.splits)
qed simp

lemma map_of_merge_properties:
  "distinct_keys r \<Longrightarrow> map_of (merge_properties r c) = map_of c ++ map_of r"
  by (simp add: merge_properties_def map_of_fold_missing map_of_fold_update)

text \<open>The merged parameters of \<open>update_subscription\<close> have the properties of the regular and of the
  cfbenchmarks command and no other, the regular command's where both have one of a name, and
  require what either requires.\<close>

lemma mergeUpdateSubParams_fields:
  assumes "extractParamsSchema ss ''updateSubscriptionCommandPayload'' = Some regular"
    and "extractParamsSchema ss ''cfbenchmarksUpdateSubscriptionCommandPayload'' = Some cfb"
    and "distinct_keys (sc_Properties regular)"
  shows "\<exists>merged. mergeUpdateSubParams ss = Some merged
    \<and> map_of (sc_Properties merged) = map_of (sc_Properties cfb) ++ map_of (sc_Properties regular)
    \<and> fst ` set (sc_Properties merged) = fst ` set (sc_Properties regular) \<union> fst ` set (sc_Properties cfb)
    \<and> sc_Required merged = sorted_list_of_set (set (sc_Required regular) \<union> set (sc_Required cfb))"
proof -
  obtain merged where m: "mergeUpdateSubParams ss = Some merged"
    "sc_Properties merged = merge_properties (sc_Properties regular) (sc_Properties cfb)"
    "sc_Required merged = merge_required (sc_Required regular) (sc_Required cfb)"
    using assms(1,2) by (simp add: mergeUpdateSubParams_def)
  have props: "map_of (sc_Properties merged) = map_of (sc_Properties cfb) ++ map_of (sc_Properties regular)"
    by (simp add: m(2) map_of_merge_properties assms(3))
  have "fst ` set (sc_Properties merged) = fst ` set (sc_Properties regular) \<union> fst ` set (sc_Properties cfb)"
    unfolding dom_map_of_conv_image_fst [symmetric] props by simp
  with m(1,3) props show ?thesis
    by (simp add: merge_required_def sorted_list_of_set_sort_remdups [symmetric])
qed

text \<open>
  The parameters of the three variants of the command as the vendored specification has them. The
  third variant, of the pyth channel, is not merged: the struct has no field for its tickers.
\<close>

definition params_payload :: "(string \<times> Schema option) list \<Rightarrow> Schema" where
  "params_payload props = object_schema [(''params'', Some (Schema ''object'' [] [] [] props [''action''] None [] [] False False None))]"

definition update_variants :: schemas where
  "update_variants =
     [(''updateSubscriptionCommandPayload'', Some (params_payload
         [(''sid'', Some (ref_schema ''subscriptionId'')), (''market_tickers'', Some (object_schema [])),
          (''action'', Some (object_schema []))])),
      (''cfbenchmarksUpdateSubscriptionCommandPayload'', Some (params_payload
         [(''sid'', Some (ref_schema ''subscriptionId'')), (''index_ids'', Some (object_schema [])),
          (''action'', Some (object_schema []))])),
      (''pythUpdateSubscriptionCommandPayload'', Some (params_payload
         [(''sid'', Some (ref_schema ''subscriptionId'')), (''underlying_tickers'', Some (object_schema [])),
          (''action'', Some (object_schema []))]))]"

lemma mergeUpdateSubParams_fields_witness:
  "\<exists>merged. mergeUpdateSubParams update_variants = Some merged
     \<and> fst ` set (sc_Properties merged) = {''sid'', ''market_tickers'', ''index_ids'', ''action''}
     \<and> sc_Required merged = [''action'']"
proof -
  have ex: "extractParamsSchema update_variants ''updateSubscriptionCommandPayload'' =
      Some (the (extractParamsSchema update_variants ''updateSubscriptionCommandPayload''))"
    "extractParamsSchema update_variants ''cfbenchmarksUpdateSubscriptionCommandPayload'' =
      Some (the (extractParamsSchema update_variants ''cfbenchmarksUpdateSubscriptionCommandPayload''))"
    by (simp_all add: extractParamsSchema_def update_variants_def lookup_ptr_def property_of_def params_payload_def
        object_schema_def deref_def)
  have shape: "map fst (sc_Properties (the (extractParamsSchema update_variants ''updateSubscriptionCommandPayload''))) =
      [''sid'', ''market_tickers'', ''action'']"
    "map fst (sc_Properties (the (extractParamsSchema update_variants ''cfbenchmarksUpdateSubscriptionCommandPayload''))) =
      [''sid'', ''index_ids'', ''action'']"
    "sc_Required (the (extractParamsSchema update_variants ''updateSubscriptionCommandPayload'')) = [''action'']"
    "sc_Required (the (extractParamsSchema update_variants ''cfbenchmarksUpdateSubscriptionCommandPayload'')) = [''action'']"
    by (simp_all add: extractParamsSchema_def update_variants_def lookup_ptr_def property_of_def params_payload_def
        object_schema_def deref_def)
  have "distinct_keys (sc_Properties (the (extractParamsSchema update_variants ''updateSubscriptionCommandPayload'')))"
    unfolding distinct_keys_def shape by simp
  from mergeUpdateSubParams_fields [OF ex this] obtain merged where
    m: "mergeUpdateSubParams update_variants = Some merged"
      "fst ` set (sc_Properties merged) =
         set [''sid'', ''market_tickers'', ''action''] \<union> set [''sid'', ''index_ids'', ''action'']"
      "sc_Required merged = sorted_list_of_set (set [''action''] \<union> set [''action''])"
    unfolding list.set_map [symmetric] shape by blast
  have "set [''sid'', ''market_tickers'', ''action''] \<union> set [''sid'', ''index_ids'', ''action''] =
      {''sid'', ''market_tickers'', ''index_ids'', ''action''}" by (simp add: insert_commute)
  moreover have "sorted_list_of_set (set [''action''] \<union> set [''action'']) = [''action'']" by simp
  ultimately show ?thesis using m by metis
qed

text \<open>Without the merge nothing changes when a third variant is there.\<close>

lemma update_params_ignore_others:
  assumes "\<And>n. n \<in> {''updateSubscriptionCommandPayload'', ''cfbenchmarksUpdateSubscriptionCommandPayload''} \<Longrightarrow>
      extractParamsSchema ss' n = extractParamsSchema ss n"
  shows "mergeUpdateSubParams ss' = mergeUpdateSubParams ss"
  by (simp add: mergeUpdateSubParams_def assms)

end
