(* ===== verification/GenWSFile.thy ===== *)
theory GenWSFile
  imports GenWSProps
begin

text \<open>
  The file that \<open>tools/generate_ws_types\<close> writes does not depend on the order in which the
  runtime visits the channels of the specification and their messages, nor on that of the map
  from message types to channels, which the tool builds and ranges over twice. Theory GenWSSame
  adds the other maps of the specification.
\<close>

section \<open>Lists up to order\<close>

lemma sort_perm: "mset xs = mset ys \<Longrightarrow> sort xs = sort ys" for xs :: "'a :: linorder list"
  by (metis sorted_list_of_multiset_mset)

lemma sort_key_perm:
  "mset xs = mset ys \<Longrightarrow> distinct (map f xs) \<Longrightarrow> sort_key f xs = sort_key f ys"
  by (rule sort_key_inj_key_eq) (auto simp: distinct_map)

lemma first_of_equal_sets:
  assumes "set xs = set ys" "\<And>p q. p \<in> set xs \<Longrightarrow> q \<in> set xs \<Longrightarrow> p = q"
  shows "(case xs of [] \<Rightarrow> None | p # ps \<Rightarrow> Some p) = (case ys of [] \<Rightarrow> None | p # ps \<Rightarrow> Some p)"
proof (cases xs)
  case Nil
  with assms(1) show ?thesis by simp
next
  case (Cons x xs')
  then obtain y ys' where "ys = y # ys'" using assms(1) by (cases ys) auto
  moreover have "y = x" using assms Cons \<open>ys = y # ys'\<close> by (metis list.set_intros(1))
  ultimately show ?thesis by (simp add: Cons)
qed

lemma distinct_keys_mset:
  assumes "distinct_keys m" "distinct_keys m'" "map_of m = map_of m'"
  shows "mset m = mset m'"
proof -
  have "set m = set m'"
    using assms by (auto simp: set_distinct_map_of)
  moreover have "distinct m" "distinct m'"
    using assms(1,2) by (auto simp: distinct_keys_def distinct_map)
  ultimately show ?thesis by (simp add: set_eq_iff_mset_eq_distinct)
qed

section \<open>Specifications that differ in the order of their maps\<close>

definition channel_view :: "string \<times> Channel option \<Rightarrow> string \<times> (string \<times> MsgRef option set) option" where
  "channel_view e = (fst e, map_option (\<lambda>ch. (ch_Address ch, snd ` set (ch_Messages ch))) (snd e))"

text \<open>The same specification, its channels and the messages of each channel listed in another order.\<close>

definition reordered :: "AsyncAPISpec \<Rightarrow> AsyncAPISpec \<Rightarrow> bool" where
  "reordered spec spec' \<longleftrightarrow> spec' = spec\<lparr>as_Channels := as_Channels spec'\<rparr>
     \<and> channel_view ` set (as_Channels spec) = channel_view ` set (as_Channels spec')"

lemma no_nil_view:
  "no_nil chs \<longleftrightarrow> (\<forall>v \<in> channel_view ` set chs. fst v \<in> set skipChannels
     \<or> (\<exists>address ms. snd v = Some (address, ms) \<and> None \<notin> ms))"
proof -
  have "(case e of (k, c) \<Rightarrow> k \<in> set skipChannels \<or> (\<exists>ch. c = Some ch \<and> (\<forall>x \<in> set (ch_Messages ch). snd x \<noteq> None)))
      \<longleftrightarrow> (fst (channel_view e) \<in> set skipChannels
         \<or> (\<exists>address ms. snd (channel_view e) = Some (address, ms) \<and> None \<notin> ms))" for e
  proof (cases e)
    case (Pair k c)
    have "None \<notin> snd ` set (ch_Messages ch) \<longleftrightarrow> (\<forall>x \<in> set (ch_Messages ch). snd x \<noteq> None)" for ch :: Channel
      by force
    then show ?thesis by (cases c) (simp_all add: Pair channel_view_def)
  qed
  then show ?thesis unfolding no_nil_def by simp
qed

lemma in_channel_refs_view:
  "(a, r) \<in> set (channel_refs chs) \<longleftrightarrow>
     (\<exists>k address ms. (k, Some (address, ms)) \<in> channel_view ` set chs \<and> k \<notin> set skipChannels
        \<and> a = (if address = [] then k else address) \<and> Some r \<in> ms)"
proof
  assume "(a, r) \<in> set (channel_refs chs)"
  then obtain k ch mk where e: "(k, Some ch) \<in> set chs" "k \<notin> set skipChannels" "a = address_of k ch"
    "(mk, Some r) \<in> set (ch_Messages ch)" unfolding in_channel_refs by blast
  have "(k, Some (ch_Address ch, snd ` set (ch_Messages ch))) \<in> channel_view ` set chs"
    using e(1) by (force simp: channel_view_def)
  moreover have "Some r \<in> snd ` set (ch_Messages ch)" using e(4) by force
  ultimately show "\<exists>k address ms. (k, Some (address, ms)) \<in> channel_view ` set chs \<and> k \<notin> set skipChannels
        \<and> a = (if address = [] then k else address) \<and> Some r \<in> ms"
    using e(2,3) unfolding address_of_def by blast
next
  assume "\<exists>k address ms. (k, Some (address, ms)) \<in> channel_view ` set chs \<and> k \<notin> set skipChannels
        \<and> a = (if address = [] then k else address) \<and> Some r \<in> ms"
  then obtain k address ms e where v: "channel_view e = (k, Some (address, ms))" "e \<in> set chs"
      "k \<notin> set skipChannels" "a = (if address = [] then k else address)" "Some r \<in> ms"
    unfolding image_iff by metis
  obtain ch where "e = (k, Some ch)" "address = ch_Address ch" "ms = snd ` set (ch_Messages ch)"
    using v(1) by (cases e; cases "snd e") (auto simp: channel_view_def)
  with v(2-5) have "(k, Some ch) \<in> set chs" "k \<notin> set skipChannels" "a = address_of k ch"
    "Some r \<in> snd ` set (ch_Messages ch)"
    by (simp_all add: address_of_def)
  then show "(a, r) \<in> set (channel_refs chs)" unfolding in_channel_refs by force
qed

lemma reordered_refs:
  assumes "reordered spec spec'"
  shows "no_nil (as_Channels spec') = no_nil (as_Channels spec)"
    and "set (channel_refs (as_Channels spec')) = set (channel_refs (as_Channels spec))"
    and "as_Messages spec' = as_Messages spec" and "as_Schemas spec' = as_Schemas spec"
    and "as_ErrorCodes spec' = as_ErrorCodes spec"
proof -
  have view: "channel_view ` set (as_Channels spec') = channel_view ` set (as_Channels spec)"
    and eq: "spec' = spec\<lparr>as_Channels := as_Channels spec'\<rparr>"
    using assms by (simp_all add: reordered_def)
  show "no_nil (as_Channels spec') = no_nil (as_Channels spec)" unfolding no_nil_view view ..
  have "e \<in> set (channel_refs (as_Channels spec')) \<longleftrightarrow> e \<in> set (channel_refs (as_Channels spec))" for e
    by (cases e) (simp only: in_channel_refs_view view)
  then show "set (channel_refs (as_Channels spec')) = set (channel_refs (as_Channels spec))" by blast
  show "as_Messages spec' = as_Messages spec" "as_Schemas spec' = as_Schemas spec"
    "as_ErrorCodes spec' = as_ErrorCodes spec"
    using arg_cong [OF eq, of as_Messages] arg_cong [OF eq, of as_Schemas] arg_cong [OF eq, of as_ErrorCodes]
    by simp_all
qed

lemma referenced_cong: "as_Messages spec' = as_Messages spec \<Longrightarrow> referenced spec' = referenced spec"
  by (intro ext) (simp add: referenced_def)

definition has_payload :: "AsyncAPISpec \<Rightarrow> string \<Rightarrow> WSSchema option \<Rightarrow> MsgRef \<Rightarrow> bool" where
  "has_payload spec t p r \<longleftrightarrow> (case referenced spec r of None \<Rightarrow> False
     | Some m \<Rightarrow> me_Name m = t \<and> payload_of spec m = Some p)"

lemma in_payloads: "p \<in> set (payloads spec t refs) \<longleftrightarrow> (\<exists>e \<in> set refs. has_payload spec t p (snd e))"
proof (induction refs)
  case (Cons e refs)
  have "p \<in> set (payloads spec t [e]) \<longleftrightarrow> has_payload spec t p (snd e)"
  proof (cases "referenced spec (snd e)")
    case None
    then show ?thesis by (simp add: payloads_def has_payload_def)
  next
    case (Some m)
    have one: "q \<in> set (case w of None \<Rightarrow> [] | Some p \<Rightarrow> [p]) \<longleftrightarrow> w = Some q" for q :: "WSSchema option" and w
      by (cases w) auto
    have "p \<in> set (if b then case w of None \<Rightarrow> [] | Some p \<Rightarrow> [p] else []) \<longleftrightarrow> b \<and> w = Some p" for b w
      by (cases b) (simp_all only: one if_True if_False simp_thms list.set empty_iff)
    then show ?thesis
      unfolding payloads_def has_payload_def by (simp only: Some list.map concat.simps append_Nil2 option.simps)
  qed
  with Cons.IH show ?case using payloads_append [of spec t "[e]" refs] by simp
qed (simp add: payloads_def)

lemma reordered_facts:
  assumes "reordered spec spec'"
  shows "delivers spec' t a = delivers spec t a"
    and "set (payloads spec' t (channel_refs (as_Channels spec'))) = set (payloads spec t (channel_refs (as_Channels spec)))"
proof -
  note r = reordered_refs [OF assms]
  have ref: "referenced spec' = referenced spec" by (rule referenced_cong [OF r(3)])
  show "delivers spec' t a = delivers spec t a"
    unfolding set_addresses [symmetric] in_addresses ref r(2) ..
  have pl: "payload_of spec' = payload_of spec" by (intro ext) (simp add: payload_of_def r(4))
  show "set (payloads spec' t (channel_refs (as_Channels spec'))) = set (payloads spec t (channel_refs (as_Channels spec)))"
    unfolding set_eq_iff in_payloads has_payload_def ref pl r(2) by (rule allI, rule refl)
qed

text \<open>Messages that share a name have the same body.\<close>

definition one_payload :: "AsyncAPISpec \<Rightarrow> bool" where
  "one_payload spec \<longleftrightarrow> (\<forall>t. \<forall>p \<in> set (payloads spec t (channel_refs (as_Channels spec))).
      \<forall>q \<in> set (payloads spec t (channel_refs (as_Channels spec))). p = q)"

lemma data_msg_cong: "map_of S = map_of S' \<Longrightarrow> data_msg S = data_msg S'"
  by (intro ext) (simp add: data_msg_def lookup_ptr_def)

lemma collect_none_iff: "collectDataMessages ord spec = None \<longleftrightarrow> \<not> no_nil (as_Channels spec)"
  by (simp add: collectDataMessages_def channels_loop_fold Let_def)

lemma collect_reordered:
  assumes "reordered spec spec'" "one_payload spec"
    and "\<And>e. mset (ord e) = mset e" "\<And>e. mset (ord' e) = mset e"
    and "collectDataMessages ord spec = Some (dms, m)"
  shows "\<exists>dms' m'. collectDataMessages ord' spec' = Some (dms', m') \<and> mset dms' = mset dms \<and> mset m' = mset m"
proof -
  note c = collected [OF assms(5)] and f = reordered_facts [OF assms(1)]
  have "no_nil (as_Channels spec')" using c(1) reordered_refs(1) [OF assms(1)] by simp
  then obtain dms' m' where d': "collectDataMessages ord' spec' = Some (dms', m')"
    using collect_none_iff [of ord' spec'] by auto
  note c' = collected [OF d']
  have "delivers spec' = delivers spec" by (intro ext) (rule f(1))
  then have "map_of m' = map_of m" by (intro ext) (simp add: c(3) c'(3))
  then have m: "mset m' = mset m" by (rule distinct_keys_mset [OF c'(2) c(2)])
  obtain st st' :: msg_state where
    st: "dms = map (data_msg (st_Schemas st)) (ord m)"
      "\<And>t. map_of (st_Schemas st) t = (case payloads spec t (channel_refs (as_Channels spec)) of [] \<Rightarrow> None | p # ps \<Rightarrow> Some p)"
    and st': "dms' = map (data_msg (st_Schemas st')) (ord' m')"
      "\<And>t. map_of (st_Schemas st') t = (case payloads spec' t (channel_refs (as_Channels spec')) of [] \<Rightarrow> None | p # ps \<Rightarrow> Some p)"
    using c(4) c'(4) by blast
  have "map_of (st_Schemas st') = map_of (st_Schemas st)"
    unfolding st(2) st'(2)
    by (intro ext, rule sym, rule first_of_equal_sets) (use assms(2) f(2) in \<open>auto simp: one_payload_def\<close>)
  then have "data_msg (st_Schemas st') = data_msg (st_Schemas st)" by (rule data_msg_cong)
  then have "mset dms' = mset dms" by (simp add: st(1) st'(1) assms(3,4) m)
  with d' m show ?thesis by blast
qed

section \<open>Nested objects\<close>

definition inline_names :: "string \<Rightarrow> string set" where
  "inline_names s = {g. \<exists>f. map_of inlineSubObjectNames (s, f) = Some g}"

lemma inline_names_disjoint: "s \<noteq> s' \<Longrightarrow> inline_names s \<inter> inline_names s' = {}"
  by (auto simp: inline_names_def inlineSubObjectNames_def split: if_splits)

definition no_inline :: inline_state where
  "no_inline = \<lparr>in_result = [], in_seen = []\<rparr>"

text \<open>Names of other structs among the seen ones make no difference to the fields of a struct.\<close>

lemma inline_fields_frame:
  "set v \<inter> inline_names s = {} \<Longrightarrow>
   inline_fields s ps \<lparr>in_result = r0 @ r, in_seen = u @ v\<rparr> =
     map_option (\<lambda>st. \<lparr>in_result = r0 @ in_result st, in_seen = in_seen st @ v\<rparr>)
       (inline_fields s ps \<lparr>in_result = r, in_seen = u\<rparr>)"
proof (induction ps arbitrary: r u)
  case (Cons e ps)
  obtain f p where e: "e = (f, p)" by (cases e)
  show ?case
  proof (cases "map_of inlineSubObjectNames (s, f)")
    case None
    with Cons show ?thesis by (simp add: e)
  next
    case (Some g)
    then have g: "g \<in> set (u @ v) \<longleftrightarrow> g \<in> set u"
      using Cons.prems by (auto simp: inline_names_def)
    show ?thesis
    proof (cases "g \<in> set u")
      case True
      with Cons Some show ?thesis by (simp add: e)
    next
      case False
      with Cons.IH [OF Cons.prems, of "r @ inline_object g (the p)" "g # u"] Some g show ?thesis
        by (cases p) (simp_all add: e)
    qed
  qed
qed simp

lemma inline_object_names: "is_StructName ` set (inline_object g p) \<subseteq> {g} \<and> distinct (map is_StructName (inline_object g p))"
proof -
  have "inline_object g p = [] \<or> (\<exists>s. inline_object g p = [\<lparr>is_StructName = g, is_Schema = s\<rparr>])"
    by (cases "sc_Items p") (simp_all add: inline_object_def)
  then show ?thesis by (elim disjE exE) simp_all
qed

lemma inline_fields_names:
  assumes "inline_fields s ps st = Some st'"
    and "distinct (map is_StructName (in_result st))" "is_StructName ` set (in_result st) \<subseteq> set (in_seen st)"
  shows "set (in_seen st') \<subseteq> set (in_seen st) \<union> inline_names s
    \<and> distinct (map is_StructName (in_result st')) \<and> is_StructName ` set (in_result st') \<subseteq> set (in_seen st')"
  using assms
proof (induction ps arbitrary: st)
  case (Cons e ps)
  obtain f p where e: "e = (f, p)" by (cases e)
  show ?case
  proof (cases "map_of inlineSubObjectNames (s, f)")
    case None
    with Cons show ?thesis by (simp add: e)
  next
    case (Some g)
    then have names: "g \<in> inline_names s" by (auto simp: inline_names_def)
    show ?thesis
    proof (cases "g \<in> set (in_seen st)")
      case True
      with Cons Some show ?thesis by (simp add: e)
    next
      case False
      then obtain q where q: "p = Some q" using Cons.prems(1) Some by (cases p) (auto simp: e)
      let ?st = "\<lparr>in_result = in_result st @ inline_object g q, in_seen = g # in_seen st\<rparr>"
      have "distinct (map is_StructName (in_result ?st))"
        using Cons.prems(2,3) inline_object_names [of g q] False by fastforce
      moreover have "is_StructName ` set (in_result ?st) \<subseteq> set (in_seen ?st)"
        using Cons.prems(3) inline_object_names [of g q] by auto
      moreover have "inline_fields s ps ?st = Some st'" using Cons.prems(1) Some False by (simp add: e q)
      ultimately have "set (in_seen st') \<subseteq> set (in_seen ?st) \<union> inline_names s
          \<and> distinct (map is_StructName (in_result st')) \<and> is_StructName ` set (in_result st') \<subseteq> set (in_seen st')"
        by (intro Cons.IH)
      with names show ?thesis by auto
    qed
  qed
qed simp

text \<open>The nested objects of one data message.\<close>

definition inline_of :: "dataMsg \<Rightarrow> inlineSub list option" where
  "inline_of dm = (case dm_MsgSchema dm of None \<Rightarrow> Some []
     | Some s \<Rightarrow> map_option in_result (inline_fields (dm_StructName dm) (sc_Properties s) no_inline))"

lemma inline_of_names:
  assumes "inline_of dm = Some subs"
  shows "distinct (map is_StructName subs)" "is_StructName ` set subs \<subseteq> inline_names (dm_StructName dm)"
proof -
  have "distinct (map is_StructName subs) \<and> is_StructName ` set subs \<subseteq> inline_names (dm_StructName dm)"
  proof (cases "dm_MsgSchema dm")
    case None
    with assms show ?thesis by (simp add: inline_of_def)
  next
    case (Some s)
    then obtain st' where "inline_fields (dm_StructName dm) (sc_Properties s) no_inline = Some st'" "subs = in_result st'"
      using assms by (auto simp: inline_of_def)
    with inline_fields_names [of _ _ no_inline st'] show ?thesis by (auto simp: no_inline_def)
  qed
  then show "distinct (map is_StructName subs)" "is_StructName ` set subs \<subseteq> inline_names (dm_StructName dm)"
    by auto
qed

lemma inline_messages_concat:
  assumes "distinct (map dm_StructName dms)"
    and "\<And>dm. dm \<in> set dms \<Longrightarrow> set (in_seen st) \<inter> inline_names (dm_StructName dm) = {}"
  shows "map_option in_result (inline_messages dms st) =
    map_option (\<lambda>rs. in_result st @ concat rs) (those (map inline_of dms))"
  using assms
proof (induction dms arbitrary: st)
  case (Cons dm dms)
  show ?case
  proof (cases "dm_MsgSchema dm")
    case None
    with Cons.IH [of st] Cons.prems show ?thesis
      by (simp add: inline_of_def option.map_comp comp_def)
  next
    case (Some s)
    let ?n = "dm_StructName dm" and ?ps = "sc_Properties s"
    have frame: "inline_fields ?n ?ps st = map_option (\<lambda>st'. \<lparr>in_result = in_result st @ in_result st',
        in_seen = in_seen st' @ in_seen st\<rparr>) (inline_fields ?n ?ps no_inline)"
      using inline_fields_frame [of "in_seen st" ?n ?ps "in_result st" "[]" "[]"] Cons.prems(2) [of dm]
      by (cases st) (simp add: no_inline_def)
    show ?thesis
    proof (cases "inline_fields ?n ?ps no_inline")
      case None
      with Some frame show ?thesis by (simp add: inline_of_def)
    next
      case (Some st1)
      let ?st = "\<lparr>in_result = in_result st @ in_result st1, in_seen = in_seen st1 @ in_seen st\<rparr>"
      have "set (in_seen st1) \<subseteq> inline_names ?n"
        using inline_fields_names [OF Some] by (simp add: no_inline_def)
      then have "set (in_seen ?st) \<inter> inline_names (dm_StructName d) = {}" if "d \<in> set dms" for d
        using Cons.prems that inline_names_disjoint [of ?n "dm_StructName d"] by (auto simp: disjoint_iff)
      with Cons.IH [of ?st] Cons.prems(1) have "map_option in_result (inline_messages dms ?st) =
          map_option (\<lambda>rs. in_result ?st @ concat rs) (those (map inline_of dms))" by simp
      moreover have "inline_of dm = Some (in_result st1)"
        using Some \<open>dm_MsgSchema dm = Some s\<close> by (simp add: inline_of_def)
      ultimately show ?thesis
        using Some \<open>dm_MsgSchema dm = Some s\<close> frame by (simp add: option.map_comp comp_def)
    qed
  qed
qed simp

lemma collect_inline:
  "distinct (map dm_StructName dms) \<Longrightarrow>
   collectInlineSubObjects dms = (if \<forall>dm \<in> set dms. inline_of dm \<noteq> None
     then Some (concat (map (the \<circ> inline_of) dms)) else None)"
  using inline_messages_concat [of dms no_inline]
  by (simp add: collectInlineSubObjects_def no_inline_def those_map)

lemma inline_distinct:
  "distinct (map dm_StructName dms) \<Longrightarrow> \<forall>dm \<in> set dms. inline_of dm \<noteq> None \<Longrightarrow>
   distinct (map is_StructName (concat (map (the \<circ> inline_of) dms)))"
proof (induction dms)
  case (Cons dm dms)
  have names: "is_StructName ` set (the (inline_of d)) \<subseteq> inline_names (dm_StructName d)"
    "distinct (map is_StructName (the (inline_of d)))" if "d \<in> set (dm # dms)" for d
  proof -
    have "inline_of d \<noteq> None" using Cons.prems(2) that by (rule bspec)
    then have "inline_of d = Some (the (inline_of d))" by simp
    note inline_of_names [OF this]
    then show "is_StructName ` set (the (inline_of d)) \<subseteq> inline_names (dm_StructName d)"
      "distinct (map is_StructName (the (inline_of d)))" by blast+
  qed
  have "is_StructName ` set (the (inline_of dm)) \<inter> is_StructName ` set (the (inline_of d)) = {}" if "d \<in> set dms" for d
    using names(1) [of dm] names(1) [of d] inline_names_disjoint [of "dm_StructName dm" "dm_StructName d"] that Cons.prems(1)
    by force
  then show ?case
    using Cons.IH Cons.prems names(2) [of dm] by (auto simp: image_UN)
qed simp

lemma seen_subs_filter:
  "distinct (map is_StructName subs) \<Longrightarrow> seen_subs subs =
     map (\<lambda>s. (is_StructName s, s)) (filter (\<lambda>s. is_StructName s \<notin> set skipInlineGeneration) subs)"
proof (induction subs rule: rev_induct)
  case (snoc s subs)
  have upd: "k \<notin> fst ` set al \<Longrightarrow> AList.update k v al = al @ [(k, v)]" for k :: string and v :: inlineSub and al
    by (induction al) auto
  have "map_of (map (\<lambda>s. (is_StructName s, s)) (filter P subs)) (is_StructName s) = None"
    "is_StructName s \<notin> fst ` set (map (\<lambda>s. (is_StructName s, s)) (filter P subs))" for P
    using snoc.prems by (auto simp: map_of_eq_None_iff image_iff)
  with snoc show ?case by (simp add: seen_subs_def upd)
qed (simp add: seen_subs_def)

lemma inline_section_perm:
  assumes "distinct (map is_StructName subs)" "mset subs' = mset subs"
  shows "inline_section ss subs' = inline_section ss subs"
proof -
  have d': "distinct (map is_StructName subs')"
    using assms by (metis mset_eq_imp_distinct_iff mset_map)
  have "mset (filter P subs') = mset (filter P subs)" for P using assms(2) by simp
  then have ms: "mset (seen_subs subs') = mset (seen_subs subs)"
    by (simp add: seen_subs_filter assms(1) d')
  moreover have "distinct_keys (seen_subs subs')"
    using d' by (simp add: seen_subs_filter distinct_keys_def comp_def distinct_map_filter)
  ultimately have "map_of (seen_subs subs') = map_of (seen_subs subs)" by (intro map_of_perm) auto
  moreover have "sortedKeys (seen_subs subs') = sortedKeys (seen_subs subs)"
    unfolding sortedKeys_def by (rule sort_perm) (use ms in simp)
  moreover have "length subs' = length subs" using assms(2) by (rule mset_eq_length)
  ultimately show ?thesis by (simp add: inline_section_def Let_def)
qed

section \<open>The file\<close>

lemma data_section_perm:
  "distinct (map dm_StructName dms) \<Longrightarrow> mset dms' = mset dms \<Longrightarrow> data_section ss dms' = data_section ss dms"
  by (simp add: data_section_def sort_key_perm [of dms dms' dm_StructName, OF sym])

lemma channel_text_perm:
  assumes "distinct (map (const_name \<circ> fst) m)" "mset m' = mset m"
    and "\<And>e. mset (ord e) = mset e" "\<And>e. mset (ord' e) = mset e"
  shows "writeMsgTypeToChannel ord' m' = writeMsgTypeToChannel ord m"
proof -
  let ?f = "\<lambda>(wsType, channels). (const_name wsType, channels)"
  have "distinct (map (const_name \<circ> fst) (ord m))"
    using assms(1,3) by (metis mset_eq_imp_distinct_iff mset_map)
  then have "distinct (map fst (map ?f (ord m)))" by (simp add: comp_def case_prod_beta)
  moreover have "mset (map ?f (ord m)) = mset (map ?f (ord' m'))" by (simp add: assms(2-4))
  ultimately have "channel_entries (ord m) = channel_entries (ord' m')"
    unfolding channel_entries_def by (intro sort_key_perm)
  then show ?thesis by (simp add: writeMsgTypeToChannel_def)
qed

lemma distinct_names:
  assumes "distinct_keys m" "inj_on f (fst ` set m)"
  shows "distinct (map (f \<circ> fst) m)"
proof -
  have "distinct (map f (map fst m))"
    using assms by (auto simp: distinct_keys_def distinct_map intro: comp_inj_on)
  then show ?thesis by simp
qed

lemma ws_file_reordered:
  assumes "reordered spec spec'" and "one_payload spec"
    and "inj_on struct_name {t. \<exists>a. delivers spec t a}" and "inj_on const_name {t. \<exists>a. delivers spec t a}"
    and "\<And>e. mset (ord1 e) = mset e" "\<And>e. mset (ord2 e) = mset e"
    and "\<And>e. mset (ord1' e) = mset e" "\<And>e. mset (ord2' e) = mset e"
  shows "ws_file ord1' ord2' spec' snap = ws_file ord1 ord2 spec snap"
proof (cases "collectDataMessages ord1 spec")
  case None
  then have "collectDataMessages ord1' spec' = None"
    using reordered_refs(1) [OF assms(1)] by (simp add: collect_none_iff)
  with None show ?thesis by (simp add: ws_file_def)
next
  case (Some r)
  obtain dms m where c: "collectDataMessages ord1 spec = Some (dms, m)" using Some by (cases r) auto
  from collect_reordered [OF assms(1,2,5,7) c] obtain dms' m' where
    c': "collectDataMessages ord1' spec' = Some (dms', m')" and perm: "mset dms' = mset dms" "mset m' = mset m" by blast
  note facts = collected(2) [OF c] collected(3) [OF c]
  have types: "fst ` set m = {t. \<exists>a. delivers spec t a}"
    unfolding dom_map_of_conv_image_fst [symmetric] by (auto simp: dom_def facts(2))
  obtain st :: msg_state where dms: "dms = map (data_msg (st_Schemas st)) (ord1 m)" using collected(4) [OF c] by blast
  have "distinct (map (struct_name \<circ> fst) m)" "distinct (map (const_name \<circ> fst) m)"
    using assms(3,4) types facts(1) by (simp_all add: distinct_names)
  moreover from this(1) have "distinct (map (struct_name \<circ> fst) (ord1 m))"
    using assms(5) by (metis mset_eq_imp_distinct_iff mset_map)
  ultimately have names: "distinct (map dm_StructName dms)" "distinct (map (const_name \<circ> fst) m)"
    by (simp_all add: dms data_msg_def comp_def)
  have names': "distinct (map dm_StructName dms')"
    using names(1) perm(1) by (metis mset_eq_imp_distinct_iff mset_map)
  have same_text: "writeMsgTypeToChannel ord2' (buildMsgTypeToChannel m') = writeMsgTypeToChannel ord2 (buildMsgTypeToChannel m)"
    unfolding buildMsgTypeToChannel_collected [OF c] buildMsgTypeToChannel_collected [OF c']
    by (rule channel_text_perm [OF names(2) perm(2) assms(6,8)])
  have set_dms: "set dms' = set dms" using perm(1) by (rule mset_eq_setD)
  show ?thesis
  proof (cases "\<forall>dm \<in> set dms. inline_of dm \<noteq> None")
    case True
    let ?subs = "\<lambda>dms. concat (map (the \<circ> inline_of) dms)"
    have "mset (?subs dms') = mset (?subs dms)"
      using perm(1) by (metis mset_concat mset_map sum_mset_sum_list map_map)
    then have "inline_section ss (?subs dms') = inline_section ss (?subs dms)" for ss
      by (rule inline_section_perm [OF inline_distinct [OF names(1) True]])
    then show ?thesis
      using c c' True
      by (simp add: ws_file_def collect_inline names(1) names' set_dms same_text data_section_perm [OF names(1) perm(1)]
          reordered_refs(4,5) [OF assms(1)] Let_def)
  next
    case False
    then have "collectInlineSubObjects dms = None" "collectInlineSubObjects dms' = None"
      by (simp_all only: collect_inline [OF names(1)] collect_inline [OF names'] set_dms if_False)
    then show ?thesis using c c' by (simp add: ws_file_def)
  qed
qed

text \<open>The tables give the known message types different names.\<close>

lemma known_names_distinct:
  "distinct (map snd msgTypeToStructName)" "distinct (map snd msgTypeToConstName)"
  by (code_simp)+

end
