(* ===== verification/GenWSSame.thy ===== *)
theory GenWSSame
  imports GenTypesFile GenWSFile
begin

text \<open>
  The text of \<open>ws_messages_generated.go\<close> depends on no order at all in which Go visits maps: not
  on that of channels, messages and schemas, not on that of the properties of a schema, however
  deep, and not on that of the maps the tool builds itself.
\<close>

section \<open>The relation\<close>

definition same_message :: "Message \<Rightarrow> Message \<Rightarrow> bool" where
  "same_message a b \<longleftrightarrow> me_Name a = me_Name b \<and> rel_option same_schema (me_Payload a) (me_Payload b)"

text \<open>The same specification, with each of its maps listed in an order of its own.\<close>

definition same_async :: "AsyncAPISpec \<Rightarrow> AsyncAPISpec \<Rightarrow> bool" where
  "same_async a b \<longleftrightarrow> channel_view ` set (as_Channels a) = channel_view ` set (as_Channels b)
     \<and> same_map (rel_option same_message) (as_Messages a) (as_Messages b)
     \<and> same_map (rel_option same_schema) (as_Schemas a) (as_Schemas b)
     \<and> as_ErrorCodes a = as_ErrorCodes b"

abbreviation same_schemas :: "schemas \<Rightarrow> schemas \<Rightarrow> bool" where
  "same_schemas \<equiv> same_map (rel_option same_schema)"

abbreviation same_opt :: "WSSchema option \<Rightarrow> WSSchema option \<Rightarrow> bool" where
  "same_opt \<equiv> rel_option same_schema"

lemma rel_option_sym: "rel_option R a b \<Longrightarrow> (\<And>x y. R x y \<Longrightarrow> S y x) \<Longrightarrow> rel_option S b a"
  by (auto simp: rel_option_iff split: option.splits)

lemma same_map_sym: "same_map R m m' \<Longrightarrow> (\<And>a b. R a b \<Longrightarrow> S b a) \<Longrightarrow> same_map S m' m"
  unfolding same_map_def by (blast intro: rel_option_sym)

lemma list_all2_sym: "list_all2 R xs ys \<Longrightarrow> (\<And>x y. R x y \<Longrightarrow> S y x) \<Longrightarrow> list_all2 S ys xs"
  by (induction rule: list_all2_induct) auto

lemma same_schema_sym: "same_schema s s' \<Longrightarrow> same_schema s' s"
proof (induction rule: same_schema.induct)
  case (1 ps ps' it it' ao ao' ap ap' ty fo de en re rf nu dp)
  show ?case
  proof (rule same_schema.intros)
    show "same_map (rel_option same_schema) ps' ps"
      by (rule same_map_sym [OF 1(1)]) (erule rel_option_sym, simp)
    show "rel_option same_schema it' it" by (rule rel_option_sym [OF 1(2)]) simp
    show "list_all2 (rel_option same_schema) ao' ao"
      by (rule list_all2_sym [OF 1(3)]) (erule rel_option_sym, simp)
    show "rel_option (rel_option same_schema) ap' ap"
      by (rule rel_option_sym [OF 1(4)]) (erule rel_option_sym, simp)
  qed
qed

lemma same_schemas_sym: "same_schemas ss ss' \<Longrightarrow> same_schemas ss' ss"
  by (erule same_map_sym) (erule rel_option_sym, rule same_schema_sym)

lemma same_opt_sym: "same_opt p p' \<Longrightarrow> same_opt p' p"
  by (erule rel_option_sym) (rule same_schema_sym)

lemma rel_lookup:
  "rel_option (rel_option R) (map_of m k) (map_of m' k) \<Longrightarrow> rel_option R (lookup_ptr m k) (lookup_ptr m' k)"
  by (cases "map_of m k"; cases "map_of m' k") (simp_all add: lookup_ptr_def)

lemma same_lookup: "same_map (rel_option R) m m' \<Longrightarrow> rel_option R (lookup_ptr m k) (lookup_ptr m' k)"
  by (rule rel_lookup) (simp add: same_map_def)

lemma rel_case_option:
  assumes "rel_option R x x'" "\<And>p p'. R p p' \<Longrightarrow> rel_option S (f p) (f' p')"
  shows "rel_option S (case x of None \<Rightarrow> None | Some p \<Rightarrow> f p) (case x' of None \<Rightarrow> None | Some p \<Rightarrow> f' p)"
  using assms by (cases x; cases x') simp_all

lemma same_props_length:
  "same_schema s s' \<Longrightarrow> length (sc_Properties s') > 0 \<longleftrightarrow> length (sc_Properties s) > 0"
  using same_map_Nil [OF same_schema_sel(9)] by (metis length_greater_0_conv)

section \<open>Types\<close>

text \<open>The references are followed to the same end in both specifications.\<close>

lemma same_inner_step:
  assumes "ws_resolveGoTypeInner field ss p = Some y"
  shows "\<forall>ss' p'. same_schemas ss ss' \<longrightarrow> same_opt p p' \<longrightarrow> ws_resolveGoTypeInner field ss' p' = Some y"
proof (rule ws_resolveGoTypeInner.raw_induct [OF _ assms], goal_cases)
  case (1 g key ss p y)
  show ?case
  proof (intro allI impI)
    fix ss' p' assume ss: "same_schemas ss ss'" and p: "same_opt p p'"
    have IH: "ws_resolveGoTypeInner key ss' q' = Some z" if "g key ss q = Some z" "same_opt q q'" for q q' z
      using 1(1) [OF that(1)] ss that(2) by blast
    obtain s where s: "p = Some s" using 1(2) by (cases p) simp_all
    obtain s' where s': "p' = Some s'" "same_schema s s'" using p s by (auto simp: option_rel_Some1)
    note sel = same_schema_sel [OF s'(2)] and pos = same_props_length [OF s'(2)]
    note body = 1(2) [unfolded s option.case]
    note simps = ws_resolveGoTypeInner.simps [of key ss' "Some s'"]
    have bind: "Option.bind (ws_resolveGoTypeInner key ss' q') f = Some z"
      if "Option.bind (g key ss q) f = Some z" "same_opt q q'" for q q' z and f :: "string \<Rightarrow> string option"
      using that IH by (cases "g key ss q") auto
    show "ws_resolveGoTypeInner key ss' p' = Some y"
    proof (cases "length (sc_AllOf s) = 1")
      case True
      then obtain a a' where a: "sc_AllOf s = [a]" "sc_AllOf s' = [a']" "same_opt a a'"
        using sel(11) by (auto simp: length_Suc_conv list_all2_Cons1)
      then show ?thesis using body IH unfolding s' by (simp add: simps)
    next
      case one: False
      have one': "length (sc_AllOf s') \<noteq> 1" using one list_all2_lengthD [OF sel(11)] by simp
      show ?thesis
      proof (cases "sc_Ref s = []")
        case ref: False
        let ?n = "refToName (sc_Ref s)"
        have "rel_option same_opt (map_of ss ?n) (map_of ss' ?n)" using ss by (simp add: same_map_def)
        then show ?thesis
          using body one one' ref IH unfolding s'
          by (auto simp: simps sel rel_option_iff split: option.splits)
      next
        case ref: True
        show ?thesis
        proof (cases "sc_Type s = ''array''")
          case True
          show ?thesis
          proof (cases "sc_Items s")
            case None
            then have "sc_Items s' = None" using sel(10) by simp
            with None True body one one' ref show ?thesis unfolding s' by (simp add: simps sel)
          next
            case (Some i)
            then obtain i' where i': "sc_Items s' = Some i'" "same_schema i i'" using sel(10) by (auto simp: option_rel_Some1)
            note isel = same_schema_sel [OF i'(2)] and ipos = same_props_length [OF i'(2)]
            note b = body [simplified one ref True Some, simplified]
            show ?thesis
            proof (cases "sc_Type i = ''array''")
              case ia: True
              show ?thesis
              proof (cases "sc_Items i")
                case None
                then have "sc_Items i' = None" using isel(10) by simp
                with None b ia one' ref True i' show ?thesis unfolding s' by (simp add: simps sel isel)
              next
                case (Some j)
                then obtain j' where j': "sc_Items i' = Some j'" "same_opt (Some j) (Some j')"
                  using isel(10) by (auto simp: option_rel_Some1)
                show ?thesis using b ia one' ref True i' j' Some bind [OF _ j'(2)] unfolding s'
                  by (simp add: simps sel isel)
              qed
            next
              case na: False
              have same: "same_opt (Some i) (Some i')" using i'(2) by simp
              show ?thesis using b na one' ref True i' ipos bind [OF _ same] unfolding s'
                by (simp add: simps sel isel split: if_splits) auto
            qed
          qed
        next
          case na: False
          have add: "same_opt (additional_schema s) (additional_schema s')"
            using sel(12) by (auto simp: additional_schema_def rel_option_iff split: option.splits)
          show ?thesis
          proof (cases "additional_schema s")
            case None
            then have "additional_schema s' = None" using add by simp
            with None body one one' ref na pos show ?thesis unfolding s'
              by (simp add: simps sel cong: if_cong)
          next
            case (Some a)
            then obtain a' where a': "additional_schema s' = Some a'" "same_opt (Some a) (Some a')"
              using add by (auto simp: option_rel_Some1)
            show ?thesis
            proof (cases "sc_Type s = ''object''")
              case True
              then show ?thesis using body one one' ref pos Some a' bind [OF _ a'(2)] unfolding s'
                by (simp add: simps sel split: if_splits)
            next
              case False
              with body one one' ref na pos show ?thesis unfolding s'
                by (simp add: simps sel cong: if_cong)
            qed
          qed
        qed
      qed
    qed
  qed
qed

lemma same_inner:
  assumes "same_schemas ss ss'" "same_opt p p'"
  shows "ws_resolveGoTypeInner field ss' p' = ws_resolveGoTypeInner field ss p"
proof (cases "ws_resolveGoTypeInner field ss p")
  case (Some y)
  with same_inner_step [OF Some] assms show ?thesis by simp
next
  case None
  show ?thesis
  proof (cases "ws_resolveGoTypeInner field ss' p'")
    case (Some y)
    with same_inner_step [OF Some] same_schemas_sym [OF assms(1)] same_opt_sym [OF assms(2)] None
    show ?thesis by simp
  qed (simp add: None)
qed

section \<open>Structs\<close>

lemma same_ws_lines:
  assumes "same_schemas ss ss'" "same_opt p p'"
  shows "ws_field_lines n ss' required (k, p') = ws_field_lines n ss required (k, p)"
proof (cases p)
  case (Some s)
  then obtain s' where s': "p' = Some s'" "same_schema s s'" using assms(2) by (auto simp: option_rel_Some1)
  have "same_opt (Some s) (Some s')" using s'(2) by simp
  note inner = same_inner [OF assms(1) this]
  show ?thesis
    unfolding Some s'(1) ws_field_lines_def prod.case option.case ws_resolveGoType_def inner force_pointer_def
      same_schema_sel(1-8) [OF s'(2)] ..
qed (use assms(2) in \<open>simp add: ws_field_lines_def\<close>)

lemma same_writeStruct:
  assumes "same_schemas ss ss'" "same_opt p p'"
  shows "writeStruct n c p' ss' = writeStruct n c p ss"
proof (cases p)
  case (Some s)
  then obtain s' where s': "p' = Some s'" "same_schema s s'" using assms(2) by (auto simp: option_rel_Some1)
  note sel = same_schema_sel [OF s'(2)]
  have "map (\<lambda>k. ws_field_lines n ss' (sc_Required s) (k, the (map_of (sc_Properties s') k))) (sortedKeys (sc_Properties s'))
      = map (\<lambda>k. ws_field_lines n ss (sc_Required s) (k, the (map_of (sc_Properties s) k))) (sortedKeys (sc_Properties s))"
    by (rule same_map_walk [OF sel(9), symmetric]) (simp add: same_ws_lines [OF assms(1)])
  moreover have "length (sc_Properties s') = 0 \<longleftrightarrow> length (sc_Properties s) = 0"
    using same_map_Nil [OF sel(9)] by simp
  ultimately show ?thesis by (simp add: Some s'(1) writeStruct_def Let_def sel(5))
qed (use assms(2) in \<open>simp add: writeStruct_def\<close>)

section \<open>Looking schemas up\<close>

lemma same_deref:
  assumes "same_schemas ss ss'" "same_schema s s'"
  shows "same_opt (deref ss s) (deref ss' s')"
proof -
  let ?n = "refToName (sc_Ref s)"
  have "rel_option same_opt (map_of ss ?n) (map_of ss' ?n)" using assms(1) by (simp add: same_map_def)
  then show ?thesis
    using assms(2) unfolding deref_def same_schema_sel(6) [OF assms(2)]
    by (cases "map_of ss ?n"; cases "map_of ss' ?n") simp_all
qed

lemma same_property_of:
  assumes "same_schemas ss ss'" "same_schema s s'"
  shows "same_opt (property_of k ss s) (property_of k ss' s')"
  unfolding property_of_def
  by (rule rel_case_option [OF same_lookup [OF same_schema_sel(9) [OF assms(2)]]])
    (rule same_deref [OF assms(1)])

lemma same_extract:
  assumes "same_schemas ss ss'"
  shows "same_opt (extractParamsSchema ss n) (extractParamsSchema ss' n)"
    and "same_opt (extractMsgSchema ss n) (extractMsgSchema ss' n)"
  unfolding extractParamsSchema_def extractMsgSchema_def
  by (rule rel_case_option [OF same_lookup [OF assms]], rule same_property_of [OF assms], assumption)+

lemma same_resolvePayload:
  assumes "same_schemas ss ss'" "same_message m m'"
  shows "same_opt (resolvePayloadSchema m ss) (resolvePayloadSchema m' ss')"
  using assms(2) same_lookup [OF assms(1)]
  by (cases "me_Payload m"; cases "me_Payload m'")
    (auto simp: resolvePayloadSchema_def same_message_def same_schema_sel(6))

lemma same_extractMsg:
  assumes "same_schemas ss ss'" "same_schema s s'"
  shows "same_opt (extractMsgFromPayload s ss) (extractMsgFromPayload s' ss')"
  using same_property_of [OF assms, of "''msg''"] list_all2_lengthD [OF same_schema_sel(11) [OF assms(2)]]
  by (simp add: extractMsgFromPayload_def)

lemma distinct_merge: "distinct_keys (merge_properties r c)"
proof -
  have one: "distinct_keys m \<Longrightarrow> distinct_keys (fold (\<lambda>(k, v) merged. AList.update k v merged) r m)"
    for r m :: "(string \<times> WSSchema option) list"
  proof (induction r arbitrary: m)
    case (Cons e r)
    then show ?case by (cases e) simp
  qed simp
  have two: "distinct_keys m \<Longrightarrow> distinct_keys
      (fold (\<lambda>(k, v) merged. if map_of merged k = None then AList.update k v merged else merged) c m)"
    for c m :: "(string \<times> WSSchema option) list"
  proof (induction c arbitrary: m)
    case (Cons e c)
    obtain k v where e: "e = (k, v)" by (cases e)
    show ?case using Cons.prems by (cases "map_of m k") (simp_all add: e Cons.IH)
  qed simp
  show ?thesis unfolding merge_properties_def by (intro one two) simp
qed

lemma same_merge_properties:
  assumes "same_map (rel_option same_schema) r r'" "same_map (rel_option same_schema) c c'"
  shows "same_map (rel_option same_schema) (merge_properties r c) (merge_properties r' c')"
proof -
  have d: "distinct_keys r" "distinct_keys r'" using assms(1) by (simp_all add: same_map_def)
  have "rel_option (rel_option same_schema) (map_of (merge_properties r c) k) (map_of (merge_properties r' c') k)" for k
  proof -
    have "rel_option (rel_option same_schema) (map_of r k) (map_of r' k)"
      "rel_option (rel_option same_schema) (map_of c k) (map_of c' k)"
      using assms by (simp_all add: same_map_def)
    then show ?thesis unfolding map_of_merge_properties [OF d(1)] map_of_merge_properties [OF d(2)]
      by (cases "map_of r k"; cases "map_of r' k") (auto simp: map_add_def)
  qed
  then show ?thesis by (simp add: same_map_def distinct_merge)
qed

lemma same_mergeUpdate:
  assumes "same_schemas ss ss'"
  shows "same_opt (mergeUpdateSubParams ss) (mergeUpdateSubParams ss')"
proof -
  let ?r = "''updateSubscriptionCommandPayload''" and ?c = "''cfbenchmarksUpdateSubscriptionCommandPayload''"
  have both: "same_schema
      (Schema (sc_Type r) [] [] [] (merge_properties (sc_Properties r) (sc_Properties c))
         (merge_required (sc_Required r) (sc_Required c)) None [] [] False False None)
      (Schema (sc_Type r') [] [] [] (merge_properties (sc_Properties r') (sc_Properties c'))
         (merge_required (sc_Required r') (sc_Required c')) None [] [] False False None)"
    if "same_schema r r'" "same_schema c c'" for r r' c c'
    unfolding same_schema_sel(1,5) [OF that(1)] same_schema_sel(5) [OF that(2)]
    by (rule same_schema.intros) (simp_all add: same_merge_properties same_schema_sel(9) [OF that(1)] same_schema_sel(9) [OF that(2)])
  show ?thesis
    using same_extract(1) [OF assms, of ?r] same_extract(1) [OF assms, of ?c]
    by (auto simp: mergeUpdateSubParams_def Let_def rel_option_iff both split: option.splits)
qed

section \<open>Data messages\<close>

lemma same_referenced:
  assumes "same_async a b"
  shows "rel_option same_message (referenced a r) (referenced b r)"
proof -
  have "same_map (rel_option same_message) (as_Messages a) (as_Messages b)" using assms by (simp add: same_async_def)
  from same_lookup [OF this, of "refToName (mr_Ref r)"] show ?thesis
    by (auto simp: referenced_def rel_option_iff same_message_def split: option.splits)
qed

definition same_data :: "dataMsg \<Rightarrow> dataMsg \<Rightarrow> bool" where
  "same_data a b \<longleftrightarrow> dm_Name a = dm_Name b \<and> dm_StructName a = dm_StructName b \<and> dm_Channels a = dm_Channels b
     \<and> same_opt (dm_MsgSchema a) (dm_MsgSchema b)"

lemma same_collected_channels:
  assumes "same_async a b"
  shows "st_Channels st' = st_Channels st
    \<Longrightarrow> st_Channels (fold (collect_step b) refs st') = st_Channels (fold (collect_step a) refs st)"
proof (induction refs arbitrary: st st')
  case (Cons e refs)
  have step: "st_Channels (collect_step s e z) = (case referenced s (snd e) of None \<Rightarrow> st_Channels z
      | Some m \<Rightarrow> AList.update (me_Name m) (appendUnique (case map_of (st_Channels z) (me_Name m) of None \<Rightarrow> [] | Some cs \<Rightarrow> cs) (fst e))
          (st_Channels z))" for s and z :: msg_state
    by (auto simp: collect_step_def collect_message_def Let_def split: option.splits)
  have "st_Channels (collect_step b e st') = st_Channels (collect_step a e st)"
    using same_referenced [OF assms, of "snd e"] Cons.prems
    by (cases "referenced a (snd e)"; cases "referenced b (snd e)") (simp_all add: step same_message_def)
  from Cons.IH [OF this] show ?case by simp
qed simp

lemma same_payloads:
  assumes "same_async a b"
  shows "list_all2 same_opt (payloads a t refs) (payloads b t refs)"
proof -
  have ss: "same_schemas (as_Schemas a) (as_Schemas b)" using assms by (simp add: same_async_def)
  have one: "rel_option same_opt (payload_of a m) (payload_of b m')" if "same_message m m'" for m m'
    using same_resolvePayload [OF ss that] same_extractMsg [OF ss]
    by (cases "resolvePayloadSchema m (as_Schemas a)"; cases "resolvePayloadSchema m' (as_Schemas b)")
      (simp_all add: payload_of_def)
  show ?thesis
  proof (induction refs)
    case (Cons e refs)
    have "list_all2 same_opt (payloads a t [e]) (payloads b t [e])"
    proof (cases "referenced a (snd e)")
      case None
      then show ?thesis using same_referenced [OF assms, of "snd e"] by (simp add: payloads_def)
    next
      case (Some m)
      then obtain m' where m': "referenced b (snd e) = Some m'" "same_message m m'"
        using same_referenced [OF assms, of "snd e"] by (auto simp: option_rel_Some1)
      have "me_Name m' = me_Name m" using m'(2) by (simp add: same_message_def)
      with one [OF m'(2)] Some m'(1) show ?thesis
        by (cases "payload_of a m"; cases "payload_of b m'") (simp_all add: payloads_def)
    qed
    from list_all2_appendI [OF this Cons.IH] show ?case
      using payloads_append [of _ t "[e]" refs] by simp
  qed (simp add: payloads_def)
qed

lemma same_collect:
  assumes "same_async a b" "as_Channels b = as_Channels a"
    and "collectDataMessages ord a = Some (dms, m)"
  shows "\<exists>dms'. collectDataMessages ord b = Some (dms', m) \<and> list_all2 same_data dms dms'"
proof -
  let ?refs = "channel_refs (as_Channels a)" and ?z = "\<lparr>st_Channels = [], st_Schemas = []\<rparr> :: msg_state"
  let ?sa = "fold (collect_step a) ?refs ?z" and ?sb = "fold (collect_step b) ?refs ?z"
  have chans: "st_Channels ?sb = st_Channels ?sa" by (rule same_collected_channels [OF assms(1)]) simp
  have "rel_option same_opt (map_of (st_Schemas ?sa) t) (map_of (st_Schemas ?sb) t)" for t
    using same_payloads [OF assms(1), of t ?refs] unfolding collect_schemas
    by (cases "payloads a t ?refs"; cases "payloads b t ?refs") auto
  from rel_lookup [OF this] have look: "same_opt (lookup_ptr (st_Schemas ?sa) t) (lookup_ptr (st_Schemas ?sb) t)" for t .
  have "no_nil (as_Channels a)" by (rule collected(1) [OF assms(3)])
  then have "collectDataMessages ord a = Some (map (data_msg (st_Schemas ?sa)) (ord (sort_channels (st_Channels ?sa))),
      sort_channels (st_Channels ?sa))"
    "collectDataMessages ord b = Some (map (data_msg (st_Schemas ?sb)) (ord (sort_channels (st_Channels ?sa))),
      sort_channels (st_Channels ?sa))"
    using assms(2) by (simp_all add: collectDataMessages_def channels_loop_fold Let_def chans)
  moreover have "list_all2 same_data (map (data_msg (st_Schemas ?sa)) xs) (map (data_msg (st_Schemas ?sb)) xs)" for xs
    by (induction xs) (simp_all add: same_data_def data_msg_def look)
  ultimately show ?thesis using assms(3) by auto
qed

section \<open>Association lists with related values\<close>

lemma alist_rel:
  assumes "list_all2 (rel_prod (=) R) m m'"
  shows "map fst m = map fst m'" and "rel_option R (map_of m k) (map_of m' k)"
    and "R v v' \<Longrightarrow> list_all2 (rel_prod (=) R) (AList.update k v m) (AList.update k v' m')"
  using assms by (induction rule: list_all2_induct) auto

lemma list_walk:
  assumes "list_all2 R xs ys" "\<And>x y. R x y \<Longrightarrow> f x = g y"
  shows "map f xs = map g ys"
  using assms by (induction rule: list_all2_induct) auto

lemma same_insort:
  assumes "list_all2 same_data xs ys" "same_data x y"
  shows "list_all2 same_data (insort_key dm_StructName x xs) (insort_key dm_StructName y ys)"
  using assms by (induction rule: list_all2_induct) (auto simp: same_data_def)

lemma same_sort:
  "list_all2 same_data xs ys \<Longrightarrow> list_all2 same_data (sort_key dm_StructName xs) (sort_key dm_StructName ys)"
  by (induction rule: list_all2_induct) (simp_all add: same_insort)

section \<open>Nested objects\<close>

definition same_sub :: "inlineSub \<Rightarrow> inlineSub \<Rightarrow> bool" where
  "same_sub a b \<longleftrightarrow> is_StructName a = is_StructName b \<and> same_schema (is_Schema a) (is_Schema b)"

text \<open>A struct has at most one field whose objects get a declaration of their own.\<close>

lemma inline_key_unique:
  "map_of inlineSubObjectNames (s, f) = Some g \<Longrightarrow> map_of inlineSubObjectNames (s, f') = Some g' \<Longrightarrow> f' = f"
  by (auto simp: inlineSubObjectNames_def split: if_splits)

lemma inline_fields_no_key:
  "(\<And>f. map_of inlineSubObjectNames (s, f) = None) \<Longrightarrow> inline_fields s ps st = Some st"
  by (induction ps) auto

lemma inline_fields_key:
  assumes "map_of inlineSubObjectNames (s, f) = Some g"
  shows "inline_fields s ps st = (if g \<in> set (in_seen st) then Some st
    else case map_of ps f of None \<Rightarrow> Some st | Some None \<Rightarrow> None
      | Some (Some p) \<Rightarrow> Some \<lparr>in_result = in_result st @ inline_object g p, in_seen = g # in_seen st\<rparr>)"
proof (induction ps arbitrary: st)
  case (Cons e ps)
  obtain f' p where e: "e = (f', p)" by (cases e)
  show ?case
  proof (cases "f' = f")
    case True
    with assms Cons.IH show ?thesis by (cases p) (auto simp: e)
  next
    case False
    then have "map_of inlineSubObjectNames (s, f') = None"
      using inline_key_unique [OF assms] by (cases "map_of inlineSubObjectNames (s, f')") auto
    with Cons.IH False show ?thesis by (simp add: e)
  qed
qed simp

lemma same_inline_object:
  assumes "same_schema p p'"
  shows "list_all2 same_sub (inline_object g p) (inline_object g p')"
proof -
  note sel = same_schema_sel [OF assms] and pos = same_props_length [OF assms]
  show ?thesis
  proof (cases "sc_Items p")
    case None
    then have "sc_Items p' = None" using sel(10) by simp
    with None assms pos show ?thesis by (simp add: inline_object_def sel same_sub_def)
  next
    case (Some i)
    then obtain i' where i': "sc_Items p' = Some i'" "same_schema i i'" using sel(10) by (auto simp: option_rel_Some1)
    with Some assms pos show ?thesis by (simp add: inline_object_def sel same_schema_sel(6) [OF i'(2)] same_sub_def)
  qed
qed

definition same_inline :: "inline_state \<Rightarrow> inline_state \<Rightarrow> bool" where
  "same_inline a b \<longleftrightarrow> in_seen a = in_seen b \<and> list_all2 same_sub (in_result a) (in_result b)"

lemma same_inline_fields:
  assumes "same_map (rel_option same_schema) ps ps'" "same_inline st st'"
  shows "rel_option same_inline (inline_fields n ps st) (inline_fields n ps' st')"
proof (cases "\<exists>f g. map_of inlineSubObjectNames (n, f) = Some g")
  case False
  then have "map_of inlineSubObjectNames (n, f) = None" for f by simp
  with assms(2) show ?thesis by (simp add: inline_fields_no_key)
next
  case True
  then obtain f g where key: "map_of inlineSubObjectNames (n, f) = Some g" by blast
  have seen: "in_seen st' = in_seen st" using assms(2) by (simp add: same_inline_def)
  have rel: "rel_option same_opt (map_of ps f) (map_of ps' f)" using assms(1) by (simp add: same_map_def)
  show ?thesis
  proof (cases "map_of ps f")
    case None
    with rel assms(2) show ?thesis by (simp add: inline_fields_key [OF key] seen)
  next
    case (Some o1)
    then obtain o2 where o2: "map_of ps' f = Some o2" "same_opt o1 o2" using rel by (auto simp: option_rel_Some1)
    show ?thesis
    proof (cases o1)
      case None
      with Some o2 assms(2) show ?thesis by (simp add: inline_fields_key [OF key] seen)
    next
      case p: (Some p)
      then obtain p' where "o2 = Some p'" "same_schema p p'" using o2(2) by (auto simp: option_rel_Some1)
      with Some p o2(1) assms(2) same_inline_object [of p p' g] show ?thesis
        by (simp add: inline_fields_key [OF key] same_inline_def list_all2_appendI)
    qed
  qed
qed

lemma same_inline_messages:
  "list_all2 same_data dms dms' \<Longrightarrow> same_inline st st' \<Longrightarrow>
   rel_option same_inline (inline_messages dms st) (inline_messages dms' st')"
proof (induction arbitrary: st st' rule: list_all2_induct)
  case (Cons dm dms dm' dms')
  have n: "dm_StructName dm' = dm_StructName dm" using Cons.hyps by (simp add: same_data_def)
  show ?case
  proof (cases "dm_MsgSchema dm")
    case None
    then have "dm_MsgSchema dm' = None" using Cons.hyps by (simp add: same_data_def)
    with None Cons show ?thesis by simp
  next
    case (Some s)
    then obtain s' where s': "dm_MsgSchema dm' = Some s'" "same_schema s s'"
      using Cons.hyps by (auto simp: same_data_def option_rel_Some1)
    have "rel_option same_inline (inline_fields (dm_StructName dm) (sc_Properties s) st)
        (inline_fields (dm_StructName dm) (sc_Properties s') st')"
      by (rule same_inline_fields [OF same_schema_sel(9) [OF s'(2)] Cons.prems])
    from rel_case_option [OF this, of same_inline "inline_messages dms" "inline_messages dms'"] Cons.IH
    show ?thesis by (simp add: Some s'(1) n)
  qed
qed simp

lemma same_collectInline:
  assumes "list_all2 same_data dms dms'"
  shows "rel_option (list_all2 same_sub) (collectInlineSubObjects dms) (collectInlineSubObjects dms')"
proof -
  let ?z = "\<lparr>in_result = [], in_seen = []\<rparr> :: inline_state"
  have "same_inline ?z ?z" by (simp add: same_inline_def)
  from same_inline_messages [OF assms this] show ?thesis
    by (cases "inline_messages dms ?z"; cases "inline_messages dms' ?z")
      (simp_all add: collectInlineSubObjects_def same_inline_def)
qed

lemma same_seen:
  assumes "list_all2 same_sub subs subs'"
  shows "list_all2 (rel_prod (=) same_sub) (seen_subs subs) (seen_subs subs')"
proof -
  let ?f = "\<lambda>sub seen. if is_StructName sub \<in> set skipInlineGeneration then seen
                      else if map_of seen (is_StructName sub) = None
                           then AList.update (is_StructName sub) sub seen else seen"
  have "list_all2 (rel_prod (=) same_sub) m m' \<Longrightarrow> list_all2 (rel_prod (=) same_sub) (fold ?f subs m) (fold ?f subs' m')" for m m'
    using assms
  proof (induction arbitrary: m m' rule: list_all2_induct)
    case (Cons x xs y ys)
    have n: "is_StructName y = is_StructName x" using Cons.hyps by (simp add: same_sub_def)
    have none: "map_of m' (is_StructName x) = None \<longleftrightarrow> map_of m (is_StructName x) = None"
      using alist_rel(2) [OF Cons.prems, of "is_StructName x"] by (cases "map_of m (is_StructName x)") (auto simp: option_rel_Some1)
    have "list_all2 (rel_prod (=) same_sub) (?f x m) (?f y m')"
      unfolding n none using Cons.prems alist_rel(3) [OF Cons.prems Cons.hyps(1)] by simp
    from Cons.IH [OF this] show ?case by (simp only: fold.simps comp_def)
  qed simp
  then show ?thesis unfolding seen_subs_def by simp
qed

section \<open>The parts of the file\<close>

lemma same_inline_section:
  assumes "same_schemas ss ss'" "list_all2 same_sub subs subs'"
  shows "inline_section ss' subs' = inline_section ss subs"
proof -
  note seen = same_seen [OF assms(2)]
  have keys: "sortedKeys (seen_subs subs') = sortedKeys (seen_subs subs)"
    by (simp add: sortedKeys_def alist_rel(1) [OF seen])
  have "inline_block ss' (the (map_of (seen_subs subs') k)) = inline_block ss (the (map_of (seen_subs subs) k))"
    if "k \<in> set (sortedKeys (seen_subs subs))" for k
  proof -
    have "k \<in> fst ` set (seen_subs subs)" using that by (simp add: sortedKeys_def)
    then obtain a where a: "map_of (seen_subs subs) k = Some a" by (metis map_of_eq_None_iff option.exhaust)
    then obtain b where b: "map_of (seen_subs subs') k = Some b" "same_sub a b"
      using alist_rel(2) [OF seen, of k] by (auto simp: option_rel_Some1)
    have "same_opt (Some (is_Schema a)) (Some (is_Schema b))" "is_StructName b = is_StructName a"
      using b(2) by (simp_all add: same_sub_def)
    then show ?thesis by (simp add: a b(1) inline_block_def same_writeStruct [OF assms(1)])
  qed
  then have walk: "map (\<lambda>k. inline_block ss' (the (map_of (seen_subs subs') k))) (sortedKeys (seen_subs subs))
      = map (\<lambda>k. inline_block ss (the (map_of (seen_subs subs) k))) (sortedKeys (seen_subs subs))"
    by (intro map_cong refl)
  show ?thesis
    unfolding inline_section_def Let_def keys walk list_all2_lengthD [OF assms(2)] ..
qed

lemma same_data_section:
  assumes "same_schemas ss ss'" "list_all2 same_data dms dms'"
  shows "data_section ss' dms' = data_section ss dms"
proof -
  have block: "data_block ss dm = data_block ss' dm'" if "same_data dm dm'" for dm dm'
    using that same_writeStruct [OF assms(1), of "dm_MsgSchema dm" "dm_MsgSchema dm'"]
    by (simp add: data_block_def same_data_def)
  have also_same: "alias_block dm = alias_block dm'" if "same_data dm dm'" for dm dm'
    using that by (cases "dm_MsgSchema dm"; cases "dm_MsgSchema dm'") (simp_all add: alias_block_def same_data_def)
  have "map (data_block ss) (sort_key dm_StructName dms) = map (data_block ss') (sort_key dm_StructName dms')"
    by (rule list_walk [OF same_sort [OF assms(2)] block])
  moreover have "map (Some \<circ> alias_block) (sort_key dm_StructName dms) = map (Some \<circ> alias_block) (sort_key dm_StructName dms')"
    by (rule list_walk [OF same_sort [OF assms(2)]]) (simp add: also_same)
  ultimately show ?thesis by (simp add: data_section_def Let_def)
qed

lemma same_shared:
  assumes "same_schemas ss ss'"
  shows "list_all2 (rel_prod (=) same_opt) (collectSharedSchemas ss) (collectSharedSchemas ss')"
proof -
  let ?f = "\<lambda>ss :: schemas. \<lambda>name. case map_of ss name of Some s \<Rightarrow> [(name, s)] | None \<Rightarrow> []"
  have "list_all2 (rel_prod (=) same_opt) (?f ss n) (?f ss' n)" for n
  proof -
    have "rel_option same_opt (map_of ss n) (map_of ss' n)" using assms by (simp add: same_map_def)
    then show ?thesis by (cases "map_of ss n"; cases "map_of ss' n") simp_all
  qed
  then have "list_all2 (rel_prod (=) same_opt) (concat (map (?f ss) ns)) (concat (map (?f ss') ns))" for ns
    by (induction ns) (simp_all add: list_all2_appendI)
  then show ?thesis unfolding collectSharedSchemas_def .
qed

lemma same_shared_section:
  assumes "same_schemas ss ss'"
  shows "shared_section ss' = shared_section ss"
proof -
  note sh = same_shared [OF assms]
  let ?m = "collectSharedSchemas ss" and ?m' = "collectSharedSchemas ss'"
  have block: "shared_block ss' ?m' n = shared_block ss ?m n" for n
  proof (cases "lookup_ptr ?m n")
    case None
    with rel_lookup [OF alist_rel(2) [OF sh], of n] show ?thesis by (simp add: shared_block_def)
  next
    case (Some s)
    then obtain s' where s': "lookup_ptr ?m' n = Some s'" "same_schema s s'"
      using rel_lookup [OF alist_rel(2) [OF sh], of n] by (auto simp: option_rel_Some1)
    have "same_opt (Some s) (Some s')" using s'(2) by simp
    with Some s' show ?thesis
      by (simp add: shared_block_def Let_def same_schema_sel(3) [OF s'(2)] same_writeStruct [OF assms])
  qed
  have keys: "sortedKeys ?m' = sortedKeys ?m" by (simp add: sortedKeys_def alist_rel(1) [OF sh])
  have "map (shared_block ss' ?m') ns = map (shared_block ss ?m) ns" for ns by (rule map_cong [OF refl block])
  then show ?thesis
    unfolding shared_section_def Let_def keys list_all2_lengthD [OF sh, symmetric] by presburger
qed

lemma same_commands:
  assumes "same_schemas ss ss'"
  shows "commands_section ss' = commands_section ss" "responses_section ss' = responses_section ss"
  unfolding commands_section_def responses_section_def
    same_writeStruct [OF assms same_extract(1) [OF assms]] same_writeStruct [OF assms same_extract(2) [OF assms]]
    same_writeStruct [OF assms same_mergeUpdate [OF assms]]
  by (rule refl)+

section \<open>The file\<close>

text \<open>With the same list of channels: collected, nested and written alike.\<close>

lemma ws_file_same_channels:
  assumes "same_async a b" "as_Channels b = as_Channels a"
  shows "ws_file ord1 ord2 b snap = ws_file ord1 ord2 a snap"
proof (cases "collectDataMessages ord1 a")
  case None
  then have "collectDataMessages ord1 b = None" using assms(2) by (simp add: collect_none_iff)
  with None show ?thesis by (simp add: ws_file_def)
next
  case (Some r)
  then obtain dms m where c: "collectDataMessages ord1 a = Some (dms, m)" by (cases r) auto
  obtain dms' where c': "collectDataMessages ord1 b = Some (dms', m)" "list_all2 same_data dms dms'"
    using same_collect [OF assms c] by blast
  have ss: "same_schemas (as_Schemas a) (as_Schemas b)" and codes: "as_ErrorCodes b = as_ErrorCodes a"
    using assms(1) by (simp_all add: same_async_def)
  have subs: "rel_option (list_all2 same_sub) (collectInlineSubObjects dms) (collectInlineSubObjects dms')"
    by (rule same_collectInline [OF c'(2)])
  show ?thesis
  proof (cases "collectInlineSubObjects dms")
    case None
    with subs c c'(1) show ?thesis by (simp add: ws_file_def)
  next
    case (Some s)
    then obtain s' where s': "collectInlineSubObjects dms' = Some s'" "list_all2 same_sub s s'"
      using subs by (auto simp: option_rel_Some1)
    show ?thesis
      using c c'(1) Some s'(1)
      by (simp add: ws_file_def Let_def codes same_commands [OF ss] same_shared_section [OF ss]
          same_inline_section [OF ss s'(2)] same_data_section [OF ss c'(2)])
  qed
qed

text \<open>Different messages have different Go names, and messages that share a name the same body.\<close>

definition own_names :: "AsyncAPISpec \<Rightarrow> bool" where
  "own_names spec \<longleftrightarrow> one_payload spec
     \<and> inj_on struct_name {t. \<exists>a. delivers spec t a} \<and> inj_on const_name {t. \<exists>a. delivers spec t a}"

lemma ws_file_same:
  assumes "same_async a b" "own_names a"
    and "\<And>e. mset (ord1 e) = mset e" "\<And>e. mset (ord2 e) = mset e"
    and "\<And>e. mset (ord1' e) = mset e" "\<And>e. mset (ord2' e) = mset e"
  shows "ws_file ord1' ord2' b snap = ws_file ord1 ord2 a snap"
proof -
  let ?mid = "a\<lparr>as_Channels := as_Channels b\<rparr>"
  have "reordered a ?mid" using assms(1) by (simp add: reordered_def same_async_def)
  then have "ws_file ord1' ord2' ?mid snap = ws_file ord1 ord2 a snap"
    using assms(2-) unfolding own_names_def by (intro ws_file_reordered) auto
  moreover have "same_async ?mid b" using assms(1) by (simp add: same_async_def)
  then have "ws_file ord1' ord2' b snap = ws_file ord1' ord2' ?mid snap"
    by (rule ws_file_same_channels) simp
  ultimately show ?thesis by simp
qed

text \<open>C26: \<open>ws_messages_generated.go\<close> is the same text for every order in which Go visits the maps of
  the specification (channels, messages of a channel, messages, schemas, and the properties of
  every schema, however deep) and those the tool builds itself, the map from message types to
  channels among them. Two conditions are needed, and assumed of the specification: messages that
  share a name have the same body (\<open>one_payload\<close>), and different message types get different names
  of Go structs and constants (\<open>struct_name\<close> and \<open>const_name\<close> are injective on them).\<close>

theorem ws_file_deterministic:
  assumes "same_async spec spec'" and "one_payload spec"
    and "inj_on struct_name {t. \<exists>a. delivers spec t a}" and "inj_on const_name {t. \<exists>a. delivers spec t a}"
    and "\<And>e. mset (ord1 e) = mset e" "\<And>e. mset (ord2 e) = mset e"
    and "\<And>e. mset (ord1' e) = mset e" "\<And>e. mset (ord2' e) = mset e"
  shows "ws_file ord1' ord2' spec' snap = ws_file ord1 ord2 spec snap"
  by (rule ws_file_same) (use assms in \<open>simp_all add: own_names_def\<close>)

text \<open>A specification and the same with all its maps listed backwards.\<close>

definition demo_ws_spec :: "bool \<Rightarrow> AsyncAPISpec" where
  "demo_ws_spec flip =
     (let str = Schema ''string'' [] [] [] [] [] None [] [] False False None;
          props = [(''price'', Some str), (''side'', Some str)];
          body = object_schema (if flip then rev props else props);
          schemas = [(''tradeBody'', Some body), (''text'', Some str)];
          payload = object_schema [(''msg'', Some (ref_schema ''#/components/schemas/tradeBody''))];
          chs = demo_channels
      in \<lparr>as_Channels = (if flip then rev chs else chs),
          as_Messages = [(''trade'', Some \<lparr>me_Name = ''trade'', me_Payload = Some payload\<rparr>)],
          as_Schemas = (if flip then rev schemas else schemas), as_ErrorCodes = None\<rparr>)"

definition demo_trade :: Message where
  "demo_trade = \<lparr>me_Name = ''trade'',
     me_Payload = Some (object_schema [(''msg'', Some (ref_schema ''#/components/schemas/tradeBody''))])\<rparr>"

lemma demo_ws_same_async: "same_async (demo_ws_spec False) (demo_ws_spec True)"
proof -
  let ?str = "Schema ''string'' [] [] [] [] [] None [] [] False False None"
  have "same_schema (object_schema [(''price'', Some ?str), (''side'', Some ?str)]) (object_schema [(''side'', Some ?str), (''price'', Some ?str)])"
    unfolding object_schema_def by (rule same_schema.intros) (simp_all add: same_map_def distinct_keys_def same_string)
  moreover have ref: "same_schema (ref_schema r) (ref_schema r)" for r
    unfolding ref_schema_def by (rule same_string)
  have "same_schema (object_schema [(''msg'', Some (ref_schema r))]) (object_schema [(''msg'', Some (ref_schema r))])" for r
    unfolding object_schema_def by (rule same_schema.intros) (simp_all add: same_map_def distinct_keys_def ref)
  ultimately show ?thesis
    by (simp add: same_async_def demo_ws_spec_def Let_def same_map_def distinct_keys_def same_string same_message_def)
qed

lemma demo_referenced:
  "referenced (demo_ws_spec flip) \<lparr>mr_Ref = ''#/components/messages/trade''\<rparr> = Some demo_trade"
  by (simp add: referenced_def demo_ws_spec_def Let_def demo_trade_def lookup_ptr_def refToName_def)

lemma demo_channels_of: "as_Channels (demo_ws_spec False) = demo_channels"
  by (simp add: demo_ws_spec_def Let_def)

lemma demo_delivers: "delivers (demo_ws_spec False) t a \<Longrightarrow> t = ''trade''"
  unfolding delivers_def
proof (elim exE conjE)
  fix k ch mk r m
  assume "(k, Some ch) \<in> set (as_Channels (demo_ws_spec False))" "(mk, Some r) \<in> set (ch_Messages ch)"
    and m: "referenced (demo_ws_spec False) r = Some m" "me_Name m = t"
  then have "r = \<lparr>mr_Ref = ''#/components/messages/trade''\<rparr>"
    by (auto simp: demo_channels_of demo_channels_def demo_channel_def)
  with m show "t = ''trade''" by (auto simp: demo_referenced demo_trade_def)
qed

lemma demo_one_payload: "one_payload (demo_ws_spec False)"
  unfolding one_payload_def
proof (intro allI ballI)
  let ?spec = "demo_ws_spec False"
  fix t p q
  assume "p \<in> set (payloads ?spec t (channel_refs (as_Channels ?spec)))"
    and "q \<in> set (payloads ?spec t (channel_refs (as_Channels ?spec)))"
  then obtain e e' where "e \<in> set (channel_refs (as_Channels ?spec))" "has_payload ?spec t p (snd e)"
    "e' \<in> set (channel_refs (as_Channels ?spec))" "has_payload ?spec t q (snd e')"
    unfolding in_payloads by blast
  moreover from this(1,3) have "snd e = snd e'"
    by (auto simp: demo_channels_of demo_channels_def demo_channel_def channel_refs_def message_refs_def skipChannels_def)
  ultimately show "p = q" by (auto simp: has_payload_def split: option.splits)
qed

lemma demo_names: "inj_on f {t. \<exists>a. delivers (demo_ws_spec False) t a}"
proof -
  have "{t. \<exists>a. delivers (demo_ws_spec False) t a} \<subseteq> {''trade''}" using demo_delivers by auto
  from inj_on_subset [OF _ this] show ?thesis by simp
qed

lemmas resolve_code [code] = ws_resolveGoTypeInner.simps

lemma demo_ws_text: "ws_file id id (demo_ws_spec False) zero_Snapshot \<noteq> None"
  by code_simp

lemma ws_file_deterministic_witness:
  "(\<forall>snap. ws_file rev rev (demo_ws_spec True) snap = ws_file id id (demo_ws_spec False) snap)
   \<and> ws_file id id (demo_ws_spec False) zero_Snapshot \<noteq> None \<and> delivers (demo_ws_spec False) ''trade'' ''fill''"
proof (intro conjI allI)
  fix snap
  show "ws_file rev rev (demo_ws_spec True) snap = ws_file id id (demo_ws_spec False) snap"
    by (rule ws_file_deterministic [OF demo_ws_same_async demo_one_payload demo_names demo_names]) simp_all
  show "ws_file id id (demo_ws_spec False) zero_Snapshot \<noteq> None" by (rule demo_ws_text)
  have "(''fills'', Some (demo_channel ''fill'')) \<in> set (as_Channels (demo_ws_spec False))"
    "(''trade'', Some \<lparr>mr_Ref = ''#/components/messages/trade''\<rparr>) \<in> set (ch_Messages (demo_channel ''fill''))"
    by (simp_all add: demo_channels_of demo_channels_def demo_channel_def)
  then show "delivers (demo_ws_spec False) ''trade'' ''fill''"
    unfolding delivers_def using demo_referenced [of False]
    by (intro exI conjI) (auto simp: skipChannels_def address_of_def demo_channel_def demo_trade_def)
qed

end
