(* ===== verification/GoReflect.thy ===== *)
theory GoReflect
  imports GoJson GoFloat
begin

text \<open>
  How \<open>encoding/json\<close> moves values of the generated structs over the wire. Both directions walk
  the Go type by reflection, so the model has the types as data: \<open>gotype\<close> describes a type, a
  struct by its fields with their JSON keys and \<open>omitempty\<close> options, and \<open>goval\<close> is a value.
  \<open>decode\<close> is \<open>json.Unmarshal\<close> into a value of a type, \<open>encode\<close> is \<open>json.Marshal\<close>. Keys are compared
  exactly first and then ignoring ASCII case (Go folds two more letters, the Kelvin sign and the
  long s). Named string and integer types are their underlying types.
\<close>

section \<open>Types and values\<close>

datatype gotype =
    TString | TInt | TInt64 | TFloat64 | TBool | TAny
  | TPtr gotype
  | TSlice gotype
  | TMap gotype                         \<comment> \<open>map[string]T\<close>
  | TStruct string "gofield list"
and gofield =
    Field (fl_Name: string) (fl_Key: string) (fl_OmitEmpty: bool) (fl_Type: gotype)

datatype goval =
    VString string
  | VInt goint
  | VFloat gofloat
  | VBool bool
  | VNil
  | VPtr goval
  | VSlice "goval list"
  | VMap "(string \<times> goval) list"
  | VStruct "goval list"                \<comment> \<open>the fields in the order of the declaration\<close>

lemma size_field [termination_simp]: "f \<in> set fs \<Longrightarrow> size (fl_Type f) < Suc (size_list size fs)"
proof (induction fs)
  case (Cons g fs)
  then show ?case by (cases g) auto
qed simp

lemma size_nth_field [termination_simp]: "i < length fs \<Longrightarrow> size (fl_Type (fs ! i)) < Suc (size_list size fs)"
  by (rule size_field) simp

fun go_name :: "gotype \<Rightarrow> string" where
  "go_name (TStruct n fs) = n"
| "go_name _ = []"

fun zero :: "gotype \<Rightarrow> goval" where
  "zero TString = VString []"
| "zero TInt = VInt 0"
| "zero TInt64 = VInt 0"
| "zero TFloat64 = VFloat 0"
| "zero TBool = VBool False"
| "zero TAny = VNil"
| "zero (TPtr t) = VNil"
| "zero (TSlice t) = VNil"
| "zero (TMap t) = VNil"
| "zero (TStruct n fs) = VStruct (map (\<lambda>f. zero (fl_Type f)) fs)"

section \<open>Numbers\<close>

text \<open>The value of a JSON number literal, and \<open>strconv.ParseFloat\<close>: \<open>None\<close> out of range.\<close>

definition exp_value :: "string \<Rightarrow> int" where
  "exp_value r = (case r of
      [] \<Rightarrow> 0
    | c # cs \<Rightarrow> (case cs of
          d # ds \<Rightarrow> if d = CHR ''-'' then - int (atoi_digits ds)
                   else if d = CHR ''+'' then int (atoi_digits ds) else int (atoi_digits cs)
        | [] \<Rightarrow> 0))"

definition num_value :: "string \<Rightarrow> rat" where
  "num_value s =
     (let neg = (s \<noteq> [] \<and> hd s = CHR ''-'');
          t = (if neg then tl s else s);
          whole = takeWhile is_digit t;
          r = dropWhile is_digit t;
          frac = (if r \<noteq> [] \<and> hd r = CHR ''.'' then takeWhile is_digit (tl r) else []);
          e = (if r \<noteq> [] \<and> hd r = CHR ''.'' then dropWhile is_digit (tl r) else r);
          m = of_nat (atoi_digits (whole @ frac)) * power_int 10 (exp_value e - int (length frac))
      in if neg then - m else m)"

definition ParseFloat :: "string \<Rightarrow> gofloat option" where
  "ParseFloat s = (let x = f64 (num_value s) in if \<bar>x\<bar> < 2 ^ 1024 then Some x else None)"

section \<open>Unmarshal\<close>

text \<open>Into an empty interface: maps, slices, strings, booleans, float64 and nil.\<close>

fun any_of :: "json \<Rightarrow> goval \<times> bool" where
  "any_of JNull = (VNil, False)"
| "any_of (JBool b) = (VBool b, False)"
| "any_of (JNum n) = (case ParseFloat n of Some x \<Rightarrow> (VFloat x, False) | None \<Rightarrow> (VNil, True))"
| "any_of (JStr s) = (VString s, False)"
| "any_of (JArr js) = (VSlice (map (\<lambda>j. fst (any_of j)) js), list_ex (\<lambda>j. snd (any_of j)) js)"
| "any_of (JObj kvs) =
     (VMap (foldl (\<lambda>m kj. AList.update (fst kj) (fst (any_of (snd kj))) m) [] kvs),
      list_ex (\<lambda>kj. snd (any_of (snd kj))) kvs)"

fun index_where :: "('a \<Rightarrow> bool) \<Rightarrow> 'a list \<Rightarrow> nat option" where
  "index_where P [] = None"
| "index_where P (x # xs) = (if P x then Some 0 else map_option Suc (index_where P xs))"

definition field_index :: "gofield list \<Rightarrow> string \<Rightarrow> nat option" where
  "field_index fs k =
     (case index_where (\<lambda>f. fl_Key f = k) fs of
        Some i \<Rightarrow> Some i
      | None \<Rightarrow> index_where (\<lambda>f. key_matches (fl_Key f) k) fs)"

lemma index_where_Some: "index_where P xs = Some i \<Longrightarrow> i < length xs \<and> P (xs ! i)"
  by (induction xs arbitrary: i) (auto split: if_splits)

lemma field_index_less: "field_index fs k = Some i \<Longrightarrow> i < length fs"
  by (auto simp: field_index_def dest: index_where_Some split: option.splits)

text \<open>
  The second result says that some value had a type that does not fit: Go notes the first such
  error, skips the value and goes on. \<open>null\<close> sets pointers, slices and maps to nil and leaves
  everything else alone; an array overwrites the elements of a slice that is already there.
\<close>

definition set_int :: "goval \<Rightarrow> json \<Rightarrow> goval \<times> bool" where
  "set_int v j = (case j of
      JNum n \<Rightarrow> (case parse_int n of
          Some i \<Rightarrow> if in_int64 i then (VInt i, False) else (v, True)
        | None \<Rightarrow> (v, True))
    | JNull \<Rightarrow> (v, False)
    | _ \<Rightarrow> (v, True))"

definition elem_at :: "goval \<Rightarrow> gotype \<Rightarrow> nat \<Rightarrow> goval" where
  "elem_at v t i = (case v of VSlice xs \<Rightarrow> if i < length xs then xs ! i else zero t | _ \<Rightarrow> zero t)"

definition pointee :: "goval \<Rightarrow> gotype \<Rightarrow> goval" where
  "pointee v t = (case v of VPtr x \<Rightarrow> x | _ \<Rightarrow> zero t)"

definition entries :: "goval \<Rightarrow> (string \<times> goval) list" where
  "entries v = (case v of VMap m \<Rightarrow> m | _ \<Rightarrow> [])"

definition struct_fields :: "goval \<Rightarrow> gofield list \<Rightarrow> goval list" where
  "struct_fields v fs = (case v of VStruct vs \<Rightarrow> vs | _ \<Rightarrow> map (\<lambda>f. zero (fl_Type f)) fs)"

function decode :: "gotype \<Rightarrow> goval \<Rightarrow> json \<Rightarrow> goval \<times> bool" where
  "decode TString v j = (case j of JStr s \<Rightarrow> (VString s, False) | JNull \<Rightarrow> (v, False) | _ \<Rightarrow> (v, True))"
| "decode TInt v j = set_int v j"
| "decode TInt64 v j = set_int v j"
| "decode TFloat64 v j = (case j of
      JNum n \<Rightarrow> (case ParseFloat n of Some x \<Rightarrow> (VFloat x, False) | None \<Rightarrow> (v, True))
    | JNull \<Rightarrow> (v, False)
    | _ \<Rightarrow> (v, True))"
| "decode TBool v j = (case j of JBool b \<Rightarrow> (VBool b, False) | JNull \<Rightarrow> (v, False) | _ \<Rightarrow> (v, True))"
| "decode TAny v j = any_of j"
| "decode (TPtr t) v j = (case j of
      JNull \<Rightarrow> (VNil, False)
    | _ \<Rightarrow> (case decode t (pointee v t) j of (x, e) \<Rightarrow> (VPtr x, e)))"
| "decode (TSlice t) v j = (case j of
      JNull \<Rightarrow> (VNil, False)
    | JArr js \<Rightarrow>
        (VSlice (map (\<lambda>i. fst (decode t (elem_at v t i) (js ! i))) [0..<length js]),
         list_ex (\<lambda>i. snd (decode t (elem_at v t i) (js ! i))) [0..<length js])
    | _ \<Rightarrow> (v, True))"
| "decode (TMap t) v j = (case j of
      JNull \<Rightarrow> (VNil, False)
    | JObj kvs \<Rightarrow>
        (VMap (foldl (\<lambda>m kj. AList.update (fst kj) (fst (decode t (zero t) (snd kj))) m) (entries v) kvs),
         list_ex (\<lambda>kj. snd (decode t (zero t) (snd kj))) kvs)
    | _ \<Rightarrow> (v, True))"
| "decode (TStruct n fs) v j = (case j of
      JNull \<Rightarrow> (v, False)
    | JObj kvs \<Rightarrow>
        (case foldl (\<lambda>st kj. case field_index fs (fst kj) of
                 None \<Rightarrow> st
               | Some i \<Rightarrow>
                   (case decode (fl_Type (fs ! i)) (fst st ! i) (snd kj) of
                      (x, e) \<Rightarrow> ((fst st)[i := x], snd st \<or> e)))
           (struct_fields v fs, False) kvs of (vs, e) \<Rightarrow> (VStruct vs, e))
    | _ \<Rightarrow> (v, True))"
  by pat_completeness auto
termination
  by (relation "measure (\<lambda>(t, v, j). size t)") (auto dest!: field_index_less nth_mem size_field)

declare decode.simps(7-10) [simp del]

text \<open>\<open>json.Unmarshal\<close> into a fresh value: an error for text that is no JSON and for a misfit.\<close>

definition unmarshal_into :: "gotype \<Rightarrow> string \<Rightarrow> goval option" where
  "unmarshal_into t s = (case json_parse s of
      None \<Rightarrow> None
    | Some j \<Rightarrow> (case decode t (zero t) j of (v, e) \<Rightarrow> if e then None else Some v))"

section \<open>Marshal\<close>

text \<open>What \<open>omitempty\<close> leaves out.\<close>

definition is_empty :: "goval \<Rightarrow> bool" where
  "is_empty v \<longleftrightarrow> v \<in> {VString [], VInt 0, VFloat 0, VBool False, VNil, VSlice [], VMap []}"

text \<open>
  \<open>None\<close> for a value with a float64 in it: how \<open>strconv\<close> prints one is not modelled, and no
  request of the API has one. The keys of a map are sorted.
\<close>

fun encode_any :: "goval \<Rightarrow> json option" where
  "encode_any VNil = Some JNull"
| "encode_any (VBool b) = Some (JBool b)"
| "encode_any (VString s) = Some (JStr s)"
| "encode_any (VSlice vs) = map_option JArr (those (map encode_any vs))"
| "encode_any (VMap m) =
     map_option (\<lambda>js. JObj (sort_key fst (zip (map fst m) js))) (those (map (\<lambda>kv. encode_any (snd kv)) m))"
| "encode_any _ = None"

fun encode :: "gotype \<Rightarrow> goval \<Rightarrow> json option" where
  "encode TString v = (case v of VString s \<Rightarrow> Some (JStr s) | _ \<Rightarrow> None)"
| "encode TInt v = (case v of VInt i \<Rightarrow> Some (JInt i) | _ \<Rightarrow> None)"
| "encode TInt64 v = (case v of VInt i \<Rightarrow> Some (JInt i) | _ \<Rightarrow> None)"
| "encode TFloat64 v = None"
| "encode TBool v = (case v of VBool b \<Rightarrow> Some (JBool b) | _ \<Rightarrow> None)"
| "encode TAny v = encode_any v"
| "encode (TPtr t) v = (case v of VNil \<Rightarrow> Some JNull | VPtr x \<Rightarrow> encode t x | _ \<Rightarrow> None)"
| "encode (TSlice t) v = (case v of
      VNil \<Rightarrow> Some JNull
    | VSlice vs \<Rightarrow> map_option JArr (those (map (encode t) vs))
    | _ \<Rightarrow> None)"
| "encode (TMap t) v = (case v of
      VNil \<Rightarrow> Some JNull
    | VMap m \<Rightarrow> map_option (\<lambda>js. JObj (sort_key fst (zip (map fst m) js)))
                 (those (map (\<lambda>kv. encode t (snd kv)) m))
    | _ \<Rightarrow> None)"
| "encode (TStruct n fs) v = (case v of
      VStruct vs \<Rightarrow>
        map_option (\<lambda>kvs. JObj (concat kvs))
          (those (map (\<lambda>i. if fl_OmitEmpty (fs ! i) \<and> is_empty (vs ! i) then Some []
                           else map_option (\<lambda>j. [(fl_Key (fs ! i), j)]) (encode (fl_Type (fs ! i)) (vs ! i)))
            [0..<length fs]))
    | _ \<Rightarrow> None)"

definition marshal :: "gotype \<Rightarrow> goval \<Rightarrow> string option" where
  "marshal t v = map_option json_print (encode t v)"

end
