(* ===== verification/GoReflectProps.thy ===== *)
theory GoReflectProps
  imports GoReflect
begin

text \<open>
  What \<open>json.Unmarshal\<close> and \<open>json.Marshal\<close> guarantee for every described type: decoding keeps a
  value in its type whatever the text says, and a value without floats that is canonical comes
  back from its own text.
\<close>

section \<open>Values of a type\<close>

definition is_float :: "gofloat \<Rightarrow> bool" where
  "is_float x \<longleftrightarrow> is_f64 x \<and> \<bar>x\<bar> < 2 ^ 1024"

fun any_ok :: "goval \<Rightarrow> bool" where
  "any_ok (VFloat x) = is_float x"
| "any_ok (VSlice vs) = list_all any_ok vs"
| "any_ok (VMap m) = (distinct_keys m \<and> list_all (\<lambda>kv. any_ok (snd kv)) m)"
| "any_ok (VInt i) = False"
| "any_ok (VPtr v) = False"
| "any_ok (VStruct vs) = False"
| "any_ok _ = True"

fun has_type :: "gotype \<Rightarrow> goval \<Rightarrow> bool" where
  "has_type TString v = (case v of VString s \<Rightarrow> True | _ \<Rightarrow> False)"
| "has_type TInt v = (case v of VInt i \<Rightarrow> in_int64 i | _ \<Rightarrow> False)"
| "has_type TInt64 v = (case v of VInt i \<Rightarrow> in_int64 i | _ \<Rightarrow> False)"
| "has_type TFloat64 v = (case v of VFloat x \<Rightarrow> is_float x | _ \<Rightarrow> False)"
| "has_type TBool v = (case v of VBool b \<Rightarrow> True | _ \<Rightarrow> False)"
| "has_type TAny v = any_ok v"
| "has_type (TPtr t) v = (case v of VNil \<Rightarrow> True | VPtr x \<Rightarrow> has_type t x | _ \<Rightarrow> False)"
| "has_type (TSlice t) v = (case v of VNil \<Rightarrow> True | VSlice vs \<Rightarrow> list_all (has_type t) vs | _ \<Rightarrow> False)"
| "has_type (TMap t) v = (case v of VNil \<Rightarrow> True
      | VMap m \<Rightarrow> distinct_keys m \<and> list_all (\<lambda>kv. has_type t (snd kv)) m | _ \<Rightarrow> False)"
| "has_type (TStruct n fs) v = (case v of
      VStruct vs \<Rightarrow> length vs = length fs
        \<and> list_all (\<lambda>i. has_type (fl_Type (fs ! i)) (vs ! i)) [0..<length fs]
    | _ \<Rightarrow> False)"

lemma list_all_upt: "list_all P [0..<n] \<longleftrightarrow> (\<forall>i < n. P i)"
  by (auto simp: list_all_iff)

lemma has_type_struct:
  "has_type (TStruct n fs) v \<longleftrightarrow>
     (\<exists>vs. v = VStruct vs \<and> length vs = length fs \<and> (\<forall>i < length fs. has_type (fl_Type (fs ! i)) (vs ! i)))"
  by (cases v) (auto simp: list_all_upt)

lemma in_int64_zero [simp]: "in_int64 0"
  by (simp add: in_int64_def)

lemma is_float_zero [simp]: "is_float 0"
  by (simp add: is_float_def)

lemma zero_typed [simp]: "has_type T (zero T)"
proof (induction T rule: measure_induct_rule [of size])
  case (less T)
  then show ?case
    by (cases T) (auto simp: list_all_upt size_nth_field)
qed

section \<open>Decoding keeps the type\<close>

lemma ParseFloat_float: "ParseFloat s = Some x \<Longrightarrow> is_float x"
  by (auto simp: ParseFloat_def is_float_def Let_def split: if_splits)

lemma foldl_update_keys:
  "distinct_keys m \<Longrightarrow> (\<And>kv. kv \<in> set m \<Longrightarrow> P (snd kv)) \<Longrightarrow> (\<And>kj. kj \<in> set kvs \<Longrightarrow> P (g (snd kj))) \<Longrightarrow>
   distinct_keys (foldl (\<lambda>m kj. AList.update (fst kj) (g (snd kj)) m) m kvs)
   \<and> (\<forall>kv \<in> set (foldl (\<lambda>m kj. AList.update (fst kj) (g (snd kj)) m) m kvs). P (snd kv))"
proof (induction kvs arbitrary: m)
  case (Cons kj kvs)
  have "distinct_keys (AList.update (fst kj) (g (snd kj)) m)" using Cons.prems(1) by simp
  moreover have "P (snd kv)" if "kv \<in> set (AList.update (fst kj) (g (snd kj)) m)" for kv
    using in_update [OF that] Cons.prems(2) [of kv] Cons.prems(3) [of kj] by auto
  ultimately show ?case using Cons.IH [of "AList.update (fst kj) (g (snd kj)) m"] Cons.prems(3) by simp
qed simp

lemma any_of_ok: "any_ok (fst (any_of j))"
proof (induction j)
  case (JNum n)
  then show ?case by (auto dest: ParseFloat_float split: option.splits)
next
  case (JArr js)
  then show ?case by (auto simp: list_all_iff)
next
  case (JObj kvs)
  have "any_ok (fst (any_of (snd kj)))" if "kj \<in> set kvs" for kj
    using JObj [of kj "snd kj"] that by (cases kj) auto
  then show ?case
    using foldl_update_keys [of "[]" any_ok kvs "\<lambda>j. fst (any_of j)"] by (simp add: list_all_iff)
qed auto

lemma set_int_typed: "has_type TInt v \<Longrightarrow> has_type TInt (fst (set_int v j))"
  by (auto simp: set_int_def split: json.splits option.splits)

lemma elem_at_typed: "has_type (TSlice t) v \<Longrightarrow> has_type t (elem_at v t i)"
  by (auto simp: elem_at_def list_all_length split: goval.splits)

lemma pointee_typed: "has_type (TPtr t) v \<Longrightarrow> has_type t (pointee v t)"
  by (auto simp: pointee_def split: goval.splits)

definition decode_field :: "gofield list \<Rightarrow> goval list \<times> bool \<Rightarrow> string \<times> json \<Rightarrow> goval list \<times> bool" where
  "decode_field fs st kj = (case field_index fs (fst kj) of
       None \<Rightarrow> st
     | Some i \<Rightarrow> (case decode (fl_Type (fs ! i)) (fst st ! i) (snd kj) of
           (x, e) \<Rightarrow> ((fst st)[i := x], snd st \<or> e)))"

lemma decode_struct:
  "decode (TStruct n fs) v (JObj kvs) =
     (case foldl (decode_field fs) (struct_fields v fs, False) kvs of (vs, e) \<Rightarrow> (VStruct vs, e))"
  by (simp add: decode.simps decode_field_def [abs_def])

lemma decode_fields_typed:
  assumes "\<And>i w j. i < length fs \<Longrightarrow> has_type (fl_Type (fs ! i)) w \<Longrightarrow>
      has_type (fl_Type (fs ! i)) (fst (decode (fl_Type (fs ! i)) w j))"
    and "has_type (TStruct n fs) (VStruct (fst st))"
  shows "has_type (TStruct n fs) (VStruct (fst (foldl (decode_field fs) st kvs)))"
  using assms(2)
proof (induction kvs arbitrary: st)
  case (Cons kj kvs)
  have "has_type (TStruct n fs) (VStruct (fst (decode_field fs st kj)))"
  proof (cases "field_index fs (fst kj)")
    case None
    with Cons.prems show ?thesis by (simp add: decode_field_def)
  next
    case (Some i)
    then have i: "i < length fs" by (rule field_index_less)
    then have "has_type (fl_Type (fs ! i)) (fst (decode (fl_Type (fs ! i)) (fst st ! i) (snd kj)))"
      using Cons.prems assms(1) by (simp add: list_all_upt)
    with Cons.prems i show ?thesis
      by (auto simp: decode_field_def Some list_all_upt nth_list_update split: prod.splits)
  qed
  with Cons.IH show ?case by simp
qed simp

lemma decode_typed: "has_type T v \<Longrightarrow> has_type T (fst (decode T v j))"
proof (induction T arbitrary: v j rule: measure_induct_rule [of size])
  case (less T)
  show ?case
  proof (cases T)
    case TInt
    then show ?thesis using less.prems set_int_typed by simp
  next
    case TInt64
    then show ?thesis using less.prems set_int_typed [of v j] by simp
  next
    case (TPtr t)
    then have "has_type t (fst (decode t (pointee v t) j))"
      using less.IH [of t] less.prems pointee_typed by simp
    then show ?thesis
      by (cases j) (simp_all add: TPtr decode.simps case_prod_beta)
  next
    case (TSlice t)
    then have "has_type t (fst (decode t (elem_at v t i) k))" for i k
      using less.IH [of t] less.prems elem_at_typed by simp
    then show ?thesis
      using less.prems TSlice by (auto simp: decode.simps list_all_iff split: json.split)
  next
    case (TMap t)
    then have "has_type t (fst (decode t (zero t) k))" for k
      using less.IH [of t] by simp
    moreover have "distinct_keys (entries v)" "\<And>kv. kv \<in> set (entries v) \<Longrightarrow> has_type t (snd kv)"
      using less.prems TMap by (auto simp: entries_def list_all_iff split: goval.splits)
    ultimately show ?thesis
      using less.prems TMap foldl_update_keys [of "entries v" "has_type t" _ "\<lambda>k. fst (decode t (zero t) k)"]
      by (auto simp: decode.simps list_all_iff split: json.split)
  next
    case (TStruct n fs)
    have fields: "has_type (fl_Type (fs ! i)) (fst (decode (fl_Type (fs ! i)) w k))"
      if "i < length fs" "has_type (fl_Type (fs ! i)) w" for i w k
      using that less.IH [of "fl_Type (fs ! i)" w k] size_nth_field [of i fs] by (simp add: TStruct)
    have "has_type (TStruct n fs) v" using less.prems TStruct by simp
    then obtain ws where "v = VStruct ws" unfolding has_type_struct by blast
    with less.prems TStruct have "has_type (TStruct n fs) (VStruct (struct_fields v fs))"
      by (simp add: struct_fields_def)
    then have "has_type (TStruct n fs) (VStruct (fst (foldl (decode_field fs) (struct_fields v fs, False) kvs)))" for kvs
      by (intro decode_fields_typed fields) simp_all
    note struct = this
    show ?thesis
    proof (cases j)
      case (JObj kvs)
      show ?thesis
        unfolding TStruct JObj decode_struct using struct [of kvs] by (simp add: case_prod_beta del: has_type.simps)
    qed (use less.prems in \<open>simp_all add: TStruct decode.simps(10)\<close>)
  qed (use less.prems in \<open>auto simp: any_of_ok dest: ParseFloat_float split: json.split option.split\<close>)
qed

section \<open>Marshal and Unmarshal\<close>

definition nilable :: "gotype \<Rightarrow> bool" where
  "nilable t = (case t of TPtr u \<Rightarrow> True | TSlice u \<Rightarrow> True | TMap u \<Rightarrow> True | TAny \<Rightarrow> True | _ \<Rightarrow> False)"

text \<open>Types whose values can be told from their text: no struct has a key twice, no pointer points to something that can be nil.\<close>

fun wf_type :: "gotype \<Rightarrow> bool" where
  "wf_type (TPtr t) = (\<not> nilable t \<and> wf_type t)"
| "wf_type (TSlice t) = wf_type t"
| "wf_type (TMap t) = wf_type t"
| "wf_type (TStruct n fs) = (distinct (map fl_Key fs) \<and> list_all (\<lambda>f. wf_type (fl_Type f)) fs)"
| "wf_type _ = True"

text \<open>
  Values that are as decoding leaves them: no floats, map keys in order, and what \<open>omitempty\<close> leaves
  out is the zero value (an empty slice that is not nil would come back as nil).
\<close>

fun canonical_any :: "goval \<Rightarrow> bool" where
  "canonical_any (VFloat x) = False"
| "canonical_any (VSlice vs) = list_all canonical_any vs"
| "canonical_any (VMap m) = (sorted (map fst m) \<and> list_all (\<lambda>kv. canonical_any (snd kv)) m)"
| "canonical_any _ = True"

fun canonical :: "gotype \<Rightarrow> goval \<Rightarrow> bool" where
  "canonical TFloat64 v = False"
| "canonical TAny v = canonical_any v"
| "canonical (TPtr t) v = (case v of VPtr x \<Rightarrow> canonical t x | _ \<Rightarrow> True)"
| "canonical (TSlice t) v = (case v of VSlice vs \<Rightarrow> list_all (canonical t) vs | _ \<Rightarrow> True)"
| "canonical (TMap t) v =
     (case v of VMap m \<Rightarrow> sorted (map fst m) \<and> list_all (\<lambda>kv. canonical t (snd kv)) m | _ \<Rightarrow> True)"
| "canonical (TStruct n fs) v = (case v of
      VStruct vs \<Rightarrow> list_all (\<lambda>i. canonical (fl_Type (fs ! i)) (vs ! i)
        \<and> (fl_OmitEmpty (fs ! i) \<and> is_empty (vs ! i) \<longrightarrow> vs ! i = zero (fl_Type (fs ! i)))) [0..<length fs]
    | _ \<Rightarrow> True)"
| "canonical _ v = True"

lemma foldl_update_fresh:
  "distinct (map fst acc @ map fst kvs) \<Longrightarrow>
   foldl (\<lambda>m kj. AList.update (fst kj) (g (snd kj)) m) acc kvs = acc @ map (\<lambda>kj. (fst kj, g (snd kj))) kvs"
proof (induction kvs arbitrary: acc)
  case (Cons kj kvs)
  have "AList.update k v acc = acc @ [(k, v)]" if "k \<notin> fst ` set acc" for k v
    using that by (induction acc) auto
  then have "AList.update (fst kj) (g (snd kj)) acc = acc @ [(fst kj, g (snd kj))]"
    using Cons.prems by auto
  with Cons show ?case by simp
qed simp

text \<open>A map of values, encoded entry by entry and decoded again.\<close>

lemma map_roundtrip:
  assumes "distinct_keys m" "sorted (map fst m)"
    and "\<And>kv. kv \<in> set m \<Longrightarrow> \<exists>j. enc (snd kv) = Some j \<and> json_ok j \<and> dec j = (snd kv, False)"
  shows "\<exists>js. those (map (\<lambda>kv. enc (snd kv)) m) = Some js
     \<and> sort_key fst (zip (map fst m) js) = zip (map fst m) js \<and> json_ok (JObj (zip (map fst m) js))
     \<and> foldl (\<lambda>m kj. AList.update (fst kj) (fst (dec (snd kj))) m) [] (zip (map fst m) js) = m
     \<and> \<not> list_ex (\<lambda>kj. snd (dec (snd kj))) (zip (map fst m) js)"
proof -
  let ?js = "map (\<lambda>kv. the (enc (snd kv))) m"
  have all: "enc (snd kv) = Some (the (enc (snd kv))) \<and> json_ok (the (enc (snd kv))) \<and> dec (the (enc (snd kv))) = (snd kv, False)"
    if "kv \<in> set m" for kv
    using assms(3) [OF that] by auto
  have some: "those (map (\<lambda>kv. enc (snd kv)) m) = Some ?js"
    using all by (auto simp: those_map comp_def)
  have zip: "zip (map fst m) ?js = map (\<lambda>kv. (fst kv, the (enc (snd kv)))) m"
    by (induction m) simp_all
  have keys: "map fst (zip (map fst m) ?js) = map fst m" by simp
  have sorted: "sort_key fst (zip (map fst m) ?js) = zip (map fst m) ?js"
    by (rule sort_key_id_if_sorted) (use assms(2) keys in simp)
  have "foldl (\<lambda>m kj. AList.update (fst kj) (fst (dec (snd kj))) m) [] (zip (map fst m) ?js)
      = map (\<lambda>kj. (fst kj, fst (dec (snd kj)))) (zip (map fst m) ?js)"
    using foldl_update_fresh [of "[]" "zip (map fst m) ?js" "\<lambda>j. fst (dec j)"] assms(1) by (simp add: distinct_keys_def)
  also have "\<dots> = m"
    unfolding zip by (simp add: comp_def) (rule map_idI, use all in auto)
  finally have folded: "foldl (\<lambda>m kj. AList.update (fst kj) (fst (dec (snd kj))) m) [] (zip (map fst m) ?js) = m" .
  have ok: "json_ok (JObj (zip (map fst m) ?js))" "\<not> list_ex (\<lambda>kj. snd (dec (snd kj))) (zip (map fst m) ?js)"
    unfolding zip using all by (auto simp: list_all_iff list_ex_iff)
  show ?thesis by (intro exI [of _ ?js] conjI some sorted folded ok)
qed

lemma list_roundtrip:
  assumes "\<And>v. v \<in> set vs \<Longrightarrow> \<exists>j. enc v = Some j \<and> json_ok j \<and> dec j = (v, False)"
  shows "\<exists>js. those (map enc vs) = Some js \<and> length js = length vs \<and> list_all json_ok js
     \<and> (\<forall>i < length vs. dec (js ! i) = (vs ! i, False))"
proof -
  have all: "enc v = Some (the (enc v)) \<and> json_ok (the (enc v)) \<and> dec (the (enc v)) = (v, False)" if "v \<in> set vs" for v
    using assms [OF that] by auto
  have "those (map enc vs) = Some (map (the \<circ> enc) vs)" using all by (auto simp: those_map)
  with all show ?thesis by (auto simp: list_all_iff)
qed

lemma size_entry: "kv \<in> set m \<Longrightarrow> size (snd kv) < Suc (size_list (size_prod (\<lambda>x. 0) size) m)"
  by (induction m) auto

lemma any_roundtrip:
  "any_ok v \<Longrightarrow> canonical_any v \<Longrightarrow> \<exists>j. encode_any v = Some j \<and> json_ok j \<and> any_of j = (v, False)"
proof (induction v rule: measure_induct_rule [of size])
  case (less v)
  show ?case
  proof (cases v)
    case (VSlice vs)
    have "\<exists>j. encode_any w = Some j \<and> json_ok j \<and> any_of j = (w, False)" if "w \<in> set vs" for w
      using less that size_list_estimation' [of w vs "size w" size] by (auto simp: VSlice list_all_iff)
    then obtain js where js: "those (map encode_any vs) = Some js" "length js = length vs" "list_all json_ok js"
      "\<forall>i < length vs. any_of (js ! i) = (vs ! i, False)" using list_roundtrip [of vs encode_any any_of] by blast
    then have "map (\<lambda>j. fst (any_of j)) js = vs" "\<not> list_ex (\<lambda>j. snd (any_of j)) js"
      by (auto simp: list_ex_length intro!: nth_equalityI)
    with js(1,3) show ?thesis by (simp add: VSlice)
  next
    case (VMap m)
    have "size (snd kv) < size v" if "kv \<in> set m" for kv
      using size_entry [OF that] by (simp add: VMap)
    with less have "\<exists>j. encode_any (snd kv) = Some j \<and> json_ok j \<and> any_of j = (snd kv, False)" if "kv \<in> set m" for kv
      using that by (auto simp: VMap list_all_iff)
    then show ?thesis
      using map_roundtrip [of m encode_any any_of] less.prems by (auto simp: VMap simp del: json_ok.simps)
  qed (use less.prems in auto)
qed

text \<open>A struct: the fields that are written come back one by one, the others stay zero.\<close>

lemma index_where_distinct:
  "distinct (map f xs) \<Longrightarrow> i < length xs \<Longrightarrow> index_where (\<lambda>x. f x = f (xs ! i)) xs = Some i"
proof (induction xs arbitrary: i)
  case (Cons x xs)
  then show ?case by (cases i) auto
qed simp

lemma field_index_own:
  "distinct (map fl_Key fs) \<Longrightarrow> i < length fs \<Longrightarrow> field_index fs (fl_Key (fs ! i)) = Some i"
  using index_where_distinct [of fl_Key fs i] by (simp add: field_index_def)

lemma decode_fields_roundtrip:
  assumes "distinct (map fl_Key fs)" "length vs = length fs" "n \<le> length fs"
    and "\<And>i. i < length fs \<Longrightarrow> out i = [] \<and> vs ! i = zero (fl_Type (fs ! i))
          \<or> (\<exists>j. out i = [(fl_Key (fs ! i), j)] \<and> decode (fl_Type (fs ! i)) (zero (fl_Type (fs ! i))) j = (vs ! i, False))"
  shows "foldl (decode_field fs) (map (\<lambda>f. zero (fl_Type f)) fs, False) (concat (map out [0..<n])) =
    (take n vs @ drop n (map (\<lambda>f. zero (fl_Type f)) fs), False)"
  using assms(3)
proof (induction n)
  case (Suc n)
  let ?zs = "map (\<lambda>f. zero (fl_Type f)) fs"
  let ?cur = "take n vs @ drop n ?zs"
  have n: "n < length fs" using Suc.prems by simp
  have cur: "?cur ! n = zero (fl_Type (fs ! n))" using n assms(2) by (simp add: nth_append)
  have step: "take (Suc n) vs @ drop (Suc n) ?zs = ?cur[n := vs ! n]"
    using n assms(2) by (intro nth_equalityI) (auto simp: nth_append nth_list_update less_Suc_eq min_def)
  have "foldl (decode_field fs) (?cur, False) (out n) = (take (Suc n) vs @ drop (Suc n) ?zs, False)"
    using assms(4) [OF n]
  proof (elim disjE conjE exE)
    assume "out n = []" "vs ! n = zero (fl_Type (fs ! n))"
    then show ?thesis using cur step by (simp add: list_update_same_conv) (metis cur list_update_id)
  next
    fix j assume "out n = [(fl_Key (fs ! n), j)]"
      "decode (fl_Type (fs ! n)) (zero (fl_Type (fs ! n))) j = (vs ! n, False)"
    then show ?thesis using cur step n by (simp add: decode_field_def field_index_own assms(1))
  qed
  with Suc.IH n show ?case by simp
qed simp

lemma decode_encode:
  "wf_type T \<Longrightarrow> has_type T v \<Longrightarrow> canonical T v \<Longrightarrow>
   \<exists>j. encode T v = Some j \<and> json_ok j \<and> decode T (zero T) j = (v, False) \<and> (\<not> nilable T \<longrightarrow> j \<noteq> JNull)"
proof (induction T arbitrary: v rule: measure_induct_rule [of size])
  case (less T)
  show ?case
  proof (cases T)
    case TAny
    with less.prems any_roundtrip [of v] show ?thesis by (auto simp: nilable_def)
  next
    case (TPtr t)
    show ?thesis
    proof (cases "v = VNil")
      case True
      then show ?thesis by (simp add: TPtr decode.simps nilable_def)
    next
      case False
      then obtain x where x: "v = VPtr x" "has_type t x" "canonical t x"
        using less.prems TPtr by (auto split: goval.splits)
      with less.IH [of t x] less.prems TPtr obtain j where
        j: "encode t x = Some j" "json_ok j" "decode t (zero t) j = (x, False)" "j \<noteq> JNull" by auto
      then have "decode (TPtr t) VNil j = (VPtr x, False)"
        by (cases j) (simp_all add: decode.simps pointee_def)
      with j show ?thesis by (simp add: TPtr x nilable_def)
    qed
  next
    case (TSlice t)
    show ?thesis
    proof (cases "v = VNil")
      case True
      then show ?thesis by (simp add: TSlice decode.simps nilable_def)
    next
      case False
      then obtain vs where vs: "v = VSlice vs" "list_all (has_type t) vs" "list_all (canonical t) vs"
        using less.prems TSlice by (auto split: goval.splits)
      have "\<exists>j. encode t w = Some j \<and> json_ok j \<and> decode t (zero t) j = (w, False)" if "w \<in> set vs" for w
        using less.IH [of t w] less.prems TSlice vs that by (auto simp: list_all_iff)
      then obtain js where js: "those (map (encode t) vs) = Some js" "length js = length vs" "list_all json_ok js"
        "\<forall>i < length vs. decode t (zero t) (js ! i) = (vs ! i, False)"
        using list_roundtrip [of vs "encode t" "decode t (zero t)"] by blast
      then have "decode (TSlice t) VNil (JArr js) = (VSlice vs, False)"
        by (auto simp: decode.simps elem_at_def list_ex_iff intro!: nth_equalityI)
      with js show ?thesis by (simp add: TSlice vs nilable_def)
    qed
  next
    case (TMap t)
    show ?thesis
    proof (cases "v = VNil")
      case True
      then show ?thesis by (simp add: TMap decode.simps nilable_def)
    next
      case False
      then obtain m where m: "v = VMap m" "distinct_keys m" "\<forall>kv \<in> set m. has_type t (snd kv)"
          "sorted (map fst m)" "\<forall>kv \<in> set m. canonical t (snd kv)"
        using less.prems TMap by (auto simp: list_all_iff split: goval.splits)
      have "\<exists>j. encode t (snd kv) = Some j \<and> json_ok j \<and> decode t (zero t) j = (snd kv, False)" if "kv \<in> set m" for kv
        using less.IH [of t "snd kv"] less.prems TMap m that by auto
      with map_roundtrip [OF m(2,4), of "encode t" "decode t (zero t)"] obtain js where
        "those (map (\<lambda>kv. encode t (snd kv)) m) = Some js"
        "sort_key fst (zip (map fst m) js) = zip (map fst m) js" "json_ok (JObj (zip (map fst m) js))"
        "foldl (\<lambda>m kj. AList.update (fst kj) (fst (decode t (zero t) (snd kj))) m) [] (zip (map fst m) js) = m"
        "\<not> list_ex (\<lambda>kj. snd (decode t (zero t) (snd kj))) (zip (map fst m) js)" by blast
      then show ?thesis by (simp add: TMap m(1) decode.simps entries_def nilable_def del: json_ok.simps)
    qed
  next
    case (TStruct n fs)
    then have "has_type (TStruct n fs) v" using less.prems by simp
    then obtain vs where vs: "v = VStruct vs" "length vs = length fs"
      "\<And>i. i < length fs \<Longrightarrow> has_type (fl_Type (fs ! i)) (vs ! i)" unfolding has_type_struct by blast
    have wf: "distinct (map fl_Key fs)" "\<And>i. i < length fs \<Longrightarrow> wf_type (fl_Type (fs ! i))"
      using less.prems(1) TStruct by (auto simp: list_all_length)
    have canon: "canonical (fl_Type (fs ! i)) (vs ! i)"
      "fl_OmitEmpty (fs ! i) \<Longrightarrow> is_empty (vs ! i) \<Longrightarrow> vs ! i = zero (fl_Type (fs ! i))" if "i < length fs" for i
      using less.prems(3) TStruct vs(1) that by (simp_all add: list_all_upt)
    let ?enc = "\<lambda>i. if fl_OmitEmpty (fs ! i) \<and> is_empty (vs ! i) then Some []
        else map_option (\<lambda>j. [(fl_Key (fs ! i), j)]) (encode (fl_Type (fs ! i)) (vs ! i))"
    let ?out = "\<lambda>i. the (?enc i)"
    have field: "?enc i \<noteq> None \<and> (\<forall>kj \<in> set (?out i). json_ok (snd kj))
        \<and> (?out i = [] \<and> vs ! i = zero (fl_Type (fs ! i))
          \<or> (\<exists>j. ?out i = [(fl_Key (fs ! i), j)] \<and> decode (fl_Type (fs ! i)) (zero (fl_Type (fs ! i))) j = (vs ! i, False)))"
      if i: "i < length fs" for i
    proof -
      obtain j where "encode (fl_Type (fs ! i)) (vs ! i) = Some j" "json_ok j"
        "decode (fl_Type (fs ! i)) (zero (fl_Type (fs ! i))) j = (vs ! i, False)"
        using less.IH [of "fl_Type (fs ! i)" "vs ! i"] size_nth_field [OF i] TStruct wf(2) [OF i] vs(3) [OF i] canon(1) [OF i]
        by auto
      then show ?thesis using canon(2) [OF i] by simp
    qed
    let ?kvs = "concat (map ?out [0..<length fs])"
    have "those (map ?enc [0..<length fs]) = Some (map ?out [0..<length fs])"
      unfolding those_map using field by (simp add: comp_def)
    then have "encode T v = Some (JObj ?kvs)" by (simp add: TStruct vs(1))
    moreover have "json_ok (JObj ?kvs)"
      using field by (fastforce simp: list_all_iff)
    moreover have "foldl (decode_field fs) (map (\<lambda>f. zero (fl_Type f)) fs, False) ?kvs = (vs, False)"
      using decode_fields_roundtrip [OF wf(1) vs(2) order_refl, of ?out] field vs(2) by simp
    then have "decode T (zero T) (JObj ?kvs) = (v, False)"
      by (simp add: TStruct decode_struct struct_fields_def vs(1))
    ultimately show ?thesis by blast
  qed (use less.prems in \<open>auto simp: set_int_def JInt_def parse_int_Itoa Itoa_valid Itoa_num_char split: goval.splits\<close>)
qed

lemma unmarshal_marshal:
  assumes "wf_type T" "has_type T v" "canonical T v"
  shows "\<exists>s. marshal T v = Some s \<and> unmarshal_into T s = Some v"
proof -
  obtain j where "encode T v = Some j" "json_ok j" "decode T (zero T) j = (v, False)"
    using decode_encode [OF assms] by blast
  then show ?thesis by (auto simp: marshal_def unmarshal_into_def json_parse_print)
qed

lemma unmarshal_typed: "unmarshal_into T s = Some v \<Longrightarrow> has_type T v"
  using decode_typed [OF zero_typed [of T]]
  by (auto simp: unmarshal_into_def split: option.splits prod.splits if_splits) (metis fst_conv)

end
