(* ===== verification/ApiTypes.thy ===== *)
theory ApiTypes
  imports GoReflectProps
begin

text \<open>
  The structs of \<open>types_generated.go\<close> as type descriptions: each field with its Go name, its JSON
  key, its type, and whether its tag has \<open>omitempty\<close>. A struct stands after those it uses. The
  lemma after each definition says that its values can be told from their text.
\<close>

section \<open>Fields and named types\<close>

abbreviation always :: "string \<Rightarrow> string \<Rightarrow> gotype \<Rightarrow> gofield" where
  "always name k t \<equiv> Field name k False t"

abbreviation omitempty :: "string \<Rightarrow> string \<Rightarrow> gotype \<Rightarrow> gofield" where
  "omitempty name k t \<equiv> Field name k True t"

text \<open>The string types of \<open>enums.go\<close>.\<close>

abbreviation Action :: gotype where "Action \<equiv> TString"
abbreviation ApiKeyScope :: gotype where "ApiKeyScope \<equiv> TString"
abbreviation BookSide :: gotype where "BookSide \<equiv> TString"
abbreviation CollateralReturnType :: gotype where "CollateralReturnType \<equiv> TString"
abbreviation ExchangeInstance :: gotype where "ExchangeInstance \<equiv> TString"
abbreviation FeeType :: gotype where "FeeType \<equiv> TString"
abbreviation IntraExchangeInstanceTransferStatus :: gotype where "IntraExchangeInstanceTransferStatus \<equiv> TString"
abbreviation MarketResult :: gotype where "MarketResult \<equiv> TString"
abbreviation MarketStatus :: gotype where "MarketStatus \<equiv> TString"
abbreviation MarketType :: gotype where "MarketType \<equiv> TString"
abbreviation OrderStatus :: gotype where "OrderStatus \<equiv> TString"
abbreviation OrderType :: gotype where "OrderType \<equiv> TString"
abbreviation RestingMarginReservation :: gotype where "RestingMarginReservation \<equiv> TString"
abbreviation SelfTradePreventionType :: gotype where "SelfTradePreventionType \<equiv> TString"
abbreviation Side :: gotype where "Side \<equiv> TString"
abbreviation TimeInForce :: gotype where "TimeInForce \<equiv> TString"

lemma nilable_simps [simp]:
  "\<not> nilable TString" "\<not> nilable TInt" "\<not> nilable TInt64" "\<not> nilable TFloat64" "\<not> nilable TBool"
  "\<not> nilable (TStruct n fs)" "nilable TAny" "nilable (TPtr t)" "nilable (TSlice t)" "nilable (TMap t)"
  by (simp_all add: nilable_def)

section \<open>Aliases\<close>

definition ty_ExchangeIndex :: gotype where
  "ty_ExchangeIndex = TInt"

lemma ExchangeIndex_simps [simp]: "wf_type ty_ExchangeIndex" "\<not> nilable ty_ExchangeIndex"
  by (simp_all add: ty_ExchangeIndex_def)

definition ty_PriceLevelDollarsCountFp :: gotype where
  "ty_PriceLevelDollarsCountFp = TSlice TString"

lemma PriceLevelDollarsCountFp_simps [simp]: "wf_type ty_PriceLevelDollarsCountFp"
  by (simp add: ty_PriceLevelDollarsCountFp_def)

section \<open>Structs\<close>

definition ty_CreateApiKeyRequest :: gotype where
  "ty_CreateApiKeyRequest = TStruct ''CreateApiKeyRequest''
     [omitempty ''FCMSubtraderID'' ''fcm_subtrader_id'' TString,
      always ''Name'' ''name'' TString,
      always ''PublicKey'' ''public_key'' TString,
      omitempty ''Scopes'' ''scopes'' (TSlice ApiKeyScope),
      omitempty ''Subaccount'' ''subaccount'' TInt]"

lemma wf_CreateApiKeyRequest [simp]: "wf_type ty_CreateApiKeyRequest" "\<not> nilable ty_CreateApiKeyRequest" "go_name ty_CreateApiKeyRequest = ''CreateApiKeyRequest''"
  by (simp_all add: ty_CreateApiKeyRequest_def)

definition ty_CreateApiKeyResponse :: gotype where
  "ty_CreateApiKeyResponse = TStruct ''CreateApiKeyResponse''
     [always ''APIKeyID'' ''api_key_id'' TString,
      omitempty ''Warning'' ''warning'' (TPtr TString)]"

lemma wf_CreateApiKeyResponse [simp]: "wf_type ty_CreateApiKeyResponse" "\<not> nilable ty_CreateApiKeyResponse" "go_name ty_CreateApiKeyResponse = ''CreateApiKeyResponse''"
  by (simp_all add: ty_CreateApiKeyResponse_def)

definition ty_GenerateApiKeyRequest :: gotype where
  "ty_GenerateApiKeyRequest = TStruct ''GenerateApiKeyRequest''
     [omitempty ''FCMSubtraderID'' ''fcm_subtrader_id'' TString,
      always ''Name'' ''name'' TString,
      omitempty ''Scopes'' ''scopes'' (TSlice ApiKeyScope),
      omitempty ''Subaccount'' ''subaccount'' TInt]"

lemma wf_GenerateApiKeyRequest [simp]: "wf_type ty_GenerateApiKeyRequest" "\<not> nilable ty_GenerateApiKeyRequest" "go_name ty_GenerateApiKeyRequest = ''GenerateApiKeyRequest''"
  by (simp_all add: ty_GenerateApiKeyRequest_def)

definition ty_GenerateApiKeyResponse :: gotype where
  "ty_GenerateApiKeyResponse = TStruct ''GenerateApiKeyResponse''
     [always ''APIKeyID'' ''api_key_id'' TString,
      always ''PrivateKey'' ''private_key'' TString,
      omitempty ''Warning'' ''warning'' (TPtr TString)]"

lemma wf_GenerateApiKeyResponse [simp]: "wf_type ty_GenerateApiKeyResponse" "\<not> nilable ty_GenerateApiKeyResponse" "go_name ty_GenerateApiKeyResponse = ''GenerateApiKeyResponse''"
  by (simp_all add: ty_GenerateApiKeyResponse_def)

definition ty_ApiKey :: gotype where
  "ty_ApiKey = TStruct ''ApiKey''
     [always ''APIKeyID'' ''api_key_id'' TString,
      omitempty ''FCMSubtraderID'' ''fcm_subtrader_id'' (TPtr TString),
      always ''Name'' ''name'' TString,
      always ''Scopes'' ''scopes'' (TSlice ApiKeyScope),
      omitempty ''Subaccount'' ''subaccount'' (TPtr TInt)]"

lemma wf_ApiKey [simp]: "wf_type ty_ApiKey" "\<not> nilable ty_ApiKey" "go_name ty_ApiKey = ''ApiKey''"
  by (simp_all add: ty_ApiKey_def)

definition ty_GetApiKeysResponse :: gotype where
  "ty_GetApiKeysResponse = TStruct ''GetApiKeysResponse''
     [omitempty ''APIKeyRegionExpirationTS'' ''api_key_region_expiration_ts'' (TPtr TInt64),
      always ''APIKeys'' ''api_keys'' (TSlice ty_ApiKey)]"

lemma wf_GetApiKeysResponse [simp]: "wf_type ty_GetApiKeysResponse" "\<not> nilable ty_GetApiKeysResponse" "go_name ty_GetApiKeysResponse = ''GetApiKeysResponse''"
  by (simp_all add: ty_GetApiKeysResponse_def)

definition ty_ApiUsageLevelGrant :: gotype where
  "ty_ApiUsageLevelGrant = TStruct ''ApiUsageLevelGrant''
     [always ''ExchangeInstance'' ''exchange_instance'' ExchangeInstance,
      omitempty ''ExpiresTS'' ''expires_ts'' (TPtr TInt64),
      always ''Level'' ''level'' TString,
      always ''Source'' ''source'' TString]"

lemma wf_ApiUsageLevelGrant [simp]: "wf_type ty_ApiUsageLevelGrant" "\<not> nilable ty_ApiUsageLevelGrant" "go_name ty_ApiUsageLevelGrant = ''ApiUsageLevelGrant''"
  by (simp_all add: ty_ApiUsageLevelGrant_def)

definition ty_BucketLimit :: gotype where
  "ty_BucketLimit = TStruct ''BucketLimit''
     [always ''BucketCapacity'' ''bucket_capacity'' TInt,
      always ''RefillRate'' ''refill_rate'' TInt]"

lemma wf_BucketLimit [simp]: "wf_type ty_BucketLimit" "\<not> nilable ty_BucketLimit" "go_name ty_BucketLimit = ''BucketLimit''"
  by (simp_all add: ty_BucketLimit_def)

definition ty_GetAccountApiLimitsResponse :: gotype where
  "ty_GetAccountApiLimitsResponse = TStruct ''GetAccountApiLimitsResponse''
     [always ''Grants'' ''grants'' (TSlice ty_ApiUsageLevelGrant),
      always ''Read'' ''read'' ty_BucketLimit,
      always ''UsageTier'' ''usage_tier'' TString,
      always ''Write'' ''write'' ty_BucketLimit]"

lemma wf_GetAccountApiLimitsResponse [simp]: "wf_type ty_GetAccountApiLimitsResponse" "\<not> nilable ty_GetAccountApiLimitsResponse" "go_name ty_GetAccountApiLimitsResponse = ''GetAccountApiLimitsResponse''"
  by (simp_all add: ty_GetAccountApiLimitsResponse_def)

definition ty_AccountApiUsageLevelVolumeGoal :: gotype where
  "ty_AccountApiUsageLevelVolumeGoal = TStruct ''AccountApiUsageLevelVolumeGoal''
     [always ''EarnVolumeGoalFP'' ''earn_volume_goal_fp'' TString,
      always ''KeepVolumeGoalFP'' ''keep_volume_goal_fp'' TString,
      always ''Level'' ''level'' TString]"

lemma wf_AccountApiUsageLevelVolumeGoal [simp]: "wf_type ty_AccountApiUsageLevelVolumeGoal" "\<not> nilable ty_AccountApiUsageLevelVolumeGoal" "go_name ty_AccountApiUsageLevelVolumeGoal = ''AccountApiUsageLevelVolumeGoal''"
  by (simp_all add: ty_AccountApiUsageLevelVolumeGoal_def)

definition ty_AccountApiUsageLevelVolumeProgress :: gotype where
  "ty_AccountApiUsageLevelVolumeProgress = TStruct ''AccountApiUsageLevelVolumeProgress''
     [always ''ComputedTS'' ''computed_ts'' TInt64,
      always ''Goals'' ''goals'' (TSlice ty_AccountApiUsageLevelVolumeGoal),
      always ''Trailing30dVolumeFP'' ''trailing_30d_volume_fp'' TString]"

lemma wf_AccountApiUsageLevelVolumeProgress [simp]: "wf_type ty_AccountApiUsageLevelVolumeProgress" "\<not> nilable ty_AccountApiUsageLevelVolumeProgress" "go_name ty_AccountApiUsageLevelVolumeProgress = ''AccountApiUsageLevelVolumeProgress''"
  by (simp_all add: ty_AccountApiUsageLevelVolumeProgress_def)

definition ty_GetAccountApiUsageLevelVolumeProgressResponse :: gotype where
  "ty_GetAccountApiUsageLevelVolumeProgressResponse = TStruct ''GetAccountApiUsageLevelVolumeProgressResponse''
     [always ''VolumeProgress'' ''volume_progress'' (TSlice ty_AccountApiUsageLevelVolumeProgress)]"

lemma wf_GetAccountApiUsageLevelVolumeProgressResponse [simp]: "wf_type ty_GetAccountApiUsageLevelVolumeProgressResponse" "\<not> nilable ty_GetAccountApiUsageLevelVolumeProgressResponse" "go_name ty_GetAccountApiUsageLevelVolumeProgressResponse = ''GetAccountApiUsageLevelVolumeProgressResponse''"
  by (simp_all add: ty_GetAccountApiUsageLevelVolumeProgressResponse_def)

definition ty_EndpointTokenCost :: gotype where
  "ty_EndpointTokenCost = TStruct ''EndpointTokenCost''
     [always ''Cost'' ''cost'' TInt,
      always ''Method'' ''method'' TString,
      always ''Path'' ''path'' TString]"

lemma wf_EndpointTokenCost [simp]: "wf_type ty_EndpointTokenCost" "\<not> nilable ty_EndpointTokenCost" "go_name ty_EndpointTokenCost = ''EndpointTokenCost''"
  by (simp_all add: ty_EndpointTokenCost_def)

definition ty_GetAccountEndpointCostsResponse :: gotype where
  "ty_GetAccountEndpointCostsResponse = TStruct ''GetAccountEndpointCostsResponse''
     [always ''DefaultCost'' ''default_cost'' TInt,
      always ''EndpointCosts'' ''endpoint_costs'' (TSlice ty_EndpointTokenCost)]"

lemma wf_GetAccountEndpointCostsResponse [simp]: "wf_type ty_GetAccountEndpointCostsResponse" "\<not> nilable ty_GetAccountEndpointCostsResponse" "go_name ty_GetAccountEndpointCostsResponse = ''GetAccountEndpointCostsResponse''"
  by (simp_all add: ty_GetAccountEndpointCostsResponse_def)

definition ty_AcceptBlockTradeProposalRequest :: gotype where
  "ty_AcceptBlockTradeProposalRequest = TStruct ''AcceptBlockTradeProposalRequest''
     [omitempty ''Subaccount'' ''subaccount'' TInt,
      omitempty ''SubtraderID'' ''subtrader_id'' TString]"

lemma wf_AcceptBlockTradeProposalRequest [simp]: "wf_type ty_AcceptBlockTradeProposalRequest" "\<not> nilable ty_AcceptBlockTradeProposalRequest" "go_name ty_AcceptBlockTradeProposalRequest = ''AcceptBlockTradeProposalRequest''"
  by (simp_all add: ty_AcceptBlockTradeProposalRequest_def)

definition ty_AcceptQuoteRequest :: gotype where
  "ty_AcceptQuoteRequest = TStruct ''AcceptQuoteRequest''
     [always ''AcceptedSide'' ''accepted_side'' Side]"

lemma wf_AcceptQuoteRequest [simp]: "wf_type ty_AcceptQuoteRequest" "\<not> nilable ty_AcceptQuoteRequest" "go_name ty_AcceptQuoteRequest = ''AcceptQuoteRequest''"
  by (simp_all add: ty_AcceptQuoteRequest_def)

definition ty_CreateQuoteRequest :: gotype where
  "ty_CreateQuoteRequest = TStruct ''CreateQuoteRequest''
     [always ''NoBid'' ''no_bid'' TString,
      omitempty ''PostOnly'' ''post_only'' TBool,
      always ''RestRemainder'' ''rest_remainder'' TBool,
      always ''RFQID'' ''rfq_id'' TString,
      omitempty ''Subaccount'' ''subaccount'' TInt,
      always ''YesBid'' ''yes_bid'' TString]"

lemma wf_CreateQuoteRequest [simp]: "wf_type ty_CreateQuoteRequest" "\<not> nilable ty_CreateQuoteRequest" "go_name ty_CreateQuoteRequest = ''CreateQuoteRequest''"
  by (simp_all add: ty_CreateQuoteRequest_def)

definition ty_CreateQuoteResponse :: gotype where
  "ty_CreateQuoteResponse = TStruct ''CreateQuoteResponse''
     [always ''ID'' ''id'' TString]"

lemma wf_CreateQuoteResponse [simp]: "wf_type ty_CreateQuoteResponse" "\<not> nilable ty_CreateQuoteResponse" "go_name ty_CreateQuoteResponse = ''CreateQuoteResponse''"
  by (simp_all add: ty_CreateQuoteResponse_def)

definition ty_CreateRFQRequest :: gotype where
  "ty_CreateRFQRequest = TStruct ''CreateRFQRequest''
     [omitempty ''Contracts'' ''contracts'' TInt,
      omitempty ''ContractsFP'' ''contracts_fp'' (TPtr TString),
      always ''MarketTicker'' ''market_ticker'' TString,
      omitempty ''ReplaceExisting'' ''replace_existing'' TBool,
      always ''RestRemainder'' ''rest_remainder'' TBool,
      omitempty ''Subaccount'' ''subaccount'' TInt,
      omitempty ''SubtraderID'' ''subtrader_id'' TString,
      omitempty ''TargetCostCentiCents'' ''target_cost_centi_cents'' TInt64,
      omitempty ''TargetCostDollars'' ''target_cost_dollars'' TString,
      omitempty ''TargetCostExcludesFees'' ''target_cost_excludes_fees'' TBool]"

lemma wf_CreateRFQRequest [simp]: "wf_type ty_CreateRFQRequest" "\<not> nilable ty_CreateRFQRequest" "go_name ty_CreateRFQRequest = ''CreateRFQRequest''"
  by (simp_all add: ty_CreateRFQRequest_def)

definition ty_CreateRFQResponse :: gotype where
  "ty_CreateRFQResponse = TStruct ''CreateRFQResponse''
     [always ''ID'' ''id'' TString]"

lemma wf_CreateRFQResponse [simp]: "wf_type ty_CreateRFQResponse" "\<not> nilable ty_CreateRFQResponse" "go_name ty_CreateRFQResponse = ''CreateRFQResponse''"
  by (simp_all add: ty_CreateRFQResponse_def)

definition ty_EmptyResponse :: gotype where
  "ty_EmptyResponse = TStruct ''EmptyResponse''
     []"

lemma wf_EmptyResponse [simp]: "wf_type ty_EmptyResponse" "\<not> nilable ty_EmptyResponse" "go_name ty_EmptyResponse = ''EmptyResponse''"
  by (simp_all add: ty_EmptyResponse_def)

definition ty_BlockTradeProposal :: gotype where
  "ty_BlockTradeProposal = TStruct ''BlockTradeProposal''
     [always ''BuyerAccepted'' ''buyer_accepted'' TBool,
      omitempty ''BuyerAcceptedTS'' ''buyer_accepted_ts'' TString,
      omitempty ''BuyerOrderID'' ''buyer_order_id'' TString,
      omitempty ''BuyerSubtraderID'' ''buyer_subtrader_id'' TString,
      always ''BuyerUserID'' ''buyer_user_id'' TString,
      always ''Centicount'' ''centicount'' TInt64,
      always ''CreatedTS'' ''created_ts'' TString,
      omitempty ''ExecutedTS'' ''executed_ts'' TString,
      always ''ExpirationTS'' ''expiration_ts'' TString,
      always ''ID'' ''id'' TString,
      always ''MakerSide'' ''maker_side'' TString,
      always ''MarketTicker'' ''market_ticker'' TString,
      always ''PriceCentiCents'' ''price_centi_cents'' TInt64,
      always ''ProposerUserID'' ''proposer_user_id'' TString,
      always ''SellerAccepted'' ''seller_accepted'' TBool,
      omitempty ''SellerAcceptedTS'' ''seller_accepted_ts'' TString,
      omitempty ''SellerOrderID'' ''seller_order_id'' TString,
      omitempty ''SellerSubtraderID'' ''seller_subtrader_id'' TString,
      always ''SellerUserID'' ''seller_user_id'' TString,
      always ''Status'' ''status'' TString,
      always ''UpdatedTS'' ''updated_ts'' TString]"

lemma wf_BlockTradeProposal [simp]: "wf_type ty_BlockTradeProposal" "\<not> nilable ty_BlockTradeProposal" "go_name ty_BlockTradeProposal = ''BlockTradeProposal''"
  by (simp_all add: ty_BlockTradeProposal_def)

definition ty_GetBlockTradeProposalsResponse :: gotype where
  "ty_GetBlockTradeProposalsResponse = TStruct ''GetBlockTradeProposalsResponse''
     [always ''BlockTradeProposals'' ''block_trade_proposals'' (TSlice ty_BlockTradeProposal),
      omitempty ''Cursor'' ''cursor'' TString]"

lemma wf_GetBlockTradeProposalsResponse [simp]: "wf_type ty_GetBlockTradeProposalsResponse" "\<not> nilable ty_GetBlockTradeProposalsResponse" "go_name ty_GetBlockTradeProposalsResponse = ''GetBlockTradeProposalsResponse''"
  by (simp_all add: ty_GetBlockTradeProposalsResponse_def)

definition ty_GetCommunicationsIDResponse :: gotype where
  "ty_GetCommunicationsIDResponse = TStruct ''GetCommunicationsIDResponse''
     [always ''CommunicationsID'' ''communications_id'' TString]"

lemma wf_GetCommunicationsIDResponse [simp]: "wf_type ty_GetCommunicationsIDResponse" "\<not> nilable ty_GetCommunicationsIDResponse" "go_name ty_GetCommunicationsIDResponse = ''GetCommunicationsIDResponse''"
  by (simp_all add: ty_GetCommunicationsIDResponse_def)

definition ty_Quote :: gotype where
  "ty_Quote = TStruct ''Quote''
     [omitempty ''AcceptedSide'' ''accepted_side'' Side,
      omitempty ''AcceptedTS'' ''accepted_ts'' TString,
      omitempty ''CancellationReason'' ''cancellation_reason'' TString,
      omitempty ''CancelledTS'' ''cancelled_ts'' TString,
      omitempty ''ConfirmedTS'' ''confirmed_ts'' TString,
      always ''ContractsFP'' ''contracts_fp'' TString,
      always ''CreatedTS'' ''created_ts'' TString,
      always ''CreatorID'' ''creator_id'' TString,
      omitempty ''CreatorOrderID'' ''creator_order_id'' TString,
      omitempty ''CreatorSubaccount'' ''creator_subaccount'' TInt,
      omitempty ''CreatorUserID'' ''creator_user_id'' TString,
      omitempty ''ExecutedTS'' ''executed_ts'' TString,
      always ''ID'' ''id'' TString,
      always ''MarketTicker'' ''market_ticker'' TString,
      always ''NoBidDollars'' ''no_bid_dollars'' TString,
      omitempty ''NoContractsFP'' ''no_contracts_fp'' TString,
      omitempty ''PostOnly'' ''post_only'' TBool,
      omitempty ''RestRemainder'' ''rest_remainder'' TBool,
      always ''RFQCreatorID'' ''rfq_creator_id'' TString,
      omitempty ''RFQCreatorOrderID'' ''rfq_creator_order_id'' TString,
      omitempty ''RFQCreatorSubaccount'' ''rfq_creator_subaccount'' TInt,
      omitempty ''RFQCreatorUserID'' ''rfq_creator_user_id'' TString,
      always ''RFQID'' ''rfq_id'' TString,
      omitempty ''RFQTargetCostDollars'' ''rfq_target_cost_dollars'' TString,
      always ''Status'' ''status'' TString,
      omitempty ''TargetCostExcludesFees'' ''target_cost_excludes_fees'' TBool,
      always ''UpdatedTS'' ''updated_ts'' TString,
      always ''YesBidDollars'' ''yes_bid_dollars'' TString,
      omitempty ''YesContractsFP'' ''yes_contracts_fp'' TString]"

lemma wf_Quote [simp]: "wf_type ty_Quote" "\<not> nilable ty_Quote" "go_name ty_Quote = ''Quote''"
  by (simp_all add: ty_Quote_def)

definition ty_GetQuoteResponse :: gotype where
  "ty_GetQuoteResponse = TStruct ''GetQuoteResponse''
     [always ''Quote'' ''quote'' ty_Quote]"

lemma wf_GetQuoteResponse [simp]: "wf_type ty_GetQuoteResponse" "\<not> nilable ty_GetQuoteResponse" "go_name ty_GetQuoteResponse = ''GetQuoteResponse''"
  by (simp_all add: ty_GetQuoteResponse_def)

definition ty_GetQuotesResponse :: gotype where
  "ty_GetQuotesResponse = TStruct ''GetQuotesResponse''
     [omitempty ''Cursor'' ''cursor'' TString,
      always ''Quotes'' ''quotes'' (TSlice ty_Quote)]"

lemma wf_GetQuotesResponse [simp]: "wf_type ty_GetQuotesResponse" "\<not> nilable ty_GetQuotesResponse" "go_name ty_GetQuotesResponse = ''GetQuotesResponse''"
  by (simp_all add: ty_GetQuotesResponse_def)

definition ty_MveSelectedLeg :: gotype where
  "ty_MveSelectedLeg = TStruct ''MveSelectedLeg''
     [omitempty ''EventTicker'' ''event_ticker'' TString,
      omitempty ''MarketTicker'' ''market_ticker'' TString,
      omitempty ''Side'' ''side'' Side,
      omitempty ''YesSettlementValueDollars'' ''yes_settlement_value_dollars'' (TPtr TString)]"

lemma wf_MveSelectedLeg [simp]: "wf_type ty_MveSelectedLeg" "\<not> nilable ty_MveSelectedLeg" "go_name ty_MveSelectedLeg = ''MveSelectedLeg''"
  by (simp_all add: ty_MveSelectedLeg_def)

definition ty_RFQ :: gotype where
  "ty_RFQ = TStruct ''RFQ''
     [omitempty ''CancellationReason'' ''cancellation_reason'' TString,
      omitempty ''CancelledTS'' ''cancelled_ts'' TString,
      always ''ContractsFP'' ''contracts_fp'' TString,
      always ''CreatedTS'' ''created_ts'' TString,
      always ''CreatorID'' ''creator_id'' TString,
      omitempty ''CreatorSubaccount'' ''creator_subaccount'' TInt,
      omitempty ''CreatorUserID'' ''creator_user_id'' TString,
      always ''ID'' ''id'' TString,
      always ''MarketTicker'' ''market_ticker'' TString,
      omitempty ''MVECollectionTicker'' ''mve_collection_ticker'' TString,
      omitempty ''MVESelectedLegs'' ''mve_selected_legs'' (TSlice ty_MveSelectedLeg),
      omitempty ''RestRemainder'' ''rest_remainder'' TBool,
      always ''Status'' ''status'' TString,
      omitempty ''TargetCostDollars'' ''target_cost_dollars'' TString,
      omitempty ''TargetCostExcludesFees'' ''target_cost_excludes_fees'' TBool,
      omitempty ''UpdatedTS'' ''updated_ts'' TString]"

lemma wf_RFQ [simp]: "wf_type ty_RFQ" "\<not> nilable ty_RFQ" "go_name ty_RFQ = ''RFQ''"
  by (simp_all add: ty_RFQ_def)

definition ty_GetRFQResponse :: gotype where
  "ty_GetRFQResponse = TStruct ''GetRFQResponse''
     [always ''RFQ'' ''rfq'' ty_RFQ]"

lemma wf_GetRFQResponse [simp]: "wf_type ty_GetRFQResponse" "\<not> nilable ty_GetRFQResponse" "go_name ty_GetRFQResponse = ''GetRFQResponse''"
  by (simp_all add: ty_GetRFQResponse_def)

definition ty_GetRFQsResponse :: gotype where
  "ty_GetRFQsResponse = TStruct ''GetRFQsResponse''
     [omitempty ''Cursor'' ''cursor'' TString,
      always ''Rfqs'' ''rfqs'' (TSlice ty_RFQ)]"

lemma wf_GetRFQsResponse [simp]: "wf_type ty_GetRFQsResponse" "\<not> nilable ty_GetRFQsResponse" "go_name ty_GetRFQsResponse = ''GetRFQsResponse''"
  by (simp_all add: ty_GetRFQsResponse_def)

definition ty_ProposeBlockTradeRequest :: gotype where
  "ty_ProposeBlockTradeRequest = TStruct ''ProposeBlockTradeRequest''
     [omitempty ''BuyerSubaccount'' ''buyer_subaccount'' TInt,
      omitempty ''BuyerSubtraderID'' ''buyer_subtrader_id'' TString,
      always ''BuyerUserID'' ''buyer_user_id'' TString,
      always ''Centicount'' ''centicount'' TInt64,
      always ''ExpirationTS'' ''expiration_ts'' TString,
      always ''MakerSide'' ''maker_side'' TString,
      always ''MarketTicker'' ''market_ticker'' TString,
      always ''PriceCentiCents'' ''price_centi_cents'' TInt64,
      omitempty ''SellerSubaccount'' ''seller_subaccount'' TInt,
      omitempty ''SellerSubtraderID'' ''seller_subtrader_id'' TString,
      always ''SellerUserID'' ''seller_user_id'' TString]"

lemma wf_ProposeBlockTradeRequest [simp]: "wf_type ty_ProposeBlockTradeRequest" "\<not> nilable ty_ProposeBlockTradeRequest" "go_name ty_ProposeBlockTradeRequest = ''ProposeBlockTradeRequest''"
  by (simp_all add: ty_ProposeBlockTradeRequest_def)

definition ty_ProposeBlockTradeResponse :: gotype where
  "ty_ProposeBlockTradeResponse = TStruct ''ProposeBlockTradeResponse''
     [always ''BlockTradeProposalID'' ''block_trade_proposal_id'' TString]"

lemma wf_ProposeBlockTradeResponse [simp]: "wf_type ty_ProposeBlockTradeResponse" "\<not> nilable ty_ProposeBlockTradeResponse" "go_name ty_ProposeBlockTradeResponse = ''ProposeBlockTradeResponse''"
  by (simp_all add: ty_ProposeBlockTradeResponse_def)

definition ty_AmendOrderRequest :: gotype where
  "ty_AmendOrderRequest = TStruct ''AmendOrderRequest''
     [always ''Action'' ''action'' Action,
      omitempty ''ClientOrderID'' ''client_order_id'' TString,
      omitempty ''Count'' ''count'' TInt,
      omitempty ''CountFP'' ''count_fp'' (TPtr TString),
      omitempty ''ExchangeIndex'' ''exchange_index'' ty_ExchangeIndex,
      omitempty ''NoPrice'' ''no_price'' TInt,
      omitempty ''NoPriceDollars'' ''no_price_dollars'' TString,
      always ''Side'' ''side'' Side,
      omitempty ''Subaccount'' ''subaccount'' TInt,
      always ''Ticker'' ''ticker'' TString,
      omitempty ''UpdatedClientOrderID'' ''updated_client_order_id'' TString,
      omitempty ''YesPrice'' ''yes_price'' TInt,
      omitempty ''YesPriceDollars'' ''yes_price_dollars'' TString]"

lemma wf_AmendOrderRequest [simp]: "wf_type ty_AmendOrderRequest" "\<not> nilable ty_AmendOrderRequest" "go_name ty_AmendOrderRequest = ''AmendOrderRequest''"
  by (simp_all add: ty_AmendOrderRequest_def)

definition ty_Order :: gotype where
  "ty_Order = TStruct ''Order''
     [omitempty ''Action'' ''action'' Action,
      always ''BookSide'' ''book_side'' BookSide,
      omitempty ''CancelOrderOnPause'' ''cancel_order_on_pause'' TBool,
      always ''ClientOrderID'' ''client_order_id'' TString,
      omitempty ''CreatedTime'' ''created_time'' (TPtr TString),
      omitempty ''ExchangeIndex'' ''exchange_index'' ty_ExchangeIndex,
      omitempty ''ExpirationTime'' ''expiration_time'' (TPtr TString),
      always ''FillCountFP'' ''fill_count_fp'' TString,
      always ''InitialCountFP'' ''initial_count_fp'' TString,
      omitempty ''LastUpdateTime'' ''last_update_time'' (TPtr TString),
      always ''MakerFeesDollars'' ''maker_fees_dollars'' TString,
      always ''MakerFillCostDollars'' ''maker_fill_cost_dollars'' TString,
      always ''NoPriceDollars'' ''no_price_dollars'' TString,
      omitempty ''OrderGroupID'' ''order_group_id'' (TPtr TString),
      always ''OrderID'' ''order_id'' TString,
      always ''OutcomeSide'' ''outcome_side'' TString,
      always ''RemainingCountFP'' ''remaining_count_fp'' TString,
      omitempty ''SelfTradePreventionType'' ''self_trade_prevention_type'' (TPtr SelfTradePreventionType),
      omitempty ''Side'' ''side'' Side,
      always ''Status'' ''status'' OrderStatus,
      omitempty ''SubaccountNumber'' ''subaccount_number'' (TPtr TInt),
      always ''TakerFeesDollars'' ''taker_fees_dollars'' TString,
      always ''TakerFillCostDollars'' ''taker_fill_cost_dollars'' TString,
      always ''Ticker'' ''ticker'' TString,
      always ''Type'' ''type'' OrderType,
      always ''UserID'' ''user_id'' TString,
      always ''YesPriceDollars'' ''yes_price_dollars'' TString]"

lemma wf_Order [simp]: "wf_type ty_Order" "\<not> nilable ty_Order" "go_name ty_Order = ''Order''"
  by (simp_all add: ty_Order_def)

definition ty_AmendOrderResponse :: gotype where
  "ty_AmendOrderResponse = TStruct ''AmendOrderResponse''
     [always ''OldOrder'' ''old_order'' ty_Order,
      always ''Order'' ''order'' ty_Order]"

lemma wf_AmendOrderResponse [simp]: "wf_type ty_AmendOrderResponse" "\<not> nilable ty_AmendOrderResponse" "go_name ty_AmendOrderResponse = ''AmendOrderResponse''"
  by (simp_all add: ty_AmendOrderResponse_def)

definition ty_AssociatedEvent :: gotype where
  "ty_AssociatedEvent = TStruct ''AssociatedEvent''
     [always ''ActiveQuoters'' ''active_quoters'' (TSlice TString),
      always ''IsYesOnly'' ''is_yes_only'' TBool,
      omitempty ''SizeMax'' ''size_max'' (TPtr TInt),
      omitempty ''SizeMin'' ''size_min'' (TPtr TInt),
      always ''Ticker'' ''ticker'' TString]"

lemma wf_AssociatedEvent [simp]: "wf_type ty_AssociatedEvent" "\<not> nilable ty_AssociatedEvent" "go_name ty_AssociatedEvent = ''AssociatedEvent''"
  by (simp_all add: ty_AssociatedEvent_def)

definition ty_ErrorResponse :: gotype where
  "ty_ErrorResponse = TStruct ''ErrorResponse''
     [omitempty ''Code'' ''code'' TString,
      omitempty ''Details'' ''details'' TString,
      omitempty ''Message'' ''message'' TString]"

lemma wf_ErrorResponse [simp]: "wf_type ty_ErrorResponse" "\<not> nilable ty_ErrorResponse" "go_name ty_ErrorResponse = ''ErrorResponse''"
  by (simp_all add: ty_ErrorResponse_def)

definition ty_BatchCancelOrdersIndividualResponse :: gotype where
  "ty_BatchCancelOrdersIndividualResponse = TStruct ''BatchCancelOrdersIndividualResponse''
     [omitempty ''Error'' ''error'' (TPtr ty_ErrorResponse),
      omitempty ''Order'' ''order'' (TPtr ty_Order),
      always ''OrderID'' ''order_id'' TString,
      always ''ReducedByFP'' ''reduced_by_fp'' TString]"

lemma wf_BatchCancelOrdersIndividualResponse [simp]: "wf_type ty_BatchCancelOrdersIndividualResponse" "\<not> nilable ty_BatchCancelOrdersIndividualResponse" "go_name ty_BatchCancelOrdersIndividualResponse = ''BatchCancelOrdersIndividualResponse''"
  by (simp_all add: ty_BatchCancelOrdersIndividualResponse_def)

definition ty_BatchCancelOrdersRequestOrder :: gotype where
  "ty_BatchCancelOrdersRequestOrder = TStruct ''BatchCancelOrdersRequestOrder''
     [omitempty ''ExchangeIndex'' ''exchange_index'' ty_ExchangeIndex,
      omitempty ''MarketTicker'' ''market_ticker'' TString,
      always ''OrderID'' ''order_id'' TString,
      omitempty ''Subaccount'' ''subaccount'' TInt]"

lemma wf_BatchCancelOrdersRequestOrder [simp]: "wf_type ty_BatchCancelOrdersRequestOrder" "\<not> nilable ty_BatchCancelOrdersRequestOrder" "go_name ty_BatchCancelOrdersRequestOrder = ''BatchCancelOrdersRequestOrder''"
  by (simp_all add: ty_BatchCancelOrdersRequestOrder_def)

definition ty_BatchCancelOrdersRequest :: gotype where
  "ty_BatchCancelOrdersRequest = TStruct ''BatchCancelOrdersRequest''
     [omitempty ''Ids'' ''ids'' (TSlice TString),
      omitempty ''Orders'' ''orders'' (TSlice ty_BatchCancelOrdersRequestOrder)]"

lemma wf_BatchCancelOrdersRequest [simp]: "wf_type ty_BatchCancelOrdersRequest" "\<not> nilable ty_BatchCancelOrdersRequest" "go_name ty_BatchCancelOrdersRequest = ''BatchCancelOrdersRequest''"
  by (simp_all add: ty_BatchCancelOrdersRequest_def)

definition ty_BatchCancelOrdersResponse :: gotype where
  "ty_BatchCancelOrdersResponse = TStruct ''BatchCancelOrdersResponse''
     [always ''Orders'' ''orders'' (TSlice ty_BatchCancelOrdersIndividualResponse)]"

lemma wf_BatchCancelOrdersResponse [simp]: "wf_type ty_BatchCancelOrdersResponse" "\<not> nilable ty_BatchCancelOrdersResponse" "go_name ty_BatchCancelOrdersResponse = ''BatchCancelOrdersResponse''"
  by (simp_all add: ty_BatchCancelOrdersResponse_def)

definition ty_BatchCreateOrdersIndividualResponse :: gotype where
  "ty_BatchCreateOrdersIndividualResponse = TStruct ''BatchCreateOrdersIndividualResponse''
     [omitempty ''ClientOrderID'' ''client_order_id'' (TPtr TString),
      omitempty ''Error'' ''error'' (TPtr ty_ErrorResponse),
      omitempty ''Order'' ''order'' (TPtr ty_Order)]"

lemma wf_BatchCreateOrdersIndividualResponse [simp]: "wf_type ty_BatchCreateOrdersIndividualResponse" "\<not> nilable ty_BatchCreateOrdersIndividualResponse" "go_name ty_BatchCreateOrdersIndividualResponse = ''BatchCreateOrdersIndividualResponse''"
  by (simp_all add: ty_BatchCreateOrdersIndividualResponse_def)

definition ty_CreateOrderRequest :: gotype where
  "ty_CreateOrderRequest = TStruct ''CreateOrderRequest''
     [always ''Action'' ''action'' Action,
      omitempty ''BuyMaxCost'' ''buy_max_cost'' TInt,
      omitempty ''CancelOrderOnPause'' ''cancel_order_on_pause'' TBool,
      omitempty ''ClientOrderID'' ''client_order_id'' TString,
      omitempty ''Count'' ''count'' TInt,
      omitempty ''CountFP'' ''count_fp'' (TPtr TString),
      omitempty ''ExchangeIndex'' ''exchange_index'' ty_ExchangeIndex,
      omitempty ''ExpirationTS'' ''expiration_ts'' TInt64,
      omitempty ''NoPrice'' ''no_price'' TInt,
      omitempty ''NoPriceDollars'' ''no_price_dollars'' TString,
      omitempty ''OrderGroupID'' ''order_group_id'' TString,
      omitempty ''PostOnly'' ''post_only'' TBool,
      omitempty ''ReduceOnly'' ''reduce_only'' TBool,
      omitempty ''SelfTradePreventionType'' ''self_trade_prevention_type'' SelfTradePreventionType,
      omitempty ''SellPositionFloor'' ''sell_position_floor'' TInt,
      always ''Side'' ''side'' Side,
      omitempty ''Subaccount'' ''subaccount'' TInt,
      always ''Ticker'' ''ticker'' TString,
      omitempty ''TimeInForce'' ''time_in_force'' TString,
      omitempty ''YesPrice'' ''yes_price'' TInt,
      omitempty ''YesPriceDollars'' ''yes_price_dollars'' TString]"

lemma wf_CreateOrderRequest [simp]: "wf_type ty_CreateOrderRequest" "\<not> nilable ty_CreateOrderRequest" "go_name ty_CreateOrderRequest = ''CreateOrderRequest''"
  by (simp_all add: ty_CreateOrderRequest_def)

definition ty_BatchCreateOrdersRequest :: gotype where
  "ty_BatchCreateOrdersRequest = TStruct ''BatchCreateOrdersRequest''
     [always ''Orders'' ''orders'' (TSlice ty_CreateOrderRequest)]"

lemma wf_BatchCreateOrdersRequest [simp]: "wf_type ty_BatchCreateOrdersRequest" "\<not> nilable ty_BatchCreateOrdersRequest" "go_name ty_BatchCreateOrdersRequest = ''BatchCreateOrdersRequest''"
  by (simp_all add: ty_BatchCreateOrdersRequest_def)

definition ty_BatchCreateOrdersResponse :: gotype where
  "ty_BatchCreateOrdersResponse = TStruct ''BatchCreateOrdersResponse''
     [always ''Orders'' ''orders'' (TSlice ty_BatchCreateOrdersIndividualResponse)]"

lemma wf_BatchCreateOrdersResponse [simp]: "wf_type ty_BatchCreateOrdersResponse" "\<not> nilable ty_BatchCreateOrdersResponse" "go_name ty_BatchCreateOrdersResponse = ''BatchCreateOrdersResponse''"
  by (simp_all add: ty_BatchCreateOrdersResponse_def)

definition ty_BidAskDistribution :: gotype where
  "ty_BidAskDistribution = TStruct ''BidAskDistribution''
     [always ''CloseDollars'' ''close_dollars'' TString,
      always ''HighDollars'' ''high_dollars'' TString,
      always ''LowDollars'' ''low_dollars'' TString,
      always ''OpenDollars'' ''open_dollars'' TString]"

lemma wf_BidAskDistribution [simp]: "wf_type ty_BidAskDistribution" "\<not> nilable ty_BidAskDistribution" "go_name ty_BidAskDistribution = ''BidAskDistribution''"
  by (simp_all add: ty_BidAskDistribution_def)

definition ty_PriceDistribution :: gotype where
  "ty_PriceDistribution = TStruct ''PriceDistribution''
     [omitempty ''CloseDollars'' ''close_dollars'' (TPtr TString),
      omitempty ''HighDollars'' ''high_dollars'' (TPtr TString),
      omitempty ''LowDollars'' ''low_dollars'' (TPtr TString),
      omitempty ''MaxDollars'' ''max_dollars'' (TPtr TString),
      omitempty ''MeanDollars'' ''mean_dollars'' (TPtr TString),
      omitempty ''MinDollars'' ''min_dollars'' (TPtr TString),
      omitempty ''OpenDollars'' ''open_dollars'' (TPtr TString),
      omitempty ''PreviousDollars'' ''previous_dollars'' (TPtr TString)]"

lemma wf_PriceDistribution [simp]: "wf_type ty_PriceDistribution" "\<not> nilable ty_PriceDistribution" "go_name ty_PriceDistribution = ''PriceDistribution''"
  by (simp_all add: ty_PriceDistribution_def)

definition ty_MarketCandlestick :: gotype where
  "ty_MarketCandlestick = TStruct ''MarketCandlestick''
     [always ''EndPeriodTS'' ''end_period_ts'' TInt64,
      always ''OpenInterestFP'' ''open_interest_fp'' TString,
      always ''Price'' ''price'' ty_PriceDistribution,
      always ''VolumeFP'' ''volume_fp'' TString,
      always ''YesAsk'' ''yes_ask'' ty_BidAskDistribution,
      always ''YesBid'' ''yes_bid'' ty_BidAskDistribution]"

lemma wf_MarketCandlestick [simp]: "wf_type ty_MarketCandlestick" "\<not> nilable ty_MarketCandlestick" "go_name ty_MarketCandlestick = ''MarketCandlestick''"
  by (simp_all add: ty_MarketCandlestick_def)

definition ty_MarketCandlesticksResponse :: gotype where
  "ty_MarketCandlesticksResponse = TStruct ''MarketCandlesticksResponse''
     [always ''Candlesticks'' ''candlesticks'' (TSlice ty_MarketCandlestick),
      always ''MarketTicker'' ''market_ticker'' TString]"

lemma wf_MarketCandlesticksResponse [simp]: "wf_type ty_MarketCandlesticksResponse" "\<not> nilable ty_MarketCandlesticksResponse" "go_name ty_MarketCandlesticksResponse = ''MarketCandlesticksResponse''"
  by (simp_all add: ty_MarketCandlesticksResponse_def)

definition ty_BidAskDistributionHistorical :: gotype where
  "ty_BidAskDistributionHistorical = TStruct ''BidAskDistributionHistorical''
     [always ''Close'' ''close'' TString,
      always ''High'' ''high'' TString,
      always ''Low'' ''low'' TString,
      always ''Open'' ''open'' TString]"

lemma wf_BidAskDistributionHistorical [simp]: "wf_type ty_BidAskDistributionHistorical" "\<not> nilable ty_BidAskDistributionHistorical" "go_name ty_BidAskDistributionHistorical = ''BidAskDistributionHistorical''"
  by (simp_all add: ty_BidAskDistributionHistorical_def)

definition ty_TickerPair :: gotype where
  "ty_TickerPair = TStruct ''TickerPair''
     [always ''EventTicker'' ''event_ticker'' TString,
      always ''MarketTicker'' ''market_ticker'' TString,
      always ''Side'' ''side'' TString]"

lemma wf_TickerPair [simp]: "wf_type ty_TickerPair" "\<not> nilable ty_TickerPair" "go_name ty_TickerPair = ''TickerPair''"
  by (simp_all add: ty_TickerPair_def)

definition ty_PriceRange :: gotype where
  "ty_PriceRange = TStruct ''PriceRange''
     [always ''End'' ''end'' TString,
      always ''Start'' ''start'' TString,
      always ''Step'' ''step'' TString]"

lemma wf_PriceRange [simp]: "wf_type ty_PriceRange" "\<not> nilable ty_PriceRange" "go_name ty_PriceRange = ''PriceRange''"
  by (simp_all add: ty_PriceRange_def)

definition ty_Market :: gotype where
  "ty_Market = TStruct ''Market''
     [always ''CanCloseEarly'' ''can_close_early'' TBool,
      omitempty ''CapStrike'' ''cap_strike'' (TPtr TFloat64),
      always ''CloseTime'' ''close_time'' TString,
      always ''CreatedTime'' ''created_time'' TString,
      omitempty ''CustomStrike'' ''custom_strike'' (TMap TAny),
      omitempty ''EarlyCloseCondition'' ''early_close_condition'' (TPtr TString),
      always ''EventTicker'' ''event_ticker'' TString,
      omitempty ''ExchangeIndex'' ''exchange_index'' ty_ExchangeIndex,
      omitempty ''ExpectedExpirationTime'' ''expected_expiration_time'' (TPtr TString),
      omitempty ''ExpirationTime'' ''expiration_time'' TString,
      always ''ExpirationValue'' ''expiration_value'' TString,
      omitempty ''FeeWaiverExpirationTime'' ''fee_waiver_expiration_time'' (TPtr TString),
      omitempty ''FloorStrike'' ''floor_strike'' (TPtr TFloat64),
      omitempty ''FunctionalStrike'' ''functional_strike'' (TPtr TString),
      omitempty ''IsProvisional'' ''is_provisional'' TBool,
      always ''LastPriceDollars'' ''last_price_dollars'' TString,
      always ''LatestExpirationTime'' ''latest_expiration_time'' TString,
      omitempty ''LiquidityDollars'' ''liquidity_dollars'' TString,
      always ''MarketType'' ''market_type'' MarketType,
      omitempty ''MVECollectionTicker'' ''mve_collection_ticker'' TString,
      omitempty ''MVESelectedLegs'' ''mve_selected_legs'' (TSlice ty_MveSelectedLeg),
      always ''NoAskDollars'' ''no_ask_dollars'' TString,
      always ''NoBidDollars'' ''no_bid_dollars'' TString,
      always ''NoSubTitle'' ''no_sub_title'' TString,
      always ''NotionalValueDollars'' ''notional_value_dollars'' TString,
      omitempty ''OccurrenceDatetime'' ''occurrence_datetime'' (TPtr TString),
      always ''OpenInterestFP'' ''open_interest_fp'' TString,
      always ''OpenTime'' ''open_time'' TString,
      always ''PreviousPriceDollars'' ''previous_price_dollars'' TString,
      always ''PreviousYesAskDollars'' ''previous_yes_ask_dollars'' TString,
      always ''PreviousYesBidDollars'' ''previous_yes_bid_dollars'' TString,
      always ''PriceLevelStructure'' ''price_level_structure'' TString,
      always ''PriceRanges'' ''price_ranges'' (TSlice ty_PriceRange),
      omitempty ''PrimaryParticipantKey'' ''primary_participant_key'' (TPtr TString),
      always ''Result'' ''result'' MarketResult,
      always ''RulesPrimary'' ''rules_primary'' TString,
      always ''RulesSecondary'' ''rules_secondary'' TString,
      always ''SettlementTimerSeconds'' ''settlement_timer_seconds'' TInt,
      omitempty ''SettlementTS'' ''settlement_ts'' (TPtr TString),
      omitempty ''SettlementValueDollars'' ''settlement_value_dollars'' (TPtr TString),
      always ''Status'' ''status'' MarketStatus,
      omitempty ''StrikeType'' ''strike_type'' TString,
      omitempty ''Subtitle'' ''subtitle'' TString,
      always ''Ticker'' ''ticker'' TString,
      omitempty ''Title'' ''title'' TString,
      always ''UpdatedTime'' ''updated_time'' TString,
      always ''Volume24hFP'' ''volume_24h_fp'' TString,
      always ''VolumeFP'' ''volume_fp'' TString,
      always ''YesAskDollars'' ''yes_ask_dollars'' TString,
      always ''YesAskSizeFP'' ''yes_ask_size_fp'' TString,
      always ''YesBidDollars'' ''yes_bid_dollars'' TString,
      always ''YesBidSizeFP'' ''yes_bid_size_fp'' TString,
      always ''YesSubTitle'' ''yes_sub_title'' TString]"

lemma wf_Market [simp]: "wf_type ty_Market" "\<not> nilable ty_Market" "go_name ty_Market = ''Market''"
  by (simp_all add: ty_Market_def)

definition ty_CreateOrderResponse :: gotype where
  "ty_CreateOrderResponse = TStruct ''CreateOrderResponse''
     [always ''Order'' ''order'' ty_Order]"

lemma wf_CreateOrderResponse [simp]: "wf_type ty_CreateOrderResponse" "\<not> nilable ty_CreateOrderResponse" "go_name ty_CreateOrderResponse = ''CreateOrderResponse''"
  by (simp_all add: ty_CreateOrderResponse_def)

definition ty_DailySchedule :: gotype where
  "ty_DailySchedule = TStruct ''DailySchedule''
     [always ''CloseTime'' ''close_time'' TString,
      always ''OpenTime'' ''open_time'' TString]"

lemma wf_DailySchedule [simp]: "wf_type ty_DailySchedule" "\<not> nilable ty_DailySchedule" "go_name ty_DailySchedule = ''DailySchedule''"
  by (simp_all add: ty_DailySchedule_def)

definition ty_Deposit :: gotype where
  "ty_Deposit = TStruct ''Deposit''
     [always ''AmountCents'' ''amount_cents'' TInt64,
      always ''CreatedTS'' ''created_ts'' TInt64,
      always ''FeeCents'' ''fee_cents'' TInt64,
      omitempty ''FinalizedTS'' ''finalized_ts'' (TPtr TInt64),
      always ''ID'' ''id'' TString,
      always ''Status'' ''status'' TString,
      always ''Type'' ''type'' TString]"

lemma wf_Deposit [simp]: "wf_type ty_Deposit" "\<not> nilable ty_Deposit" "go_name ty_Deposit = ''Deposit''"
  by (simp_all add: ty_Deposit_def)

definition ty_SettlementSource :: gotype where
  "ty_SettlementSource = TStruct ''SettlementSource''
     [omitempty ''Name'' ''name'' TString,
      omitempty ''URL'' ''url'' TString]"

lemma wf_SettlementSource [simp]: "wf_type ty_SettlementSource" "\<not> nilable ty_SettlementSource" "go_name ty_SettlementSource = ''SettlementSource''"
  by (simp_all add: ty_SettlementSource_def)

definition ty_EventData :: gotype where
  "ty_EventData = TStruct ''EventData''
     [omitempty ''Category'' ''category'' TString,
      always ''CollateralReturnType'' ''collateral_return_type'' CollateralReturnType,
      always ''EventTicker'' ''event_ticker'' TString,
      omitempty ''ExchangeIndex'' ''exchange_index'' ty_ExchangeIndex,
      omitempty ''FeeMultiplierOverride'' ''fee_multiplier_override'' (TPtr TFloat64),
      omitempty ''FeeTypeOverride'' ''fee_type_override'' (TPtr TString),
      omitempty ''LastUpdatedTS'' ''last_updated_ts'' TString,
      omitempty ''Markets'' ''markets'' (TSlice ty_Market),
      always ''MutuallyExclusive'' ''mutually_exclusive'' TBool,
      omitempty ''ProductMetadata'' ''product_metadata'' (TMap TAny),
      always ''SeriesTicker'' ''series_ticker'' TString,
      always ''SettlementSources'' ''settlement_sources'' (TSlice ty_SettlementSource),
      omitempty ''StrikeDate'' ''strike_date'' (TPtr TString),
      omitempty ''StrikePeriod'' ''strike_period'' (TPtr TString),
      always ''SubTitle'' ''sub_title'' TString,
      always ''Title'' ''title'' TString]"

lemma wf_EventData [simp]: "wf_type ty_EventData" "\<not> nilable ty_EventData" "go_name ty_EventData = ''EventData''"
  by (simp_all add: ty_EventData_def)

definition ty_EventFeeChange :: gotype where
  "ty_EventFeeChange = TStruct ''EventFeeChange''
     [always ''EventTicker'' ''event_ticker'' TString,
      always ''FeeMultiplierOverride'' ''fee_multiplier_override'' (TPtr TFloat64),
      always ''FeeTypeOverride'' ''fee_type_override'' (TPtr FeeType),
      always ''ID'' ''id'' TString,
      always ''ScheduledTS'' ''scheduled_ts'' TString,
      always ''SeriesTicker'' ''series_ticker'' TString]"

lemma wf_EventFeeChange [simp]: "wf_type ty_EventFeeChange" "\<not> nilable ty_EventFeeChange" "go_name ty_EventFeeChange = ''EventFeeChange''"
  by (simp_all add: ty_EventFeeChange_def)

definition ty_EventLiveData :: gotype where
  "ty_EventLiveData = TStruct ''EventLiveData''
     [omitempty ''DefaultRange'' ''default_range'' TString,
      always ''Details'' ''details'' (TMap TAny),
      omitempty ''IsHistorical'' ''is_historical'' TBool,
      omitempty ''RangeOptions'' ''range_options'' (TSlice TString),
      always ''Type'' ''type'' TString]"

lemma wf_EventLiveData [simp]: "wf_type ty_EventLiveData" "\<not> nilable ty_EventLiveData" "go_name ty_EventLiveData = ''EventLiveData''"
  by (simp_all add: ty_EventLiveData_def)

definition ty_EventPosition :: gotype where
  "ty_EventPosition = TStruct ''EventPosition''
     [always ''EventExposureDollars'' ''event_exposure_dollars'' TString,
      always ''EventTicker'' ''event_ticker'' TString,
      always ''FeesPaidDollars'' ''fees_paid_dollars'' TString,
      always ''RealizedPnlDollars'' ''realized_pnl_dollars'' TString,
      always ''TotalCostDollars'' ''total_cost_dollars'' TString,
      always ''TotalCostSharesFP'' ''total_cost_shares_fp'' TString]"

lemma wf_EventPosition [simp]: "wf_type ty_EventPosition" "\<not> nilable ty_EventPosition" "go_name ty_EventPosition = ''EventPosition''"
  by (simp_all add: ty_EventPosition_def)

definition ty_ExchangeIndexStatus :: gotype where
  "ty_ExchangeIndexStatus = TStruct ''ExchangeIndexStatus''
     [always ''Description'' ''description'' TString,
      always ''ExchangeActive'' ''exchange_active'' TBool,
      always ''ExchangeIndex'' ''exchange_index'' ty_ExchangeIndex,
      always ''IntraExchangeTransfersActive'' ''intra_exchange_transfers_active'' TBool,
      always ''TradingActive'' ''trading_active'' TBool]"

lemma wf_ExchangeIndexStatus [simp]: "wf_type ty_ExchangeIndexStatus" "\<not> nilable ty_ExchangeIndexStatus" "go_name ty_ExchangeIndexStatus = ''ExchangeIndexStatus''"
  by (simp_all add: ty_ExchangeIndexStatus_def)

definition ty_Fill :: gotype where
  "ty_Fill = TStruct ''Fill''
     [omitempty ''Action'' ''action'' Action,
      always ''BookSide'' ''book_side'' BookSide,
      always ''CountFP'' ''count_fp'' TString,
      omitempty ''CreatedTime'' ''created_time'' TString,
      always ''ExchangeIndex'' ''exchange_index'' ty_ExchangeIndex,
      always ''FeeCost'' ''fee_cost'' TString,
      always ''FillID'' ''fill_id'' TString,
      always ''IsTaker'' ''is_taker'' TBool,
      always ''MarketTicker'' ''market_ticker'' TString,
      always ''NoPriceDollars'' ''no_price_dollars'' TString,
      always ''OrderID'' ''order_id'' TString,
      always ''OutcomeSide'' ''outcome_side'' TString,
      omitempty ''Side'' ''side'' Side,
      omitempty ''SubaccountNumber'' ''subaccount_number'' (TPtr TInt),
      always ''Ticker'' ''ticker'' TString,
      always ''TradeID'' ''trade_id'' TString,
      omitempty ''TS'' ''ts'' TInt64,
      always ''YesPriceDollars'' ''yes_price_dollars'' TString]"

lemma wf_Fill [simp]: "wf_type ty_Fill" "\<not> nilable ty_Fill" "go_name ty_Fill = ''Fill''"
  by (simp_all add: ty_Fill_def)

definition ty_PercentilePoint :: gotype where
  "ty_PercentilePoint = TStruct ''PercentilePoint''
     [always ''FormattedForecast'' ''formatted_forecast'' TString,
      always ''NumericalForecast'' ''numerical_forecast'' TFloat64,
      always ''Percentile'' ''percentile'' TInt,
      always ''RawNumericalForecast'' ''raw_numerical_forecast'' TFloat64]"

lemma wf_PercentilePoint [simp]: "wf_type ty_PercentilePoint" "\<not> nilable ty_PercentilePoint" "go_name ty_PercentilePoint = ''PercentilePoint''"
  by (simp_all add: ty_PercentilePoint_def)

definition ty_ForecastPercentilesPoint :: gotype where
  "ty_ForecastPercentilesPoint = TStruct ''ForecastPercentilesPoint''
     [always ''EndPeriodTS'' ''end_period_ts'' TInt64,
      always ''EventTicker'' ''event_ticker'' TString,
      always ''PercentilePoints'' ''percentile_points'' (TSlice ty_PercentilePoint),
      always ''PeriodInterval'' ''period_interval'' TInt]"

lemma wf_ForecastPercentilesPoint [simp]: "wf_type ty_ForecastPercentilesPoint" "\<not> nilable ty_ForecastPercentilesPoint" "go_name ty_ForecastPercentilesPoint = ''ForecastPercentilesPoint''"
  by (simp_all add: ty_ForecastPercentilesPoint_def)

definition ty_IndexedBalance :: gotype where
  "ty_IndexedBalance = TStruct ''IndexedBalance''
     [always ''Balance'' ''balance'' TString,
      always ''ExchangeIndex'' ''exchange_index'' ty_ExchangeIndex]"

lemma wf_IndexedBalance [simp]: "wf_type ty_IndexedBalance" "\<not> nilable ty_IndexedBalance" "go_name ty_IndexedBalance = ''IndexedBalance''"
  by (simp_all add: ty_IndexedBalance_def)

definition ty_MarketMetadata :: gotype where
  "ty_MarketMetadata = TStruct ''MarketMetadata''
     [always ''ColorCode'' ''color_code'' TString,
      always ''ImageURL'' ''image_url'' TString,
      always ''MarketTicker'' ''market_ticker'' TString]"

lemma wf_MarketMetadata [simp]: "wf_type ty_MarketMetadata" "\<not> nilable ty_MarketMetadata" "go_name ty_MarketMetadata = ''MarketMetadata''"
  by (simp_all add: ty_MarketMetadata_def)

definition ty_Milestone :: gotype where
  "ty_Milestone = TStruct ''Milestone''
     [always ''Category'' ''category'' TString,
      always ''Details'' ''details'' (TMap TAny),
      omitempty ''EndDate'' ''end_date'' (TPtr TString),
      always ''ID'' ''id'' TString,
      always ''LastUpdatedTS'' ''last_updated_ts'' TString,
      always ''NotificationMessage'' ''notification_message'' TString,
      always ''PrimaryEventTickers'' ''primary_event_tickers'' (TSlice TString),
      always ''RelatedEventTickers'' ''related_event_tickers'' (TSlice TString),
      omitempty ''SourceID'' ''source_id'' (TPtr TString),
      omitempty ''SourceIds'' ''source_ids'' (TMap TAny),
      always ''StartDate'' ''start_date'' TString,
      always ''Title'' ''title'' TString,
      always ''Type'' ''type'' TString]"

lemma wf_Milestone [simp]: "wf_type ty_Milestone" "\<not> nilable ty_Milestone" "go_name ty_Milestone = ''Milestone''"
  by (simp_all add: ty_Milestone_def)

definition ty_MaintenanceWindow :: gotype where
  "ty_MaintenanceWindow = TStruct ''MaintenanceWindow''
     [always ''EndDatetime'' ''end_datetime'' TString,
      always ''StartDatetime'' ''start_datetime'' TString]"

lemma wf_MaintenanceWindow [simp]: "wf_type ty_MaintenanceWindow" "\<not> nilable ty_MaintenanceWindow" "go_name ty_MaintenanceWindow = ''MaintenanceWindow''"
  by (simp_all add: ty_MaintenanceWindow_def)

definition ty_WeeklySchedule :: gotype where
  "ty_WeeklySchedule = TStruct ''WeeklySchedule''
     [always ''EndTime'' ''end_time'' TString,
      always ''Friday'' ''friday'' (TSlice ty_DailySchedule),
      always ''Monday'' ''monday'' (TSlice ty_DailySchedule),
      always ''Saturday'' ''saturday'' (TSlice ty_DailySchedule),
      always ''StartTime'' ''start_time'' TString,
      always ''Sunday'' ''sunday'' (TSlice ty_DailySchedule),
      always ''Thursday'' ''thursday'' (TSlice ty_DailySchedule),
      always ''Tuesday'' ''tuesday'' (TSlice ty_DailySchedule),
      always ''Wednesday'' ''wednesday'' (TSlice ty_DailySchedule)]"

lemma wf_WeeklySchedule [simp]: "wf_type ty_WeeklySchedule" "\<not> nilable ty_WeeklySchedule" "go_name ty_WeeklySchedule = ''WeeklySchedule''"
  by (simp_all add: ty_WeeklySchedule_def)

definition ty_Schedule :: gotype where
  "ty_Schedule = TStruct ''Schedule''
     [always ''MaintenanceWindows'' ''maintenance_windows'' (TSlice ty_MaintenanceWindow),
      always ''StandardHours'' ''standard_hours'' (TSlice ty_WeeklySchedule)]"

lemma wf_Schedule [simp]: "wf_type ty_Schedule" "\<not> nilable ty_Schedule" "go_name ty_Schedule = ''Schedule''"
  by (simp_all add: ty_Schedule_def)

definition ty_PlayByPlay :: gotype where
  "ty_PlayByPlay = TStruct ''PlayByPlay''
     [omitempty ''Periods'' ''periods'' (TSlice (TMap TAny))]"

lemma wf_PlayByPlay [simp]: "wf_type ty_PlayByPlay" "\<not> nilable ty_PlayByPlay" "go_name ty_PlayByPlay = ''PlayByPlay''"
  by (simp_all add: ty_PlayByPlay_def)

definition ty_IncentiveProgram :: gotype where
  "ty_IncentiveProgram = TStruct ''IncentiveProgram''
     [omitempty ''DiscountFactorBps'' ''discount_factor_bps'' (TPtr TInt),
      always ''EndDate'' ''end_date'' TString,
      always ''ID'' ''id'' TString,
      always ''IncentiveDescription'' ''incentive_description'' TString,
      always ''IncentiveType'' ''incentive_type'' TString,
      always ''MarketID'' ''market_id'' TString,
      always ''MarketTicker'' ''market_ticker'' TString,
      omitempty ''MaxRewardPerAccount'' ''max_reward_per_account'' (TPtr TInt64),
      always ''PaidOut'' ''paid_out'' TBool,
      always ''PeriodReward'' ''period_reward'' TInt64,
      always ''StartDate'' ''start_date'' TString,
      omitempty ''TargetSizeFP'' ''target_size_fp'' (TPtr TString)]"

lemma wf_IncentiveProgram [simp]: "wf_type ty_IncentiveProgram" "\<not> nilable ty_IncentiveProgram" "go_name ty_IncentiveProgram = ''IncentiveProgram''"
  by (simp_all add: ty_IncentiveProgram_def)

definition ty_IntraExchangeInstanceTransfer :: gotype where
  "ty_IntraExchangeInstanceTransfer = TStruct ''IntraExchangeInstanceTransfer''
     [always ''Amount'' ''amount'' TString,
      always ''CreatedTS'' ''created_ts'' TInt64,
      always ''Destination'' ''destination'' ExchangeInstance,
      always ''DestinationExchangeShard'' ''destination_exchange_shard'' TInt,
      always ''Source'' ''source'' ExchangeInstance,
      always ''SourceExchangeShard'' ''source_exchange_shard'' TInt,
      always ''Status'' ''status'' IntraExchangeInstanceTransferStatus,
      always ''TransferID'' ''transfer_id'' TString]"

lemma wf_IntraExchangeInstanceTransfer [simp]: "wf_type ty_IntraExchangeInstanceTransfer" "\<not> nilable ty_IntraExchangeInstanceTransfer" "go_name ty_IntraExchangeInstanceTransfer = ''IntraExchangeInstanceTransfer''"
  by (simp_all add: ty_IntraExchangeInstanceTransfer_def)

definition ty_LiveData :: gotype where
  "ty_LiveData = TStruct ''LiveData''
     [always ''Details'' ''details'' (TMap TAny),
      always ''MilestoneID'' ''milestone_id'' TString,
      always ''Type'' ''type'' TString]"

lemma wf_LiveData [simp]: "wf_type ty_LiveData" "\<not> nilable ty_LiveData" "go_name ty_LiveData = ''LiveData''"
  by (simp_all add: ty_LiveData_def)

definition ty_PriceDistributionHistorical :: gotype where
  "ty_PriceDistributionHistorical = TStruct ''PriceDistributionHistorical''
     [always ''Close'' ''close'' (TPtr TString),
      always ''High'' ''high'' (TPtr TString),
      always ''Low'' ''low'' (TPtr TString),
      always ''Mean'' ''mean'' (TPtr TString),
      always ''Open'' ''open'' (TPtr TString),
      always ''Previous'' ''previous'' (TPtr TString)]"

lemma wf_PriceDistributionHistorical [simp]: "wf_type ty_PriceDistributionHistorical" "\<not> nilable ty_PriceDistributionHistorical" "go_name ty_PriceDistributionHistorical = ''PriceDistributionHistorical''"
  by (simp_all add: ty_PriceDistributionHistorical_def)

definition ty_MarketCandlestickHistorical :: gotype where
  "ty_MarketCandlestickHistorical = TStruct ''MarketCandlestickHistorical''
     [always ''EndPeriodTS'' ''end_period_ts'' TInt64,
      always ''OpenInterest'' ''open_interest'' TString,
      always ''Price'' ''price'' ty_PriceDistributionHistorical,
      always ''Volume'' ''volume'' TString,
      always ''YesAsk'' ''yes_ask'' ty_BidAskDistributionHistorical,
      always ''YesBid'' ''yes_bid'' ty_BidAskDistributionHistorical]"

lemma wf_MarketCandlestickHistorical [simp]: "wf_type ty_MarketCandlestickHistorical" "\<not> nilable ty_MarketCandlestickHistorical" "go_name ty_MarketCandlestickHistorical = ''MarketCandlestickHistorical''"
  by (simp_all add: ty_MarketCandlestickHistorical_def)

definition ty_OrderbookCountFp :: gotype where
  "ty_OrderbookCountFp = TStruct ''OrderbookCountFp''
     [always ''NoDollars'' ''no_dollars'' (TSlice ty_PriceLevelDollarsCountFp),
      always ''YesDollars'' ''yes_dollars'' (TSlice ty_PriceLevelDollarsCountFp)]"

lemma wf_OrderbookCountFp [simp]: "wf_type ty_OrderbookCountFp" "\<not> nilable ty_OrderbookCountFp" "go_name ty_OrderbookCountFp = ''OrderbookCountFp''"
  by (simp_all add: ty_OrderbookCountFp_def)

definition ty_MarketOrderbookFp :: gotype where
  "ty_MarketOrderbookFp = TStruct ''MarketOrderbookFp''
     [always ''OrderbookFP'' ''orderbook_fp'' ty_OrderbookCountFp,
      always ''Ticker'' ''ticker'' TString]"

lemma wf_MarketOrderbookFp [simp]: "wf_type ty_MarketOrderbookFp" "\<not> nilable ty_MarketOrderbookFp" "go_name ty_MarketOrderbookFp = ''MarketOrderbookFp''"
  by (simp_all add: ty_MarketOrderbookFp_def)

definition ty_MultivariateEventCollection :: gotype where
  "ty_MultivariateEventCollection = TStruct ''MultivariateEventCollection''
     [always ''AssociatedEventTickers'' ''associated_event_tickers'' (TSlice TString),
      always ''AssociatedEvents'' ''associated_events'' (TSlice ty_AssociatedEvent),
      always ''CloseDate'' ''close_date'' TString,
      always ''CollectionTicker'' ''collection_ticker'' TString,
      always ''Description'' ''description'' TString,
      omitempty ''ExchangeIndex'' ''exchange_index'' ty_ExchangeIndex,
      always ''FunctionalDescription'' ''functional_description'' TString,
      always ''IsAllYes'' ''is_all_yes'' TBool,
      always ''IsOrdered'' ''is_ordered'' TBool,
      always ''IsSingleMarketPerEvent'' ''is_single_market_per_event'' TBool,
      always ''OpenDate'' ''open_date'' TString,
      always ''SeriesTicker'' ''series_ticker'' TString,
      always ''SizeMax'' ''size_max'' TInt,
      always ''SizeMin'' ''size_min'' TInt,
      always ''Title'' ''title'' TString]"

lemma wf_MultivariateEventCollection [simp]: "wf_type ty_MultivariateEventCollection" "\<not> nilable ty_MultivariateEventCollection" "go_name ty_MultivariateEventCollection = ''MultivariateEventCollection''"
  by (simp_all add: ty_MultivariateEventCollection_def)

definition ty_OrderGroup :: gotype where
  "ty_OrderGroup = TStruct ''OrderGroup''
     [omitempty ''ContractsLimitFP'' ''contracts_limit_fp'' TString,
      omitempty ''ExchangeIndex'' ''exchange_index'' ty_ExchangeIndex,
      always ''ID'' ''id'' TString,
      always ''IsAutoCancelEnabled'' ''is_auto_cancel_enabled'' TBool]"

lemma wf_OrderGroup [simp]: "wf_type ty_OrderGroup" "\<not> nilable ty_OrderGroup" "go_name ty_OrderGroup = ''OrderGroup''"
  by (simp_all add: ty_OrderGroup_def)

definition ty_OrderQueuePosition :: gotype where
  "ty_OrderQueuePosition = TStruct ''OrderQueuePosition''
     [always ''MarketTicker'' ''market_ticker'' TString,
      always ''OrderID'' ''order_id'' TString,
      always ''QueuePositionFP'' ''queue_position_fp'' TString]"

lemma wf_OrderQueuePosition [simp]: "wf_type ty_OrderQueuePosition" "\<not> nilable ty_OrderQueuePosition" "go_name ty_OrderQueuePosition = ''OrderQueuePosition''"
  by (simp_all add: ty_OrderQueuePosition_def)

definition ty_MarketPosition :: gotype where
  "ty_MarketPosition = TStruct ''MarketPosition''
     [always ''ExchangeIndex'' ''exchange_index'' ty_ExchangeIndex,
      always ''FeesPaidDollars'' ''fees_paid_dollars'' TString,
      always ''LastUpdatedTS'' ''last_updated_ts'' TString,
      always ''MarketExposureDollars'' ''market_exposure_dollars'' TString,
      always ''PositionFP'' ''position_fp'' TString,
      always ''RealizedPnlDollars'' ''realized_pnl_dollars'' TString,
      always ''Ticker'' ''ticker'' TString,
      always ''TotalTradedDollars'' ''total_traded_dollars'' TString]"

lemma wf_MarketPosition [simp]: "wf_type ty_MarketPosition" "\<not> nilable ty_MarketPosition" "go_name ty_MarketPosition = ''MarketPosition''"
  by (simp_all add: ty_MarketPosition_def)

definition ty_SeriesFeeChange :: gotype where
  "ty_SeriesFeeChange = TStruct ''SeriesFeeChange''
     [always ''FeeMultiplier'' ''fee_multiplier'' TFloat64,
      always ''FeeType'' ''fee_type'' FeeType,
      always ''ID'' ''id'' TString,
      always ''ScheduledTS'' ''scheduled_ts'' TString,
      always ''SeriesTicker'' ''series_ticker'' TString]"

lemma wf_SeriesFeeChange [simp]: "wf_type ty_SeriesFeeChange" "\<not> nilable ty_SeriesFeeChange" "go_name ty_SeriesFeeChange = ''SeriesFeeChange''"
  by (simp_all add: ty_SeriesFeeChange_def)

definition ty_Series :: gotype where
  "ty_Series = TStruct ''Series''
     [always ''AdditionalProhibitions'' ''additional_prohibitions'' (TSlice TString),
      always ''Categories'' ''categories'' (TSlice TString),
      always ''Category'' ''category'' TString,
      always ''ContractTermsURL'' ''contract_terms_url'' (TPtr TString),
      always ''ContractURL'' ''contract_url'' (TPtr TString),
      omitempty ''ExchangeIndex'' ''exchange_index'' ty_ExchangeIndex,
      always ''FeeMultiplier'' ''fee_multiplier'' TFloat64,
      always ''FeeType'' ''fee_type'' FeeType,
      always ''Frequency'' ''frequency'' TString,
      omitempty ''LastUpdatedTS'' ''last_updated_ts'' TString,
      omitempty ''ProductMetadata'' ''product_metadata'' (TMap TAny),
      always ''SettlementSources'' ''settlement_sources'' (TSlice ty_SettlementSource),
      always ''Tags'' ''tags'' (TSlice TString),
      always ''Ticker'' ''ticker'' TString,
      always ''Title'' ''title'' TString,
      omitempty ''VolumeFP'' ''volume_fp'' TString]"

lemma wf_Series [simp]: "wf_type ty_Series" "\<not> nilable ty_Series" "go_name ty_Series = ''Series''"
  by (simp_all add: ty_Series_def)

definition ty_Settlement :: gotype where
  "ty_Settlement = TStruct ''Settlement''
     [always ''EventTicker'' ''event_ticker'' TString,
      always ''ExchangeIndex'' ''exchange_index'' ty_ExchangeIndex,
      always ''FeeCost'' ''fee_cost'' TString,
      always ''MarketResult'' ''market_result'' TString,
      always ''NoCountFP'' ''no_count_fp'' TString,
      always ''NoTotalCostDollars'' ''no_total_cost_dollars'' TString,
      always ''Revenue'' ''revenue'' TInt,
      always ''SettledTime'' ''settled_time'' TString,
      always ''Ticker'' ''ticker'' TString,
      omitempty ''Value'' ''value'' (TPtr TInt),
      always ''YesCountFP'' ''yes_count_fp'' TString,
      always ''YesTotalCostDollars'' ''yes_total_cost_dollars'' TString]"

lemma wf_Settlement [simp]: "wf_type ty_Settlement" "\<not> nilable ty_Settlement" "go_name ty_Settlement = ''Settlement''"
  by (simp_all add: ty_Settlement_def)

definition ty_StructuredTarget :: gotype where
  "ty_StructuredTarget = TStruct ''StructuredTarget''
     [omitempty ''Details'' ''details'' (TMap TAny),
      omitempty ''ID'' ''id'' TString,
      omitempty ''LastUpdatedTS'' ''last_updated_ts'' TString,
      omitempty ''Name'' ''name'' TString,
      omitempty ''SourceID'' ''source_id'' TString,
      omitempty ''SourceIds'' ''source_ids'' (TMap TAny),
      omitempty ''Type'' ''type'' TString]"

lemma wf_StructuredTarget [simp]: "wf_type ty_StructuredTarget" "\<not> nilable ty_StructuredTarget" "go_name ty_StructuredTarget = ''StructuredTarget''"
  by (simp_all add: ty_StructuredTarget_def)

definition ty_SubaccountBalance :: gotype where
  "ty_SubaccountBalance = TStruct ''SubaccountBalance''
     [always ''Balance'' ''balance'' TString,
      always ''ExchangeIndex'' ''exchange_index'' TInt,
      always ''SubaccountNumber'' ''subaccount_number'' TInt,
      always ''UpdatedTS'' ''updated_ts'' TInt64]"

lemma wf_SubaccountBalance [simp]: "wf_type ty_SubaccountBalance" "\<not> nilable ty_SubaccountBalance" "go_name ty_SubaccountBalance = ''SubaccountBalance''"
  by (simp_all add: ty_SubaccountBalance_def)

definition ty_SubaccountNettingConfig :: gotype where
  "ty_SubaccountNettingConfig = TStruct ''SubaccountNettingConfig''
     [always ''Enabled'' ''enabled'' TBool,
      always ''ExchangeIndex'' ''exchange_index'' TInt,
      always ''SubaccountNumber'' ''subaccount_number'' TInt]"

lemma wf_SubaccountNettingConfig [simp]: "wf_type ty_SubaccountNettingConfig" "\<not> nilable ty_SubaccountNettingConfig" "go_name ty_SubaccountNettingConfig = ''SubaccountNettingConfig''"
  by (simp_all add: ty_SubaccountNettingConfig_def)

definition ty_SubaccountTransfer :: gotype where
  "ty_SubaccountTransfer = TStruct ''SubaccountTransfer''
     [always ''AmountCents'' ''amount_cents'' TInt64,
      always ''CreatedTS'' ''created_ts'' TInt64,
      always ''ExchangeIndex'' ''exchange_index'' TInt,
      always ''FromSubaccount'' ''from_subaccount'' TInt,
      always ''ToSubaccount'' ''to_subaccount'' TInt,
      always ''TransferID'' ''transfer_id'' TString]"

lemma wf_SubaccountTransfer [simp]: "wf_type ty_SubaccountTransfer" "\<not> nilable ty_SubaccountTransfer" "go_name ty_SubaccountTransfer = ''SubaccountTransfer''"
  by (simp_all add: ty_SubaccountTransfer_def)

definition ty_TargetBalanceAllocation :: gotype where
  "ty_TargetBalanceAllocation = TStruct ''TargetBalanceAllocation''
     [always ''ExchangeIndex'' ''exchange_index'' TInt,
      always ''Percent'' ''percent'' TInt]"

lemma wf_TargetBalanceAllocation [simp]: "wf_type ty_TargetBalanceAllocation" "\<not> nilable ty_TargetBalanceAllocation" "go_name ty_TargetBalanceAllocation = ''TargetBalanceAllocation''"
  by (simp_all add: ty_TargetBalanceAllocation_def)

definition ty_Trade :: gotype where
  "ty_Trade = TStruct ''Trade''
     [always ''CountFP'' ''count_fp'' TString,
      always ''CreatedTime'' ''created_time'' TString,
      always ''IsBlockTrade'' ''is_block_trade'' TBool,
      always ''NoPriceDollars'' ''no_price_dollars'' TString,
      always ''TakerBookSide'' ''taker_book_side'' BookSide,
      always ''TakerOutcomeSide'' ''taker_outcome_side'' TString,
      omitempty ''TakerSide'' ''taker_side'' Side,
      always ''Ticker'' ''ticker'' TString,
      always ''TradeID'' ''trade_id'' TString,
      always ''YesPriceDollars'' ''yes_price_dollars'' TString]"

lemma wf_Trade [simp]: "wf_type ty_Trade" "\<not> nilable ty_Trade" "go_name ty_Trade = ''Trade''"
  by (simp_all add: ty_Trade_def)

definition ty_WeatherIndexCalibrationStation :: gotype where
  "ty_WeatherIndexCalibrationStation = TStruct ''WeatherIndexCalibrationStation''
     [always ''OffsetC'' ''offset_c'' TFloat64,
      always ''StationID'' ''station_id'' TString,
      omitempty ''UpdateNote'' ''update_note'' TString,
      always ''Weight'' ''weight'' TFloat64]"

lemma wf_WeatherIndexCalibrationStation [simp]: "wf_type ty_WeatherIndexCalibrationStation" "\<not> nilable ty_WeatherIndexCalibrationStation" "go_name ty_WeatherIndexCalibrationStation = ''WeatherIndexCalibrationStation''"
  by (simp_all add: ty_WeatherIndexCalibrationStation_def)

definition ty_WeatherIndexCalibration :: gotype where
  "ty_WeatherIndexCalibration = TStruct ''WeatherIndexCalibration''
     [omitempty ''CalibrationWindowEndMs'' ''calibration_window_end_ms'' TInt64,
      omitempty ''CalibrationWindowStartMs'' ''calibration_window_start_ms'' TInt64,
      omitempty ''ChangeReason'' ''change_reason'' TString,
      always ''CityReferenceC'' ''city_reference_c'' TFloat64,
      always ''ConfigVersion'' ''config_version'' TString,
      always ''EffectiveAtMs'' ''effective_at_ms'' TInt64,
      omitempty ''PublishedAtMs'' ''published_at_ms'' TInt64,
      always ''Stations'' ''stations'' (TSlice ty_WeatherIndexCalibrationStation)]"

lemma wf_WeatherIndexCalibration [simp]: "wf_type ty_WeatherIndexCalibration" "\<not> nilable ty_WeatherIndexCalibration" "go_name ty_WeatherIndexCalibration = ''WeatherIndexCalibration''"
  by (simp_all add: ty_WeatherIndexCalibration_def)

definition ty_WeatherIndexStationReading :: gotype where
  "ty_WeatherIndexStationReading = TStruct ''WeatherIndexStationReading''
     [always ''Code'' ''code'' TString,
      omitempty ''ObsTimeMs'' ''obs_time_ms'' TInt64,
      omitempty ''PrimaryCode'' ''primary_code'' TString,
      omitempty ''ReceivedAtMs'' ''received_at_ms'' TInt64,
      omitempty ''Source'' ''source'' TString,
      always ''StationID'' ''station_id'' TString,
      omitempty ''TempF'' ''temp_f'' TFloat64]"

lemma wf_WeatherIndexStationReading [simp]: "wf_type ty_WeatherIndexStationReading" "\<not> nilable ty_WeatherIndexStationReading" "go_name ty_WeatherIndexStationReading = ''WeatherIndexStationReading''"
  by (simp_all add: ty_WeatherIndexStationReading_def)

definition ty_WeatherIndexPoint :: gotype where
  "ty_WeatherIndexPoint = TStruct ''WeatherIndexPoint''
     [omitempty ''Contributors'' ''contributors'' TInt,
      omitempty ''ReceiptBasis'' ''receipt_basis'' TString,
      omitempty ''Stations'' ''stations'' (TSlice ty_WeatherIndexStationReading),
      always ''Status'' ''status'' TString,
      always ''T'' ''t'' TInt64,
      omitempty ''V'' ''v'' TFloat64]"

lemma wf_WeatherIndexPoint [simp]: "wf_type ty_WeatherIndexPoint" "\<not> nilable ty_WeatherIndexPoint" "go_name ty_WeatherIndexPoint = ''WeatherIndexPoint''"
  by (simp_all add: ty_WeatherIndexPoint_def)

definition ty_Withdrawal :: gotype where
  "ty_Withdrawal = TStruct ''Withdrawal''
     [always ''AmountCents'' ''amount_cents'' TInt64,
      always ''CreatedTS'' ''created_ts'' TInt64,
      always ''FeeCents'' ''fee_cents'' TInt64,
      omitempty ''FinalizedTS'' ''finalized_ts'' (TPtr TInt64),
      always ''ID'' ''id'' TString,
      always ''Status'' ''status'' TString,
      always ''Type'' ''type'' TString]"

lemma wf_Withdrawal [simp]: "wf_type ty_Withdrawal" "\<not> nilable ty_Withdrawal" "go_name ty_Withdrawal = ''Withdrawal''"
  by (simp_all add: ty_Withdrawal_def)

definition ty_ScopeList :: gotype where
  "ty_ScopeList = TStruct ''ScopeList''
     [always ''Scopes'' ''scopes'' (TSlice TString)]"

lemma wf_ScopeList [simp]: "wf_type ty_ScopeList" "\<not> nilable ty_ScopeList" "go_name ty_ScopeList = ''ScopeList''"
  by (simp_all add: ty_ScopeList_def)

definition ty_TargetBalanceAllocationInput :: gotype where
  "ty_TargetBalanceAllocationInput = TStruct ''TargetBalanceAllocationInput''
     [always ''ExchangeIndex'' ''exchange_index'' TInt,
      always ''Percent'' ''percent'' TInt]"

lemma wf_TargetBalanceAllocationInput [simp]: "wf_type ty_TargetBalanceAllocationInput" "\<not> nilable ty_TargetBalanceAllocationInput" "go_name ty_TargetBalanceAllocationInput = ''TargetBalanceAllocationInput''"
  by (simp_all add: ty_TargetBalanceAllocationInput_def)

definition ty_SportFilterDetails :: gotype where
  "ty_SportFilterDetails = TStruct ''SportFilterDetails''
     [always ''Competitions'' ''competitions'' (TMap TAny),
      always ''Scopes'' ''scopes'' (TSlice TString)]"

lemma wf_SportFilterDetails [simp]: "wf_type ty_SportFilterDetails" "\<not> nilable ty_SportFilterDetails" "go_name ty_SportFilterDetails = ''SportFilterDetails''"
  by (simp_all add: ty_SportFilterDetails_def)

definition ty_AmendOrderV2Request :: gotype where
  "ty_AmendOrderV2Request = TStruct ''AmendOrderV2Request''
     [omitempty ''ClientOrderID'' ''client_order_id'' TString,
      always ''Count'' ''count'' TString,
      omitempty ''ExchangeIndex'' ''exchange_index'' (TPtr ty_ExchangeIndex),
      always ''Price'' ''price'' TString,
      always ''Side'' ''side'' BookSide,
      always ''Ticker'' ''ticker'' TString,
      omitempty ''UpdatedClientOrderID'' ''updated_client_order_id'' TString]"

lemma wf_AmendOrderV2Request [simp]: "wf_type ty_AmendOrderV2Request" "\<not> nilable ty_AmendOrderV2Request" "go_name ty_AmendOrderV2Request = ''AmendOrderV2Request''"
  by (simp_all add: ty_AmendOrderV2Request_def)

definition ty_AmendOrderV2Response :: gotype where
  "ty_AmendOrderV2Response = TStruct ''AmendOrderV2Response''
     [omitempty ''AverageFeePaid'' ''average_fee_paid'' (TPtr TString),
      omitempty ''AverageFillPrice'' ''average_fill_price'' (TPtr TString),
      omitempty ''ClientOrderID'' ''client_order_id'' TString,
      omitempty ''FillCount'' ''fill_count'' (TPtr TString),
      always ''OrderID'' ''order_id'' TString,
      omitempty ''RemainingCount'' ''remaining_count'' (TPtr TString),
      always ''TSMs'' ''ts_ms'' TInt64]"

lemma wf_AmendOrderV2Response [simp]: "wf_type ty_AmendOrderV2Response" "\<not> nilable ty_AmendOrderV2Response" "go_name ty_AmendOrderV2Response = ''AmendOrderV2Response''"
  by (simp_all add: ty_AmendOrderV2Response_def)

definition ty_BatchCancelOrdersV2Request :: gotype where
  "ty_BatchCancelOrdersV2Request = TStruct ''BatchCancelOrdersV2Request''
     [always ''Orders'' ''orders'' (TSlice (TMap TAny))]"

lemma wf_BatchCancelOrdersV2Request [simp]: "wf_type ty_BatchCancelOrdersV2Request" "\<not> nilable ty_BatchCancelOrdersV2Request" "go_name ty_BatchCancelOrdersV2Request = ''BatchCancelOrdersV2Request''"
  by (simp_all add: ty_BatchCancelOrdersV2Request_def)

definition ty_BatchCancelOrdersV2Response :: gotype where
  "ty_BatchCancelOrdersV2Response = TStruct ''BatchCancelOrdersV2Response''
     [always ''Orders'' ''orders'' (TSlice (TMap TAny))]"

lemma wf_BatchCancelOrdersV2Response [simp]: "wf_type ty_BatchCancelOrdersV2Response" "\<not> nilable ty_BatchCancelOrdersV2Response" "go_name ty_BatchCancelOrdersV2Response = ''BatchCancelOrdersV2Response''"
  by (simp_all add: ty_BatchCancelOrdersV2Response_def)

definition ty_CreateOrderV2Request :: gotype where
  "ty_CreateOrderV2Request = TStruct ''CreateOrderV2Request''
     [omitempty ''CancelOrderOnPause'' ''cancel_order_on_pause'' TBool,
      omitempty ''ClientOrderID'' ''client_order_id'' TString,
      always ''Count'' ''count'' TString,
      omitempty ''ExchangeIndex'' ''exchange_index'' (TPtr ty_ExchangeIndex),
      omitempty ''ExpirationTime'' ''expiration_time'' TInt64,
      omitempty ''OrderGroupID'' ''order_group_id'' TString,
      omitempty ''PostOnly'' ''post_only'' TBool,
      always ''Price'' ''price'' TString,
      omitempty ''ReduceOnly'' ''reduce_only'' TBool,
      always ''SelfTradePreventionType'' ''self_trade_prevention_type'' SelfTradePreventionType,
      always ''Side'' ''side'' BookSide,
      omitempty ''Subaccount'' ''subaccount'' TInt,
      always ''Ticker'' ''ticker'' TString,
      always ''TimeInForce'' ''time_in_force'' TimeInForce]"

lemma wf_CreateOrderV2Request [simp]: "wf_type ty_CreateOrderV2Request" "\<not> nilable ty_CreateOrderV2Request" "go_name ty_CreateOrderV2Request = ''CreateOrderV2Request''"
  by (simp_all add: ty_CreateOrderV2Request_def)

definition ty_BatchCreateOrdersV2Request :: gotype where
  "ty_BatchCreateOrdersV2Request = TStruct ''BatchCreateOrdersV2Request''
     [always ''Orders'' ''orders'' (TSlice ty_CreateOrderV2Request)]"

lemma wf_BatchCreateOrdersV2Request [simp]: "wf_type ty_BatchCreateOrdersV2Request" "\<not> nilable ty_BatchCreateOrdersV2Request" "go_name ty_BatchCreateOrdersV2Request = ''BatchCreateOrdersV2Request''"
  by (simp_all add: ty_BatchCreateOrdersV2Request_def)

definition ty_BatchCreateOrdersV2Response :: gotype where
  "ty_BatchCreateOrdersV2Response = TStruct ''BatchCreateOrdersV2Response''
     [always ''Orders'' ''orders'' (TSlice (TMap TAny))]"

lemma wf_BatchCreateOrdersV2Response [simp]: "wf_type ty_BatchCreateOrdersV2Response" "\<not> nilable ty_BatchCreateOrdersV2Response" "go_name ty_BatchCreateOrdersV2Response = ''BatchCreateOrdersV2Response''"
  by (simp_all add: ty_BatchCreateOrdersV2Response_def)

definition ty_CancelOrderV2Response :: gotype where
  "ty_CancelOrderV2Response = TStruct ''CancelOrderV2Response''
     [omitempty ''ClientOrderID'' ''client_order_id'' TString,
      always ''OrderID'' ''order_id'' TString,
      always ''ReducedBy'' ''reduced_by'' TString,
      always ''TSMs'' ''ts_ms'' TInt64]"

lemma wf_CancelOrderV2Response [simp]: "wf_type ty_CancelOrderV2Response" "\<not> nilable ty_CancelOrderV2Response" "go_name ty_CancelOrderV2Response = ''CancelOrderV2Response''"
  by (simp_all add: ty_CancelOrderV2Response_def)

definition ty_CreateOrderV2Response :: gotype where
  "ty_CreateOrderV2Response = TStruct ''CreateOrderV2Response''
     [omitempty ''AverageFeePaid'' ''average_fee_paid'' TString,
      omitempty ''AverageFillPrice'' ''average_fill_price'' TString,
      omitempty ''ClientOrderID'' ''client_order_id'' TString,
      always ''FillCount'' ''fill_count'' TString,
      always ''OrderID'' ''order_id'' TString,
      always ''RemainingCount'' ''remaining_count'' TString,
      always ''TSMs'' ''ts_ms'' TInt64]"

lemma wf_CreateOrderV2Response [simp]: "wf_type ty_CreateOrderV2Response" "\<not> nilable ty_CreateOrderV2Response" "go_name ty_CreateOrderV2Response = ''CreateOrderV2Response''"
  by (simp_all add: ty_CreateOrderV2Response_def)

definition ty_DecreaseOrderV2Request :: gotype where
  "ty_DecreaseOrderV2Request = TStruct ''DecreaseOrderV2Request''
     [omitempty ''ExchangeIndex'' ''exchange_index'' (TPtr ty_ExchangeIndex),
      omitempty ''MarketTicker'' ''market_ticker'' TString,
      omitempty ''ReduceBy'' ''reduce_by'' (TPtr TString),
      omitempty ''ReduceTo'' ''reduce_to'' (TPtr TString)]"

lemma wf_DecreaseOrderV2Request [simp]: "wf_type ty_DecreaseOrderV2Request" "\<not> nilable ty_DecreaseOrderV2Request" "go_name ty_DecreaseOrderV2Request = ''DecreaseOrderV2Request''"
  by (simp_all add: ty_DecreaseOrderV2Request_def)

definition ty_DecreaseOrderV2Response :: gotype where
  "ty_DecreaseOrderV2Response = TStruct ''DecreaseOrderV2Response''
     [omitempty ''ClientOrderID'' ''client_order_id'' TString,
      always ''OrderID'' ''order_id'' TString,
      always ''RemainingCount'' ''remaining_count'' TString,
      always ''TSMs'' ''ts_ms'' TInt64]"

lemma wf_DecreaseOrderV2Response [simp]: "wf_type ty_DecreaseOrderV2Response" "\<not> nilable ty_DecreaseOrderV2Response" "go_name ty_DecreaseOrderV2Response = ''DecreaseOrderV2Response''"
  by (simp_all add: ty_DecreaseOrderV2Response_def)

definition ty_GetEventFeeChangesResponse :: gotype where
  "ty_GetEventFeeChangesResponse = TStruct ''GetEventFeeChangesResponse''
     [always ''Cursor'' ''cursor'' TString,
      always ''EventFeeChanges'' ''event_fee_changes'' (TSlice ty_EventFeeChange)]"

lemma wf_GetEventFeeChangesResponse [simp]: "wf_type ty_GetEventFeeChangesResponse" "\<not> nilable ty_GetEventFeeChangesResponse" "go_name ty_GetEventFeeChangesResponse = ''GetEventFeeChangesResponse''"
  by (simp_all add: ty_GetEventFeeChangesResponse_def)

definition ty_GetEventMetadataResponse :: gotype where
  "ty_GetEventMetadataResponse = TStruct ''GetEventMetadataResponse''
     [omitempty ''Competition'' ''competition'' (TPtr TString),
      omitempty ''CompetitionScope'' ''competition_scope'' (TPtr TString),
      omitempty ''FeaturedImageURL'' ''featured_image_url'' TString,
      always ''ImageURL'' ''image_url'' TString,
      always ''MarketDetails'' ''market_details'' (TSlice ty_MarketMetadata),
      always ''SettlementSources'' ''settlement_sources'' (TSlice ty_SettlementSource)]"

lemma wf_GetEventMetadataResponse [simp]: "wf_type ty_GetEventMetadataResponse" "\<not> nilable ty_GetEventMetadataResponse" "go_name ty_GetEventMetadataResponse = ''GetEventMetadataResponse''"
  by (simp_all add: ty_GetEventMetadataResponse_def)

definition ty_GetEventResponse :: gotype where
  "ty_GetEventResponse = TStruct ''GetEventResponse''
     [always ''Event'' ''event'' ty_EventData,
      always ''Markets'' ''markets'' (TSlice ty_Market)]"

lemma wf_GetEventResponse [simp]: "wf_type ty_GetEventResponse" "\<not> nilable ty_GetEventResponse" "go_name ty_GetEventResponse = ''GetEventResponse''"
  by (simp_all add: ty_GetEventResponse_def)

definition ty_GetEventsResponse :: gotype where
  "ty_GetEventsResponse = TStruct ''GetEventsResponse''
     [always ''Cursor'' ''cursor'' TString,
      always ''Events'' ''events'' (TSlice ty_EventData),
      omitempty ''Milestones'' ''milestones'' (TSlice ty_Milestone)]"

lemma wf_GetEventsResponse [simp]: "wf_type ty_GetEventsResponse" "\<not> nilable ty_GetEventsResponse" "go_name ty_GetEventsResponse = ''GetEventsResponse''"
  by (simp_all add: ty_GetEventsResponse_def)

definition ty_GetMultivariateEventsResponse :: gotype where
  "ty_GetMultivariateEventsResponse = TStruct ''GetMultivariateEventsResponse''
     [always ''Cursor'' ''cursor'' TString,
      always ''Events'' ''events'' (TSlice ty_EventData)]"

lemma wf_GetMultivariateEventsResponse [simp]: "wf_type ty_GetMultivariateEventsResponse" "\<not> nilable ty_GetMultivariateEventsResponse" "go_name ty_GetMultivariateEventsResponse = ''GetMultivariateEventsResponse''"
  by (simp_all add: ty_GetMultivariateEventsResponse_def)

definition ty_ExchangeStatus :: gotype where
  "ty_ExchangeStatus = TStruct ''ExchangeStatus''
     [always ''ExchangeActive'' ''exchange_active'' TBool,
      omitempty ''ExchangeEstimatedResumeTime'' ''exchange_estimated_resume_time'' (TPtr TString),
      omitempty ''ExchangeIndexStatuses'' ''exchange_index_statuses'' (TSlice ty_ExchangeIndexStatus),
      omitempty ''IntraExchangeTransfersActive'' ''intra_exchange_transfers_active'' TBool,
      always ''TradingActive'' ''trading_active'' TBool]"

lemma wf_ExchangeStatus [simp]: "wf_type ty_ExchangeStatus" "\<not> nilable ty_ExchangeStatus" "go_name ty_ExchangeStatus = ''ExchangeStatus''"
  by (simp_all add: ty_ExchangeStatus_def)

definition ty_GetExchangeScheduleResponse :: gotype where
  "ty_GetExchangeScheduleResponse = TStruct ''GetExchangeScheduleResponse''
     [always ''Schedule'' ''schedule'' ty_Schedule]"

lemma wf_GetExchangeScheduleResponse [simp]: "wf_type ty_GetExchangeScheduleResponse" "\<not> nilable ty_GetExchangeScheduleResponse" "go_name ty_GetExchangeScheduleResponse = ''GetExchangeScheduleResponse''"
  by (simp_all add: ty_GetExchangeScheduleResponse_def)

definition ty_GetUserDataTimestampResponse :: gotype where
  "ty_GetUserDataTimestampResponse = TStruct ''GetUserDataTimestampResponse''
     [always ''AsOfTime'' ''as_of_time'' TString]"

lemma wf_GetUserDataTimestampResponse [simp]: "wf_type ty_GetUserDataTimestampResponse" "\<not> nilable ty_GetUserDataTimestampResponse" "go_name ty_GetUserDataTimestampResponse = ''GetUserDataTimestampResponse''"
  by (simp_all add: ty_GetUserDataTimestampResponse_def)

definition ty_GetOrdersResponse :: gotype where
  "ty_GetOrdersResponse = TStruct ''GetOrdersResponse''
     [always ''Cursor'' ''cursor'' TString,
      always ''Orders'' ''orders'' (TSlice ty_Order)]"

lemma wf_GetOrdersResponse [simp]: "wf_type ty_GetOrdersResponse" "\<not> nilable ty_GetOrdersResponse" "go_name ty_GetOrdersResponse = ''GetOrdersResponse''"
  by (simp_all add: ty_GetOrdersResponse_def)

definition ty_GetPositionsResponse :: gotype where
  "ty_GetPositionsResponse = TStruct ''GetPositionsResponse''
     [omitempty ''Cursor'' ''cursor'' TString,
      always ''EventPositions'' ''event_positions'' (TSlice ty_EventPosition),
      always ''MarketPositions'' ''market_positions'' (TSlice ty_MarketPosition)]"

lemma wf_GetPositionsResponse [simp]: "wf_type ty_GetPositionsResponse" "\<not> nilable ty_GetPositionsResponse" "go_name ty_GetPositionsResponse = ''GetPositionsResponse''"
  by (simp_all add: ty_GetPositionsResponse_def)

definition ty_GetFillsResponse :: gotype where
  "ty_GetFillsResponse = TStruct ''GetFillsResponse''
     [always ''Cursor'' ''cursor'' TString,
      always ''Fills'' ''fills'' (TSlice ty_Fill)]"

lemma wf_GetFillsResponse [simp]: "wf_type ty_GetFillsResponse" "\<not> nilable ty_GetFillsResponse" "go_name ty_GetFillsResponse = ''GetFillsResponse''"
  by (simp_all add: ty_GetFillsResponse_def)

definition ty_GetHistoricalCutoffResponse :: gotype where
  "ty_GetHistoricalCutoffResponse = TStruct ''GetHistoricalCutoffResponse''
     [omitempty ''MarketPositionsLastUpdatedTS'' ''market_positions_last_updated_ts'' TString,
      always ''MarketSettledTS'' ''market_settled_ts'' TString,
      always ''OrdersUpdatedTS'' ''orders_updated_ts'' TString,
      always ''TradesCreatedTS'' ''trades_created_ts'' TString]"

lemma wf_GetHistoricalCutoffResponse [simp]: "wf_type ty_GetHistoricalCutoffResponse" "\<not> nilable ty_GetHistoricalCutoffResponse" "go_name ty_GetHistoricalCutoffResponse = ''GetHistoricalCutoffResponse''"
  by (simp_all add: ty_GetHistoricalCutoffResponse_def)

definition ty_GetMarketCandlesticksHistoricalResponse :: gotype where
  "ty_GetMarketCandlesticksHistoricalResponse = TStruct ''GetMarketCandlesticksHistoricalResponse''
     [always ''Candlesticks'' ''candlesticks'' (TSlice ty_MarketCandlestickHistorical),
      always ''Ticker'' ''ticker'' TString]"

lemma wf_GetMarketCandlesticksHistoricalResponse [simp]: "wf_type ty_GetMarketCandlesticksHistoricalResponse" "\<not> nilable ty_GetMarketCandlesticksHistoricalResponse" "go_name ty_GetMarketCandlesticksHistoricalResponse = ''GetMarketCandlesticksHistoricalResponse''"
  by (simp_all add: ty_GetMarketCandlesticksHistoricalResponse_def)

definition ty_GetMarketResponse :: gotype where
  "ty_GetMarketResponse = TStruct ''GetMarketResponse''
     [always ''Market'' ''market'' ty_Market]"

lemma wf_GetMarketResponse [simp]: "wf_type ty_GetMarketResponse" "\<not> nilable ty_GetMarketResponse" "go_name ty_GetMarketResponse = ''GetMarketResponse''"
  by (simp_all add: ty_GetMarketResponse_def)

definition ty_GetMarketsResponse :: gotype where
  "ty_GetMarketsResponse = TStruct ''GetMarketsResponse''
     [always ''Cursor'' ''cursor'' TString,
      always ''Markets'' ''markets'' (TSlice ty_Market)]"

lemma wf_GetMarketsResponse [simp]: "wf_type ty_GetMarketsResponse" "\<not> nilable ty_GetMarketsResponse" "go_name ty_GetMarketsResponse = ''GetMarketsResponse''"
  by (simp_all add: ty_GetMarketsResponse_def)

definition ty_GetTradesResponse :: gotype where
  "ty_GetTradesResponse = TStruct ''GetTradesResponse''
     [always ''Cursor'' ''cursor'' TString,
      always ''Trades'' ''trades'' (TSlice ty_Trade)]"

lemma wf_GetTradesResponse [simp]: "wf_type ty_GetTradesResponse" "\<not> nilable ty_GetTradesResponse" "go_name ty_GetTradesResponse = ''GetTradesResponse''"
  by (simp_all add: ty_GetTradesResponse_def)

definition ty_GetIncentiveProgramsResponse :: gotype where
  "ty_GetIncentiveProgramsResponse = TStruct ''GetIncentiveProgramsResponse''
     [always ''IncentivePrograms'' ''incentive_programs'' (TSlice ty_IncentiveProgram),
      omitempty ''NextCursor'' ''next_cursor'' TString]"

lemma wf_GetIncentiveProgramsResponse [simp]: "wf_type ty_GetIncentiveProgramsResponse" "\<not> nilable ty_GetIncentiveProgramsResponse" "go_name ty_GetIncentiveProgramsResponse = ''GetIncentiveProgramsResponse''"
  by (simp_all add: ty_GetIncentiveProgramsResponse_def)

definition ty_GetEventLiveDataResponse :: gotype where
  "ty_GetEventLiveDataResponse = TStruct ''GetEventLiveDataResponse''
     [always ''LiveData'' ''live_data'' ty_EventLiveData]"

lemma wf_GetEventLiveDataResponse [simp]: "wf_type ty_GetEventLiveDataResponse" "\<not> nilable ty_GetEventLiveDataResponse" "go_name ty_GetEventLiveDataResponse = ''GetEventLiveDataResponse''"
  by (simp_all add: ty_GetEventLiveDataResponse_def)

definition ty_GetGameStatsResponse :: gotype where
  "ty_GetGameStatsResponse = TStruct ''GetGameStatsResponse''
     [omitempty ''Pbp'' ''pbp'' ty_PlayByPlay]"

lemma wf_GetGameStatsResponse [simp]: "wf_type ty_GetGameStatsResponse" "\<not> nilable ty_GetGameStatsResponse" "go_name ty_GetGameStatsResponse = ''GetGameStatsResponse''"
  by (simp_all add: ty_GetGameStatsResponse_def)

definition ty_GetLiveDataResponse :: gotype where
  "ty_GetLiveDataResponse = TStruct ''GetLiveDataResponse''
     [always ''LiveData'' ''live_data'' ty_LiveData]"

lemma wf_GetLiveDataResponse [simp]: "wf_type ty_GetLiveDataResponse" "\<not> nilable ty_GetLiveDataResponse" "go_name ty_GetLiveDataResponse = ''GetLiveDataResponse''"
  by (simp_all add: ty_GetLiveDataResponse_def)

definition ty_GetLiveDatasResponse :: gotype where
  "ty_GetLiveDatasResponse = TStruct ''GetLiveDatasResponse''
     [always ''LiveDatas'' ''live_datas'' (TSlice ty_LiveData)]"

lemma wf_GetLiveDatasResponse [simp]: "wf_type ty_GetLiveDatasResponse" "\<not> nilable ty_GetLiveDatasResponse" "go_name ty_GetLiveDatasResponse = ''GetLiveDatasResponse''"
  by (simp_all add: ty_GetLiveDatasResponse_def)

definition ty_GetWeatherIndexCalibrationsResponse :: gotype where
  "ty_GetWeatherIndexCalibrationsResponse = TStruct ''GetWeatherIndexCalibrationsResponse''
     [always ''Calibrations'' ''calibrations'' (TSlice ty_WeatherIndexCalibration),
      always ''City'' ''city'' TString,
      always ''Units'' ''units'' TString]"

lemma wf_GetWeatherIndexCalibrationsResponse [simp]: "wf_type ty_GetWeatherIndexCalibrationsResponse" "\<not> nilable ty_GetWeatherIndexCalibrationsResponse" "go_name ty_GetWeatherIndexCalibrationsResponse = ''GetWeatherIndexCalibrationsResponse''"
  by (simp_all add: ty_GetWeatherIndexCalibrationsResponse_def)

definition ty_GetWeatherIndexResponse :: gotype where
  "ty_GetWeatherIndexResponse = TStruct ''GetWeatherIndexResponse''
     [always ''City'' ''city'' TString,
      omitempty ''ConfigVersion'' ''config_version'' TString,
      always ''Timeseries'' ''timeseries'' (TSlice ty_WeatherIndexPoint),
      always ''Units'' ''units'' TString]"

lemma wf_GetWeatherIndexResponse [simp]: "wf_type ty_GetWeatherIndexResponse" "\<not> nilable ty_GetWeatherIndexResponse" "go_name ty_GetWeatherIndexResponse = ''GetWeatherIndexResponse''"
  by (simp_all add: ty_GetWeatherIndexResponse_def)

definition ty_BatchGetMarketCandlesticksResponse :: gotype where
  "ty_BatchGetMarketCandlesticksResponse = TStruct ''BatchGetMarketCandlesticksResponse''
     [always ''Markets'' ''markets'' (TSlice ty_MarketCandlesticksResponse)]"

lemma wf_BatchGetMarketCandlesticksResponse [simp]: "wf_type ty_BatchGetMarketCandlesticksResponse" "\<not> nilable ty_BatchGetMarketCandlesticksResponse" "go_name ty_BatchGetMarketCandlesticksResponse = ''BatchGetMarketCandlesticksResponse''"
  by (simp_all add: ty_BatchGetMarketCandlesticksResponse_def)

definition ty_GetMarketOrderbookResponse :: gotype where
  "ty_GetMarketOrderbookResponse = TStruct ''GetMarketOrderbookResponse''
     [always ''OrderbookFP'' ''orderbook_fp'' ty_OrderbookCountFp]"

lemma wf_GetMarketOrderbookResponse [simp]: "wf_type ty_GetMarketOrderbookResponse" "\<not> nilable ty_GetMarketOrderbookResponse" "go_name ty_GetMarketOrderbookResponse = ''GetMarketOrderbookResponse''"
  by (simp_all add: ty_GetMarketOrderbookResponse_def)

definition ty_GetMarketOrderbooksResponse :: gotype where
  "ty_GetMarketOrderbooksResponse = TStruct ''GetMarketOrderbooksResponse''
     [always ''Orderbooks'' ''orderbooks'' (TSlice ty_MarketOrderbookFp)]"

lemma wf_GetMarketOrderbooksResponse [simp]: "wf_type ty_GetMarketOrderbooksResponse" "\<not> nilable ty_GetMarketOrderbooksResponse" "go_name ty_GetMarketOrderbooksResponse = ''GetMarketOrderbooksResponse''"
  by (simp_all add: ty_GetMarketOrderbooksResponse_def)

definition ty_GetMilestoneResponse :: gotype where
  "ty_GetMilestoneResponse = TStruct ''GetMilestoneResponse''
     [always ''Milestone'' ''milestone'' ty_Milestone]"

lemma wf_GetMilestoneResponse [simp]: "wf_type ty_GetMilestoneResponse" "\<not> nilable ty_GetMilestoneResponse" "go_name ty_GetMilestoneResponse = ''GetMilestoneResponse''"
  by (simp_all add: ty_GetMilestoneResponse_def)

definition ty_GetMilestonesResponse :: gotype where
  "ty_GetMilestonesResponse = TStruct ''GetMilestonesResponse''
     [omitempty ''Cursor'' ''cursor'' TString,
      always ''Milestones'' ''milestones'' (TSlice ty_Milestone)]"

lemma wf_GetMilestonesResponse [simp]: "wf_type ty_GetMilestonesResponse" "\<not> nilable ty_GetMilestonesResponse" "go_name ty_GetMilestonesResponse = ''GetMilestonesResponse''"
  by (simp_all add: ty_GetMilestonesResponse_def)

definition ty_CreateMarketInMultivariateEventCollectionRequest :: gotype where
  "ty_CreateMarketInMultivariateEventCollectionRequest = TStruct ''CreateMarketInMultivariateEventCollectionRequest''
     [always ''SelectedMarkets'' ''selected_markets'' (TSlice ty_TickerPair),
      omitempty ''WithMarketPayload'' ''with_market_payload'' TBool]"

lemma wf_CreateMarketInMultivariateEventCollectionRequest [simp]: "wf_type ty_CreateMarketInMultivariateEventCollectionRequest" "\<not> nilable ty_CreateMarketInMultivariateEventCollectionRequest" "go_name ty_CreateMarketInMultivariateEventCollectionRequest = ''CreateMarketInMultivariateEventCollectionRequest''"
  by (simp_all add: ty_CreateMarketInMultivariateEventCollectionRequest_def)

definition ty_CreateMarketInMultivariateEventCollectionResponse :: gotype where
  "ty_CreateMarketInMultivariateEventCollectionResponse = TStruct ''CreateMarketInMultivariateEventCollectionResponse''
     [always ''EventTicker'' ''event_ticker'' TString,
      omitempty ''Market'' ''market'' ty_Market,
      always ''MarketTicker'' ''market_ticker'' TString]"

lemma wf_CreateMarketInMultivariateEventCollectionResponse [simp]: "wf_type ty_CreateMarketInMultivariateEventCollectionResponse" "\<not> nilable ty_CreateMarketInMultivariateEventCollectionResponse" "go_name ty_CreateMarketInMultivariateEventCollectionResponse = ''CreateMarketInMultivariateEventCollectionResponse''"
  by (simp_all add: ty_CreateMarketInMultivariateEventCollectionResponse_def)

definition ty_GetMultivariateEventCollectionResponse :: gotype where
  "ty_GetMultivariateEventCollectionResponse = TStruct ''GetMultivariateEventCollectionResponse''
     [always ''MultivariateContract'' ''multivariate_contract'' ty_MultivariateEventCollection]"

lemma wf_GetMultivariateEventCollectionResponse [simp]: "wf_type ty_GetMultivariateEventCollectionResponse" "\<not> nilable ty_GetMultivariateEventCollectionResponse" "go_name ty_GetMultivariateEventCollectionResponse = ''GetMultivariateEventCollectionResponse''"
  by (simp_all add: ty_GetMultivariateEventCollectionResponse_def)

definition ty_GetMultivariateEventCollectionsResponse :: gotype where
  "ty_GetMultivariateEventCollectionsResponse = TStruct ''GetMultivariateEventCollectionsResponse''
     [omitempty ''Cursor'' ''cursor'' TString,
      always ''MultivariateContracts'' ''multivariate_contracts'' (TSlice ty_MultivariateEventCollection)]"

lemma wf_GetMultivariateEventCollectionsResponse [simp]: "wf_type ty_GetMultivariateEventCollectionsResponse" "\<not> nilable ty_GetMultivariateEventCollectionsResponse" "go_name ty_GetMultivariateEventCollectionsResponse = ''GetMultivariateEventCollectionsResponse''"
  by (simp_all add: ty_GetMultivariateEventCollectionsResponse_def)

definition ty_CreateOrderGroupRequest :: gotype where
  "ty_CreateOrderGroupRequest = TStruct ''CreateOrderGroupRequest''
     [omitempty ''ContractsLimit'' ''contracts_limit'' TInt64,
      omitempty ''ContractsLimitFP'' ''contracts_limit_fp'' (TPtr TString),
      omitempty ''ExchangeIndex'' ''exchange_index'' ty_ExchangeIndex,
      omitempty ''Subaccount'' ''subaccount'' TInt]"

lemma wf_CreateOrderGroupRequest [simp]: "wf_type ty_CreateOrderGroupRequest" "\<not> nilable ty_CreateOrderGroupRequest" "go_name ty_CreateOrderGroupRequest = ''CreateOrderGroupRequest''"
  by (simp_all add: ty_CreateOrderGroupRequest_def)

definition ty_CreateOrderGroupResponse :: gotype where
  "ty_CreateOrderGroupResponse = TStruct ''CreateOrderGroupResponse''
     [omitempty ''ExchangeIndex'' ''exchange_index'' ty_ExchangeIndex,
      always ''OrderGroupID'' ''order_group_id'' TString,
      always ''Subaccount'' ''subaccount'' TInt]"

lemma wf_CreateOrderGroupResponse [simp]: "wf_type ty_CreateOrderGroupResponse" "\<not> nilable ty_CreateOrderGroupResponse" "go_name ty_CreateOrderGroupResponse = ''CreateOrderGroupResponse''"
  by (simp_all add: ty_CreateOrderGroupResponse_def)

definition ty_GetOrderGroupResponse :: gotype where
  "ty_GetOrderGroupResponse = TStruct ''GetOrderGroupResponse''
     [omitempty ''ContractsLimitFP'' ''contracts_limit_fp'' TString,
      omitempty ''ExchangeIndex'' ''exchange_index'' ty_ExchangeIndex,
      always ''IsAutoCancelEnabled'' ''is_auto_cancel_enabled'' TBool,
      always ''Orders'' ''orders'' (TSlice TString)]"

lemma wf_GetOrderGroupResponse [simp]: "wf_type ty_GetOrderGroupResponse" "\<not> nilable ty_GetOrderGroupResponse" "go_name ty_GetOrderGroupResponse = ''GetOrderGroupResponse''"
  by (simp_all add: ty_GetOrderGroupResponse_def)

definition ty_GetOrderGroupsResponse :: gotype where
  "ty_GetOrderGroupsResponse = TStruct ''GetOrderGroupsResponse''
     [omitempty ''OrderGroups'' ''order_groups'' (TSlice ty_OrderGroup)]"

lemma wf_GetOrderGroupsResponse [simp]: "wf_type ty_GetOrderGroupsResponse" "\<not> nilable ty_GetOrderGroupsResponse" "go_name ty_GetOrderGroupsResponse = ''GetOrderGroupsResponse''"
  by (simp_all add: ty_GetOrderGroupsResponse_def)

definition ty_UpdateOrderGroupLimitRequest :: gotype where
  "ty_UpdateOrderGroupLimitRequest = TStruct ''UpdateOrderGroupLimitRequest''
     [omitempty ''ContractsLimit'' ''contracts_limit'' TInt64,
      omitempty ''ContractsLimitFP'' ''contracts_limit_fp'' (TPtr TString)]"

lemma wf_UpdateOrderGroupLimitRequest [simp]: "wf_type ty_UpdateOrderGroupLimitRequest" "\<not> nilable ty_UpdateOrderGroupLimitRequest" "go_name ty_UpdateOrderGroupLimitRequest = ''UpdateOrderGroupLimitRequest''"
  by (simp_all add: ty_UpdateOrderGroupLimitRequest_def)

definition ty_GetOrderQueuePositionResponse :: gotype where
  "ty_GetOrderQueuePositionResponse = TStruct ''GetOrderQueuePositionResponse''
     [always ''QueuePositionFP'' ''queue_position_fp'' TString]"

lemma wf_GetOrderQueuePositionResponse [simp]: "wf_type ty_GetOrderQueuePositionResponse" "\<not> nilable ty_GetOrderQueuePositionResponse" "go_name ty_GetOrderQueuePositionResponse = ''GetOrderQueuePositionResponse''"
  by (simp_all add: ty_GetOrderQueuePositionResponse_def)

definition ty_GetOrderQueuePositionsResponse :: gotype where
  "ty_GetOrderQueuePositionsResponse = TStruct ''GetOrderQueuePositionsResponse''
     [always ''QueuePositions'' ''queue_positions'' (TSlice ty_OrderQueuePosition)]"

lemma wf_GetOrderQueuePositionsResponse [simp]: "wf_type ty_GetOrderQueuePositionsResponse" "\<not> nilable ty_GetOrderQueuePositionsResponse" "go_name ty_GetOrderQueuePositionsResponse = ''GetOrderQueuePositionsResponse''"
  by (simp_all add: ty_GetOrderQueuePositionsResponse_def)

definition ty_GetOrderResponse :: gotype where
  "ty_GetOrderResponse = TStruct ''GetOrderResponse''
     [always ''Order'' ''order'' ty_Order]"

lemma wf_GetOrderResponse [simp]: "wf_type ty_GetOrderResponse" "\<not> nilable ty_GetOrderResponse" "go_name ty_GetOrderResponse = ''GetOrderResponse''"
  by (simp_all add: ty_GetOrderResponse_def)

definition ty_GetBalanceResponse :: gotype where
  "ty_GetBalanceResponse = TStruct ''GetBalanceResponse''
     [always ''Balance'' ''balance'' TInt64,
      omitempty ''BalanceBreakdown'' ''balance_breakdown'' (TSlice ty_IndexedBalance),
      always ''BalanceDollars'' ''balance_dollars'' TString,
      always ''PortfolioValue'' ''portfolio_value'' TInt64,
      always ''UpdatedTS'' ''updated_ts'' TInt64]"

lemma wf_GetBalanceResponse [simp]: "wf_type ty_GetBalanceResponse" "\<not> nilable ty_GetBalanceResponse" "go_name ty_GetBalanceResponse = ''GetBalanceResponse''"
  by (simp_all add: ty_GetBalanceResponse_def)

definition ty_GetDepositsResponse :: gotype where
  "ty_GetDepositsResponse = TStruct ''GetDepositsResponse''
     [omitempty ''Cursor'' ''cursor'' TString,
      always ''Deposits'' ''deposits'' (TSlice ty_Deposit)]"

lemma wf_GetDepositsResponse [simp]: "wf_type ty_GetDepositsResponse" "\<not> nilable ty_GetDepositsResponse" "go_name ty_GetDepositsResponse = ''GetDepositsResponse''"
  by (simp_all add: ty_GetDepositsResponse_def)

definition ty_GetIntraExchangeInstanceTransferResponse :: gotype where
  "ty_GetIntraExchangeInstanceTransferResponse = TStruct ''GetIntraExchangeInstanceTransferResponse''
     [always ''Transfer'' ''transfer'' ty_IntraExchangeInstanceTransfer]"

lemma wf_GetIntraExchangeInstanceTransferResponse [simp]: "wf_type ty_GetIntraExchangeInstanceTransferResponse" "\<not> nilable ty_GetIntraExchangeInstanceTransferResponse" "go_name ty_GetIntraExchangeInstanceTransferResponse = ''GetIntraExchangeInstanceTransferResponse''"
  by (simp_all add: ty_GetIntraExchangeInstanceTransferResponse_def)

definition ty_GetIntraExchangeInstanceTransfersResponse :: gotype where
  "ty_GetIntraExchangeInstanceTransfersResponse = TStruct ''GetIntraExchangeInstanceTransfersResponse''
     [omitempty ''Cursor'' ''cursor'' TString,
      always ''Transfers'' ''transfers'' (TSlice ty_IntraExchangeInstanceTransfer)]"

lemma wf_GetIntraExchangeInstanceTransfersResponse [simp]: "wf_type ty_GetIntraExchangeInstanceTransfersResponse" "\<not> nilable ty_GetIntraExchangeInstanceTransfersResponse" "go_name ty_GetIntraExchangeInstanceTransfersResponse = ''GetIntraExchangeInstanceTransfersResponse''"
  by (simp_all add: ty_GetIntraExchangeInstanceTransfersResponse_def)

definition ty_GetPortfolioRestingOrderTotalValueResponse :: gotype where
  "ty_GetPortfolioRestingOrderTotalValueResponse = TStruct ''GetPortfolioRestingOrderTotalValueResponse''
     [always ''RestingOrderValueBreakdown'' ''resting_order_value_breakdown'' (TSlice ty_IndexedBalance),
      always ''TotalRestingOrderValue'' ''total_resting_order_value'' TInt]"

lemma wf_GetPortfolioRestingOrderTotalValueResponse [simp]: "wf_type ty_GetPortfolioRestingOrderTotalValueResponse" "\<not> nilable ty_GetPortfolioRestingOrderTotalValueResponse" "go_name ty_GetPortfolioRestingOrderTotalValueResponse = ''GetPortfolioRestingOrderTotalValueResponse''"
  by (simp_all add: ty_GetPortfolioRestingOrderTotalValueResponse_def)

definition ty_GetSettlementsResponse :: gotype where
  "ty_GetSettlementsResponse = TStruct ''GetSettlementsResponse''
     [omitempty ''Cursor'' ''cursor'' TString,
      always ''Settlements'' ''settlements'' (TSlice ty_Settlement)]"

lemma wf_GetSettlementsResponse [simp]: "wf_type ty_GetSettlementsResponse" "\<not> nilable ty_GetSettlementsResponse" "go_name ty_GetSettlementsResponse = ''GetSettlementsResponse''"
  by (simp_all add: ty_GetSettlementsResponse_def)

definition ty_GetTargetBalanceAllocationResponse :: gotype where
  "ty_GetTargetBalanceAllocationResponse = TStruct ''GetTargetBalanceAllocationResponse''
     [always ''Allocations'' ''allocations'' (TSlice ty_TargetBalanceAllocation),
      always ''RestingMarginReservation'' ''resting_margin_reservation'' RestingMarginReservation]"

lemma wf_GetTargetBalanceAllocationResponse [simp]: "wf_type ty_GetTargetBalanceAllocationResponse" "\<not> nilable ty_GetTargetBalanceAllocationResponse" "go_name ty_GetTargetBalanceAllocationResponse = ''GetTargetBalanceAllocationResponse''"
  by (simp_all add: ty_GetTargetBalanceAllocationResponse_def)

definition ty_GetWithdrawalsResponse :: gotype where
  "ty_GetWithdrawalsResponse = TStruct ''GetWithdrawalsResponse''
     [omitempty ''Cursor'' ''cursor'' TString,
      always ''Withdrawals'' ''withdrawals'' (TSlice ty_Withdrawal)]"

lemma wf_GetWithdrawalsResponse [simp]: "wf_type ty_GetWithdrawalsResponse" "\<not> nilable ty_GetWithdrawalsResponse" "go_name ty_GetWithdrawalsResponse = ''GetWithdrawalsResponse''"
  by (simp_all add: ty_GetWithdrawalsResponse_def)

definition ty_IntraExchangeInstanceTransferRequest :: gotype where
  "ty_IntraExchangeInstanceTransferRequest = TStruct ''IntraExchangeInstanceTransferRequest''
     [always ''Amount'' ''amount'' TInt64,
      always ''Destination'' ''destination'' ExchangeInstance,
      omitempty ''DestinationExchangeShard'' ''destination_exchange_shard'' TInt,
      omitempty ''DestinationSubaccount'' ''destination_subaccount'' TInt,
      always ''Source'' ''source'' ExchangeInstance,
      omitempty ''SourceExchangeShard'' ''source_exchange_shard'' TInt,
      omitempty ''SourceSubaccount'' ''source_subaccount'' TInt]"

lemma wf_IntraExchangeInstanceTransferRequest [simp]: "wf_type ty_IntraExchangeInstanceTransferRequest" "\<not> nilable ty_IntraExchangeInstanceTransferRequest" "go_name ty_IntraExchangeInstanceTransferRequest = ''IntraExchangeInstanceTransferRequest''"
  by (simp_all add: ty_IntraExchangeInstanceTransferRequest_def)

definition ty_IntraExchangeInstanceTransferResponse :: gotype where
  "ty_IntraExchangeInstanceTransferResponse = TStruct ''IntraExchangeInstanceTransferResponse''
     [always ''TransferID'' ''transfer_id'' TString]"

lemma wf_IntraExchangeInstanceTransferResponse [simp]: "wf_type ty_IntraExchangeInstanceTransferResponse" "\<not> nilable ty_IntraExchangeInstanceTransferResponse" "go_name ty_IntraExchangeInstanceTransferResponse = ''IntraExchangeInstanceTransferResponse''"
  by (simp_all add: ty_IntraExchangeInstanceTransferResponse_def)

definition ty_SetTargetBalanceAllocationRequest :: gotype where
  "ty_SetTargetBalanceAllocationRequest = TStruct ''SetTargetBalanceAllocationRequest''
     [always ''Allocations'' ''allocations'' (TSlice ty_TargetBalanceAllocationInput),
      omitempty ''RestingMarginReservation'' ''resting_margin_reservation'' RestingMarginReservation]"

lemma wf_SetTargetBalanceAllocationRequest [simp]: "wf_type ty_SetTargetBalanceAllocationRequest" "\<not> nilable ty_SetTargetBalanceAllocationRequest" "go_name ty_SetTargetBalanceAllocationRequest = ''SetTargetBalanceAllocationRequest''"
  by (simp_all add: ty_SetTargetBalanceAllocationRequest_def)

definition ty_GetFiltersBySportsResponse :: gotype where
  "ty_GetFiltersBySportsResponse = TStruct ''GetFiltersBySportsResponse''
     [always ''FiltersBySports'' ''filters_by_sports'' (TMap TAny),
      always ''SportOrdering'' ''sport_ordering'' (TSlice TString)]"

lemma wf_GetFiltersBySportsResponse [simp]: "wf_type ty_GetFiltersBySportsResponse" "\<not> nilable ty_GetFiltersBySportsResponse" "go_name ty_GetFiltersBySportsResponse = ''GetFiltersBySportsResponse''"
  by (simp_all add: ty_GetFiltersBySportsResponse_def)

definition ty_GetTagsForSeriesCategoriesResponse :: gotype where
  "ty_GetTagsForSeriesCategoriesResponse = TStruct ''GetTagsForSeriesCategoriesResponse''
     [always ''TagsByCategories'' ''tags_by_categories'' (TMap TAny)]"

lemma wf_GetTagsForSeriesCategoriesResponse [simp]: "wf_type ty_GetTagsForSeriesCategoriesResponse" "\<not> nilable ty_GetTagsForSeriesCategoriesResponse" "go_name ty_GetTagsForSeriesCategoriesResponse = ''GetTagsForSeriesCategoriesResponse''"
  by (simp_all add: ty_GetTagsForSeriesCategoriesResponse_def)

definition ty_GetEventCandlesticksResponse :: gotype where
  "ty_GetEventCandlesticksResponse = TStruct ''GetEventCandlesticksResponse''
     [always ''AdjustedEndTS'' ''adjusted_end_ts'' TInt64,
      always ''MarketCandlesticks'' ''market_candlesticks'' (TSlice (TSlice ty_MarketCandlestick)),
      always ''MarketTickers'' ''market_tickers'' (TSlice TString)]"

lemma wf_GetEventCandlesticksResponse [simp]: "wf_type ty_GetEventCandlesticksResponse" "\<not> nilable ty_GetEventCandlesticksResponse" "go_name ty_GetEventCandlesticksResponse = ''GetEventCandlesticksResponse''"
  by (simp_all add: ty_GetEventCandlesticksResponse_def)

definition ty_GetEventForecastPercentilesHistoryResponse :: gotype where
  "ty_GetEventForecastPercentilesHistoryResponse = TStruct ''GetEventForecastPercentilesHistoryResponse''
     [always ''ForecastHistory'' ''forecast_history'' (TSlice ty_ForecastPercentilesPoint)]"

lemma wf_GetEventForecastPercentilesHistoryResponse [simp]: "wf_type ty_GetEventForecastPercentilesHistoryResponse" "\<not> nilable ty_GetEventForecastPercentilesHistoryResponse" "go_name ty_GetEventForecastPercentilesHistoryResponse = ''GetEventForecastPercentilesHistoryResponse''"
  by (simp_all add: ty_GetEventForecastPercentilesHistoryResponse_def)

definition ty_GetMarketCandlesticksResponse :: gotype where
  "ty_GetMarketCandlesticksResponse = TStruct ''GetMarketCandlesticksResponse''
     [always ''Candlesticks'' ''candlesticks'' (TSlice ty_MarketCandlestick),
      always ''Ticker'' ''ticker'' TString]"

lemma wf_GetMarketCandlesticksResponse [simp]: "wf_type ty_GetMarketCandlesticksResponse" "\<not> nilable ty_GetMarketCandlesticksResponse" "go_name ty_GetMarketCandlesticksResponse = ''GetMarketCandlesticksResponse''"
  by (simp_all add: ty_GetMarketCandlesticksResponse_def)

definition ty_GetSeriesFeeChangesResponse :: gotype where
  "ty_GetSeriesFeeChangesResponse = TStruct ''GetSeriesFeeChangesResponse''
     [always ''SeriesFeeChangeArr'' ''series_fee_change_arr'' (TSlice ty_SeriesFeeChange)]"

lemma wf_GetSeriesFeeChangesResponse [simp]: "wf_type ty_GetSeriesFeeChangesResponse" "\<not> nilable ty_GetSeriesFeeChangesResponse" "go_name ty_GetSeriesFeeChangesResponse = ''GetSeriesFeeChangesResponse''"
  by (simp_all add: ty_GetSeriesFeeChangesResponse_def)

definition ty_GetSeriesListResponse :: gotype where
  "ty_GetSeriesListResponse = TStruct ''GetSeriesListResponse''
     [always ''Series'' ''series'' (TSlice ty_Series)]"

lemma wf_GetSeriesListResponse [simp]: "wf_type ty_GetSeriesListResponse" "\<not> nilable ty_GetSeriesListResponse" "go_name ty_GetSeriesListResponse = ''GetSeriesListResponse''"
  by (simp_all add: ty_GetSeriesListResponse_def)

definition ty_GetSeriesResponse :: gotype where
  "ty_GetSeriesResponse = TStruct ''GetSeriesResponse''
     [always ''Series'' ''series'' ty_Series]"

lemma wf_GetSeriesResponse [simp]: "wf_type ty_GetSeriesResponse" "\<not> nilable ty_GetSeriesResponse" "go_name ty_GetSeriesResponse = ''GetSeriesResponse''"
  by (simp_all add: ty_GetSeriesResponse_def)

definition ty_GetStructuredTargetResponse :: gotype where
  "ty_GetStructuredTargetResponse = TStruct ''GetStructuredTargetResponse''
     [omitempty ''StructuredTarget'' ''structured_target'' ty_StructuredTarget]"

lemma wf_GetStructuredTargetResponse [simp]: "wf_type ty_GetStructuredTargetResponse" "\<not> nilable ty_GetStructuredTargetResponse" "go_name ty_GetStructuredTargetResponse = ''GetStructuredTargetResponse''"
  by (simp_all add: ty_GetStructuredTargetResponse_def)

definition ty_GetStructuredTargetsResponse :: gotype where
  "ty_GetStructuredTargetsResponse = TStruct ''GetStructuredTargetsResponse''
     [omitempty ''Cursor'' ''cursor'' TString,
      omitempty ''StructuredTargets'' ''structured_targets'' (TSlice ty_StructuredTarget)]"

lemma wf_GetStructuredTargetsResponse [simp]: "wf_type ty_GetStructuredTargetsResponse" "\<not> nilable ty_GetStructuredTargetsResponse" "go_name ty_GetStructuredTargetsResponse = ''GetStructuredTargetsResponse''"
  by (simp_all add: ty_GetStructuredTargetsResponse_def)

definition ty_ApplySubaccountTransferRequest :: gotype where
  "ty_ApplySubaccountTransferRequest = TStruct ''ApplySubaccountTransferRequest''
     [always ''AmountCents'' ''amount_cents'' TInt64,
      always ''ClientTransferID'' ''client_transfer_id'' TString,
      omitempty ''ExchangeIndex'' ''exchange_index'' ty_ExchangeIndex,
      always ''FromSubaccount'' ''from_subaccount'' TInt,
      always ''ToSubaccount'' ''to_subaccount'' TInt]"

lemma wf_ApplySubaccountTransferRequest [simp]: "wf_type ty_ApplySubaccountTransferRequest" "\<not> nilable ty_ApplySubaccountTransferRequest" "go_name ty_ApplySubaccountTransferRequest = ''ApplySubaccountTransferRequest''"
  by (simp_all add: ty_ApplySubaccountTransferRequest_def)

definition ty_ApplySubaccountTransferResponse :: gotype where
  "ty_ApplySubaccountTransferResponse = TStruct ''ApplySubaccountTransferResponse''
     []"

lemma wf_ApplySubaccountTransferResponse [simp]: "wf_type ty_ApplySubaccountTransferResponse" "\<not> nilable ty_ApplySubaccountTransferResponse" "go_name ty_ApplySubaccountTransferResponse = ''ApplySubaccountTransferResponse''"
  by (simp_all add: ty_ApplySubaccountTransferResponse_def)

definition ty_CreateSubaccountRequest :: gotype where
  "ty_CreateSubaccountRequest = TStruct ''CreateSubaccountRequest''
     [omitempty ''ExchangeIndex'' ''exchange_index'' ty_ExchangeIndex]"

lemma wf_CreateSubaccountRequest [simp]: "wf_type ty_CreateSubaccountRequest" "\<not> nilable ty_CreateSubaccountRequest" "go_name ty_CreateSubaccountRequest = ''CreateSubaccountRequest''"
  by (simp_all add: ty_CreateSubaccountRequest_def)

definition ty_CreateSubaccountResponse :: gotype where
  "ty_CreateSubaccountResponse = TStruct ''CreateSubaccountResponse''
     [always ''SubaccountNumber'' ''subaccount_number'' TInt]"

lemma wf_CreateSubaccountResponse [simp]: "wf_type ty_CreateSubaccountResponse" "\<not> nilable ty_CreateSubaccountResponse" "go_name ty_CreateSubaccountResponse = ''CreateSubaccountResponse''"
  by (simp_all add: ty_CreateSubaccountResponse_def)

definition ty_GetSubaccountBalancesResponse :: gotype where
  "ty_GetSubaccountBalancesResponse = TStruct ''GetSubaccountBalancesResponse''
     [always ''SubaccountBalances'' ''subaccount_balances'' (TSlice ty_SubaccountBalance)]"

lemma wf_GetSubaccountBalancesResponse [simp]: "wf_type ty_GetSubaccountBalancesResponse" "\<not> nilable ty_GetSubaccountBalancesResponse" "go_name ty_GetSubaccountBalancesResponse = ''GetSubaccountBalancesResponse''"
  by (simp_all add: ty_GetSubaccountBalancesResponse_def)

definition ty_GetSubaccountNettingResponse :: gotype where
  "ty_GetSubaccountNettingResponse = TStruct ''GetSubaccountNettingResponse''
     [always ''NettingConfigs'' ''netting_configs'' (TSlice ty_SubaccountNettingConfig)]"

lemma wf_GetSubaccountNettingResponse [simp]: "wf_type ty_GetSubaccountNettingResponse" "\<not> nilable ty_GetSubaccountNettingResponse" "go_name ty_GetSubaccountNettingResponse = ''GetSubaccountNettingResponse''"
  by (simp_all add: ty_GetSubaccountNettingResponse_def)

definition ty_GetSubaccountTransfersResponse :: gotype where
  "ty_GetSubaccountTransfersResponse = TStruct ''GetSubaccountTransfersResponse''
     [omitempty ''Cursor'' ''cursor'' TString,
      always ''Transfers'' ''transfers'' (TSlice ty_SubaccountTransfer)]"

lemma wf_GetSubaccountTransfersResponse [simp]: "wf_type ty_GetSubaccountTransfersResponse" "\<not> nilable ty_GetSubaccountTransfersResponse" "go_name ty_GetSubaccountTransfersResponse = ''GetSubaccountTransfersResponse''"
  by (simp_all add: ty_GetSubaccountTransfersResponse_def)

definition ty_UpdateSubaccountNettingRequest :: gotype where
  "ty_UpdateSubaccountNettingRequest = TStruct ''UpdateSubaccountNettingRequest''
     [always ''Enabled'' ''enabled'' TBool,
      always ''SubaccountNumber'' ''subaccount_number'' TInt]"

lemma wf_UpdateSubaccountNettingRequest [simp]: "wf_type ty_UpdateSubaccountNettingRequest" "\<not> nilable ty_UpdateSubaccountNettingRequest" "go_name ty_UpdateSubaccountNettingRequest = ''UpdateSubaccountNettingRequest''"
  by (simp_all add: ty_UpdateSubaccountNettingRequest_def)

section \<open>The table\<close>

definition api_types :: "(string \<times> gotype) list" where
  "api_types =
     [(''CreateApiKeyRequest'', ty_CreateApiKeyRequest),
      (''CreateApiKeyResponse'', ty_CreateApiKeyResponse),
      (''GenerateApiKeyRequest'', ty_GenerateApiKeyRequest),
      (''GenerateApiKeyResponse'', ty_GenerateApiKeyResponse),
      (''ApiKey'', ty_ApiKey),
      (''GetApiKeysResponse'', ty_GetApiKeysResponse),
      (''ApiUsageLevelGrant'', ty_ApiUsageLevelGrant),
      (''BucketLimit'', ty_BucketLimit),
      (''GetAccountApiLimitsResponse'', ty_GetAccountApiLimitsResponse),
      (''AccountApiUsageLevelVolumeGoal'', ty_AccountApiUsageLevelVolumeGoal),
      (''AccountApiUsageLevelVolumeProgress'', ty_AccountApiUsageLevelVolumeProgress),
      (''GetAccountApiUsageLevelVolumeProgressResponse'', ty_GetAccountApiUsageLevelVolumeProgressResponse),
      (''EndpointTokenCost'', ty_EndpointTokenCost),
      (''GetAccountEndpointCostsResponse'', ty_GetAccountEndpointCostsResponse),
      (''AcceptBlockTradeProposalRequest'', ty_AcceptBlockTradeProposalRequest),
      (''AcceptQuoteRequest'', ty_AcceptQuoteRequest),
      (''CreateQuoteRequest'', ty_CreateQuoteRequest),
      (''CreateQuoteResponse'', ty_CreateQuoteResponse),
      (''CreateRFQRequest'', ty_CreateRFQRequest),
      (''CreateRFQResponse'', ty_CreateRFQResponse),
      (''EmptyResponse'', ty_EmptyResponse),
      (''BlockTradeProposal'', ty_BlockTradeProposal),
      (''GetBlockTradeProposalsResponse'', ty_GetBlockTradeProposalsResponse),
      (''GetCommunicationsIDResponse'', ty_GetCommunicationsIDResponse),
      (''Quote'', ty_Quote),
      (''GetQuoteResponse'', ty_GetQuoteResponse),
      (''GetQuotesResponse'', ty_GetQuotesResponse),
      (''MveSelectedLeg'', ty_MveSelectedLeg),
      (''RFQ'', ty_RFQ),
      (''GetRFQResponse'', ty_GetRFQResponse),
      (''GetRFQsResponse'', ty_GetRFQsResponse),
      (''ProposeBlockTradeRequest'', ty_ProposeBlockTradeRequest),
      (''ProposeBlockTradeResponse'', ty_ProposeBlockTradeResponse),
      (''AmendOrderRequest'', ty_AmendOrderRequest),
      (''Order'', ty_Order),
      (''AmendOrderResponse'', ty_AmendOrderResponse),
      (''AssociatedEvent'', ty_AssociatedEvent),
      (''ErrorResponse'', ty_ErrorResponse),
      (''BatchCancelOrdersIndividualResponse'', ty_BatchCancelOrdersIndividualResponse),
      (''BatchCancelOrdersRequestOrder'', ty_BatchCancelOrdersRequestOrder),
      (''BatchCancelOrdersRequest'', ty_BatchCancelOrdersRequest),
      (''BatchCancelOrdersResponse'', ty_BatchCancelOrdersResponse),
      (''BatchCreateOrdersIndividualResponse'', ty_BatchCreateOrdersIndividualResponse),
      (''CreateOrderRequest'', ty_CreateOrderRequest),
      (''BatchCreateOrdersRequest'', ty_BatchCreateOrdersRequest),
      (''BatchCreateOrdersResponse'', ty_BatchCreateOrdersResponse),
      (''BidAskDistribution'', ty_BidAskDistribution),
      (''PriceDistribution'', ty_PriceDistribution),
      (''MarketCandlestick'', ty_MarketCandlestick),
      (''MarketCandlesticksResponse'', ty_MarketCandlesticksResponse),
      (''BidAskDistributionHistorical'', ty_BidAskDistributionHistorical),
      (''TickerPair'', ty_TickerPair),
      (''PriceRange'', ty_PriceRange),
      (''Market'', ty_Market),
      (''CreateOrderResponse'', ty_CreateOrderResponse),
      (''DailySchedule'', ty_DailySchedule),
      (''Deposit'', ty_Deposit),
      (''SettlementSource'', ty_SettlementSource),
      (''EventData'', ty_EventData),
      (''EventFeeChange'', ty_EventFeeChange),
      (''EventLiveData'', ty_EventLiveData),
      (''EventPosition'', ty_EventPosition),
      (''ExchangeIndexStatus'', ty_ExchangeIndexStatus),
      (''Fill'', ty_Fill),
      (''PercentilePoint'', ty_PercentilePoint),
      (''ForecastPercentilesPoint'', ty_ForecastPercentilesPoint),
      (''IndexedBalance'', ty_IndexedBalance),
      (''MarketMetadata'', ty_MarketMetadata),
      (''Milestone'', ty_Milestone),
      (''MaintenanceWindow'', ty_MaintenanceWindow),
      (''WeeklySchedule'', ty_WeeklySchedule),
      (''Schedule'', ty_Schedule),
      (''PlayByPlay'', ty_PlayByPlay),
      (''IncentiveProgram'', ty_IncentiveProgram),
      (''IntraExchangeInstanceTransfer'', ty_IntraExchangeInstanceTransfer),
      (''LiveData'', ty_LiveData),
      (''PriceDistributionHistorical'', ty_PriceDistributionHistorical),
      (''MarketCandlestickHistorical'', ty_MarketCandlestickHistorical),
      (''OrderbookCountFp'', ty_OrderbookCountFp),
      (''MarketOrderbookFp'', ty_MarketOrderbookFp),
      (''MultivariateEventCollection'', ty_MultivariateEventCollection),
      (''OrderGroup'', ty_OrderGroup),
      (''OrderQueuePosition'', ty_OrderQueuePosition),
      (''MarketPosition'', ty_MarketPosition),
      (''SeriesFeeChange'', ty_SeriesFeeChange),
      (''Series'', ty_Series),
      (''Settlement'', ty_Settlement),
      (''StructuredTarget'', ty_StructuredTarget),
      (''SubaccountBalance'', ty_SubaccountBalance),
      (''SubaccountNettingConfig'', ty_SubaccountNettingConfig),
      (''SubaccountTransfer'', ty_SubaccountTransfer),
      (''TargetBalanceAllocation'', ty_TargetBalanceAllocation),
      (''Trade'', ty_Trade),
      (''WeatherIndexCalibrationStation'', ty_WeatherIndexCalibrationStation),
      (''WeatherIndexCalibration'', ty_WeatherIndexCalibration),
      (''WeatherIndexStationReading'', ty_WeatherIndexStationReading),
      (''WeatherIndexPoint'', ty_WeatherIndexPoint),
      (''Withdrawal'', ty_Withdrawal),
      (''ScopeList'', ty_ScopeList),
      (''TargetBalanceAllocationInput'', ty_TargetBalanceAllocationInput),
      (''SportFilterDetails'', ty_SportFilterDetails),
      (''AmendOrderV2Request'', ty_AmendOrderV2Request),
      (''AmendOrderV2Response'', ty_AmendOrderV2Response),
      (''BatchCancelOrdersV2Request'', ty_BatchCancelOrdersV2Request),
      (''BatchCancelOrdersV2Response'', ty_BatchCancelOrdersV2Response),
      (''CreateOrderV2Request'', ty_CreateOrderV2Request),
      (''BatchCreateOrdersV2Request'', ty_BatchCreateOrdersV2Request),
      (''BatchCreateOrdersV2Response'', ty_BatchCreateOrdersV2Response),
      (''CancelOrderV2Response'', ty_CancelOrderV2Response),
      (''CreateOrderV2Response'', ty_CreateOrderV2Response),
      (''DecreaseOrderV2Request'', ty_DecreaseOrderV2Request),
      (''DecreaseOrderV2Response'', ty_DecreaseOrderV2Response),
      (''GetEventFeeChangesResponse'', ty_GetEventFeeChangesResponse),
      (''GetEventMetadataResponse'', ty_GetEventMetadataResponse),
      (''GetEventResponse'', ty_GetEventResponse),
      (''GetEventsResponse'', ty_GetEventsResponse),
      (''GetMultivariateEventsResponse'', ty_GetMultivariateEventsResponse),
      (''ExchangeStatus'', ty_ExchangeStatus),
      (''GetExchangeScheduleResponse'', ty_GetExchangeScheduleResponse),
      (''GetUserDataTimestampResponse'', ty_GetUserDataTimestampResponse),
      (''GetOrdersResponse'', ty_GetOrdersResponse),
      (''GetPositionsResponse'', ty_GetPositionsResponse),
      (''GetFillsResponse'', ty_GetFillsResponse),
      (''GetHistoricalCutoffResponse'', ty_GetHistoricalCutoffResponse),
      (''GetMarketCandlesticksHistoricalResponse'', ty_GetMarketCandlesticksHistoricalResponse),
      (''GetMarketResponse'', ty_GetMarketResponse),
      (''GetMarketsResponse'', ty_GetMarketsResponse),
      (''GetTradesResponse'', ty_GetTradesResponse),
      (''GetIncentiveProgramsResponse'', ty_GetIncentiveProgramsResponse),
      (''GetEventLiveDataResponse'', ty_GetEventLiveDataResponse),
      (''GetGameStatsResponse'', ty_GetGameStatsResponse),
      (''GetLiveDataResponse'', ty_GetLiveDataResponse),
      (''GetLiveDatasResponse'', ty_GetLiveDatasResponse),
      (''GetWeatherIndexCalibrationsResponse'', ty_GetWeatherIndexCalibrationsResponse),
      (''GetWeatherIndexResponse'', ty_GetWeatherIndexResponse),
      (''BatchGetMarketCandlesticksResponse'', ty_BatchGetMarketCandlesticksResponse),
      (''GetMarketOrderbookResponse'', ty_GetMarketOrderbookResponse),
      (''GetMarketOrderbooksResponse'', ty_GetMarketOrderbooksResponse),
      (''GetMilestoneResponse'', ty_GetMilestoneResponse),
      (''GetMilestonesResponse'', ty_GetMilestonesResponse),
      (''CreateMarketInMultivariateEventCollectionRequest'', ty_CreateMarketInMultivariateEventCollectionRequest),
      (''CreateMarketInMultivariateEventCollectionResponse'', ty_CreateMarketInMultivariateEventCollectionResponse),
      (''GetMultivariateEventCollectionResponse'', ty_GetMultivariateEventCollectionResponse),
      (''GetMultivariateEventCollectionsResponse'', ty_GetMultivariateEventCollectionsResponse),
      (''CreateOrderGroupRequest'', ty_CreateOrderGroupRequest),
      (''CreateOrderGroupResponse'', ty_CreateOrderGroupResponse),
      (''GetOrderGroupResponse'', ty_GetOrderGroupResponse),
      (''GetOrderGroupsResponse'', ty_GetOrderGroupsResponse),
      (''UpdateOrderGroupLimitRequest'', ty_UpdateOrderGroupLimitRequest),
      (''GetOrderQueuePositionResponse'', ty_GetOrderQueuePositionResponse),
      (''GetOrderQueuePositionsResponse'', ty_GetOrderQueuePositionsResponse),
      (''GetOrderResponse'', ty_GetOrderResponse),
      (''GetBalanceResponse'', ty_GetBalanceResponse),
      (''GetDepositsResponse'', ty_GetDepositsResponse),
      (''GetIntraExchangeInstanceTransferResponse'', ty_GetIntraExchangeInstanceTransferResponse),
      (''GetIntraExchangeInstanceTransfersResponse'', ty_GetIntraExchangeInstanceTransfersResponse),
      (''GetPortfolioRestingOrderTotalValueResponse'', ty_GetPortfolioRestingOrderTotalValueResponse),
      (''GetSettlementsResponse'', ty_GetSettlementsResponse),
      (''GetTargetBalanceAllocationResponse'', ty_GetTargetBalanceAllocationResponse),
      (''GetWithdrawalsResponse'', ty_GetWithdrawalsResponse),
      (''IntraExchangeInstanceTransferRequest'', ty_IntraExchangeInstanceTransferRequest),
      (''IntraExchangeInstanceTransferResponse'', ty_IntraExchangeInstanceTransferResponse),
      (''SetTargetBalanceAllocationRequest'', ty_SetTargetBalanceAllocationRequest),
      (''GetFiltersBySportsResponse'', ty_GetFiltersBySportsResponse),
      (''GetTagsForSeriesCategoriesResponse'', ty_GetTagsForSeriesCategoriesResponse),
      (''GetEventCandlesticksResponse'', ty_GetEventCandlesticksResponse),
      (''GetEventForecastPercentilesHistoryResponse'', ty_GetEventForecastPercentilesHistoryResponse),
      (''GetMarketCandlesticksResponse'', ty_GetMarketCandlesticksResponse),
      (''GetSeriesFeeChangesResponse'', ty_GetSeriesFeeChangesResponse),
      (''GetSeriesListResponse'', ty_GetSeriesListResponse),
      (''GetSeriesResponse'', ty_GetSeriesResponse),
      (''GetStructuredTargetResponse'', ty_GetStructuredTargetResponse),
      (''GetStructuredTargetsResponse'', ty_GetStructuredTargetsResponse),
      (''ApplySubaccountTransferRequest'', ty_ApplySubaccountTransferRequest),
      (''ApplySubaccountTransferResponse'', ty_ApplySubaccountTransferResponse),
      (''CreateSubaccountRequest'', ty_CreateSubaccountRequest),
      (''CreateSubaccountResponse'', ty_CreateSubaccountResponse),
      (''GetSubaccountBalancesResponse'', ty_GetSubaccountBalancesResponse),
      (''GetSubaccountNettingResponse'', ty_GetSubaccountNettingResponse),
      (''GetSubaccountTransfersResponse'', ty_GetSubaccountTransfersResponse),
      (''UpdateSubaccountNettingRequest'', ty_UpdateSubaccountNettingRequest)]"

end
