(* ===== verification/WSMessageTypes.thy ===== *)
theory WSMessageTypes
  imports ApiTypes
begin

text \<open>
  The structs of \<open>ws_messages_generated.go\<close> as type descriptions, in the manner of theory ApiTypes.
\<close>

section \<open>Named types\<close>

abbreviation MarketLifecycleEventType :: gotype where "MarketLifecycleEventType \<equiv> TString"
abbreviation OrderGroupEventType :: gotype where "OrderGroupEventType \<equiv> TString"
abbreviation STPType :: gotype where "STPType \<equiv> TString"
abbreviation WSCmd :: gotype where "WSCmd \<equiv> TString"
abbreviation WSUpdateAction :: gotype where "WSUpdateAction \<equiv> TString"

section \<open>Structs\<close>

definition ty_WSCommand :: gotype where
  "ty_WSCommand = TStruct ''WSCommand''
     [always ''ID'' ''id'' TInt,
      always ''Cmd'' ''cmd'' WSCmd,
      omitempty ''Params'' ''params'' TAny]"

lemma wf_WSCommand [simp]: "wf_type ty_WSCommand" "\<not> nilable ty_WSCommand" "go_name ty_WSCommand = ''WSCommand''"
  by (simp_all add: ty_WSCommand_def)

definition ty_SubscribeParams :: gotype where
  "ty_SubscribeParams = TStruct ''SubscribeParams''
     [always ''Channels'' ''channels'' (TSlice TString),
      omitempty ''IndexIds'' ''index_ids'' (TSlice TString),
      omitempty ''MarketID'' ''market_id'' TString,
      omitempty ''MarketIds'' ''market_ids'' (TSlice TString),
      omitempty ''MarketTicker'' ''market_ticker'' TString,
      omitempty ''MarketTickers'' ''market_tickers'' (TSlice TString),
      omitempty ''SendInitialSnapshot'' ''send_initial_snapshot'' TBool,
      omitempty ''ShardFactor'' ''shard_factor'' TInt,
      omitempty ''ShardKey'' ''shard_key'' TInt,
      omitempty ''SkipTickerAck'' ''skip_ticker_ack'' TBool,
      omitempty ''UnderlyingTickers'' ''underlying_tickers'' (TSlice TString),
      omitempty ''UseYesPrice'' ''use_yes_price'' TBool]"

lemma wf_SubscribeParams [simp]: "wf_type ty_SubscribeParams" "\<not> nilable ty_SubscribeParams" "go_name ty_SubscribeParams = ''SubscribeParams''"
  by (simp_all add: ty_SubscribeParams_def)

definition ty_UnsubscribeParams :: gotype where
  "ty_UnsubscribeParams = TStruct ''UnsubscribeParams''
     [always ''SIDs'' ''sids'' (TSlice TInt)]"

lemma wf_UnsubscribeParams [simp]: "wf_type ty_UnsubscribeParams" "\<not> nilable ty_UnsubscribeParams" "go_name ty_UnsubscribeParams = ''UnsubscribeParams''"
  by (simp_all add: ty_UnsubscribeParams_def)

definition ty_UpdateSubParams :: gotype where
  "ty_UpdateSubParams = TStruct ''UpdateSubParams''
     [always ''Action'' ''action'' WSUpdateAction,
      omitempty ''IndexIds'' ''index_ids'' (TSlice TString),
      omitempty ''MarketID'' ''market_id'' TString,
      omitempty ''MarketIds'' ''market_ids'' (TSlice TString),
      omitempty ''MarketTicker'' ''market_ticker'' TString,
      omitempty ''MarketTickers'' ''market_tickers'' (TSlice TString),
      omitempty ''SendInitialSnapshot'' ''send_initial_snapshot'' TBool,
      omitempty ''SID'' ''sid'' TInt,
      omitempty ''SIDs'' ''sids'' (TSlice TInt)]"

lemma wf_UpdateSubParams [simp]: "wf_type ty_UpdateSubParams" "\<not> nilable ty_UpdateSubParams" "go_name ty_UpdateSubParams = ''UpdateSubParams''"
  by (simp_all add: ty_UpdateSubParams_def)

definition ty_SubscribedBody :: gotype where
  "ty_SubscribedBody = TStruct ''SubscribedBody''
     [always ''Channel'' ''channel'' TString,
      always ''SID'' ''sid'' TInt]"

lemma wf_SubscribedBody [simp]: "wf_type ty_SubscribedBody" "\<not> nilable ty_SubscribedBody" "go_name ty_SubscribedBody = ''SubscribedBody''"
  by (simp_all add: ty_SubscribedBody_def)

definition ty_OkBody :: gotype where
  "ty_OkBody = TStruct ''OkBody''
     [omitempty ''MarketIds'' ''market_ids'' (TSlice TString),
      omitempty ''MarketTickers'' ''market_tickers'' (TSlice TString)]"

lemma wf_OkBody [simp]: "wf_type ty_OkBody" "\<not> nilable ty_OkBody" "go_name ty_OkBody = ''OkBody''"
  by (simp_all add: ty_OkBody_def)

definition ty_WSErrorBody :: gotype where
  "ty_WSErrorBody = TStruct ''WSErrorBody''
     [always ''Code'' ''code'' TInt,
      always ''Msg'' ''msg'' TString]"

lemma wf_WSErrorBody [simp]: "wf_type ty_WSErrorBody" "\<not> nilable ty_WSErrorBody" "go_name ty_WSErrorBody = ''WSErrorBody''"
  by (simp_all add: ty_WSErrorBody_def)

definition ty_CfbenchmarksAvgData :: gotype where
  "ty_CfbenchmarksAvgData = TStruct ''CfbenchmarksAvgData''
     [always ''Value'' ''value'' TString,
      always ''WindowEndTSExclusive'' ''window_end_ts_exclusive'' TInt,
      always ''WindowSize'' ''window_size'' TInt,
      always ''WindowStartTSMs'' ''window_start_ts_ms'' TInt]"

lemma wf_CfbenchmarksAvgData [simp]: "wf_type ty_CfbenchmarksAvgData" "\<not> nilable ty_CfbenchmarksAvgData" "go_name ty_CfbenchmarksAvgData = ''CfbenchmarksAvgData''"
  by (simp_all add: ty_CfbenchmarksAvgData_def)

definition ty_MarketLifecycleAdditionalMetadata :: gotype where
  "ty_MarketLifecycleAdditionalMetadata = TStruct ''MarketLifecycleAdditionalMetadata''
     [omitempty ''CanCloseEarly'' ''can_close_early'' TBool,
      omitempty ''CapStrike'' ''cap_strike'' TFloat64,
      omitempty ''CustomStrike'' ''custom_strike'' (TMap TAny),
      omitempty ''EventTicker'' ''event_ticker'' TString,
      omitempty ''ExpectedExpirationTS'' ''expected_expiration_ts'' TInt64,
      omitempty ''FloorStrike'' ''floor_strike'' TFloat64,
      omitempty ''Name'' ''name'' TString,
      omitempty ''NoSubTitle'' ''no_sub_title'' TString,
      omitempty ''RulesPrimary'' ''rules_primary'' TString,
      omitempty ''RulesSecondary'' ''rules_secondary'' TString,
      omitempty ''StrikeType'' ''strike_type'' TString,
      omitempty ''Title'' ''title'' TString,
      omitempty ''YesSubTitle'' ''yes_sub_title'' TString]"

lemma wf_MarketLifecycleAdditionalMetadata [simp]: "wf_type ty_MarketLifecycleAdditionalMetadata" "\<not> nilable ty_MarketLifecycleAdditionalMetadata" "go_name ty_MarketLifecycleAdditionalMetadata = ''MarketLifecycleAdditionalMetadata''"
  by (simp_all add: ty_MarketLifecycleAdditionalMetadata_def)

definition ty_CfbenchmarksValue5HzData :: gotype where
  "ty_CfbenchmarksValue5HzData = TStruct ''CfbenchmarksValue5HzData''
     [always ''Data'' ''data'' TString,
      always ''IndexID'' ''index_id'' TString,
      always ''ReceivedAt'' ''received_at'' TInt,
      always ''SourceTSMs'' ''source_ts_ms'' TInt,
      always ''ValueUsd'' ''value_usd'' TString]"

lemma wf_CfbenchmarksValue5HzData [simp]: "wf_type ty_CfbenchmarksValue5HzData" "\<not> nilable ty_CfbenchmarksValue5HzData" "go_name ty_CfbenchmarksValue5HzData = ''CfbenchmarksValue5HzData''"
  by (simp_all add: ty_CfbenchmarksValue5HzData_def)

definition ty_CfbenchmarksValue5HzIndexlistData :: gotype where
  "ty_CfbenchmarksValue5HzIndexlistData = TStruct ''CfbenchmarksValue5HzIndexlistData''
     [always ''IndexIds'' ''index_ids'' (TSlice TString)]"

lemma wf_CfbenchmarksValue5HzIndexlistData [simp]: "wf_type ty_CfbenchmarksValue5HzIndexlistData" "\<not> nilable ty_CfbenchmarksValue5HzIndexlistData" "go_name ty_CfbenchmarksValue5HzIndexlistData = ''CfbenchmarksValue5HzIndexlistData''"
  by (simp_all add: ty_CfbenchmarksValue5HzIndexlistData_def)

definition ty_CfbenchmarksValueData :: gotype where
  "ty_CfbenchmarksValueData = TStruct ''CfbenchmarksValueData''
     [always ''Avg60sData'' ''avg_60s_data'' ty_CfbenchmarksAvgData,
      always ''Data'' ''data'' TString,
      always ''IndexID'' ''index_id'' TString,
      omitempty ''Last60sWindowedAverage15min'' ''last_60s_windowed_average_15min'' ty_CfbenchmarksAvgData,
      always ''ReceivedAt'' ''received_at'' TInt]"

lemma wf_CfbenchmarksValueData [simp]: "wf_type ty_CfbenchmarksValueData" "\<not> nilable ty_CfbenchmarksValueData" "go_name ty_CfbenchmarksValueData = ''CfbenchmarksValueData''"
  by (simp_all add: ty_CfbenchmarksValueData_def)

definition ty_CfbenchmarksValueIndexlistData :: gotype where
  "ty_CfbenchmarksValueIndexlistData = TStruct ''CfbenchmarksValueIndexlistData''
     [always ''IndexIds'' ''index_ids'' (TSlice TString)]"

lemma wf_CfbenchmarksValueIndexlistData [simp]: "wf_type ty_CfbenchmarksValueIndexlistData" "\<not> nilable ty_CfbenchmarksValueIndexlistData" "go_name ty_CfbenchmarksValueIndexlistData = ''CfbenchmarksValueIndexlistData''"
  by (simp_all add: ty_CfbenchmarksValueIndexlistData_def)

definition ty_EventFeeUpdateData :: gotype where
  "ty_EventFeeUpdateData = TStruct ''EventFeeUpdateData''
     [always ''EventTicker'' ''event_ticker'' TString,
      always ''FeeMultiplierOverride'' ''fee_multiplier_override'' (TPtr TFloat64),
      always ''FeeTypeOverride'' ''fee_type_override'' (TPtr FeeType)]"

lemma wf_EventFeeUpdateData [simp]: "wf_type ty_EventFeeUpdateData" "\<not> nilable ty_EventFeeUpdateData" "go_name ty_EventFeeUpdateData = ''EventFeeUpdateData''"
  by (simp_all add: ty_EventFeeUpdateData_def)

definition ty_EventLifecycleData :: gotype where
  "ty_EventLifecycleData = TStruct ''EventLifecycleData''
     [always ''CollateralReturnType'' ''collateral_return_type'' CollateralReturnType,
      always ''EventTicker'' ''event_ticker'' TString,
      always ''ExchangeIndex'' ''exchange_index'' TInt,
      always ''SeriesTicker'' ''series_ticker'' TString,
      omitempty ''StrikeDate'' ''strike_date'' TInt64,
      omitempty ''StrikePeriod'' ''strike_period'' TString,
      always ''Subtitle'' ''subtitle'' TString,
      always ''Title'' ''title'' TString]"

lemma wf_EventLifecycleData [simp]: "wf_type ty_EventLifecycleData" "\<not> nilable ty_EventLifecycleData" "go_name ty_EventLifecycleData = ''EventLifecycleData''"
  by (simp_all add: ty_EventLifecycleData_def)

definition ty_FillData :: gotype where
  "ty_FillData = TStruct ''FillData''
     [always ''Action'' ''action'' Action,
      always ''BookSide'' ''book_side'' BookSide,
      omitempty ''ClientOrderID'' ''client_order_id'' TString,
      always ''CountFP'' ''count_fp'' TString,
      always ''ExchangeIndex'' ''exchange_index'' TInt,
      always ''FeeCost'' ''fee_cost'' TString,
      always ''IsTaker'' ''is_taker'' TBool,
      always ''MarketTicker'' ''market_ticker'' TString,
      always ''OrderID'' ''order_id'' TString,
      always ''OutcomeSide'' ''outcome_side'' Side,
      always ''PostPositionFP'' ''post_position_fp'' TString,
      always ''PurchasedSide'' ''purchased_side'' Side,
      always ''Side'' ''side'' Side,
      omitempty ''Subaccount'' ''subaccount'' TInt,
      always ''TradeID'' ''trade_id'' TString,
      always ''TS'' ''ts'' TInt64,
      always ''TSMs'' ''ts_ms'' TInt64,
      always ''YesPriceDollars'' ''yes_price_dollars'' TString]"

lemma wf_FillData [simp]: "wf_type ty_FillData" "\<not> nilable ty_FillData" "go_name ty_FillData = ''FillData''"
  by (simp_all add: ty_FillData_def)

definition ty_MarketLifecycleV2Data :: gotype where
  "ty_MarketLifecycleV2Data = TStruct ''MarketLifecycleV2Data''
     [omitempty ''AdditionalMetadata'' ''additional_metadata'' (TPtr ty_MarketLifecycleAdditionalMetadata),
      omitempty ''CapStrike'' ''cap_strike'' TFloat64,
      omitempty ''CloseTS'' ''close_ts'' TInt64,
      omitempty ''CustomStrike'' ''custom_strike'' (TMap TAny),
      omitempty ''DeterminationTS'' ''determination_ts'' TInt64,
      always ''EventType'' ''event_type'' MarketLifecycleEventType,
      omitempty ''ExchangeIndex'' ''exchange_index'' TInt,
      omitempty ''FloorStrike'' ''floor_strike'' TFloat64,
      omitempty ''IsDeactivated'' ''is_deactivated'' (TPtr TBool),
      always ''MarketTicker'' ''market_ticker'' TString,
      omitempty ''OpenTS'' ''open_ts'' TInt64,
      omitempty ''PriceLevelStructure'' ''price_level_structure'' TString,
      omitempty ''PriceRanges'' ''price_ranges'' (TSlice (TMap TAny)),
      omitempty ''Result'' ''result'' TString,
      omitempty ''SettledTS'' ''settled_ts'' TInt64,
      omitempty ''SettlementValue'' ''settlement_value'' TString,
      omitempty ''StrikeType'' ''strike_type'' TString,
      omitempty ''YesSubTitle'' ''yes_sub_title'' TString]"

lemma wf_MarketLifecycleV2Data [simp]: "wf_type ty_MarketLifecycleV2Data" "\<not> nilable ty_MarketLifecycleV2Data" "go_name ty_MarketLifecycleV2Data = ''MarketLifecycleV2Data''"
  by (simp_all add: ty_MarketLifecycleV2Data_def)

definition ty_MarketPositionData :: gotype where
  "ty_MarketPositionData = TStruct ''MarketPositionData''
     [always ''FeesPaidDollars'' ''fees_paid_dollars'' TString,
      always ''MarketTicker'' ''market_ticker'' TString,
      always ''PositionCostDollars'' ''position_cost_dollars'' TString,
      always ''PositionFeeCostDollars'' ''position_fee_cost_dollars'' TString,
      always ''PositionFP'' ''position_fp'' TString,
      always ''RealizedPnlDollars'' ''realized_pnl_dollars'' TString,
      omitempty ''Subaccount'' ''subaccount'' TInt,
      always ''UserID'' ''user_id'' TString,
      always ''VolumeFP'' ''volume_fp'' TString]"

lemma wf_MarketPositionData [simp]: "wf_type ty_MarketPositionData" "\<not> nilable ty_MarketPositionData" "go_name ty_MarketPositionData = ''MarketPositionData''"
  by (simp_all add: ty_MarketPositionData_def)

definition ty_MultivariateMarketLifecycleData :: gotype where
  "ty_MultivariateMarketLifecycleData = TStruct ''MultivariateMarketLifecycleData''
     [omitempty ''AdditionalMetadata'' ''additional_metadata'' (TMap TAny),
      omitempty ''CloseTS'' ''close_ts'' TInt64,
      omitempty ''DeterminationTS'' ''determination_ts'' TInt64,
      always ''EventType'' ''event_type'' TString,
      omitempty ''ExchangeIndex'' ''exchange_index'' TInt,
      omitempty ''IsDeactivated'' ''is_deactivated'' TBool,
      always ''MarketTicker'' ''market_ticker'' TString,
      omitempty ''OpenTS'' ''open_ts'' TInt64,
      omitempty ''PriceLevelStructure'' ''price_level_structure'' TString,
      omitempty ''Result'' ''result'' TString,
      omitempty ''SettledTS'' ''settled_ts'' TInt64,
      omitempty ''SettlementValue'' ''settlement_value'' TString]"

lemma wf_MultivariateMarketLifecycleData [simp]: "wf_type ty_MultivariateMarketLifecycleData" "\<not> nilable ty_MultivariateMarketLifecycleData" "go_name ty_MultivariateMarketLifecycleData = ''MultivariateMarketLifecycleData''"
  by (simp_all add: ty_MultivariateMarketLifecycleData_def)

definition ty_OrderGroupUpdateData :: gotype where
  "ty_OrderGroupUpdateData = TStruct ''OrderGroupUpdateData''
     [omitempty ''ContractsLimitFP'' ''contracts_limit_fp'' TString,
      always ''EventType'' ''event_type'' OrderGroupEventType,
      always ''OrderGroupID'' ''order_group_id'' TString,
      always ''TSMs'' ''ts_ms'' TInt64]"

lemma wf_OrderGroupUpdateData [simp]: "wf_type ty_OrderGroupUpdateData" "\<not> nilable ty_OrderGroupUpdateData" "go_name ty_OrderGroupUpdateData = ''OrderGroupUpdateData''"
  by (simp_all add: ty_OrderGroupUpdateData_def)

definition ty_OrderbookDeltaData :: gotype where
  "ty_OrderbookDeltaData = TStruct ''OrderbookDeltaData''
     [omitempty ''ClientOrderID'' ''client_order_id'' TString,
      always ''DeltaFP'' ''delta_fp'' TString,
      always ''MarketID'' ''market_id'' TString,
      always ''MarketTicker'' ''market_ticker'' TString,
      always ''PriceDollars'' ''price_dollars'' TString,
      always ''Side'' ''side'' Side,
      omitempty ''Subaccount'' ''subaccount'' TInt,
      omitempty ''TS'' ''ts'' TString,
      omitempty ''TSMs'' ''ts_ms'' TInt64]"

lemma wf_OrderbookDeltaData [simp]: "wf_type ty_OrderbookDeltaData" "\<not> nilable ty_OrderbookDeltaData" "go_name ty_OrderbookDeltaData = ''OrderbookDeltaData''"
  by (simp_all add: ty_OrderbookDeltaData_def)

definition ty_OrderbookSnapshotData :: gotype where
  "ty_OrderbookSnapshotData = TStruct ''OrderbookSnapshotData''
     [always ''MarketID'' ''market_id'' TString,
      always ''MarketTicker'' ''market_ticker'' TString,
      omitempty ''NoDollarsFP'' ''no_dollars_fp'' (TSlice (TSlice TString)),
      omitempty ''YesDollarsFP'' ''yes_dollars_fp'' (TSlice (TSlice TString))]"

lemma wf_OrderbookSnapshotData [simp]: "wf_type ty_OrderbookSnapshotData" "\<not> nilable ty_OrderbookSnapshotData" "go_name ty_OrderbookSnapshotData = ''OrderbookSnapshotData''"
  by (simp_all add: ty_OrderbookSnapshotData_def)

definition ty_PythValueData :: gotype where
  "ty_PythValueData = TStruct ''PythValueData''
     [always ''ReceivedAt'' ''received_at'' TInt,
      always ''SourceTSMs'' ''source_ts_ms'' TInt,
      always ''UnderlyingTicker'' ''underlying_ticker'' TString,
      always ''ValueUsd'' ''value_usd'' TString]"

lemma wf_PythValueData [simp]: "wf_type ty_PythValueData" "\<not> nilable ty_PythValueData" "go_name ty_PythValueData = ''PythValueData''"
  by (simp_all add: ty_PythValueData_def)

definition ty_PythValueUnderlyingListData :: gotype where
  "ty_PythValueUnderlyingListData = TStruct ''PythValueUnderlyingListData''
     [always ''UnderlyingTickers'' ''underlying_tickers'' (TSlice TString)]"

lemma wf_PythValueUnderlyingListData [simp]: "wf_type ty_PythValueUnderlyingListData" "\<not> nilable ty_PythValueUnderlyingListData" "go_name ty_PythValueUnderlyingListData = ''PythValueUnderlyingListData''"
  by (simp_all add: ty_PythValueUnderlyingListData_def)

definition ty_QuoteAcceptedData :: gotype where
  "ty_QuoteAcceptedData = TStruct ''QuoteAcceptedData''
     [omitempty ''AcceptedSide'' ''accepted_side'' Side,
      omitempty ''ContractsAcceptedFP'' ''contracts_accepted_fp'' TString,
      omitempty ''EventTicker'' ''event_ticker'' TString,
      always ''MarketTicker'' ''market_ticker'' TString,
      always ''NoBidDollars'' ''no_bid_dollars'' TString,
      omitempty ''NoContractsOfferedFP'' ''no_contracts_offered_fp'' TString,
      always ''QuoteCreatorID'' ''quote_creator_id'' TString,
      always ''QuoteID'' ''quote_id'' TString,
      omitempty ''RFQCreatorID'' ''rfq_creator_id'' TString,
      always ''RFQID'' ''rfq_id'' TString,
      omitempty ''RFQTargetCostDollars'' ''rfq_target_cost_dollars'' TString,
      omitempty ''Subaccount'' ''subaccount'' TInt,
      always ''YesBidDollars'' ''yes_bid_dollars'' TString,
      omitempty ''YesContractsOfferedFP'' ''yes_contracts_offered_fp'' TString]"

lemma wf_QuoteAcceptedData [simp]: "wf_type ty_QuoteAcceptedData" "\<not> nilable ty_QuoteAcceptedData" "go_name ty_QuoteAcceptedData = ''QuoteAcceptedData''"
  by (simp_all add: ty_QuoteAcceptedData_def)

definition ty_QuoteCreatedData :: gotype where
  "ty_QuoteCreatedData = TStruct ''QuoteCreatedData''
     [always ''CreatedTS'' ''created_ts'' TString,
      omitempty ''EventTicker'' ''event_ticker'' TString,
      always ''MarketTicker'' ''market_ticker'' TString,
      always ''NoBidDollars'' ''no_bid_dollars'' TString,
      omitempty ''NoContractsOfferedFP'' ''no_contracts_offered_fp'' TString,
      always ''QuoteCreatorID'' ''quote_creator_id'' TString,
      always ''QuoteID'' ''quote_id'' TString,
      omitempty ''RFQCreatorID'' ''rfq_creator_id'' TString,
      always ''RFQID'' ''rfq_id'' TString,
      omitempty ''RFQTargetCostDollars'' ''rfq_target_cost_dollars'' TString,
      omitempty ''Subaccount'' ''subaccount'' TInt,
      always ''YesBidDollars'' ''yes_bid_dollars'' TString,
      omitempty ''YesContractsOfferedFP'' ''yes_contracts_offered_fp'' TString]"

lemma wf_QuoteCreatedData [simp]: "wf_type ty_QuoteCreatedData" "\<not> nilable ty_QuoteCreatedData" "go_name ty_QuoteCreatedData = ''QuoteCreatedData''"
  by (simp_all add: ty_QuoteCreatedData_def)

definition ty_QuoteExecutedData :: gotype where
  "ty_QuoteExecutedData = TStruct ''QuoteExecutedData''
     [always ''ClientOrderID'' ''client_order_id'' TString,
      always ''ExecutedTS'' ''executed_ts'' TString,
      always ''MarketTicker'' ''market_ticker'' TString,
      always ''OrderID'' ''order_id'' TString,
      always ''QuoteCreatorID'' ''quote_creator_id'' TString,
      always ''QuoteID'' ''quote_id'' TString,
      always ''RFQCreatorID'' ''rfq_creator_id'' TString,
      always ''RFQID'' ''rfq_id'' TString,
      omitempty ''Subaccount'' ''subaccount'' TInt]"

lemma wf_QuoteExecutedData [simp]: "wf_type ty_QuoteExecutedData" "\<not> nilable ty_QuoteExecutedData" "go_name ty_QuoteExecutedData = ''QuoteExecutedData''"
  by (simp_all add: ty_QuoteExecutedData_def)

definition ty_RFQCreatedData :: gotype where
  "ty_RFQCreatedData = TStruct ''RFQCreatedData''
     [omitempty ''ContractsFP'' ''contracts_fp'' TString,
      always ''CreatedTS'' ''created_ts'' TString,
      always ''CreatorID'' ''creator_id'' TString,
      omitempty ''EventTicker'' ''event_ticker'' TString,
      always ''ID'' ''id'' TString,
      always ''MarketTicker'' ''market_ticker'' TString,
      omitempty ''MVECollectionTicker'' ''mve_collection_ticker'' TString,
      omitempty ''MVESelectedLegs'' ''mve_selected_legs'' (TSlice ty_MveSelectedLeg),
      omitempty ''TargetCostDollars'' ''target_cost_dollars'' TString]"

lemma wf_RFQCreatedData [simp]: "wf_type ty_RFQCreatedData" "\<not> nilable ty_RFQCreatedData" "go_name ty_RFQCreatedData = ''RFQCreatedData''"
  by (simp_all add: ty_RFQCreatedData_def)

definition ty_RFQDeletedData :: gotype where
  "ty_RFQDeletedData = TStruct ''RFQDeletedData''
     [omitempty ''ContractsFP'' ''contracts_fp'' TString,
      always ''CreatorID'' ''creator_id'' TString,
      always ''DeletedTS'' ''deleted_ts'' TString,
      omitempty ''EventTicker'' ''event_ticker'' TString,
      always ''ID'' ''id'' TString,
      always ''MarketTicker'' ''market_ticker'' TString,
      omitempty ''TargetCostDollars'' ''target_cost_dollars'' TString]"

lemma wf_RFQDeletedData [simp]: "wf_type ty_RFQDeletedData" "\<not> nilable ty_RFQDeletedData" "go_name ty_RFQDeletedData = ''RFQDeletedData''"
  by (simp_all add: ty_RFQDeletedData_def)

definition ty_TickerData :: gotype where
  "ty_TickerData = TStruct ''TickerData''
     [always ''DollarOpenInterest'' ''dollar_open_interest'' TInt,
      always ''DollarVolume'' ''dollar_volume'' TInt,
      always ''LastTradeSizeFP'' ''last_trade_size_fp'' TString,
      always ''MarketID'' ''market_id'' TString,
      always ''MarketTicker'' ''market_ticker'' TString,
      always ''OpenInterestFP'' ''open_interest_fp'' TString,
      always ''PriceDollars'' ''price_dollars'' TString,
      always ''Time'' ''time'' TString,
      always ''TS'' ''ts'' TInt64,
      always ''TSMs'' ''ts_ms'' TInt64,
      always ''VolumeFP'' ''volume_fp'' TString,
      always ''YesAskDollars'' ''yes_ask_dollars'' TString,
      always ''YesAskSizeFP'' ''yes_ask_size_fp'' TString,
      always ''YesBidDollars'' ''yes_bid_dollars'' TString,
      always ''YesBidSizeFP'' ''yes_bid_size_fp'' TString]"

lemma wf_TickerData [simp]: "wf_type ty_TickerData" "\<not> nilable ty_TickerData" "go_name ty_TickerData = ''TickerData''"
  by (simp_all add: ty_TickerData_def)

definition ty_TradeData :: gotype where
  "ty_TradeData = TStruct ''TradeData''
     [always ''CountFP'' ''count_fp'' TString,
      always ''IsBlockTrade'' ''is_block_trade'' TBool,
      always ''MarketTicker'' ''market_ticker'' TString,
      always ''NoPriceDollars'' ''no_price_dollars'' TString,
      always ''TakerBookSide'' ''taker_book_side'' BookSide,
      always ''TakerOutcomeSide'' ''taker_outcome_side'' Side,
      always ''TakerSide'' ''taker_side'' Side,
      always ''TradeID'' ''trade_id'' TString,
      always ''TS'' ''ts'' TInt64,
      always ''TSMs'' ''ts_ms'' TInt64,
      always ''YesPriceDollars'' ''yes_price_dollars'' TString]"

lemma wf_TradeData [simp]: "wf_type ty_TradeData" "\<not> nilable ty_TradeData" "go_name ty_TradeData = ''TradeData''"
  by (simp_all add: ty_TradeData_def)

definition ty_UserOrderData :: gotype where
  "ty_UserOrderData = TStruct ''UserOrderData''
     [always ''BookSide'' ''book_side'' BookSide,
      always ''ClientOrderID'' ''client_order_id'' TString,
      always ''CreatedTime'' ''created_time'' TString,
      always ''CreatedTSMs'' ''created_ts_ms'' TInt64,
      always ''ExchangeIndex'' ''exchange_index'' TInt,
      omitempty ''ExpirationTime'' ''expiration_time'' TString,
      omitempty ''ExpirationTSMs'' ''expiration_ts_ms'' TInt64,
      always ''FillCountFP'' ''fill_count_fp'' TString,
      always ''InitialCountFP'' ''initial_count_fp'' TString,
      always ''IsYes'' ''is_yes'' TBool,
      omitempty ''LastUpdateTime'' ''last_update_time'' TString,
      omitempty ''LastUpdatedTSMs'' ''last_updated_ts_ms'' TInt64,
      always ''MakerFeesDollars'' ''maker_fees_dollars'' TString,
      always ''MakerFillCostDollars'' ''maker_fill_cost_dollars'' TString,
      omitempty ''OrderGroupID'' ''order_group_id'' TString,
      always ''OrderID'' ''order_id'' TString,
      always ''OutcomeSide'' ''outcome_side'' Side,
      always ''RemainingCountFP'' ''remaining_count_fp'' TString,
      omitempty ''SelfTradePreventionType'' ''self_trade_prevention_type'' STPType,
      always ''Side'' ''side'' Side,
      always ''Status'' ''status'' OrderStatus,
      omitempty ''SubaccountNumber'' ''subaccount_number'' TInt,
      always ''TakerFeesDollars'' ''taker_fees_dollars'' TString,
      always ''TakerFillCostDollars'' ''taker_fill_cost_dollars'' TString,
      always ''Ticker'' ''ticker'' TString,
      always ''UserID'' ''user_id'' TString,
      always ''YesPriceDollars'' ''yes_price_dollars'' TString]"

lemma wf_UserOrderData [simp]: "wf_type ty_UserOrderData" "\<not> nilable ty_UserOrderData" "go_name ty_UserOrderData = ''UserOrderData''"
  by (simp_all add: ty_UserOrderData_def)

section \<open>The table\<close>

definition ws_types :: "(string \<times> gotype) list" where
  "ws_types =
     [(''WSCommand'', ty_WSCommand),
      (''SubscribeParams'', ty_SubscribeParams),
      (''UnsubscribeParams'', ty_UnsubscribeParams),
      (''UpdateSubParams'', ty_UpdateSubParams),
      (''SubscribedBody'', ty_SubscribedBody),
      (''OkBody'', ty_OkBody),
      (''WSErrorBody'', ty_WSErrorBody),
      (''CfbenchmarksAvgData'', ty_CfbenchmarksAvgData),
      (''MarketLifecycleAdditionalMetadata'', ty_MarketLifecycleAdditionalMetadata),
      (''CfbenchmarksValue5HzData'', ty_CfbenchmarksValue5HzData),
      (''CfbenchmarksValue5HzIndexlistData'', ty_CfbenchmarksValue5HzIndexlistData),
      (''CfbenchmarksValueData'', ty_CfbenchmarksValueData),
      (''CfbenchmarksValueIndexlistData'', ty_CfbenchmarksValueIndexlistData),
      (''EventFeeUpdateData'', ty_EventFeeUpdateData),
      (''EventLifecycleData'', ty_EventLifecycleData),
      (''FillData'', ty_FillData),
      (''MarketLifecycleV2Data'', ty_MarketLifecycleV2Data),
      (''MarketPositionData'', ty_MarketPositionData),
      (''MultivariateMarketLifecycleData'', ty_MultivariateMarketLifecycleData),
      (''OrderGroupUpdateData'', ty_OrderGroupUpdateData),
      (''OrderbookDeltaData'', ty_OrderbookDeltaData),
      (''OrderbookSnapshotData'', ty_OrderbookSnapshotData),
      (''PythValueData'', ty_PythValueData),
      (''PythValueUnderlyingListData'', ty_PythValueUnderlyingListData),
      (''QuoteAcceptedData'', ty_QuoteAcceptedData),
      (''QuoteCreatedData'', ty_QuoteCreatedData),
      (''QuoteExecutedData'', ty_QuoteExecutedData),
      (''RFQCreatedData'', ty_RFQCreatedData),
      (''RFQDeletedData'', ty_RFQDeletedData),
      (''TickerData'', ty_TickerData),
      (''TradeData'', ty_TradeData),
      (''UserOrderData'', ty_UserOrderData)]"

end
