(* ===== verification/TypesProps.thy ===== *)
theory TypesProps
  imports WSMessageTypes EndpointProps "HOL-Library.Sublist"
begin

text \<open>
  The generated types on the wire: the value an application passes to a call is what the server
  decodes from every request sent for it, and a value a call returns has the Go type the method
  declares, whatever text the server sent.
\<close>

section \<open>Every described type\<close>

lemma api_types_wf: "list_all (\<lambda>e. wf_type (snd e)) api_types"
  by (simp add: api_types_def)

lemma ws_types_wf: "list_all (\<lambda>e. wf_type (snd e)) ws_types"
  by (simp add: ws_types_def)

lemma table_wf: "(n, t) \<in> set (api_types @ ws_types) \<Longrightarrow> wf_type t"
  using api_types_wf ws_types_wf by (auto simp: list_all_iff)

text \<open>The decoders the endpoint methods use: those of the table.\<close>

definition api_decoders :: "goval decoders" where
  "api_decoders T = (case map_of api_types T of
      Some t \<Rightarrow> (decode t, zero t)
    | None \<Rightarrow> (\<lambda>v j. (v, True), VNil))"

section \<open>Requests\<close>

lemma request_body:
  assumes "run_endpoint decs env run c e = (res, reqs, c')" and "q \<in> set reqs"
    and "ac_body (endpoint_call e) = Some (JsonBody j)"
  shows "rq_body q = Some (json_print j)"
proof -
  let ?a = "endpoint_call e"
  obtain o' where d: "do_request env run c (ac_method ?a) (ac_path ?a) (ac_readCost ?a) (ac_writeCost ?a)
      (ac_units ?a) (ac_body ?a) (ac_params ?a) = (o', reqs, c')"
    using run_endpoint_do [OF assms(1)] by auto
  have "reqs \<noteq> []" using assms(2) by auto
  then have "do_loop env c (ac_method ?a) (ac_path ?a) (buildURL (baseURL c) (ac_path ?a) (ac_params ?a))
      (Some (json_print j)) 0 (hr_attempts run) = (o', reqs)"
    using d assms(3)
    by (auto simp: do_request_def Marshal_def Let_def split: prod.splits acq_result.splits)
  with assms(2) show ?thesis using do_loop_same [of q] by (metis snd_conv)
qed

text \<open>The type of the request that each method takes, as its signature declares it.\<close>

fun market_request :: "market_op \<Rightarrow> gotype option" where
  "market_request (Call_CreateMarketInMultivariateEventCollection ticker req) =
     Some ty_CreateMarketInMultivariateEventCollectionRequest"
| "market_request m = None"

fun trading_request :: "trading_op \<Rightarrow> gotype option" where
  "trading_request (Call_CreateOrderV2 req) = Some ty_CreateOrderV2Request"
| "trading_request (Call_BatchCreateOrdersV2 req) = Some ty_BatchCreateOrdersV2Request"
| "trading_request (Call_BatchCancelOrdersV2 req) = Some ty_BatchCancelOrdersV2Request"
| "trading_request (Call_AmendOrderV2 orderID req) = Some ty_AmendOrderV2Request"
| "trading_request (Call_DecreaseOrderV2 orderID req) = Some ty_DecreaseOrderV2Request"
| "trading_request (Call_CreateOrderGroup req) = Some ty_CreateOrderGroupRequest"
| "trading_request (Call_UpdateOrderGroupLimit groupID req params) = Some ty_UpdateOrderGroupLimitRequest"
| "trading_request (Call_CreateRFQ req) = Some ty_CreateRFQRequest"
| "trading_request (Call_CreateQuote req) = Some ty_CreateQuoteRequest"
| "trading_request (Call_AcceptQuote quoteID req) = Some ty_AcceptQuoteRequest"
| "trading_request (Call_AcceptRFQQuote rfqID quoteID req) = Some ty_AcceptQuoteRequest"
| "trading_request (Call_ConfirmRFQQuote rfqID quoteID) = Some (TStruct [] [])"
| "trading_request (Call_ProposeBlockTrade req) = Some ty_ProposeBlockTradeRequest"
| "trading_request (Call_AcceptBlockTradeProposal proposalID req) = Some ty_AcceptBlockTradeProposalRequest"
| "trading_request t = None"

fun account_request :: "account_op \<Rightarrow> gotype option" where
  "account_request (Call_UpdateSubaccountNetting req) = Some ty_UpdateSubaccountNettingRequest"
| "account_request (Call_ApplySubaccountTransfer req) = Some ty_ApplySubaccountTransferRequest"
| "account_request (Call_SetTargetBalanceAllocation req) = Some ty_SetTargetBalanceAllocationRequest"
| "account_request (Call_IntraExchangeInstanceTransfer req) = Some ty_IntraExchangeInstanceTransferRequest"
| "account_request (Call_CreateAPIKey req) = Some ty_CreateApiKeyRequest"
| "account_request (Call_GenerateAPIKey req) = Some ty_GenerateApiKeyRequest"
| "account_request a = None"

primrec op_request :: "api_op \<Rightarrow> gotype option" where
  "op_request (MarketOp m) = market_request m"
| "op_request (TradingOp t) = trading_request t"
| "op_request (AccountOp a) = account_request a"

text \<open>These are the methods that send a body, and no other.\<close>

lemma op_request_body: "op_request op = None \<longleftrightarrow> ac_body (op_call op) = None"
proof -
  have "market_request m = None \<longleftrightarrow> ac_body (op_call (MarketOp m)) = None" for m
    by (cases m; simp add: op_call_def call_defs market_endpoint_defs)
  moreover have "trading_request t = None \<longleftrightarrow> ac_body (op_call (TradingOp t)) = None" for t
    by (cases t; simp add: op_call_def call_defs trading_endpoint_defs)
  moreover have "account_request a = None \<longleftrightarrow> ac_body (op_call (AccountOp a)) = None" for a
    by (cases a; simp add: op_call_def call_defs account_endpoint_defs)
  ultimately show ?thesis by (cases op) (simp_all only: op_request.simps)
qed

lemma request_wf: "op_request op = Some t \<Longrightarrow> wf_type t"
proof -
  assume "op_request op = Some t"
  then have "t = TStruct [] [] \<or> t \<in> set (map snd api_types)"
    unfolding api_types_def list.map snd_conv
    by (cases op rule: api_op.exhaust; auto elim!: market_request.elims trading_request.elims account_request.elims)
  then show ?thesis using api_types_wf by (auto simp: list_all_iff)
qed

text \<open>C28: Every request sent for a call with a typed body, retries included, carries a text from
  which a decoder for the type that the method takes gets exactly the value the application passed,
  if that value is canonical: it holds no floats (no request type has any), the keys of its maps are
  listed in order, and what \<open>omitempty\<close> drops from it is a zero value. A slice that is empty but not
  nil, in a field with \<open>omitempty\<close>, is not canonical: it is dropped and comes back as nil.\<close>

theorem request_body_roundtrip:
  assumes "run_endpoint decs env run c (op_endpoint op) = (res, reqs, c')" and "q \<in> set reqs"
    and "op_request op = Some t" and "has_type t v" and "canonical t v"
    and "encode t v = Some j" and "ac_body (op_call op) = Some (JsonBody j)"
  shows "\<exists>s. rq_body q = Some s \<and> unmarshal_into t s = Some v"
proof -
  have "rq_body q = Some (json_print j)"
    by (rule request_body [OF assms(1,2)]) (use assms(7) in \<open>simp add: op_call_def\<close>)
  moreover obtain s where "marshal t v = Some s" "unmarshal_into t s = Some v"
    using unmarshal_marshal [OF request_wf [OF assms(3)] assms(4,5)] by blast
  ultimately show ?thesis using assms(6) by (auto simp: marshal_def)
qed

text \<open>Without the condition it fails: the empty list of scopes of a new key comes back as nil.\<close>

lemma empty_scopes_lost:
  "\<exists>s. has_type ty_CreateApiKeyRequest (VStruct [VString [], VString ''n'', VString ''k'', VSlice [], VInt 0])
     \<and> marshal ty_CreateApiKeyRequest (VStruct [VString [], VString ''n'', VString ''k'', VSlice [], VInt 0]) = Some s
     \<and> unmarshal_into ty_CreateApiKeyRequest s
         = Some (VStruct [VString [], VString ''n'', VString ''k'', VNil, VInt 0])"
proof -
  let ?v = "VStruct [VString [], VString ''n'', VString ''k'', VSlice [], VInt 0]"
  let ?j = "JObj [(''name'', JStr ''n''), (''public_key'', JStr ''k'')]"
  have "has_type ty_CreateApiKeyRequest ?v"
    by (simp add: ty_CreateApiKeyRequest_def in_int64_def)
  moreover have "marshal ty_CreateApiKeyRequest ?v = Some (json_print ?j)"
    by (simp add: marshal_def ty_CreateApiKeyRequest_def is_empty_def del: json_print.simps)
  moreover have "unmarshal_into ty_CreateApiKeyRequest (json_print ?j)
      = Some (VStruct [VString [], VString ''n'', VString ''k'', VNil, VInt 0])"
    by (simp add: unmarshal_into_def json_parse_print decode_struct ty_CreateApiKeyRequest_def
        decode_field_def field_index_def struct_fields_def del: json_print.simps)
  ultimately show ?thesis by blast
qed

lemma demo_put:
  "\<exists>q c'. do_request demo_env \<lparr>hr_rounds = one_round, hr_attempts = [answer 200 body]\<rparr>
      demo_client ''PUT'' p 0 10 1 (Some (JsonBody j)) ps = (Returned (Inr body), [q], c')"
proof -
  obtain q where "buildAuthRequest demo_env 7 demo_client ''PUT'' p (buildURL (baseURL demo_client) p ps)
      (Some (json_print j)) = Inr q"
    using demo_build by blast
  moreover have "resolveCosts demo_client ''PUT'' p 0 10 1 = (0, 10)"
    by (simp add: resolveCosts_def demo_client_def fmul_def)
  moreover obtain b where "Acquire one_round 0 10 (limiter demo_client) = (Acquired, b)"
    by (simp add: demo_client_def one_round_def Acquire_def default_simps tryAcquireOrWait_def Let_def refill_def
        fsub_def canProceed_def consume_def)
  ultimately show ?thesis
    by (simp add: do_request_def Marshal_def answer_def executeRequest_def finish_response_def)
qed

lemma request_body_roundtrip_witness:
  "let op = TradingOp (Call_AcceptQuote ''q1'' (JsonBody (JObj [(''accepted_side'', JStr ''yes'')])));
       run = \<lparr>hr_rounds = one_round, hr_attempts = [answer 200 ''{}'']\<rparr>
   in \<exists>res q c' s. run_endpoint api_decoders demo_env run demo_client (op_endpoint op) = (res, [q], c')
        \<and> rq_body q = Some s \<and> unmarshal_into ty_AcceptQuoteRequest s = Some (VStruct [VString ''yes''])"
proof -
  let ?j = "JObj [(''accepted_side'', JStr ''yes'')]"
  let ?op = "TradingOp (Call_AcceptQuote ''q1'' (JsonBody ?j))"
  let ?run = "\<lparr>hr_rounds = one_round, hr_attempts = [answer 200 ''{}'']\<rparr>"
  obtain res reqs c' where r: "run_endpoint api_decoders demo_env ?run demo_client (op_endpoint ?op) = (res, reqs, c')"
    by (metis prod_cases3)
  obtain q c2 where "do_request demo_env ?run demo_client ''PUT'' (ac_path (op_call ?op)) 0 10 1
      (Some (JsonBody ?j)) [] = (Returned (Inr ''{}''), [q], c2)" using demo_put by blast
  then have reqs: "reqs = [q]" using run_endpoint_do [OF r]
    by (auto simp: op_call_def AcceptQuote_def put_call_def)
  have b: "ac_body (op_call ?op) = Some (JsonBody ?j)" by (simp add: op_call_def AcceptQuote_def put_call_def)
  have m: "op_request ?op = Some ty_AcceptQuoteRequest" by simp
  have v: "has_type ty_AcceptQuoteRequest (VStruct [VString ''yes''])"
    "canonical ty_AcceptQuoteRequest (VStruct [VString ''yes''])"
    "encode ty_AcceptQuoteRequest (VStruct [VString ''yes'']) = Some ?j"
    by (simp_all add: ty_AcceptQuoteRequest_def)
  have "q \<in> set reqs" by (simp add: reqs)
  from request_body_roundtrip [OF r this m v b] obtain s
    where "rq_body q = Some s" "unmarshal_into ty_AcceptQuoteRequest s = Some (VStruct [VString ''yes''])" by blast
  with r reqs show ?thesis unfolding Let_def by blast
qed

section \<open>Responses\<close>

lemma Unmarshal_into: "Unmarshal (decode t) (zero t) s = Inr v \<longleftrightarrow> unmarshal_into t s = Some v"
  by (auto simp: Unmarshal_def unmarshal_into_def split: option.splits prod.splits)

definition result_type :: "endpoint \<Rightarrow> string option" where
  "result_type e = (case e of Decodes T a \<Rightarrow> Some T | ErrorOnly a \<Rightarrow> None)"

text \<open>The types of the table, and those the endpoint methods return, in the same order.\<close>

definition api_names :: "string list" where
  "api_names =
     [''CreateApiKeyRequest'', ''CreateApiKeyResponse'', ''GenerateApiKeyRequest'',
      ''GenerateApiKeyResponse'', ''ApiKey'', ''GetApiKeysResponse'', ''ApiUsageLevelGrant'',
      ''BucketLimit'', ''GetAccountApiLimitsResponse'', ''AccountApiUsageLevelVolumeGoal'',
      ''AccountApiUsageLevelVolumeProgress'', ''GetAccountApiUsageLevelVolumeProgressResponse'',
      ''EndpointTokenCost'', ''GetAccountEndpointCostsResponse'',
      ''AcceptBlockTradeProposalRequest'', ''AcceptQuoteRequest'', ''CreateQuoteRequest'',
      ''CreateQuoteResponse'', ''CreateRFQRequest'', ''CreateRFQResponse'', ''EmptyResponse'',
      ''BlockTradeProposal'', ''GetBlockTradeProposalsResponse'',
      ''GetCommunicationsIDResponse'', ''Quote'', ''GetQuoteResponse'', ''GetQuotesResponse'',
      ''MveSelectedLeg'', ''RFQ'', ''GetRFQResponse'', ''GetRFQsResponse'',
      ''ProposeBlockTradeRequest'', ''ProposeBlockTradeResponse'', ''AmendOrderRequest'',
      ''Order'', ''AmendOrderResponse'', ''AssociatedEvent'', ''ErrorResponse'',
      ''BatchCancelOrdersIndividualResponse'', ''BatchCancelOrdersRequestOrder'',
      ''BatchCancelOrdersRequest'', ''BatchCancelOrdersResponse'',
      ''BatchCreateOrdersIndividualResponse'', ''CreateOrderRequest'',
      ''BatchCreateOrdersRequest'', ''BatchCreateOrdersResponse'', ''BidAskDistribution'',
      ''PriceDistribution'', ''MarketCandlestick'', ''MarketCandlesticksResponse'',
      ''BidAskDistributionHistorical'', ''TickerPair'', ''PriceRange'', ''Market'',
      ''CreateOrderResponse'', ''DailySchedule'', ''Deposit'', ''SettlementSource'',
      ''EventData'', ''EventFeeChange'', ''EventLiveData'', ''EventPosition'',
      ''ExchangeIndexStatus'', ''Fill'', ''PercentilePoint'', ''ForecastPercentilesPoint'',
      ''IndexedBalance'', ''MarketMetadata'', ''Milestone'', ''MaintenanceWindow'',
      ''WeeklySchedule'', ''Schedule'', ''PlayByPlay'', ''IncentiveProgram'',
      ''IntraExchangeInstanceTransfer'', ''LiveData'', ''PriceDistributionHistorical'',
      ''MarketCandlestickHistorical'', ''OrderbookCountFp'', ''MarketOrderbookFp'',
      ''MultivariateEventCollection'', ''OrderGroup'', ''OrderQueuePosition'',
      ''MarketPosition'', ''SeriesFeeChange'', ''Series'', ''Settlement'', ''StructuredTarget'',
      ''SubaccountBalance'', ''SubaccountNettingConfig'', ''SubaccountTransfer'',
      ''TargetBalanceAllocation'', ''Trade'', ''WeatherIndexCalibrationStation'',
      ''WeatherIndexCalibration'', ''WeatherIndexStationReading'', ''WeatherIndexPoint'',
      ''Withdrawal'', ''ScopeList'', ''TargetBalanceAllocationInput'', ''SportFilterDetails'',
      ''AmendOrderV2Request'', ''AmendOrderV2Response'', ''BatchCancelOrdersV2Request'',
      ''BatchCancelOrdersV2Response'', ''CreateOrderV2Request'', ''BatchCreateOrdersV2Request'',
      ''BatchCreateOrdersV2Response'', ''CancelOrderV2Response'', ''CreateOrderV2Response'',
      ''DecreaseOrderV2Request'', ''DecreaseOrderV2Response'', ''GetEventFeeChangesResponse'',
      ''GetEventMetadataResponse'', ''GetEventResponse'', ''GetEventsResponse'',
      ''GetMultivariateEventsResponse'', ''ExchangeStatus'', ''GetExchangeScheduleResponse'',
      ''GetUserDataTimestampResponse'', ''GetOrdersResponse'', ''GetPositionsResponse'',
      ''GetFillsResponse'', ''GetHistoricalCutoffResponse'',
      ''GetMarketCandlesticksHistoricalResponse'', ''GetMarketResponse'',
      ''GetMarketsResponse'', ''GetTradesResponse'', ''GetIncentiveProgramsResponse'',
      ''GetEventLiveDataResponse'', ''GetGameStatsResponse'', ''GetLiveDataResponse'',
      ''GetLiveDatasResponse'', ''GetWeatherIndexCalibrationsResponse'',
      ''GetWeatherIndexResponse'', ''BatchGetMarketCandlesticksResponse'',
      ''GetMarketOrderbookResponse'', ''GetMarketOrderbooksResponse'', ''GetMilestoneResponse'',
      ''GetMilestonesResponse'', ''CreateMarketInMultivariateEventCollectionRequest'',
      ''CreateMarketInMultivariateEventCollectionResponse'',
      ''GetMultivariateEventCollectionResponse'', ''GetMultivariateEventCollectionsResponse'',
      ''CreateOrderGroupRequest'', ''CreateOrderGroupResponse'', ''GetOrderGroupResponse'',
      ''GetOrderGroupsResponse'', ''UpdateOrderGroupLimitRequest'',
      ''GetOrderQueuePositionResponse'', ''GetOrderQueuePositionsResponse'',
      ''GetOrderResponse'', ''GetBalanceResponse'', ''GetDepositsResponse'',
      ''GetIntraExchangeInstanceTransferResponse'',
      ''GetIntraExchangeInstanceTransfersResponse'',
      ''GetPortfolioRestingOrderTotalValueResponse'', ''GetSettlementsResponse'',
      ''GetTargetBalanceAllocationResponse'', ''GetWithdrawalsResponse'',
      ''IntraExchangeInstanceTransferRequest'', ''IntraExchangeInstanceTransferResponse'',
      ''SetTargetBalanceAllocationRequest'', ''GetFiltersBySportsResponse'',
      ''GetTagsForSeriesCategoriesResponse'', ''GetEventCandlesticksResponse'',
      ''GetEventForecastPercentilesHistoryResponse'', ''GetMarketCandlesticksResponse'',
      ''GetSeriesFeeChangesResponse'', ''GetSeriesListResponse'', ''GetSeriesResponse'',
      ''GetStructuredTargetResponse'', ''GetStructuredTargetsResponse'',
      ''ApplySubaccountTransferRequest'', ''ApplySubaccountTransferResponse'',
      ''CreateSubaccountRequest'', ''CreateSubaccountResponse'',
      ''GetSubaccountBalancesResponse'', ''GetSubaccountNettingResponse'',
      ''GetSubaccountTransfersResponse'', ''UpdateSubaccountNettingRequest'']"

definition result_names :: "string list" where
  "result_names =
     [''CreateApiKeyResponse'', ''GenerateApiKeyResponse'', ''GetApiKeysResponse'',
      ''GetAccountApiLimitsResponse'', ''GetAccountApiUsageLevelVolumeProgressResponse'',
      ''GetAccountEndpointCostsResponse'', ''CreateQuoteResponse'', ''CreateRFQResponse'',
      ''EmptyResponse'', ''GetBlockTradeProposalsResponse'', ''GetCommunicationsIDResponse'',
      ''GetQuoteResponse'', ''GetQuotesResponse'', ''GetRFQResponse'', ''GetRFQsResponse'',
      ''ProposeBlockTradeResponse'', ''AmendOrderV2Response'', ''BatchCancelOrdersV2Response'',
      ''BatchCreateOrdersV2Response'', ''CancelOrderV2Response'', ''CreateOrderV2Response'',
      ''DecreaseOrderV2Response'', ''GetEventFeeChangesResponse'', ''GetEventMetadataResponse'',
      ''GetEventResponse'', ''GetEventsResponse'', ''GetMultivariateEventsResponse'',
      ''ExchangeStatus'', ''GetExchangeScheduleResponse'', ''GetUserDataTimestampResponse'',
      ''GetOrdersResponse'', ''GetPositionsResponse'', ''GetFillsResponse'',
      ''GetHistoricalCutoffResponse'', ''GetMarketCandlesticksHistoricalResponse'',
      ''GetMarketResponse'', ''GetMarketsResponse'', ''GetTradesResponse'',
      ''GetIncentiveProgramsResponse'', ''GetEventLiveDataResponse'', ''GetGameStatsResponse'',
      ''GetLiveDataResponse'', ''GetLiveDatasResponse'',
      ''GetWeatherIndexCalibrationsResponse'', ''GetWeatherIndexResponse'',
      ''BatchGetMarketCandlesticksResponse'', ''GetMarketOrderbookResponse'',
      ''GetMarketOrderbooksResponse'', ''GetMilestoneResponse'', ''GetMilestonesResponse'',
      ''CreateMarketInMultivariateEventCollectionResponse'',
      ''GetMultivariateEventCollectionResponse'', ''GetMultivariateEventCollectionsResponse'',
      ''CreateOrderGroupResponse'', ''GetOrderGroupResponse'', ''GetOrderGroupsResponse'',
      ''GetOrderQueuePositionResponse'', ''GetOrderQueuePositionsResponse'',
      ''GetOrderResponse'', ''GetBalanceResponse'', ''GetDepositsResponse'',
      ''GetIntraExchangeInstanceTransferResponse'',
      ''GetIntraExchangeInstanceTransfersResponse'',
      ''GetPortfolioRestingOrderTotalValueResponse'', ''GetSettlementsResponse'',
      ''GetTargetBalanceAllocationResponse'', ''GetWithdrawalsResponse'',
      ''IntraExchangeInstanceTransferResponse'', ''GetFiltersBySportsResponse'',
      ''GetTagsForSeriesCategoriesResponse'', ''GetEventCandlesticksResponse'',
      ''GetEventForecastPercentilesHistoryResponse'', ''GetMarketCandlesticksResponse'',
      ''GetSeriesFeeChangesResponse'', ''GetSeriesListResponse'', ''GetSeriesResponse'',
      ''GetStructuredTargetResponse'', ''GetStructuredTargetsResponse'',
      ''ApplySubaccountTransferResponse'', ''CreateSubaccountResponse'',
      ''GetSubaccountBalancesResponse'', ''GetSubaccountNettingResponse'',
      ''GetSubaccountTransfersResponse'']"

lemma map_fst_api_types: "map fst api_types = api_names"
  by (simp only: api_types_def api_names_def list.map fst_conv)

lemma subseq_take: "subseq xs ys \<Longrightarrow> subseq (x # xs) (x # ys)"
  by simp

lemma result_names_subseq: "subseq result_names api_names"
  unfolding result_names_def api_names_def
  by (rule list_emb_Nil | rule subseq_take | rule list_emb_Cons)+

definition declared_result :: "endpoint \<Rightarrow> bool" where
  "declared_result e \<longleftrightarrow> (case result_type e of None \<Rightarrow> True | Some T \<Rightarrow> T \<in> set result_names)"

lemma market_results: "declared_result (op_endpoint (MarketOp m))"
  by (cases m; simp add: declared_result_def result_names_def result_type_def market_endpoint_defs)

lemma trading_results: "declared_result (op_endpoint (TradingOp t))"
  by (cases t; simp add: declared_result_def result_names_def result_type_def trading_endpoint_defs)

lemma account_results: "declared_result (op_endpoint (AccountOp a))"
  by (cases a; simp add: declared_result_def result_names_def result_type_def account_endpoint_defs)

lemma op_results: "declared_result (op_endpoint op)"
  by (cases op) (simp_all only: market_results trading_results account_results)

lemma api_types_named: "list_all (\<lambda>e. go_name (snd e) = fst e) api_types"
  by (simp add: api_types_def)

lemma result_in_table:
  assumes "op_endpoint op = Decodes T a"
  shows "\<exists>t. map_of api_types T = Some t \<and> go_name t = T"
proof -
  have "T \<in> set result_names" using op_results [of op] by (simp add: declared_result_def result_type_def assms)
  then have "T \<in> set (map fst api_types)"
    unfolding map_fst_api_types by (rule list_emb_set [OF result_names_subseq]) simp
  then obtain t where t: "map_of api_types T = Some t" by (metis list.set_map map_of_eq_None_iff not_None_eq)
  with api_types_named show ?thesis by (auto simp: list_all_iff dest!: map_of_SomeD)
qed

text \<open>C29: A value that an endpoint method returns has the Go type the method declares, a type of the
  generated table, and is what the body of the server's answer decodes to: a body with a value of
  the wrong kind in it is an error, never a value.\<close>

theorem endpoint_result_typed:
  assumes "run_endpoint api_decoders env run c (op_endpoint op) = (Returned (Inr (Some v)), reqs, c')"
  shows "\<exists>T a t raw. op_endpoint op = Decodes T a \<and> map_of api_types T = Some t \<and> go_name t = T
    \<and> has_type t v \<and> unmarshal_into t raw = Some v
    \<and> do_request env run c (ac_method a) (ac_path a) (ac_readCost a) (ac_writeCost a) (ac_units a)
         (ac_body a) (ac_params a) = (Returned (Inr raw), reqs, c')"
proof (cases "op_endpoint op")
  case (ErrorOnly a)
  with assms show ?thesis
    by (auto simp: run_endpoint_def split: prod.splits outcome.splits sum.splits)
next
  case (Decodes T a)
  obtain t where t: "map_of api_types T = Some t" "go_name t = T" using result_in_table [OF Decodes] by blast
  then have dec: "api_decoders T = (decode t, zero t)" by (simp add: api_decoders_def)
  obtain raw where raw: "do_request env run c (ac_method a) (ac_path a) (ac_readCost a) (ac_writeCost a) (ac_units a)
         (ac_body a) (ac_params a) = (Returned (Inr raw), reqs, c')" "Unmarshal (decode t) (zero t) raw = Inr v"
    using assms
    by (auto simp: Decodes run_endpoint_def dec doJSON_call_def doJSON_def res_simps
        split: prod.splits outcome.splits sum.splits)
  then have "unmarshal_into t raw = Some v" by (simp add: Unmarshal_into)
  with raw(1) t unmarshal_typed show ?thesis using Decodes by blast
qed

lemma map_of_hit: "map_of ((k, v) # m) k = Some v"
  by simp

lemma map_of_skip: "k \<noteq> k' \<Longrightarrow> map_of m k = r \<Longrightarrow> map_of ((k', v) # m) k = r"
  by simp

lemma demo_timestamp:
  "unmarshal_into ty_GetUserDataTimestampResponse (json_print (JObj [(''as_of_time'', JStr ''now'')]))
     = Some (VStruct [VString ''now''])"
  by (simp add: unmarshal_into_def json_parse_print decode_struct ty_GetUserDataTimestampResponse_def
      decode_field_def field_index_def struct_fields_def del: json_print.simps)

lemma endpoint_result_typed_witness:
  "\<exists>v reqs c'. run_endpoint api_decoders demo_env
       \<lparr>hr_rounds = one_round, hr_attempts = [answer 200 (json_print (JObj [(''as_of_time'', JStr ''now'')]))]\<rparr>
       demo_client (op_endpoint (MarketOp Call_GetUserDataTimestamp)) = (Returned (Inr (Some v)), reqs, c')
     \<and> v = VStruct [VString ''now''] \<and> (\<exists>t. map_of api_types ''GetUserDataTimestampResponse'' = Some t \<and> has_type t v)"
proof -
  let ?body = "json_print (JObj [(''as_of_time'', JStr ''now'')])"
  let ?run = "\<lparr>hr_rounds = one_round, hr_attempts = [answer 200 ?body]\<rparr>"
  let ?op = "MarketOp Call_GetUserDataTimestamp"
  let ?p = "pathExchange @ ''/user_data_timestamp''"
  obtain q c' where d: "do_request demo_env ?run demo_client ''GET'' ?p 10 0 1 None [] = (Returned (Inr ?body), [q], c')"
    using demo_get by blast
  have t: "map_of api_types ''GetUserDataTimestampResponse'' = Some ty_GetUserDataTimestampResponse"
    unfolding api_types_def by (rule map_of_hit | (rule map_of_skip, simp))+
  have "Unmarshal (decode ty_GetUserDataTimestampResponse) (zero ty_GetUserDataTimestampResponse) ?body
      = Inr (VStruct [VString ''now''])"
    by (simp only: Unmarshal_into demo_timestamp)
  then have r: "run_endpoint api_decoders demo_env ?run demo_client (op_endpoint ?op)
      = (Returned (Inr (Some (VStruct [VString ''now'']))), [q], c')"
    using d by (simp add: run_endpoint_def GetUserDataTimestamp_def getJSON_call_def doJSON_call_def doJSON_def
        api_decoders_def t)
  from endpoint_result_typed [OF r] show ?thesis using r
    by (auto simp: GetUserDataTimestamp_def)
qed

end
