(* ===== verification/WSWire.thy ===== *)
theory WSWire
  imports WSMessageTypes WSProps GenWSTypes
begin

text \<open>
  The WebSocket commands on the wire. \<open>WSTypes\<close> writes the encoding of the command structs out
  field by field; here that encoding is shown to be the one reflection gives for the struct types
  of \<open>ws_messages_generated.go\<close>, so that the server decodes from a command exactly the
  parameters the client put into it. The error codes of the same file are those the generator
  names.
\<close>

section \<open>Error codes\<close>

definition ws_error_codes :: "(string \<times> goint) list" where
  "ws_error_codes =
     [(''WSErrUnableToProcess'', 1),
      (''WSErrParamsRequired'', 2),
      (''WSErrChannelsRequired'', 3),
      (''WSErrSIDsRequired'', 4),
      (''WSErrUnknownCommand'', 5),
      (''WSErrUnknownSID'', 7),
      (''WSErrUnknownChannel'', 8),
      (''WSErrAuthRequired'', 9),
      (''WSErrChannelError'', 10),
      (''WSErrInvalidParam'', 11),
      (''WSErrExactlyOneSID'', 12),
      (''WSErrUnsupportedAction'', 13),
      (''WSErrMarketTickerReq'', 14),
      (''WSErrActionRequired'', 15),
      (''WSErrCommandTimeout'', 18),
      (''WSErrShardFactorPositive'', 19),
      (''WSErrShardFactorRequired'', 20),
      (''WSErrShardKeyRange'', 21),
      (''WSErrShardFactorTooLarge'', 22),
      (''WSErrMatchIDsRequired'', 23),
      (''WSErrIndexIDsRequired'', 24),
      (''WSErrSubBufferOverflow'', 25),
      (''WSErrSubscriptionLimit'', 26),
      (''WSErrTooManyRequests'', 27),
      (''WSErrUnderlyingTickersRequired'', 28)]"

text \<open>Whatever names the specification gives these codes, the generator writes these constants.\<close>

lemma ws_error_codes_generated:
  "list_all (\<lambda>(n, c). \<forall>name d. error_code_name \<lparr>ec_Code = c, ec_Name = name, ec_Description = d\<rparr> = n) ws_error_codes"
  by (simp add: ws_error_codes_def error_code_name_def errorCodeNames_def)

lemma ws_error_codes_distinct: "distinct (map snd ws_error_codes)" "distinct (map fst ws_error_codes)"
  by (simp_all add: ws_error_codes_def)

section \<open>The parameters of the commands\<close>

text \<open>The encoding of a struct, field by field.\<close>

definition encode_field :: "gofield \<Rightarrow> goval \<Rightarrow> (string \<times> json) list option" where
  "encode_field f v = (if fl_OmitEmpty f \<and> is_empty v then Some []
     else map_option (\<lambda>j. [(fl_Key f, j)]) (encode (fl_Type f) v))"

lemma encode_struct:
  assumes "length vs = length fs"
  shows "encode (TStruct n fs) (VStruct vs) = map_option (\<lambda>kvs. JObj (concat kvs)) (those (map2 encode_field fs vs))"
proof -
  have "map2 encode_field fs vs = map (\<lambda>i. encode_field (fs ! i) (vs ! i)) [0..<length fs]"
    using assms by (intro nth_equalityI) auto
  then show ?thesis by (simp add: encode_field_def)
qed

definition strings_val :: "string list \<Rightarrow> goval" where
  "strings_val ss = VSlice (map VString ss)"

definition ints_val :: "goint list \<Rightarrow> goval" where
  "ints_val is = VSlice (map VInt is)"

text \<open>A slice of an omitted field is nil.\<close>

definition opt_val :: "('a list \<Rightarrow> goval) \<Rightarrow> 'a list \<Rightarrow> goval" where
  "opt_val f xs = (if xs = [] then VNil else f xs)"

lemma those_strings [simp]: "those (map (encode TString \<circ> VString) ss) = Some (map JStr ss)"
  by (induction ss) simp_all

lemma those_ints [simp]: "those (map (encode TInt \<circ> VInt) is) = Some (map JInt is)"
  by (induction "is") simp_all

lemma encode_field_simps:
  "encode_field (Field n k False TString) (VString s) = Some [(k, JStr s)]"
  "encode_field (Field n k False (TSlice TString)) (strings_val ss) = Some [(k, j_strings ss)]"
  "encode_field (Field n k False (TSlice TInt)) (ints_val is) = Some [(k, j_ints is)]"
  "encode_field (Field n k True TString) (VString s) = Some (opt_str k s)"
  "encode_field (Field n k True TInt) (VInt i) = Some (opt_int k i)"
  "encode_field (Field n k True TBool) (VBool b) = Some (opt_bool k b)"
  "encode_field (Field n k True (TSlice TString)) (opt_val strings_val ss) = Some (opt_strs k ss)"
  "encode_field (Field n k True (TSlice TInt)) (opt_val ints_val is) = Some (opt_ints k is)"
  by (auto simp: encode_field_def is_empty_def strings_val_def ints_val_def opt_val_def j_strings_def j_ints_def
      opt_str_def opt_int_def opt_bool_def opt_strs_def opt_ints_def)

definition SubscribeParams_val :: "SubscribeParams \<Rightarrow> goval" where
  "SubscribeParams_val p = VStruct
     [strings_val (sp_Channels p), opt_val strings_val (sp_IndexIds p), VString (sp_MarketID p),
      opt_val strings_val (sp_MarketIds p), VString (sp_MarketTicker p), opt_val strings_val (sp_MarketTickers p),
      VBool (sp_SendInitialSnapshot p), VInt (sp_ShardFactor p), VInt (sp_ShardKey p), VBool (sp_SkipTickerAck p),
      opt_val strings_val (sp_UnderlyingTickers p), VBool (sp_UseYesPrice p)]"

definition UnsubscribeParams_val :: "UnsubscribeParams \<Rightarrow> goval" where
  "UnsubscribeParams_val p = VStruct [ints_val (up_SIDs p)]"

definition UpdateSubParams_val :: "UpdateSubParams \<Rightarrow> goval" where
  "UpdateSubParams_val p = VStruct
     [VString (us_Action p), opt_val strings_val (us_IndexIds p), VString (us_MarketID p),
      opt_val strings_val (us_MarketIds p), VString (us_MarketTicker p), opt_val strings_val (us_MarketTickers p),
      VBool (us_SendInitialSnapshot p), VInt (us_SID p), opt_val ints_val (us_SIDs p)]"

definition params_type :: "ws_params \<Rightarrow> gotype" where
  "params_type p = (case p of PSubscribe s \<Rightarrow> ty_SubscribeParams | PUnsubscribe u \<Rightarrow> ty_UnsubscribeParams
     | PUpdate u \<Rightarrow> ty_UpdateSubParams)"

definition params_val :: "ws_params \<Rightarrow> goval" where
  "params_val p = (case p of PSubscribe s \<Rightarrow> SubscribeParams_val s | PUnsubscribe u \<Rightarrow> UnsubscribeParams_val u
     | PUpdate u \<Rightarrow> UpdateSubParams_val u)"

definition params_json :: "ws_params \<Rightarrow> json" where
  "params_json p = (case p of PSubscribe s \<Rightarrow> SubscribeParams_json s | PUnsubscribe u \<Rightarrow> UnsubscribeParams_json u
     | PUpdate u \<Rightarrow> UpdateSubParams_json u)"

lemma encode_SubscribeParams: "encode ty_SubscribeParams (SubscribeParams_val p) = Some (SubscribeParams_json p)"
  by (simp add: ty_SubscribeParams_def SubscribeParams_val_def SubscribeParams_json_def encode_struct
      encode_field_simps del: encode.simps)

lemma encode_UnsubscribeParams:
  "encode ty_UnsubscribeParams (UnsubscribeParams_val p) = Some (UnsubscribeParams_json p)"
  by (simp add: ty_UnsubscribeParams_def UnsubscribeParams_val_def UnsubscribeParams_json_def encode_struct
      encode_field_simps del: encode.simps)

lemma encode_UpdateSubParams: "encode ty_UpdateSubParams (UpdateSubParams_val p) = Some (UpdateSubParams_json p)"
  by (simp add: ty_UpdateSubParams_def UpdateSubParams_val_def UpdateSubParams_json_def encode_struct
      encode_field_simps del: encode.simps)

lemma encode_params: "encode (params_type p) (params_val p) = Some (params_json p)"
  by (simp add: params_type_def params_val_def params_json_def encode_SubscribeParams encode_UnsubscribeParams
      encode_UpdateSubParams split: ws_params.split)

text \<open>Integers a Go \<open>int\<close> can hold.\<close>

definition params_in_range :: "ws_params \<Rightarrow> bool" where
  "params_in_range p = (case p of
      PSubscribe s \<Rightarrow> in_int64 (sp_ShardFactor s) \<and> in_int64 (sp_ShardKey s)
    | PUnsubscribe u \<Rightarrow> list_all in_int64 (up_SIDs u)
    | PUpdate u \<Rightarrow> in_int64 (us_SID u) \<and> list_all in_int64 (us_SIDs u))"

lemma slice_vals:
  "has_type (TSlice TString) (strings_val ss)" "has_type (TSlice TString) (opt_val strings_val ss)"
  "list_all in_int64 is \<Longrightarrow> has_type (TSlice TInt) (ints_val is)"
  "list_all in_int64 is \<Longrightarrow> has_type (TSlice TInt) (opt_val ints_val is)"
  "canonical (TSlice TString) (strings_val ss)" "canonical (TSlice TString) (opt_val strings_val ss)"
  "canonical (TSlice TInt) (ints_val is)" "canonical (TSlice TInt) (opt_val ints_val is)"
  "is_empty (opt_val strings_val ss) \<longleftrightarrow> opt_val strings_val ss = VNil"
  "is_empty (opt_val ints_val is) \<longleftrightarrow> opt_val ints_val is = VNil"
  by (auto simp: strings_val_def ints_val_def opt_val_def list_all_iff is_empty_def)

lemma params_wf: "wf_type (params_type p)"
  by (simp add: params_type_def split: ws_params.split)

lemma params_typed: "params_in_range p \<Longrightarrow> has_type (params_type p) (params_val p)"
  by (auto simp: params_in_range_def params_type_def params_val_def ty_SubscribeParams_def SubscribeParams_val_def
      ty_UnsubscribeParams_def UnsubscribeParams_val_def ty_UpdateSubParams_def UpdateSubParams_val_def slice_vals
      simp del: has_type.simps(8) split: ws_params.splits)

lemma params_canonical: "canonical (params_type p) (params_val p)"
  by (auto simp: params_type_def params_val_def ty_SubscribeParams_def SubscribeParams_val_def
      ty_UnsubscribeParams_def UnsubscribeParams_val_def ty_UpdateSubParams_def UpdateSubParams_val_def slice_vals
      is_empty_def [of "VString s" for s] is_empty_def [of "VInt i" for i] is_empty_def [of "VBool b" for b]
      simp del: canonical.simps(4) split: ws_params.splits)

text \<open>Different parameters have different values.\<close>

lemma strings_val_inj: "strings_val ss = strings_val ts \<longleftrightarrow> ss = ts"
  by (simp add: strings_val_def inj_map_eq_map inj_def)

lemma ints_val_inj: "ints_val is = ints_val js \<longleftrightarrow> is = js"
  by (simp add: ints_val_def inj_map_eq_map inj_def)

lemma opt_val_inj:
  "opt_val strings_val ss = opt_val strings_val ts \<longleftrightarrow> ss = ts"
  "opt_val ints_val is = opt_val ints_val js \<longleftrightarrow> is = js"
  by (auto simp: opt_val_def strings_val_inj ints_val_inj) (auto simp: strings_val_def ints_val_def)

lemma SubscribeParams_val_inj: "SubscribeParams_val p = SubscribeParams_val q \<Longrightarrow> p = q"
  by (simp add: SubscribeParams_val_def opt_val_inj strings_val_inj)

lemma UnsubscribeParams_val_inj: "UnsubscribeParams_val p = UnsubscribeParams_val q \<Longrightarrow> p = q"
  by (simp add: UnsubscribeParams_val_def ints_val_inj)

lemma UpdateSubParams_val_inj: "UpdateSubParams_val p = UpdateSubParams_val q \<Longrightarrow> p = q"
  by (simp add: UpdateSubParams_val_def opt_val_inj)

section \<open>The commands\<close>

text \<open>What a server that knows the protocol reads: the envelope, and with the command's name the type of
  its parameters.\<close>

definition command_type :: "string \<Rightarrow> gotype option" where
  "command_type cmd = map_of
     [(WSCmdSubscribe, ty_SubscribeParams), (WSCmdUnsubscribe, ty_UnsubscribeParams),
      (WSCmdUpdateSubscription, ty_UpdateSubParams)] cmd"

definition read_command :: "string \<Rightarrow> (goint \<times> string \<times> goval) option" where
  "read_command s = (case json_parse s of
      Some (JObj kvs) \<Rightarrow> (case (map_of kvs ''id'', map_of kvs ''cmd'', map_of kvs ''params'') of
          (Some (JNum i), Some (JStr cmd), Some ps) \<Rightarrow> (case (parse_int i, command_type cmd) of
              (Some n, Some t) \<Rightarrow> (case decode t (zero t) ps of (v, e) \<Rightarrow> if e then None else Some (n, cmd, v))
            | _ \<Rightarrow> None)
        | _ \<Rightarrow> None)
    | _ \<Rightarrow> None)"

text \<open>The client names a command after the kind of its parameters.\<close>

definition command_ok :: "WSCommand \<Rightarrow> bool" where
  "command_ok c \<longleftrightarrow> command_type (cmd_Cmd c) = Some (params_type (cmd_Params c)) \<and> params_in_range (cmd_Params c)"

lemma WSCommand_json_params: "WSCommand_json c =
  JObj [(''id'', JInt (cmd_ID c)), (''cmd'', JStr (cmd_Cmd c)), (''params'', params_json (cmd_Params c))]"
  by (simp add: WSCommand_json_def params_json_def)

lemma params_wire:
  assumes "params_in_range p"
  shows "json_ok (params_json p)" "decode (params_type p) (zero (params_type p)) (params_json p) = (params_val p, False)"
  using decode_encode [OF params_wf params_typed [OF assms] params_canonical] encode_params [of p] by auto

lemma read_command_print:
  assumes "command_ok c"
  shows "read_command (json_print (WSCommand_json c)) = Some (cmd_ID c, cmd_Cmd c, params_val (cmd_Params c))"
proof -
  have r: "params_in_range (cmd_Params c)" and t: "command_type (cmd_Cmd c) = Some (params_type (cmd_Params c))"
    using assms by (auto simp: command_ok_def)
  have "json_ok (WSCommand_json c)" by (simp add: WSCommand_json_params params_wire(1) [OF r])
  then have p: "json_parse (json_print (WSCommand_json c)) = Some (WSCommand_json c)" by (rule json_parse_print)
  show ?thesis unfolding read_command_def p
    by (simp add: WSCommand_json_params JInt_def parse_int_Itoa t params_wire(2) [OF r])
qed

section \<open>What the client sends\<close>

lemma loss_fold_trace [simp]:
  "ws_trace (foldl (\<lambda>c (name, x). upd_state x f c) c m) = ws_trace c"
  by (induction m arbitrary: c) (auto simp: case_prod_unfold)

lemma section_trace: "e \<in> set (ws_trace c) \<Longrightarrow> e \<in> set (ws_trace (run_section x c))"
  by (cases x) (auto simp: new_channel_def drop_channel_def Let_def
      deletePendingInitForChannel_def drop_sid_def set_global_def add_markets_def queue_markets_def
      remove_markets_def take_pending_def force_reconnect_def subscribed_enter_def
      handleOK_def check_seq_def handleUnsubscribed_def handleDataMessage_def connection_loss_def
      split: option.split)

interpretation sent_trace: guarded_steps run_section "\<lambda>c. e \<in> set (ws_trace c)"
  by unfold_locales (rule section_trace)

lemma run_sections_trace: "e \<in> set (ws_trace c) \<Longrightarrow> e \<in> set (ws_trace (run_sections xs c))"
  unfolding run_sections_fold by (rule sent_trace.run_inv)

lemma writeJSON_sent:
  assumes "writeJSON cmd wr c = (None, c')"
  shows "\<exists>k. Sent k cmd \<in> set (ws_trace (run_sections xs c'))"
proof -
  obtain k where "c' = log_event (Sent k cmd) c"
    using assms by (auto simp: writeJSON_def split: option.splits)
  then show ?thesis by (intro exI [of _ k] run_sections_trace) simp
qed

lemmas send_defs = sendSubscribe_def sendUnsubscribe_def sendUpdateSub_def

lemma sends_sent:
  "sendSubscribe w ch ts sn c = (None, c') \<Longrightarrow> \<exists>k i. Sent k (subscribe_command i ch ts sn) \<in> set (ws_trace c')"
  "sendUnsubscribe w sid c = (None, c') \<Longrightarrow> \<exists>k i. Sent k (unsubscribe_command i sid) \<in> set (ws_trace c')"
  "sendUpdateSub w sid ts act sn c = (None, c') \<Longrightarrow> \<exists>k i. Sent k (update_command i sid ts act sn) \<in> set (ws_trace c')"
  by (auto simp: send_defs Let_def split: prod.splits) (blast dest: writeJSON_sent)+

lemma commands_ok:
  "command_ok (subscribe_command i ch ts sn)"
  "in_int64 sid \<Longrightarrow> command_ok (unsubscribe_command i sid)"
  "in_int64 sid \<Longrightarrow> command_ok (update_command i sid ts act sn)"
  by (simp_all add: command_ok_def subscribe_command_def unsubscribe_command_def update_command_def
      command_type_def params_type_def params_in_range_def zero_SubscribeParams_def zero_UpdateSubParams_def
      WSCmdSubscribe_def WSCmdUnsubscribe_def WSCmdUpdateSubscription_def)

lemma commands_read:
  "read_command (json_print (WSCommand_json (subscribe_command i ch ts sn))) = Some (i, ''subscribe'',
     SubscribeParams_val (zero_SubscribeParams\<lparr>sp_Channels := [ch], sp_MarketTickers := ts, sp_SendInitialSnapshot := sn\<rparr>))"
  "in_int64 sid \<Longrightarrow> read_command (json_print (WSCommand_json (unsubscribe_command i sid)))
     = Some (i, ''unsubscribe'', UnsubscribeParams_val \<lparr>up_SIDs = [sid]\<rparr>)"
  "in_int64 sid \<Longrightarrow> read_command (json_print (WSCommand_json (update_command i sid ts act sn)))
     = Some (i, ''update_subscription'', UpdateSubParams_val (zero_UpdateSubParams\<lparr>us_SIDs := [sid],
         us_MarketTickers := ts, us_Action := act, us_SendInitialSnapshot := sn\<rparr>))"
  by (simp_all add: read_command_print commands_ok)
    (simp_all add: subscribe_command_def unsubscribe_command_def update_command_def params_val_def
      WSCmdSubscribe_def WSCmdUnsubscribe_def WSCmdUpdateSubscription_def)

lemma sent_readable:
  assumes "\<exists>k i. Sent k (f i) \<in> S" "\<And>i. R (f i) = Some (i, v)"
  shows "\<exists>k i cmd. Sent k cmd \<in> S \<and> R cmd = Some (i, v)"
  using assms by blast

text \<open>C30: A send that reports success has put on the connection a message from which the server reads
  the command's name and exactly the parameters the client was given, encoded by the struct of
  \<open>ws_messages_generated.go\<close> for it, whatever other goroutines did around the write.\<close>

theorem sent_commands_readable:
  "(sendSubscribe w ch ts sn c = (None, c') \<longrightarrow>
      (\<exists>k i cmd. Sent k cmd \<in> set (ws_trace c') \<and> read_command (json_print (WSCommand_json cmd)) = Some (i, ''subscribe'',
        SubscribeParams_val (zero_SubscribeParams\<lparr>sp_Channels := [ch], sp_MarketTickers := ts, sp_SendInitialSnapshot := sn\<rparr>))))
   \<and> (sendUnsubscribe w sid c = (None, c') \<and> in_int64 sid \<longrightarrow>
      (\<exists>k i cmd. Sent k cmd \<in> set (ws_trace c') \<and> read_command (json_print (WSCommand_json cmd))
        = Some (i, ''unsubscribe'', UnsubscribeParams_val \<lparr>up_SIDs = [sid]\<rparr>)))
   \<and> (sendUpdateSub w sid ts act sn c = (None, c') \<and> in_int64 sid \<longrightarrow>
      (\<exists>k i cmd. Sent k cmd \<in> set (ws_trace c') \<and> read_command (json_print (WSCommand_json cmd))
        = Some (i, ''update_subscription'', UpdateSubParams_val (zero_UpdateSubParams\<lparr>us_SIDs := [sid],
            us_MarketTickers := ts, us_Action := act, us_SendInitialSnapshot := sn\<rparr>))))"
  by (intro conjI impI; (elim conjE)?) (rule sent_readable, erule sends_sent, rule commands_read, assumption?)+

lemma sent_commands_readable_witness:
  "\<exists>c' k i cmd. sendUpdateSub quiet 7 [''A''] ''add_markets'' True demo_ws = (None, c')
     \<and> Sent k cmd \<in> set (ws_trace c')
     \<and> read_command (json_print (WSCommand_json cmd)) = Some (i, ''update_subscription'',
         VStruct [VString ''add_markets'', VNil, VString [], VNil, VString [], VSlice [VString ''A''], VBool True,
           VInt 0, VSlice [VInt 7]])"
proof -
  obtain c' where s: "sendUpdateSub quiet 7 [''A''] ''add_markets'' True demo_ws = (None, c')" by simp
  moreover have "in_int64 7" by (simp add: in_int64_def)
  ultimately show ?thesis
    using sent_commands_readable [where w = quiet and c = demo_ws and c' = c' and sid = 7 and ts = "[''A'']"
        and act = "''add_markets''" and sn = True]
    by (simp add: UpdateSubParams_val_def zero_UpdateSubParams_def opt_val_def strings_val_def ints_val_def)
qed

end
