(* ===== verification/GoSyntax.thy ===== *)
theory GoSyntax
  imports GenTypes
begin

text \<open>
  Go source files as \<open>go/parser\<close> hands them to the tools that read the SDK's own sources: the
  declarations with their doc comments and positions, the expressions the tools look at, and
  \<open>ast.Inspect\<close>, which visits the nodes in depth-first order. Parsing itself is an argument of
  the tools. White space is the ASCII one.
\<close>

section \<open>Syntax trees\<close>

text \<open>All syntax the tools do not tell apart is \<open>Node\<close> with its parts in source order.\<close>

datatype ast =
    Ident string
  | CallExpr ast "ast list"
  | SelectorExpr ast string
  | AssignStmt "ast list" "ast list"
  | FuncLit "ast list" ast           \<comment> \<open>the parts of its type, its body\<close>
  | Node "ast list"

fun Inspect :: "ast \<Rightarrow> ast list" where
  "Inspect (Ident n) = [Ident n]"
| "Inspect (CallExpr f as) = CallExpr f as # Inspect f @ concat (map Inspect as)"
| "Inspect (SelectorExpr x sel) = SelectorExpr x sel # Inspect x @ [Ident sel]"
| "Inspect (AssignStmt ls rs) = AssignStmt ls rs # concat (map Inspect ls) @ concat (map Inspect rs)"
| "Inspect (FuncLit ts b) = FuncLit ts b # concat (map Inspect ts) @ Inspect b"
| "Inspect (Node xs) = Node xs # concat (map Inspect xs)"

lemma Inspect_self: "n \<in> set (Inspect n)"
  by (cases n) simp_all

section \<open>Declarations\<close>

text \<open>A receiver's type; a comment group with the text of each of its comments, what \<open>Text()\<close> makes
  of it, and its offset in the file.\<close>

datatype recv_type = StarExpr recv_type | TypeIdent string | OtherType

record comment_group =
  cg_List :: "string list"
  cg_Text :: string
  cg_Pos :: nat

record func_decl =
  fd_Name :: string
  fd_Recv :: "recv_type list option"
  fd_Doc :: "comment_group option"
  fd_Pos :: nat                     \<comment> \<open>of the keyword \<open>func\<close>\<close>
  fd_Type :: "ast list"             \<comment> \<open>receiver, parameters and results\<close>
  fd_Body :: "ast option"

datatype decl = FuncDecl func_decl | OtherDecl "ast list"

type_synonym go_file = "decl list"

definition isClientReceiver :: "recv_type list option \<Rightarrow> bool" where
  "isClientReceiver recv = (case recv of Some [StarExpr (TypeIdent n)] \<Rightarrow> n = ''Client'' | _ \<Rightarrow> False)"

definition decl_nodes :: "decl \<Rightarrow> ast list" where
  "decl_nodes d = (case d of
      FuncDecl fn \<Rightarrow> concat (map Inspect (fd_Type fn)) @ (case fd_Body fn of None \<Rightarrow> [] | Some b \<Rightarrow> Inspect b)
    | OtherDecl xs \<Rightarrow> concat (map Inspect xs))"

text \<open>A file in a directory: \<open>None\<close> if it cannot be read.\<close>

record dir_entry =
  de_Name :: string
  de_IsDir :: bool
  de_Source :: "string option"

section \<open>Strings\<close>

definition TrimPrefix :: "string \<Rightarrow> string \<Rightarrow> string" where
  "TrimPrefix s p = (if HasPrefix s p then drop (length p) s else s)"

fun Contains :: "string \<Rightarrow> string \<Rightarrow> bool" where
  "Contains [] p \<longleftrightarrow> p = []"
| "Contains (c # cs) p \<longleftrightarrow> HasPrefix (c # cs) p \<or> Contains cs p"

fun split_by :: "(char \<Rightarrow> bool) \<Rightarrow> string \<Rightarrow> string list" where
  "split_by P [] = [[]]"
| "split_by P (c # cs) = (if P c then [] # split_by P cs
     else (case split_by P cs of w # ws \<Rightarrow> (c # w) # ws | [] \<Rightarrow> [[c]]))"

definition Fields :: "string \<Rightarrow> string list" where
  "Fields s = filter (\<lambda>w. w \<noteq> []) (split_by is_space s)"

definition em_dash :: string where
  "em_dash = [CHR 0xE2, CHR 0x80, CHR 0x94]"

text \<open>The word characters of a regular expression.\<close>

definition word_char :: "char \<Rightarrow> bool" where
  "word_char c \<longleftrightarrow> (let n = (of_char c :: nat) in
     (48 \<le> n \<and> n \<le> 57) \<or> (65 \<le> n \<and> n \<le> 90) \<or> (97 \<le> n \<and> n \<le> 122) \<or> n = 95)"

definition is_upper :: "char \<Rightarrow> bool" where
  "is_upper c \<longleftrightarrow> (let n = (of_char c :: nat) in 65 \<le> n \<and> n \<le> 90)"

definition http_verbs :: "string list" where
  "http_verbs = [''GET'', ''POST'', ''PUT'', ''DELETE'', ''PATCH'']"

section \<open>The package root\<close>

text \<open>
  The working directory or one of the three above it, whichever has a \<open>go.mod\<close>; \<open>None\<close> when the
  tool gives up. All tools have this function.
\<close>

fun root_above :: "(string \<Rightarrow> bool) \<Rightarrow> nat \<Rightarrow> string \<Rightarrow> string option" where
  "root_above exists_path 0 dir = None"
| "root_above exists_path (Suc n) dir =
     (let up = path_dir dir
      in if exists_path (path_join up ''go.mod'') then Some up else root_above exists_path n up)"

definition findPackageRoot :: "(string \<Rightarrow> bool) \<Rightarrow> string option \<Rightarrow> string option" where
  "findPackageRoot exists_path getwd = (case getwd of
      None \<Rightarrow> None
    | Some dir \<Rightarrow> if exists_path (path_join dir ''go.mod'') then Some dir else root_above exists_path 3 dir)"

end
