(* ===== verification/CoverageTool.thy ===== *)
theory CoverageTool
  imports GoSyntax
begin

text \<open>
  \<open>tools/generate_coverage/main.go\<close>: the tool that reads the SDK's sources and tests and writes
  \<open>docs/API_COVERAGE.md\<close>. A \<open>map[string]bool\<close> that only ever holds true is a set. The parser and
  the file system are arguments; the messages are left out.
\<close>

section \<open>Tables\<close>

record APIMethod =
  am_Name :: string
  am_Endpoint :: string
  am_File :: string
  am_Category :: string

definition fileToCategory :: "(string \<times> string) list" where
  "fileToCategory =
     [(''account.go'', ''Account''),
      (''exchange.go'', ''Exchange''),
      (''orders.go'', ''Orders''),
      (''event_orders.go'', ''Event Orders (V2)''),
      (''portfolio.go'', ''Portfolio''),
      (''summary.go'', ''Portfolio''),
      (''subaccounts.go'', ''Subaccounts''),
      (''order_groups.go'', ''Order Groups''),
      (''markets.go'', ''Markets''),
      (''events.go'', ''Events''),
      (''series.go'', ''Series''),
      (''search.go'', ''Search''),
      (''communications.go'', ''Communications''),
      (''api_keys.go'', ''API Keys''),
      (''historical.go'', ''Historical''),
      (''incentive.go'', ''Incentive Programs''),
      (''live_data.go'', ''Live Data''),
      (''milestones.go'', ''Milestones''),
      (''mve_collections.go'', ''Multivariate Event Collections''),
      (''structured_targets.go'', ''Structured Targets''),
      (''target_balance.go'', ''Portfolio''),
      (''intra_exchange.go'', ''Intra Exchange Transfers''),
      (''block_trades.go'', ''Block Trades''),
      (''fcm.go'', ''FCM'')]"

definition categoryOrder :: "string list" where
  "categoryOrder =
     [''Account'',
      ''Exchange'',
      ''Orders'',
      ''Event Orders (V2)'',
      ''Portfolio'',
      ''Subaccounts'',
      ''Order Groups'',
      ''Markets'',
      ''Events'',
      ''Series'',
      ''Search'',
      ''Communications'',
      ''API Keys'',
      ''Historical'',
      ''Incentive Programs'',
      ''Live Data'',
      ''Milestones'',
      ''Multivariate Event Collections'',
      ''Structured Targets'',
      ''Intra Exchange Transfers'',
      ''Block Trades'',
      ''FCM'']"

definition skipFiles :: "string list" where
  "skipFiles = [''client.go'', ''ws_client.go'']"

section \<open>Methods\<close>

text \<open>\<open>endpointRe.FindStringSubmatch\<close>: the verb and the path. The verbs begin differently, and none
  with white space, so the match is the first one that fits.\<close>

definition endpointRe :: "string \<Rightarrow> (string \<times> string) option" where
  "endpointRe s =
     (if \<not> HasPrefix s ''//'' then None
      else
        let t = dropWhile re_space (drop 2 s) in
        case find (HasPrefix t) http_verbs of
          None \<Rightarrow> None
        | Some verb \<Rightarrow>
            let u = drop (length verb) t; p = dropWhile re_space u in
            if u \<noteq> [] \<and> re_space (hd u) \<and> HasPrefix p ''/trade-api/'' \<and> length p > 11 \<and> CHR 0x0A \<notin> set p
            then Some (verb, p) else None)"

text \<open>\<open>strings.Replace(s, old, "", 1)\<close>.\<close>

fun remove_first :: "string \<Rightarrow> string \<Rightarrow> string" where
  "remove_first old [] = []"
| "remove_first old (c # cs) =
     (if HasPrefix (c # cs) old then drop (length old) (c # cs) else c # remove_first old cs)"

fun first_endpoint :: "string list \<Rightarrow> string" where
  "first_endpoint [] = em_dash"
| "first_endpoint (c # cs) = (case endpointRe c of
      Some (verb, path) \<Rightarrow> verb @ '' '' @ remove_first ''/trade-api/v2'' path
    | None \<Rightarrow> first_endpoint cs)"

definition extractEndpoint :: "comment_group option \<Rightarrow> string" where
  "extractEndpoint doc = (case doc of None \<Rightarrow> em_dash | Some g \<Rightarrow> first_endpoint (cg_List g))"

definition IsExported :: "string \<Rightarrow> bool" where
  "IsExported n \<longleftrightarrow> n \<noteq> [] \<and> is_upper (hd n)"

definition api_method :: "string \<Rightarrow> string \<Rightarrow> decl \<Rightarrow> APIMethod option" where
  "api_method name category d = (case d of
      OtherDecl xs \<Rightarrow> None
    | FuncDecl fn \<Rightarrow>
        if isClientReceiver (fd_Recv fn) \<and> IsExported (fd_Name fn)
        then Some \<lparr>am_Name = fd_Name fn, am_Endpoint = extractEndpoint (fd_Doc fn), am_File = name, am_Category = category\<rparr>
        else None)"

definition entry_methods :: "(string \<Rightarrow> string \<Rightarrow> go_file option) \<Rightarrow> dir_entry \<Rightarrow> APIMethod list" where
  "entry_methods parse e =
     (let name = de_Name e in
      if de_IsDir e \<or> \<not> HasSuffix name ''.go'' then []
      else if HasSuffix name ''_test.go'' \<or> HasSuffix name ''_generated.go'' then []
      else if name \<in> set skipFiles then []
      else case map_of fileToCategory name of
        None \<Rightarrow> []
      | Some category \<Rightarrow> (case Option.bind (de_Source e) (parse name) of
          None \<Rightarrow> []
        | Some decls \<Rightarrow> List.map_filter (api_method name category) decls))"

definition discoverAPIMethods :: "(string \<Rightarrow> string \<Rightarrow> go_file option) \<Rightarrow> dir_entry list \<Rightarrow> APIMethod list" where
  "discoverAPIMethods parse entries = concat (map (entry_methods parse) entries)"

section \<open>Calls in tests\<close>

definition exported_call :: "ast \<Rightarrow> string option" where
  "exported_call n = (case n of
      CallExpr (SelectorExpr (Ident x) name) args \<Rightarrow> if IsExported name then Some name else None
    | _ \<Rightarrow> None)"

definition collectCalledMethods :: "go_file \<Rightarrow> string set" where
  "collectCalledMethods decls = set (List.map_filter exported_call (concat (map decl_nodes decls)))"

text \<open>The method of a call \<open>c.Method(...)\<close>.\<close>

definition clientMethodName :: "ast \<Rightarrow> string option" where
  "clientMethodName n = (case n of
      CallExpr (SelectorExpr (Ident x) name) args \<Rightarrow> if x = ''c'' \<and> IsExported name then Some name else None
    | _ \<Rightarrow> None)"

definition extractMethodFromTestName :: "string \<Rightarrow> string" where
  "extractMethodFromTestName testName =
     (let without = TrimPrefix testName ''Test'' in
      if without = [] then []
      else if HasPrefix without ''Client_'' then []
      else if Contains without ''Params_toMap'' then []
      else if HasPrefix without ''With'' then []
      else if HasPrefix without ''APIError'' \<or> HasPrefix without ''RateLimitError'' then []
      else if CHR ''_'' \<in> set without \<and> hd without \<noteq> CHR ''_'' then before_char (CHR ''_'') without
      else without)"

text \<open>\<open>strings.SplitN\<close> on one byte: the last part is all the rest.\<close>

fun split_n :: "char \<Rightarrow> nat \<Rightarrow> string \<Rightarrow> string list" where
  "split_n c 0 s = []"
| "split_n c (Suc 0) s = [s]"
| "split_n c (Suc (Suc n)) s =
     (if c \<in> set s then before_char c s # split_n c (Suc n) (tl (dropWhile (\<lambda>x. x \<noteq> c) s)) else [s])"

definition isIntegrationFile :: "string \<Rightarrow> bool" where
  "isIntegrationFile src \<longleftrightarrow> list_ex (\<lambda>line. Contains line ''//go:build integration'') (split_n (CHR 0x0A) 5 src)"

definition test_method :: "decl \<Rightarrow> string option" where
  "test_method d = (case d of
      OtherDecl xs \<Rightarrow> None
    | FuncDecl fn \<Rightarrow>
        if fd_Recv fn \<noteq> None \<or> \<not> HasPrefix (fd_Name fn) ''Test'' then None
        else let m = extractMethodFromTestName (fd_Name fn) in if m = [] then None else Some m)"

definition unit_tests_of :: "(string \<Rightarrow> string \<Rightarrow> go_file option) \<Rightarrow> dir_entry \<Rightarrow> string set" where
  "unit_tests_of parse e =
     (if \<not> HasSuffix (de_Name e) ''_test.go'' then {}
      else case de_Source e of
        None \<Rightarrow> {}
      | Some src \<Rightarrow>
          if isIntegrationFile src then {}
          else case parse (de_Name e) src of
            None \<Rightarrow> {}
          | Some decls \<Rightarrow> set (List.map_filter test_method decls) \<union> collectCalledMethods decls)"

definition discoverUnitTests :: "(string \<Rightarrow> string \<Rightarrow> go_file option) \<Rightarrow> dir_entry list \<Rightarrow> string set" where
  "discoverUnitTests parse entries = \<Union> (set (map (unit_tests_of parse) entries))"

section \<open>Assertions in tests\<close>

text \<open>Every function body, and every body of a closure in it, is a scope.\<close>

definition closure_body :: "ast \<Rightarrow> ast option" where
  "closure_body n = (case n of FuncLit ts b \<Rightarrow> Some b | _ \<Rightarrow> None)"

definition decl_scopes :: "decl \<Rightarrow> ast list" where
  "decl_scopes d = (case d of
      OtherDecl xs \<Rightarrow> []
    | FuncDecl fn \<Rightarrow> (case fd_Body fn of None \<Rightarrow> [] | Some b \<Rightarrow> b # List.map_filter closure_body (Inspect b)))"

definition reads_or_asserts :: "ast \<Rightarrow> bool" where
  "reads_or_asserts n \<longleftrightarrow> (case n of
      CallExpr (Ident f) args \<Rightarrow> f = ''decodeBody'' \<or> f = ''isAPIErrorCode''
    | CallExpr (SelectorExpr x sel) args \<Rightarrow> sel = ''ErrorAs''
    | _ \<Rightarrow> False)"

definition bind_variable :: "string \<Rightarrow> ast \<Rightarrow> string smap \<Rightarrow> string smap" where
  "bind_variable name lhs m = (case lhs of
      Ident v \<Rightarrow> if v \<noteq> ''_'' \<and> v \<noteq> ''err'' then AList.update v name m else m
    | _ \<Rightarrow> m)"

definition bind_node :: "ast \<Rightarrow> string smap \<Rightarrow> string smap" where
  "bind_node n m = (case n of
      AssignStmt lhs [rhs] \<Rightarrow> (case clientMethodName rhs of
          None \<Rightarrow> m
        | Some name \<Rightarrow> fold (bind_variable name) lhs m)
    | _ \<Rightarrow> m)"

definition varToMethod :: "ast \<Rightarrow> string smap" where
  "varToMethod body = fold bind_node (Inspect body) []"

definition assert_args :: "ast \<Rightarrow> ast list" where
  "assert_args n = (case n of
      CallExpr (SelectorExpr (Ident pkg) sel) args \<Rightarrow> if pkg = ''assert'' then args else []
    | _ \<Rightarrow> [])"

definition ident_method :: "string smap \<Rightarrow> ast \<Rightarrow> string option" where
  "ident_method m n = (case n of Ident v \<Rightarrow> map_of m v | _ \<Rightarrow> None)"

definition scope_asserted :: "ast \<Rightarrow> string set" where
  "scope_asserted body =
     (if list_ex reads_or_asserts (Inspect body) then set (List.map_filter clientMethodName (Inspect body)) else {})
     \<union> set (List.map_filter (ident_method (varToMethod body))
         (concat (map Inspect (concat (map assert_args (Inspect body))))))"

definition collectAssertedMethods :: "go_file \<Rightarrow> string set" where
  "collectAssertedMethods decls = \<Union> (set (map scope_asserted (concat (map decl_scopes decls))))"

definition asserted_of :: "(string \<Rightarrow> string \<Rightarrow> go_file option) \<Rightarrow> dir_entry \<Rightarrow> string set" where
  "asserted_of parse e =
     (if \<not> HasSuffix (de_Name e) ''_test.go'' then {}
      else case Option.bind (de_Source e) (parse (de_Name e)) of
        None \<Rightarrow> {}
      | Some decls \<Rightarrow> collectAssertedMethods decls)"

definition discoverAssertedMethods :: "(string \<Rightarrow> string \<Rightarrow> go_file option) \<Rightarrow> dir_entry list \<Rightarrow> string set" where
  "discoverAssertedMethods parse entries = \<Union> (set (map (asserted_of parse) entries))"

section \<open>Text searches\<close>

text \<open>\<open>FindAllStringSubmatch\<close>: the leftmost matches that do not overlap. A matcher gives the submatch
  and the length of a match at the beginning; the number says how much of the last match is left.\<close>

fun find_all :: "(string \<Rightarrow> (string \<times> nat) option) \<Rightarrow> nat \<Rightarrow> string \<Rightarrow> string list" where
  "find_all re k [] = []"
| "find_all re (Suc k) (c # cs) = find_all re k cs"
| "find_all re 0 (c # cs) = (case re (c # cs) of
      None \<Rightarrow> find_all re 0 cs
    | Some (sub, n) \<Rightarrow> sub # find_all re (n - 1) cs)"

definition tRunRe :: "string \<Rightarrow> (string \<times> nat) option" where
  "tRunRe s =
     (let w = takeWhile word_char (drop 7 s); r = dropWhile word_char (drop 7 s) in
      if HasPrefix s (''t.Run('' @ [CHR 0x22]) \<and> w \<noteq> [] \<and> r \<noteq> [] \<and> hd r = CHR 0x22 then Some (w, 8 + length w) else None)"

definition methodCallRe :: "string \<Rightarrow> (string \<times> nat) option" where
  "methodCallRe s =
     (let w = takeWhile word_char (drop 2 s); r = dropWhile word_char (drop 2 s);
          sp = takeWhile re_space r; r' = dropWhile re_space r in
      if HasPrefix s ''c.'' \<and> w \<noteq> [] \<and> r' \<noteq> [] \<and> hd r' = CHR ''('' then Some (w, 3 + length w + length sp) else None)"

definition channelRe :: "string \<Rightarrow> (string \<times> nat) option" where
  "channelRe s =
     (let w = takeWhile word_char (drop 1 s); r = dropWhile word_char (drop 1 s) in
      if HasPrefix s [CHR 0x22] \<and> w \<noteq> [] \<and> r \<noteq> [] \<and> hd r = CHR 0x22 then Some (w, 2 + length w) else None)"

definition integrationFiles :: "string list" where
  "integrationFiles =
     [''http_integration_test.go'', ''http_integration_read_test.go'', ''http_integration_write_test.go'']"

definition discoverIntegrationTests :: "(string \<Rightarrow> string option) \<Rightarrow> string set" where
  "discoverIntegrationTests read = \<Union> (set (map (\<lambda>name. case read name of
      None \<Rightarrow> {}
    | Some t \<Rightarrow> set (find_all tRunRe 0 t) \<union> set (find_all methodCallRe 0 t)) integrationFiles))"

section \<open>WebSocket channels\<close>

definition add_channel :: "string list \<Rightarrow> string \<Rightarrow> string list" where
  "add_channel channels name = (if name \<in> set channels then channels else channels @ [name])"

fun scan_lines :: "bool \<Rightarrow> string list \<Rightarrow> string list \<Rightarrow> string list" where
  "scan_lines inMap channels [] = channels"
| "scan_lines inMap channels (line # rest) =
     (let trimmed = TrimSpace line in
      if Contains trimmed ''MsgTypeToChannel'' \<and> Contains trimmed ''map['' then scan_lines True channels rest
      else if inMap \<and> trimmed = ''}'' then channels
      else if \<not> inMap then scan_lines inMap channels rest
      else if CHR '':'' \<notin> set trimmed then scan_lines inMap channels rest
      else scan_lines inMap
        (foldl add_channel channels (find_all channelRe 0 (tl (dropWhile (\<lambda>c. c \<noteq> CHR '':'') trimmed)))) rest)"

definition discoverWSChannels :: "string option \<Rightarrow> string list" where
  "discoverWSChannels src = (case src of None \<Rightarrow> [] | Some s \<Rightarrow> scan_lines False [] (split_on (CHR 0x0A) s))"

definition scanFileForChannels :: "string option \<Rightarrow> string list \<Rightarrow> string set" where
  "scanFileForChannels src channels = (case src of None \<Rightarrow> {}
     | Some t \<Rightarrow> {ch \<in> set channels. Contains t ([CHR 0x22] @ ch @ [CHR 0x22])})"

section \<open>The report\<close>

definition tick :: string where "tick = [CHR 0x60]"

definition fraction :: "nat \<Rightarrow> nat \<Rightarrow> string" where
  "fraction k n = Itoa (int k) @ ''/'' @ Itoa (int n)"

definition in_category :: "APIMethod list \<Rightarrow> string \<Rightarrow> APIMethod list" where
  "in_category methods cat = filter (\<lambda>m. am_Category m = cat) methods"

definition tested :: "string set \<Rightarrow> APIMethod list \<Rightarrow> nat" where
  "tested names methods = length (filter (\<lambda>m. am_Name m \<in> names) methods)"

definition category_row :: "APIMethod list \<Rightarrow> string set \<Rightarrow> string set \<Rightarrow> string set \<Rightarrow> string \<Rightarrow> string" where
  "category_row methods unitTests integrationTests assertedTests cat =
     (let ms = in_category methods cat; n = length ms
      in ''| '' @ cat @ '' | '' @ Itoa (int n) @ '' | '' @ fraction (tested unitTests ms) n
         @ '' | '' @ fraction (tested integrationTests ms) n @ '' | '' @ fraction (tested assertedTests ms) n @ '' |'' @ nl)"

definition total :: "APIMethod list \<Rightarrow> (APIMethod list \<Rightarrow> nat) \<Rightarrow> nat" where
  "total methods cnt = sum_list (map (\<lambda>cat. cnt (in_category methods cat)) categoryOrder)"

definition total_row :: "APIMethod list \<Rightarrow> string set \<Rightarrow> string set \<Rightarrow> string set \<Rightarrow> string" where
  "total_row methods unitTests integrationTests assertedTests =
     (let n = total methods length
      in ''| **Total** | **'' @ Itoa (int n) @ ''** | **'' @ fraction (total methods (tested unitTests)) n
         @ ''** | **'' @ fraction (total methods (tested integrationTests)) n
         @ ''** | **'' @ fraction (total methods (tested assertedTests)) n @ ''** |'' @ nl @ nl)"

definition mark :: "string set \<Rightarrow> string set \<Rightarrow> APIMethod \<Rightarrow> string" where
  "mark tests assertedTests m =
     (if am_Name m \<in> tests \<and> am_Name m \<in> assertedTests then ''Y''
      else if am_Name m \<in> tests then ''~'' else em_dash)"

definition method_row :: "string set \<Rightarrow> string set \<Rightarrow> string set \<Rightarrow> APIMethod \<Rightarrow> string" where
  "method_row unitTests integrationTests assertedTests m =
     ''| '' @ tick @ am_Name m @ tick @ '' | '' @ tick @ am_Endpoint m @ tick @ '' | ''
     @ mark unitTests assertedTests m @ '' | '' @ mark integrationTests assertedTests m @ '' | |'' @ nl"

definition category_table :: "APIMethod list \<Rightarrow> string set \<Rightarrow> string set \<Rightarrow> string set \<Rightarrow> string \<Rightarrow> string" where
  "category_table methods unitTests integrationTests assertedTests cat =
     (let ms = in_category methods cat in
      if ms = [] then []
      else ''### '' @ cat @ nl @ nl
        @ ''| Method | Endpoint | Unit | Integration | Notes |'' @ nl
        @ ''|--------|----------|:----:|:-----------:|-------|'' @ nl
        @ concat (map (method_row unitTests integrationTests assertedTests) ms) @ nl)"

definition channel_row :: "string set \<Rightarrow> string set \<Rightarrow> string \<Rightarrow> string" where
  "channel_row wsUnitTests wsIntegrationTests ch =
     ''| '' @ tick @ ch @ tick @ '' | '' @ (if ch \<in> wsUnitTests then ''Y'' else em_dash)
     @ '' | '' @ (if ch \<in> wsIntegrationTests then ''Y'' else em_dash) @ '' | |'' @ nl"

definition channel_table :: "string list \<Rightarrow> string set \<Rightarrow> string set \<Rightarrow> string" where
  "channel_table wsChannels wsUnitTests wsIntegrationTests =
     (if wsChannels = [] then []
      else ''## WebSocket Channels'' @ nl @ nl
        @ ''| Channel | Unit | Integration | Notes |'' @ nl
        @ ''|---------|:----:|:-----------:|-------|'' @ nl
        @ concat (map (channel_row wsUnitTests wsIntegrationTests) wsChannels) @ nl)"

definition preamble :: string where
  "preamble =
     ''# API Coverage'' @ nl @ nl
     @ ''> Auto-generated by '' @ tick @ ''go run ./tools/generate_coverage'' @ tick
     @ ''. Do not edit manually.'' @ nl @ nl
     @ ''## Summary'' @ nl @ nl
     @ tick @ ''Y'' @ tick @ '' the endpoint is exercised **and** something about it is asserted. ''
     @ tick @ ''~'' @ tick @ '' it is called, but no assertion verifies the request or response. ''
     @ tick @ em_dash @ tick @ '' no test.'' @ nl @ nl
     @ ''The '' @ tick @ ''Asserted'' @ tick
     @ '' column is the one worth reading: a method counts as ''
     @ ''tested merely by being called, so a test that invokes an endpoint and ''
     @ ''checks nothing scores the same in '' @ tick @ ''Unit'' @ tick
     @ '' as one that verifies the ''
     @ ''request body and decodes the response.'' @ nl @ nl
     @ ''| Category | Endpoints | Unit Tests | Integration Tests | Asserted |'' @ nl
     @ ''|----------|:---------:|:----------:|:-----------------:|:--------:|'' @ nl"

definition generateMarkdown ::
  "APIMethod list \<Rightarrow> string set \<Rightarrow> string set \<Rightarrow> string set \<Rightarrow> string list \<Rightarrow> string set \<Rightarrow> string set \<Rightarrow> string" where
  "generateMarkdown methods unitTests integrationTests assertedTests wsChannels wsUnitTests wsIntegrationTests =
     preamble
     @ concat (map (category_row methods unitTests integrationTests assertedTests) categoryOrder)
     @ total_row methods unitTests integrationTests assertedTests
     @ ''## HTTP Endpoints'' @ nl @ nl
     @ concat (map (category_table methods unitTests integrationTests assertedTests) categoryOrder)
     @ channel_table wsChannels wsUnitTests wsIntegrationTests"

text \<open>The run: the text of the report.\<close>

definition coverage_main :: "(string \<Rightarrow> string \<Rightarrow> go_file option) \<Rightarrow> (string \<Rightarrow> string option) \<Rightarrow> dir_entry list \<Rightarrow> string" where
  "coverage_main parse read entries =
     (let wsChannels = discoverWSChannels (read ''ws_messages_generated.go'')
      in generateMarkdown (discoverAPIMethods parse entries) (discoverUnitTests parse entries)
           (discoverIntegrationTests read) (discoverAssertedMethods parse entries) wsChannels
           (scanFileForChannels (read ''ws_client_test.go'') wsChannels)
           (scanFileForChannels (read ''ws_integration_test.go'') wsChannels))"

end
