(* ===== verification/GodocSync.thy ===== *)
theory GodocSync
  imports GoSyntax
begin

text \<open>
  \<open>tools/sync_godoc/main.go\<close>: the tool that rewrites the doc comments of the \<open>Client\<close> methods from
  the OpenAPI specification. The decoded specification, the parser, \<open>format.Source\<close> and the file
  system are arguments; the messages it prints are left out.
\<close>

section \<open>The specification\<close>

record GdOperation =
  gd_OperationID :: string
  gd_Summary :: string
  gd_Description :: string
  gd_Tags :: "string list"
  gd_Deprecated :: bool

type_synonym gd_paths = "GdOperation option smap smap"

record EndpointInfo =
  ei_OperationID :: string
  ei_Summary :: string
  ei_Description :: string
  ei_Method :: string
  ei_Path :: string
  ei_Tag :: string
  ei_Deprecated :: bool

definition methodToOperationID :: "(string \<times> string) list" where
  "methodToOperationID =
     [(''GetOrder'', ''GetOrder''),
      (''GetOrders'', ''GetOrders''),
      (''GetQueuePositions'', ''GetOrderQueuePositions''),
      (''GetQueuePosition'', ''GetOrderQueuePosition''),
      (''GetMarketOrderbook'', ''GetMarketOrderbook''),
      (''GetMarketOrderbooks'', ''GetMarketOrderbooks''),
      (''GetTrades'', ''GetTrades''),
      (''GetMarket'', ''GetMarket''),
      (''GetMarkets'', ''GetMarkets''),
      (''GetMarketCandlesticks'', ''GetMarketCandlesticks''),
      (''GetBatchMarketCandlesticks'', ''BatchGetMarketCandlesticks''),
      (''GetEvent'', ''GetEvent''),
      (''GetEvents'', ''GetEvents''),
      (''GetEventMetadata'', ''GetEventMetadata''),
      (''GetMultivariateEvents'', ''GetMultivariateEvents''),
      (''GetEventCandlesticks'', ''GetMarketCandlesticksByEvent''),
      (''GetEventForecastPercentileHistory'', ''GetEventForecastPercentilesHistory''),
      (''GetExchangeStatus'', ''GetExchangeStatus''),
      (''GetExchangeSchedule'', ''GetExchangeSchedule''),
      (''GetUserDataTimestamp'', ''GetUserDataTimestamp''),
      (''GetSeriesFeeChanges'', ''GetSeriesFeeChanges''),
      (''GetBalance'', ''GetBalance''),
      (''GetPositions'', ''GetPositions''),
      (''GetFills'', ''GetFills''),
      (''GetSettlements'', ''GetSettlements''),
      (''GetSeries'', ''GetSeries''),
      (''GetSeriesList'', ''GetSeriesList''),
      (''GetTagsByCategories'', ''GetTagsForSeriesCategories''),
      (''GetFiltersBySport'', ''GetFiltersForSports''),
      (''GetAccountAPILimits'', ''GetAccountApiLimits''),
      (''GetAccountEndpointCosts'', ''GetAccountEndpointCosts''),
      (''GetDeposits'', ''GetDeposits''),
      (''GetWithdrawals'', ''GetWithdrawals''),
      (''GetPortfolioRestingOrderTotalValue'', ''GetPortfolioRestingOrderTotalValue''),
      (''GetAPIKeys'', ''GetApiKeys''),
      (''CreateAPIKey'', ''CreateApiKey''),
      (''GenerateAPIKey'', ''GenerateApiKey''),
      (''DeleteAPIKey'', ''DeleteApiKey''),
      (''CreateOrderV2'', ''CreateOrderV2''),
      (''BatchCreateOrdersV2'', ''BatchCreateOrdersV2''),
      (''BatchCancelOrdersV2'', ''BatchCancelOrdersV2''),
      (''CancelOrderV2'', ''CancelOrderV2''),
      (''AmendOrderV2'', ''AmendOrderV2''),
      (''DecreaseOrderV2'', ''DecreaseOrderV2''),
      (''GetEventFeeChanges'', ''GetEventFeeChanges''),
      (''GetHistoricalCutoff'', ''GetHistoricalCutoff''),
      (''GetHistoricalFills'', ''GetHistoricalFills''),
      (''GetHistoricalOrders'', ''GetHistoricalOrders''),
      (''GetHistoricalTrades'', ''GetHistoricalTrades''),
      (''GetHistoricalMarkets'', ''GetHistoricalMarkets''),
      (''GetHistoricalMarket'', ''GetHistoricalMarket''),
      (''GetHistoricalMarketCandlesticks'', ''GetHistoricalMarketCandlesticks''),
      (''GetIncentivePrograms'', ''GetIncentivePrograms''),
      (''GetLiveDataBatch'', ''GetLiveDataBatch''),
      (''GetLiveDataByMilestone'', ''GetLiveDataByMilestone''),
      (''GetMilestoneGameStats'', ''GetMilestoneGameStats''),
      (''GetLiveData'', ''GetLiveData''),
      (''GetMilestones'', ''GetMilestones''),
      (''GetMilestone'', ''GetMilestone''),
      (''GetMultivariateEventCollections'', ''GetMultivariateEventCollections''),
      (''GetMultivariateEventCollection'', ''GetMultivariateEventCollection''),
      (''CreateMarketInMultivariateEventCollection'', ''CreateMarketInMultivariateEventCollection''),
      (''GetStructuredTargets'', ''GetStructuredTargets''),
      (''GetStructuredTarget'', ''GetStructuredTarget''),
      (''CreateSubaccount'', ''CreateSubaccount''),
      (''GetSubaccountBalances'', ''GetSubaccountBalances''),
      (''GetSubaccountNetting'', ''GetSubaccountNetting''),
      (''UpdateSubaccountNetting'', ''UpdateSubaccountNetting''),
      (''ApplySubaccountTransfer'', ''ApplySubaccountTransfer''),
      (''GetSubaccountTransfers'', ''GetSubaccountTransfers''),
      (''GetCommunicationsID'', ''GetCommunicationsID''),
      (''CreateRFQ'', ''CreateRFQ''),
      (''GetRFQs'', ''GetRFQs''),
      (''GetRFQ'', ''GetRFQ''),
      (''DeleteRFQ'', ''DeleteRFQ''),
      (''CreateQuote'', ''CreateQuote''),
      (''GetQuotes'', ''GetQuotes''),
      (''GetQuote'', ''GetQuote''),
      (''DeleteQuote'', ''DeleteQuote''),
      (''AcceptQuote'', ''AcceptQuote''),
      (''ConfirmQuote'', ''ConfirmQuote''),
      (''CreateOrderGroup'', ''CreateOrderGroup''),
      (''GetOrderGroups'', ''GetOrderGroups''),
      (''GetOrderGroup'', ''GetOrderGroup''),
      (''DeleteOrderGroup'', ''DeleteOrderGroup''),
      (''ResetOrderGroup'', ''ResetOrderGroup''),
      (''TriggerOrderGroup'', ''TriggerOrderGroup''),
      (''UpdateOrderGroupLimit'', ''UpdateOrderGroupLimit''),
      (''CancelAllOrders'', ''CancelAllOrders''),
      (''GetAccountAPIUsageLevelVolumeProgress'', ''GetAccountApiUsageLevelVolumeProgress''),
      (''UpgradeAPIUsageLevel'', ''UpgradeAccountApiUsageLevel''),
      (''GetHistoricalPositions'', ''GetHistoricalPositions''),
      (''GetEventLiveData'', ''GetEventLiveData''),
      (''GetWeatherIndex'', ''GetWeatherIndex''),
      (''GetWeatherIndexCalibrations'', ''GetWeatherIndexCalibrations''),
      (''GetTargetBalanceAllocation'', ''GetTargetBalanceAllocation''),
      (''SetTargetBalanceAllocation'', ''SetTargetBalanceAllocation''),
      (''IntraExchangeInstanceTransfer'', ''IntraExchangeInstanceTransfer''),
      (''GetIntraExchangeInstanceTransfers'', ''GetIntraExchangeInstanceTransfers''),
      (''GetIntraExchangeInstanceTransfer'', ''GetIntraExchangeInstanceTransfer''),
      (''GetBlockTradeProposals'', ''GetBlockTradeProposals''),
      (''ProposeBlockTrade'', ''ProposeBlockTrade''),
      (''AcceptBlockTradeProposal'', ''AcceptBlockTradeProposal''),
      (''GetRFQQuote'', ''GetRFQQuote''),
      (''DeleteRFQQuote'', ''DeleteRFQQuote''),
      (''AcceptRFQQuote'', ''AcceptRFQQuote''),
      (''ConfirmRFQQuote'', ''ConfirmRFQQuote''),
      (''GetFCMOrders'', ''GetFCMOrders''),
      (''GetFCMPositions'', ''GetFCMPositions'')]"

definition firstTag :: "string list \<Rightarrow> string" where
  "firstTag tags = (if tags = [] then [] else hd tags)"

text \<open>The maps are visited in list order; an operation that is nil panics.\<close>

definition full_path :: "string \<Rightarrow> string" where
  "full_path pathKey = (if HasPrefix pathKey ''/trade-api'' then pathKey else ''/trade-api/v2'' @ pathKey)"

definition endpoint_info :: "string \<Rightarrow> string \<Rightarrow> GdOperation \<Rightarrow> EndpointInfo" where
  "endpoint_info fullPath httpMethod op' =
     \<lparr>ei_OperationID = gd_OperationID op', ei_Summary = TrimSpace (gd_Summary op'),
      ei_Description = TrimSpace (gd_Description op'), ei_Method = httpMethod, ei_Path = fullPath,
      ei_Tag = firstTag (gd_Tags op'), ei_Deprecated = gd_Deprecated op'\<rparr>"

definition add_operation ::
  "string \<Rightarrow> string \<times> GdOperation option \<Rightarrow> EndpointInfo smap option \<Rightarrow> EndpointInfo smap option" where
  "add_operation pathKey mo result = (case result of
      None \<Rightarrow> None
    | Some m \<Rightarrow>
        (let httpMethod = ToUpper (fst mo) in
         if httpMethod \<notin> set http_verbs then Some m
         else case snd mo of
           None \<Rightarrow> None
         | Some op' \<Rightarrow> Some (AList.update (gd_OperationID op') (endpoint_info (full_path pathKey) httpMethod op') m)))"

definition buildEndpointMap :: "gd_paths \<Rightarrow> EndpointInfo smap option" where
  "buildEndpointMap paths = fold (\<lambda>(pathKey, methods). fold (add_operation pathKey) methods) paths (Some [])"

section \<open>The comment\<close>

fun clean_lines :: "string list \<Rightarrow> string list \<Rightarrow> string list" where
  "clean_lines clean [] = clean"
| "clean_lines clean (line # rest) =
     (let trimmed = TrimSpace line in
      if trimmed = [] \<and> clean \<noteq> [] then clean
      else if HasPrefix trimmed ''##'' \<or> HasPrefix trimmed [CHR 0x60, CHR 0x60, CHR 0x60] then clean
      else clean_lines (clean @ [trimmed]) rest)"

definition clean_description :: "string \<Rightarrow> string" where
  "clean_description s =
     TrimSpace (collapse_spaces False (join_with '' '' (clean_lines [] (split_on (CHR 0x0A) s))))"

fun wrap_words :: "nat \<Rightarrow> string \<Rightarrow> string list \<Rightarrow> string list" where
  "wrap_words width current [] = [current]"
| "wrap_words width current (word # rest) =
     (if length current + 1 + length word > width
      then current # wrap_words width word rest
      else wrap_words width (current @ '' '' @ word) rest)"

definition wrapText :: "string \<Rightarrow> nat \<Rightarrow> string list" where
  "wrapText t width = (case Fields t of [] \<Rightarrow> [] | w # ws \<Rightarrow> wrap_words width w ws)"

definition kebabCase :: "string \<Rightarrow> string" where
  "kebabCase s = concat (map (\<lambda>(i, r). (if i > 0 \<and> is_upper r then ''-'' else []) @ [lower_char r])
     (enumerate 0 s))"

definition docURL :: "EndpointInfo \<Rightarrow> string" where
  "docURL info =
     (if ei_Tag info = [] then ''https://docs.kalshi.com/api-reference''
      else ''https://docs.kalshi.com/api-reference/'' @ ei_Tag info @ ''/'' @ kebabCase (ei_OperationID info))"

definition preservedPrefixes :: "string list" where
  "preservedPrefixes = [''Deprecated:'', ''SDK note:'']"

definition comment_text :: "string \<Rightarrow> string" where
  "comment_text c = TrimSpace (TrimPrefix c ''//'')"

fun deprecation_loop :: "string list \<Rightarrow> string list \<Rightarrow> string list" where
  "deprecation_loop out [] = out"
| "deprecation_loop out (c # cs) =
     (if out \<noteq> [] then (if comment_text c = [] then out else deprecation_loop (out @ [c]) cs)
      else if list_ex (HasPrefix (comment_text c)) preservedPrefixes then deprecation_loop (out @ [c]) cs
      else deprecation_loop out cs)"

definition existingDeprecation :: "comment_group option \<Rightarrow> string list" where
  "existingDeprecation doc = (case doc of None \<Rightarrow> [] | Some g \<Rightarrow> deprecation_loop [] (cg_List g))"

text \<open>The lines of the new comment, part by part.\<close>

definition summary_text :: "string \<Rightarrow> EndpointInfo \<Rightarrow> string" where
  "summary_text methodName info = (if ei_Summary info = [] then methodName else ei_Summary info)"

definition summary_line :: "string \<Rightarrow> EndpointInfo \<Rightarrow> string" where
  "summary_line methodName info =
     (let summary = summary_text methodName info
      in if HasPrefix summary methodName then ''// '' @ summary
         else ''// '' @ methodName @ '' '' @ em_dash @ '' '' @ summary)"

definition description_lines :: "string \<Rightarrow> EndpointInfo \<Rightarrow> string list" where
  "description_lines methodName info =
     (let desc = clean_description (ei_Description info) in
      if ei_Description info \<noteq> [] \<and> desc \<noteq> [] \<and> desc \<noteq> summary_text methodName info
      then ''//'' # map (\<lambda>line. if line = [] then ''//'' else ''// '' @ line) (wrapText desc 76)
      else [])"

definition deprecated_notice :: string where
  "deprecated_notice = ''// Deprecated: this endpoint is marked deprecated in the Kalshi API spec.''"

definition deprecation_lines :: "EndpointInfo \<Rightarrow> string list \<Rightarrow> string list" where
  "deprecation_lines info deprecation =
     (if deprecation \<noteq> [] then ''//'' # deprecation
      else if ei_Deprecated info then [''//'', deprecated_notice] else [])"

definition comment_lines :: "string \<Rightarrow> EndpointInfo \<Rightarrow> string list \<Rightarrow> string list" where
  "comment_lines methodName info deprecation =
     [summary_line methodName info, ''//'', ''// '' @ ei_Method info @ '' '' @ ei_Path info]
     @ description_lines methodName info
     @ deprecation_lines info deprecation
     @ [''//'', ''// See '' @ docURL info]"

definition buildComment :: "string \<Rightarrow> EndpointInfo \<Rightarrow> string list \<Rightarrow> string" where
  "buildComment methodName info deprecation = join_with nl (comment_lines methodName info deprecation) @ nl"

section \<open>A file\<close>

record replacement =
  rp_start :: nat
  rp_end :: nat
  rp_newComment :: string

definition replacement_of :: "EndpointInfo smap \<Rightarrow> decl \<Rightarrow> replacement option" where
  "replacement_of endpoints d = (case d of
      OtherDecl xs \<Rightarrow> None
    | FuncDecl fn \<Rightarrow>
        if \<not> isClientReceiver (fd_Recv fn) then None
        else case map_of methodToOperationID (fd_Name fn) of
          None \<Rightarrow> None
        | Some opID \<Rightarrow> (case map_of endpoints opID of
            None \<Rightarrow> None
          | Some info \<Rightarrow> Some
              \<lparr>rp_start = (case fd_Doc fn of Some g \<Rightarrow> cg_Pos g | None \<Rightarrow> fd_Pos fn),
               rp_end = fd_Pos fn,
               rp_newComment = buildComment (fd_Name fn) info (existingDeprecation (fd_Doc fn))\<rparr>))"

definition replacements :: "EndpointInfo smap \<Rightarrow> go_file \<Rightarrow> replacement list" where
  "replacements endpoints file = List.map_filter (replacement_of endpoints) file"

text \<open>No two declarations start at the same offset, so that the order is that of \<open>sort.Slice\<close>.\<close>

definition apply_replacements :: "replacement list \<Rightarrow> string \<Rightarrow> string" where
  "apply_replacements rs src =
     foldl (\<lambda>result r. take (rp_start r) result @ rp_newComment r @ drop (rp_end r) result) src
       (rev (sort_key rp_start rs))"

text \<open>The number of methods, an error, and what has been written to the file.\<close>

definition processFile ::
  "go_file option \<Rightarrow> string option \<Rightarrow> (string \<Rightarrow> string option) \<Rightarrow> bool \<Rightarrow> EndpointInfo smap
     \<Rightarrow> (nat \<times> bool) \<times> string option" where
  "processFile parsed src gofmt writable endpoints = (case parsed of
      None \<Rightarrow> ((0, True), None)
    | Some file \<Rightarrow> (case src of
        None \<Rightarrow> ((0, True), None)
      | Some s \<Rightarrow>
          let rs = replacements endpoints file; result = apply_replacements rs s in
          if rs = [] then ((0, False), None)
          else case gofmt result of
            None \<Rightarrow> ((length rs, True), if writable then Some result else None)
          | Some formatted \<Rightarrow> if writable then ((length rs, False), Some formatted) else ((0, True), None)))"

section \<open>The run\<close>

definition wants_sync :: "dir_entry \<Rightarrow> bool" where
  "wants_sync e \<longleftrightarrow> \<not> de_IsDir e \<and> HasSuffix (de_Name e) ''.go''
     \<and> \<not> HasSuffix (de_Name e) ''_test.go'' \<and> \<not> HasSuffix (de_Name e) ''_generated.go''"

text \<open>\<open>endpointDocRe\<close>: a line that begins with slashes, a verb and a path of the API.\<close>

definition doc_re_here :: "string \<Rightarrow> bool" where
  "doc_re_here s \<longleftrightarrow> HasPrefix s ''//'' \<and>
     (let r = drop 2 s in r \<noteq> [] \<and> re_space (hd r) \<and>
       list_ex (\<lambda>verb. let t = dropWhile re_space r; u = drop (length verb) t
         in HasPrefix t verb \<and> u \<noteq> [] \<and> re_space (hd u) \<and> HasPrefix (dropWhile re_space u) ''/trade-api/v2'')
         http_verbs)"

fun doc_re_after :: "string \<Rightarrow> bool" where
  "doc_re_after [] \<longleftrightarrow> False"
| "doc_re_after (c # cs) \<longleftrightarrow> c = CHR 0x0A \<and> doc_re_here cs \<or> doc_re_after cs"

definition endpointDocRe :: "string \<Rightarrow> bool" where
  "endpointDocRe s \<longleftrightarrow> doc_re_here s \<or> doc_re_after s"

definition commentText :: "comment_group \<Rightarrow> string" where
  "commentText g = concat (map (\<lambda>c. c @ nl) (cg_List g))"

definition unmapped_decl :: "decl \<Rightarrow> string list" where
  "unmapped_decl d = (case d of
      OtherDecl xs \<Rightarrow> []
    | FuncDecl fn \<Rightarrow> (case (fd_Recv fn, fd_Doc fn) of
        (Some r, Some g) \<Rightarrow>
          if \<not> endpointDocRe (cg_Text g) \<and> \<not> endpointDocRe (commentText g) then []
          else if map_of methodToOperationID (fd_Name fn) = None then [fd_Name fn] else []
      | _ \<Rightarrow> []))"

definition unmappedMethods :: "(string \<Rightarrow> string \<Rightarrow> go_file option) \<Rightarrow> dir_entry list \<Rightarrow> string list" where
  "unmappedMethods parse entries =
     sort (concat (map (\<lambda>e.
       if \<not> HasSuffix (de_Name e) ''.go'' \<or> HasSuffix (de_Name e) ''_test.go'' then []
       else case de_Source e of
         None \<Rightarrow> []
       | Some src \<Rightarrow> (case parse (de_Name e) src of
           None \<Rightarrow> []
         | Some file \<Rightarrow> concat (map unmapped_decl file))) entries))"

text \<open>What the run writes, file by file, the number it reports, and the methods it warns of. A file
  that cannot be read cannot be parsed.\<close>

definition sync_main ::
  "(string \<Rightarrow> string \<Rightarrow> go_file option) \<Rightarrow> (string \<Rightarrow> string option) \<Rightarrow> (string \<Rightarrow> bool) \<Rightarrow> EndpointInfo smap
     \<Rightarrow> dir_entry list \<Rightarrow> (string \<times> string option) list \<times> nat" where
  "sync_main parse gofmt writable endpoints entries =
     (let results = map (\<lambda>e. (de_Name e, processFile (Option.bind (de_Source e) (parse (de_Name e))) (de_Source e)
            gofmt (writable (de_Name e)) endpoints)) (filter wants_sync entries)
      in (map (\<lambda>(n, r, w). (n, w)) results,
          sum_list (map (\<lambda>(n, (k, err), w). if err then 0 else k) results)))"

end
