(* ===== verification/GodocProps.thy ===== *)
theory GodocProps
  imports GodocSync
begin

text \<open>
  What \<open>tools/sync_godoc\<close> does to a source file: the text outside the doc comments it owns stays,
  the notes written by hand survive a second run, and descriptions are wrapped.
\<close>

section \<open>Splicing\<close>

text \<open>The reference: the source from offset \<open>lo\<close> on, with the ranges exchanged from left to right.\<close>

fun weave :: "nat \<Rightarrow> string \<Rightarrow> replacement list \<Rightarrow> string" where
  "weave lo src [] = drop lo src"
| "weave lo src (r # rs) = take (rp_start r - lo) (drop lo src) @ rp_newComment r @ weave (rp_end r) src rs"

fun in_order :: "nat \<Rightarrow> replacement list \<Rightarrow> nat \<Rightarrow> bool" where
  "in_order lo [] n \<longleftrightarrow> lo \<le> n"
| "in_order lo (r # rs) n \<longleftrightarrow> lo \<le> rp_start r \<and> rp_start r \<le> rp_end r \<and> in_order (rp_end r) rs n"

text \<open>A file as the parser describes it: declarations in source order, each doc comment before its
  function and after the function before.\<close>

fun placed :: "nat \<Rightarrow> go_file \<Rightarrow> nat \<Rightarrow> bool" where
  "placed lo [] n \<longleftrightarrow> lo \<le> n"
| "placed lo (OtherDecl xs # ds) n \<longleftrightarrow> placed lo ds n"
| "placed lo (FuncDecl fn # ds) n \<longleftrightarrow>
     (let s = (case fd_Doc fn of Some g \<Rightarrow> cg_Pos g | None \<Rightarrow> fd_Pos fn)
      in lo \<le> s \<and> s \<le> fd_Pos fn \<and> placed (fd_Pos fn) ds n)"

lemma in_order_mono: "in_order lo rs n \<Longrightarrow> lo' \<le> lo \<Longrightarrow> in_order lo' rs n"
  by (cases rs) auto

lemma in_order_bound: "in_order lo rs n \<Longrightarrow> lo \<le> n"
  by (induction rs arbitrary: lo) force+

lemma in_order_starts: "in_order lo rs n \<Longrightarrow> sorted (map rp_start rs) \<and> (\<forall>r \<in> set rs. lo \<le> rp_start r)"
  by (induction rs arbitrary: lo) force+

lemma replacements_in_order: "placed lo decls n \<Longrightarrow> in_order lo (replacements eps decls) n"
proof (induction decls arbitrary: lo)
  case Nil
  then show ?case by (simp add: replacements_def List.map_filter_def)
next
  case (Cons d ds)
  show ?case
  proof (cases "replacement_of eps d")
    case None
    have "\<exists>lo'. lo \<le> lo' \<and> placed lo' ds n"
      using Cons.prems by (cases d) (auto simp: Let_def intro: order_trans)
    then obtain lo' where "lo \<le> lo'" "placed lo' ds n" by blast
    then show ?thesis using Cons.IH in_order_mono None
      by (fastforce simp: replacements_def List.map_filter_simps)
  next
    case (Some r)
    then show ?thesis using Cons
      by (cases d) (auto simp: replacements_def List.map_filter_simps replacement_of_def Let_def
          split: if_splits option.splits)
  qed
qed

lemma splice_back_to_front:
  assumes "in_order lo rs (length src)"
  shows "foldr (\<lambda>r acc. take (rp_start r) acc @ rp_newComment r @ drop (rp_end r) acc) rs src
    = take lo src @ weave lo src rs"
  using assms
proof (induction rs arbitrary: lo)
  case (Cons r rs)
  let ?acc = "take (rp_end r) src @ weave (rp_end r) src rs"
  from Cons.prems have le: "lo \<le> rp_start r" "rp_start r \<le> rp_end r" "rp_end r \<le> length src"
    by (auto dest: in_order_bound)
  have "take (rp_start r) ?acc = take (rp_start r) src" using le by (simp add: min_absorb1)
  also have "\<dots> = take lo src @ take (rp_start r - lo) (drop lo src)"
    using le(1) by (metis le_add_diff_inverse take_add)
  finally show ?case using Cons le by (simp add: min_absorb2)
qed simp

lemma apply_replacements_weave:
  assumes "in_order 0 rs (length src)"
  shows "apply_replacements rs src = weave 0 src rs"
proof -
  have "sort_key rp_start rs = rs" using in_order_starts [OF assms] by (simp add: sort_key_id_if_sorted)
  then show ?thesis using splice_back_to_front [OF assms] by (simp add: apply_replacements_def foldl_conv_foldr)
qed

text \<open>With the old text of its range in place of the new comment a replacement does nothing.\<close>

definition old_text :: "string \<Rightarrow> replacement \<Rightarrow> replacement" where
  "old_text src r = r\<lparr>rp_newComment := take (rp_end r - rp_start r) (drop (rp_start r) src)\<rparr>"

lemma weave_old_text: "in_order lo rs n \<Longrightarrow> weave lo src (map (old_text src) rs) = drop lo src"
proof (induction rs arbitrary: lo)
  case (Cons r rs)
  then have le: "lo \<le> rp_start r" "rp_start r \<le> rp_end r" and io: "in_order (rp_end r) rs n" by auto
  have "drop lo src = take (rp_start r - lo) (drop lo src) @ drop (rp_start r) src"
    using le(1) by (metis append_take_drop_id drop_drop le_add_diff_inverse2)
  moreover have "drop (rp_start r) src = take (rp_end r - rp_start r) (drop (rp_start r) src) @ drop (rp_end r) src"
    using le(2) by (metis append_take_drop_id drop_drop le_add_diff_inverse2)
  ultimately show ?case using Cons.IH [OF io] by (simp add: old_text_def)
qed simp

text \<open>C32: What the tool hands to \<open>gofmt\<close> is the source with the ranges of the replacements exchanged in
  one pass from left to right, although it applies them one by one to a text whose length
  changes; what is outside these ranges is kept byte for byte, since the old texts put back in the
  same way give the source again.\<close>

theorem sync_splices_exactly:
  assumes "placed 0 decls (length src)"
  shows "apply_replacements (replacements eps decls) src = weave 0 src (replacements eps decls)
    \<and> weave 0 src (map (old_text src) (replacements eps decls)) = src"
  using apply_replacements_weave weave_old_text [of 0] replacements_in_order [OF assms] by fastforce

section \<open>Notes written by hand\<close>

definition preserved :: "string \<Rightarrow> bool" where
  "preserved c \<longleftrightarrow> list_ex (HasPrefix (comment_text c)) preservedPrefixes"

definition notes_ok :: "string list \<Rightarrow> bool" where
  "notes_ok ns \<longleftrightarrow> ns = [] \<or> preserved (hd ns) \<and> (\<forall>c \<in> set (tl ns). comment_text c \<noteq> [])"

lemma notes_ok_append: "ns \<noteq> [] \<Longrightarrow> notes_ok ns \<Longrightarrow> comment_text c \<noteq> [] \<Longrightarrow> notes_ok (ns @ [c])"
  by (auto simp: notes_ok_def)

lemma deprecation_loop_ok: "notes_ok out \<Longrightarrow> notes_ok (deprecation_loop out cs)"
proof (induction cs arbitrary: out)
  case (Cons c cs)
  show ?case
  proof (cases "out = []")
    case True
    then show ?thesis using Cons.IH [of "[c]"] Cons.IH [of "[]"]
      by (auto simp: notes_ok_def preserved_def)
  next
    case False
    then show ?thesis using Cons notes_ok_append by auto
  qed
qed simp

lemma existingDeprecation_ok: "notes_ok (existingDeprecation doc)"
  using deprecation_loop_ok by (auto simp: existingDeprecation_def notes_ok_def split: option.split)

lemma loop_skip: "\<forall>c \<in> set cs. \<not> preserved c \<Longrightarrow> deprecation_loop [] (cs @ ds) = deprecation_loop [] ds"
  by (induction cs) (auto simp: preserved_def)

lemma loop_take:
  "out \<noteq> [] \<Longrightarrow> \<forall>c \<in> set cs. comment_text c \<noteq> [] \<Longrightarrow> comment_text b = [] \<Longrightarrow>
   deprecation_loop out (cs @ b # ds) = out @ cs"
  by (induction cs arbitrary: out) auto

lemma loop_notes:
  assumes "notes_ok ns" "ns \<noteq> []" "comment_text b = []"
  shows "deprecation_loop [] (ns @ b # ds) = ns"
proof (cases ns)
  case (Cons c cs)
  with assms have "deprecation_loop [c] (cs @ b # ds) = [c] @ cs"
    by (intro loop_take) (auto simp: notes_ok_def)
  with Cons assms show ?thesis by (simp add: notes_ok_def preserved_def)
qed (use assms in simp)

lemma comment_text_blank [simp]: "comment_text ''//'' = []"
  by (simp add: comment_text_def TrimPrefix_def HasPrefix_def TrimSpace_def)

lemma not_preserved_blank [simp]: "\<not> preserved ''//''"
  by (simp add: preserved_def preservedPrefixes_def HasPrefix_def)

lemma TrimSpace_prefix:
  assumes "v \<noteq> []" "\<forall>c \<in> set v. \<not> is_space c"
  shows "\<exists>r. TrimSpace (v @ s) = v @ r"
proof -
  have v: "dropWhile is_space (v @ s) = v @ s" "dropWhile is_space (rev v) = rev v"
    using assms by (cases v; simp) (simp add: dropWhile_eq_self_iff hd_rev assms)
  show ?thesis
  proof (cases "\<forall>c \<in> set s. is_space c")
    case True
    then have "dropWhile is_space (rev s @ rev v) = rev v" using v dropWhile_append2 [of "rev s" is_space "rev v"] by simp
    then show ?thesis using v by (simp add: TrimSpace_def)
  next
    case False
    then obtain c where "c \<in> set (rev s)" "\<not> is_space c" by auto
    then have "dropWhile is_space (rev s @ rev v) = dropWhile is_space (rev s) @ rev v"
      by (rule dropWhile_append1)
    then show ?thesis using v by (simp add: TrimSpace_def)
  qed
qed

lemma comment_text_line: "comment_text (''// '' @ s) = TrimSpace s"
  by (simp add: comment_text_def TrimPrefix_def HasPrefix_def TrimSpace_def is_space_def)

lemma HasPrefix_append_cases: "HasPrefix (v @ r) p \<Longrightarrow> take (length v) p = v \<or> take (length p) v = p"
proof -
  assume "HasPrefix (v @ r) p"
  then obtain z where "v @ r = p @ z" by (auto simp: HasPrefix_iff)
  then show ?thesis by (auto simp: append_eq_append_conv2)
qed

text \<open>A line that begins with a word of which no preserved prefix is a beginning.\<close>

lemma not_preserved_word:
  assumes "v \<noteq> []" "\<forall>c \<in> set v. \<not> is_space c"
    and "\<forall>p \<in> set preservedPrefixes. take (length v) p \<noteq> v \<and> take (length p) v \<noteq> p"
  shows "\<not> preserved (''// '' @ v @ s)"
proof -
  obtain r where "comment_text (''// '' @ v @ s) = v @ r"
    using TrimSpace_prefix [OF assms(1,2)] comment_text_line by metis
  moreover have "\<not> HasPrefix (v @ r) p" if "p \<in> set preservedPrefixes" for p
    using assms(3) that HasPrefix_append_cases by blast
  ultimately show ?thesis by (auto simp: preserved_def list_ex_iff)
qed

lemma not_preserved_verb: "v \<in> set http_verbs \<Longrightarrow> \<not> preserved (''// '' @ v @ s)"
  by (rule not_preserved_word) (auto simp: http_verbs_def is_space_def preservedPrefixes_def)

section \<open>A second run\<close>

lemma not_preserved_see: "\<not> preserved (''// See '' @ s)"
  using not_preserved_word [of "''See''" "'' '' @ s"]
  by (simp add: is_space_def preservedPrefixes_def)

lemma preserved_notice: "preserved deprecated_notice"
proof -
  obtain r where "comment_text deprecated_notice = ''Deprecated:'' @ r"
    using TrimSpace_prefix [of "''Deprecated:''" "'' this endpoint is marked deprecated in the Kalshi API spec.''"]
      comment_text_line [of "''Deprecated: this endpoint is marked deprecated in the Kalshi API spec.''"]
    by (auto simp: deprecated_notice_def is_space_def)
  then show ?thesis by (simp add: preserved_def preservedPrefixes_def HasPrefix_def)
qed

definition kept_notes :: "EndpointInfo \<Rightarrow> string list \<Rightarrow> string list" where
  "kept_notes info ns = (if ns \<noteq> [] then ns else if ei_Deprecated info then [deprecated_notice] else [])"

lemma kept_notes_ok: "notes_ok ns \<Longrightarrow> notes_ok (kept_notes info ns)"
  using preserved_notice by (auto simp: notes_ok_def kept_notes_def)

lemma deprecation_lines_kept:
  "deprecation_lines info ns = (if kept_notes info ns = [] then [] else ''//'' # kept_notes info ns)"
  by (simp add: deprecation_lines_def kept_notes_def)

lemma loop_generated:
  assumes "notes_ok ns" and "\<forall>c \<in> set pre. \<not> preserved c"
  shows "deprecation_loop [] (pre @ deprecation_lines info ns @ [''//'', ''// See '' @ url]) = kept_notes info ns"
proof -
  have "deprecation_loop [] (deprecation_lines info ns @ [''//'', ''// See '' @ url]) = kept_notes info ns"
  proof (cases "kept_notes info ns = []")
    case True
    then show ?thesis
      using loop_skip [of "[''//'', ''// See '' @ url]" "[]"] not_preserved_see [of url]
      by (simp add: deprecation_lines_kept)
  next
    case False
    then show ?thesis
      using loop_notes [OF kept_notes_ok [OF assms(1)] False, of "''//''" "[''// See '' @ url]"]
        loop_skip [of "[''//'']" "kept_notes info ns @ [''//'', ''// See '' @ url]"]
      by (simp add: deprecation_lines_kept)
  qed
  then show ?thesis using loop_skip [OF assms(2)] by simp
qed

lemma read_back:
  assumes "ei_Method info \<in> set http_verbs" "\<not> preserved (summary_line m info)"
    and "\<forall>c \<in> set (description_lines m info). \<not> preserved c"
    and "cg_List g = comment_lines m info ns" "notes_ok ns"
  shows "existingDeprecation (Some g) = kept_notes info ns"
proof -
  let ?pre = "[summary_line m info, ''//'', ''// '' @ ei_Method info @ '' '' @ ei_Path info] @ description_lines m info"
  have "\<forall>c \<in> set ?pre. \<not> preserved c" using assms(2,3) not_preserved_verb [OF assms(1)] by simp
  from loop_generated [OF assms(5) this] assms(4) show ?thesis
    by (simp add: existingDeprecation_def comment_lines_def)
qed

text \<open>C33: Running the tool twice changes nothing the second time: from the comment it has written for a
  method, whatever notes the old comment had, it reads back the same notes and writes the same
  comment, as long as no line it takes from the specification looks like a note.\<close>

theorem sync_idempotent:
  assumes "ei_Method info \<in> set http_verbs" and "\<not> preserved (summary_line m info)"
    and "\<forall>c \<in> set (description_lines m info). \<not> preserved c"
    and "cg_List g = comment_lines m info (existingDeprecation doc)"
  shows "existingDeprecation (Some g) = kept_notes info (existingDeprecation doc)
    \<and> buildComment m info (existingDeprecation (Some g)) = buildComment m info (existingDeprecation doc)"
  using read_back [OF assms existingDeprecation_ok]
  by (simp add: buildComment_def comment_lines_def deprecation_lines_def kept_notes_def)

definition demo_info :: EndpointInfo where
  "demo_info = \<lparr>ei_OperationID = ''GetOrder'', ei_Summary = ''Get Order'', ei_Description = [], ei_Method = ''GET'',
     ei_Path = ''/trade-api/v2/portfolio/orders/{order_id}'', ei_Tag = ''orders'', ei_Deprecated = False\<rparr>"

definition demo_doc :: comment_group where
  "demo_doc = \<lparr>cg_List = [''// GetOrder'', ''//'', ''// SDK note: slow.''], cg_Text = [], cg_Pos = 0\<rparr>"

lemma demo_notes: "existingDeprecation (Some demo_doc) = [''// SDK note: slow.'']"
  by (simp add: existingDeprecation_def demo_doc_def comment_text_def TrimPrefix_def HasPrefix_def TrimSpace_def
      is_space_def preservedPrefixes_def)

lemma demo_summary: "\<not> preserved (summary_line ''GetOrder'' demo_info)"
  by (simp add: summary_line_def summary_text_def demo_info_def HasPrefix_def preserved_def comment_text_def
      TrimPrefix_def TrimSpace_def is_space_def preservedPrefixes_def em_dash_def)

lemma demo_description: "description_lines ''GetOrder'' demo_info = []"
  by (simp add: description_lines_def demo_info_def)

lemma sync_idempotent_witness:
  "\<exists>g. cg_List g = comment_lines ''GetOrder'' demo_info [''// SDK note: slow.'']
     \<and> existingDeprecation (Some g) = [''// SDK note: slow.'']"
proof -
  let ?g = "demo_doc\<lparr>cg_List := comment_lines ''GetOrder'' demo_info (existingDeprecation (Some demo_doc))\<rparr>"
  have "ei_Method demo_info \<in> set http_verbs" by (simp add: demo_info_def http_verbs_def)
  from sync_idempotent [OF this demo_summary, of ?g "Some demo_doc"]
  show ?thesis by (intro exI [of _ ?g]) (simp add: demo_notes demo_description kept_notes_def)
qed

text \<open>Only one note survives: the list ends at the first blank line after it. A notice the tool wrote
  for a deprecated operation counts as written by hand from then on, and stays when the
  specification takes the deprecation back.\<close>

lemma second_note_lost:
  assumes "notes_ok ns" "ns \<noteq> []"
  shows "existingDeprecation (Some \<lparr>cg_List = ns @ ''//'' # others, cg_Text = t, cg_Pos = p\<rparr>) = ns"
  using loop_notes [OF assms comment_text_blank] by (simp add: existingDeprecation_def)

lemma deprecated_notice_sticks:
  assumes "ei_Method info \<in> set http_verbs" "\<not> preserved (summary_line m info)"
    and "\<forall>c \<in> set (description_lines m info). \<not> preserved c" "ei_Deprecated info"
    and "cg_List g = comment_lines m info []"
  shows "deprecated_notice \<in> set (comment_lines m (info\<lparr>ei_Deprecated := False\<rparr>) (existingDeprecation (Some g)))"
proof -
  have "existingDeprecation (Some g) = [deprecated_notice]"
    using read_back [OF assms(1-3,5)] assms(4) by (simp add: notes_ok_def kept_notes_def)
  then show ?thesis by (simp add: comment_lines_def deprecation_lines_def)
qed

section \<open>Methods the specification does not know\<close>

text \<open>A method of the table whose operation is not in the specification (there are five) is neither
  rewritten nor reported.\<close>

lemma unknown_operation_silent:
  assumes "map_of methodToOperationID (fd_Name fn) = Some op'" "map_of endpoints op' = None"
  shows "replacement_of endpoints (FuncDecl fn) = None \<and> unmapped_decl (FuncDecl fn) = []"
  using assms by (auto simp: replacement_of_def unmapped_decl_def split: option.split)

section \<open>Wrapping\<close>

lemma split_by_nonempty [simp]: "split_by P s \<noteq> []"
  by (induction s) (auto split: list.splits)

lemma split_by_plain: "list_all (list_all (\<lambda>c. \<not> P c)) (split_by P s)"
  by (induction s) (auto split: list.splits)

lemma Fields_plain: "w \<in> set (Fields s) \<Longrightarrow> w \<noteq> [] \<and> (\<forall>c \<in> set w. \<not> is_space c)"
  using split_by_plain [of is_space s] by (auto simp: Fields_def list_all_iff)

lemma split_by_append_sep: "P c \<Longrightarrow> split_by P (s @ c # t) = split_by P s @ split_by P t"
  by (induction s) (auto split: list.splits)

lemma split_by_word: "\<forall>c \<in> set w. \<not> P c \<Longrightarrow> split_by P w = [w]"
  by (induction w) auto

lemma Fields_cons:
  assumes "w \<noteq> []" "\<forall>c \<in> set w. \<not> is_space c"
  shows "Fields w = [w]" "Fields (w @ '' '' @ s) = w # Fields s"
proof -
  have sp: "is_space (CHR '' '')" by (simp add: is_space_def)
  show "Fields w = [w]" "Fields (w @ '' '' @ s) = w # Fields s"
    using assms split_by_append_sep [of is_space "CHR '' ''" w s, OF sp]
    by (simp_all add: Fields_def split_by_word)
qed

lemma Fields_join: "\<forall>w \<in> set ws. w \<noteq> [] \<and> (\<forall>c \<in> set w. \<not> is_space c) \<Longrightarrow> Fields (join_with '' '' ws) = ws"
proof (induction ws)
  case (Cons w ws)
  then show ?case by (cases ws) (simp_all add: Fields_cons del: append.simps)
qed (simp add: Fields_def)

lemma join_snoc: "ws \<noteq> [] \<Longrightarrow> join_with sep (ws @ [w]) = join_with sep ws @ sep @ w"
  by (induction sep ws rule: join_with.induct) auto

lemma wrap_words_words:
  assumes "current = join_with '' '' cur" "cur \<noteq> []" "\<forall>w \<in> set (cur @ ws). w \<noteq> [] \<and> (\<forall>c \<in> set w. \<not> is_space c)"
  shows "concat (map Fields (wrap_words width current ws)) = cur @ ws
    \<and> (\<forall>l \<in> set (wrap_words width current ws). length l \<le> width \<or> l \<in> set (cur @ ws) \<or> l = current)"
  using assms
proof (induction ws arbitrary: current cur)
  case Nil
  then show ?case using Fields_join [of cur] by simp
next
  case (Cons w ws)
  show ?case
  proof (cases "length current + 1 + length w > width")
    case True
    have "\<forall>v \<in> set cur. v \<noteq> [] \<and> (\<forall>c \<in> set v. \<not> is_space c)" using Cons.prems(3) by auto
    from Fields_join [OF this] have "Fields current = cur" using Cons.prems(1) by simp
    moreover have "concat (map Fields (wrap_words width w ws)) = [w] @ ws
      \<and> (\<forall>l \<in> set (wrap_words width w ws). length l \<le> width \<or> l \<in> set ([w] @ ws) \<or> l = w)"
      by (rule Cons.IH) (use Cons.prems in auto)
    ultimately show ?thesis using True by auto
  next
    case False
    have "join_with '' '' (cur @ [w]) = current @ '' '' @ w" using Cons.prems(1,2) by (simp add: join_snoc)
    then have "concat (map Fields (wrap_words width (current @ '' '' @ w) ws)) = (cur @ [w]) @ ws
      \<and> (\<forall>l \<in> set (wrap_words width (current @ '' '' @ w) ws).
           length l \<le> width \<or> l \<in> set ((cur @ [w]) @ ws) \<or> l = current @ '' '' @ w)"
      by (intro Cons.IH) (use Cons.prems in auto)
    then show ?thesis using False by auto
  qed
qed

lemma wrap_words_nonempty: "[] \<notin> set (current # ws) \<Longrightarrow> [] \<notin> set (wrap_words width current ws)"
  by (induction ws arbitrary: current) (auto split: if_splits)

text \<open>The description lines of a comment have at most 79 bytes, slashes and blank included, except
  for a line with a single longer word; together they have exactly the words of the cleaned
  description, in order.\<close>

lemma description_wrapped:
  assumes "description_lines m info = ''//'' # ls"
  shows "(\<forall>l \<in> set ls. length l \<le> 79 \<or> (\<exists>w \<in> set (Fields (clean_description (ei_Description info))). l = ''// '' @ w))
    \<and> concat (map (Fields \<circ> drop 3) ls) = Fields (clean_description (ei_Description info))"
proof -
  let ?d = "clean_description (ei_Description info)"
  have plain: "\<forall>w \<in> set (Fields ?d). w \<noteq> [] \<and> (\<forall>c \<in> set w. \<not> is_space c)" using Fields_plain by blast
  have w: "concat (map Fields (wrapText ?d 76)) = Fields ?d
    \<and> (\<forall>l \<in> set (wrapText ?d 76). length l \<le> 76 \<or> l \<in> set (Fields ?d))"
  proof (cases "Fields ?d")
    case (Cons v vs)
    then show ?thesis using wrap_words_words [of v "[v]" vs 76] plain by (auto simp: wrapText_def)
  qed (simp add: wrapText_def)
  have "[] \<notin> set (wrapText ?d 76)"
  proof (cases "Fields ?d")
    case (Cons v vs)
    then show ?thesis using wrap_words_nonempty [of v vs 76] plain by (auto simp: wrapText_def)
  qed (simp add: wrapText_def)
  then have "map (\<lambda>line. if line = [] then ''//'' else ''// '' @ line) (wrapText ?d 76)
      = map (\<lambda>line. ''// '' @ line) (wrapText ?d 76)" by (intro map_cong) auto
  moreover have "ls = map (\<lambda>line. if line = [] then ''//'' else ''// '' @ line) (wrapText ?d 76)"
    using assms unfolding description_lines_def Let_def by (simp split: if_splits)
  ultimately have "ls = map (\<lambda>line. ''// '' @ line) (wrapText ?d 76)" by (rule trans [rotated])
  then show ?thesis using w by (auto simp: comp_def)
qed

lemma description_wrapped_witness:
  "\<exists>ls. description_lines ''GetOrder'' (demo_info\<lparr>ei_Description := ''One order.''\<rparr>) = ''//'' # ls
     \<and> concat (map (Fields \<circ> drop 3) ls) = [''One'', ''order.'']"
proof -
  let ?i = "demo_info\<lparr>ei_Description := ''One order.''\<rparr>"
  have c: "clean_description ''One order.'' = ''One order.''"
    by (simp add: clean_description_def TrimSpace_def is_space_def re_space_def HasPrefix_def)
  have f: "Fields ''One order.'' = [''One'', ''order.'']" by (simp add: Fields_def is_space_def)
  have "description_lines ''GetOrder'' ?i = ''//'' # [''// One order.'']"
    by (simp add: description_lines_def c summary_text_def) (simp add: demo_info_def wrapText_def f)
  from description_wrapped [OF this] show ?thesis
    using \<open>description_lines ''GetOrder'' ?i = ''//'' # [''// One order.'']\<close> by (simp add: c f)
qed

definition demo_func :: func_decl where
  "demo_func = \<lparr>fd_Name = ''GetOrder'', fd_Recv = Some [StarExpr (TypeIdent ''Client'')],
     fd_Doc = Some (demo_doc\<lparr>cg_Pos := 3\<rparr>), fd_Pos = 5, fd_Type = [], fd_Body = None\<rparr>"

lemma sync_splices_exactly_witness:
  "\<exists>new. replacements [(''GetOrder'', demo_info)] [OtherDecl [], FuncDecl demo_func]
       = [\<lparr>rp_start = 3, rp_end = 5, rp_newComment = new\<rparr>]
     \<and> apply_replacements (replacements [(''GetOrder'', demo_info)] [OtherDecl [], FuncDecl demo_func]) ''abcdefgh''
       = ''abc'' @ new @ ''fgh''"
proof -
  have "map_of methodToOperationID ''GetOrder'' = Some ''GetOrder''" by (simp add: methodToOperationID_def)
  then obtain new where r: "replacements [(''GetOrder'', demo_info)] [OtherDecl [], FuncDecl demo_func]
      = [\<lparr>rp_start = 3, rp_end = 5, rp_newComment = new\<rparr>]"
    by (simp add: replacements_def List.map_filter_simps replacement_of_def demo_func_def isClientReceiver_def)
  have "placed 0 [OtherDecl [], FuncDecl demo_func] (length ''abcdefgh'')" by (simp add: demo_func_def Let_def)
  from sync_splices_exactly [OF this, of "[(''GetOrder'', demo_info)]"] show ?thesis by (simp add: r)
qed

end
