(* ===== verification/CoverageProps.thy ===== *)
theory CoverageProps
  imports CoverageTool GodocProps GenWSTypes "HOL-Library.Multiset"
begin

text \<open>
  What the coverage report says: every method is counted and listed once, a method counts as
  asserted only where it is called, and the tool reads back what the other two generators wrote,
  the endpoint of a doc comment and the channels of the message table.
\<close>

section \<open>Counting\<close>

lemma categoryOrder_distinct: "distinct categoryOrder"
  by (simp add: categoryOrder_def)

lemma categories_ordered: "snd ` set fileToCategory \<subseteq> set categoryOrder"
  by (simp add: fileToCategory_def categoryOrder_def)

lemma map_filter_elem: "y \<in> set (List.map_filter f xs) \<longleftrightarrow> (\<exists>x \<in> set xs. f x = Some y)"
  by (induction xs) (auto simp: List.map_filter_simps split: option.split)

text \<open>What it takes to get a result.\<close>

lemma api_method_Some:
  "api_method name category d = Some m \<Longrightarrow> am_Category m = category \<and> am_File m = name"
  by (auto simp: api_method_def split: decl.splits if_splits)

lemma closure_body_Some: "closure_body n = Some b \<longleftrightarrow> (\<exists>ts. n = FuncLit ts b)"
  by (auto simp: closure_body_def split: ast.splits)

lemma ident_method_Some: "ident_method m n = Some x \<longleftrightarrow> (\<exists>v. n = Ident v \<and> map_of m v = Some x)"
  by (auto simp: ident_method_def split: ast.splits)

lemmas inversions = map_filter_elem closure_body_Some ident_method_Some

lemma entry_category: "m \<in> set (entry_methods parse e) \<Longrightarrow> \<exists>n. (n, am_Category m) \<in> set fileToCategory"
proof -
  assume m: "m \<in> set (entry_methods parse e)"
  then obtain category where c: "map_of fileToCategory (de_Name e) = Some category"
    by (cases "map_of fileToCategory (de_Name e)") (simp_all add: entry_methods_def Let_def split: if_splits)
  then obtain decls where "m \<in> set (List.map_filter (api_method (de_Name e) category) decls)"
    using m by (cases "Option.bind (de_Source e) (parse (de_Name e))")
      (simp_all add: entry_methods_def Let_def split: if_splits)
  then have "am_Category m = category" by (auto simp: map_filter_elem dest: api_method_Some)
  then show ?thesis using map_of_SomeD [OF c] by auto
qed

lemma discovered_category: "m \<in> set (discoverAPIMethods parse entries) \<Longrightarrow> am_Category m \<in> set categoryOrder"
  using categories_ordered by (force simp: discoverAPIMethods_def dest: entry_category)

lemma mset_by_category:
  "distinct cs \<Longrightarrow> mset (concat (map (in_category ms) cs)) = filter_mset (\<lambda>m. am_Category m \<in> set cs) (mset ms)"
proof (induction cs)
  case (Cons c cs)
  have "filter_mset (\<lambda>m. am_Category m \<in> set (c # cs)) (mset ms)
      = filter_mset (\<lambda>m. am_Category m = c) (mset ms) + filter_mset (\<lambda>m. am_Category m \<in> set cs) (mset ms)"
    using Cons.prems by (induction ms) auto
  with Cons show ?case by (simp add: in_category_def)
qed simp

lemma all_in_report:
  "mset (concat (map (in_category (discoverAPIMethods parse entries)) categoryOrder))
     = mset (discoverAPIMethods parse entries)"
proof -
  let ?ms = "discoverAPIMethods parse entries"
  have "filter_mset (\<lambda>m. am_Category m \<in> set categoryOrder) (mset ?ms) = mset ?ms"
    using discovered_category by (intro filter_mset_eq_conv [THEN iffD2]) auto
  with mset_by_category [OF categoryOrder_distinct, of ?ms] show ?thesis by simp
qed

lemma total_concat:
  "total ms length = length (concat (map (in_category ms) categoryOrder))"
  "total ms (tested names) = length (filter (\<lambda>m. am_Name m \<in> names) (concat (map (in_category ms) categoryOrder)))"
  by (simp_all add: total_def length_concat filter_concat comp_def tested_def)

text \<open>Every method the tool finds stands in the report exactly once, under one category, and the totals of the
  summary are the numbers of all methods found, and of those tested, called and asserted.\<close>

lemma report_counts_all:
  "let ms = discoverAPIMethods parse entries
   in mset (concat (map (in_category ms) categoryOrder)) = mset ms
      \<and> total ms length = length ms \<and> total ms (tested names) = tested names ms"
proof -
  let ?ms = "discoverAPIMethods parse entries"
  have "length (filter P (concat (map (in_category ?ms) categoryOrder))) = length (filter P ?ms)" for P
    using all_in_report by (metis mset_filter size_mset)
  then show ?thesis using all_in_report [of parse entries, THEN mset_eq_length] all_in_report
    by (simp add: Let_def total_concat tested_def)
qed

section \<open>Assertions\<close>

lemma Inspect_trans: "n \<in> set (Inspect b) \<Longrightarrow> set (Inspect n) \<subseteq> set (Inspect b)"
proof (induction b rule: Inspect.induct)
  case (3 x sel)
  then show ?case by (cases "n \<in> set (Inspect x)") auto
next
  case (4 ls rs)
  then show ?case by (cases "\<exists>l \<in> set ls. n \<in> set (Inspect l)") (auto, blast+)
next
  case (5 ts b)
  then show ?case by (cases "n \<in> set (Inspect b)") auto
qed auto

lemma Inspect_parts: "AssignStmt ls rs \<in> set (Inspect b) \<Longrightarrow> r \<in> set rs \<Longrightarrow> r \<in> set (Inspect b)"
proof -
  assume "AssignStmt ls rs \<in> set (Inspect b)" "r \<in> set rs"
  then have "set (Inspect (AssignStmt ls rs)) \<subseteq> set (Inspect b)" by (intro Inspect_trans)
  moreover have "r \<in> set (Inspect (AssignStmt ls rs))" using \<open>r \<in> set rs\<close> Inspect_self [of r] by auto
  ultimately show ?thesis by blast
qed

definition called_in :: "ast \<Rightarrow> string set" where
  "called_in body = set (List.map_filter clientMethodName (Inspect body))"

lemma bind_variable_range: "map_of (bind_variable name l m) v = Some x \<Longrightarrow> x = name \<or> map_of m v = Some x"
  by (cases l) (auto simp: bind_variable_def split: if_splits)

lemma bind_variables_range:
  "map_of (fold (bind_variable name) ls m) v = Some x \<Longrightarrow> x = name \<or> map_of m v = Some x"
proof (induction ls arbitrary: m)
  case (Cons l ls)
  then show ?case using bind_variable_range [of name l m v x] by fastforce
qed simp

lemma bind_node_range:
  assumes "map_of (bind_node n m) v = Some x" "map_of m v \<noteq> Some x"
  shows "\<exists>ls r. n = AssignStmt ls [r] \<and> clientMethodName r = Some x"
proof -
  have "bind_node n m \<noteq> m" using assms by auto
  then obtain ls r name where n: "n = AssignStmt ls [r]" "clientMethodName r = Some name"
    by (auto simp: bind_node_def split: ast.split_asm list.split_asm option.split_asm)
  with assms bind_variables_range [of name ls m v x] show ?thesis by (auto simp: bind_node_def)
qed

lemma bind_nodes_range:
  "map_of (fold bind_node ns m) v = Some x \<Longrightarrow>
   (\<exists>ls r. AssignStmt ls [r] \<in> set ns \<and> clientMethodName r = Some x) \<or> map_of m v = Some x"
proof (induction ns arbitrary: m)
  case (Cons n ns)
  then show ?case using bind_node_range [of n m v x] by fastforce
qed simp

lemma varToMethod_called: "map_of (varToMethod body) v = Some x \<Longrightarrow> x \<in> called_in body"
  using bind_nodes_range [of "Inspect body" "[]" v x] Inspect_parts
  by (fastforce simp: varToMethod_def called_in_def map_filter_elem)

definition has_assertion :: "ast \<Rightarrow> bool" where
  "has_assertion body \<longleftrightarrow> (\<exists>n \<in> set (Inspect body). reads_or_asserts n \<or> assert_args n \<noteq> [])"

lemma scope_asserted_called:
  assumes "x \<in> scope_asserted body"
  shows "x \<in> called_in body \<and> has_assertion body"
proof (cases "list_ex reads_or_asserts (Inspect body) \<and> x \<in> called_in body")
  case True
  then show ?thesis by (auto simp: has_assertion_def list_ex_iff)
next
  case False
  with assms have "x \<in> set (List.map_filter (ident_method (varToMethod body))
      (concat (map Inspect (concat (map assert_args (Inspect body))))))"
    by (auto simp: scope_asserted_def called_in_def split: if_splits)
  then obtain v n where "map_of (varToMethod body) v = Some x" "n \<in> set (Inspect body)" "assert_args n \<noteq> []"
    by (force simp: inversions)
  then show ?thesis using varToMethod_called by (auto simp: has_assertion_def)
qed

lemma scope_nodes: "b \<in> set (decl_scopes d) \<Longrightarrow> set (Inspect b) \<subseteq> set (decl_nodes d)"
proof -
  assume "b \<in> set (decl_scopes d)"
  then obtain fn where fn: "d = FuncDecl fn" "fd_Body fn \<noteq> None"
    by (cases d; cases "fd_Body (case d of FuncDecl fn \<Rightarrow> fn)"; simp add: decl_scopes_def)
  then obtain b0 where f: "d = FuncDecl fn" "fd_Body fn = Some b0" by auto
  have "b = b0 \<or> (\<exists>ts. FuncLit ts b \<in> set (Inspect b0))"
    using \<open>b \<in> set (decl_scopes d)\<close> by (auto simp: f decl_scopes_def inversions)
  have "set (Inspect b) \<subseteq> set (Inspect b0)"
  proof (cases "b = b0")
    case False
    with \<open>b = b0 \<or> _\<close> obtain ts where "FuncLit ts b \<in> set (Inspect b0)" by blast
    from Inspect_trans [OF this] show ?thesis by auto
  qed simp
  then show ?thesis using f by (auto simp: decl_nodes_def)
qed

text \<open>A method counts as asserted only if some function or closure of the test file calls it on a client and
  contains an assertion; in particular it then counts as called.\<close>

lemma asserted_methods_called:
  assumes "x \<in> collectAssertedMethods decls"
  shows "(\<exists>body \<in> set (concat (map decl_scopes decls)). x \<in> called_in body \<and> has_assertion body)
    \<and> x \<in> collectCalledMethods decls"
proof -
  obtain d body where d: "d \<in> set decls" "body \<in> set (decl_scopes d)" "x \<in> scope_asserted body"
    using assms by (auto simp: collectAssertedMethods_def)
  then have c: "x \<in> called_in body" "has_assertion body" using scope_asserted_called by auto
  then obtain n where n: "n \<in> set (Inspect body)" "clientMethodName n = Some x"
    by (auto simp: called_in_def map_filter_elem)
  from n(2) have "exported_call n = Some x"
    by (auto simp: clientMethodName_def exported_call_def split: ast.splits if_splits)
  moreover have "n \<in> set (decl_nodes d)" using n(1) scope_nodes [OF d(2)] by auto
  ultimately show ?thesis using d c by (auto simp: collectCalledMethods_def map_filter_elem)
qed

text \<open>A test function with two subtests that both use \<open>resp\<close>: the first asserts on it, the second does
  not.\<close>

definition call_of :: "string \<Rightarrow> ast" where
  "call_of name = CallExpr (SelectorExpr (Ident ''c'') name) []"

definition subtest :: "string \<Rightarrow> ast list \<Rightarrow> ast" where
  "subtest name rest = FuncLit [] (Node (AssignStmt [Ident ''resp'', Ident ''err''] [call_of name] # rest))"

definition assert_resp :: ast where
  "assert_resp = CallExpr (SelectorExpr (Ident ''assert'') ''NotNil'') [Ident ''t'', Ident ''resp'']"

definition two_subtests :: decl where
  "two_subtests = FuncDecl \<lparr>fd_Name = ''TestBoth'', fd_Recv = None, fd_Doc = None, fd_Pos = 0, fd_Type = [],
     fd_Body = Some (Node [subtest ''GetOrder'' [assert_resp], subtest ''GetOrders'' []])\<rparr>"

lemmas ast_test_defs = two_subtests_def subtest_def assert_resp_def call_of_def decl_scopes_def closure_body_def
  List.map_filter_simps scope_asserted_def varToMethod_def bind_node_def bind_variable_def clientMethodName_def
  reads_or_asserts_def assert_args_def ident_method_def IsExported_def is_upper_def

text \<open>The scope of the whole function walks into its closures, so that the binding of the last subtest
  is the one an assertion in any of them is taken for: \<open>GetOrders\<close> counts as asserted too.\<close>

lemma subtest_bindings_leak:
  "''GetOrders'' \<in> collectAssertedMethods [two_subtests]
   \<and> ''GetOrders'' \<notin> scope_asserted (Node (AssignStmt [Ident ''resp'', Ident ''err''] [call_of ''GetOrders''] # []))"
  by (simp add: collectAssertedMethods_def ast_test_defs)

lemma asserted_methods_called_witness:
  "''GetOrder'' \<in> collectAssertedMethods [two_subtests] \<and> ''GetOrder'' \<in> collectCalledMethods [two_subtests]"
proof -
  have "''GetOrder'' \<in> collectAssertedMethods [two_subtests]"
    by (simp add: collectAssertedMethods_def ast_test_defs)
  with asserted_methods_called [OF this] show ?thesis by blast
qed

section \<open>The build tag\<close>

lemma Contains_iff: "Contains s p \<longleftrightarrow> (\<exists>x y. s = x @ p @ y)"
proof (induction s)
  case (Cons c s)
  have "(\<exists>x y. c # s = x @ p @ y) \<longleftrightarrow> (\<exists>y. c # s = p @ y) \<or> (\<exists>x y. s = x @ p @ y)"
    by (metis append_Cons append_Nil list.inject list.exhaust)
  with Cons show ?case by (simp add: HasPrefix_iff)
qed simp

lemma Contains_sep:
  assumes "c \<notin> set p" "p \<noteq> []"
  shows "Contains (a @ c # b) p \<longleftrightarrow> Contains a p \<or> Contains b p"
proof
  assume "Contains (a @ c # b) p"
  then obtain x y where "a @ c # b = x @ p @ y" by (auto simp: Contains_iff)
  then consider us where "a = x @ us" "us @ c # b = p @ y" | us where "a @ us = x" "c # b = us @ p @ y"
    by (auto simp: append_eq_append_conv2)
  then show "Contains a p \<or> Contains b p"
  proof cases
    case 1
    from 1(2) assms(1) have "\<exists>vs. us = p @ vs"
      by (auto simp: append_eq_append_conv2 append_eq_Cons_conv Cons_eq_append_conv)
    with 1 show ?thesis by (auto simp: Contains_iff)
  next
    case 2
    then show ?thesis using assms by (cases us) (auto simp: Contains_iff Cons_eq_append_conv)
  qed
qed (auto simp: Contains_iff; metis append.assoc append_Cons)

lemma Contains_split_n:
  assumes "c \<notin> set p" "p \<noteq> []"
  shows "list_ex (\<lambda>l. Contains l p) (split_n c (Suc n) s) \<longleftrightarrow> Contains s p"
proof (induction n arbitrary: s)
  case (Suc n)
  show ?case
  proof (cases "c \<in> set s")
    case True
    then have "s = before_char c s @ c # tl (dropWhile (\<lambda>x. x \<noteq> c) s)"
      by (induction s) (auto simp: before_char_def)
    then have "Contains s p \<longleftrightarrow> Contains (before_char c s) p \<or> Contains (tl (dropWhile (\<lambda>x. x \<noteq> c) s)) p"
      using Contains_sep [OF assms] by metis
    with True Suc show ?thesis by simp
  qed simp
qed simp

text \<open>The last of the five parts is all the rest of the file, so that the tag is found anywhere.\<close>

lemma isIntegrationFile_anywhere: "isIntegrationFile src \<longleftrightarrow> Contains src ''//go:build integration''"
  using Contains_split_n [of "CHR 0x0A" "''//go:build integration''" 4 src]
  by (simp add: isIntegrationFile_def numeral_eq_Suc)

section \<open>Endpoints read back\<close>

lemma table_names_no_verb:
  "list_all (\<lambda>e. list_all (\<lambda>v. take (length (fst e)) v \<noteq> fst e \<and> take (length v) (fst e) \<noteq> v) http_verbs) methodToOperationID"
  by (simp add: methodToOperationID_def http_verbs_def)

lemma table_names_plain: "list_all (\<lambda>e. fst e \<noteq> [] \<and> \<not> re_space (hd (fst e))) methodToOperationID"
  by (simp add: methodToOperationID_def re_space_def)

lemma table_name:
  assumes "map_of methodToOperationID m = Some x"
  shows "m \<noteq> []" "\<not> re_space (hd m)" "v \<in> set http_verbs \<Longrightarrow> \<not> HasPrefix (m @ r) v"
proof -
  have "(m, x) \<in> set methodToOperationID" using assms by (rule map_of_SomeD)
  then show "m \<noteq> []" "\<not> re_space (hd m)" and "v \<in> set http_verbs \<Longrightarrow> \<not> HasPrefix (m @ r) v"
    using table_names_plain table_names_no_verb HasPrefix_append_cases [of m r v]
    by (fastforce simp: list_all_iff)+
qed

lemma summary_no_endpoint:
  assumes "map_of methodToOperationID m = Some x"
  shows "endpointRe (summary_line m info) = None"
proof -
  have "\<exists>r. summary_line m info = ''// '' @ m @ r"
    by (cases "HasPrefix (summary_text m info) m") (auto simp: summary_line_def Let_def HasPrefix_iff)
  then obtain r where r: "summary_line m info = ''// '' @ m @ r" by blast
  have sp: "re_space (CHR '' '')" by (simp add: re_space_def)
  have "dropWhile re_space ('' '' @ m @ r) = m @ r"
    using table_name(1,2) [OF assms] sp by (cases m) simp_all
  moreover have "find (HasPrefix (m @ r)) http_verbs = None"
    using table_name(3) [OF assms] by (auto simp: find_None_iff)
  ultimately show ?thesis by (simp add: endpointRe_def r HasPrefix_def Let_def)
qed

lemma blank_no_endpoint: "endpointRe ''//'' = None"
  by (simp add: endpointRe_def HasPrefix_def http_verbs_def)

lemma endpointRe_line:
  assumes "verb \<in> set http_verbs" "HasPrefix path ''/trade-api/''" "length path > 11" "CHR 0x0A \<notin> set path"
  shows "endpointRe (''// '' @ verb @ '' '' @ path) = Some (verb, path)"
proof -
  have "path = ''/trade-api/'' @ drop 11 path" using assms(2) by (auto simp: HasPrefix_iff)
  then obtain r where p: "path = CHR ''/'' # r" by simp
  have sp: "re_space (CHR '' '')" "\<not> re_space (CHR ''/'')" by (simp_all add: re_space_def)
  have "verb = ''GET'' \<or> verb = ''POST'' \<or> verb = ''PUT'' \<or> verb = ''DELETE'' \<or> verb = ''PATCH''"
    using assms(1) by (simp add: http_verbs_def)
  then have v: "dropWhile re_space ('' '' @ verb @ '' '' @ path) = verb @ '' '' @ path"
    and f: "find (HasPrefix (verb @ '' '' @ path)) http_verbs = Some verb"
    by (elim disjE; simp add: re_space_def http_verbs_def HasPrefix_def)+
  have w: "drop 2 (''// '' @ verb @ '' '' @ path) = '' '' @ verb @ '' '' @ path"
    "HasPrefix (''// '' @ verb @ '' '' @ path) ''//''" "dropWhile re_space ('' '' @ path) = path"
    "drop (length verb) (verb @ '' '' @ path) = '' '' @ path" "re_space (hd ('' '' @ path))" "'' '' @ path \<noteq> []"
    using sp by (simp_all add: HasPrefix_def p)
  show ?thesis
    unfolding endpointRe_def Let_def w(1) v f option.case w(4) w(3) using w assms(2-4) by simp
qed

text \<open>C31: From the comment \<open>sync_godoc\<close> writes for a method, with whatever notes, the coverage report
  takes exactly the operation's verb and its path below the API's root.\<close>

theorem endpoint_read_back:
  assumes "map_of methodToOperationID m = Some x" and "ei_Method info \<in> set http_verbs"
    and "ei_Path info = ''/trade-api/v2/'' @ p" and "p \<noteq> []" and "CHR 0x0A \<notin> set p"
    and "cg_List g = comment_lines m info notes"
  shows "extractEndpoint (Some g) = ei_Method info @ '' /'' @ p"
proof -
  have "endpointRe (''// '' @ ei_Method info @ '' '' @ ei_Path info) = Some (ei_Method info, ei_Path info)"
    using assms(2-5) by (intro endpointRe_line) (auto simp: HasPrefix_def)
  moreover have "remove_first ''/trade-api/v2'' (ei_Path info) = ''/'' @ p" by (simp add: assms(3) HasPrefix_def)
  ultimately show ?thesis
    by (simp add: extractEndpoint_def assms(6) comment_lines_def summary_no_endpoint [OF assms(1)] blank_no_endpoint)
qed

lemma endpoint_read_back_witness:
  "\<exists>g. cg_List g = comment_lines ''GetOrder'' demo_info []
     \<and> extractEndpoint (Some g) = ''GET /portfolio/orders/{order_id}''"
proof -
  let ?g = "demo_doc\<lparr>cg_List := comment_lines ''GetOrder'' demo_info []\<rparr>"
  have "map_of methodToOperationID ''GetOrder'' = Some ''GetOrder''" by (simp add: methodToOperationID_def)
  from endpoint_read_back [OF this, of demo_info "''portfolio/orders/{order_id}''" ?g "[]"]
  show ?thesis by (intro exI [of _ ?g]) (simp add: demo_info_def http_verbs_def)
qed

section \<open>Channels read back\<close>

text \<open>A line of the message table as \<open>gofmt\<close> leaves it: blanks after the colon.\<close>

definition table_line :: "nat \<Rightarrow> string \<times> string list \<Rightarrow> string" where
  "table_line pad e = tab @ fst e @ '':'' @ replicate pad (CHR '' '') @ ''{'' @ join_with '', '' (map Quote (snd e)) @ ''},''"

lemma table_line_generated: "channel_line e = table_line 1 e @ nl"
  by (simp add: channel_line_def table_line_def)

definition word :: "string \<Rightarrow> bool" where
  "word w \<longleftrightarrow> w \<noteq> [] \<and> list_all word_char w"

abbreviation quote :: char where "quote \<equiv> CHR 0x22"

lemma word_chars: "word_char c \<Longrightarrow> c \<noteq> quote \<and> c \<noteq> CHR '':'' \<and> c \<noteq> CHR ''['' \<and> c \<noteq> CHR 0x0A \<and> \<not> is_space c"
  by (auto simp: word_char_def is_space_def Let_def)

lemma word_Quote:
  assumes "word w"
  shows "Quote w = quote # w @ [quote]"
proof -
  have "quote_char c = [c]" if "word_char c" for c
    using that by (auto simp: quote_char_def word_char_def Let_def)
  moreover have "\<forall>c \<in> set w. word_char c" using assms by (simp add: word_def list_all_iff)
  ultimately have "concat (map quote_char w) = w" by (induction w) simp_all
  then show ?thesis by (simp add: Quote_def)
qed

lemma find_all_skip: "find_all re k s = find_all re 0 (drop k s)"
  by (induction k arbitrary: s) (case_tac [!] s, simp_all)

lemma channelRe_other: "c \<noteq> quote \<Longrightarrow> channelRe (c # cs) = None"
  by (auto simp: channelRe_def HasPrefix_def)

lemma find_all_other: "quote \<notin> set xs \<Longrightarrow> find_all channelRe 0 (xs @ ys) = find_all channelRe 0 ys"
  by (induction xs) (auto simp: channelRe_other)

lemma find_all_Quote:
  assumes "word w"
  shows "find_all channelRe 0 (Quote w @ ys) = w # find_all channelRe 0 ys"
proof -
  have "takeWhile word_char (w @ quote # ys) = w" "dropWhile word_char (w @ quote # ys) = quote # ys"
    using assms by (auto simp: word_def list_all_iff takeWhile_append2 dropWhile_append2 word_char_def)
  then have "channelRe (quote # w @ quote # ys) = Some (w, 2 + length w)"
    using assms by (simp add: channelRe_def HasPrefix_def word_def)
  then show ?thesis using find_all_skip [of channelRe "Suc (length w)" "w @ quote # ys"]
    by (simp add: word_Quote [OF assms])
qed

lemma find_all_names:
  assumes "\<forall>w \<in> set ws. word w"
  shows "find_all channelRe 0 (join_with '', '' (map Quote ws) @ ''},'') = ws"
  using assms
proof (induction ws)
  case Nil
  then show ?case by (simp add: channelRe_other)
next
  case (Cons w ws)
  show ?case
  proof (cases ws)
    case Nil
    then show ?thesis using Cons.prems by (simp add: find_all_Quote channelRe_other)
  next
    case (Cons v vs)
    then show ?thesis using Cons.prems Cons.IH by (simp add: find_all_Quote channelRe_other)
  qed
qed

lemma find_all_values:
  assumes "\<forall>w \<in> set ws. word w"
  shows "find_all channelRe 0 (replicate n (CHR '' '') @ ''{'' @ join_with '', '' (map Quote ws) @ ''},'') = ws"
  using find_all_other [of "replicate n (CHR '' '') @ ''{''"] find_all_names [OF assms] by simp

definition entry_ok :: "string \<times> string list \<Rightarrow> bool" where
  "entry_ok e \<longleftrightarrow> word (fst e) \<and> (\<forall>ch \<in> set (snd e). word ch)"

lemma join_chars: "set (join_with sep xs) \<subseteq> set sep \<union> \<Union> (set (map set xs))"
  by (induction sep xs rule: join_with.induct) auto

lemma values_chars:
  assumes "\<forall>w \<in> set ws. word w" "c \<in> set (join_with '', '' (map Quote ws))"
  shows "c \<noteq> CHR ''['' \<and> c \<noteq> CHR 0x0A"
proof -
  have "c \<in> set '', '' \<or> (\<exists>w \<in> set ws. c \<in> set (Quote w))"
    using assms(2) join_chars [of "'', ''" "map Quote ws"] by auto
  then have "c \<in> set '', '' \<or> (\<exists>w \<in> set ws. c = quote \<or> c \<in> set w)"
    using assms(1) by (auto simp: word_Quote)
  then show ?thesis using assms(1) word_chars by (auto simp: word_def list_all_iff)
qed

lemma table_line_trim:
  assumes "entry_ok e"
  shows "TrimSpace (table_line n e)
    = fst e @ '':'' @ replicate n (CHR '' '') @ ''{'' @ join_with '', '' (map Quote (snd e)) @ ''},''"
proof -
  obtain c cs where c: "fst e = c # cs" "\<not> is_space c"
    using assms word_chars by (cases "fst e") (auto simp: entry_ok_def word_def)
  have "is_space (CHR 0x09)" "\<not> is_space (CHR '','')" by (simp_all add: is_space_def)
  with c show ?thesis by (simp add: table_line_def tab_def TrimSpace_def)
qed

lemma table_line_chars:
  assumes "entry_ok e" "c \<in> set (table_line n e)"
  shows "c \<noteq> CHR ''['' \<and> c \<noteq> CHR 0x0A"
  using assms values_chars [of "snd e" c] word_chars [of c]
  by (auto simp: table_line_def tab_def entry_ok_def word_def list_all_iff)

lemma Contains_char: "Contains s p \<Longrightarrow> c \<in> set p \<Longrightarrow> c \<in> set s"
  by (auto simp: Contains_iff)

lemma scan_table:
  assumes "\<forall>e \<in> set es. entry_ok e"
  shows "scan_lines True chs (map (\<lambda>e. table_line (pad e) e) es @ ''}'' # post)
    = foldl add_channel chs (concat (map snd es))"
  using assms
proof (induction es arbitrary: chs)
  case Nil
  have "TrimSpace ''}'' = ''}''" by (simp add: TrimSpace_def is_space_def)
  then show ?case by (simp add: HasPrefix_def)
next
  case (Cons e es)
  let ?t = "TrimSpace (table_line (pad e) e)"
  have ok: "entry_ok e" using Cons.prems by simp
  note t = table_line_trim [OF ok, of "pad e"]
  have "CHR ''['' \<notin> set ?t" using table_line_chars [OF ok, of "CHR ''[''" "pad e"]
    unfolding t by (auto simp: table_line_def tab_def)
  then have nomap: "\<not> Contains ?t ''map[''" using Contains_char [of ?t "''map[''" "CHR ''[''"] by auto
  have colon: "CHR '':'' \<in> set ?t" unfolding t by simp
  then have brace: "?t \<noteq> ''}''" by auto
  have "CHR '':'' \<notin> set (fst e)" using ok word_chars by (auto simp: entry_ok_def word_def list_all_iff)
  then have "dropWhile (\<lambda>c. c \<noteq> CHR '':'') (fst e @ x) = dropWhile (\<lambda>c. c \<noteq> CHR '':'') x" for x
    by (intro dropWhile_append2) auto
  then have "tl (dropWhile (\<lambda>c. c \<noteq> CHR '':'') ?t)
      = replicate (pad e) (CHR '' '') @ ''{'' @ join_with '', '' (map Quote (snd e)) @ ''},''"
    unfolding t by simp
  then have "find_all channelRe 0 (tl (dropWhile (\<lambda>c. c \<noteq> CHR '':'') ?t)) = snd e"
    using find_all_values ok by (simp add: entry_ok_def)
  then show ?case using Cons nomap colon brace by (simp add: Let_def)
qed

definition table_header :: string where
  "table_header = ''var MsgTypeToChannel = map[WSMessageType][]string{''"

definition no_header :: "string \<Rightarrow> bool" where
  "no_header l \<longleftrightarrow> CHR 0x0A \<notin> set l \<and> \<not> (Contains (TrimSpace l) ''MsgTypeToChannel'' \<and> Contains (TrimSpace l) ''map['')"

lemma header_found:
  "Contains (TrimSpace table_header) ''MsgTypeToChannel'' \<and> Contains (TrimSpace table_header) ''map[''"
  "CHR 0x0A \<notin> set table_header"
  by (simp_all add: table_header_def TrimSpace_def is_space_def HasPrefix_def)

lemma scan_before: "\<forall>l \<in> set pre. no_header l \<Longrightarrow> scan_lines False chs (pre @ rest) = scan_lines False chs rest"
  by (induction pre) (auto simp: no_header_def Let_def)

lemma foldl_add_channel:
  "set (foldl add_channel chs xs) = set chs \<union> set xs"
  "distinct chs \<Longrightarrow> distinct (foldl add_channel chs xs)"
  by (induction xs arbitrary: chs) (auto simp: add_channel_def)

text \<open>From the file the WebSocket generator writes, with the blanks \<open>gofmt\<close> puts in, the coverage
  report takes exactly the channels of the message table, each once, whatever else is in the file.\<close>

lemma channels_read_back:
  assumes "\<forall>(t, chs) \<in> set m. word (const_name t) \<and> (\<forall>ch \<in> set chs. word ch)"
    and "\<forall>l \<in> set pre. no_header l" and "\<forall>l \<in> set post. CHR 0x0A \<notin> set l"
    and "lines = pre @ table_header # map (\<lambda>e. table_line (pad e) e) (channel_entries m) @ ''}'' # post"
  shows "distinct (discoverWSChannels (Some (join_with nl lines)))
    \<and> set (discoverWSChannels (Some (join_with nl lines))) = (\<Union>(t, chs) \<in> set m. set chs)"
proof -
  have ok: "\<forall>e \<in> set (channel_entries m). entry_ok e"
    using assms(1) by (auto simp: channel_entries_def entry_ok_def)
  then have "\<forall>l \<in> set lines. CHR 0x0A \<notin> set l"
    using assms(2,3) header_found(2) table_line_chars by (fastforce simp: assms(4) no_header_def)
  then have "split_on (CHR 0x0A) (join_with nl lines) = lines"
    unfolding nl_def by (intro split_join) (simp_all add: assms(4))
  then have "discoverWSChannels (Some (join_with nl lines)) = scan_lines False [] lines"
    by (simp add: discoverWSChannels_def)
  also have "\<dots> = foldl add_channel [] (concat (map snd (channel_entries m)))"
    using scan_table [OF ok] header_found(1) by (simp add: assms(4) scan_before [OF assms(2)] Let_def)
  finally show ?thesis
    using foldl_add_channel [of "[]"] by (auto simp: channel_entries_def case_prod_unfold)
qed

lemma channels_read_back_witness:
  "set (discoverWSChannels (Some (join_with nl [''package gokalshi'', table_header,
       table_line 4 (''WSMsgFill'', [''fill'']), ''}'', ''// end'']))) = {''fill''}"
proof -
  have c: "const_name ''fill'' = ''WSMsgFill''" by (simp add: const_name_def msgTypeToConstName_def)
  have "\<forall>(t, chs) \<in> set [(''fill'', [''fill''])]. word (const_name t) \<and> (\<forall>ch \<in> set chs. word ch)"
    by (simp add: c word_def word_char_def)
  moreover have "\<forall>l \<in> set [''package gokalshi'']. no_header l"
    by (simp add: no_header_def TrimSpace_def is_space_def HasPrefix_def)
  moreover have "\<forall>l \<in> set [''// end'']. CHR 0x0A \<notin> set l" by simp
  ultimately show ?thesis
    using channels_read_back [of "[(''fill'', [''fill''])]" "[''package gokalshi'']" "[''// end'']" _ "\<lambda>e. 4"]
    by (simp add: channel_entries_def c)
qed

end
