(* ===== verification/Interfaces.thy ===== *)
theory Interfaces
  imports TypesProps
begin

text \<open>
  \<open>interfaces.go\<close>: the interface \<open>HTTPClient\<close> as the names of its endpoint methods with the types of
  their results, \<open>None\<close> for a method that returns only an error, in the order of the file
  (\<open>ConfigureRateLimits\<close> and \<open>Close\<close>, which are no endpoints, are left out). The compile-time check
  at the end of the file is a theorem here: each of these methods is an endpoint method of the
  client, with this result.
\<close>

section \<open>Names of the endpoint methods\<close>

primrec market_name :: "market_op \<Rightarrow> string" where
  "market_name (Call_GetEvent x1 x2) = ''GetEvent''"
| "market_name (Call_GetEvents x1) = ''GetEvents''"
| "market_name (Call_GetEventMetadata x1) = ''GetEventMetadata''"
| "market_name (Call_GetMultivariateEvents x1) = ''GetMultivariateEvents''"
| "market_name (Call_GetEventCandlesticks x1 x2 x3) = ''GetEventCandlesticks''"
| "market_name (Call_GetEventForecastPercentileHistory x1 x2 x3) = ''GetEventForecastPercentileHistory''"
| "market_name (Call_GetEventFeeChanges x1) = ''GetEventFeeChanges''"
| "market_name (Call_GetMarketOrderbook x1 x2) = ''GetMarketOrderbook''"
| "market_name (Call_GetMarketOrderbooks x1) = ''GetMarketOrderbooks''"
| "market_name (Call_GetTrades x1) = ''GetTrades''"
| "market_name (Call_GetMarket x1) = ''GetMarket''"
| "market_name (Call_GetMarkets x1) = ''GetMarkets''"
| "market_name (Call_GetMarketCandlesticks x1 x2 x3) = ''GetMarketCandlesticks''"
| "market_name (Call_GetBatchMarketCandlesticks x1) = ''GetBatchMarketCandlesticks''"
| "market_name (Call_GetSeries x1 x2) = ''GetSeries''"
| "market_name (Call_GetSeriesList x1) = ''GetSeriesList''"
| "market_name (Call_GetMilestones x1) = ''GetMilestones''"
| "market_name (Call_GetMilestone x1) = ''GetMilestone''"
| "market_name (Call_GetStructuredTargets x1) = ''GetStructuredTargets''"
| "market_name (Call_GetStructuredTarget x1) = ''GetStructuredTarget''"
| "market_name (Call_GetMultivariateEventCollections x1) = ''GetMultivariateEventCollections''"
| "market_name (Call_GetMultivariateEventCollection x1) = ''GetMultivariateEventCollection''"
| "market_name (Call_CreateMarketInMultivariateEventCollection x1 x2) = ''CreateMarketInMultivariateEventCollection''"
| "market_name (Call_GetLiveDataBatch x1) = ''GetLiveDataBatch''"
| "market_name (Call_GetLiveDataByMilestone x1 x2) = ''GetLiveDataByMilestone''"
| "market_name (Call_GetMilestoneGameStats x1) = ''GetMilestoneGameStats''"
| "market_name (Call_GetLiveData x1 x2 x3) = ''GetLiveData''"
| "market_name (Call_GetEventLiveData x1 x2) = ''GetEventLiveData''"
| "market_name (Call_GetWeatherIndex x1 x2) = ''GetWeatherIndex''"
| "market_name (Call_GetWeatherIndexCalibrations x1) = ''GetWeatherIndexCalibrations''"
| "market_name (Call_GetTagsByCategories) = ''GetTagsByCategories''"
| "market_name (Call_GetFiltersBySport) = ''GetFiltersBySport''"
| "market_name (Call_GetIncentivePrograms) = ''GetIncentivePrograms''"
| "market_name (Call_GetExchangeStatus) = ''GetExchangeStatus''"
| "market_name (Call_GetExchangeSchedule) = ''GetExchangeSchedule''"
| "market_name (Call_GetUserDataTimestamp) = ''GetUserDataTimestamp''"
| "market_name (Call_GetSeriesFeeChanges x1) = ''GetSeriesFeeChanges''"
| "market_name (Call_GetHistoricalCutoff) = ''GetHistoricalCutoff''"
| "market_name (Call_GetHistoricalFills x1) = ''GetHistoricalFills''"
| "market_name (Call_GetHistoricalOrders x1) = ''GetHistoricalOrders''"
| "market_name (Call_GetHistoricalTrades x1) = ''GetHistoricalTrades''"
| "market_name (Call_GetHistoricalMarkets x1) = ''GetHistoricalMarkets''"
| "market_name (Call_GetHistoricalMarket x1) = ''GetHistoricalMarket''"
| "market_name (Call_GetHistoricalMarketCandlesticks x1 x2) = ''GetHistoricalMarketCandlesticks''"
| "market_name (Call_GetHistoricalPositions x1) = ''GetHistoricalPositions''"

primrec trading_name :: "trading_op \<Rightarrow> string" where
  "trading_name (Call_GetOrder x1) = ''GetOrder''"
| "trading_name (Call_GetOrders x1) = ''GetOrders''"
| "trading_name (Call_GetQueuePositions x1) = ''GetQueuePositions''"
| "trading_name (Call_GetQueuePosition x1) = ''GetQueuePosition''"
| "trading_name (Call_CreateOrderV2 x1) = ''CreateOrderV2''"
| "trading_name (Call_BatchCreateOrdersV2 x1) = ''BatchCreateOrdersV2''"
| "trading_name (Call_BatchCancelOrdersV2 x1) = ''BatchCancelOrdersV2''"
| "trading_name (Call_CancelOrderV2 x1 x2) = ''CancelOrderV2''"
| "trading_name (Call_AmendOrderV2 x1 x2) = ''AmendOrderV2''"
| "trading_name (Call_DecreaseOrderV2 x1 x2) = ''DecreaseOrderV2''"
| "trading_name (Call_CancelAllOrders x1) = ''CancelAllOrders''"
| "trading_name (Call_CreateOrderGroup x1) = ''CreateOrderGroup''"
| "trading_name (Call_GetOrderGroups x1) = ''GetOrderGroups''"
| "trading_name (Call_GetOrderGroup x1 x2) = ''GetOrderGroup''"
| "trading_name (Call_DeleteOrderGroup x1 x2) = ''DeleteOrderGroup''"
| "trading_name (Call_ResetOrderGroup x1 x2) = ''ResetOrderGroup''"
| "trading_name (Call_TriggerOrderGroup x1 x2) = ''TriggerOrderGroup''"
| "trading_name (Call_UpdateOrderGroupLimit x1 x2 x3) = ''UpdateOrderGroupLimit''"
| "trading_name (Call_GetCommunicationsID) = ''GetCommunicationsID''"
| "trading_name (Call_CreateRFQ x1) = ''CreateRFQ''"
| "trading_name (Call_GetRFQs x1) = ''GetRFQs''"
| "trading_name (Call_GetRFQ x1) = ''GetRFQ''"
| "trading_name (Call_DeleteRFQ x1) = ''DeleteRFQ''"
| "trading_name (Call_CreateQuote x1) = ''CreateQuote''"
| "trading_name (Call_GetQuotes x1) = ''GetQuotes''"
| "trading_name (Call_GetQuote x1) = ''GetQuote''"
| "trading_name (Call_DeleteQuote x1) = ''DeleteQuote''"
| "trading_name (Call_AcceptQuote x1 x2) = ''AcceptQuote''"
| "trading_name (Call_ConfirmQuote x1) = ''ConfirmQuote''"
| "trading_name (Call_GetRFQQuote x1 x2) = ''GetRFQQuote''"
| "trading_name (Call_DeleteRFQQuote x1 x2) = ''DeleteRFQQuote''"
| "trading_name (Call_AcceptRFQQuote x1 x2 x3) = ''AcceptRFQQuote''"
| "trading_name (Call_ConfirmRFQQuote x1 x2) = ''ConfirmRFQQuote''"
| "trading_name (Call_GetBlockTradeProposals x1) = ''GetBlockTradeProposals''"
| "trading_name (Call_ProposeBlockTrade x1) = ''ProposeBlockTrade''"
| "trading_name (Call_AcceptBlockTradeProposal x1 x2) = ''AcceptBlockTradeProposal''"
| "trading_name (Call_GetFCMOrders x1) = ''GetFCMOrders''"
| "trading_name (Call_GetFCMPositions x1) = ''GetFCMPositions''"

primrec account_name :: "account_op \<Rightarrow> string" where
  "account_name (Call_GetBalance) = ''GetBalance''"
| "account_name (Call_GetPositions x1) = ''GetPositions''"
| "account_name (Call_GetFills x1) = ''GetFills''"
| "account_name (Call_GetSettlements x1) = ''GetSettlements''"
| "account_name (Call_GetDeposits x1) = ''GetDeposits''"
| "account_name (Call_GetWithdrawals x1) = ''GetWithdrawals''"
| "account_name (Call_CreateSubaccount) = ''CreateSubaccount''"
| "account_name (Call_GetSubaccountBalances) = ''GetSubaccountBalances''"
| "account_name (Call_GetSubaccountNetting) = ''GetSubaccountNetting''"
| "account_name (Call_UpdateSubaccountNetting x1) = ''UpdateSubaccountNetting''"
| "account_name (Call_ApplySubaccountTransfer x1) = ''ApplySubaccountTransfer''"
| "account_name (Call_GetSubaccountTransfers x1) = ''GetSubaccountTransfers''"
| "account_name (Call_GetPortfolioRestingOrderTotalValue) = ''GetPortfolioRestingOrderTotalValue''"
| "account_name (Call_GetTargetBalanceAllocation) = ''GetTargetBalanceAllocation''"
| "account_name (Call_SetTargetBalanceAllocation x1) = ''SetTargetBalanceAllocation''"
| "account_name (Call_IntraExchangeInstanceTransfer x1) = ''IntraExchangeInstanceTransfer''"
| "account_name (Call_GetIntraExchangeInstanceTransfers x1) = ''GetIntraExchangeInstanceTransfers''"
| "account_name (Call_GetIntraExchangeInstanceTransfer x1) = ''GetIntraExchangeInstanceTransfer''"
| "account_name (Call_GetAPIKeys) = ''GetAPIKeys''"
| "account_name (Call_CreateAPIKey x1) = ''CreateAPIKey''"
| "account_name (Call_GenerateAPIKey x1) = ''GenerateAPIKey''"
| "account_name (Call_DeleteAPIKey x1) = ''DeleteAPIKey''"
| "account_name (Call_GetAccountAPILimits) = ''GetAccountAPILimits''"
| "account_name (Call_GetAccountEndpointCosts) = ''GetAccountEndpointCosts''"
| "account_name (Call_UpgradeAPIUsageLevel) = ''UpgradeAPIUsageLevel''"
| "account_name (Call_GetAccountAPIUsageLevelVolumeProgress) = ''GetAccountAPIUsageLevelVolumeProgress''"

primrec op_name :: "api_op \<Rightarrow> string" where
  "op_name (MarketOp m) = market_name m"
| "op_name (TradingOp t) = trading_name t"
| "op_name (AccountOp a) = account_name a"

section \<open>The interface\<close>

definition HTTPClient :: "(string \<times> string option) list" where
  "HTTPClient =
     [(''GetAccountAPILimits'', Some ''GetAccountApiLimitsResponse''),
      (''GetAccountEndpointCosts'', Some ''GetAccountEndpointCostsResponse''),
      (''UpgradeAPIUsageLevel'', None),
      (''GetExchangeStatus'', Some ''ExchangeStatus''),
      (''GetExchangeSchedule'', Some ''GetExchangeScheduleResponse''),
      (''GetUserDataTimestamp'', Some ''GetUserDataTimestampResponse''),
      (''GetSeriesFeeChanges'', Some ''GetSeriesFeeChangesResponse''),
      (''GetOrder'', Some ''GetOrderResponse''),
      (''GetOrders'', Some ''GetOrdersResponse''),
      (''GetQueuePositions'', Some ''GetOrderQueuePositionsResponse''),
      (''GetQueuePosition'', Some ''GetOrderQueuePositionResponse''),
      (''GetBalance'', Some ''GetBalanceResponse''),
      (''GetPositions'', Some ''GetPositionsResponse''),
      (''GetFills'', Some ''GetFillsResponse''),
      (''GetSettlements'', Some ''GetSettlementsResponse''),
      (''GetDeposits'', Some ''GetDepositsResponse''),
      (''GetWithdrawals'', Some ''GetWithdrawalsResponse''),
      (''GetPortfolioRestingOrderTotalValue'', Some ''GetPortfolioRestingOrderTotalValueResponse''),
      (''CreateSubaccount'', Some ''CreateSubaccountResponse''),
      (''GetSubaccountBalances'', Some ''GetSubaccountBalancesResponse''),
      (''GetSubaccountNetting'', Some ''GetSubaccountNettingResponse''),
      (''UpdateSubaccountNetting'', None),
      (''ApplySubaccountTransfer'', Some ''ApplySubaccountTransferResponse''),
      (''GetSubaccountTransfers'', Some ''GetSubaccountTransfersResponse''),
      (''CreateOrderGroup'', Some ''CreateOrderGroupResponse''),
      (''GetOrderGroups'', Some ''GetOrderGroupsResponse''),
      (''GetOrderGroup'', Some ''GetOrderGroupResponse''),
      (''DeleteOrderGroup'', None),
      (''ResetOrderGroup'', None),
      (''TriggerOrderGroup'', None),
      (''UpdateOrderGroupLimit'', None),
      (''GetMarketOrderbook'', Some ''GetMarketOrderbookResponse''),
      (''GetMarketOrderbooks'', Some ''GetMarketOrderbooksResponse''),
      (''GetTrades'', Some ''GetTradesResponse''),
      (''GetMarket'', Some ''GetMarketResponse''),
      (''GetMarkets'', Some ''GetMarketsResponse''),
      (''GetMarketCandlesticks'', Some ''GetMarketCandlesticksResponse''),
      (''GetBatchMarketCandlesticks'', Some ''BatchGetMarketCandlesticksResponse''),
      (''GetEvent'', Some ''GetEventResponse''),
      (''GetEvents'', Some ''GetEventsResponse''),
      (''GetEventMetadata'', Some ''GetEventMetadataResponse''),
      (''GetMultivariateEvents'', Some ''GetMultivariateEventsResponse''),
      (''GetEventCandlesticks'', Some ''GetEventCandlesticksResponse''),
      (''GetEventForecastPercentileHistory'', Some ''GetEventForecastPercentilesHistoryResponse''),
      (''GetEventFeeChanges'', Some ''GetEventFeeChangesResponse''),
      (''GetSeries'', Some ''GetSeriesResponse''),
      (''GetSeriesList'', Some ''GetSeriesListResponse''),
      (''GetTagsByCategories'', Some ''GetTagsForSeriesCategoriesResponse''),
      (''GetFiltersBySport'', Some ''GetFiltersBySportsResponse''),
      (''GetAPIKeys'', Some ''GetApiKeysResponse''),
      (''CreateAPIKey'', Some ''CreateApiKeyResponse''),
      (''GenerateAPIKey'', Some ''GenerateApiKeyResponse''),
      (''DeleteAPIKey'', None),
      (''CreateOrderV2'', Some ''CreateOrderV2Response''),
      (''BatchCreateOrdersV2'', Some ''BatchCreateOrdersV2Response''),
      (''BatchCancelOrdersV2'', Some ''BatchCancelOrdersV2Response''),
      (''CancelOrderV2'', Some ''CancelOrderV2Response''),
      (''AmendOrderV2'', Some ''AmendOrderV2Response''),
      (''DecreaseOrderV2'', Some ''DecreaseOrderV2Response''),
      (''GetHistoricalCutoff'', Some ''GetHistoricalCutoffResponse''),
      (''GetHistoricalFills'', Some ''GetFillsResponse''),
      (''GetHistoricalOrders'', Some ''GetOrdersResponse''),
      (''GetHistoricalTrades'', Some ''GetTradesResponse''),
      (''GetHistoricalMarkets'', Some ''GetMarketsResponse''),
      (''GetHistoricalMarket'', Some ''GetMarketResponse''),
      (''GetHistoricalMarketCandlesticks'', Some ''GetMarketCandlesticksHistoricalResponse''),
      (''GetIncentivePrograms'', Some ''GetIncentiveProgramsResponse''),
      (''GetLiveDataBatch'', Some ''GetLiveDatasResponse''),
      (''GetLiveDataByMilestone'', Some ''GetLiveDataResponse''),
      (''GetMilestoneGameStats'', Some ''GetGameStatsResponse''),
      (''GetLiveData'', Some ''GetLiveDataResponse''),
      (''GetMilestones'', Some ''GetMilestonesResponse''),
      (''GetMilestone'', Some ''GetMilestoneResponse''),
      (''GetMultivariateEventCollections'', Some ''GetMultivariateEventCollectionsResponse''),
      (''GetMultivariateEventCollection'', Some ''GetMultivariateEventCollectionResponse''),
      (''CreateMarketInMultivariateEventCollection'', Some ''CreateMarketInMultivariateEventCollectionResponse''),
      (''GetStructuredTargets'', Some ''GetStructuredTargetsResponse''),
      (''GetStructuredTarget'', Some ''GetStructuredTargetResponse''),
      (''GetCommunicationsID'', Some ''GetCommunicationsIDResponse''),
      (''CreateRFQ'', Some ''CreateRFQResponse''),
      (''GetRFQs'', Some ''GetRFQsResponse''),
      (''GetRFQ'', Some ''GetRFQResponse''),
      (''DeleteRFQ'', None),
      (''CreateQuote'', Some ''CreateQuoteResponse''),
      (''GetQuotes'', Some ''GetQuotesResponse''),
      (''GetQuote'', Some ''GetQuoteResponse''),
      (''DeleteQuote'', None),
      (''AcceptQuote'', None),
      (''ConfirmQuote'', None)]"

lemma market_methods:
  "(op_name (MarketOp (Call_GetExchangeStatus)), result_type (op_endpoint (MarketOp (Call_GetExchangeStatus)))) = (''GetExchangeStatus'', Some ''ExchangeStatus'')"
  "(op_name (MarketOp (Call_GetExchangeSchedule)), result_type (op_endpoint (MarketOp (Call_GetExchangeSchedule)))) = (''GetExchangeSchedule'', Some ''GetExchangeScheduleResponse'')"
  "(op_name (MarketOp (Call_GetUserDataTimestamp)), result_type (op_endpoint (MarketOp (Call_GetUserDataTimestamp)))) = (''GetUserDataTimestamp'', Some ''GetUserDataTimestampResponse'')"
  "(op_name (MarketOp (Call_GetSeriesFeeChanges getSeriesFeeChanges1)), result_type (op_endpoint (MarketOp (Call_GetSeriesFeeChanges getSeriesFeeChanges1)))) = (''GetSeriesFeeChanges'', Some ''GetSeriesFeeChangesResponse'')"
  "(op_name (MarketOp (Call_GetMarketOrderbook getMarketOrderbook1 getMarketOrderbook2)), result_type (op_endpoint (MarketOp (Call_GetMarketOrderbook getMarketOrderbook1 getMarketOrderbook2)))) = (''GetMarketOrderbook'', Some ''GetMarketOrderbookResponse'')"
  "(op_name (MarketOp (Call_GetMarketOrderbooks getMarketOrderbooks1)), result_type (op_endpoint (MarketOp (Call_GetMarketOrderbooks getMarketOrderbooks1)))) = (''GetMarketOrderbooks'', Some ''GetMarketOrderbooksResponse'')"
  "(op_name (MarketOp (Call_GetTrades getTrades1)), result_type (op_endpoint (MarketOp (Call_GetTrades getTrades1)))) = (''GetTrades'', Some ''GetTradesResponse'')"
  "(op_name (MarketOp (Call_GetMarket getMarket1)), result_type (op_endpoint (MarketOp (Call_GetMarket getMarket1)))) = (''GetMarket'', Some ''GetMarketResponse'')"
  "(op_name (MarketOp (Call_GetMarkets getMarkets1)), result_type (op_endpoint (MarketOp (Call_GetMarkets getMarkets1)))) = (''GetMarkets'', Some ''GetMarketsResponse'')"
  "(op_name (MarketOp (Call_GetMarketCandlesticks getMarketCandlesticks1 getMarketCandlesticks2 getMarketCandlesticks3)), result_type (op_endpoint (MarketOp (Call_GetMarketCandlesticks getMarketCandlesticks1 getMarketCandlesticks2 getMarketCandlesticks3)))) = (''GetMarketCandlesticks'', Some ''GetMarketCandlesticksResponse'')"
  "(op_name (MarketOp (Call_GetBatchMarketCandlesticks getBatchMarketCandlesticks1)), result_type (op_endpoint (MarketOp (Call_GetBatchMarketCandlesticks getBatchMarketCandlesticks1)))) = (''GetBatchMarketCandlesticks'', Some ''BatchGetMarketCandlesticksResponse'')"
  "(op_name (MarketOp (Call_GetEvent getEvent1 getEvent2)), result_type (op_endpoint (MarketOp (Call_GetEvent getEvent1 getEvent2)))) = (''GetEvent'', Some ''GetEventResponse'')"
  "(op_name (MarketOp (Call_GetEvents getEvents1)), result_type (op_endpoint (MarketOp (Call_GetEvents getEvents1)))) = (''GetEvents'', Some ''GetEventsResponse'')"
  "(op_name (MarketOp (Call_GetEventMetadata getEventMetadata1)), result_type (op_endpoint (MarketOp (Call_GetEventMetadata getEventMetadata1)))) = (''GetEventMetadata'', Some ''GetEventMetadataResponse'')"
  "(op_name (MarketOp (Call_GetMultivariateEvents getMultivariateEvents1)), result_type (op_endpoint (MarketOp (Call_GetMultivariateEvents getMultivariateEvents1)))) = (''GetMultivariateEvents'', Some ''GetMultivariateEventsResponse'')"
  "(op_name (MarketOp (Call_GetEventCandlesticks getEventCandlesticks1 getEventCandlesticks2 getEventCandlesticks3)), result_type (op_endpoint (MarketOp (Call_GetEventCandlesticks getEventCandlesticks1 getEventCandlesticks2 getEventCandlesticks3)))) = (''GetEventCandlesticks'', Some ''GetEventCandlesticksResponse'')"
  "(op_name (MarketOp (Call_GetEventForecastPercentileHistory getEventForecastPercentileHistory1 getEventForecastPercentileHistory2 getEventForecastPercentileHistory3)), result_type (op_endpoint (MarketOp (Call_GetEventForecastPercentileHistory getEventForecastPercentileHistory1 getEventForecastPercentileHistory2 getEventForecastPercentileHistory3)))) = (''GetEventForecastPercentileHistory'', Some ''GetEventForecastPercentilesHistoryResponse'')"
  "(op_name (MarketOp (Call_GetEventFeeChanges getEventFeeChanges1)), result_type (op_endpoint (MarketOp (Call_GetEventFeeChanges getEventFeeChanges1)))) = (''GetEventFeeChanges'', Some ''GetEventFeeChangesResponse'')"
  "(op_name (MarketOp (Call_GetSeries getSeries1 getSeries2)), result_type (op_endpoint (MarketOp (Call_GetSeries getSeries1 getSeries2)))) = (''GetSeries'', Some ''GetSeriesResponse'')"
  "(op_name (MarketOp (Call_GetSeriesList getSeriesList1)), result_type (op_endpoint (MarketOp (Call_GetSeriesList getSeriesList1)))) = (''GetSeriesList'', Some ''GetSeriesListResponse'')"
  "(op_name (MarketOp (Call_GetTagsByCategories)), result_type (op_endpoint (MarketOp (Call_GetTagsByCategories)))) = (''GetTagsByCategories'', Some ''GetTagsForSeriesCategoriesResponse'')"
  "(op_name (MarketOp (Call_GetFiltersBySport)), result_type (op_endpoint (MarketOp (Call_GetFiltersBySport)))) = (''GetFiltersBySport'', Some ''GetFiltersBySportsResponse'')"
  "(op_name (MarketOp (Call_GetHistoricalCutoff)), result_type (op_endpoint (MarketOp (Call_GetHistoricalCutoff)))) = (''GetHistoricalCutoff'', Some ''GetHistoricalCutoffResponse'')"
  "(op_name (MarketOp (Call_GetHistoricalFills getHistoricalFills1)), result_type (op_endpoint (MarketOp (Call_GetHistoricalFills getHistoricalFills1)))) = (''GetHistoricalFills'', Some ''GetFillsResponse'')"
  "(op_name (MarketOp (Call_GetHistoricalOrders getHistoricalOrders1)), result_type (op_endpoint (MarketOp (Call_GetHistoricalOrders getHistoricalOrders1)))) = (''GetHistoricalOrders'', Some ''GetOrdersResponse'')"
  "(op_name (MarketOp (Call_GetHistoricalTrades getHistoricalTrades1)), result_type (op_endpoint (MarketOp (Call_GetHistoricalTrades getHistoricalTrades1)))) = (''GetHistoricalTrades'', Some ''GetTradesResponse'')"
  "(op_name (MarketOp (Call_GetHistoricalMarkets getHistoricalMarkets1)), result_type (op_endpoint (MarketOp (Call_GetHistoricalMarkets getHistoricalMarkets1)))) = (''GetHistoricalMarkets'', Some ''GetMarketsResponse'')"
  "(op_name (MarketOp (Call_GetHistoricalMarket getHistoricalMarket1)), result_type (op_endpoint (MarketOp (Call_GetHistoricalMarket getHistoricalMarket1)))) = (''GetHistoricalMarket'', Some ''GetMarketResponse'')"
  "(op_name (MarketOp (Call_GetHistoricalMarketCandlesticks getHistoricalMarketCandlesticks1 getHistoricalMarketCandlesticks2)), result_type (op_endpoint (MarketOp (Call_GetHistoricalMarketCandlesticks getHistoricalMarketCandlesticks1 getHistoricalMarketCandlesticks2)))) = (''GetHistoricalMarketCandlesticks'', Some ''GetMarketCandlesticksHistoricalResponse'')"
  "(op_name (MarketOp (Call_GetIncentivePrograms)), result_type (op_endpoint (MarketOp (Call_GetIncentivePrograms)))) = (''GetIncentivePrograms'', Some ''GetIncentiveProgramsResponse'')"
  "(op_name (MarketOp (Call_GetLiveDataBatch getLiveDataBatch1)), result_type (op_endpoint (MarketOp (Call_GetLiveDataBatch getLiveDataBatch1)))) = (''GetLiveDataBatch'', Some ''GetLiveDatasResponse'')"
  "(op_name (MarketOp (Call_GetLiveDataByMilestone getLiveDataByMilestone1 getLiveDataByMilestone2)), result_type (op_endpoint (MarketOp (Call_GetLiveDataByMilestone getLiveDataByMilestone1 getLiveDataByMilestone2)))) = (''GetLiveDataByMilestone'', Some ''GetLiveDataResponse'')"
  "(op_name (MarketOp (Call_GetMilestoneGameStats getMilestoneGameStats1)), result_type (op_endpoint (MarketOp (Call_GetMilestoneGameStats getMilestoneGameStats1)))) = (''GetMilestoneGameStats'', Some ''GetGameStatsResponse'')"
  "(op_name (MarketOp (Call_GetLiveData getLiveData1 getLiveData2 getLiveData3)), result_type (op_endpoint (MarketOp (Call_GetLiveData getLiveData1 getLiveData2 getLiveData3)))) = (''GetLiveData'', Some ''GetLiveDataResponse'')"
  "(op_name (MarketOp (Call_GetMilestones getMilestones1)), result_type (op_endpoint (MarketOp (Call_GetMilestones getMilestones1)))) = (''GetMilestones'', Some ''GetMilestonesResponse'')"
  "(op_name (MarketOp (Call_GetMilestone getMilestone1)), result_type (op_endpoint (MarketOp (Call_GetMilestone getMilestone1)))) = (''GetMilestone'', Some ''GetMilestoneResponse'')"
  "(op_name (MarketOp (Call_GetMultivariateEventCollections getMultivariateEventCollections1)), result_type (op_endpoint (MarketOp (Call_GetMultivariateEventCollections getMultivariateEventCollections1)))) = (''GetMultivariateEventCollections'', Some ''GetMultivariateEventCollectionsResponse'')"
  "(op_name (MarketOp (Call_GetMultivariateEventCollection getMultivariateEventCollection1)), result_type (op_endpoint (MarketOp (Call_GetMultivariateEventCollection getMultivariateEventCollection1)))) = (''GetMultivariateEventCollection'', Some ''GetMultivariateEventCollectionResponse'')"
  "(op_name (MarketOp (Call_CreateMarketInMultivariateEventCollection createMarketInMultivariateEventCollection1 createMarketInMultivariateEventCollection2)), result_type (op_endpoint (MarketOp (Call_CreateMarketInMultivariateEventCollection createMarketInMultivariateEventCollection1 createMarketInMultivariateEventCollection2)))) = (''CreateMarketInMultivariateEventCollection'', Some ''CreateMarketInMultivariateEventCollectionResponse'')"
  "(op_name (MarketOp (Call_GetStructuredTargets getStructuredTargets1)), result_type (op_endpoint (MarketOp (Call_GetStructuredTargets getStructuredTargets1)))) = (''GetStructuredTargets'', Some ''GetStructuredTargetsResponse'')"
  "(op_name (MarketOp (Call_GetStructuredTarget getStructuredTarget1)), result_type (op_endpoint (MarketOp (Call_GetStructuredTarget getStructuredTarget1)))) = (''GetStructuredTarget'', Some ''GetStructuredTargetResponse'')"
  by (simp_all add: result_type_def market_endpoint_defs)

lemma trading_methods:
  "(op_name (TradingOp (Call_GetOrder getOrder1)), result_type (op_endpoint (TradingOp (Call_GetOrder getOrder1)))) = (''GetOrder'', Some ''GetOrderResponse'')"
  "(op_name (TradingOp (Call_GetOrders getOrders1)), result_type (op_endpoint (TradingOp (Call_GetOrders getOrders1)))) = (''GetOrders'', Some ''GetOrdersResponse'')"
  "(op_name (TradingOp (Call_GetQueuePositions getQueuePositions1)), result_type (op_endpoint (TradingOp (Call_GetQueuePositions getQueuePositions1)))) = (''GetQueuePositions'', Some ''GetOrderQueuePositionsResponse'')"
  "(op_name (TradingOp (Call_GetQueuePosition getQueuePosition1)), result_type (op_endpoint (TradingOp (Call_GetQueuePosition getQueuePosition1)))) = (''GetQueuePosition'', Some ''GetOrderQueuePositionResponse'')"
  "(op_name (TradingOp (Call_CreateOrderGroup createOrderGroup1)), result_type (op_endpoint (TradingOp (Call_CreateOrderGroup createOrderGroup1)))) = (''CreateOrderGroup'', Some ''CreateOrderGroupResponse'')"
  "(op_name (TradingOp (Call_GetOrderGroups getOrderGroups1)), result_type (op_endpoint (TradingOp (Call_GetOrderGroups getOrderGroups1)))) = (''GetOrderGroups'', Some ''GetOrderGroupsResponse'')"
  "(op_name (TradingOp (Call_GetOrderGroup getOrderGroup1 getOrderGroup2)), result_type (op_endpoint (TradingOp (Call_GetOrderGroup getOrderGroup1 getOrderGroup2)))) = (''GetOrderGroup'', Some ''GetOrderGroupResponse'')"
  "(op_name (TradingOp (Call_DeleteOrderGroup deleteOrderGroup1 deleteOrderGroup2)), result_type (op_endpoint (TradingOp (Call_DeleteOrderGroup deleteOrderGroup1 deleteOrderGroup2)))) = (''DeleteOrderGroup'', None)"
  "(op_name (TradingOp (Call_ResetOrderGroup resetOrderGroup1 resetOrderGroup2)), result_type (op_endpoint (TradingOp (Call_ResetOrderGroup resetOrderGroup1 resetOrderGroup2)))) = (''ResetOrderGroup'', None)"
  "(op_name (TradingOp (Call_TriggerOrderGroup triggerOrderGroup1 triggerOrderGroup2)), result_type (op_endpoint (TradingOp (Call_TriggerOrderGroup triggerOrderGroup1 triggerOrderGroup2)))) = (''TriggerOrderGroup'', None)"
  "(op_name (TradingOp (Call_UpdateOrderGroupLimit updateOrderGroupLimit1 updateOrderGroupLimit2 updateOrderGroupLimit3)), result_type (op_endpoint (TradingOp (Call_UpdateOrderGroupLimit updateOrderGroupLimit1 updateOrderGroupLimit2 updateOrderGroupLimit3)))) = (''UpdateOrderGroupLimit'', None)"
  "(op_name (TradingOp (Call_CreateOrderV2 createOrderV21)), result_type (op_endpoint (TradingOp (Call_CreateOrderV2 createOrderV21)))) = (''CreateOrderV2'', Some ''CreateOrderV2Response'')"
  "(op_name (TradingOp (Call_BatchCreateOrdersV2 batchCreateOrdersV21)), result_type (op_endpoint (TradingOp (Call_BatchCreateOrdersV2 batchCreateOrdersV21)))) = (''BatchCreateOrdersV2'', Some ''BatchCreateOrdersV2Response'')"
  "(op_name (TradingOp (Call_BatchCancelOrdersV2 batchCancelOrdersV21)), result_type (op_endpoint (TradingOp (Call_BatchCancelOrdersV2 batchCancelOrdersV21)))) = (''BatchCancelOrdersV2'', Some ''BatchCancelOrdersV2Response'')"
  "(op_name (TradingOp (Call_CancelOrderV2 cancelOrderV21 cancelOrderV22)), result_type (op_endpoint (TradingOp (Call_CancelOrderV2 cancelOrderV21 cancelOrderV22)))) = (''CancelOrderV2'', Some ''CancelOrderV2Response'')"
  "(op_name (TradingOp (Call_AmendOrderV2 amendOrderV21 amendOrderV22)), result_type (op_endpoint (TradingOp (Call_AmendOrderV2 amendOrderV21 amendOrderV22)))) = (''AmendOrderV2'', Some ''AmendOrderV2Response'')"
  "(op_name (TradingOp (Call_DecreaseOrderV2 decreaseOrderV21 decreaseOrderV22)), result_type (op_endpoint (TradingOp (Call_DecreaseOrderV2 decreaseOrderV21 decreaseOrderV22)))) = (''DecreaseOrderV2'', Some ''DecreaseOrderV2Response'')"
  "(op_name (TradingOp (Call_GetCommunicationsID)), result_type (op_endpoint (TradingOp (Call_GetCommunicationsID)))) = (''GetCommunicationsID'', Some ''GetCommunicationsIDResponse'')"
  "(op_name (TradingOp (Call_CreateRFQ createRFQ1)), result_type (op_endpoint (TradingOp (Call_CreateRFQ createRFQ1)))) = (''CreateRFQ'', Some ''CreateRFQResponse'')"
  "(op_name (TradingOp (Call_GetRFQs getRFQs1)), result_type (op_endpoint (TradingOp (Call_GetRFQs getRFQs1)))) = (''GetRFQs'', Some ''GetRFQsResponse'')"
  "(op_name (TradingOp (Call_GetRFQ getRFQ1)), result_type (op_endpoint (TradingOp (Call_GetRFQ getRFQ1)))) = (''GetRFQ'', Some ''GetRFQResponse'')"
  "(op_name (TradingOp (Call_DeleteRFQ deleteRFQ1)), result_type (op_endpoint (TradingOp (Call_DeleteRFQ deleteRFQ1)))) = (''DeleteRFQ'', None)"
  "(op_name (TradingOp (Call_CreateQuote createQuote1)), result_type (op_endpoint (TradingOp (Call_CreateQuote createQuote1)))) = (''CreateQuote'', Some ''CreateQuoteResponse'')"
  "(op_name (TradingOp (Call_GetQuotes getQuotes1)), result_type (op_endpoint (TradingOp (Call_GetQuotes getQuotes1)))) = (''GetQuotes'', Some ''GetQuotesResponse'')"
  "(op_name (TradingOp (Call_GetQuote getQuote1)), result_type (op_endpoint (TradingOp (Call_GetQuote getQuote1)))) = (''GetQuote'', Some ''GetQuoteResponse'')"
  "(op_name (TradingOp (Call_DeleteQuote deleteQuote1)), result_type (op_endpoint (TradingOp (Call_DeleteQuote deleteQuote1)))) = (''DeleteQuote'', None)"
  "(op_name (TradingOp (Call_AcceptQuote acceptQuote1 acceptQuote2)), result_type (op_endpoint (TradingOp (Call_AcceptQuote acceptQuote1 acceptQuote2)))) = (''AcceptQuote'', None)"
  "(op_name (TradingOp (Call_ConfirmQuote confirmQuote1)), result_type (op_endpoint (TradingOp (Call_ConfirmQuote confirmQuote1)))) = (''ConfirmQuote'', None)"
  by (simp_all add: result_type_def trading_endpoint_defs)

lemma account_methods:
  "(op_name (AccountOp (Call_GetAccountAPILimits)), result_type (op_endpoint (AccountOp (Call_GetAccountAPILimits)))) = (''GetAccountAPILimits'', Some ''GetAccountApiLimitsResponse'')"
  "(op_name (AccountOp (Call_GetAccountEndpointCosts)), result_type (op_endpoint (AccountOp (Call_GetAccountEndpointCosts)))) = (''GetAccountEndpointCosts'', Some ''GetAccountEndpointCostsResponse'')"
  "(op_name (AccountOp (Call_UpgradeAPIUsageLevel)), result_type (op_endpoint (AccountOp (Call_UpgradeAPIUsageLevel)))) = (''UpgradeAPIUsageLevel'', None)"
  "(op_name (AccountOp (Call_GetBalance)), result_type (op_endpoint (AccountOp (Call_GetBalance)))) = (''GetBalance'', Some ''GetBalanceResponse'')"
  "(op_name (AccountOp (Call_GetPositions getPositions1)), result_type (op_endpoint (AccountOp (Call_GetPositions getPositions1)))) = (''GetPositions'', Some ''GetPositionsResponse'')"
  "(op_name (AccountOp (Call_GetFills getFills1)), result_type (op_endpoint (AccountOp (Call_GetFills getFills1)))) = (''GetFills'', Some ''GetFillsResponse'')"
  "(op_name (AccountOp (Call_GetSettlements getSettlements1)), result_type (op_endpoint (AccountOp (Call_GetSettlements getSettlements1)))) = (''GetSettlements'', Some ''GetSettlementsResponse'')"
  "(op_name (AccountOp (Call_GetDeposits getDeposits1)), result_type (op_endpoint (AccountOp (Call_GetDeposits getDeposits1)))) = (''GetDeposits'', Some ''GetDepositsResponse'')"
  "(op_name (AccountOp (Call_GetWithdrawals getWithdrawals1)), result_type (op_endpoint (AccountOp (Call_GetWithdrawals getWithdrawals1)))) = (''GetWithdrawals'', Some ''GetWithdrawalsResponse'')"
  "(op_name (AccountOp (Call_GetPortfolioRestingOrderTotalValue)), result_type (op_endpoint (AccountOp (Call_GetPortfolioRestingOrderTotalValue)))) = (''GetPortfolioRestingOrderTotalValue'', Some ''GetPortfolioRestingOrderTotalValueResponse'')"
  "(op_name (AccountOp (Call_CreateSubaccount)), result_type (op_endpoint (AccountOp (Call_CreateSubaccount)))) = (''CreateSubaccount'', Some ''CreateSubaccountResponse'')"
  "(op_name (AccountOp (Call_GetSubaccountBalances)), result_type (op_endpoint (AccountOp (Call_GetSubaccountBalances)))) = (''GetSubaccountBalances'', Some ''GetSubaccountBalancesResponse'')"
  "(op_name (AccountOp (Call_GetSubaccountNetting)), result_type (op_endpoint (AccountOp (Call_GetSubaccountNetting)))) = (''GetSubaccountNetting'', Some ''GetSubaccountNettingResponse'')"
  "(op_name (AccountOp (Call_UpdateSubaccountNetting updateSubaccountNetting1)), result_type (op_endpoint (AccountOp (Call_UpdateSubaccountNetting updateSubaccountNetting1)))) = (''UpdateSubaccountNetting'', None)"
  "(op_name (AccountOp (Call_ApplySubaccountTransfer applySubaccountTransfer1)), result_type (op_endpoint (AccountOp (Call_ApplySubaccountTransfer applySubaccountTransfer1)))) = (''ApplySubaccountTransfer'', Some ''ApplySubaccountTransferResponse'')"
  "(op_name (AccountOp (Call_GetSubaccountTransfers getSubaccountTransfers1)), result_type (op_endpoint (AccountOp (Call_GetSubaccountTransfers getSubaccountTransfers1)))) = (''GetSubaccountTransfers'', Some ''GetSubaccountTransfersResponse'')"
  "(op_name (AccountOp (Call_GetAPIKeys)), result_type (op_endpoint (AccountOp (Call_GetAPIKeys)))) = (''GetAPIKeys'', Some ''GetApiKeysResponse'')"
  "(op_name (AccountOp (Call_CreateAPIKey createAPIKey1)), result_type (op_endpoint (AccountOp (Call_CreateAPIKey createAPIKey1)))) = (''CreateAPIKey'', Some ''CreateApiKeyResponse'')"
  "(op_name (AccountOp (Call_GenerateAPIKey generateAPIKey1)), result_type (op_endpoint (AccountOp (Call_GenerateAPIKey generateAPIKey1)))) = (''GenerateAPIKey'', Some ''GenerateApiKeyResponse'')"
  "(op_name (AccountOp (Call_DeleteAPIKey deleteAPIKey1)), result_type (op_endpoint (AccountOp (Call_DeleteAPIKey deleteAPIKey1)))) = (''DeleteAPIKey'', None)"
  by (simp_all add: result_type_def account_endpoint_defs)

text \<open>The client implements the interface.\<close>

lemma implements_all: "list_all (\<lambda>e. \<exists>op. (op_name op, result_type (op_endpoint op)) = e) HTTPClient"
  unfolding HTTPClient_def list.pred_inject(2)
  by (intro conjI; (rule exI, rule market_methods trading_methods account_methods | simp))

end
