(* ===== verification/WSInterface.thy ===== *)
theory WSInterface
  imports WSReach
begin

text \<open>
  The interface \<open>WebSocketClient\<close> of \<open>interfaces.go\<close> as a record of operations over a state, with
  the WebSocket client as the implementation that the file checks at compile time; the channel its
  consumers read; and \<open>logger.go\<close>. Beside its Go arguments an operation has the inputs of the
  world that its model takes.
\<close>

section \<open>The message channel\<close>

text \<open>All that has been put on the channel, in order; receiving takes it from the front.\<close>

definition MsgCh :: "('k, 'r) WSClient \<Rightarrow> string list" where
  "MsgCh c = List.map_filter (\<lambda>e. case e of Dispatched m \<Rightarrow> Some m | _ \<Rightarrow> None) (ws_trace c)"

lemma trace_grows: "\<exists>es. ws_trace (run_section x c) = ws_trace c @ es" for c :: "('k, 'r) WSClient"
proof (cases x)
  case (ASubscribed msg)
  show ?thesis
    by (simp add: ASubscribed subscribed_enter_def upd_state_def Let_def split: option.split sum.split prod.split)
next
  case (AOk msg)
  show ?thesis
    by (auto simp: AOk handleOK_def check_seq_def force_reconnect_def upd_state_def Let_def split: option.split sum.split prod.split)
next
  case ALoss
  have "ws_trace (foldl (\<lambda>c (name, a). upd_state a f c) c' chs) = ws_trace c'"
    for f and chs :: "(string \<times> nat) list" and c' :: "('k, 'r) WSClient"
    by (induction chs arbitrary: c') (auto simp: upd_state_def)
  then show ?thesis by (simp add: ALoss connection_loss_def)
next
  case (ADropChannel ch)
  show ?thesis by (simp add: ADropChannel drop_channel_def deletePendingInitForChannel_def split: option.split)
next
  case (AData msg)
  show ?thesis
    by (auto simp: AData handleDataMessage_def check_seq_def force_reconnect_def upd_state_def Let_def split: option.split)
qed (simp_all add: new_channel_def alloc_id_def alloc_pending_def drop_channel_def deletePendingInitForChannel_def drop_sid_def
    set_global_def add_markets_def queue_markets_def remove_markets_def take_pending_def force_reconnect_def log_event_def
    handleUnsubscribed_def connection_loss_def upd_state_def Let_def split: prod.split)

text \<open>What a consumer has seen stays what was put on the channel first, whoever is at work.\<close>

lemma MsgCh_grows: "\<exists>ms. MsgCh (run_sections xs c) = MsgCh c @ ms"
proof (induction xs arbitrary: c)
  case (Cons x xs)
  obtain es where "ws_trace (run_section x c) = ws_trace c @ es" using trace_grows by blast
  then have "\<exists>ms. MsgCh (run_section x c) = MsgCh c @ ms"
    by (auto simp: MsgCh_def List.map_filter_def)
  with Cons.IH [of "run_section x c"] show ?case by (metis append.assoc run_sections.simps(2))
qed simp

section \<open>The interface\<close>

record 's WebSocketClient =
  wc_Connect :: "goint \<Rightarrow> goerror + nat \<Rightarrow> ws_section list \<Rightarrow> 's \<Rightarrow> goerror option \<times> 's"
  wc_Connected :: "'s \<Rightarrow> bool"
  wc_Close :: "ws_section list \<Rightarrow> 's \<Rightarrow> nat option \<times> 's"
  wc_MsgCh :: "'s \<Rightarrow> string list"
  wc_ListenLoop :: "listen_round list \<Rightarrow> 's \<Rightarrow> listen_result \<times> 's"
  wc_Subscribe :: "window list \<Rightarrow> string list \<Rightarrow> string list option \<Rightarrow> SubscribeOption list \<Rightarrow> 's \<Rightarrow> ws_result \<times> 's"
  wc_Unsubscribe :: "window list \<Rightarrow> string list \<Rightarrow> 's \<Rightarrow> ws_result \<times> 's"
  wc_AddMarkets :: "window list \<Rightarrow> string list \<Rightarrow> string list \<Rightarrow> SubscribeOption list \<Rightarrow> 's \<Rightarrow> ws_result \<times> 's"
  wc_RemoveMarkets :: "window list \<Rightarrow> string list \<Rightarrow> string list \<Rightarrow> 's \<Rightarrow> ws_result \<times> 's"
  wc_GetSnapshot :: "window list \<Rightarrow> string list \<Rightarrow> string list \<Rightarrow> 's \<Rightarrow> ws_result \<times> 's"

definition WSClient_methods :: "('k, 'r) crypto \<Rightarrow> ('k, 'r) WSClient WebSocketClient" where
  "WSClient_methods w =
     \<lparr>wc_Connect = Connect w, wc_Connected = Connected, wc_Close = Close, wc_MsgCh = MsgCh,
      wc_ListenLoop = ListenLoop w, wc_Subscribe = Subscribe, wc_Unsubscribe = Unsubscribe,
      wc_AddMarkets = AddMarkets, wc_RemoveMarkets = RemoveMarkets, wc_GetSnapshot = GetSnapshot\<rparr>"

section \<open>logger.go\<close>

text \<open>A handler of \<open>log/slog\<close>, with a record as its level and message, and a logger as its handler.\<close>

record 'h Handler =
  lh_Enabled :: "'h \<Rightarrow> goint \<Rightarrow> bool"
  lh_Handle :: "'h \<Rightarrow> goint \<times> string \<Rightarrow> goerror option"
  lh_WithAttrs :: "'h \<Rightarrow> (string \<times> string) list \<Rightarrow> 'h"
  lh_WithGroup :: "'h \<Rightarrow> string \<Rightarrow> 'h"

record 'h Logger =
  lg_handler :: 'h
  lg_methods :: "'h Handler"

datatype discardHandler = DiscardHandler

definition discard_methods :: "discardHandler Handler" where
  "discard_methods =
     \<lparr>lh_Enabled = (\<lambda>h level. False), lh_Handle = (\<lambda>h r. None), lh_WithAttrs = (\<lambda>d attrs. d), lh_WithGroup = (\<lambda>d name. d)\<rparr>"

definition newDiscardLogger :: "discardHandler Logger" where
  "newDiscardLogger = \<lparr>lg_handler = DiscardHandler, lg_methods = discard_methods\<rparr>"

text \<open>The client together with its logger; the option leaves the rest of the client as it is.\<close>

record ('k, 'r, 'h) LoggedWSClient = "('k, 'r) WSClient" +
  ws_logger :: "'h Logger"

definition WithWSLogger :: "'h Logger \<Rightarrow> ('k, 'r, 'h) LoggedWSClient \<Rightarrow> ('k, 'r, 'h) LoggedWSClient" where
  "WithWSLogger l c = c\<lparr>ws_logger := l\<rparr>"

text \<open>The standard library's \<open>Logger.With\<close>, \<open>WithGroup\<close> and \<open>Log\<close>: what reaches the handler.\<close>

definition log_with :: "'h Logger \<Rightarrow> (string \<times> string) list \<Rightarrow> 'h Logger" where
  "log_with l attrs = (if attrs = [] then l else l\<lparr>lg_handler := lh_WithAttrs (lg_methods l) (lg_handler l) attrs\<rparr>)"

definition log_group :: "'h Logger \<Rightarrow> string \<Rightarrow> 'h Logger" where
  "log_group l name = (if name = [] then l else l\<lparr>lg_handler := lh_WithGroup (lg_methods l) (lg_handler l) name\<rparr>)"

definition handled :: "'h Logger \<Rightarrow> (goint \<times> string) list \<Rightarrow> (goint \<times> string) list" where
  "handled l rs = filter (\<lambda>r. lh_Enabled (lg_methods l) (lg_handler l) (fst r)) rs"

lemma discard_logger_silent:
  "handled (foldl log_group (foldl log_with newDiscardLogger attrs) groups) rs = []"
proof -
  have "lg_methods (foldl log_with l attrs) = lg_methods l" for l :: "discardHandler Logger"
    by (induction attrs arbitrary: l) (simp_all add: log_with_def)
  moreover have "lg_methods (foldl log_group l groups) = lg_methods l" for l :: "discardHandler Logger"
    by (induction groups arbitrary: l) (simp_all add: log_group_def)
  ultimately show ?thesis by (simp add: handled_def newDiscardLogger_def discard_methods_def)
qed

end
