(* ===== verification/RatePool.thy ===== *)
theory RatePool
  imports ApiErrors
begin

text \<open>
  The request pools of \<open>tools/ratelimit_test\<close>: the counters that \<open>record\<close> keeps, the loops that
  send requests one after the other, and the pools of goroutines that share the counters. A pool is
  a transition system: an \<open>action\<close> is one atomic step of one goroutine (an atomic counter's
  \<open>Add\<close>, a section under a mutex, a channel operation), and a list of actions is a schedule. The
  replies of the exchange are part of the schedule.
\<close>

section \<open>The counters\<close>

definition concurrency :: nat where "concurrency = 50"

definition maxErrSamples :: nat where "maxErrSamples = 5"

record tally =
  ta_sent :: goint
  ta_success :: goint
  ta_rate429 :: goint
  ta_errs :: goint
  ta_first429 :: goint
  ta_Duration :: duration
  ta_errSamples :: "string list"

definition zero_tally :: tally where
  "zero_tally = \<lparr>ta_sent = 0, ta_success = 0, ta_rate429 = 0, ta_errs = 0, ta_first429 = 0,
     ta_Duration = 0, ta_errSamples = []\<rparr>"

definition is429 :: "goerror \<Rightarrow> bool" where
  "is429 err = (case as_APIError err of
      Some apiErr \<Rightarrow> ae_StatusCode apiErr = 429
    | None \<Rightarrow> (case as_RateLimitError err of Some _ \<Rightarrow> True | None \<Rightarrow> False))"

definition err_sample :: "goint \<Rightarrow> goerror \<Rightarrow> string" where
  "err_sample n err = (case as_APIError err of
      Some apiErr \<Rightarrow> ''#'' @ Itoa n @ '': HTTP '' @ Itoa (ae_StatusCode apiErr) @ '': '' @ ae_Code apiErr
    | None \<Rightarrow> ''#'' @ Itoa n @ '': '' @ Error err)"

text \<open>The atomic steps of \<open>record\<close>.\<close>

definition add_sent :: "tally \<Rightarrow> tally" where "add_sent t = t\<lparr>ta_sent := ta_sent t + 1\<rparr>"
definition add_success :: "tally \<Rightarrow> tally" where "add_success t = t\<lparr>ta_success := ta_success t + 1\<rparr>"
definition add_429 :: "tally \<Rightarrow> tally" where "add_429 t = t\<lparr>ta_rate429 := ta_rate429 t + 1\<rparr>"
definition add_err :: "tally \<Rightarrow> tally" where "add_err t = t\<lparr>ta_errs := ta_errs t + 1\<rparr>"

definition swap_first :: "goint \<Rightarrow> tally \<Rightarrow> tally" where
  "swap_first n t = (if ta_first429 t = 0 then t\<lparr>ta_first429 := n\<rparr> else t)"

definition keep_sample :: "goint \<Rightarrow> goerror \<Rightarrow> tally \<Rightarrow> tally" where
  "keep_sample n err t = (if length (ta_errSamples t) < maxErrSamples
     then t\<lparr>ta_errSamples := ta_errSamples t @ [err_sample n err]\<rparr> else t)"

lemmas tally_defs = add_sent_def add_success_def add_429_def add_err_def swap_first_def keep_sample_def

text \<open>\<open>record\<close>, run without interruption.\<close>

definition record_err :: "goerror option \<Rightarrow> tally \<Rightarrow> tally" where
  "record_err err t0 =
     (let t = add_sent t0; n = ta_sent t in
      case err of
        None \<Rightarrow> add_success t
      | Some e \<Rightarrow> if is429 e then swap_first n (add_429 t) else keep_sample n e (add_err t))"

section \<open>One request after the other\<close>

text \<open>A call's reply: its error, or the ids of the orders it created (none for a read).\<close>

type_synonym reply = "goerror + string list"

definition reply_err :: "reply \<Rightarrow> goerror option" where
  "reply_err r = (case r of Inl e \<Rightarrow> Some e | Inr ids \<Rightarrow> None)"

definition reply_ids :: "reply \<Rightarrow> string list" where
  "reply_ids r = (case r of Inl e \<Rightarrow> [] | Inr ids \<Rightarrow> ids)"

fun seq_loop :: "reply list \<Rightarrow> tally \<times> string list \<Rightarrow> tally \<times> string list" where
  "seq_loop [] s = s"
| "seq_loop (r # rs) (t, ids) = seq_loop rs (record_err (reply_err r) t, ids @ reply_ids r)"

text \<open>
  The sequential loops, given the replies in order: a burst stops after \<open>count\<close> calls, a
  sustained run at its deadline, wherever that falls; only bursts measure their duration.
\<close>

definition seqBurst :: "goint \<Rightarrow> duration \<Rightarrow> (nat \<Rightarrow> reply) \<Rightarrow> tally \<times> string list" where
  "seqBurst n elapsed answers =
     (case seq_loop (map answers [0..<nat n]) (zero_tally, []) of
        (t, ids) \<Rightarrow> (t\<lparr>ta_Duration := elapsed\<rparr>, ids))"

definition seqSustained :: "reply list \<Rightarrow> tally \<times> string list" where
  "seqSustained replies = seq_loop replies (zero_tally, [])"

section \<open>A pool of goroutines\<close>

text \<open>
  Where a goroutine is between the reply of its call and its end; \<open>n\<close> is what \<open>sent.Add\<close>
  returned to it.
\<close>

datatype stage =
    AtSent               \<comment> \<open>before sent.Add\<close>
  | AtJudge goint        \<comment> \<open>before success.Add, rate429.Add or errs.Add\<close>
  | AtSwap goint         \<comment> \<open>before first429.CompareAndSwap\<close>
  | AtSample goint       \<comment> \<open>before the section under errMu\<close>
  | AtCollect            \<comment> \<open>record has returned; before the section under mu\<close>
  | AtRelease            \<comment> \<open>before the deferred receive from sem\<close>
  | AtDone               \<comment> \<open>before the deferred wg.Done\<close>
  | Gone

datatype worker = Calling | Running stage reply

text \<open>
  A pool: the launching loop (\<open>pl_open\<close>: it has not ended), its goroutines in the order of
  their start, what they share. \<open>pl_tracked\<close> says whether the goroutines are in the wait group.
\<close>

record pool =
  pl_open :: bool
  pl_tracked :: bool
  pl_workers :: "worker list"
  pl_tally :: tally
  pl_ids :: "string list"
  pl_sem :: nat
  pl_wg :: nat

definition new_pool :: "bool \<Rightarrow> pool" where
  "new_pool tracked = \<lparr>pl_open = True, pl_tracked = tracked, pl_workers = [], pl_tally = zero_tally,
     pl_ids = [], pl_sem = 0, pl_wg = 0\<rparr>"

definition on_tally :: "(tally \<Rightarrow> tally) \<Rightarrow> pool \<Rightarrow> pool" where
  "on_tally f p = p\<lparr>pl_tally := f (pl_tally p)\<rparr>"

text \<open>One step of a goroutine whose call has returned.\<close>

fun advance :: "stage \<Rightarrow> reply \<Rightarrow> pool \<Rightarrow> stage \<times> pool" where
  "advance AtSent r p =
     (let p' = on_tally add_sent p in (AtJudge (ta_sent (pl_tally p')), p'))"
| "advance (AtJudge n) r p = (case r of
      Inr ids \<Rightarrow> (AtCollect, on_tally add_success p)
    | Inl e \<Rightarrow> if is429 e then (AtSwap n, on_tally add_429 p) else (AtSample n, on_tally add_err p))"
| "advance (AtSwap n) r p = (AtCollect, on_tally (swap_first n) p)"
| "advance (AtSample n) r p = (AtCollect,
     (case r of Inl e \<Rightarrow> on_tally (keep_sample n e) p | Inr ids \<Rightarrow> p))"
| "advance AtCollect r p = (AtRelease, p\<lparr>pl_ids := pl_ids p @ reply_ids r\<rparr>)"
| "advance AtRelease r p = ((if pl_tracked p then AtDone else Gone), p\<lparr>pl_sem := pl_sem p - 1\<rparr>)"
| "advance AtDone r p = (Gone, p\<lparr>pl_wg := pl_wg p - 1\<rparr>)"
| "advance Gone r p = (Gone, p)"

definition spawn :: "nat \<Rightarrow> pool \<Rightarrow> pool option" where
  "spawn cap p = (if pl_sem p < cap
     then Some (p\<lparr>pl_sem := pl_sem p + 1, pl_wg := (if pl_tracked p then pl_wg p + 1 else pl_wg p),
                  pl_workers := pl_workers p @ [Calling]\<rparr>)
     else None)"

datatype action = Launch | Close | Answer nat reply | Advance nat

text \<open>
  The action, where it is possible. A burst launches \<open>count\<close> goroutines and leaves the loop; a
  sustained run (no limit) leaves it at the deadline, at any time. The loop waits for a free slot
  of the channel before it starts a goroutine.
\<close>

fun pool_act :: "nat option \<Rightarrow> nat \<Rightarrow> action \<Rightarrow> pool \<Rightarrow> pool option" where
  "pool_act quota cap Launch p =
     (if pl_open p \<and> (case quota of Some c \<Rightarrow> length (pl_workers p) < c | None \<Rightarrow> True)
      then spawn cap p else None)"
| "pool_act quota cap Close p =
     (if pl_open p \<and> (case quota of Some c \<Rightarrow> \<not> length (pl_workers p) < c | None \<Rightarrow> True)
      then Some (p\<lparr>pl_open := False\<rparr>) else None)"
| "pool_act quota cap (Answer i r) p =
     (if i < length (pl_workers p) \<and> pl_workers p ! i = Calling
      then Some (p\<lparr>pl_workers := (pl_workers p)[i := Running AtSent r]\<rparr>) else None)"
| "pool_act quota cap (Advance i) p =
     (if i < length (pl_workers p) then
        (case pl_workers p ! i of
           Calling \<Rightarrow> None
         | Running st r \<Rightarrow> if st = Gone then None else
             (case advance st r p of (st', p') \<Rightarrow>
                Some (p'\<lparr>pl_workers := (pl_workers p')[i := Running st' r]\<rparr>)))
      else None)"

fun pool_run :: "nat option \<Rightarrow> nat \<Rightarrow> action list \<Rightarrow> pool \<Rightarrow> pool option" where
  "pool_run quota cap [] p = Some p"
| "pool_run quota cap (a # as) p =
     (case pool_act quota cap a p of None \<Rightarrow> None | Some q \<Rightarrow> pool_run quota cap as q)"

text \<open>\<open>wg.Wait\<close> has returned.\<close>

definition pool_final :: "pool \<Rightarrow> bool" where
  "pool_final p \<longleftrightarrow> \<not> pl_open p \<and> pl_wg p = 0"

text \<open>What \<open>concBurstRead\<close> and \<open>concBurstWrite\<close> return: the counters with the time the run took.\<close>

definition concBurst :: "goint \<Rightarrow> duration \<Rightarrow> action list \<Rightarrow> (tally \<times> string list) option" where
  "concBurst n elapsed sched = (case pool_run (Some (nat n)) concurrency sched (new_pool True) of
      None \<Rightarrow> None
    | Some p \<Rightarrow> if pool_final p then Some ((pl_tally p)\<lparr>ta_Duration := elapsed\<rparr>, pl_ids p) else None)"

definition concSustained :: "action list \<Rightarrow> (tally \<times> string list) option" where
  "concSustained sched = (case pool_run None concurrency sched (new_pool True) of
      None \<Rightarrow> None
    | Some p \<Rightarrow> if pool_final p then Some (pl_tally p, pl_ids p) else None)"

end
