(* ===== verification/RatePoolProps.thy ===== *)
theory RatePoolProps
  imports RatePool
begin

text \<open>
  What the pools of \<open>tools/ratelimit_test\<close> guarantee: an invariant that every step of every
  goroutine keeps, under every schedule; from it, that a finished run has counted each reply once,
  as a sequential run over the same replies does; and that a burst cannot get stuck and ends after a
  bounded number of steps.
\<close>

section \<open>The part of each goroutine\<close>

fun rank :: "stage \<Rightarrow> nat" where
  "rank AtSent = 0"
| "rank (AtJudge n) = 1"
| "rank (AtSwap n) = 2"
| "rank (AtSample n) = 2"
| "rank AtCollect = 3"
| "rank AtRelease = 4"
| "rank AtDone = 5"
| "rank Gone = 6"

fun at_least :: "nat \<Rightarrow> worker \<Rightarrow> bool" where
  "at_least k Calling = False"
| "at_least k (Running st r) = (k \<le> rank st)"

fun with_reply :: "(reply \<Rightarrow> bool) \<Rightarrow> worker \<Rightarrow> bool" where
  "with_reply P Calling = False"
| "with_reply P (Running st r) = P r"

definition ok_reply :: "reply \<Rightarrow> bool" where "ok_reply r \<longleftrightarrow> reply_err r = None"
definition reply_429 :: "reply \<Rightarrow> bool" where "reply_429 r \<longleftrightarrow> (\<exists>e. reply_err r = Some e \<and> is429 e)"
definition reply_bad :: "reply \<Rightarrow> bool" where "reply_bad r \<longleftrightarrow> (\<exists>e. reply_err r = Some e \<and> \<not> is429 e)"

lemma reply_simps [simp]:
  "reply_err (Inl e) = Some e" "reply_err (Inr ids) = None"
  "reply_ids (Inl e) = []" "reply_ids (Inr ids) = ids"
  "ok_reply (Inl e) = False" "ok_reply (Inr ids) = True"
  "reply_429 (Inl e) = is429 e" "reply_429 (Inr ids) = False"
  "reply_bad (Inl e) = (\<not> is429 e)" "reply_bad (Inr ids) = False"
  by (simp_all add: reply_err_def reply_ids_def ok_reply_def reply_429_def reply_bad_def)

text \<open>How many goroutines of a pool have a property.\<close>

definition tot :: "(worker \<Rightarrow> bool) \<Rightarrow> worker list \<Rightarrow> int" where
  "tot P ws = (\<Sum>w\<leftarrow>ws. of_bool (P w))"

lemma tot_snoc [simp]: "tot P (ws @ [w]) = tot P ws + of_bool (P w)"
  by (simp add: tot_def)

lemma tot_Nil [simp]: "tot P [] = 0"
  by (simp add: tot_def)

lemma tot_update:
  "i < length ws \<Longrightarrow> tot P (ws[i := w]) = tot P ws - of_bool (P (ws ! i)) + of_bool (P w)"
proof (induction ws arbitrary: i)
  case (Cons v ws)
  then show ?case by (cases i) (auto simp: tot_def)
qed simp

lemma tot_filter: "tot P ws = int (length (filter P ws))"
  by (induction ws) (simp_all add: tot_def)

lemma tot_nonneg [simp]: "0 \<le> tot P ws"
  by (simp add: tot_filter)

lemma tot_mono: "(\<And>w. w \<in> set ws \<Longrightarrow> P w \<Longrightarrow> Q w) \<Longrightarrow> tot P ws \<le> tot Q ws"
  by (induction ws) (force simp: tot_def)+

lemma tot_split:
  "(\<And>w. w \<in> set ws \<Longrightarrow> P w \<longleftrightarrow> Q w \<or> R w) \<Longrightarrow> (\<And>w. w \<in> set ws \<Longrightarrow> \<not> (Q w \<and> R w)) \<Longrightarrow> tot P ws = tot Q ws + tot R ws"
  by (induction ws) (force simp: tot_def)+

text \<open>What the goroutines of a pool contribute, as a multiset.\<close>

definition msum :: "(worker \<Rightarrow> 'a multiset) \<Rightarrow> worker list \<Rightarrow> 'a multiset" where
  "msum f ws = (\<Sum>w\<leftarrow>ws. f w)"

lemma msum_simps [simp]: "msum f [] = {#}" "msum f (ws @ [w]) = msum f ws + f w" "msum f (w # ws) = f w + msum f ws"
  by (simp_all add: msum_def)

lemma msum_update: "i < length ws \<Longrightarrow> msum f (ws[i := w]) + f (ws ! i) = msum f ws + f w"
proof (induction ws arbitrary: i)
  case (Cons v ws)
  then show ?case by (cases i) (auto simp: ac_simps)
qed simp

fun given_ids :: "worker \<Rightarrow> string multiset" where
  "given_ids Calling = {#}"
| "given_ids (Running st r) = (if 4 \<le> rank st then mset (reply_ids r) else {#})"

fun given_reply :: "worker \<Rightarrow> reply multiset" where
  "given_reply Calling = {#}"
| "given_reply (Running st r) = {#r#}"

definition all_ids :: "worker list \<Rightarrow> string multiset" where
  "all_ids ws = msum given_ids ws"

definition all_replies :: "worker list \<Rightarrow> reply multiset" where
  "all_replies ws = msum given_reply ws"

lemma all_simps [simp]:
  "all_ids (ws @ [Calling]) = all_ids ws" "all_ids [] = {#}"
  "all_replies (ws @ [Calling]) = all_replies ws" "all_replies [] = {#}"
  by (simp_all add: all_ids_def all_replies_def)

lemma all_ids_update:
  "i < length ws \<Longrightarrow> all_ids (ws[i := w]) + given_ids (ws ! i) = all_ids ws + given_ids w"
  unfolding all_ids_def by (rule msum_update)

lemma all_replies_update:
  "i < length ws \<Longrightarrow> all_replies (ws[i := w]) + given_reply (ws ! i) = all_replies ws + given_reply w"
  unfolding all_replies_def by (rule msum_update)

section \<open>The invariant\<close>

definition holds_slot :: "worker \<Rightarrow> bool" where "holds_slot w \<longleftrightarrow> \<not> at_least 5 w"
definition waited_for :: "worker \<Rightarrow> bool" where "waited_for w \<longleftrightarrow> \<not> at_least 6 w"

definition counted :: "nat \<Rightarrow> (reply \<Rightarrow> bool) \<Rightarrow> worker \<Rightarrow> bool" where
  "counted k P w \<longleftrightarrow> at_least k w \<and> with_reply P w"

fun stage_ok :: "goint \<Rightarrow> bool \<Rightarrow> worker \<Rightarrow> bool" where
  "stage_ok s tracked Calling = True"
| "stage_ok s tracked (Running st r) = (case st of
      AtJudge n \<Rightarrow> 1 \<le> n \<and> n \<le> s
    | AtSwap n \<Rightarrow> 1 \<le> n \<and> n \<le> s \<and> reply_429 r
    | AtSample n \<Rightarrow> 1 \<le> n \<and> n \<le> s \<and> reply_bad r
    | AtDone \<Rightarrow> tracked
    | _ \<Rightarrow> True)"

definition tally_inv :: "tally \<Rightarrow> worker list \<Rightarrow> bool" where
  "tally_inv t ws \<longleftrightarrow>
     ta_sent t = tot (at_least 1) ws
   \<and> ta_success t = tot (counted 2 ok_reply) ws
   \<and> ta_rate429 t = tot (counted 2 reply_429) ws
   \<and> ta_errs t = tot (counted 2 reply_bad) ws
   \<and> int (length (ta_errSamples t)) = min (int maxErrSamples) (tot (counted 3 reply_bad) ws)
   \<and> (ta_first429 t = 0 \<longleftrightarrow> tot (counted 3 reply_429) ws = 0)
   \<and> 0 \<le> ta_first429 t \<and> ta_first429 t \<le> ta_sent t"

definition slots_inv :: "nat \<Rightarrow> pool \<Rightarrow> bool" where
  "slots_inv cap p \<longleftrightarrow>
     int (pl_sem p) = tot holds_slot (pl_workers p) \<and> pl_sem p \<le> cap
   \<and> int (pl_wg p) = (if pl_tracked p then tot waited_for (pl_workers p) else 0)
   \<and> list_all (stage_ok (ta_sent (pl_tally p)) (pl_tracked p)) (pl_workers p)"

definition pool_inv :: "nat \<Rightarrow> pool \<Rightarrow> bool" where
  "pool_inv cap p \<longleftrightarrow> slots_inv cap p \<and> tally_inv (pl_tally p) (pl_workers p)
     \<and> mset (pl_ids p) = all_ids (pl_workers p)"

lemmas worker_defs = counted_def holds_slot_def waited_for_def

lemma pool_inv_new: "pool_inv cap (new_pool tracked)"
  by (simp add: pool_inv_def new_pool_def slots_inv_def tally_inv_def zero_tally_def)

lemma stage_ok_mono: "stage_ok s tr w \<Longrightarrow> s \<le> s' \<Longrightarrow> stage_ok s' tr w"
  by (cases w) (auto split: stage.splits)

lemma list_all_update: "list_all P xs \<Longrightarrow> P x \<Longrightarrow> list_all P (xs[i := x])"
  using set_update_subset_insert [of xs i x] by (auto simp: list_all_iff)

lemma stages_kept:
  assumes "list_all (stage_ok s tr) ws" and "s \<le> s'" and "stage_ok s' tr w"
  shows "list_all (stage_ok s' tr) (ws[i := w])"
  by (rule list_all_update) (use assms stage_ok_mono in \<open>auto simp: list_all_iff\<close>)

lemma stage_at:
  "slots_inv cap p \<Longrightarrow> i < length (pl_workers p)
     \<Longrightarrow> stage_ok (ta_sent (pl_tally p)) (pl_tracked p) (pl_workers p ! i)"
  by (simp add: slots_inv_def list_all_length)

text \<open>An advance, taken apart.\<close>

lemma act_Advance:
  assumes "pool_act quota cap (Advance i) p = Some q"
  obtains st r st' p' where "i < length (pl_workers p)" "pl_workers p ! i = Running st r" "st \<noteq> Gone"
    "advance st r p = (st', p')" "q = p'\<lparr>pl_workers := (pl_workers p)[i := Running st' r]\<rparr>"
proof -
  have pw: "pl_workers (snd (advance st r p)) = pl_workers p" for st r
    by (cases st) (auto simp: on_tally_def Let_def split: sum.splits)
  have i: "i < length (pl_workers p)" using assms by (auto split: if_splits)
  then obtain st r where w: "pl_workers p ! i = Running st r" "st \<noteq> Gone"
    using assms by (cases "pl_workers p ! i") (auto split: if_splits)
  obtain st' p' where a: "advance st r p = (st', p')" by (cases "advance st r p")
  have "q = p'\<lparr>pl_workers := (pl_workers p)[i := Running st' r]\<rparr>"
    using assms i w a pw [of st r] by simp
  from that [OF i w a this] show ?thesis .
qed

lemma launch_inv: "spawn cap p = Some q \<Longrightarrow> pool_inv cap p \<Longrightarrow> pool_inv cap q"
  by (auto simp: spawn_def pool_inv_def slots_inv_def tally_inv_def worker_defs split: if_splits)

lemma answer_inv:
  assumes i: "i < length (pl_workers p)" "pl_workers p ! i = Calling" and inv: "pool_inv cap p"
  shows "pool_inv cap (p\<lparr>pl_workers := (pl_workers p)[i := Running AtSent r]\<rparr>)"
proof -
  let ?ws = "(pl_workers p)[i := Running AtSent r]"
  have same: "0 < k \<Longrightarrow> tot (at_least k) ?ws = tot (at_least k) (pl_workers p)"
    "0 < k \<Longrightarrow> tot (counted k P) ?ws = tot (counted k P) (pl_workers p)"
    "tot holds_slot ?ws = tot holds_slot (pl_workers p)"
    "tot waited_for ?ws = tot waited_for (pl_workers p)" for k P
    using i by (simp_all add: tot_update worker_defs)
  have "list_all (stage_ok (ta_sent (pl_tally p)) (pl_tracked p)) ?ws"
    using inv by (intro list_all_update) (simp_all add: pool_inv_def slots_inv_def)
  moreover have "all_ids ?ws = all_ids (pl_workers p)"
    using all_ids_update [OF i(1), of "Running AtSent r"] i by simp
  ultimately show ?thesis
    using inv by (simp add: pool_inv_def slots_inv_def tally_inv_def same)
qed

lemma advance_slots:
  assumes i: "i < length (pl_workers p)" and w: "pl_workers p ! i = Running st r" and st: "st \<noteq> Gone"
    and a: "advance st r p = (st', p')" and inv: "slots_inv cap p" and pos: "0 \<le> ta_sent (pl_tally p)"
  shows "slots_inv cap (p'\<lparr>pl_workers := (pl_workers p)[i := Running st' r]\<rparr>)"
proof -
  have s: "stage_ok (ta_sent (pl_tally p)) (pl_tracked p) (Running st r)"
    using stage_at [of cap p i] i w inv by simp
  have "list_all (stage_ok (ta_sent (pl_tally p')) (pl_tracked p')) ((pl_workers p)[i := Running st' r])"
    using inv a s st pos
    by (cases st; intro stages_kept [of "ta_sent (pl_tally p)"])
      (auto simp: slots_inv_def on_tally_def tally_defs Let_def split: sum.splits if_splits)
  moreover have "int (pl_sem p') = tot holds_slot ((pl_workers p)[i := Running st' r]) \<and> pl_sem p' \<le> cap"
    using inv a s st i w tot_nonneg [of holds_slot "(pl_workers p)[i := Running st' r]"]
    by (cases st) (auto simp: slots_inv_def on_tally_def Let_def tot_update worker_defs split: sum.splits if_splits)
  moreover have "int (pl_wg p') = (if pl_tracked p' then tot waited_for ((pl_workers p)[i := Running st' r]) else 0)"
    using inv a s st i w tot_nonneg [of waited_for "(pl_workers p)[i := Running st' r]"]
    by (cases st) (auto simp: slots_inv_def on_tally_def Let_def tot_update worker_defs split: sum.splits if_splits)
  ultimately show ?thesis by (simp add: slots_inv_def)
qed

text \<open>The counters: one lemma for each kind of step.\<close>

lemma tot_pos: "i < length ws \<Longrightarrow> P (ws ! i) \<Longrightarrow> 0 < tot P ws"
  by (simp add: tot_filter filter_empty_conv) (use nth_mem in blast)

lemmas tally_step_simps = tally_inv_def tot_update counted_def tally_defs

lemma tally_sent:
  assumes "tally_inv t ws" "i < length ws" "ws ! i = Running AtSent r"
  shows "tally_inv (add_sent t) (ws[i := Running (AtJudge n) r])"
  using assms by (simp add: tally_step_simps)

lemma tally_success:
  assumes "tally_inv t ws" "i < length ws" "ws ! i = Running (AtJudge n) (Inr ids)"
  shows "tally_inv (add_success t) (ws[i := Running AtCollect (Inr ids)])"
  using assms by (simp add: tally_step_simps)

lemma tally_429:
  assumes "tally_inv t ws" "i < length ws" "ws ! i = Running (AtJudge n) (Inl e)" "is429 e"
  shows "tally_inv (add_429 t) (ws[i := Running (AtSwap n) (Inl e)])"
  using assms by (simp add: tally_step_simps)

lemma tally_err:
  assumes "tally_inv t ws" "i < length ws" "ws ! i = Running (AtJudge n) (Inl e)" "\<not> is429 e"
  shows "tally_inv (add_err t) (ws[i := Running (AtSample n) (Inl e)])"
  using assms by (simp add: tally_step_simps)

lemma tally_swap:
  assumes "tally_inv t ws" "i < length ws" "ws ! i = Running (AtSwap n) r" "reply_429 r" "1 \<le> n" "n \<le> ta_sent t"
  shows "tally_inv (swap_first n t) (ws[i := Running AtCollect r])"
proof -
  have "\<not> ok_reply r" "\<not> reply_bad r" using assms(4) by (cases r; simp)+
  then show ?thesis
    using assms tot_nonneg [of "counted 3 reply_429" ws]
    by (simp add: tally_step_simps del: tot_nonneg)
qed

lemma tally_sample:
  assumes "tally_inv t ws" "i < length ws" "ws ! i = Running (AtSample n) (Inl e)" "\<not> is429 e"
  shows "tally_inv (keep_sample n e t) (ws[i := Running AtCollect (Inl e)])"
  using assms by (simp add: tally_step_simps) (auto simp: min_def)

lemma tally_after:
  assumes "tally_inv t ws" "i < length ws" "ws ! i = Running st r" "3 \<le> rank st" "3 \<le> rank st'"
  shows "tally_inv t (ws[i := Running st' r])"
  using assms by (simp add: tally_step_simps)

lemma advance_tally:
  assumes i: "i < length (pl_workers p)" and w: "pl_workers p ! i = Running st r" and st: "st \<noteq> Gone"
    and a: "advance st r p = (st', p')" and s: "stage_ok (ta_sent (pl_tally p)) tr (Running st r)"
    and inv: "tally_inv (pl_tally p) (pl_workers p)"
  shows "tally_inv (pl_tally p') ((pl_workers p)[i := Running st' r])"
proof (cases st)
  case AtSent
  with a w tally_sent [OF inv i] show ?thesis by (auto simp: on_tally_def Let_def)
next
  case (AtJudge n)
  with a w tally_success [OF inv i] tally_429 [OF inv i] tally_err [OF inv i] show ?thesis
    by (cases r) (auto simp: on_tally_def split: if_splits)
next
  case (AtSwap n)
  with a w s tally_swap [OF inv i] show ?thesis by (auto simp: on_tally_def)
next
  case (AtSample n)
  with a w s tally_sample [OF inv i] show ?thesis by (cases r) (auto simp: on_tally_def)
qed (use a w st tally_after [OF inv i w] in \<open>auto split: if_splits\<close>)

lemma advance_ids:
  assumes i: "i < length (pl_workers p)" and w: "pl_workers p ! i = Running st r" and st: "st \<noteq> Gone"
    and a: "advance st r p = (st', p')" and inv: "mset (pl_ids p) = all_ids (pl_workers p)"
  shows "mset (pl_ids p') = all_ids ((pl_workers p)[i := Running st' r])"
  using a st inv w all_ids_update [OF i, of "Running st' r"]
  by (cases st) (auto simp: on_tally_def Let_def split: sum.splits if_splits)

lemma advance_inv:
  assumes "i < length (pl_workers p)" and "pl_workers p ! i = Running st r" and "st \<noteq> Gone"
    and "advance st r p = (st', p')" and inv: "pool_inv cap p"
  shows "pool_inv cap (p'\<lparr>pl_workers := (pl_workers p)[i := Running st' r]\<rparr>)"
proof -
  have s: "slots_inv cap p" "tally_inv (pl_tally p) (pl_workers p)" "mset (pl_ids p) = all_ids (pl_workers p)"
    using inv by (simp_all add: pool_inv_def)
  have "stage_ok (ta_sent (pl_tally p)) (pl_tracked p) (Running st r)"
    using stage_at [OF s(1) assms(1)] assms(2) by simp
  moreover have "0 \<le> ta_sent (pl_tally p)" using s(2) by (simp add: tally_inv_def)
  ultimately show ?thesis
    using advance_slots [OF assms(1-4) s(1)] advance_tally [OF assms(1-4) _ s(2)] advance_ids [OF assms(1-4) s(3)]
    by (simp add: pool_inv_def)
qed

lemma pool_act_inv: "pool_act quota cap a p = Some q \<Longrightarrow> pool_inv cap p \<Longrightarrow> pool_inv cap q"
proof (cases a)
  case Launch
  assume "pool_act quota cap a p = Some q" "pool_inv cap p"
  then show ?thesis using Launch launch_inv by (auto split: if_splits)
next
  case Close
  assume "pool_act quota cap a p = Some q" "pool_inv cap p"
  then show ?thesis using Close by (auto simp: pool_inv_def slots_inv_def split: if_splits)
next
  case (Answer i r)
  assume "pool_act quota cap a p = Some q" "pool_inv cap p"
  then show ?thesis using Answer answer_inv by (auto split: if_splits)
next
  case (Advance i)
  assume s: "pool_act quota cap a p = Some q" and inv: "pool_inv cap p"
  from s [unfolded Advance] show ?thesis
    by (rule act_Advance) (use advance_inv inv in blast)
qed

lemma pool_run_inv: "pool_run quota cap sched p = Some q \<Longrightarrow> pool_inv cap p \<Longrightarrow> pool_inv cap q"
  by (induction sched arbitrary: p) (auto split: option.splits dest: pool_act_inv)

section \<open>Every reply is counted once\<close>

text \<open>The replies of a schedule, in the order in which they came.\<close>

fun answers :: "action list \<Rightarrow> reply list" where
  "answers [] = []"
| "answers (Answer i r # as) = r # answers as"
| "answers (a # as) = answers as"

lemma pool_act_replies:
  assumes "pool_act quota cap a p = Some q"
  shows "all_replies (pl_workers q) = all_replies (pl_workers p) + mset (answers [a])"
proof (cases a)
  case (Answer i r)
  with assms show ?thesis
    using all_replies_update [of i "pl_workers p" "Running AtSent r"] by (auto split: if_splits)
next
  case (Advance i)
  from assms [unfolded Advance] show ?thesis
  proof (rule act_Advance)
    fix st r st' p'
    assume "i < length (pl_workers p)" "pl_workers p ! i = Running st r"
      "q = p'\<lparr>pl_workers := (pl_workers p)[i := Running st' r]\<rparr>"
    then show ?thesis
      using Advance all_replies_update [of i "pl_workers p" "Running st' r"] by simp
  qed
qed (use assms in \<open>auto simp: spawn_def split: if_splits\<close>)

lemma answers_Cons: "answers (a # as) = answers [a] @ answers as"
  by (cases a) simp_all

lemma pool_run_replies:
  "pool_run quota cap sched p = Some q \<Longrightarrow> all_replies (pl_workers q) = all_replies (pl_workers p) + mset (answers sched)"
proof (induction sched arbitrary: p)
  case (Cons a as)
  then show ?case
    using pool_act_replies [of quota cap a p] answers_Cons [of a as] by (auto split: option.splits)
qed simp

lemma all_replies_count:
  "size (filter_mset P (all_replies ws)) = nat (tot (with_reply P) ws)"
proof (induction ws)
  case (Cons w ws)
  then show ?case by (cases w) (auto simp: all_replies_def tot_filter)
qed (simp add: tot_def)

text \<open>Nothing changes how a pool is set up; the loop of a burst ends when all are started.\<close>

lemma advance_frame: "advance st r p = (st', p') \<Longrightarrow> pl_open p' = pl_open p \<and> pl_tracked p' = pl_tracked p"
  by (cases st) (auto simp: on_tally_def Let_def split: sum.splits if_splits)

definition burst_inv :: "nat option \<Rightarrow> pool \<Rightarrow> bool" where
  "burst_inv quota p \<longleftrightarrow> (case quota of None \<Rightarrow> True
     | Some c \<Rightarrow> length (pl_workers p) \<le> c \<and> (\<not> pl_open p \<longrightarrow> length (pl_workers p) = c))"

lemma pool_act_frame:
  assumes "pool_act quota cap a p = Some q"
  shows "pl_tracked q = pl_tracked p \<and> (burst_inv quota p \<longrightarrow> burst_inv quota q)"
proof (cases a)
  case (Advance i)
  from assms [unfolded Advance] show ?thesis
    by (rule act_Advance) (auto simp: burst_inv_def split: option.splits dest!: advance_frame)
qed (use assms in \<open>auto simp: spawn_def burst_inv_def split: if_splits option.splits\<close>)

lemma pool_run_frame:
  "pool_run quota cap sched p = Some q \<Longrightarrow> pl_tracked q = pl_tracked p \<and> (burst_inv quota p \<longrightarrow> burst_inv quota q)"
  by (induction sched arbitrary: p) (auto split: option.splits dest!: pool_act_frame)

text \<open>All that a finished pool reports, apart from which error came first.\<close>

definition report :: "tally \<Rightarrow> goint \<times> goint \<times> goint \<times> goint \<times> nat \<times> bool" where
  "report t = (ta_sent t, ta_success t, ta_rate429 t, ta_errs t, length (ta_errSamples t), ta_first429 t = 0)"

lemma seq_loop_counts:
  assumes "seq_loop rs (t, ids) = (t', ids')" and "0 \<le> ta_sent t" and "length (ta_errSamples t) \<le> maxErrSamples"
  shows "report t' = (ta_sent t + int (length rs), ta_success t + int (length (filter ok_reply rs)),
      ta_rate429 t + int (length (filter reply_429 rs)), ta_errs t + int (length (filter reply_bad rs)),
      min maxErrSamples (length (ta_errSamples t) + length (filter reply_bad rs)),
      ta_first429 t = 0 \<and> filter reply_429 rs = []) \<and> ids' = ids @ concat (map reply_ids rs)"
  using assms
proof (induction rs arbitrary: t ids)
  case (Cons r rs)
  let ?u = "record_err (reply_err r) t"
  have "seq_loop rs (?u, ids @ reply_ids r) = (t', ids')" using Cons.prems(1) by simp
  moreover have "0 \<le> ta_sent ?u" "length (ta_errSamples ?u) \<le> maxErrSamples"
    using Cons.prems(2,3) by (auto simp: record_err_def tally_defs Let_def split: option.splits)
  ultimately show ?case
    using Cons.IH [of ?u "ids @ reply_ids r"] Cons.prems(2,3)
    by (cases r) (auto simp: record_err_def tally_defs Let_def)
qed (auto simp: report_def)

lemma final_gone:
  assumes "pool_inv cap p" and "pl_tracked p" and "pool_final p"
  shows "list_all (at_least 6) (pl_workers p)"
proof -
  have "tot waited_for (pl_workers p) = 0"
    using assms by (simp add: pool_inv_def slots_inv_def pool_final_def)
  then have "filter waited_for (pl_workers p) = []" by (simp add: tot_filter)
  then show ?thesis by (simp add: list_all_iff filter_empty_conv waited_for_def)
qed

lemma gone_tot:
  assumes "list_all (at_least 6) ws" and "k \<le> 6"
  shows "tot (counted k P) ws = tot (with_reply P) ws" and "tot (at_least k) ws = tot (with_reply (\<lambda>r. True)) ws"
proof -
  have "at_least k w \<and> with_reply (\<lambda>r. True) w" if "w \<in> set ws" for w
    using assms that by (cases w) (auto simp: list_all_iff dest!: bspec)
  then have "filter (counted k P) ws = filter (with_reply P) ws"
    "filter (at_least k) ws = filter (with_reply (\<lambda>r. True)) ws"
    by (auto simp: counted_def intro: filter_cong)
  then show "tot (counted k P) ws = tot (with_reply P) ws" "tot (at_least k) ws = tot (with_reply (\<lambda>r. True)) ws"
    by (simp_all add: tot_filter)
qed

lemma gone_ids:
  "list_all (at_least 6) ws \<Longrightarrow> all_ids ws = (\<Sum>r\<in>#all_replies ws. mset (reply_ids r))"
proof (induction ws)
  case (Cons w ws)
  then show ?case by (cases w) (auto simp: all_ids_def all_replies_def)
qed (simp add: all_ids_def)

lemma finished_report:
  assumes run: "pool_run quota cap sched (new_pool True) = Some p" and fin: "pool_final p"
  shows "report (pl_tally p) = report (fst (seqSustained (answers sched)))
       \<and> mset (pl_ids p) = mset (snd (seqSustained (answers sched)))
       \<and> (\<forall>c. quota = Some c \<longrightarrow> length (answers sched) = c)"
proof -
  let ?rs = "answers sched" and ?ws = "pl_workers p"
  have inv: "pool_inv cap p" using pool_run_inv [OF run] by (simp add: pool_inv_new)
  have tr: "pl_tracked p" and burst: "burst_inv quota p"
    using pool_run_frame [OF run] by (auto simp: new_pool_def burst_inv_def split: option.splits)
  have gone: "list_all (at_least 6) ?ws" by (rule final_gone [OF inv tr fin])
  have reps: "all_replies ?ws = mset ?rs" using pool_run_replies [OF run] by (simp add: new_pool_def)
  have num: "tot (with_reply P) ?ws = int (length (filter P ?rs))" for P
    using all_replies_count [of P ?ws] tot_nonneg [of "with_reply P" ?ws] size_mset [of "filter P ?rs"]
    by (simp add: reps del: tot_nonneg)
  have tally: "tally_inv (pl_tally p) ?ws" and ids: "mset (pl_ids p) = all_ids ?ws"
    using inv by (simp_all add: pool_inv_def)
  obtain t' ids' where seq: "seq_loop ?rs (zero_tally, []) = (t', ids')" by (cases "seq_loop ?rs (zero_tally, [])")
  note sc = seq_loop_counts [OF seq]
  have "report (pl_tally p) = report t'"
    using tally gone_tot [OF gone] num sc by (auto simp: report_def tally_inv_def zero_tally_def)
  moreover have "mset (pl_ids p) = mset ids'"
    using ids gone_ids [OF gone] sc by (simp add: reps zero_tally_def mset_concat sum_mset_sum_list comp_def flip: mset_map)
  moreover have "int (length ?ws) = int (length ?rs)"
  proof -
    have "filter (at_least 1) ?ws = ?ws"
      using gone by (intro filter_True) (auto simp: list_all_iff elim!: at_least.elims dest!: bspec)
    then have "tot (at_least 1) ?ws = int (length ?ws)" by (simp only: tot_filter)
    then show ?thesis using gone_tot(2) [OF gone, of 1] num [of "\<lambda>r. True"] by simp
  qed
  moreover have "\<not> pl_open p" using fin by (simp add: pool_final_def)
  ultimately show ?thesis using burst by (auto simp: seqSustained_def seq burst_inv_def)
qed

text \<open>
  What the steps of a goroutine that nobody interrupts do to the counters is \<open>record\<close>.
\<close>

lemma uninterrupted_record:
  assumes "advance AtSent r p = (s1, p1)" "advance s1 r p1 = (s2, p2)"
  shows "pl_tally (if s2 = AtCollect then p2 else snd (advance s2 r p2)) = record_err (reply_err r) (pl_tally p)"
  using assms by (cases r) (auto simp: record_err_def on_tally_def Let_def split: if_splits)

section \<open>A burst ends\<close>

fun remaining :: "worker \<Rightarrow> nat" where
  "remaining Calling = 7"
| "remaining (Running st r) = 6 - rank st"

definition pool_work :: "nat \<Rightarrow> pool \<Rightarrow> nat" where
  "pool_work c p = 8 * (c - length (pl_workers p)) + of_bool (pl_open p) + (\<Sum>w\<leftarrow>pl_workers p. remaining w)"

lemma remaining_update:
  "i < length ws \<Longrightarrow> (\<Sum>w\<leftarrow>ws[i := v]. remaining w) + remaining (ws ! i) = (\<Sum>w\<leftarrow>ws. remaining w) + remaining v"
proof (induction ws arbitrary: i)
  case (Cons u ws)
  then show ?case by (cases i) auto
qed simp

lemma advance_rank: "advance st r p = (st', p') \<Longrightarrow> st \<noteq> Gone \<Longrightarrow> rank st < rank st' \<and> rank st' \<le> 6"
  by (cases st) (auto simp: Let_def split: sum.splits if_splits)

lemma pool_act_work:
  assumes "pool_act (Some c) cap a p = Some q"
  shows "pool_work c q < pool_work c p"
proof (cases a)
  case (Answer i r)
  with assms show ?thesis
    using remaining_update [of i "pl_workers p" "Running AtSent r"]
    by (auto simp: pool_work_def split: if_splits)
next
  case (Advance i)
  from assms [unfolded Advance] show ?thesis
  proof (rule act_Advance)
    fix st r st' p'
    assume i: "i < length (pl_workers p)" and w: "pl_workers p ! i = Running st r" and st: "st \<noteq> Gone"
      and a: "advance st r p = (st', p')" and q: "q = p'\<lparr>pl_workers := (pl_workers p)[i := Running st' r]\<rparr>"
    from advance_rank [OF a st] have "6 - rank st' < 6 - rank st" by linarith
    moreover have "pl_open p' = pl_open p" using advance_frame [OF a] by simp
    ultimately show ?thesis
      using remaining_update [OF i, of "Running st' r"] w by (simp add: pool_work_def q)
  qed
qed (use assms in \<open>auto simp: pool_work_def spawn_def split: if_splits\<close>)

lemma pool_run_work:
  "pool_run (Some c) cap sched p = Some q \<Longrightarrow> pool_work c q + length sched \<le> pool_work c p"
  by (induction sched arbitrary: p) (force split: option.splits dest: pool_act_work)+

text \<open>A goroutine that has not ended can move, or waits for its reply.\<close>

lemma worker_moves:
  assumes "i < length (pl_workers p)" and "\<not> at_least 6 (pl_workers p ! i)"
  shows "\<exists>a q. pool_act quota cap a p = Some q"
proof (cases "pl_workers p ! i")
  case Calling
  then have "\<exists>q. pool_act quota cap (Answer i (Inr [])) p = Some q" using assms by simp
  then show ?thesis by blast
next
  case (Running st r)
  then have "st \<noteq> Gone" using assms by auto
  then have "\<exists>q. pool_act quota cap (Advance i) p = Some q"
    using Running assms by (simp split: prod.splits)
  then show ?thesis by blast
qed

lemma tot_witness: "tot P ws \<noteq> 0 \<Longrightarrow> \<exists>i < length ws. P (ws ! i)"
  by (auto simp: tot_filter filter_empty_conv in_set_conv_nth)

lemma pool_moves:
  assumes inv: "pool_inv cap p" and tr: "pl_tracked p" and "0 < cap" and "\<not> pool_final p"
  shows "\<exists>a q. pool_act (Some c) cap a p = Some q"
proof (cases "pl_open p")
  case True
  show ?thesis
  proof (cases "length (pl_workers p) < c \<and> \<not> pl_sem p < cap")
    case True
    then have "tot holds_slot (pl_workers p) \<noteq> 0"
      using inv \<open>0 < cap\<close> by (auto simp: pool_inv_def slots_inv_def)
    then obtain i where "i < length (pl_workers p)" "holds_slot (pl_workers p ! i)" using tot_witness by blast
    moreover have "\<not> at_least 6 w" if "\<not> at_least 5 w" for w using that by (cases w) auto
    ultimately show ?thesis using worker_moves by (simp add: holds_slot_def)
  next
    case False
    then have "(\<exists>q. pool_act (Some c) cap Launch p = Some q) \<or> (\<exists>q. pool_act (Some c) cap Close p = Some q)"
      using True by (auto simp: spawn_def)
    then show ?thesis by blast
  qed
next
  case False
  then have "tot waited_for (pl_workers p) \<noteq> 0"
    using assms by (auto simp: pool_inv_def slots_inv_def pool_final_def)
  then show ?thesis using tot_witness worker_moves by (fastforce simp: waited_for_def)
qed

text \<open>At most \<open>cap\<close> calls are in flight.\<close>

lemma in_flight_bounded:
  assumes "pool_run quota cap sched (new_pool tracked) = Some p"
  shows "length (filter (\<lambda>w. w = Calling) (pl_workers p)) \<le> cap"
proof -
  have "pool_inv cap p" using pool_run_inv [OF assms] by (simp add: pool_inv_new)
  moreover have "tot (\<lambda>w. w = Calling) (pl_workers p) \<le> tot holds_slot (pl_workers p)"
    by (rule tot_mono) (auto simp: holds_slot_def)
  ultimately show ?thesis by (auto simp: pool_inv_def slots_inv_def tot_filter)
qed

section \<open>The claims\<close>

text \<open>C34: A concurrent burst reports what the sequential burst reports: under every schedule of the
  goroutines, once \<open>wg.Wait\<close> has returned there was one reply for each of the \<open>count\<close> requests, and
  the counters (sent, succeeded, 429s, other errors, how many samples were kept, whether there was a
  429) and the order ids collected are those of \<open>seqBurst\<close> over the same replies. No update of a
  counter is lost or made twice.\<close>

theorem concurrent_burst_counts:
  assumes "concBurst n elapsed sched = Some (t, ids)"
  shows "length (answers sched) = nat n
       \<and> (case seqBurst n elapsed (nth (answers sched)) of (t', ids') \<Rightarrow>
            report t = report t' \<and> ta_Duration t = ta_Duration t' \<and> mset ids = mset ids')"
proof -
  obtain p where run: "pool_run (Some (nat n)) concurrency sched (new_pool True) = Some p" and fin: "pool_final p"
    and t: "t = (pl_tally p)\<lparr>ta_Duration := elapsed\<rparr>" "ids = pl_ids p"
    using assms by (auto simp: concBurst_def split: option.splits if_splits)
  note fr = finished_report [OF run fin]
  then have len: "length (answers sched) = nat n" by simp
  then have "map (nth (answers sched)) [0..<nat n] = answers sched" by (metis map_nth)
  then show ?thesis using fr t len
    by (auto simp: seqBurst_def seqSustained_def report_def split: prod.splits)
qed

text \<open>Two requests, one answered by a rate limit, with their steps interleaved.\<close>

definition limited :: goerror where
  "limited = ERateLimitError \<lparr>rl_Method = ''POST'', rl_Path = ''/p'', rl_Retries = 4\<rparr>"

lemma is429_limited [simp]: "is429 limited"
  by (simp add: limited_def is429_def)

definition two_requests :: "action list" where
  "two_requests = [Launch, Launch, Answer 1 (Inl limited), Answer 0 (Inr [''o1'']), Advance 1, Advance 0,
     Advance 0, Advance 1, Close, Advance 1, Advance 0, Advance 1, Advance 0, Advance 1, Advance 0, Advance 1]"

lemma concurrent_burst_counts_witness:
  "\<exists>t. concBurst 2 7 two_requests = Some (t, [''o1'']) \<and> ta_sent t = 2 \<and> ta_rate429 t = 1
     \<and> report t = report (fst (seqBurst 2 7 (nth (answers two_requests))))"
proof -
  have "\<exists>t. concBurst 2 7 two_requests = Some (t, [''o1'']) \<and> ta_sent t = 2 \<and> ta_rate429 t = 1"
    by (simp add: concBurst_def two_requests_def new_pool_def concurrency_def spawn_def pool_final_def on_tally_def
        tally_defs zero_tally_def Let_def numeral_2_eq_2)
  then obtain t where t: "concBurst 2 7 two_requests = Some (t, [''o1''])" "ta_sent t = 2" "ta_rate429 t = 1" by blast
  then show ?thesis using concurrent_burst_counts [OF t(1)] by (auto split: prod.splits)
qed

text \<open>C35: A burst always ends: no schedule of a burst of \<open>c\<close> requests has more than 8 steps for each
  request and one for the loop, and while \<open>wg.Wait\<close> cannot return some goroutine can take a step (a
  reply counts as one), so that the waits for a slot of the channel and for the group never
  deadlock.\<close>

theorem concurrent_burst_ends:
  assumes "pool_run (Some c) cap sched (new_pool True) = Some p" and "0 < cap"
  shows "length sched \<le> 8 * c + 1 \<and> (pool_final p \<or> (\<exists>a q. pool_act (Some c) cap a p = Some q))"
proof -
  have "pool_inv cap p" using pool_run_inv [OF assms(1)] by (simp add: pool_inv_new)
  moreover have "pl_tracked p" using pool_run_frame [OF assms(1)] by (simp add: new_pool_def)
  ultimately have "pool_final p \<or> (\<exists>a q. pool_act (Some c) cap a p = Some q)"
    using pool_moves assms(2) by blast
  moreover have "length sched \<le> 8 * c + 1"
    using pool_run_work [OF assms(1)] by (simp add: pool_work_def new_pool_def)
  ultimately show ?thesis by blast
qed

lemma concurrent_burst_ends_witness:
  "\<exists>p. pool_run (Some 2) 50 [Launch, Launch] (new_pool True) = Some p \<and> (\<exists>a q. pool_act (Some 2) 50 a p = Some q)"
proof -
  have "\<exists>p. pool_run (Some 2) 50 [Launch, Launch] (new_pool True) = Some p \<and> \<not> pool_final p"
    by (simp add: new_pool_def spawn_def pool_final_def)
  then obtain p where p: "pool_run (Some 2) 50 [Launch, Launch] (new_pool True) = Some p" "\<not> pool_final p"
    by blast
  then show ?thesis using concurrent_burst_ends [OF p(1)] by auto
qed

text \<open>
  The number printed after \<open>First 429 at\<close> is the one that was swapped in first, which need not be the
  least: here requests 1 and 2 are both answered with a 429, and 2 is reported.
\<close>

definition both_limited :: "action list" where
  "both_limited = [Launch, Launch, Close, Answer 0 (Inl limited), Answer 1 (Inl limited), Advance 0, Advance 1,
     Advance 1, Advance 1, Advance 0, Advance 0, Advance 0, Advance 1, Advance 0, Advance 1, Advance 0, Advance 1]"

lemma first_429_not_least:
  "\<exists>t ids. concBurst 2 7 both_limited = Some (t, ids) \<and> ta_first429 t = 2
     \<and> ta_first429 (fst (seqBurst 2 7 (nth (answers both_limited)))) = 1"
  by (simp add: concBurst_def both_limited_def new_pool_def concurrency_def spawn_def pool_final_def on_tally_def
      tally_defs zero_tally_def Let_def numeral_2_eq_2 seqBurst_def record_err_def)

end
