(* ===== verification/RateProbe.thy ===== *)
theory RateProbe
  imports TypesProps RatePoolProps GoSyntax AutoConfig
begin

text \<open>
  The rest of \<open>tools/ratelimit_test\<close>: what the program reads about the account, the orders it sends,
  the phases of each test as scripts, the mixed test with its two pools, the verdicts and the
  printed report.
\<close>

section \<open>What is tested\<close>

definition testMarket :: string where "testMarket = ''KXELONMARS-99''"
definition orderPrice :: string where "orderPrice = ''0.01''"
definition burstWaitSecs :: goint where "burstWaitSecs = 5"
definition sustainedDur :: duration where "sustainedDur = 30000000000"
definition overrateDur :: duration where "overrateDur = 10000000000"
definition overrateMult :: gofloat where "overrateMult = 3 / 2"

record tierInfo =
  ti_Tier :: string
  ti_ReadRate :: goint
  ti_ReadCapacity :: goint
  ti_WriteRate :: goint
  ti_WriteCapacity :: goint

record probe_costs =
  pc_ReadCost :: gofloat
  pc_WriteCost :: gofloat
  pc_Default :: gofloat

definition tier_of :: "GetAccountApiLimitsResponse \<Rightarrow> tierInfo" where
  "tier_of limits = \<lparr>ti_Tier = lim_UsageTier limits, ti_ReadRate = RefillRate (lim_Read limits),
     ti_ReadCapacity = BucketCapacity (lim_Read limits), ti_WriteRate = RefillRate (lim_Write limits),
     ti_WriteCapacity = BucketCapacity (lim_Write limits)\<rparr>"

definition default_costs :: "GetAccountEndpointCostsResponse \<Rightarrow> probe_costs" where
  "default_costs resp = (let d = f64 (of_int (gec_DefaultCost resp)) in
     \<lparr>pc_ReadCost = d, pc_WriteCost = d, pc_Default = d\<rparr>)"

fun entry_costs :: "EndpointTokenCost list \<Rightarrow> probe_costs \<Rightarrow> probe_costs" where
  "entry_costs [] costs = costs"
| "entry_costs (ec # ecs) costs =
     (let path = ToLower (etc_Path ec); method = ToUpper (etc_Method ec);
          c1 = (if method = ''GET'' \<and> Contains path ''portfolio/balance''
                then costs\<lparr>pc_ReadCost := f64 (of_int (etc_Cost ec))\<rparr> else costs);
          c2 = (if method = ''POST'' \<and> Contains path ''orders'' \<and> \<not> Contains path ''batch''
                then c1\<lparr>pc_WriteCost := f64 (of_int (etc_Cost ec))\<rparr> else c1)
      in entry_costs ecs c2)"

text \<open>\<open>log.Fatalf\<close> ends the program: its message is the left value.\<close>

definition fetchTierInfo ::
  "goerror + GetAccountApiLimitsResponse \<Rightarrow> goerror + GetAccountEndpointCostsResponse
     \<Rightarrow> string + tierInfo \<times> probe_costs" where
  "fetchTierInfo limitsResult costsResult = (case limitsResult of
      Inl err \<Rightarrow> Inl (''fetch limits: '' @ Error err)
    | Inr limits \<Rightarrow> (case costsResult of
        Inl err \<Rightarrow> Inl (''fetch endpoint costs: '' @ Error err)
      | Inr resp \<Rightarrow> Inr (tier_of limits, entry_costs (gec_EndpointCosts resp) (default_costs resp))))"

section \<open>The orders\<close>

text \<open>A struct value by field names, the other fields zero; and a field of a struct value.\<close>

fun struct_of :: "gotype \<Rightarrow> (string \<times> goval) list \<Rightarrow> goval" where
  "struct_of (TStruct n fs) vals =
     VStruct (map (\<lambda>f. case map_of vals (fl_Name f) of Some v \<Rightarrow> v | None \<Rightarrow> zero (fl_Type f)) fs)"
| "struct_of _ vals = VNil"

fun get_field :: "gotype \<Rightarrow> string \<Rightarrow> goval \<Rightarrow> goval" where
  "get_field (TStruct n fs) k (VStruct vs) =
     (case map_of (zip (map fl_Name fs) vs) k of Some v \<Rightarrow> v | None \<Rightarrow> VNil)"
| "get_field _ k v = VNil"

definition newTestOrder :: goval where
  "newTestOrder = struct_of ty_CreateOrderV2Request
     [(''Ticker'', VString testMarket), (''Side'', VString BookSideBid), (''Count'', VString ''1.00''),
      (''Price'', VString orderPrice), (''TimeInForce'', VString TimeInForceGTC),
      (''SelfTradePreventionType'', VString STPTakerAtCross)]"

text \<open>The body of a call, and the replies of the three kinds of calls.\<close>

definition body_of :: "gotype \<Rightarrow> goval \<Rightarrow> gobody" where
  "body_of ty v = (case encode ty v of
      Some j \<Rightarrow> JsonBody j | None \<Rightarrow> BadBody (ErrorString ''json: unsupported value''))"

definition read_reply :: "goerror + goval \<Rightarrow> reply" where
  "read_reply r = (case r of Inl err \<Rightarrow> Inl err | Inr resp \<Rightarrow> Inr [])"

definition create_reply :: "goerror + goval \<Rightarrow> reply" where
  "create_reply r = (case r of Inl err \<Rightarrow> Inl err
    | Inr resp \<Rightarrow> Inr [case get_field ty_CreateOrderV2Response ''OrderID'' resp of VString oid \<Rightarrow> oid | _ \<Rightarrow> []])"

definition order_id :: "goval \<Rightarrow> string list" where
  "order_id ord = (case ord of
      VMap m \<Rightarrow> (case map_of m ''order_id'' of
          Some v \<Rightarrow> (case v of VString oid \<Rightarrow> if oid \<noteq> [] then [oid] else [] | _ \<Rightarrow> [])
        | None \<Rightarrow> [])
    | _ \<Rightarrow> [])"

definition batch_reply :: "goerror + goval \<Rightarrow> reply" where
  "batch_reply r = (case r of Inl err \<Rightarrow> Inl err
    | Inr resp \<Rightarrow> Inr (case get_field ty_BatchCreateOrdersV2Response ''Orders'' resp of
        VSlice os \<Rightarrow> concat (map order_id os) | _ \<Rightarrow> []))"

definition batch_request :: "goint \<Rightarrow> BatchCreateOrdersV2Request" where
  "batch_request batchSize = \<lparr>BatchCreateOrders_Orders =
     Some (replicate (nat batchSize) (body_of ty_CreateOrderV2Request newTestOrder))\<rparr>"

section \<open>The phases of the tests\<close>

datatype traffic = Reads | Writes | Batches goint

datatype phase =
    SeqBurst traffic goint
  | SeqSustained traffic gofloat duration
  | ConcBurst traffic goint
  | ConcSustained traffic gofloat duration

text \<open>
  A test as what its function does in order: print a line, wait for the buckets to refill, run a
  phase and report it under a name with an expected count, cancel the orders made.
\<close>

datatype script = Say string | WaitRefill | Phase phase string goint | Cleanup

text \<open>The endpoint a phase calls.\<close>

definition traffic_call :: "traffic \<Rightarrow> endpoint" where
  "traffic_call t = (case t of
      Reads \<Rightarrow> GetBalance
    | Writes \<Rightarrow> CreateOrderV2 (body_of ty_CreateOrderV2Request newTestOrder)
    | Batches n \<Rightarrow> BatchCreateOrdersV2 (batch_request n))"

text \<open>
  \<open>int(x)\<close> of a quotient, and the ticker's interval. Costs and rates are those of an account, hence
  positive; Go leaves the result of converting an infinite quotient open.
\<close>

definition expected_calls :: "goint \<Rightarrow> gofloat \<Rightarrow> goint" where
  "expected_calls capacity per_call = trunc0 (fdiv (f64 (of_int capacity)) per_call)"

definition calls_per_sec :: "goint \<Rightarrow> gofloat \<Rightarrow> gofloat" where
  "calls_per_sec rate per_call = fdiv (f64 (of_int rate)) per_call"

definition tick_interval :: "gofloat \<Rightarrow> duration" where
  "tick_interval rps = to_duration (fdiv 1000000000 rps)"

definition runReadTest :: "tierInfo \<Rightarrow> probe_costs \<Rightarrow> script list" where
  "runReadTest tier costs =
     (let expectedBurst = expected_calls (ti_ReadCapacity tier) (pc_ReadCost costs);
          rps = calls_per_sec (ti_ReadRate tier) (pc_ReadCost costs)
      in [Say ''--- Test 1: Read-Only ---'',
          Say [], Say ''  Phase 1: Sequential'',
          Phase (SeqBurst Reads (expectedBurst * 3)) ''Read Burst'' expectedBurst,
          WaitRefill,
          Phase (SeqSustained Reads rps sustainedDur) ''Read Sustained (at rate)'' 0,
          WaitRefill,
          Phase (SeqSustained Reads (fmul rps overrateMult) overrateDur) ''Read Sustained (at 1.5x)'' 0,
          WaitRefill,
          Say [], Say (''  Phase 2: Concurrent ('' @ Itoa (int concurrency) @ '' goroutines)''),
          Phase (ConcBurst Reads (expectedBurst * 3)) ''Read Burst'' expectedBurst,
          WaitRefill,
          Phase (ConcSustained Reads rps sustainedDur) ''Read Sustained (at rate)'' 0,
          WaitRefill,
          Phase (ConcSustained Reads (fmul rps overrateMult) overrateDur) ''Read Sustained (at 1.5x)'' 0])"

definition runWriteTest :: "tierInfo \<Rightarrow> probe_costs \<Rightarrow> script list" where
  "runWriteTest tier costs =
     (let expectedBurst = expected_calls (ti_WriteCapacity tier) (pc_WriteCost costs);
          rps = calls_per_sec (ti_WriteRate tier) (pc_WriteCost costs)
      in [Say ''--- Test 2: Write-Only ---'',
          Say [], Say ''  Phase 1: Sequential'',
          Phase (SeqBurst Writes (expectedBurst * 3)) ''Write Burst'' expectedBurst,
          WaitRefill,
          Phase (SeqSustained Writes rps sustainedDur) ''Write Sustained (at rate)'' 0,
          WaitRefill,
          Phase (SeqSustained Writes (fmul rps overrateMult) overrateDur) ''Write Sustained (at 1.5x)'' 0,
          WaitRefill,
          Say [], Say (''  Phase 2: Concurrent ('' @ Itoa (int concurrency) @ '' goroutines)''),
          Phase (ConcBurst Writes (expectedBurst * 3)) ''Write Burst'' expectedBurst,
          WaitRefill,
          Phase (ConcSustained Writes rps sustainedDur) ''Write Sustained (at rate)'' 0,
          WaitRefill,
          Phase (ConcSustained Writes (fmul rps overrateMult) overrateDur) ''Write Sustained (at 1.5x)'' 0,
          Cleanup])"

definition fmt0 :: "gofloat \<Rightarrow> string" where "fmt0 x = Itoa (rne x)"   \<comment> \<open>%.0f\<close>

definition times_sign :: string where "times_sign = [CHR 0xC3, CHR 0x97]"

definition runBatchTest :: "tierInfo \<Rightarrow> probe_costs \<Rightarrow> script list" where
  "runBatchTest tier costs =
     [Say ''--- Test 4: Batch Cost Billing ---'',
      Say ''Verifies that each item in a batch is billed individually'',
      Say (''  Write capacity: '' @ Itoa (ti_WriteCapacity tier) @ '' tokens, per-order cost: ''
             @ fmt0 (pc_WriteCost costs) @ '' tokens''), Say []]
     @ concat (map (\<lambda>batchSize.
         let expectedBatches = expected_calls (ti_WriteCapacity tier) (fmul (of_int batchSize) (pc_WriteCost costs))
         in [Say (''  Batch size '' @ Itoa batchSize @ '': expecting ~'' @ Itoa expectedBatches
                  @ '' batches before 429 (capacity / ('' @ Itoa batchSize @ '' '' @ times_sign @ '' ''
                  @ fmt0 (pc_WriteCost costs) @ ''))''),
             WaitRefill,
             Phase (ConcBurst (Batches batchSize) (expectedBatches * 3)) (''Batch size '' @ Itoa batchSize) expectedBatches])
       [1, 5, 10])
     @ [Cleanup]"

section \<open>The client-side limiter\<close>

definition limiter_phases :: "gofloat \<Rightarrow> gofloat \<Rightarrow> gofloat \<Rightarrow> script list" where
  "limiter_phases baseReadRPS baseWriteRPS factor =
     (let pct = trunc0 (fmul factor 100); readRPS = fmul baseReadRPS factor; writeRPS = fmul baseWriteRPS factor
      in [Say [], Say (''  === '' @ Itoa pct @ ''% budget ===''),
          Say (''  Read at '' @ fmt0 readRPS @ '' req/sec ('' @ fmt0 factor @ ''x budget, 30s)''),
          WaitRefill,
          Phase (ConcSustained Reads readRPS sustainedDur) (''Read ('' @ Itoa pct @ ''x)'') 0,
          Say [], Say (''  Write at '' @ fmt0 writeRPS @ '' req/sec ('' @ fmt0 factor @ ''x budget, 30s)''),
          WaitRefill,
          Phase (ConcSustained Writes writeRPS sustainedDur) (''Write ('' @ Itoa pct @ ''x)'') 0])"

definition runClientLimiterTest :: "tierInfo \<Rightarrow> probe_costs \<Rightarrow> script list" where
  "runClientLimiterTest tier costs =
     [Say ''--- Test 5: Client-Side Limiter Stress Test (auto-configured) ---'',
      Say ''Uses a client with real auto-configured rate limits (no bypass)'',
      Say (''Escalating demand at 100%, 200%, 300% of budget '' @ em_dash @ '' expects 0 429s at every level'')]
     @ concat (map (limiter_phases (calls_per_sec (ti_ReadRate tier) (pc_ReadCost costs))
                     (calls_per_sec (ti_WriteRate tier) (pc_WriteCost costs))) [1, 2, 3])
     @ [Cleanup]"

text \<open>What is printed after the two phases of a level, and whether the test is still passed.\<close>

definition level_verdict :: "tally \<times> tally \<Rightarrow> bool \<Rightarrow> string list \<times> bool" where
  "level_verdict rw passed = (case rw of (readR, writeR) \<Rightarrow>
     (let r = ta_rate429 readR; w = ta_rate429 writeR in
      ([if r = 0 then ''      PASS: 0 read 429s''
        else ''      FAIL: '' @ Itoa r @ '' read 429s '' @ em_dash @ '' client limiter too permissive'',
        if w = 0 then ''      PASS: 0 write 429s''
        else ''      FAIL: '' @ Itoa w @ '' write 429s '' @ em_dash @ '' client limiter too permissive''],
       passed \<and> r = 0 \<and> w = 0)))"

fun levels_passed :: "(tally \<times> tally) list \<Rightarrow> bool \<Rightarrow> bool" where
  "levels_passed [] passed = passed"
| "levels_passed (rw # rws) passed = levels_passed rws (snd (level_verdict rw passed))"

definition limiter_summary :: "(tally \<times> tally) list \<Rightarrow> string" where
  "limiter_summary rws = (if levels_passed rws True
     then ''  ALL LEVELS PASSED: limiter prevents 429s at 100-300% budget''
     else ''  SOME LEVELS FAILED: limiter leaked 429s under stress'')"

section \<open>The mixed test\<close>

text \<open>
  Two pools of 25 slots. The reads are started by a goroutine of their own, on a ticker, until it
  sees \<open>readDone\<close>; they are not in the wait group. The writes are a burst; \<open>readDone\<close> is set when
  they are done, and the counters are printed when the ticker's goroutine has returned.
\<close>

datatype reader_loop = AtTicker | AtSlot | LoopReturned

record mixed =
  mx_loop :: reader_loop
  mx_reads :: pool
  mx_writes :: pool
  mx_readDone :: bool

definition half_slots :: nat where "half_slots = concurrency div 2"

definition mixed_start :: mixed where
  "mixed_start = \<lparr>mx_loop = AtTicker, mx_reads = new_pool False, mx_writes = new_pool True, mx_readDone = False\<rparr>"

definition writeBurst :: "tierInfo \<Rightarrow> probe_costs \<Rightarrow> goint" where
  "writeBurst tier costs = expected_calls (ti_WriteCapacity tier) (pc_WriteCost costs) + 10"

definition readRPS :: "tierInfo \<Rightarrow> probe_costs \<Rightarrow> gofloat" where
  "readRPS tier costs = fmul (fdiv (f64 (of_int (ti_ReadRate tier))) (pc_ReadCost costs)) (1 / 2)"

datatype mixed_action = Tick | StartRead | ReadMove action | WriteMove action | StoreDone

fun worker_move :: "action \<Rightarrow> bool" where
  "worker_move (Answer i r) = True"
| "worker_move (Advance i) = True"
| "worker_move _ = False"

fun mixed_act :: "nat \<Rightarrow> mixed_action \<Rightarrow> mixed \<Rightarrow> mixed option" where
  "mixed_act burst Tick m = (if mx_loop m = AtTicker
     then Some (m\<lparr>mx_loop := (if mx_readDone m then LoopReturned else AtSlot)\<rparr>) else None)"
| "mixed_act burst StartRead m = (if mx_loop m = AtSlot
     then map_option (\<lambda>p. m\<lparr>mx_reads := p, mx_loop := AtTicker\<rparr>) (spawn half_slots (mx_reads m)) else None)"
| "mixed_act burst (ReadMove a) m = (if worker_move a
     then map_option (\<lambda>p. m\<lparr>mx_reads := p\<rparr>) (pool_act None half_slots a (mx_reads m)) else None)"
| "mixed_act burst (WriteMove a) m =
     map_option (\<lambda>p. m\<lparr>mx_writes := p\<rparr>) (pool_act (Some burst) half_slots a (mx_writes m))"
| "mixed_act burst StoreDone m = (if pool_final (mx_writes m) then Some (m\<lparr>mx_readDone := True\<rparr>) else None)"

fun mixed_run :: "nat \<Rightarrow> mixed_action list \<Rightarrow> mixed \<Rightarrow> mixed option" where
  "mixed_run burst [] m = Some m"
| "mixed_run burst (a # as) m = (case mixed_act burst a m of None \<Rightarrow> None | Some m' \<Rightarrow> mixed_run burst as m')"

text \<open>\<open>wg.Wait\<close> has returned: the group has only the ticker's goroutine.\<close>

definition mixed_final :: "mixed \<Rightarrow> bool" where
  "mixed_final m \<longleftrightarrow> mx_loop m = LoopReturned \<and> mx_readDone m"

definition mixed_lines :: "mixed \<Rightarrow> string list" where
  "mixed_lines m = (let r = pl_tally (mx_reads m); w = pl_tally (mx_writes m) in
     [''  Reads:  '' @ Itoa (ta_sent r) @ '' sent, '' @ Itoa (ta_success r) @ '' success, '' @ Itoa (ta_rate429 r) @ '' 429s'',
      ''  Writes: '' @ Itoa (ta_sent w) @ '' sent, '' @ Itoa (ta_success w) @ '' success, '' @ Itoa (ta_rate429 w) @ '' 429s'',
      if ta_rate429 r = 0 then ''  PASS: Read bucket unaffected by write exhaustion''
      else ''  FAIL: Reads got 429s during write burst '' @ em_dash @ '' buckets may not be independent''])"

section \<open>Cleaning up and reporting\<close>

text \<open>The cancellations in the order in which they count themselves; errors are dropped.\<close>

definition cancel_call :: "string \<Rightarrow> endpoint" where
  "cancel_call oid = CancelOrderV2 oid
     \<lparr>CancelOrderV2_MarketTicker = [], CancelOrderV2_Subaccount = 0, CancelOrderV2_ExchangeIndex = None\<rparr>"

fun count_cancelled :: "(goerror + goval) list \<Rightarrow> goint \<Rightarrow> goint" where
  "count_cancelled [] n = n"
| "count_cancelled (r # rs) n = count_cancelled rs (if isl r then n else n + 1)"

definition cleanupOrders :: "string list \<Rightarrow> (goerror + goval) list \<Rightarrow> string list \<times> endpoint list" where
  "cleanupOrders orderIDs results = (if orderIDs = [] then ([], [])
     else ([''Cleaning up '' @ Itoa (int (length orderIDs)) @ '' orders...'',
            ''Cancelled '' @ Itoa (count_cancelled results 0) @ ''/'' @ Itoa (int (length orderIDs)) @ '' orders''],
           map cancel_call orderIDs))"

text \<open>\<open>Duration.Round\<close> to milliseconds and \<open>Duration.String\<close>, of a positive duration.\<close>

definition round_ms :: "int \<Rightarrow> int" where
  "round_ms d = (let r = d mod 1000000 in
     if r + r < 1000000 then d - r
     else if d + 1000000 - r < 2 ^ 63 then d + 1000000 - r else 2 ^ 63 - 1)"

definition frac_text :: "nat \<Rightarrow> nat \<Rightarrow> string" where
  "frac_text prec v =
     (let ds = itoa_nat (v mod 10 ^ prec);
          t = rev (dropWhile (\<lambda>c. c = CHR ''0'') (rev (replicate (prec - length ds) CHR ''0'' @ ds)))
      in if t = [] then [] else CHR ''.'' # t)"

definition Duration_String :: "nat \<Rightarrow> string" where
  "Duration_String u =
     (if u = 0 then ''0s''
      else if u < 1000 then itoa_nat u @ ''ns''
      else if u < 1000000 then itoa_nat (u div 1000) @ frac_text 3 u @ [CHR 0xC2, CHR 0xB5] @ ''s''
      else if u < 1000000000 then itoa_nat (u div 1000000) @ frac_text 6 u @ ''ms''
      else (let secs = u div 1000000000 in
         (if 3600 \<le> secs then itoa_nat (secs div 3600) @ ''h'' else [])
         @ (if 60 \<le> secs then itoa_nat (secs div 60 mod 60) @ ''m'' else [])
         @ itoa_nat (secs mod 60) @ frac_text 9 u @ ''s''))"

text \<open>\<open>%.1f\<close>, and \<open>Duration.Seconds\<close>.\<close>

definition fmt1 :: "gofloat \<Rightarrow> string" where
  "fmt1 x = (let n = rne (10 * \<bar>x\<bar>) in (if x < 0 then ''-'' else []) @ Itoa (n div 10) @ ''.'' @ Itoa (n mod 10))"

definition Duration_Seconds :: "int \<Rightarrow> gofloat" where
  "Duration_Seconds d = fadd (f64 (of_int (d div 1000000000))) (fdiv (of_int (d mod 1000000000)) 1000000000)"

definition printResult :: "string \<Rightarrow> tally \<Rightarrow> goint \<Rightarrow> string list" where
  "printResult name r expected =
     [[], ''    '' @ name @ '':'',
      ''      Requests sent: '' @ Itoa (ta_sent r),
      ''      Succeeded:     '' @ Itoa (ta_success r)
        @ (if expected > 0 then ''  (expected: '' @ Itoa expected @ '' = capacity/cost)'' else []),
      ''      429s:          '' @ Itoa (ta_rate429 r)]
     @ (if ta_errs r > 0
        then (''      Other errors:  '' @ Itoa (ta_errs r)) # map (\<lambda>s. ''        '' @ s) (ta_errSamples r)
        else [])
     @ (if ta_first429 r > 0 then [''      First 429 at:  #'' @ Itoa (ta_first429 r)] else [])
     @ (if sint (ta_Duration r) > 0
        then [''      Duration:      '' @ Duration_String (nat (round_ms (sint (ta_Duration r)))),
              ''      Actual RPS:    '' @ fmt1 (fdiv (f64 (of_int (ta_sent r))) (Duration_Seconds (sint (ta_Duration r))))]
        else [])"

definition printHeader :: "tierInfo \<Rightarrow> probe_costs \<Rightarrow> string list" where
  "printHeader tier costs =
     [''=== Rate Limit Validation (PROD) ==='',
      ''Tier:            '' @ ti_Tier tier,
      ''Read:            '' @ Itoa (ti_ReadRate tier) @ '' tokens/sec, capacity '' @ Itoa (ti_ReadCapacity tier),
      ''Write:           '' @ Itoa (ti_WriteRate tier) @ '' tokens/sec, capacity '' @ Itoa (ti_WriteCapacity tier),
      ''Read endpoint:   GET /portfolio/balance (cost: '' @ fmt0 (pc_ReadCost costs) @ '')'',
      ''Write endpoint:  POST /portfolio/orders (cost: '' @ fmt0 (pc_WriteCost costs) @ '')'',
      ''Test market:     '' @ testMarket @ '' @ '' @ orderPrice,
      ''Concurrency:     '' @ Itoa (int concurrency) @ '' goroutines (Phase 2)'', []]"

section \<open>main\<close>

text \<open>The tests a value of the flag runs, in order.\<close>

datatype test = Scripted "script list" | Mixed nat gofloat

definition runMixedTest :: "tierInfo \<Rightarrow> probe_costs \<Rightarrow> test" where
  "runMixedTest tier costs = Mixed (nat (writeBurst tier costs)) (readRPS tier costs)"

definition run_tests :: "string \<Rightarrow> tierInfo \<Rightarrow> probe_costs \<Rightarrow> string + test list" where
  "run_tests testFlag tier costs =
     (let rd = Scripted (runReadTest tier costs); wr = Scripted (runWriteTest tier costs);
          mi = runMixedTest tier costs;
          ba = Scripted (runBatchTest tier costs); li = Scripted (runClientLimiterTest tier costs)
      in if testFlag = ''read'' then Inr [rd]
         else if testFlag = ''write'' then Inr [wr]
         else if testFlag = ''mixed'' then Inr [mi]
         else if testFlag = ''batch'' then Inr [ba]
         else if testFlag = ''limiter'' then Inr [li]
         else if testFlag = ''all'' then Inr [rd, wr, mi, ba, li]
         else Inl (''unknown test: '' @ testFlag))"

text \<open>
  The client of the tests: a bucket far above any limit takes the place of the account's, so that
  \<open>NewClient\<close> makes no calls of its own.
\<close>

definition no_run :: http_run where "no_run = \<lparr>hr_rounds = [], hr_attempts = []\<rparr>"

definition probe_client ::
  "('k, 'r) http_env \<Rightarrow> (string \<Rightarrow> string) \<Rightarrow> gofloat \<Rightarrow> string + ('k, 'r) ClientConfig \<times> ('k, 'r) new_client" where
  "probe_client env getenv now =
     (let keyID = getenv ''KALSHI_PROD_API_KEY_ID''; keyFile = getenv ''KALSHI_PROD_PRIVATE_KEY_FILE'' in
      if keyID = [] \<or> keyFile = []
      then Inl ''KALSHI_PROD_API_KEY_ID and KALSHI_PROD_PRIVATE_KEY_FILE must be set''
      else case LoadCredentials (he_crypto env) keyID keyFile of
        Inl err \<Rightarrow> Inl (''load credentials: '' @ Error err)
      | Inr creds \<Rightarrow>
         (let conf = \<lparr>cfg_Environment = Prod, cfg_Credentials = creds,
                cfg_HTTPBaseURL = ''https://api.elections.kalshi.com'', cfg_WSBaseURL = []\<rparr>
          in case NewReadWriteTokenBucket \<lparr>ReadRate = 99999, WriteRate = 99999, ReadCapacity = 0,
                    WriteCapacity = 0, WindowSize = 1, SafetyPadding = 0\<rparr> now of
               Inl msg \<Rightarrow> Inl msg
             | Inr tokens \<Rightarrow> Inr (conf, NewClient env now no_run now no_run conf [WithRateLimiter tokens])))"

text \<open>
  The directory whose \<open>.env\<close> is loaded: the first with a \<open>go.mod\<close>, from the working directory up. The
  fuel is the length of the path, which bounds its depth; \<open>filepath.Dir\<close> stops changing at the root.
\<close>

fun env_dir :: "(string \<Rightarrow> bool) \<Rightarrow> nat \<Rightarrow> string \<Rightarrow> string option" where
  "env_dir exists_path 0 dir = None"
| "env_dir exists_path (Suc n) dir =
     (if exists_path (path_join dir ''go.mod'') then Some (path_join dir ''.env'')
      else let parent = path_dir dir in if parent = dir then None else env_dir exists_path n parent)"

definition loadEnv :: "(string \<Rightarrow> bool) \<Rightarrow> string option \<Rightarrow> string option" where
  "loadEnv exists_path getwd = (case getwd of None \<Rightarrow> None | Some dir \<Rightarrow> env_dir exists_path (length dir + 1) dir)"

end
