(* ===== verification/RateProbeProps.thy ===== *)
theory RateProbeProps
  imports RateProbe HttpProps
begin

text \<open>
  What the tests of \<open>tools/ratelimit_test\<close> can conclude, and what they cannot: the order they send,
  when they wait, what the mixed test's counters say when they are printed, and which replies a
  verdict never sees.
\<close>

section \<open>The order that is sent\<close>

lemma newTestOrder_json:
  "encode ty_CreateOrderV2Request newTestOrder = Some (JObj
     [(''count'', JStr ''1.00''), (''price'', JStr ''0.01''),
      (''self_trade_prevention_type'', JStr ''taker_at_cross''), (''side'', JStr ''bid''),
      (''ticker'', JStr ''KXELONMARS-99''), (''time_in_force'', JStr ''good_till_canceled'')])"
  by (simp add: newTestOrder_def ty_CreateOrderV2Request_def testMarket_def orderPrice_def
      BookSideBid_def TimeInForceGTC_def STPTakerAtCross_def is_empty_def upt_conv_Cons)

text \<open>A batch of \<open>n\<close> such orders is billed as \<open>n\<close> orders.\<close>

lemma batch_units: "ac_units (endpoint_call (traffic_call (Batches n))) = int (nat n)"
  by (simp add: traffic_call_def BatchCreateOrdersV2_def batch_request_def len_orders_def)

text \<open>The write calls go to another path than the one the header names.\<close>

lemma header_names_other_path:
  "ac_path (endpoint_call (traffic_call Writes)) = ''/trade-api/v2/portfolio/events/orders''"
  by (simp add: traffic_call_def CreateOrderV2_def postJSON_call_def path_defs)

section \<open>The costs that are read\<close>

lemma entry_costs_snoc:
  "entry_costs (ecs @ [ec]) costs = entry_costs [ec] (entry_costs ecs costs)"
  by (induction ecs arbitrary: costs) (simp_all add: Let_def)

text \<open>
  The write cost is that of the last entry for a POST below \<open>orders\<close>, whatever comes after it: with
  this table the tests take the cost of an amendment for that of an order.
\<close>

lemma write_cost_of_amend:
  "pc_WriteCost (entry_costs
     [\<lparr>etc_Cost = 10, etc_Method = ''POST'', etc_Path = ''/portfolio/events/orders''\<rparr>,
      \<lparr>etc_Cost = 30, etc_Method = ''POST'', etc_Path = ''/portfolio/events/orders/{id}/amend''\<rparr>] costs) = 30"
proof -
  have "ToUpper ''POST'' = ''POST''" "ToLower ''/portfolio/events/orders'' = ''/portfolio/events/orders''"
    "ToLower ''/portfolio/events/orders/{id}/amend'' = ''/portfolio/events/orders/{id}/amend''" by code_simp+
  moreover have "Contains ''/portfolio/events/orders'' ''orders''" "\<not> Contains ''/portfolio/events/orders'' ''batch''"
    "Contains ''/portfolio/events/orders/{id}/amend'' ''orders''"
    "\<not> Contains ''/portfolio/events/orders/{id}/amend'' ''batch''" by code_simp+
  ultimately show ?thesis by simp
qed

section \<open>Waiting\<close>

text \<open>Every phase after the first comes right after a wait.\<close>

fun waits_between :: "bool \<Rightarrow> script list \<Rightarrow> bool" where
  "waits_between full [] = True"
| "waits_between full (WaitRefill # ss) = waits_between True ss"
| "waits_between full (Phase ph name n # ss) = (full \<and> waits_between False ss)"
| "waits_between full (Say s # ss) = waits_between full ss"
| "waits_between full (Cleanup # ss) = waits_between False ss"

lemma tests_wait:
  "waits_between True (runReadTest tier costs)" "waits_between True (runWriteTest tier costs)"
  "waits_between False (runBatchTest tier costs)" "waits_between False (runClientLimiterTest tier costs)"
  by (simp_all add: runReadTest_def runWriteTest_def runBatchTest_def runClientLimiterTest_def limiter_phases_def Let_def)

section \<open>The limiter test\<close>

lemma levels_passed_iff:
  "levels_passed rws passed \<longleftrightarrow> passed \<and> (\<forall>(r, w) \<in> set rws. ta_rate429 r = 0 \<and> ta_rate429 w = 0)"
  by (induction rws arbitrary: passed) (auto simp: level_verdict_def Let_def)

text \<open>
  The client retries a 429 by itself. A call that met one and was then answered has no error, so the
  counters see a success and the verdict \<open>0 429s\<close> stands.
\<close>

lemma retried_429_uncounted:
  "\<exists>q c'. do_request demo_env \<lparr>hr_rounds = one_round, hr_attempts = [answer 429 [], answer 200 body]\<rparr>
      demo_client ''GET'' p 10 0 1 None ps = (Returned (Inr body), [q, q], c')
   \<and> ta_rate429 (record_err None t) = ta_rate429 t"
proof -
  obtain q where "buildAuthRequest demo_env 7 demo_client ''GET'' p (buildURL (baseURL demo_client) p ps) None = Inr q"
    using demo_build by blast
  moreover have "resolveCosts demo_client ''GET'' p 10 0 1 = (10, 0)"
    by (simp add: resolveCosts_def demo_client_def fmul_def)
  moreover have "maxRetries demo_client = 1" by (simp add: demo_client_def)
  ultimately show ?thesis
    by (simp add: do_request_def demo_acquire answer_def executeRequest_def finish_response_def handleRetry_def
        record_err_def tally_defs Let_def)
qed

section \<open>The mixed test\<close>

definition mixed_inv :: "nat \<Rightarrow> mixed \<Rightarrow> bool" where
  "mixed_inv burst m \<longleftrightarrow> pool_inv half_slots (mx_reads m)
     \<and> (\<exists>sched. pool_run (Some burst) half_slots sched (new_pool True) = Some (mx_writes m))
     \<and> (mx_readDone m \<longrightarrow> pool_final (mx_writes m))"

lemma pool_run_snoc:
  "pool_run quota cap (sched @ [a]) p = (case pool_run quota cap sched p of None \<Rightarrow> None | Some q \<Rightarrow> pool_act quota cap a q)"
  by (induction sched arbitrary: p) (auto split: option.splits)

lemma rank_Gone: "6 \<le> rank st \<longleftrightarrow> st = Gone"
  by (cases st) simp_all

text \<open>A finished burst cannot move any more.\<close>

lemma final_stuck:
  assumes "pool_run (Some burst) cap sched (new_pool True) = Some p" and "pool_final p"
  shows "pool_act (Some burst) cap a p = None"
proof (rule ccontr)
  assume "pool_act (Some burst) cap a p \<noteq> None"
  then obtain q where q: "pool_act (Some burst) cap a p = Some q" by blast
  have "pool_inv cap p" "pl_tracked p"
    using pool_run_inv [OF assms(1) pool_inv_new] pool_run_frame [OF assms(1)] by (simp_all add: new_pool_def)
  then have gone: "list_all (at_least 6) (pl_workers p)" using final_gone assms(2) by blast
  have all: "at_least 6 (pl_workers p ! i)" if "i < length (pl_workers p)" for i
    using gone that by (simp add: list_all_length)
  have "\<not> pl_open p" using assms(2) by (simp add: pool_final_def)
  show False
  proof (cases a)
    case (Advance i)
    from q [unfolded Advance] show False
      by (rule act_Advance) (use all rank_Gone in fastforce)
  next
    case (Answer i r)
    then show False using q all [of i] by (auto split: if_splits)
  qed (use q \<open>\<not> pl_open p\<close> in \<open>auto split: if_splits\<close>)
qed

lemma mixed_act_inv: "mixed_act burst a m = Some m' \<Longrightarrow> mixed_inv burst m \<Longrightarrow> mixed_inv burst m'"
proof (cases a)
  case (WriteMove b)
  assume s: "mixed_act burst a m = Some m'" and inv: "mixed_inv burst m"
  then obtain p where p: "pool_act (Some burst) half_slots b (mx_writes m) = Some p" "m' = m\<lparr>mx_writes := p\<rparr>"
    using WriteMove by auto
  from inv obtain sched where sched: "pool_run (Some burst) half_slots sched (new_pool True) = Some (mx_writes m)"
    by (auto simp: mixed_inv_def)
  have "\<not> mx_readDone m" using inv final_stuck [OF sched] p by (auto simp: mixed_inv_def)
  moreover have "pool_run (Some burst) half_slots (sched @ [b]) (new_pool True) = Some p"
    using sched p by (simp add: pool_run_snoc)
  ultimately show ?thesis using inv p by (auto simp: mixed_inv_def)
qed (auto simp: mixed_inv_def split: if_splits intro: launch_inv pool_act_inv)

lemma mixed_run_inv: "mixed_run burst sched m = Some m' \<Longrightarrow> mixed_inv burst m \<Longrightarrow> mixed_inv burst m'"
  by (induction sched arbitrary: m) (auto split: option.splits dest: mixed_act_inv)

lemma mixed_inv_start: "mixed_inv burst mixed_start"
proof -
  have "pool_run (Some burst) half_slots [] (new_pool True) = Some (mx_writes mixed_start)"
    by (simp add: mixed_start_def)
  then show ?thesis by (auto simp: mixed_inv_def mixed_start_def pool_inv_new simp del: pool_run.simps)
qed

text \<open>
  When the counters are printed every write has been counted. Of the reads only those whose goroutine
  got far enough: the 429s counted are at most those that were answered, and all of them if no read
  is still running.
\<close>

lemma mixed_counts:
  assumes run: "mixed_run burst sched mixed_start = Some m" and fin: "mixed_final m"
  shows "\<exists>writes. length writes = burst \<and> report (pl_tally (mx_writes m)) = report (fst (seqSustained writes))"
    and "ta_rate429 (pl_tally (mx_reads m)) \<le> tot (with_reply reply_429) (pl_workers (mx_reads m))"
    and "list_all (at_least 6) (pl_workers (mx_reads m))
       \<Longrightarrow> ta_rate429 (pl_tally (mx_reads m)) = tot (with_reply reply_429) (pl_workers (mx_reads m))"
proof -
  have inv: "mixed_inv burst m" by (rule mixed_run_inv [OF run mixed_inv_start])
  then obtain ws where ws: "pool_run (Some burst) half_slots ws (new_pool True) = Some (mx_writes m)"
    and ended: "pool_final (mx_writes m)"
    using fin by (auto simp: mixed_inv_def mixed_final_def)
  show "\<exists>writes. length writes = burst \<and> report (pl_tally (mx_writes m)) = report (fst (seqSustained writes))"
    using finished_report [OF ws ended] by auto
  have t: "ta_rate429 (pl_tally (mx_reads m)) = tot (counted 2 reply_429) (pl_workers (mx_reads m))"
    using inv by (simp add: mixed_inv_def pool_inv_def tally_inv_def)
  show "ta_rate429 (pl_tally (mx_reads m)) \<le> tot (with_reply reply_429) (pl_workers (mx_reads m))"
    unfolding t by (rule tot_mono) (simp add: counted_def)
  show "ta_rate429 (pl_tally (mx_reads m)) = tot (with_reply reply_429) (pl_workers (mx_reads m))"
    if "list_all (at_least 6) (pl_workers (mx_reads m))"
    unfolding t by (rule gone_tot(1) [OF that]) simp
qed

text \<open>
  Nothing waits for the reads: here the only read is answered with a 429, and the test passes.
\<close>

lemma mixed_test_misses_429:
  "\<exists>m. mixed_run 0 [Tick, StartRead, ReadMove (Answer 0 (Inl limited)), WriteMove Close, StoreDone, Tick] mixed_start = Some m
     \<and> mixed_final m \<and> tot (with_reply reply_429) (pl_workers (mx_reads m)) = 1
     \<and> last (mixed_lines m) = ''  PASS: Read bucket unaffected by write exhaustion''"
  by (simp add: mixed_start_def new_pool_def spawn_def half_slots_def concurrency_def pool_final_def mixed_final_def
      mixed_lines_def zero_tally_def tot_def)

section \<open>Cleaning up and starting\<close>

lemma count_cancelled: "count_cancelled rs n = n + int (length (filter (\<lambda>r. \<not> isl r) rs))"
  by (induction rs arbitrary: n) simp_all

text \<open>The order ids that are cancelled are those of the orders that were made, and every one of them.\<close>

lemma cleanup_calls:
  "snd (cleanupOrders ids rs) = map cancel_call ids"
  "ac_method (endpoint_call (cancel_call oid)) = ''DELETE''"
  "ac_path (endpoint_call (cancel_call oid)) = ''/trade-api/v2/portfolio/events/orders/'' @ oid"
  by (simp_all add: cleanupOrders_def cancel_call_def CancelOrderV2_def path_defs)

text \<open>The search for \<open>go.mod\<close>: going up shortens an absolute path, so that the fuel is enough.\<close>

lemma path_dir_up:
  assumes "path_dir dir \<noteq> dir" and "HasPrefix dir ''/''"
  shows "length (path_dir dir) < length dir \<and> HasPrefix (path_dir dir) ''/''"
proof -
  let ?d = "rev (dropWhile (\<lambda>c. c \<noteq> CHR ''/'') (rev dir))"
  have split: "?d @ rev (takeWhile (\<lambda>c. c \<noteq> CHR ''/'') (rev dir)) = dir"
    by (metis rev_append rev_rev_ident takeWhile_dropWhile_id)
  obtain rest where dir: "dir = CHR ''/'' # rest"
    using assms(2) by (cases dir) (auto simp: HasPrefix_def)
  show ?thesis
  proof (cases "?d = ''/'' \<or> ?d = []")
    case True
    then have "path_dir dir = ''/''" by (simp add: path_dir_def Let_def)
    then show ?thesis using assms dir by (cases rest) (auto simp: HasPrefix_def)
  next
    case False
    then have up: "path_dir dir = butlast ?d" by (simp only: path_dir_def Let_def if_False)
    obtain c cs where d: "?d = c # cs" using False by (cases ?d) auto
    then have "c = CHR ''/''" using split dir by simp
    then have "cs \<noteq> []" using d False by auto
    moreover have "length ?d \<le> length dir" by (metis length_dropWhile_le length_rev)
    ultimately show ?thesis using up d \<open>c = _\<close> by (simp add: HasPrefix_def)
  qed
qed

lemma env_dir_fuel:
  "HasPrefix dir ''/'' \<Longrightarrow> length dir < n \<Longrightarrow> length dir < m \<Longrightarrow> env_dir ex n dir = env_dir ex m dir"
proof (induction n arbitrary: dir m)
  case (Suc n)
  then obtain m' where m: "m = Suc m'" by (cases m) auto
  show ?case
  proof (cases "path_dir dir = dir")
    case False
    then have "env_dir ex n (path_dir dir) = env_dir ex m' (path_dir dir)"
      using Suc path_dir_up [OF False] m by (intro Suc.IH) auto
    then show ?thesis by (simp add: m Let_def)
  qed (simp add: m)
qed simp

text \<open>With the key variables set and a key that loads, the client is ready without any request.\<close>

lemma probe_client_ready:
  assumes "probe_client env getenv now = Inr (conf, nc)"
  shows "\<exists>c. nc = ClientReady c \<and> skipAutoConfig c \<and> ReadRate (cfg (limiter c)) = 99999
       \<and> WriteRate (cfg (limiter c)) = 99999 \<and> baseURL c = ''https://api.elections.kalshi.com''"
proof -
  obtain t where t: "NewReadWriteTokenBucket \<lparr>ReadRate = 99999, WriteRate = 99999, ReadCapacity = 0,
        WriteCapacity = 0, WindowSize = 1, SafetyPadding = 0\<rparr> now = Inr t"
    and conf: "cfg_HTTPBaseURL conf = ''https://api.elections.kalshi.com''"
    and nc: "nc = NewClient env now no_run now no_run conf [WithRateLimiter t]"
    using assms by (auto simp: probe_client_def Let_def split: if_splits sum.splits)
  obtain l where "NewReadWriteTokenBucket DefaultTokenBucketConfig now = Inr l"
    by (auto simp: NewReadWriteTokenBucket_def DefaultTokenBucketConfig_def Let_def)
  then show ?thesis using t conf nc
    by (auto simp: NewClient_def new_client_defaults_def WithRateLimiter_def NewReadWriteTokenBucket_def Let_def)
qed

end
