(* ===== verification/Programs.thy ===== *)
theory Programs
  imports RateProbe WSTypes
begin

text \<open>
  Two command line programs that use the SDK: \<open>tools/exchange_gate\<close>, which prints whether the exchange
  is active for a CI job, and \<open>cmd/ws_explore\<close>, which talks to the WebSocket server by itself. What the
  exchange answers is an input, as in the theories of the clients; what is logged is left out.
\<close>

section \<open>The gate\<close>

definition gate_line :: "bool \<Rightarrow> string" where
  "gate_line active = (if active then ''active=true'' else ''active=false'')"

definition status_active :: "goval \<Rightarrow> bool" where
  "status_active status \<longleftrightarrow> get_field ty_ExchangeStatus ''ExchangeActive'' status = VBool True
     \<or> get_field ty_ExchangeStatus ''TradingActive'' status = VBool True"

text \<open>The runs are those of the two calls of \<open>NewClient\<close> and of the status call.\<close>

datatype gate_result = GateLine string | GatePanic string | GatePending

definition exchange_gate ::
  "('k, 'r) http_env \<Rightarrow> (string \<Rightarrow> string) \<Rightarrow> gofloat \<Rightarrow> http_run \<Rightarrow> gofloat
     \<Rightarrow> http_run \<Rightarrow> http_run \<Rightarrow> gate_result" where
  "exchange_gate env getenv now0 limitsRun now costsRun statusRun =
     (case NewClientConfig (he_crypto env) getenv of
        Inl err \<Rightarrow> GateLine (gate_line False)
      | Inr conf \<Rightarrow> (case NewClient env now0 limitsRun now costsRun conf [] of
          ClientPanic msg \<Rightarrow> GatePanic msg
        | ClientPending \<Rightarrow> GatePending
        | ClientReady c \<Rightarrow> (case run_endpoint api_decoders env statusRun c GetExchangeStatus of
            (Pending, reqs, c') \<Rightarrow> GatePending
          | (Returned (Inl err), reqs, c') \<Rightarrow> GateLine (gate_line False)
          | (Returned (Inr status), reqs, c') \<Rightarrow>
              GateLine (gate_line (case status of Some v \<Rightarrow> status_active v | None \<Rightarrow> False)))))"

text \<open>Nothing but a decoded status makes the gate say that the exchange is active.\<close>

lemma gate_active:
  assumes "exchange_gate env getenv now0 limitsRun now costsRun statusRun = GateLine ''active=true''"
  obtains conf c v reqs c' where "NewClientConfig (he_crypto env) getenv = Inr conf"
    "NewClient env now0 limitsRun now costsRun conf [] = ClientReady c"
    "run_endpoint api_decoders env statusRun c GetExchangeStatus = (Returned (Inr (Some v)), reqs, c')"
    "status_active v"
  using assms
  by (auto simp: exchange_gate_def gate_line_def split: sum.splits new_client.splits prod.splits outcome.splits
      option.splits if_splits)

text \<open>
  One flag is enough: while trading is paused on an exchange that is up, the gate lets the tests run.
\<close>

lemma paused_is_active:
  "\<exists>v. unmarshal_into ty_ExchangeStatus
          (json_print (JObj [(''exchange_active'', JBool True), (''trading_active'', JBool False)])) = Some v
      \<and> status_active v"
proof -
  let ?j = "JObj [(''exchange_active'', JBool True), (''trading_active'', JBool False)]"
  have "decode ty_ExchangeStatus (zero ty_ExchangeStatus) ?j
      = (VStruct [VBool True, VNil, VNil, VBool False, VBool False], False)" by code_simp
  moreover have "status_active (VStruct [VBool True, VNil, VNil, VBool False, VBool False])" by code_simp
  ultimately show ?thesis by (simp add: unmarshal_into_def json_parse_print del: json_print.simps)
qed

section \<open>The explorer\<close>

text \<open>The commands, and the messages read: \<open>incoming\<close> has the fields of the client's \<open>WSMessage\<close>.\<close>

definition explore_command :: "goint \<Rightarrow> string \<Rightarrow> json \<Rightarrow> string" where
  "explore_command i cmd params =
     json_print (JObj [(''id'', JInt i), (''cmd'', JStr cmd), (''params'', params)])"

definition explore_subscribe :: string where
  "explore_subscribe = explore_command 1 ''subscribe'' (JObj [(''channels'', j_strings [''trade''])])"

definition explore_add_markets :: "goint \<Rightarrow> string" where
  "explore_add_markets tradeSID = explore_command 2 ''update_subscription''
     (JObj [(''sids'', j_ints [tradeSID]), (''market_tickers'', j_strings [''KXBTC-100K'']),
            (''action'', JStr ''add_markets'')])"

type_synonym incoming = WSMessage

datatype ws_read = ReadFails goerror bool | ReadData string   \<comment> \<open>error, whether the context ended; data\<close>

definition readOne :: "ws_read \<Rightarrow> string + incoming \<times> string" where
  "readOne rd = (case rd of
      ReadFails err ended \<Rightarrow> Inl (''read: '' @ Error err)
    | ReadData d \<Rightarrow> (case Unmarshal (\<lambda>z j. dec_WSMessage j) zero_WSMessage d of
        Inl err \<Rightarrow> Inl (''unmarshal: '' @ Error err)
      | Inr m \<Rightarrow> Inr (m, d)))"

text \<open>The id in the body; the error of its decoding is dropped.\<close>

definition body_sid :: "incoming \<Rightarrow> goint" where
  "body_sid m = (case msg_Msg m of None \<Rightarrow> 0
     | Some j \<Rightarrow> fst (dec_field ''sid'' dec_int 0 (fst (obj_pairs j))))"

text \<open>What is sent, and what is printed under which number: indented when it is JSON.\<close>

datatype explore_event = SentText string | Printed goint bool string

definition printMsg :: "goint \<Rightarrow> string \<Rightarrow> explore_event" where
  "printMsg n data = Printed n (json_parse data \<noteq> None) data"

datatype explore_end = ExploreFatal string | ExploreTimeout goint | ExploreWaiting

text \<open>The three loops. A list of reads that ends leaves the program waiting.\<close>

fun explore_subscribed :: "ws_read list \<Rightarrow> goint \<Rightarrow> explore_event list \<times> (explore_end + goint \<times> goint \<times> ws_read list)" where
  "explore_subscribed [] msgCount = ([], Inl ExploreWaiting)"
| "explore_subscribed (rd # rds) msgCount = (case readOne rd of
      Inl err \<Rightarrow> ([], Inl (ExploreFatal err))
    | Inr (m, d) \<Rightarrow>
        if msg_Type m = ''subscribed'' \<and> msg_ID m = 1
        then ([printMsg (msgCount + 1) d], Inr (body_sid m, msgCount + 1, rds))
        else (case explore_subscribed rds (msgCount + 1) of (evs, res) \<Rightarrow> (printMsg (msgCount + 1) d # evs, res)))"

fun explore_confirm :: "nat \<Rightarrow> ws_read list \<Rightarrow> goint \<Rightarrow> explore_event list \<times> (explore_end + goint \<times> ws_read list)" where
  "explore_confirm 0 rds msgCount = ([], Inr (msgCount, rds))"
| "explore_confirm (Suc i) [] msgCount = ([], Inl ExploreWaiting)"
| "explore_confirm (Suc i) (rd # rds) msgCount = (case readOne rd of
      Inl err \<Rightarrow> ([], Inl (ExploreFatal err))
    | Inr (m, d) \<Rightarrow> (case explore_confirm i rds (msgCount + 1) of (evs, res) \<Rightarrow> (printMsg (msgCount + 1) d # evs, res)))"

fun explore_listen :: "ws_read list \<Rightarrow> goint \<Rightarrow> explore_event list \<times> explore_end" where
  "explore_listen [] msgCount = ([], ExploreWaiting)"
| "explore_listen (ReadFails err ended # rds) msgCount =
     ([], if ended then ExploreTimeout msgCount else ExploreFatal (''read: '' @ Error err))"
| "explore_listen (ReadData d # rds) msgCount =
     (case explore_listen rds (msgCount + 1) of (evs, e) \<Rightarrow> (printMsg (msgCount + 1) d # evs, e))"

text \<open>\<open>send\<close>: a command is shown before it is written; \<open>wr\<close> has the error of each write.\<close>

definition explore_main :: "(goint \<Rightarrow> goerror option) \<Rightarrow> ws_read list \<Rightarrow> explore_event list \<times> explore_end" where
  "explore_main wr rds = (case wr 1 of
      Some err \<Rightarrow> ([SentText explore_subscribe], ExploreFatal (''write: '' @ Error err))
    | None \<Rightarrow> (case explore_subscribed rds 0 of
        (evs1, Inl e) \<Rightarrow> (SentText explore_subscribe # evs1, e)
      | (evs1, Inr (tradeSID, n1, rds1)) \<Rightarrow> (case explore_confirm 3 rds1 n1 of
          (evs2, Inl e) \<Rightarrow> (SentText explore_subscribe # evs1 @ evs2, e)
        | (evs2, Inr (n2, rds2)) \<Rightarrow>
            let sent = SentText explore_subscribe # evs1 @ evs2 @ [SentText (explore_add_markets tradeSID)]
            in (case wr 2 of
                Some err \<Rightarrow> (sent, ExploreFatal (''write: '' @ Error err))
              | None \<Rightarrow> (case explore_listen rds2 n2 of (evs3, e) \<Rightarrow> (sent @ evs3, e))))))"

text \<open>Where it connects to, and with which headers.\<close>

definition explore_target ::
  "('k, 'r) crypto \<Rightarrow> goint \<Rightarrow> (string \<Rightarrow> string) \<Rightarrow> string + string \<times> string smap" where
  "explore_target w unixMilli getenv = (case NewClientConfig w getenv of
      Inl err \<Rightarrow> Inl (''config: '' @ Error err)
    | Inr conf \<Rightarrow> (case RequestHeaders w unixMilli (cfg_Credentials conf) ''GET'' ''/trade-api/ws/v2'' of
        Inl err \<Rightarrow> Inl (''auth headers: '' @ Error err)
      | Inr headers \<Rightarrow> Inr (cfg_WSBaseURL conf @ ''/trade-api/ws/v2'',
          foldl (\<lambda>h (k, v). Header_Set k v h) [] headers)))"

section \<open>What the explorer prints and sends\<close>

fun numbers :: "explore_event list \<Rightarrow> goint list" where
  "numbers [] = []"
| "numbers (Printed n b d # evs) = n # numbers evs"
| "numbers (SentText s # evs) = numbers evs"

definition from_to :: "goint \<Rightarrow> nat \<Rightarrow> goint list" where
  "from_to n k = map (\<lambda>i. n + 1 + int i) [0..<k]"

lemma from_to_simps [simp]: "from_to n 0 = []" "from_to n (Suc k) = (n + 1) # from_to (n + 1) k"
  by (simp_all add: from_to_def map_upt_Suc del: upt_Suc)

lemma from_to_empty [simp]: "from_to n k = [] \<longleftrightarrow> k = 0" "[] = from_to n k \<longleftrightarrow> k = 0"
  by (auto simp: from_to_def)

lemma from_to_append: "from_to n k @ from_to (n + int k) l = from_to n (k + l)"
proof (induction k arbitrary: n)
  case (Suc k)
  show ?case using Suc.IH [of "n + 1"] by (simp add: add.assoc)
qed simp

lemma numbers_append [simp]: "numbers (xs @ ys) = numbers xs @ numbers ys"
  by (induction xs rule: numbers.induct) simp_all

text \<open>The message that ended the first loop, and where the loops leave the numbering.\<close>

lemma explore_subscribed_Inr:
  "explore_subscribed rds n = (evs, Inr (tradeSID, n', rest)) \<Longrightarrow>
     \<exists>pre d m. rds = pre @ ReadData d # rest \<and> readOne (ReadData d) = Inr (m, d) \<and> msg_Type m = ''subscribed''
       \<and> msg_ID m = 1 \<and> tradeSID = body_sid m"
proof (induction rds arbitrary: n evs)
  case (Cons rd rds)
  then obtain m d where r: "readOne rd = Inr (m, d)" by (auto split: sum.splits)
  then have rd: "rd = ReadData d" by (auto simp: readOne_def split: ws_read.splits sum.splits)
  show ?case
  proof (cases "msg_Type m = ''subscribed'' \<and> msg_ID m = 1")
    case True
    then have "rest = rds \<and> tradeSID = body_sid m" using Cons.prems r by simp
    then show ?thesis using True r rd by (metis append_Nil)
  next
    case False
    then obtain evs' where "explore_subscribed rds (n + 1) = (evs', Inr (tradeSID, n', rest))"
      using Cons.prems r by (auto split: prod.splits)
    from Cons.IH [OF this] obtain pre d' m' where "rds = pre @ ReadData d' # rest" "readOne (ReadData d') = Inr (m', d')"
      "msg_Type m' = ''subscribed''" "msg_ID m' = 1" "tradeSID = body_sid m'" by blast
    then have "rd # rds = (rd # pre) @ ReadData d' # rest" by simp
    then show ?thesis using \<open>readOne (ReadData d') = _\<close> \<open>msg_Type m' = _\<close> \<open>msg_ID m' = 1\<close> \<open>tradeSID = _\<close> by blast
  qed
qed simp

lemma explore_subscribed_numbers:
  "explore_subscribed rds n = (evs, res) \<Longrightarrow>
     \<exists>k. numbers evs = from_to n k \<and> (\<forall>s n' rest. res = Inr (s, n', rest) \<longrightarrow> n' = n + int k)"
proof (induction rds arbitrary: n evs)
  case (Cons rd rds)
  show ?case
  proof (cases "readOne rd")
    case (Inl e)
    then have "numbers evs = from_to n 0 \<and> (\<forall>s n' rest. res = Inr (s, n', rest) \<longrightarrow> n' = n + int 0)" using Cons.prems by auto
    then show ?thesis by blast
  next
    case (Inr md)
    obtain m d where md: "md = (m, d)" by (cases md)
    show ?thesis
    proof (cases "msg_Type m = ''subscribed'' \<and> msg_ID m = 1")
      case True
      then have "numbers evs = from_to n 1 \<and> (\<forall>s n' rest. res = Inr (s, n', rest) \<longrightarrow> n' = n + int 1)"
        using Cons.prems Inr md by (auto simp: printMsg_def from_to_def)
      then show ?thesis by blast
    next
      case False
      then obtain evs' where e: "explore_subscribed rds (n + 1) = (evs', res)" "evs = printMsg (n + 1) d # evs'"
        using Cons.prems Inr md by (auto split: prod.splits)
      from Cons.IH [OF e(1)] obtain k where "numbers evs' = from_to (n + 1) k"
        "\<forall>s n' rest. res = Inr (s, n', rest) \<longrightarrow> n' = n + 1 + int k" by blast
      then have "numbers evs = from_to n (Suc k) \<and> (\<forall>s n' rest. res = Inr (s, n', rest) \<longrightarrow> n' = n + int (Suc k))"
        by (simp add: e(2) printMsg_def add.assoc)
      then show ?thesis by blast
    qed
  qed
qed auto

lemma explore_confirm_numbers:
  "explore_confirm i rds n = (evs, res) \<Longrightarrow>
     \<exists>k. numbers evs = from_to n k \<and> (\<forall>n' rest. res = Inr (n', rest) \<longrightarrow> n' = n + int k)"
proof (induction i rds n arbitrary: evs rule: explore_confirm.induct)
  case (3 i rd rds n)
  show ?case
  proof (cases "readOne rd")
    case (Inl e)
    then have "numbers evs = from_to n 0 \<and> (\<forall>n' rest. res = Inr (n', rest) \<longrightarrow> n' = n + int 0)" using 3 by auto
    then show ?thesis by blast
  next
    case (Inr md)
    obtain m d where md: "md = (m, d)" by (cases md)
    obtain evs' where e: "explore_confirm i rds (n + 1) = (evs', res)" "evs = printMsg (n + 1) d # evs'"
      using 3 Inr md by (auto split: prod.splits)
    from "3.IH" [OF Inr md [symmetric] e(1)] obtain k where "numbers evs' = from_to (n + 1) k"
      "\<forall>n' rest. res = Inr (n', rest) \<longrightarrow> n' = n + 1 + int k" by blast
    then have "numbers evs = from_to n (Suc k) \<and> (\<forall>n' rest. res = Inr (n', rest) \<longrightarrow> n' = n + int (Suc k))"
      by (simp add: e(2) printMsg_def add.assoc)
    then show ?thesis by blast
  qed
qed (force simp: from_to_def)+

lemma explore_listen_numbers:
  "explore_listen rds n = (evs, e) \<Longrightarrow> \<exists>k. numbers evs = from_to n k \<and> (\<forall>t. e = ExploreTimeout t \<longrightarrow> t = n + int k)"
proof (induction rds n arbitrary: evs rule: explore_listen.induct)
  case (3 d rds n)
  obtain evs' where e: "explore_listen rds (n + 1) = (evs', e)" "evs = printMsg (n + 1) d # evs'"
    using 3 by (auto split: prod.splits)
  from "3.IH" [OF e(1)] obtain k where "numbers evs' = from_to (n + 1) k" "\<forall>t. e = ExploreTimeout t \<longrightarrow> t = n + 1 + int k"
    by blast
  then have "numbers evs = from_to n (Suc k) \<and> (\<forall>t. e = ExploreTimeout t \<longrightarrow> t = n + int (Suc k))"
    by (simp add: e(2) printMsg_def add.assoc)
  then show ?case by blast
qed (auto split: if_splits)

text \<open>Only the last loop can time out.\<close>

lemma subscribed_no_timeout: "explore_subscribed rds n = (evs, Inl e) \<Longrightarrow> e \<noteq> ExploreTimeout t"
  by (induction rds arbitrary: n evs) (auto split: sum.splits if_splits prod.splits)

lemma confirm_no_timeout: "explore_confirm i rds n = (evs, Inl e) \<Longrightarrow> e \<noteq> ExploreTimeout t"
  by (induction i rds n arbitrary: evs rule: explore_confirm.induct) (auto split: sum.splits prod.splits)

text \<open>
  A run that reached its timeout numbered its messages from 1 without gaps and reports their number,
  and the id it sent in its second command is that of the acknowledgement of the first.
\<close>

lemma explore_run:
  assumes "explore_main wr rds = (evs, ExploreTimeout t)"
  shows "numbers evs = from_to 0 (nat t)"
    and "\<exists>pre d rest m. rds = pre @ ReadData d # rest \<and> readOne (ReadData d) = Inr (m, d) \<and> msg_Type m = ''subscribed''
           \<and> msg_ID m = 1 \<and> SentText (explore_add_markets (body_sid m)) \<in> set evs"
proof -
  obtain evs1 s n1 rds1 where s1: "explore_subscribed rds 0 = (evs1, Inr (s, n1, rds1))"
    using assms subscribed_no_timeout
    by (fastforce simp: explore_main_def split: option.splits prod.splits sum.splits)
  obtain evs2 n2 rds2 where s2: "explore_confirm 3 rds1 n1 = (evs2, Inr (n2, rds2))"
    using assms s1 confirm_no_timeout [of 3 rds1 n1]
    by (cases "explore_confirm 3 rds1 n1"; cases "snd (explore_confirm 3 rds1 n1)")
      (auto simp: explore_main_def split: option.splits)
  obtain evs3 where s3: "explore_listen rds2 n2 = (evs3, ExploreTimeout t)"
    and evs: "evs = SentText explore_subscribe # evs1 @ evs2 @ [SentText (explore_add_markets s)] @ evs3"
    using assms s1 s2 by (auto simp: explore_main_def Let_def split: option.splits prod.splits)
  obtain k1 where k1: "numbers evs1 = from_to 0 k1" "n1 = int k1"
    using explore_subscribed_numbers [OF s1] by auto
  obtain k2 where k2: "numbers evs2 = from_to n1 k2" "n2 = n1 + int k2"
    using explore_confirm_numbers [OF s2] by auto
  obtain k3 where k3: "numbers evs3 = from_to n2 k3" "t = n2 + int k3"
    using explore_listen_numbers [OF s3] by auto
  have "numbers evs = from_to 0 k1 @ from_to (0 + int k1) k2 @ from_to (0 + int (k1 + k2)) k3"
    by (simp add: evs k1 k2 k3)
  then show "numbers evs = from_to 0 (nat t)"
    using from_to_append [of "0 + int k1" k2 k3] from_to_append [of 0 k1 "k2 + k3"] k1 k2 k3
    by (simp add: nat_add_distrib add.assoc)
  show "\<exists>pre d rest m. rds = pre @ ReadData d # rest \<and> readOne (ReadData d) = Inr (m, d) \<and> msg_Type m = ''subscribed''
           \<and> msg_ID m = 1 \<and> SentText (explore_add_markets (body_sid m)) \<in> set evs"
    using explore_subscribed_Inr [OF s1] evs by auto
qed

end
