(* ===== verification/ToolOS.thy ===== *)
theory ToolOS
  imports SpecSrc GoSyntax
begin

text \<open>
  What the programs under \<open>tools/\<close> see of the operating system: a tree of files and directories,
  the working directory, the two output streams, and \<open>os.Exit\<close>. A program is a function from the
  state to its result, or the way it stopped, and the state it leaves. The functions
  \<open>findPackageRoot\<close> and \<open>writeFile\<close>, which the tools have in common, are at the end.
\<close>

section \<open>The state\<close>

text \<open>
  A path leads to a file with its content or to a directory (\<open>None\<close>). A refused write says what it
  leaves in the file, if it touches it at all: \<open>os.WriteFile\<close> truncates before it writes.
\<close>

record os_state =
  os_cwd :: "goerror + string"
  os_nodes :: "(string \<times> string option) list"
  os_unreadable :: "string \<Rightarrow> goerror option"
  os_refuses :: "string \<Rightarrow> (goerror \<times> string option) option"
  os_stdout :: "string list"
  os_stderr :: "string list"

definition os_node :: "os_state \<Rightarrow> string \<Rightarrow> string option option" where
  "os_node s = map_of (os_nodes s)"

definition os_put :: "string \<Rightarrow> string option \<Rightarrow> os_state \<Rightarrow> os_state" where
  "os_put p c s = s\<lparr>os_nodes := AList.update p c (os_nodes s)\<rparr>"

text \<open>The part of the state that no program of the repository changes.\<close>

definition os_world ::
  "os_state \<Rightarrow> (goerror + string) \<times> (string \<Rightarrow> goerror option) \<times> (string \<Rightarrow> (goerror \<times> string option) option)" where
  "os_world s = (os_cwd s, os_unreadable s, os_refuses s)"

section \<open>Package os\<close>

definition os_exists :: "os_state \<Rightarrow> string \<Rightarrow> bool" where
  "os_exists s p \<longleftrightarrow> os_node s p \<noteq> None"

definition path_error :: "string \<Rightarrow> string \<Rightarrow> string \<Rightarrow> goerror" where
  "path_error op' p cause = ErrorString (op' @ '' '' @ p @ '': '' @ cause)"

definition os_read :: "os_state \<Rightarrow> string \<Rightarrow> goerror + string" where
  "os_read s p = (case os_node s p of
      None \<Rightarrow> Inl (path_error ''open'' p ''no such file or directory'')
    | Some None \<Rightarrow> Inl (path_error ''read'' p ''is a directory'')
    | Some (Some c) \<Rightarrow> (case os_unreadable s p of Some e \<Rightarrow> Inl e | None \<Rightarrow> Inr c))"

definition os_overwrite :: "string \<Rightarrow> string \<Rightarrow> os_state \<Rightarrow> goerror option \<times> os_state" where
  "os_overwrite p c s = (case os_refuses s p of
      None \<Rightarrow> (None, os_put p (Some c) s)
    | Some (e, None) \<Rightarrow> (Some e, s)
    | Some (e, Some left) \<Rightarrow> (Some e, os_put p (Some left) s))"

definition os_write :: "string \<Rightarrow> string \<Rightarrow> os_state \<Rightarrow> goerror option \<times> os_state" where
  "os_write p c s = (case os_node s p of
      Some None \<Rightarrow> (Some (path_error ''open'' p ''is a directory''), s)
    | Some (Some old) \<Rightarrow> os_overwrite p c s
    | None \<Rightarrow> if os_node s (path_dir p) = Some None then os_overwrite p c s
        else (Some (path_error ''open'' p ''no such file or directory''), s))"

text \<open>\<open>os.MkdirAll\<close>: the nearest directory above that exists, then down again.\<close>

fun os_mkdirAll :: "nat \<Rightarrow> string \<Rightarrow> os_state \<Rightarrow> goerror option \<times> os_state" where
  "os_mkdirAll n p s = (case os_node s p of
      Some None \<Rightarrow> (None, s)
    | Some (Some c) \<Rightarrow> (Some (path_error ''mkdir'' p ''not a directory''), s)
    | None \<Rightarrow> (case n of
        0 \<Rightarrow> (Some (path_error ''mkdir'' p ''no such file or directory''), s)
      | Suc m \<Rightarrow> (case os_mkdirAll m (path_dir p) s of
          (Some e, s') \<Rightarrow> (Some e, s')
        | (None, s') \<Rightarrow> (case os_refuses s' p of
            Some (e, left) \<Rightarrow> (Some e, s')
          | None \<Rightarrow> (None, os_put p None s')))))"

definition path_base :: "string \<Rightarrow> string" where
  "path_base p = rev (takeWhile (\<lambda>c. c \<noteq> CHR ''/'') (rev p))"

text \<open>\<open>os.ReadDir\<close>: the entries sorted by name, here together with what reading each of them gives.\<close>

definition os_ReadDir :: "os_state \<Rightarrow> string \<Rightarrow> goerror + dir_entry list" where
  "os_ReadDir s dir =
     (if os_node s dir \<noteq> Some None then Inl (path_error ''open'' dir ''no such file or directory'')
      else Inr (map (\<lambda>name. let p = path_join dir name in
             \<lparr>de_Name = name, de_IsDir = os_node s p = Some None,
              de_Source = (case os_read s p of Inl e \<Rightarrow> None | Inr c \<Rightarrow> Some c)\<rparr>)
          (sort (remdups (map path_base (filter (\<lambda>p. p \<noteq> dir \<and> path_dir p = dir) (map fst (os_nodes s))))))))"

definition fs_of :: "os_state \<Rightarrow> file_system" where
  "fs_of s = \<lparr>fs_getwd = os_cwd s, fs_exists = os_exists s, fs_read = os_read s\<rparr>"

section \<open>Programs\<close>

datatype stop = OsExit nat | Panic

type_synonym 'a run = "os_state \<Rightarrow> (stop + 'a) \<times> os_state"

definition return_run :: "'a \<Rightarrow> 'a run" where
  "return_run x s = (Inr x, s)"

definition bind_run :: "'a run \<Rightarrow> ('a \<Rightarrow> 'b run) \<Rightarrow> 'b run" where
  "bind_run m f s = (case m s of (Inl stop, s') \<Rightarrow> (Inl stop, s') | (Inr x, s') \<Rightarrow> f x s')"

definition then_run :: "unit run \<Rightarrow> 'b run \<Rightarrow> 'b run" where
  "then_run m n = bind_run m (\<lambda>u. n)"

definition print_line :: "string \<Rightarrow> unit run" where
  "print_line l s = (Inr (), s\<lparr>os_stdout := os_stdout s @ [l]\<rparr>)"

definition warn_line :: "string \<Rightarrow> unit run" where
  "warn_line l s = (Inr (), s\<lparr>os_stderr := os_stderr s @ [l]\<rparr>)"

text \<open>A message to the standard error, then \<open>os.Exit(1)\<close>.\<close>

definition fatal :: "string \<Rightarrow> 'a run" where
  "fatal l s = (Inl (OsExit 1), s\<lparr>os_stderr := os_stderr s @ [l]\<rparr>)"

definition or_panic :: "'a option \<Rightarrow> 'a run" where
  "or_panic x s = (case x of None \<Rightarrow> (Inl Panic, s) | Some a \<Rightarrow> (Inr a, s))"

section \<open>What the tools share\<close>

definition package_root :: "string run" where
  "package_root s = (case os_cwd s of
      Inl err \<Rightarrow> fatal (''getwd: '' @ Error err) s
    | Inr dir \<Rightarrow> (case findPackageRoot (os_exists s) (Some dir) of
        None \<Rightarrow> fatal ''cannot find package root (go.mod)'' s
      | Some d \<Rightarrow> (Inr d, s)))"

definition line_count :: "string \<Rightarrow> nat" where
  "line_count t = length (filter (\<lambda>c. c = CHR 0x0A) t)"

definition writeFile :: "(string \<Rightarrow> goerror + string) \<Rightarrow> string \<Rightarrow> string \<Rightarrow> string \<Rightarrow> unit run" where
  "writeFile gofmt dir filename content s =
     (let path = path_join dir filename in
      case gofmt content of
        Inl err \<Rightarrow>
          warn_line (''WARNING: gofmt failed for '' @ filename @ '': '' @ Error err @ '' (wrote unformatted)'')
            (snd (os_write path content s))
      | Inr formatted \<Rightarrow> (case os_write path formatted s of
          (Some err, s') \<Rightarrow> fatal (''write '' @ path @ '': '' @ Error err) s'
        | (None, s') \<Rightarrow>
            print_line (''  Wrote '' @ filename @ '' ('' @ Itoa (int (line_count formatted)) @ '' lines)'') s'))"

section \<open>Facts\<close>

named_theorems os_simps

lemma os_put_simps [simp, os_simps]:
  "os_node (os_put p c s) q = (if q = p then Some c else os_node s q)"
  "os_world (os_put p c s) = os_world s"
  by (simp_all add: os_node_def os_put_def os_world_def update_conv')

lemma os_line_simps [simp, os_simps]:
  "os_node (s\<lparr>os_stdout := l\<rparr>) = os_node s" "os_node (s\<lparr>os_stderr := l\<rparr>) = os_node s"
  "os_world (s\<lparr>os_stdout := l\<rparr>) = os_world s" "os_world (s\<lparr>os_stderr := l\<rparr>) = os_world s"
  by (simp_all add: os_node_def os_world_def)

lemma os_worldD:
  "os_world s = os_world s' \<Longrightarrow> os_cwd s = os_cwd s' \<and> os_unreadable s = os_unreadable s' \<and> os_refuses s = os_refuses s'"
  by (simp add: os_world_def)

lemma os_write_frame:
  "os_write p c s = (e, s') \<Longrightarrow> os_world s' = os_world s \<and> (\<forall>q. q \<noteq> p \<longrightarrow> os_node s' q = os_node s q)"
  by (auto simp: os_write_def os_overwrite_def split: option.splits if_splits)

lemma os_write_ok: "os_write p c s = (None, s') \<Longrightarrow> os_node s' p = Some (Some c)"
  by (auto simp: os_write_def os_overwrite_def split: option.splits if_splits)

text \<open>Writing looks at the state through the paths and what is refused only.\<close>

definition os_same :: "os_state \<Rightarrow> os_state \<Rightarrow> bool" where
  "os_same s t \<longleftrightarrow> os_world s = os_world t \<and> os_node s = os_node t"

lemma os_same_refl [simp]: "os_same s s"
  and os_same_sym: "os_same s t \<Longrightarrow> os_same t s"
  and os_same_trans: "os_same s t \<Longrightarrow> os_same t u \<Longrightarrow> os_same s u"
  by (simp_all add: os_same_def)

lemma os_same_put: "os_same s t \<Longrightarrow> os_same (os_put p c s) (os_put p c t)"
  by (auto simp: os_same_def)

lemma os_write_same:
  assumes "os_same s t"
  shows "fst (os_write p c s) = fst (os_write p c t) \<and> os_same (snd (os_write p c s)) (snd (os_write p c t))"
proof -
  have "os_refuses s p = os_refuses t p" "os_node s = os_node t"
    using assms by (auto simp: os_same_def os_world_def)
  then show ?thesis
    using assms by (auto simp: os_write_def os_overwrite_def os_same_put split: option.splits)
qed

text \<open>Writing the same text again changes nothing, whatever came of the first attempt.\<close>

lemma os_write_again:
  "fst (os_write p c (snd (os_write p c s))) = fst (os_write p c s)
     \<and> os_same (snd (os_write p c (snd (os_write p c s)))) (snd (os_write p c s))"
proof -
  have "os_refuses (os_put p x s) p = os_refuses s p" for x by (simp add: os_put_def)
  then show ?thesis
    by (auto simp: os_write_def os_overwrite_def os_same_def split: option.splits if_splits)
qed

lemma fs_of_cong:
  assumes "os_world s = os_world t" "\<And>q. q \<in> {p. \<exists>d. p = path_join d ''go.mod''} \<Longrightarrow> os_exists s q = os_exists t q"
  shows "RepoRoot (fs_of s) = RepoRoot (fs_of t)"
    and "findPackageRoot (os_exists s) w = findPackageRoot (os_exists t) w"
proof -
  have e: "(\<lambda>d. os_exists s (path_join d ''go.mod'')) = (\<lambda>d. os_exists t (path_join d ''go.mod''))"
    using assms(2) by auto
  have "root_loop (os_exists s) n dir = root_loop (os_exists t) n dir" for n dir
    by (simp only: root_loop_find e)
  then show "RepoRoot (fs_of s) = RepoRoot (fs_of t)"
    using os_worldD [OF assms(1)] by (auto simp: RepoRoot_def fs_of_def split: sum.split)
  have "root_above (os_exists s) n dir = root_above (os_exists t) n dir" for n dir
    by (induction n arbitrary: dir) (use assms(2) in \<open>auto simp: Let_def\<close>)
  then show "findPackageRoot (os_exists s) w = findPackageRoot (os_exists t) w"
    using assms(2) by (auto simp: findPackageRoot_def split: option.splits)
qed

text \<open>Where the tools look for the package root, the loader of specifications finds the same directory.\<close>

lemma root_above_loop:
  "\<not> exists_path (path_join dir ''go.mod'') \<Longrightarrow> root_above exists_path n dir = Some d
     \<Longrightarrow> root_loop exists_path (Suc n) dir = Some d"
proof (induction n arbitrary: dir)
  case (Suc n)
  show ?case
  proof (cases "path_dir dir = dir")
    case True
    then have "root_above exists_path m dir = None" for m
      using Suc.prems(1) by (induction m) (simp_all add: Let_def)
    from this [of "Suc n"] Suc.prems(2) show ?thesis by (simp only: option.distinct)
  next
    case False
    then show ?thesis
      using Suc by (cases "exists_path (path_join (path_dir dir) ''go.mod'')") (auto simp: Let_def)
  qed
qed simp

lemma root_loop_more: "root_loop exists_path n dir = Some d \<Longrightarrow> root_loop exists_path (n + k) dir = Some d"
  by (induction exists_path n dir rule: root_loop.induct) (auto simp: Let_def split: if_splits)

lemma package_root_is_repo_root:
  assumes "findPackageRoot (os_exists s) (Some dir) = Some d" "os_cwd s = Inr dir"
  shows "RepoRoot (fs_of s) = Inr d"
proof -
  have "root_loop (os_exists s) 4 dir = Some d"
    using assms(1) root_above_loop [of "os_exists s" dir 3 d]
    by (auto simp: findPackageRoot_def numeral_eq_Suc split: if_splits)
  from root_loop_more [OF this, of 1] show ?thesis
    using assms(2) by (simp add: RepoRoot_def fs_of_def)
qed

text \<open>The tools look at four directories, the loader at five: from the fifth it still loads a
  specification, and the tool stops at the root it cannot find.\<close>

lemma deepest_root_is_missed:
  "RepoRoot \<lparr>fs_getwd = Inr ''/a/b/c/d/e'', fs_exists = (\<lambda>p. p = ''/a/go.mod''), fs_read = (\<lambda>p. Inr [])\<rparr> = Inr ''/a''"
  "findPackageRoot (\<lambda>p. p = ''/a/go.mod'') (Some ''/a/b/c/d/e'') = None"
  by (code_simp)+

text \<open>The snapshot is loaded with any bytes of the specification, whatever hash it records.\<close>

lemma Load_any_body:
  assumes "Load fs kind = Inr (body, snap)"
  shows "\<exists>path. Load (fs\<lparr>fs_read := (fs_read fs)(path := Inr other)\<rparr>) kind = Inr (other, snap)"
proof -
  obtain d where root: "RepoRoot fs = Inr d" using assms by (auto simp: Load_def split: sum.splits)
  let ?path = "path_join d (''specs/'' @ kind_string kind @ ''.yaml'')"
  let ?fs = "fs\<lparr>fs_read := (fs_read fs)(?path := Inr other)\<rparr>"
  have root': "RepoRoot ?fs = Inr d" using root by (simp add: RepoRoot_def split: sum.splits)
  have "path_join d ''specs/SNAPSHOT.json'' \<noteq> ?path"
    by (cases kind) (simp_all add: path_join_def kind_string_def)
  then have "Load ?fs kind = Inr (other, snap)"
    using assms root root' by (auto simp: Load_def Let_def split: sum.splits option.splits prod.splits if_splits)
  then show ?thesis by blast
qed

end
