(* ===== verification/ToolMains.thy ===== *)
theory ToolMains
  imports ToolOS GenTypesFile GenWSFile GodocProps CoverageProps
begin

text \<open>
  The \<open>main\<close> functions of the four tools that \<open>go generate\<close> runs, as programs over the operating
  system: from the vendored specification, or the sources of the package, to the files they write.
  The YAML decoder, \<open>gofmt\<close> and the Go parser are arguments. What the generators warn of while they
  collect their data is left out; the messages of the \<open>main\<close> functions are there.
\<close>

section \<open>Loading a specification\<close>

datatype spec_error = LoadError load_error | YAMLError string goerror

primrec spec_error_text :: "spec_error \<Rightarrow> string" where
  "spec_error_text (LoadError e) = load_error_text e"
| "spec_error_text (YAMLError what e) = ''parse vendored '' @ what @ '' YAML: '' @ Error e"

definition using_line :: "string \<Rightarrow> string \<Rightarrow> string \<Rightarrow> string" where
  "using_line what version fetched = ''Using vendored '' @ what @ '' '' @ version @ '' (fetched '' @ fetched @ '')''"

definition types_loadSpec :: "(string \<Rightarrow> goerror + Spec) \<Rightarrow> (spec_error + Spec \<times> Snapshot) run" where
  "types_loadSpec yaml s = (case Load (fs_of s) OpenAPI of
      Inl err \<Rightarrow> return_run (Inl (LoadError err)) s
    | Inr (body, snap) \<Rightarrow> (case yaml body of
        Inl err \<Rightarrow> return_run (Inl (YAMLError ''OpenAPI'' err)) s
      | Inr spec \<Rightarrow> return_run (Inr (spec, snap)) s))"

definition ws_loadSpec :: "(string \<Rightarrow> goerror + AsyncAPISpec) \<Rightarrow> (spec_error + AsyncAPISpec \<times> Snapshot) run" where
  "ws_loadSpec yaml s = (case Load (fs_of s) AsyncAPI of
      Inl err \<Rightarrow> return_run (Inl (LoadError err)) s
    | Inr (body, snap) \<Rightarrow>
        then_run (print_line (using_line ''AsyncAPI'' (aa_InfoVersion (sn_AsyncAPI snap)) (sn_FetchedAt snap)))
          (return_run (case yaml body of
             Inl err \<Rightarrow> Inl (YAMLError ''AsyncAPI'' err)
           | Inr spec \<Rightarrow> Inr (spec, snap))) s)"

definition gd_loadSpec :: "(string \<Rightarrow> goerror + gd_paths) \<Rightarrow> (spec_error + gd_paths) run" where
  "gd_loadSpec yaml s = (case Load (fs_of s) OpenAPI of
      Inl err \<Rightarrow> return_run (Inl (LoadError err)) s
    | Inr (body, snap) \<Rightarrow>
        then_run (print_line (using_line ''OpenAPI'' (oa_Version (sn_OpenAPI snap)) (sn_FetchedAt snap)))
          (return_run (case yaml body of
             Inl err \<Rightarrow> Inl (YAMLError ''OpenAPI'' err)
           | Inr spec \<Rightarrow> Inr spec)) s)"

section \<open>generate_types\<close>

definition enums_line :: "nat \<Rightarrow> nat \<Rightarrow> string" where
  "enums_line enums objects =
     ''  Enums: '' @ Itoa (int enums) @ '' (hand-written in enums.go, guarded by TestOpenAPISchemaCoverage), Objects: ''
       @ Itoa (int objects)"

definition emit_types :: "(string \<Rightarrow> goerror + string) \<Rightarrow> Spec \<Rightarrow> Snapshot \<Rightarrow> unit run" where
  "emit_types gofmt spec snap =
     (let schemas = spec_Schemas spec in
      then_run (print_line (using_line ''OpenAPI'' (oa_Version (sn_OpenAPI snap)) (sn_FetchedAt snap)))
     (then_run (print_line (''Loaded '' @ Itoa (int (length schemas)) @ '' schemas from spec''))
     (bind_run (or_panic (categorize schemas)) (\<lambda>(enums, objects).
      then_run (print_line (enums_line (length enums) (length objects)))
     (bind_run package_root (\<lambda>outDir.
      bind_run (or_panic (buildSchemaGroups spec)) (\<lambda>groups.
      then_run (print_line (''  Grouped schemas: '' @ Itoa (int (length groups)) @ '' (remainder = Core)''))
     (bind_run (or_panic (generateObjects objects schemas groups snap)) (\<lambda>objectCode.
      then_run (writeFile gofmt outDir ''types_generated.go'' objectCode)
      (print_line ''Done!''))))))))))"

definition generate_types_main :: "(string \<Rightarrow> goerror + Spec) \<Rightarrow> (string \<Rightarrow> goerror + string) \<Rightarrow> unit run" where
  "generate_types_main yaml gofmt =
     bind_run (types_loadSpec yaml) (\<lambda>loaded. case loaded of
        Inl err \<Rightarrow> fatal (''load spec: '' @ spec_error_text err)
      | Inr (spec, snap) \<Rightarrow> emit_types gofmt spec snap)"

section \<open>generate_ws_types\<close>

text \<open>
  The two orders are those in which the runtime visits the map from message types to channels. The
  buffer is complete, or the program has crashed, before the package root is looked for.
\<close>

definition emit_ws ::
  "(string list smap \<Rightarrow> string list smap) \<Rightarrow> (string list smap \<Rightarrow> string list smap)
     \<Rightarrow> (string \<Rightarrow> goerror + string) \<Rightarrow> AsyncAPISpec \<Rightarrow> Snapshot \<Rightarrow> unit run" where
  "emit_ws ord1 ord2 gofmt spec snap =
     bind_run (or_panic (collectDataMessages ord1 spec)) (\<lambda>(dataMsgs, msgToChannels).
      then_run (print_line (''Loaded '' @ Itoa (int (length dataMsgs)) @ '' data message types from ''
        @ Itoa (int (countDataChannels spec)) @ '' channels''))
     (bind_run (or_panic (ws_file ord1 ord2 spec snap)) (\<lambda>buf.
      bind_run package_root (\<lambda>outDir.
      then_run (writeFile gofmt outDir ''ws_messages_generated.go'' buf)
      (print_line ''Done!'')))))"

definition generate_ws_main ::
  "(string list smap \<Rightarrow> string list smap) \<Rightarrow> (string list smap \<Rightarrow> string list smap)
     \<Rightarrow> (string \<Rightarrow> goerror + AsyncAPISpec) \<Rightarrow> (string \<Rightarrow> goerror + string) \<Rightarrow> unit run" where
  "generate_ws_main ord1 ord2 yaml gofmt =
     bind_run (ws_loadSpec yaml) (\<lambda>loaded. case loaded of
        Inl err \<Rightarrow> fatal (''load spec: '' @ spec_error_text err)
      | Inr (spec, snap) \<Rightarrow> emit_ws ord1 ord2 gofmt spec snap)"

section \<open>sync_godoc\<close>

text \<open>One source file: the number of comments, the error, and the file written.\<close>

definition process_file ::
  "(string \<Rightarrow> string \<Rightarrow> goerror + go_file) \<Rightarrow> (string \<Rightarrow> goerror + string) \<Rightarrow> EndpointInfo smap
     \<Rightarrow> string \<Rightarrow> string \<Rightarrow> os_state \<Rightarrow> (nat \<times> goerror option) \<times> os_state" where
  "process_file parse gofmt endpoints path name s = (case os_read s path of
      Inl err \<Rightarrow> ((0, Some err), s)
    | Inr src \<Rightarrow> (case parse name src of
        Inl err \<Rightarrow> ((0, Some err), s)
      | Inr decls \<Rightarrow>
          let rs = replacements endpoints decls; result = apply_replacements rs src in
          if rs = [] then ((0, None), s)
          else case gofmt result of
            Inl err \<Rightarrow>
              ((length rs, Some (ErrorString (''gofmt: '' @ Error err @ '' (wrote unformatted)''))), snd (os_write path result s))
          | Inr formatted \<Rightarrow> (case os_write path formatted s of
              (Some err, s') \<Rightarrow> ((0, Some err), s')
            | (None, s') \<Rightarrow> ((length rs, None), s'))))"

definition sync_entry ::
  "(string \<Rightarrow> string \<Rightarrow> goerror + go_file) \<Rightarrow> (string \<Rightarrow> goerror + string) \<Rightarrow> EndpointInfo smap
     \<Rightarrow> string \<Rightarrow> nat \<Rightarrow> dir_entry \<Rightarrow> nat run" where
  "sync_entry parse gofmt endpoints dir synced e s =
     (if \<not> wants_sync e then return_run synced s
      else case process_file parse gofmt endpoints (path_join dir (de_Name e)) (de_Name e) s of
        ((n, Some err), s') \<Rightarrow>
          then_run (warn_line (''process '' @ de_Name e @ '': '' @ Error err)) (return_run synced) s'
      | ((n, None), s') \<Rightarrow>
          if n > 0
          then then_run (print_line (''  '' @ de_Name e @ '': updated '' @ Itoa (int n) @ '' methods'')) (return_run (synced + n)) s'
          else return_run synced s')"

fun sync_entries ::
  "(string \<Rightarrow> string \<Rightarrow> goerror + go_file) \<Rightarrow> (string \<Rightarrow> goerror + string) \<Rightarrow> EndpointInfo smap
     \<Rightarrow> string \<Rightarrow> nat \<Rightarrow> dir_entry list \<Rightarrow> nat run" where
  "sync_entries parse gofmt endpoints dir synced [] = return_run synced"
| "sync_entries parse gofmt endpoints dir synced (e # es) =
     bind_run (sync_entry parse gofmt endpoints dir synced e)
       (\<lambda>synced'. sync_entries parse gofmt endpoints dir synced' es)"

definition ok_option :: "'e + 'a \<Rightarrow> 'a option" where
  "ok_option r = (case r of Inl e \<Rightarrow> None | Inr x \<Rightarrow> Some x)"

text \<open>The directory is read once more for the methods that no operation belongs to.\<close>

definition warn_unmapped :: "(string \<Rightarrow> string \<Rightarrow> goerror + go_file) \<Rightarrow> string \<Rightarrow> unit run" where
  "warn_unmapped parse dir s =
     (let unmapped = (case os_ReadDir s dir of
            Inl err \<Rightarrow> []
          | Inr entries \<Rightarrow> unmappedMethods (\<lambda>name src. ok_option (parse name src)) entries)
      in if unmapped = [] then return_run () s
         else (Inr (), s\<lparr>os_stderr := os_stderr s
           @ [[], ''WARNING: '' @ Itoa (int (length unmapped)) @ '' Client methods carry an endpoint annotation but are absent'',
              ''from methodToOperationID, so their godoc was not synced:'']
           @ map (\<lambda>m. ''  '' @ m) unmapped\<rparr>))"

definition sync_godoc_main ::
  "(string \<Rightarrow> goerror + gd_paths) \<Rightarrow> (string \<Rightarrow> string \<Rightarrow> goerror + go_file) \<Rightarrow> (string \<Rightarrow> goerror + string) \<Rightarrow> unit run" where
  "sync_godoc_main yaml parse gofmt =
     bind_run (gd_loadSpec yaml) (\<lambda>loaded. case loaded of
        Inl err \<Rightarrow> fatal (''fetch spec: '' @ spec_error_text err)
      | Inr spec \<Rightarrow>
          bind_run (or_panic (buildEndpointMap spec)) (\<lambda>endpoints.
           then_run (print_line (''Loaded '' @ Itoa (int (length endpoints)) @ '' endpoints from spec''))
          (bind_run package_root (\<lambda>dir s. case os_ReadDir s dir of
              Inl err \<Rightarrow> fatal (''read dir: '' @ Error err) s
            | Inr entries \<Rightarrow>
                bind_run (sync_entries parse gofmt endpoints dir 0 entries) (\<lambda>synced.
                 then_run (print_line (''Done! Updated '' @ Itoa (int synced) @ '' method comments.''))
                 (warn_unmapped parse dir)) s))))"

section \<open>generate_coverage\<close>

text \<open>The sources of the endpoints that do not parse, or cannot be read.\<close>

definition api_entry :: "dir_entry \<Rightarrow> bool" where
  "api_entry e \<longleftrightarrow> \<not> de_IsDir e \<and> HasSuffix (de_Name e) ''.go''
     \<and> \<not> HasSuffix (de_Name e) ''_test.go'' \<and> \<not> HasSuffix (de_Name e) ''_generated.go''
     \<and> de_Name e \<notin> set skipFiles \<and> map_of fileToCategory (de_Name e) \<noteq> None"

definition parse_failure :: "(string \<Rightarrow> string \<Rightarrow> goerror + go_file) \<Rightarrow> os_state \<Rightarrow> string \<Rightarrow> dir_entry \<Rightarrow> string list" where
  "parse_failure parse s dir e =
     (let message = (\<lambda>err. [''parse '' @ de_Name e @ '': '' @ Error err])
      in if \<not> api_entry e then []
         else case os_read s (path_join dir (de_Name e)) of
           Inl err \<Rightarrow> message err
         | Inr src \<Rightarrow> (case parse (de_Name e) src of Inl err \<Rightarrow> message err | Inr decls \<Rightarrow> []))"

definition write_coverage ::
  "(string \<Rightarrow> string \<Rightarrow> goerror + go_file) \<Rightarrow> string \<Rightarrow> dir_entry list \<Rightarrow> unit run" where
  "write_coverage parse dir entries s =
     (let parse' = (\<lambda>name src. ok_option (parse name src));
          read = (\<lambda>name. ok_option (os_read s (path_join dir name)));
          docs = path_join dir ''docs'';
          outPath = path_join docs ''API_COVERAGE.md'';
          s1 = s\<lparr>os_stderr := os_stderr s @ concat (map (parse_failure parse s dir) entries)\<rparr>
      in (case os_mkdirAll (length docs) docs s1 of
            (Some err, s2) \<Rightarrow> fatal (''mkdir: '' @ Error err) s2
          | (None, s2) \<Rightarrow> (case os_write outPath (coverage_main parse' read entries) s2 of
              (Some err, s3) \<Rightarrow> fatal (''write: '' @ Error err) s3
            | (None, s3) \<Rightarrow> print_line (''Coverage report written to docs/API_COVERAGE.md (''
                  @ Itoa (int (length (discoverAPIMethods parse' entries))) @ '' HTTP endpoints, ''
                  @ Itoa (int (length (discoverWSChannels (read ''ws_messages_generated.go'')))) @ '' WS channels)'') s3)))"

definition generate_coverage_main :: "(string \<Rightarrow> string \<Rightarrow> goerror + go_file) \<Rightarrow> unit run" where
  "generate_coverage_main parse =
     bind_run package_root (\<lambda>dir s. case os_ReadDir s dir of
        Inl err \<Rightarrow> fatal (''read dir: '' @ Error err) s
      | Inr entries \<Rightarrow> write_coverage parse dir entries s)"

section \<open>go generate\<close>

text \<open>The directives of \<open>generate.go\<close>, in their order; a program that fails is the last.\<close>

definition go_generate ::
  "(string \<Rightarrow> goerror + Spec) \<Rightarrow> (string list smap \<Rightarrow> string list smap) \<Rightarrow> (string list smap \<Rightarrow> string list smap)
     \<Rightarrow> (string \<Rightarrow> goerror + AsyncAPISpec) \<Rightarrow> (string \<Rightarrow> goerror + gd_paths)
     \<Rightarrow> (string \<Rightarrow> string \<Rightarrow> goerror + go_file) \<Rightarrow> (string \<Rightarrow> goerror + string) \<Rightarrow> unit run" where
  "go_generate yaml ord1 ord2 ws_yaml gd_yaml parse gofmt =
     then_run (generate_types_main yaml gofmt)
       (then_run (generate_ws_main ord1 ord2 ws_yaml gofmt)
         (then_run (sync_godoc_main gd_yaml parse gofmt)
           (generate_coverage_main parse)))"

end
