(* ===== verification/ToolProps.thy ===== *)
theory ToolProps
  imports ToolMains
begin

text \<open>
  What the four tools may change, alone and one after the other: each has a contract that names the
  paths, and tools with contracts have one together.
\<close>

section \<open>Paths\<close>

lemma last_path_join: "n \<noteq> [] \<Longrightarrow> last (path_join d n) = last n"
  by (simp add: path_join_def)

lemma path_join_go_mod: "path_join e ''go.mod'' \<noteq> p" if "p = [] \<or> last p \<noteq> CHR ''d''"
  using that last_path_join [of "''go.mod''" e] by (auto simp: path_join_def)

lemma path_join_inj: "path_join d m = path_join d n \<longleftrightarrow> m = n"
  by (simp add: path_join_def)

lemma path_dir_join: "d \<noteq> [] \<Longrightarrow> CHR ''/'' \<notin> set n \<Longrightarrow> path_dir (path_join d n) = d"
proof -
  assume d: "d \<noteq> []" and n: "CHR ''/'' \<notin> set n"
  have "dropWhile (\<lambda>c. c \<noteq> CHR ''/'') (rev n @ CHR ''/'' # xs) = CHR ''/'' # xs" for xs
    using n by (simp add: dropWhile_append)
  with d show ?thesis
    by (auto simp: path_dir_def path_join_def Let_def)
qed

lemma path_dir_nonempty: "path_dir p \<noteq> []"
proof -
  define d where "d = rev (dropWhile (\<lambda>c. c \<noteq> CHR ''/'') (rev p))"
  have "d \<noteq> [] \<Longrightarrow> last d = CHR ''/''"
    using hd_dropWhile [where P = "\<lambda>c. c \<noteq> CHR ''/''"] by (fastforce simp: d_def last_rev)
  then show ?thesis
    by (cases d rule: rev_cases) (auto simp: path_dir_def Let_def d_def [symmetric])
qed

lemma path_base_join: "CHR ''/'' \<notin> set n \<Longrightarrow> path_base (path_join d n) = n"
  by (auto simp: path_base_def path_join_def takeWhile_append)

section \<open>The root\<close>

definition root_of :: "os_state \<Rightarrow> string option" where
  "root_of s = (case os_cwd s of Inl err \<Rightarrow> None | Inr dir \<Rightarrow> findPackageRoot (os_exists s) (Some dir))"

lemma package_root_root_of: "package_root s = (Inr d, s') \<longleftrightarrow> root_of s = Some d \<and> s' = s"
  and package_root_keeps: "package_root s = (r, s') \<Longrightarrow> os_same s s'"
  by (auto simp: package_root_def root_of_def fatal_def os_same_def split: sum.splits option.splits)

lemma root_above_nonempty: "root_above exists_path n dir = Some d \<Longrightarrow> d \<noteq> []"
  by (induction n arbitrary: dir) (auto simp: Let_def path_dir_nonempty split: if_splits)

lemma root_nonempty: "os_cwd s \<noteq> Inr [] \<Longrightarrow> root_of s = Some d \<Longrightarrow> d \<noteq> []"
  by (auto simp: root_of_def findPackageRoot_def root_above_nonempty split: sum.splits if_splits)

lemma root_of_cong:
  "os_world s = os_world t \<Longrightarrow> (\<And>e. os_node s (path_join e ''go.mod'') = os_node t (path_join e ''go.mod''))
     \<Longrightarrow> root_of s = root_of t"
proof -
  assume "os_world s = os_world t" and e: "\<And>e. os_node s (path_join e ''go.mod'') = os_node t (path_join e ''go.mod'')"
  then have "findPackageRoot (os_exists s) w = findPackageRoot (os_exists t) w" for w
    by (intro fs_of_cong(2)) (auto simp: os_exists_def)
  then show ?thesis using os_worldD [OF \<open>os_world s = os_world t\<close>] by (simp add: root_of_def split: sum.split)
qed

section \<open>Programs that keep what they must not touch\<close>

text \<open>The state \<open>t\<close> differs from \<open>s\<close> only at paths in \<open>W\<close>, and in what has been printed.\<close>

definition touches :: "(string \<Rightarrow> bool) \<Rightarrow> os_state \<Rightarrow> os_state \<Rightarrow> bool" where
  "touches W s t \<longleftrightarrow> os_world t = os_world s \<and> (\<forall>p. \<not> W p \<longrightarrow> os_node t p = os_node s p)"

definition safe :: "(string \<Rightarrow> bool) \<Rightarrow> os_state \<Rightarrow> 'a run \<Rightarrow> bool" where
  "safe W s0 m \<longleftrightarrow> (\<forall>s. touches W s0 s \<longrightarrow> touches W s0 (snd (m s)))"

named_theorems safe_rules

lemma touches_refl [simp]: "touches W s s"
  by (simp add: touches_def)

lemma touches_lines [simp]:
  "touches W s (t\<lparr>os_stdout := l\<rparr>) = touches W s t" "touches W s (t\<lparr>os_stderr := l\<rparr>) = touches W s t"
  by (simp_all add: touches_def)

lemma touches_write: "touches W s t \<Longrightarrow> W p \<Longrightarrow> touches W s (snd (os_write p c t))"
  using os_write_frame [of p c t] by (cases "os_write p c t") (fastforce simp: touches_def)

lemma safe_basic [safe_rules]:
  "safe W s0 (return_run x)" "safe W s0 (print_line l)" "safe W s0 (warn_line l)" "safe W s0 (fatal l)" "safe W s0 (or_panic y)"
  by (simp_all add: safe_def return_run_def print_line_def warn_line_def fatal_def or_panic_def split: option.split)

lemma safe_bind [safe_rules]: "safe W s0 m \<Longrightarrow> (\<And>x. safe W s0 (f x)) \<Longrightarrow> safe W s0 (bind_run m f)"
  unfolding safe_def bind_run_def by (fastforce split: prod.split sum.split)

lemma safe_then [safe_rules]: "safe W s0 m \<Longrightarrow> safe W s0 n \<Longrightarrow> safe W s0 (then_run m n)"
  by (simp add: then_run_def safe_bind)

lemma safe_sum [safe_rules]:
  "(\<And>x. safe W s0 (f x)) \<Longrightarrow> (\<And>y. safe W s0 (g y)) \<Longrightarrow> safe W s0 (case r of Inl x \<Rightarrow> f x | Inr y \<Rightarrow> g y)"
  by (simp split: sum.split)

lemma safe_prod [safe_rules]: "(\<And>x y. safe W s0 (f x y)) \<Longrightarrow> safe W s0 (case r of (x, y) \<Rightarrow> f x y)"
  by (simp split: prod.split)

lemma safe_writeFile: "W (path_join d n) \<Longrightarrow> safe W s0 (writeFile gofmt d n c)"
  unfolding safe_def
proof (intro allI impI)
  fix s assume W: "W (path_join d n)" and s: "touches W s0 s"
  have "touches W s0 (snd (os_write (path_join d n) t s))" for t
    using s W by (rule touches_write)
  then show "touches W s0 (snd (writeFile gofmt d n c s))"
    by (auto simp: writeFile_def Let_def warn_line_def print_line_def fatal_def split: sum.split prod.split option.split)
      (metis snd_conv)+
qed


lemma touches_root: "touches W s t \<Longrightarrow> (\<And>e. \<not> W (path_join e ''go.mod'')) \<Longrightarrow> root_of t = root_of s"
  by (rule root_of_cong) (auto simp: touches_def)

lemma safe_root:
  assumes "\<And>e. \<not> W (path_join e ''go.mod'')" and "\<And>d. root_of s0 = Some d \<Longrightarrow> safe W s0 (f d)"
  shows "safe W s0 (bind_run package_root f)"
  unfolding safe_def
proof (intro allI impI)
  fix s assume s: "touches W s0 s"
  then have root: "root_of s = root_of s0"
    using assms(1) by (rule touches_root)
  show "touches W s0 (snd (bind_run package_root f s))"
  proof (cases "package_root s")
    case (Pair r t)
    then have st: "touches W s0 t" using s package_root_keeps [OF Pair] by (simp add: touches_def os_same_def)
    show ?thesis
    proof (cases r)
      case (Inr d)
      with Pair root have "root_of s0 = Some d" by (simp add: package_root_root_of)
      with assms(2) st Pair Inr show ?thesis by (simp add: bind_run_def safe_def)
    qed (use Pair st in \<open>simp add: bind_run_def\<close>)
  qed
qed

section \<open>A tool and the files it may change\<close>

text \<open>
  The contract of a tool that is run somewhere in the package: it finds the root, and whatever
  becomes of it, it has changed only paths that its contract names for that root. Two tools with
  such contracts have one together.
\<close>

locale os_tool =
  fixes tool :: "unit run"
    and may :: "string \<Rightarrow> string \<Rightarrow> bool"
  assumes frame: "os_cwd s \<noteq> Inr [] \<Longrightarrow> touches (\<lambda>p. \<exists>d. root_of s = Some d \<and> may d p) s (snd (tool s))"
    and spares_root: "\<not> may d (path_join e ''go.mod'')"
begin

lemma root_kept: "os_cwd s \<noteq> Inr [] \<Longrightarrow> root_of (snd (tool s)) = root_of s"
  by (rule touches_root [OF frame]) (simp_all add: spares_root)

lemma world_kept: "os_cwd s \<noteq> Inr [] \<Longrightarrow> os_world (snd (tool s)) = os_world s"
  using frame [of s] by (simp add: touches_def)

end

locale two_tools = first: os_tool tool may + second: os_tool tool' may' for tool may tool' may'
begin

lemma in_sequence: "os_tool (then_run tool tool') (\<lambda>d p. may d p \<or> may' d p)"
proof (unfold_locales)
  fix s :: os_state assume abs: "os_cwd s \<noteq> Inr []"
  let ?W = "\<lambda>p. \<exists>d. root_of s = Some d \<and> (may d p \<or> may' d p)"
  obtain r t where t: "tool s = (r, t)" by (cases "tool s")
  have cwd: "os_cwd t = os_cwd s" using os_worldD [OF first.world_kept [OF abs]] t by simp
  have one: "touches ?W s t" using first.frame [OF abs] t by (auto simp: touches_def)
  show "touches ?W s (snd (then_run tool tool' s))"
  proof (cases r)
    case (Inl a)
    with t one show ?thesis by (simp add: then_run_def bind_run_def)
  next
    case (Inr u)
    have root: "root_of t = root_of s" using first.root_kept [OF abs] t by simp
    have "touches (\<lambda>p. \<exists>d. root_of s = Some d \<and> may' d p) t (snd (tool' t))"
      using second.frame [of t] cwd abs unfolding root by simp
    with one have "touches ?W s (snd (tool' t))" by (auto simp: touches_def)
    with t Inr show ?thesis by (simp add: then_run_def bind_run_def)
  qed
qed (simp add: first.spares_root second.spares_root)

end

section \<open>The four tools\<close>

definition types_path :: "string \<Rightarrow> string \<Rightarrow> bool" where
  "types_path d p \<longleftrightarrow> p = path_join d ''types_generated.go''"

definition ws_path :: "string \<Rightarrow> string \<Rightarrow> bool" where
  "ws_path d p \<longleftrightarrow> p = path_join d ''ws_messages_generated.go''"

text \<open>A source of the package itself: neither a test nor generated, and directly in its directory.\<close>

definition source_path :: "string \<Rightarrow> string \<Rightarrow> bool" where
  "source_path d p \<longleftrightarrow> (\<exists>name. p = path_join d name \<and> CHR ''/'' \<notin> set name \<and> HasSuffix name ''.go''
     \<and> \<not> HasSuffix name ''_test.go'' \<and> \<not> HasSuffix name ''_generated.go'')"

definition coverage_path :: "string \<Rightarrow> string \<Rightarrow> bool" where
  "coverage_path d p \<longleftrightarrow> p = path_join d ''docs'' \<or> p = path_join (path_join d ''docs'') ''API_COVERAGE.md''"

lemma go_mod_neq: "last n \<noteq> CHR ''d'' \<Longrightarrow> n \<noteq> [] \<Longrightarrow> path_join e ''go.mod'' \<noteq> path_join d n"
  using last_path_join [of "''go.mod''" e] last_path_join [of n d] by auto

lemma suffix_last: "HasSuffix s suf \<Longrightarrow> suf \<noteq> [] \<Longrightarrow> s \<noteq> [] \<and> last s = last suf"
  by (auto simp: HasSuffix_iff)

lemma spared:
  "\<not> types_path d (path_join e ''go.mod'')" "\<not> ws_path d (path_join e ''go.mod'')"
  "\<not> source_path d (path_join e ''go.mod'')"
  using go_mod_neq suffix_last [of _ "''.go''"] by (fastforce simp: types_path_def ws_path_def source_path_def)+

lemma types_tool: "os_tool (generate_types_main yaml gofmt) types_path"
proof (unfold_locales)
  fix s :: os_state assume "os_cwd s \<noteq> Inr []"
  let ?W = "\<lambda>p. \<exists>d. root_of s = Some d \<and> types_path d p"
  have load: "safe ?W s (types_loadSpec yaml)"
    by (auto simp: safe_def types_loadSpec_def return_run_def split: sum.split)
  have "safe ?W s (generate_types_main yaml gofmt)"
    unfolding generate_types_main_def emit_types_def Let_def
    by (intro safe_root safe_rules load safe_writeFile) (use spared in \<open>auto simp: types_path_def\<close>)
  then show "touches ?W s (snd (generate_types_main yaml gofmt s))" by (simp add: safe_def)
qed (rule spared)

lemma ws_tool: "os_tool (generate_ws_main ord1 ord2 yaml gofmt) ws_path"
proof (unfold_locales)
  fix s :: os_state assume "os_cwd s \<noteq> Inr []"
  let ?W = "\<lambda>p. \<exists>d. root_of s = Some d \<and> ws_path d p"
  have load: "safe ?W s (ws_loadSpec yaml)"
    by (auto simp: safe_def ws_loadSpec_def return_run_def then_run_def bind_run_def print_line_def split: sum.split)
  have "safe ?W s (generate_ws_main ord1 ord2 yaml gofmt)"
    unfolding generate_ws_main_def emit_ws_def
    by (intro safe_root safe_rules load safe_writeFile) (use spared in \<open>auto simp: ws_path_def\<close>)
  then show "touches ?W s (snd (generate_ws_main ord1 ord2 yaml gofmt s))" by (simp add: safe_def)
qed (rule spared)

text \<open>The programs that look at the state before they go on.\<close>

lemma safe_look:
  assumes "\<And>e. safe W s0 (f e)" and "\<And>s x. g s = Inr x \<Longrightarrow> safe W s0 (h x)"
  shows "safe W s0 (\<lambda>s. case g s of Inl e \<Rightarrow> f e s | Inr x \<Rightarrow> h x s)"
  using assms by (auto simp: safe_def split: sum.split)

lemma safe_entry:
  assumes "wants_sync e \<Longrightarrow> W (path_join d (de_Name e))"
  shows "safe W s0 (sync_entry parse gofmt endpoints d n e)"
  unfolding safe_def
proof (intro allI impI)
  fix s assume s: "touches W s0 s"
  show "touches W s0 (snd (sync_entry parse gofmt endpoints d n e s))"
  proof (cases "wants_sync e")
    case True
    let ?r = "process_file parse gofmt endpoints (path_join d (de_Name e)) (de_Name e) s"
    have "touches W s0 (snd (os_write (path_join d (de_Name e)) t s))" for t
      using s assms [OF True] by (rule touches_write)
    then have "touches W s0 (snd ?r)"
      using s by (auto simp: process_file_def Let_def split: sum.split prod.split option.split) (metis snd_conv)+
    with True show ?thesis
      by (cases ?r) (auto simp: sync_entry_def then_run_def bind_run_def print_line_def warn_line_def return_run_def
          split: option.split)
  qed (simp add: sync_entry_def return_run_def s)
qed

lemma safe_entries: "(\<And>e. e \<in> set es \<Longrightarrow> wants_sync e \<Longrightarrow> W (path_join d (de_Name e))) \<Longrightarrow>
    safe W s0 (sync_entries parse gofmt endpoints d n es)"
  by (induction es arbitrary: n) (simp_all add: safe_rules safe_entry)

text \<open>The entries of a directory are called by what follows the last slash.\<close>

lemma path_base_no_slash: "CHR ''/'' \<notin> set (path_base p)"
  by (auto simp: path_base_def dest: set_takeWhileD)

lemma ReadDir_names: "os_ReadDir s d = Inr es \<Longrightarrow> e \<in> set es \<Longrightarrow> CHR ''/'' \<notin> set (de_Name e)"
  using path_base_no_slash by (auto simp: os_ReadDir_def Let_def split: if_splits)

lemma sync_tool: "os_tool (sync_godoc_main yaml parse gofmt) source_path"
proof (unfold_locales)
  fix s :: os_state assume "os_cwd s \<noteq> Inr []"
  let ?W = "\<lambda>p. \<exists>d. root_of s = Some d \<and> source_path d p"
  have load: "safe ?W s (gd_loadSpec yaml)"
    by (auto simp: safe_def gd_loadSpec_def return_run_def then_run_def bind_run_def print_line_def split: sum.split)
  have unmapped: "safe ?W s (warn_unmapped parse d)" for d
    by (simp add: safe_def warn_unmapped_def Let_def return_run_def)
  have "safe ?W s (sync_godoc_main yaml parse gofmt)"
    unfolding sync_godoc_main_def
    by (intro safe_root safe_rules load safe_look safe_entries unmapped)
      (use spared in \<open>auto simp: source_path_def wants_sync_def dest: ReadDir_names\<close>)
  then show "touches ?W s (snd (sync_godoc_main yaml parse gofmt s))" by (simp add: safe_def)
qed (rule spared)

text \<open>The directory of the report has the package root above it, which exists.\<close>

lemma mkdirAll_one:
  assumes "os_node s (path_dir p) = Some None" "os_mkdirAll n p s = (e, t)"
  shows "t = s \<or> t = os_put p None s"
proof -
  have "os_mkdirAll m (path_dir p) s = (None, s)" for m
    using assms(1) by (cases m) simp_all
  then show ?thesis
    using assms(2) by (cases n) (auto split: option.splits prod.splits)
qed

lemma touches_mkdir:
  assumes "touches W s t" "W p" "os_node t (path_dir p) = Some None" "os_mkdirAll n p t = (e, t')"
  shows "touches W s t'"
  using mkdirAll_one [OF assms(3,4)] assms(1,2) by (auto simp: touches_def)

lemma ReadDir_directory: "os_ReadDir s d = Inr es \<Longrightarrow> os_node s d = Some None"
  by (simp add: os_ReadDir_def split: if_splits)

lemma touches_coverage:
  assumes s: "touches W s0 s" and dir: "os_node s (path_dir (path_join d ''docs'')) = Some None"
    and W: "W (path_join d ''docs'')" "W (path_join (path_join d ''docs'') ''API_COVERAGE.md'')"
  shows "touches W s0 (snd (write_coverage parse d entries s))"
proof -
  let ?docs = "path_join d ''docs''"
  let ?s1 = "s\<lparr>os_stderr := os_stderr s @ concat (map (parse_failure parse s d) entries)\<rparr>"
  obtain e s2 where mk: "os_mkdirAll (length ?docs) ?docs ?s1 = (e, s2)" by fastforce
  have "touches W s0 s2"
    using mk by (rule touches_mkdir [where W = W, rotated 3]) (use s dir W(1) in simp_all)
  then have "touches W s0 (snd (os_write (path_join ?docs ''API_COVERAGE.md'') c s2))" for c
    using W(2) by (rule touches_write)
  with \<open>touches W s0 s2\<close> show ?thesis
    unfolding write_coverage_def Let_def mk
    by (auto simp: fatal_def print_line_def split: option.split prod.split) (metis snd_conv)+
qed

lemma coverage_tool: "os_tool (generate_coverage_main parse) coverage_path"
proof (unfold_locales)
  show spare: "\<not> coverage_path d (path_join e ''go.mod'')" for d e
    using path_base_join [of "''go.mod''" e] path_base_join [of "''docs''" d]
      path_base_join [of "''API_COVERAGE.md''" "path_join d ''docs''"] by (auto simp: coverage_path_def)
  fix s :: os_state assume abs: "os_cwd s \<noteq> Inr []"
  let ?W = "\<lambda>p. \<exists>d. root_of s = Some d \<and> coverage_path d p"
  have "safe ?W s (generate_coverage_main parse)"
    unfolding generate_coverage_main_def
  proof (rule safe_root)
    fix d assume root: "root_of s = Some d"
    then have "path_dir (path_join d ''docs'') = d"
      using root_nonempty [OF abs root] by (simp add: path_dir_join)
    then show "safe ?W s (\<lambda>s. case os_ReadDir s d of Inl err \<Rightarrow> fatal (''read dir: '' @ Error err) s
        | Inr entries \<Rightarrow> write_coverage parse d entries s)"
      using root by (auto simp: safe_def fatal_def coverage_path_def dest: ReadDir_directory intro!: touches_coverage
          split: sum.split)
  qed (simp add: spare)
  then show "touches ?W s (snd (generate_coverage_main parse s))" by (simp add: safe_def)
qed

section \<open>One after the other\<close>

interpretation last_two: two_tools "sync_godoc_main yaml parse gofmt" source_path "generate_coverage_main parse" coverage_path
  for yaml parse gofmt
  by (rule two_tools.intro [OF sync_tool coverage_tool])

interpretation last_three: two_tools "generate_ws_main ord1 ord2 ws_yaml gofmt" ws_path
    "then_run (sync_godoc_main gd_yaml parse gofmt) (generate_coverage_main parse)"
    "\<lambda>d p. source_path d p \<or> coverage_path d p"
  for ord1 ord2 ws_yaml gd_yaml parse gofmt
  by (rule two_tools.intro [OF ws_tool last_two.in_sequence])

interpretation all_four: two_tools "generate_types_main yaml gofmt" types_path
    "then_run (generate_ws_main ord1 ord2 ws_yaml gofmt)
       (then_run (sync_godoc_main gd_yaml parse gofmt) (generate_coverage_main parse))"
    "\<lambda>d p. ws_path d p \<or> source_path d p \<or> coverage_path d p"
  for yaml ord1 ord2 ws_yaml gd_yaml parse gofmt
  by (rule two_tools.intro [OF types_tool last_three.in_sequence])

lemma generate_tool:
  "os_tool (go_generate yaml ord1 ord2 ws_yaml gd_yaml parse gofmt)
     (\<lambda>d p. types_path d p \<or> ws_path d p \<or> source_path d p \<or> coverage_path d p)"
  unfolding go_generate_def by (rule all_four.in_sequence)

interpretation generate: os_tool "go_generate yaml ord1 ord2 ws_yaml gd_yaml parse gofmt"
    "\<lambda>d p. types_path d p \<or> ws_path d p \<or> source_path d p \<or> coverage_path d p"
  for yaml ord1 ord2 ws_yaml gd_yaml parse gofmt
  by (rule generate_tool)

end
