(* ===== verification/Regenerate.thy ===== *)
theory Regenerate
  imports ToolProps GenWSSame
begin

text \<open>
  What the two generators promise: the file is the formatted text that the specification determines,
  at its place under the package root, and generating again changes nothing. The promise is an
  abstract generator that the two programs refine.
\<close>

section \<open>The abstract generator\<close>

text \<open>
  Whether it succeeds, and the files afterwards. A text that \<open>gofmt\<close> refuses is written as it is,
  and counts as success even if it could not be written.
\<close>

definition written_text :: "(string \<Rightarrow> goerror + string) \<Rightarrow> string \<Rightarrow> string" where
  "written_text gofmt content = (case gofmt content of Inl err \<Rightarrow> content | Inr formatted \<Rightarrow> formatted)"

definition counts_as_written :: "(string \<Rightarrow> goerror + string) \<Rightarrow> string \<Rightarrow> goerror option \<Rightarrow> bool" where
  "counts_as_written gofmt content e = (case gofmt content of Inl err \<Rightarrow> True | Inr formatted \<Rightarrow> e = None)"

definition generate ::
  "Kind \<Rightarrow> string \<Rightarrow> (string \<Rightarrow> Snapshot \<Rightarrow> string option) \<Rightarrow> (string \<Rightarrow> goerror + string) \<Rightarrow> os_state
     \<Rightarrow> bool \<times> (string \<Rightarrow> string option option)" where
  "generate kind name produce gofmt s = (case Load (fs_of s) kind of
      Inl err \<Rightarrow> (False, os_node s)
    | Inr (body, snap) \<Rightarrow> (case (produce body snap, root_of s) of
        (Some content, Some d) \<Rightarrow> (case os_write (path_join d name) (written_text gofmt content) s of
            (e, s') \<Rightarrow> (counts_as_written gofmt content e, os_node s'))
      | _ \<Rightarrow> (False, os_node s)))"

definition outcome :: "unit run \<Rightarrow> os_state \<Rightarrow> bool \<times> (string \<Rightarrow> string option option)" where
  "outcome tool s = (case tool s of (r, s') \<Rightarrow> (r = Inr (), os_node s'))"

text \<open>What determines the outcome: the specification files, and nothing that is called \<open>.go\<close>.\<close>

definition same_inputs :: "os_state \<Rightarrow> os_state \<Rightarrow> bool" where
  "same_inputs s t \<longleftrightarrow> os_world s = os_world t \<and> (\<forall>p. p \<noteq> [] \<and> last p \<noteq> CHR ''o'' \<longrightarrow> os_node s p = os_node t p)"

lemma same_inputs_root:
  assumes "same_inputs s t"
  shows "root_of s = root_of t" and "RepoRoot (fs_of s) = RepoRoot (fs_of t)"
proof -
  have "os_node s (path_join e ''go.mod'') = os_node t (path_join e ''go.mod'')" for e
    using assms last_path_join [of "''go.mod''" e] by (simp add: same_inputs_def path_join_def)
  moreover have "os_world s = os_world t" using assms by (simp add: same_inputs_def)
  ultimately show "root_of s = root_of t" "RepoRoot (fs_of s) = RepoRoot (fs_of t)"
    by (auto intro!: root_of_cong fs_of_cong(1) simp: os_exists_def)
qed

lemma same_inputs_read: "same_inputs s t \<Longrightarrow> n \<noteq> [] \<Longrightarrow> last n \<noteq> CHR ''o'' \<Longrightarrow>
    fs_read (fs_of s) (path_join d n) = fs_read (fs_of t) (path_join d n)"
  using last_path_join [of n d] os_worldD [of s t]
  by (simp add: same_inputs_def fs_of_def os_read_def path_join_def split: option.split)

lemma same_inputs_Load: "same_inputs s t \<Longrightarrow> Load (fs_of s) kind = Load (fs_of t) kind"
proof -
  assume s: "same_inputs s t"
  have "fs_read (fs_of s) (path_join d ''specs/SNAPSHOT.json'') = fs_read (fs_of t) (path_join d ''specs/SNAPSHOT.json'')"
    "fs_read (fs_of s) (path_join d (''specs/'' @ kind_string kind @ ''.yaml''))
      = fs_read (fs_of t) (path_join d (''specs/'' @ kind_string kind @ ''.yaml''))" for d
    by (rule same_inputs_read [OF s]; simp)+
  then show ?thesis unfolding Load_def Let_def same_inputs_root(2) [OF s] by presburger
qed

section \<open>Writing once more\<close>

text \<open>A path is settled for a text when writing it there changes no file.\<close>

definition settled :: "string \<Rightarrow> string \<Rightarrow> goerror option \<Rightarrow> os_state \<Rightarrow> bool" where
  "settled p c e s \<longleftrightarrow> fst (os_write p c s) = e \<and> os_node (snd (os_write p c s)) = os_node s"

lemma settled_written: "settled p c (fst (os_write p c s)) (snd (os_write p c s))"
  using os_write_again [of p c s] by (simp add: settled_def os_same_def)

lemma os_put_noop: "os_node s p = Some c \<Longrightarrow> os_node (os_put p c s) = os_node s"
  by auto

lemma settled_cong:
  assumes "os_world s = os_world t" "os_node s p = os_node t p"
    "os_node s (path_dir p) = Some None \<longleftrightarrow> os_node t (path_dir p) = Some None" "settled p c e s"
  shows "settled p c e t"
proof -
  have r: "os_refuses t p = os_refuses s p" using assms(1) by (simp add: os_world_def)
  have put: "os_node (os_put p x s) = os_node s \<longleftrightarrow> os_node (os_put p x t) = os_node t" for x
    using assms(2) by (auto simp: fun_eq_iff)
  show ?thesis
    using assms(2-4) by (auto simp: settled_def os_write_def os_overwrite_def r put split: option.splits if_splits)
qed

lemma os_write_dirs: "os_node (snd (os_write p c s)) q = Some None \<longleftrightarrow> os_node s q = Some None"
  by (auto simp: os_write_def os_overwrite_def split: option.splits if_splits)

lemma generate_frame:
  assumes "generate kind name produce gofmt s = (b, n)"
  shows "(\<And>d. root_of s = Some d \<Longrightarrow> p \<noteq> path_join d name) \<Longrightarrow> n p = os_node s p"
    and "n q = Some None \<longleftrightarrow> os_node s q = Some None"
  using assms os_write_dirs [of _ _ s q]
  by (auto simp: generate_def dest: os_write_frame split: sum.splits prod.splits option.splits) (metis snd_conv)+

lemma generate_again:
  assumes ok: "generate kind name produce gofmt s = (True, n)"
    and t: "same_inputs s t" "\<And>d. root_of s = Some d \<Longrightarrow> os_node t (path_join d name) = n (path_join d name)"
      "\<And>q. os_node t q = Some None \<longleftrightarrow> os_node s q = Some None"
  shows "generate kind name produce gofmt t = (True, os_node t)"
proof -
  obtain body snap content d where
    load: "Load (fs_of s) kind = Inr (body, snap)" and content: "produce body snap = Some content" and root: "root_of s = Some d"
    using ok by (auto simp: generate_def split: sum.splits option.splits)
  let ?p = "path_join d name"
  let ?c = "written_text gofmt content"
  obtain e s1 where w: "os_write ?p ?c s = (e, s1)" by fastforce
  have e: "counts_as_written gofmt content e" and n: "n = os_node s1"
    using ok load content root w by (auto simp: generate_def)
  have "settled ?p ?c e s1" using settled_written [of ?p ?c s] w by simp
  moreover have "os_world s1 = os_world s" using os_write_frame [OF w] by simp
  moreover have "os_node s1 q = Some None \<longleftrightarrow> os_node s q = Some None" for q
    using os_write_dirs [of ?p ?c s q] w by simp
  ultimately have "settled ?p ?c e t"
    using t root n by (intro settled_cong [of s1 t]) (auto simp: same_inputs_def)
  then show ?thesis
    using load content root e same_inputs_Load [OF t(1)] same_inputs_root(1) [OF t(1)]
    by (auto simp: generate_def settled_def split: prod.split)
qed

section \<open>The contract of a generator\<close>

locale generator =
  fixes tool :: "unit run"
    and kind :: Kind
    and name :: string
    and produce :: "string \<Rightarrow> Snapshot \<Rightarrow> string option"
    and gofmt :: "string \<Rightarrow> goerror + string"
  assumes refines: "outcome tool s = generate kind name produce gofmt s"
    and keeps_world: "os_world (snd (tool s)) = os_world s"
    and go_file_name: "name \<noteq> [] \<and> last name = CHR ''o''"
begin

lemma nodes: "generate kind name produce gofmt s = (fst (tool s) = Inr (), os_node (snd (tool s)))"
  by (simp add: refines [symmetric] outcome_def split: prod.split)

lemma inputs_kept: "same_inputs s (snd (tool s))"
  unfolding same_inputs_def keeps_world
proof (intro conjI refl allI impI)
  fix p :: string assume "p \<noteq> [] \<and> last p \<noteq> CHR ''o''"
  then have "p \<noteq> path_join d name" for d using last_path_join [of name d] go_file_name by auto
  then show "os_node s p = os_node (snd (tool s)) p" using generate_frame(1) [OF nodes, of s p] by simp
qed

lemma directories_kept: "os_node (snd (tool s)) q = Some None \<longleftrightarrow> os_node s q = Some None"
  using generate_frame(2) [OF nodes] .

end

sublocale generator \<subseteq> os_tool tool "\<lambda>d p. p = path_join d name"
proof
  show "touches (\<lambda>p. \<exists>d. root_of s = Some d \<and> p = path_join d name) s (snd (tool s))" for s
    using generate_frame(1) [OF nodes] keeps_world by (auto simp: touches_def)
  show "path_join e ''go.mod'' \<noteq> path_join d name" for d e
    using go_mod_neq [of name e d] go_file_name by simp
qed

text \<open>Two generators, one after the other, and then once more.\<close>

locale two_generators =
  first: generator tool kind name produce gofmt + second: generator tool' kind' name' produce' gofmt'
  for tool kind name produce gofmt tool' kind' name' produce' gofmt' +
  assumes different: "name \<noteq> name'"
begin

lemma inputs_stable:
  assumes "then_run tool tool' s = (Inr (), t)"
  shows "same_inputs s t"
proof -
  obtain s1 where one: "tool s = (Inr (), s1)" and two: "tool' s1 = (Inr (), t)"
    using assms by (auto simp: then_run_def bind_run_def split: prod.splits sum.splits)
  then show ?thesis
    using first.inputs_kept [of s] second.inputs_kept [of s1] by (simp add: same_inputs_def)
qed

lemma stable:
  assumes "then_run tool tool' s = (Inr (), t)"
  shows "generate kind name produce gofmt t = (True, os_node t)"
    and "generate kind' name' produce' gofmt' t = (True, os_node t)"
proof -
  obtain s1 where one: "tool s = (Inr (), s1)" and two: "tool' s1 = (Inr (), t)"
    using assms by (auto simp: then_run_def bind_run_def split: prod.splits sum.splits)
  have g1: "generate kind name produce gofmt s = (True, os_node s1)" using first.nodes [of s] one by simp
  have g2: "generate kind' name' produce' gofmt' s1 = (True, os_node t)" using second.nodes [of s1] two by simp
  have in1: "same_inputs s s1" and in2: "same_inputs s1 t"
    using first.inputs_kept [of s] second.inputs_kept [of s1] one two by simp_all
  have dirs1: "os_node s1 q = Some None \<longleftrightarrow> os_node s q = Some None" for q using first.directories_kept [of s q] one by simp
  have dirs2: "os_node t q = Some None \<longleftrightarrow> os_node s1 q = Some None" for q using second.directories_kept [of s1 q] two by simp
  show "generate kind' name' produce' gofmt' t = (True, os_node t)"
    by (rule generate_again [OF g2 in2]) (simp_all add: dirs2)
  show "generate kind name produce gofmt t = (True, os_node t)"
  proof (rule generate_again [OF g1])
    show "same_inputs s t" using in1 in2 by (simp add: same_inputs_def)
    show "os_node t (path_join d name) = os_node s1 (path_join d name)" if "root_of s = Some d" for d
    proof (rule generate_frame(1) [OF g2])
      fix d' assume "root_of s1 = Some d'"
      then show "path_join d name \<noteq> path_join d' name'"
        using that same_inputs_root(1) [OF in1] different by (simp add: path_join_inj)
    qed
    show "os_node t q = Some None \<longleftrightarrow> os_node s q = Some None" for q by (simp add: dirs1 dirs2)
  qed
qed

end

section \<open>The two generators of the repository\<close>

definition types_text :: "(string \<Rightarrow> goerror + Spec) \<Rightarrow> string \<Rightarrow> Snapshot \<Rightarrow> string option" where
  "types_text yaml body snap = (case yaml body of Inl err \<Rightarrow> None | Inr spec \<Rightarrow> types_file spec snap)"

definition ws_text ::
  "(string list smap \<Rightarrow> string list smap) \<Rightarrow> (string list smap \<Rightarrow> string list smap) \<Rightarrow> (string \<Rightarrow> goerror + AsyncAPISpec)
     \<Rightarrow> string \<Rightarrow> Snapshot \<Rightarrow> string option" where
  "ws_text ord1 ord2 yaml body snap = (case yaml body of Inl err \<Rightarrow> None | Inr spec \<Rightarrow> ws_file ord1 ord2 spec snap)"

text \<open>What is printed on the way does not matter.\<close>

lemma quiet_root: "root_of (s\<lparr>os_stdout := l\<rparr>) = root_of s"
  by (rule root_of_cong) simp_all

lemma root_step: "bind_run package_root f s = (case root_of s of Some d \<Rightarrow> f d s | None \<Rightarrow> (Inl (OsExit 1), snd (package_root s)))"
  by (auto simp: bind_run_def package_root_def root_of_def fatal_def split: sum.split option.split)

lemma outcome_write:
  assumes "os_same s t"
  shows "outcome (then_run (writeFile gofmt d n content) (print_line l)) t
       = (case os_write (path_join d n) (written_text gofmt content) s of (e, s') \<Rightarrow> (counts_as_written gofmt content e, os_node s'))"
    and "os_world (snd (then_run (writeFile gofmt d n content) (print_line l) t)) = os_world s"
proof -
  let ?p = "path_join d n"
  let ?c = "written_text gofmt content"
  obtain e s' where s: "os_write ?p ?c s = (e, s')" by fastforce
  obtain e' t' where t: "os_write ?p ?c t = (e', t')" by fastforce
  have same: "e' = e" "os_same s' t'" using os_write_same [OF assms, of ?p ?c] s t by simp_all
  have world: "os_world t' = os_world s" using os_write_frame [OF t] assms by (simp add: os_same_def)
  show "outcome (then_run (writeFile gofmt d n content) (print_line l)) t
       = (case os_write ?p ?c s of (e, s') \<Rightarrow> (counts_as_written gofmt content e, os_node s'))"
    using t same unfolding s
    by (auto simp: outcome_def then_run_def bind_run_def writeFile_def Let_def written_text_def counts_as_written_def
        warn_line_def print_line_def fatal_def os_same_def split: sum.splits option.splits)
  show "os_world (snd (then_run (writeFile gofmt d n content) (print_line l) t)) = os_world s"
    using t world
    by (auto simp: then_run_def bind_run_def writeFile_def Let_def written_text_def
        warn_line_def print_line_def fatal_def split: sum.splits option.splits)
qed

lemma print_step: "then_run (print_line l) m s = m (s\<lparr>os_stdout := os_stdout s @ [l]\<rparr>)"
  by (simp add: then_run_def bind_run_def print_line_def)

lemma panic_step: "bind_run (or_panic x) f s = (case x of None \<Rightarrow> (Inl Panic, s) | Some a \<Rightarrow> f a s)"
  by (simp add: bind_run_def or_panic_def split: option.split)

lemma quiet: "os_same s (s\<lparr>os_stdout := l\<rparr>)" "os_same s t \<Longrightarrow> os_same s (t\<lparr>os_stdout := l\<rparr>)"
  by (simp_all add: os_same_def)

lemma failed_root: "os_node (snd (package_root s)) = os_node s" "os_world (snd (package_root s)) = os_world s"
  using package_root_keeps [of s] by (cases "package_root s"; simp add: os_same_def)+

lemmas run_steps = print_step panic_step root_step quiet_root

lemma outcome_steps:
  "outcome (then_run (print_line l) m) s = outcome m (s\<lparr>os_stdout := os_stdout s @ [l]\<rparr>)"
  "outcome (bind_run (or_panic x) f) s = (case x of None \<Rightarrow> (False, os_node s) | Some a \<Rightarrow> outcome (f a) s)"
  "outcome (bind_run package_root g) s = (case root_of s of None \<Rightarrow> (False, os_node s) | Some d \<Rightarrow> outcome (g d) s)"
  by (simp_all add: outcome_def run_steps failed_root split: option.split prod.split)

lemma world_steps:
  "os_world (snd (then_run (print_line l) m s)) = os_world (snd (m (s\<lparr>os_stdout := os_stdout s @ [l]\<rparr>)))"
  "os_world (snd (bind_run (or_panic x) f s)) = (case x of None \<Rightarrow> os_world s | Some a \<Rightarrow> os_world (snd (f a s)))"
  "os_world (snd (bind_run package_root g s)) = (case root_of s of None \<Rightarrow> os_world s | Some d \<Rightarrow> os_world (snd (g d s)))"
  by (simp_all add: run_steps failed_root split: option.split)

lemma emit_types_outcome:
  "outcome (emit_types gofmt spec snap) s =
     (case (types_file spec snap, root_of s) of
        (Some content, Some d) \<Rightarrow> (case os_write (path_join d ''types_generated.go'') (written_text gofmt content) s of
          (e, s') \<Rightarrow> (counts_as_written gofmt content e, os_node s'))
      | _ \<Rightarrow> (False, os_node s))"
  and emit_types_world: "os_world (snd (emit_types gofmt spec snap s)) = os_world s"
  using outcome_write [OF quiet(1) [of s]]
  by (cases "categorize (spec_Schemas spec)"; cases "root_of s"; cases "buildSchemaGroups spec";
      cases "generateObjects (snd (the (categorize (spec_Schemas spec)))) (spec_Schemas spec) (the (buildSchemaGroups spec)) snap";
      simp add: emit_types_def Let_def outcome_steps world_steps quiet_root types_file_def case_prod_beta)+

lemma emit_ws_outcome:
  "outcome (emit_ws ord1 ord2 gofmt spec snap) s =
     (case (ws_file ord1 ord2 spec snap, root_of s) of
        (Some content, Some d) \<Rightarrow> (case os_write (path_join d ''ws_messages_generated.go'') (written_text gofmt content) s of
          (e, s') \<Rightarrow> (counts_as_written gofmt content e, os_node s'))
      | _ \<Rightarrow> (False, os_node s))"
  and emit_ws_world: "os_world (snd (emit_ws ord1 ord2 gofmt spec snap s)) = os_world s"
proof -
  have none: "collectDataMessages ord1 spec = None \<Longrightarrow> ws_file ord1 ord2 spec snap = None" by (simp add: ws_file_def)
  show "outcome (emit_ws ord1 ord2 gofmt spec snap) s =
     (case (ws_file ord1 ord2 spec snap, root_of s) of
        (Some content, Some d) \<Rightarrow> (case os_write (path_join d ''ws_messages_generated.go'') (written_text gofmt content) s of
          (e, s') \<Rightarrow> (counts_as_written gofmt content e, os_node s'))
      | _ \<Rightarrow> (False, os_node s))"
    and "os_world (snd (emit_ws ord1 ord2 gofmt spec snap s)) = os_world s"
    using outcome_write [OF quiet(1) [of s]] none
    by (cases "collectDataMessages ord1 spec"; cases "ws_file ord1 ord2 spec snap"; cases "root_of s";
        simp add: emit_ws_def outcome_steps world_steps quiet_root case_prod_beta)+
qed

lemma types_generator:
  "generator (generate_types_main yaml gofmt) OpenAPI ''types_generated.go'' (types_text yaml) gofmt"
proof
  show "outcome (generate_types_main yaml gofmt) s = generate OpenAPI ''types_generated.go'' (types_text yaml) gofmt s" for s
  proof (cases "Load (fs_of s) OpenAPI")
    case (Inr r)
    obtain body snap where r: "r = (body, snap)" by (cases r) simp
    show ?thesis
      using emit_types_outcome [unfolded outcome_def]
      by (cases "yaml body"; cases "types_file (projr (yaml body)) snap"; cases "root_of s")
        (simp_all add: generate_types_main_def bind_run_def types_loadSpec_def return_run_def fatal_def outcome_def
          generate_def types_text_def Inr r)
  qed (simp add: generate_types_main_def bind_run_def types_loadSpec_def return_run_def fatal_def outcome_def generate_def)
  show "os_world (snd (generate_types_main yaml gofmt s)) = os_world s" for s
    by (simp add: generate_types_main_def bind_run_def types_loadSpec_def return_run_def fatal_def emit_types_world
        split: sum.split prod.split)
qed simp

lemma ws_generator:
  "generator (generate_ws_main ord1 ord2 yaml gofmt) AsyncAPI ''ws_messages_generated.go'' (ws_text ord1 ord2 yaml) gofmt"
proof
  show "outcome (generate_ws_main ord1 ord2 yaml gofmt) s
      = generate AsyncAPI ''ws_messages_generated.go'' (ws_text ord1 ord2 yaml) gofmt s" for s
  proof (cases "Load (fs_of s) AsyncAPI")
    case (Inr r)
    obtain body snap where r: "r = (body, snap)" by (cases r) simp
    define t where "t = snd (print_line (using_line ''AsyncAPI'' (aa_InfoVersion (sn_AsyncAPI snap)) (sn_FetchedAt snap)) s)"
    have same: "os_same s t" "root_of t = root_of s" "os_node t = os_node s"
      by (simp_all add: t_def print_line_def quiet quiet_root)
    have loaded: "ws_loadSpec yaml s =
        (Inr (case yaml body of Inl err \<Rightarrow> Inl (YAMLError ''AsyncAPI'' err) | Inr spec \<Rightarrow> Inr (spec, snap)), t)"
      by (simp add: ws_loadSpec_def Inr r then_run_def bind_run_def print_line_def return_run_def t_def)
    have obs: "(case os_write p c t of (e, s') \<Rightarrow> (f e, os_node s')) = (case os_write p c s of (e, s') \<Rightarrow> (f e, os_node s'))"
      for p c and f :: "goerror option \<Rightarrow> bool"
      using os_write_same [OF same(1), of p c] by (auto simp: os_same_def split: prod.split)
    show ?thesis
      using emit_ws_outcome [of ord1 ord2 gofmt _ snap t, unfolded outcome_def] obs
      by (cases "yaml body"; cases "ws_file ord1 ord2 (projr (yaml body)) snap"; cases "root_of s")
        (simp_all add: generate_ws_main_def bind_run_def loaded fatal_def outcome_def generate_def ws_text_def Inr r same)
  qed (simp add: generate_ws_main_def bind_run_def ws_loadSpec_def return_run_def fatal_def outcome_def generate_def)
  show "os_world (snd (generate_ws_main ord1 ord2 yaml gofmt s)) = os_world s" for s
    by (simp add: generate_ws_main_def bind_run_def ws_loadSpec_def then_run_def print_line_def return_run_def fatal_def
        emit_ws_world split: sum.split prod.split)
qed simp

interpretation types: generator "generate_types_main yaml gofmt" OpenAPI "''types_generated.go''" "types_text yaml" gofmt
  for yaml gofmt
  by (rule types_generator)

interpretation ws: generator "generate_ws_main ord1 ord2 yaml gofmt" AsyncAPI "''ws_messages_generated.go''"
    "ws_text ord1 ord2 yaml" gofmt
  for ord1 ord2 yaml gofmt
  by (rule ws_generator)

interpretation both: two_generators "generate_types_main yaml gofmt" OpenAPI "''types_generated.go''" "types_text yaml" gofmt
    "generate_ws_main ord1 ord2 ws_yaml gofmt" AsyncAPI "''ws_messages_generated.go''" "ws_text ord1 ord2 ws_yaml" gofmt
  for yaml ord1 ord2 ws_yaml gofmt
  by (intro two_generators.intro two_generators_axioms.intro types_generator ws_generator) simp

lemma generate_same: "os_same s t \<Longrightarrow> generate kind name produce gofmt s = generate kind name produce gofmt t"
proof -
  assume st: "os_same s t"
  then have inp: "same_inputs s t" by (simp add: os_same_def same_inputs_def)
  have obs: "(case os_write p c s of (e, s') \<Rightarrow> (f e, os_node s')) = (case os_write p c t of (e, s') \<Rightarrow> (f e, os_node s'))"
    for p c and f :: "goerror option \<Rightarrow> bool"
    using os_write_same [OF st, of p c] by (auto simp: os_same_def split: prod.split)
  have nodes: "os_node s = os_node t" using st by (simp add: os_same_def)
  show ?thesis
    unfolding generate_def same_inputs_Load [OF inp] same_inputs_root(1) [OF inp] obs nodes ..
qed

section \<open>Properties\<close>

text \<open>C37: each generator is the abstract one: it succeeds exactly when the specification loads, decodes
  and determines a text, there is a package root, and the formatted text can be written below it, or
  \<open>gofmt\<close> refuses the text; the one file it changes is then that text, and no file changes otherwise
  but one whose writing failed.\<close>

theorem generators_refine:
  "outcome (generate_types_main yaml gofmt) s = generate OpenAPI ''types_generated.go'' (types_text yaml) gofmt s
   \<and> outcome (generate_ws_main ord1 ord2 ws_yaml gofmt) s
     = generate AsyncAPI ''ws_messages_generated.go'' (ws_text ord1 ord2 ws_yaml) gofmt s"
  using types.refines ws.refines by blast

text \<open>
  The same WebSocket specification up to the order of all its maps, whose messages have bodies and
  Go names of their own.
\<close>

definition same_ws_spec :: "AsyncAPISpec \<Rightarrow> AsyncAPISpec \<Rightarrow> bool" where
  "same_ws_spec a b \<longleftrightarrow> same_async a b \<and> own_names a"

lemma generate_cong:
  assumes "\<And>body snap. Load (fs_of s) kind = Inr (body, snap) \<Longrightarrow> produce' body snap = produce body snap"
  shows "generate kind name produce' gofmt s = generate kind name produce gofmt s"
  using assms by (auto simp: generate_def split: sum.split)

lemma same_types_text:
  "rel_sum (\<lambda>_ _. True) same_spec (yaml body) (yaml' body) \<Longrightarrow> types_text yaml' body snap = types_text yaml body snap"
  by (cases "yaml body"; cases "yaml' body") (simp_all add: types_text_def same_types_file)

lemma same_ws_text:
  assumes "rel_sum (\<lambda>_ _. True) same_ws_spec (yaml body) (yaml' body)"
    and "\<And>e. mset (ord1 e) = mset e" "\<And>e. mset (ord2 e) = mset e"
    and "\<And>e. mset (ord1' e) = mset e" "\<And>e. mset (ord2' e) = mset e"
  shows "ws_text ord1' ord2' yaml' body snap = ws_text ord1 ord2 yaml body snap"
proof (cases "yaml body"; cases "yaml' body")
  fix a b assume ab: "yaml body = Inr a" "yaml' body = Inr b"
  then have "same_ws_spec a b" using assms(1) by simp
  then have "ws_file ord1' ord2' b snap = ws_file ord1 ord2 a snap"
    unfolding same_ws_spec_def using assms(2-) by (intro ws_file_same) auto
  then show ?thesis using ab by (simp add: ws_text_def)
qed (use assms(1) in \<open>simp_all add: ws_text_def\<close>)

text \<open>C38: once the two generators have succeeded, running them again succeeds and leaves every file as
  it is, whatever the order in which the second run visits the maps of the two specifications, nested
  properties included, and its own. The decoder may hand out the same contents with its maps in another
  order; that it does is asked of the two specifications that were loaded, not of other texts. Of the
  loaded WebSocket specification it is also asked, as for its text to be determined at all, that messages
  that share a name have the same body and that different message types get different Go names
  (\<open>own_names\<close>).\<close>

theorem regeneration_reproducible:
  assumes yaml: "\<And>body snap. Load (fs_of s) OpenAPI = Inr (body, snap)
      \<Longrightarrow> rel_sum (\<lambda>_ _. True) same_spec (yaml body) (yaml' body)"
    and ws: "\<And>body snap. Load (fs_of s) AsyncAPI = Inr (body, snap)
      \<Longrightarrow> rel_sum (\<lambda>_ _. True) same_ws_spec (ws_yaml body) (ws_yaml' body)"
    and orders: "\<And>e. mset (ord1 e) = mset e" "\<And>e. mset (ord2 e) = mset e"
      "\<And>e. mset (ord1' e) = mset e" "\<And>e. mset (ord2' e) = mset e"
    and run: "then_run (generate_types_main yaml gofmt) (generate_ws_main ord1 ord2 ws_yaml gofmt) s = (Inr (), t)"
  shows "\<exists>t'. then_run (generate_types_main yaml' gofmt) (generate_ws_main ord1' ord2' ws_yaml' gofmt) t = (Inr (), t')
    \<and> os_node t' = os_node t"
proof -
  have load: "Load (fs_of t) kind = Load (fs_of s) kind" for kind
    using same_inputs_Load [OF both.inputs_stable [OF run]] by simp
  have types_same: "generate OpenAPI n (types_text yaml') gofmt t = generate OpenAPI n (types_text yaml) gofmt t" for n
    by (rule generate_cong, rule same_types_text, rule yaml) (simp add: load)
  have ws_same: "generate AsyncAPI n (ws_text ord1' ord2' ws_yaml') gofmt t
      = generate AsyncAPI n (ws_text ord1 ord2 ws_yaml) gofmt t" for n
    by (rule generate_cong, rule same_ws_text [OF ws orders]) (simp add: load)
  note stable = both.stable [OF run, folded types_same ws_same]
  obtain r1 t1 where one: "generate_types_main yaml' gofmt t = (r1, t1)" by fastforce
  have t1: "r1 = Inr ()" "os_same t t1"
    using stable(1) types.nodes [of yaml' gofmt t] types.keeps_world [of yaml' gofmt t] one by (simp_all add: os_same_def)
  obtain r2 t2 where two: "generate_ws_main ord1' ord2' ws_yaml' gofmt t1 = (r2, t2)" by fastforce
  have "r2 = Inr ()" "os_node t2 = os_node t"
    using stable(2) ws.nodes [of ord1' ord2' ws_yaml' gofmt t1] two unfolding generate_same [OF t1(2)] by simp_all
  with one two t1(1) show ?thesis by (simp add: then_run_def bind_run_def)
qed

text \<open>A package in \<open>/r\<close> with its specifications.\<close>

definition demo_os :: os_state where
  "demo_os = \<lparr>os_cwd = Inr ''/r/tools'',
     os_nodes = [(''/r'', None), (''/r/go.mod'', Some []), (''/r/specs/openapi.yaml'', Some []),
       (''/r/specs/asyncapi.yaml'', Some []), (''/r/specs/SNAPSHOT.json'', Some ''{}''), (''/r/auth_test.go'', Some [])],
     os_unreadable = (\<lambda>p. None), os_refuses = (\<lambda>p. None), os_stdout = [], os_stderr = []\<rparr>"

lemma generate_ok:
  assumes "Load (fs_of s) kind = Inr (body, snap)" "produce body snap \<noteq> None" "root_of s = Some d"
    and "os_node s (path_dir (path_join d name)) = Some None" "os_node s (path_join d name) \<noteq> Some None"
    and "os_refuses s (path_join d name) = None"
  shows "fst (generate kind name produce gofmt s)"
proof -
  have "os_write (path_join d name) c s = (None, os_put (path_join d name) (Some c) s)" for c
    using assms(4-6) by (auto simp: os_write_def os_overwrite_def split: option.split)
  then show ?thesis
    using assms(1-3) by (auto simp: generate_def counts_as_written_def split: sum.split)
qed

lemma demo_os_facts:
  "Load (fs_of demo_os) OpenAPI = Inr ([], zero_Snapshot)" "Load (fs_of demo_os) AsyncAPI = Inr ([], zero_Snapshot)"
  "root_of demo_os = Some ''/r''" "os_node demo_os ''/r'' = Some None"
  "os_node demo_os ''/r/types_generated.go'' = None" "os_node demo_os ''/r/ws_messages_generated.go'' = None"
  by code_simp+

lemma demo_texts: "types_file (two_schemas False) zero_Snapshot \<noteq> None" "ws_file id id (demo_ws_spec False) zero_Snapshot \<noteq> None"
  by (code_simp, rule demo_ws_text)

lemma demo_paths: "path_join ''/r'' n = ''/r/'' @ n" "path_dir ''/r/types_generated.go'' = ''/r''"
  "path_dir ''/r/ws_messages_generated.go'' = ''/r''"
  by (simp_all add: path_join_def path_dir_def)

lemma demo_os_runs:
  "\<exists>t. then_run (generate_types_main (\<lambda>b. Inr (two_schemas False)) Inr)
     (generate_ws_main id id (\<lambda>b. Inr (demo_ws_spec False)) Inr) demo_os = (Inr (), t)"
proof -
  let ?types = "generate_types_main (\<lambda>b. Inr (two_schemas False)) Inr"
  let ?ws = "generate_ws_main id id (\<lambda>b. Inr (demo_ws_spec False)) Inr"
  obtain r s1 where one: "?types demo_os = (r, s1)" by fastforce
  have "fst (generate OpenAPI ''types_generated.go'' (types_text (\<lambda>b. Inr (two_schemas False))) Inr demo_os)"
    by (rule generate_ok [OF demo_os_facts(1) _ demo_os_facts(3)])
      (use demo_texts in \<open>simp_all add: types_text_def demo_paths demo_os_facts\<close>, simp add: demo_os_def)
  then have r: "r = Inr ()" using types.nodes [of "\<lambda>b. Inr (two_schemas False)" Inr demo_os] one by simp
  have inp: "same_inputs demo_os s1" using types.inputs_kept [of demo_os "\<lambda>b. Inr (two_schemas False)" Inr] one by simp
  have dirs: "os_node s1 q = Some None \<longleftrightarrow> os_node demo_os q = Some None" for q
    using types.directories_kept [of "\<lambda>b. Inr (two_schemas False)" Inr demo_os q] one by simp
  have "os_refuses s1 = os_refuses demo_os" using inp by (simp add: same_inputs_def os_world_def)
  then have refuses: "os_refuses s1 p = None" for p by (simp add: demo_os_def)
  have "fst (generate AsyncAPI ''ws_messages_generated.go'' (ws_text id id (\<lambda>b. Inr (demo_ws_spec False))) Inr s1)"
    by (rule generate_ok [OF demo_os_facts(2) [unfolded same_inputs_Load [OF inp]] _ demo_os_facts(3) [unfolded same_inputs_root(1) [OF inp]]])
      (use demo_texts in \<open>simp_all add: ws_text_def demo_paths dirs demo_os_facts refuses\<close>)
  then have "fst (?ws s1) = Inr ()"
    using ws.nodes [of id id "\<lambda>b. Inr (demo_ws_spec False)" Inr s1] by simp
  then show ?thesis
    using one r by (cases "?ws s1") (simp add: then_run_def bind_run_def)
qed

lemma demo_ws_same: "same_ws_spec (demo_ws_spec False) (demo_ws_spec True)"
  by (simp add: same_ws_spec_def own_names_def demo_ws_same_async demo_one_payload demo_names)

lemma regeneration_reproducible_witness:
  "\<exists>t t'. then_run (generate_types_main (\<lambda>b. Inr (two_schemas False)) Inr)
       (generate_ws_main id id (\<lambda>b. Inr (demo_ws_spec False)) Inr) demo_os = (Inr (), t)
     \<and> then_run (generate_types_main (\<lambda>b. Inr (two_schemas True)) Inr)
       (generate_ws_main rev rev (\<lambda>b. Inr (demo_ws_spec True)) Inr) t = (Inr (), t') \<and> os_node t' = os_node t"
proof -
  obtain t where run: "then_run (generate_types_main (\<lambda>b. Inr (two_schemas False)) Inr)
      (generate_ws_main id id (\<lambda>b. Inr (demo_ws_spec False)) Inr) demo_os = (Inr (), t)"
    using demo_os_runs by blast
  have "\<exists>t'. then_run (generate_types_main (\<lambda>b. Inr (two_schemas True)) Inr)
       (generate_ws_main rev rev (\<lambda>b. Inr (demo_ws_spec True)) Inr) t = (Inr (), t') \<and> os_node t' = os_node t"
    by (rule regeneration_reproducible [OF _ _ _ _ _ _ run]) (simp_all add: two_schemas_same demo_ws_same)
  with run show ?thesis by blast
qed

text \<open>C36: whatever \<open>go generate\<close> does, and wherever it stops, it changes no file but \<open>types_generated.go\<close>,
  \<open>ws_messages_generated.go\<close> and \<open>docs/API_COVERAGE.md\<close> below the package root, and the sources directly
  in it (their names have no slash) that are neither tests nor generated; without a package root it
  changes no file at all. The working directory is a path, not the empty string.\<close>

theorem go_generate_frame:
  assumes "os_cwd s \<noteq> Inr []"
    and "go_generate yaml ord1 ord2 ws_yaml gd_yaml parse gofmt s = (r, t)"
    and "\<And>d. root_of s = Some d \<Longrightarrow>
      \<not> types_path d p \<and> \<not> ws_path d p \<and> \<not> source_path d p \<and> \<not> coverage_path d p"
  shows "os_node t p = os_node s p \<and> root_of t = root_of s \<and> os_cwd t = os_cwd s"
proof -
  let ?W = "\<lambda>p. \<exists>d. root_of s = Some d \<and> (types_path d p \<or> ws_path d p \<or> source_path d p \<or> coverage_path d p)"
  have t: "t = snd (go_generate yaml ord1 ord2 ws_yaml gd_yaml parse gofmt s)" by (simp add: assms(2))
  have "touches ?W s t" unfolding t by (rule generate.frame [OF assms(1)])
  moreover have "root_of t = root_of s" unfolding t by (rule generate.root_kept [OF assms(1)])
  moreover have "\<not> ?W p" using assms(3) by blast
  ultimately show ?thesis by (simp add: touches_def os_world_def)
qed

lemma test_file_not_source: "\<not> source_path ''/r'' ''/r/auth_test.go''"
  by (auto simp: source_path_def demo_paths HasSuffix_def HasPrefix_def)

lemma go_generate_frame_witness:
  "\<exists>r t. go_generate (\<lambda>b. Inr (two_schemas False)) id id (\<lambda>b. Inr (demo_ws_spec False)) (\<lambda>b. Inr []) (\<lambda>n src. Inr [])
      Inr demo_os = (r, t) \<and> os_node t ''/r/auth_test.go'' = Some (Some [])"
proof -
  obtain r t where run: "go_generate (\<lambda>b. Inr (two_schemas False)) id id (\<lambda>b. Inr (demo_ws_spec False)) (\<lambda>b. Inr [])
      (\<lambda>n src. Inr []) Inr demo_os = (r, t)" by fastforce
  have "os_node t ''/r/auth_test.go'' = os_node demo_os ''/r/auth_test.go'' \<and> root_of t = root_of demo_os \<and> os_cwd t = os_cwd demo_os"
    by (rule go_generate_frame [OF _ run])
      (simp_all add: demo_os_def [THEN arg_cong [where f = os_cwd]] demo_os_facts types_path_def ws_path_def coverage_path_def demo_paths test_file_not_source path_join_def)
  then show ?thesis using run by (simp add: os_node_def demo_os_def)
qed

text \<open>A text that \<open>gofmt\<close> refuses and that cannot be written is lost, and the program still succeeds.\<close>

lemma unformatted_write_lost:
  assumes "gofmt content = Inl err" "os_node s (path_join d n) = Some (Some old)" "os_refuses s (path_join d n) = Some (e, None)"
  shows "fst (writeFile gofmt d n content s) = Inr () \<and> os_node (snd (writeFile gofmt d n content s)) = os_node s"
  using assms by (simp add: writeFile_def warn_line_def os_write_def os_overwrite_def)

end
