(* ===== verification/SyncRun.thy ===== *)
theory SyncRun
  imports ToolProps
begin

text \<open>
  \<open>sync_godoc\<close> as a program: what it leaves in the package is what the functions on file contents
  say, file by file, so that their properties are properties of the run.
\<close>

section \<open>One file\<close>

definition writable_in :: "os_state \<Rightarrow> string \<Rightarrow> string \<Rightarrow> bool" where
  "writable_in s d name \<longleftrightarrow> os_refuses s (path_join d name) = None"

text \<open>
  The files after an attempt to write \<open>w\<close> over an existing file: the new text, or whatever a
  refused write leaves, which may be the old contents or a part of the new.
\<close>

definition attempt_at ::
  "os_state \<Rightarrow> string \<Rightarrow> string option \<Rightarrow> (string \<Rightarrow> string option option) \<Rightarrow> string \<Rightarrow> string option option" where
  "attempt_at s p w f = (case w of
      None \<Rightarrow> f
    | Some c \<Rightarrow> (case os_refuses s p of
        None \<Rightarrow> f(p \<mapsto> Some c)
      | Some (e, None) \<Rightarrow> f
      | Some (e, Some left) \<Rightarrow> f(p \<mapsto> Some left)))"

lemma attempt_other: "q \<noteq> p \<Longrightarrow> attempt_at s p w f q = f q"
  by (simp add: attempt_at_def split: option.split prod.split)

lemma os_node_put: "os_node (os_put p c s) = (os_node s)(p \<mapsto> c)"
  by (simp add: fun_eq_iff)

lemma write_existing:
  assumes "os_read s p = Inr c0" "os_write p c s = (e, t)"
  shows "(e = None \<longleftrightarrow> os_refuses s p = None) \<and> os_node t = attempt_at s p (Some c) (os_node s)
    \<and> os_world t = os_world s"
  using assms by (auto simp: os_read_def os_write_def os_overwrite_def attempt_at_def os_node_put split: option.splits)

text \<open>The text that is attempted does not depend on whether it can be written.\<close>

lemma process_file_pure:
  fixes parse :: "string \<Rightarrow> string \<Rightarrow> goerror + go_file" and gofmt :: "string \<Rightarrow> goerror + string"
    and endpoints name src
  assumes "process_file parse gofmt endpoints (path_join d name) name s = ((n, e), t)"
    and "src = ok_option (os_read s (path_join d name))"
  defines "F \<equiv> \<lambda>writable. processFile (Option.bind src (\<lambda>c. ok_option (parse name c))) src (\<lambda>c. ok_option (gofmt c)) writable endpoints"
  shows "fst (F (writable_in s d name)) = (n, e \<noteq> None)"
    and "os_node t = attempt_at s (path_join d name) (snd (F True)) (os_node s)" and "os_world t = os_world s"
proof -
  let ?p = "path_join d name"
  have "fst (F (writable_in s d name)) = (n, e \<noteq> None)
      \<and> os_node t = attempt_at s ?p (snd (F True)) (os_node s) \<and> os_world t = os_world s"
  proof (cases "os_read s ?p")
    case (Inr c)
    note wr = write_existing [OF Inr]
    show ?thesis
    proof (cases "parse name c")
      case (Inl err)
      with Inr assms(1,2) show ?thesis
        by (auto simp: process_file_def F_def processFile_def ok_option_def attempt_at_def)
    next
      case decls: (Inr decls)
      let ?rs = "replacements endpoints decls"
      let ?out = "apply_replacements ?rs c"
      let ?text = "case gofmt ?out of Inl err \<Rightarrow> ?out | Inr formatted \<Rightarrow> formatted"
      obtain e' t' where w: "os_write ?p ?text s = (e', t')" by fastforce
      show ?thesis
        using assms(1,2) Inr decls w wr [OF w]
        by (cases "?rs = []"; cases "gofmt ?out"; cases e')
          (auto simp: process_file_def F_def processFile_def ok_option_def writable_in_def attempt_at_def Let_def)
    qed
  qed (use assms(1,2) in \<open>auto simp: process_file_def F_def processFile_def ok_option_def attempt_at_def\<close>)
  then show "fst (F (writable_in s d name)) = (n, e \<noteq> None)"
    "os_node t = attempt_at s ?p (snd (F True)) (os_node s)" "os_world t = os_world s" by blast+
qed

section \<open>All files\<close>

definition all_attempted ::
  "os_state \<Rightarrow> string \<Rightarrow> (string \<times> string option) list \<Rightarrow> (string \<Rightarrow> string option option) \<Rightarrow> string \<Rightarrow> string option option" where
  "all_attempted s d = fold (\<lambda>(name, w). attempt_at s (path_join d name) w)"

lemma all_attempted_cong:
  assumes "os_refuses t = os_refuses s"
  shows "all_attempted t d = all_attempted s d"
  unfolding all_attempted_def attempt_at_def [abs_def] assms ..

lemma sync_main_Cons:
  "sync_main P G wr endpoints (e # es) =
     (let rest = sync_main P G wr endpoints es in
      if \<not> wants_sync e then rest
      else case processFile (Option.bind (de_Source e) (P (de_Name e))) (de_Source e) G (wr (de_Name e)) endpoints of
        ((k, err), w) \<Rightarrow> ((de_Name e, w) # fst rest, (if err then 0 else k) + snd rest))"
  by (simp add: sync_main_def Let_def split: prod.split)

lemma os_read_cong: "os_world s = os_world t \<Longrightarrow> os_node s p = os_node t p \<Longrightarrow> os_read s p = os_read t p"
  by (simp add: os_read_def os_world_def split: option.split)

lemma sync_entry_pure:
  fixes parse :: "string \<Rightarrow> string \<Rightarrow> goerror + go_file" and gofmt :: "string \<Rightarrow> goerror + string" and endpoints
  assumes "de_Source e = ok_option (os_read s (path_join d (de_Name e)))" "wants_sync e"
  defines "F \<equiv> \<lambda>writable. processFile (Option.bind (de_Source e) (\<lambda>c. ok_option (parse (de_Name e) c))) (de_Source e)
      (\<lambda>c. ok_option (gofmt c)) writable endpoints"
  assumes "fst (F (writable_in s d (de_Name e))) = (k, err)"
  shows "\<exists>t. sync_entry parse gofmt endpoints d n e s = (Inr (n + (if err then 0 else k)), t)
    \<and> os_node t = attempt_at s (path_join d (de_Name e)) (snd (F True)) (os_node s) \<and> os_world t = os_world s"
proof -
  obtain k' e' t where p: "process_file parse gofmt endpoints (path_join d (de_Name e)) (de_Name e) s = ((k', e'), t)"
    by (metis prod.exhaust)
  note pure = process_file_pure [OF p assms(1)]
  have "k' = k" "err \<longleftrightarrow> e' \<noteq> None" using pure(1) assms(4) unfolding F_def by auto
  with p assms(2) pure(2,3) show ?thesis
    unfolding F_def by (cases e') (auto simp: sync_entry_def then_run_def bind_run_def print_line_def warn_line_def return_run_def)
qed

lemma sync_entries_pure:
  fixes parse :: "string \<Rightarrow> string \<Rightarrow> goerror + go_file" and gofmt :: "string \<Rightarrow> goerror + string" and endpoints
  assumes "distinct (map de_Name es)"
    and "\<forall>e \<in> set es. de_Source e = ok_option (os_read s (path_join d (de_Name e)))"
  defines "run \<equiv> \<lambda>writable. sync_main (\<lambda>name c. ok_option (parse name c)) (\<lambda>c. ok_option (gofmt c)) writable endpoints"
  shows "\<exists>t. sync_entries parse gofmt endpoints d n es s = (Inr (n + snd (run (writable_in s d) es)), t)
    \<and> os_node t = all_attempted s d (fst (run (\<lambda>name. True) es)) (os_node s) \<and> os_world t = os_world s"
  using assms(1,2)
proof (induction es arbitrary: n s)
  case Nil
  then show ?case by (auto simp: run_def sync_main_def return_run_def all_attempted_def)
next
  case (Cons e es)
  let ?F = "\<lambda>writable. processFile (Option.bind (de_Source e) (\<lambda>c. ok_option (parse (de_Name e) c))) (de_Source e)
      (\<lambda>c. ok_option (gofmt c)) writable endpoints"
  show ?case
  proof (cases "wants_sync e")
    case False
    then have "sync_entry parse gofmt endpoints d n e s = (Inr n, s)" by (simp add: sync_entry_def return_run_def)
    then show ?thesis using Cons.IH [of s n] Cons.prems False by (simp add: bind_run_def run_def sync_main_Cons)
  next
    case True
    obtain k err where one: "fst (?F (writable_in s d (de_Name e))) = (k, err)" by fastforce
    have src: "de_Source e = ok_option (os_read s (path_join d (de_Name e)))" using Cons.prems(2) by simp
    let ?f = "attempt_at s (path_join d (de_Name e)) (snd (?F True)) (os_node s)"
    from sync_entry_pure [where parse = parse and gofmt = gofmt, OF src True one, of n] obtain t where
      t: "sync_entry parse gofmt endpoints d n e s = (Inr (n + (if err then 0 else k)), t)" "os_node t = ?f"
        "os_world t = os_world s" by blast
    have refuse: "os_refuses t = os_refuses s" using os_worldD [OF t(3)] by simp
    have reads: "os_read t (path_join d (de_Name e')) = os_read s (path_join d (de_Name e'))" if "e' \<in> set es" for e'
    proof (rule os_read_cong [OF t(3)])
      have "de_Name e' \<noteq> de_Name e" using imageI [OF that, of de_Name] Cons.prems(1) by auto
      then have "path_join d (de_Name e') \<noteq> path_join d (de_Name e)" by (simp add: path_join_inj)
      then show "os_node t (path_join d (de_Name e')) = os_node s (path_join d (de_Name e'))"
        unfolding t(2) by (rule attempt_other)
    qed
    have "writable_in t d = writable_in s d" by (simp add: writable_in_def [abs_def] refuse)
    with Cons.IH [of t "n + (if err then 0 else k)"] Cons.prems reads obtain u where
      u: "sync_entries parse gofmt endpoints d (n + (if err then 0 else k)) es t
        = (Inr (n + (if err then 0 else k) + snd (run (writable_in s d) es)), u)"
        "os_node u = all_attempted s d (fst (run (\<lambda>name. True) es)) ?f" "os_world u = os_world s"
      using t(2,3) by (auto simp: all_attempted_cong [OF refuse])
    have count: "snd (run (writable_in s d) (e # es)) = (if err then 0 else k) + snd (run (writable_in s d) es)"
      using one True by (cases "?F (writable_in s d (de_Name e))") (simp add: run_def sync_main_Cons Let_def)
    have texts: "fst (run (\<lambda>name. True) (e # es)) = (de_Name e, snd (?F True)) # fst (run (\<lambda>name. True) es)"
      using True by (cases "?F True") (auto simp: run_def sync_main_Cons Let_def)
    show ?thesis unfolding count texts using t(1) u by (simp add: bind_run_def all_attempted_def add.assoc)
  qed
qed

section \<open>The run\<close>

lemma ReadDir_entries:
  assumes "os_ReadDir s d = Inr entries"
  shows "distinct (map de_Name entries)"
    and "\<forall>e \<in> set entries. de_Source e = ok_option (os_read s (path_join d (de_Name e)))"
  using assms by (auto simp: os_ReadDir_def ok_option_def comp_def Let_def split: if_splits sum.splits)

lemma ReadDir_quiet: "os_ReadDir (s\<lparr>os_stdout := l\<rparr>) d = os_ReadDir s d"
  by (simp add: os_ReadDir_def os_read_def Let_def cong: option.case_cong)

lemma warn_unmapped_quiet: "\<exists>l. warn_unmapped parse d s = (Inr (), s\<lparr>os_stderr := l\<rparr>)"
proof (cases "warn_unmapped parse d s = (Inr (), s)")
  case True
  then have "warn_unmapped parse d s = (Inr (), s\<lparr>os_stderr := os_stderr s\<rparr>)" by simp
  then show ?thesis by blast
qed (auto simp: warn_unmapped_def Let_def return_run_def)

text \<open>C39: run where the specification loads and decodes and the package can be listed, \<open>sync_godoc\<close>
  succeeds, attempts to write in each source what the rewriting of that source says and in no other
  file, and says how many methods it has updated. A source that cannot be read or parsed, or has
  nothing to rewrite, is left alone; a text that \<open>gofmt\<close> refuses is written all the same. Where a
  write succeeds the source is that text; where it fails the source is what the failed write leaves,
  truncated or partly written contents included, and none of its methods count.\<close>

theorem sync_godoc_refines:
  fixes parse :: "string \<Rightarrow> string \<Rightarrow> goerror + go_file" and gofmt :: "string \<Rightarrow> goerror + string"
  assumes "Load (fs_of s) OpenAPI = Inr (body, snap)" "yaml body = Inr spec" "buildEndpointMap spec = Some endpoints"
    and "root_of s = Some d" "os_ReadDir s d = Inr entries"
    and "sync_main (\<lambda>name c. ok_option (parse name c)) (\<lambda>c. ok_option (gofmt c)) (\<lambda>name. True) endpoints entries = (ws, k0)"
    and "sync_main (\<lambda>name c. ok_option (parse name c)) (\<lambda>c. ok_option (gofmt c)) (writable_in s d) endpoints entries = (ws', k)"
  shows "\<exists>t. sync_godoc_main yaml parse gofmt s = (Inr (), t) \<and> os_node t = all_attempted s d ws (os_node s)
    \<and> last (os_stdout t) = ''Done! Updated '' @ Itoa (int k) @ '' method comments.''"
proof -
  define s1 where "s1 = s\<lparr>os_stdout := os_stdout s @ [using_line ''OpenAPI'' (oa_Version (sn_OpenAPI snap)) (sn_FetchedAt snap),
    ''Loaded '' @ Itoa (int (length endpoints)) @ '' endpoints from spec'']\<rparr>"
  have root: "bind_run package_root f s1 = f d s1" for f :: "string \<Rightarrow> unit run"
    using assms(4) package_root_root_of [of s1 d s1] root_of_cong [of s1 s] by (simp add: bind_run_def s1_def)
  have dir: "os_ReadDir s1 d = Inr entries" using assms(5) by (simp add: s1_def ReadDir_quiet)
  have s1: "writable_in s1 d = writable_in s d" "os_node s1 = os_node s" "all_attempted s1 d = all_attempted s d"
    by (simp_all add: s1_def writable_in_def [abs_def]) (rule all_attempted_cong, simp)
  obtain t where t: "sync_entries parse gofmt endpoints d 0 entries s1 = (Inr k, t)"
    "os_node t = all_attempted s d ws (os_node s)"
    using sync_entries_pure [OF ReadDir_entries [OF dir], of parse gofmt endpoints 0,
        unfolded s1 assms(6,7) fst_conv snd_conv add_0] by blast
  define t1 where "t1 = t\<lparr>os_stdout := os_stdout t @ [''Done! Updated '' @ Itoa (int k) @ '' method comments.'']\<rparr>"
  obtain l where l: "warn_unmapped parse d t1 = (Inr (), t1\<lparr>os_stderr := l\<rparr>)" using warn_unmapped_quiet by blast
  have "sync_godoc_main yaml parse gofmt s = warn_unmapped parse d t1"
    using assms(1-3) root dir t(1)
    by (simp add: sync_godoc_main_def gd_loadSpec_def then_run_def bind_run_def print_line_def return_run_def or_panic_def
        s1_def t1_def)
  with l t(2) show ?thesis by (simp add: t1_def)
qed

text \<open>A package with one source that has one method to document.\<close>

definition sync_os :: os_state where
  "sync_os = \<lparr>os_cwd = Inr ''/r'',
     os_nodes = [(''/r'', None), (''/r/go.mod'', Some []), (''/r/specs/openapi.yaml'', Some []),
       (''/r/specs/SNAPSHOT.json'', Some ''{}''), (''/r/orders.go'', Some ''abcdefgh''), (''/r/orders_test.go'', Some [])],
     os_unreadable = (\<lambda>p. None), os_refuses = (\<lambda>p. None), os_stdout = [], os_stderr = []\<rparr>"

definition sync_spec :: gd_paths where
  "sync_spec = [(''/portfolio/orders/{order_id}'', [(''get'', Some \<lparr>gd_OperationID = ''GetOrder'',
     gd_Summary = ''Get Order'', gd_Description = [], gd_Tags = [''orders''], gd_Deprecated = False\<rparr>)])]"

definition sync_entry_list :: "dir_entry list" where
  "sync_entry_list = map (\<lambda>(n, src). \<lparr>de_Name = n, de_IsDir = False, de_Source = Some src\<rparr>)
     [(''go.mod'', []), (''orders.go'', ''abcdefgh''), (''orders_test.go'', [])]"

lemma sync_os_facts:
  "Load (fs_of sync_os) OpenAPI = Inr ([], zero_Snapshot)" "root_of sync_os = Some ''/r''"
  "os_ReadDir sync_os ''/r'' = Inr sync_entry_list"
  by code_simp+

lemma sync_spec_endpoints: "buildEndpointMap sync_spec = Some [(''GetOrder'', demo_info)]"
  by code_simp

text \<open>The run on it, and the run when the disk is full and half of the text has been written.\<close>

definition full_disk :: os_state where
  "full_disk = sync_os\<lparr>os_refuses := (\<lambda>p. if p = ''/r/orders.go'' then Some (ErrorString ''no space'', Some ''abc'') else None)\<rparr>"

lemma full_disk_facts:
  "Load (fs_of full_disk) OpenAPI = Inr ([], zero_Snapshot)" "root_of full_disk = Some ''/r''"
  "os_ReadDir full_disk ''/r'' = Inr sync_entry_list"
  by code_simp+

definition demo_sync :: "(string \<Rightarrow> bool) \<Rightarrow> (string \<times> string option) list \<times> nat" where
  "demo_sync writable = sync_main (\<lambda>n src. ok_option (Inr [OtherDecl [], FuncDecl demo_func] :: goerror + go_file))
     (\<lambda>c. ok_option (Inr c :: goerror + string))
     writable [(''GetOrder'', demo_info)] sync_entry_list"

lemma demo_sync_runs:
  "\<exists>c. demo_sync (\<lambda>n. True) = ([(''orders.go'', Some c)], 1)" "snd (demo_sync (\<lambda>n. False)) = 0"
proof -
  have "map fst (fst (demo_sync (\<lambda>n. True))) = [''orders.go'']" "snd (hd (fst (demo_sync (\<lambda>n. True)))) \<noteq> None"
    "snd (demo_sync (\<lambda>n. True)) = 1"
    by code_simp+
  then show "\<exists>c. demo_sync (\<lambda>n. True) = ([(''orders.go'', Some c)], 1)"
    by (cases "demo_sync (\<lambda>n. True)") auto
  show "snd (demo_sync (\<lambda>n. False)) = 0" by code_simp
qed

lemma sync_godoc_refines_witness:
  "(\<exists>t c. sync_godoc_main (\<lambda>b. Inr sync_spec) (\<lambda>n src. Inr [OtherDecl [], FuncDecl demo_func]) Inr sync_os = (Inr (), t)
     \<and> os_node t ''/r/orders.go'' = Some (Some c) \<and> demo_sync (\<lambda>n. True) = ([(''orders.go'', Some c)], 1)
     \<and> last (os_stdout t) = ''Done! Updated 1 method comments.'')
   \<and> (\<exists>t. sync_godoc_main (\<lambda>b. Inr sync_spec) (\<lambda>n src. Inr [OtherDecl [], FuncDecl demo_func]) Inr full_disk = (Inr (), t)
     \<and> os_node t ''/r/orders.go'' = Some (Some ''abc'') \<and> last (os_stdout t) = ''Done! Updated 0 method comments.'')"
proof -
  obtain c where c: "demo_sync (\<lambda>n. True) = ([(''orders.go'', Some c)], 1)" using demo_sync_runs(1) by blast
  have free: "writable_in sync_os ''/r'' = (\<lambda>n. True)" by (simp add: writable_in_def [abs_def] sync_os_def)
  have full: "demo_sync (writable_in full_disk ''/r'') = (ws', k) \<Longrightarrow> k = 0" for ws' k
  proof -
    assume run: "demo_sync (writable_in full_disk ''/r'') = (ws', k)"
    have "demo_sync (writable_in full_disk ''/r'') = demo_sync (\<lambda>n. False)"
      by (simp add: demo_sync_def sync_main_def sync_entry_list_def wants_sync_def HasSuffix_def HasPrefix_def writable_in_def
          full_disk_def path_join_def)
    then show "k = 0" using run demo_sync_runs(2) by (metis snd_conv)
  qed
  obtain ws' k where run': "demo_sync (writable_in full_disk ''/r'') = (ws', k)" by fastforce
  note one = sync_godoc_refines [where yaml = "\<lambda>b. Inr sync_spec" and gofmt = Inr, OF sync_os_facts(1) refl sync_spec_endpoints
      sync_os_facts(2,3) c [unfolded demo_sync_def] c [unfolded demo_sync_def, folded free]]
  note two = sync_godoc_refines [where yaml = "\<lambda>b. Inr sync_spec" and gofmt = Inr, OF full_disk_facts(1) refl sync_spec_endpoints
      full_disk_facts(2,3) c [unfolded demo_sync_def] run' [unfolded demo_sync_def]]
  have "Itoa (int 1) = ''1''" "Itoa (int 0) = ''0''" by code_simp+
  moreover have "all_attempted sync_os ''/r'' [(''orders.go'', Some c)] f ''/r/orders.go'' = Some (Some c)"
    "all_attempted full_disk ''/r'' [(''orders.go'', Some c)] f ''/r/orders.go'' = Some (Some ''abc'')" for f
    by (simp_all add: all_attempted_def attempt_at_def full_disk_def path_join_def sync_os_def)
  ultimately show ?thesis using one two full [OF run'] c by fastforce
qed

end
