(* ===== verification/Spec2Isabelle.thy ===== *)
theory Spec2Isabelle
  imports RateLimitProps HttpProps WSTable EndpointProps GenProps GenWSSame TypesProps WSWire CoverageProps Enums Interfaces WSInterface
    RateProbeProps Programs Regenerate SyncRun
begin

text \<open>
  A model of gokalshi, the Go SDK for the HTTP and WebSocket APIs of the Kalshi exchange, with
  the properties that make it correct. File names below are those of the repository.

  \<^bold>\<open>The program.\<close> An application makes a \<^verbatim>\<open>Client\<close> from a configuration (\<^verbatim>\<open>config.go\<close>) that holds
  credentials (\<^verbatim>\<open>auth.go\<close>). Each of its 109 endpoint methods names a path, a cost and perhaps a
  body and query, and hands them to \<^verbatim>\<open>Client.do\<close> (\<^verbatim>\<open>client.go\<close>): the cost is looked up in the
  server's cost table (\<^verbatim>\<open>endpoint_cost.go\<close>), the tokens are taken from the rate limiter
  (\<^verbatim>\<open>ratelimit.go\<close>), the request is signed and sent, a 429 is retried, and the answer is
  decoded or turned into an error (\<^verbatim>\<open>errors.go\<close>). A \<^verbatim>\<open>WSClient\<close> (\<^verbatim>\<open>ws_client.go\<close>) keeps
  subscriptions on a WebSocket connection, detects sequence gaps, reconnects and recovers.
  The request, response and message types are written by generators from the specifications
  of the exchange (\<^verbatim>\<open>tools/generate_types\<close>, \<^verbatim>\<open>tools/generate_ws_types\<close>).

  \<^bold>\<open>Shared theories.\<close>
  \<^item> \<open>Prelude\<close>: names of the machine types, sums as results, association lists as Go maps, and
    the two locales for step systems (\<open>guarded_steps\<close>: an invariant kept by every step;
    \<open>framed_steps\<close>: a part of the state no step changes).
  \<^item> \<open>GoFloat\<close>: float64 as the rationals rounded to 53 bits, ties to even, with gradual
    underflow. Overflow to infinity, NaN and fused multiply-add are not modelled. The locale
    \<open>rounding\<close> has the laws of a monotone rounding.
  \<^item> \<open>GoStrings\<close>, \<open>GoJson\<close>: the parts of \<open>strings\<close>, \<open>strconv\<close>, \<open>net/url\<close> and
    \<open>encoding/json\<close> the SDK uses; printing is the inverse of parsing, and injective.

  \<^bold>\<open>The HTTP side.\<close>
  \<^item> \<open>RateLimit\<close>, \<open>RateLimitProps\<close> (\<^verbatim>\<open>ratelimit.go\<close>): the token bucket with every operation, its
    invariant, that a grant is paid for exactly once and a failure costs nothing, that waiting
    the advised time suffices, and the throughput bound of both sides (exchanging reads and
    writes commutes with every operation, so the read side's proofs serve both). Each mutex section is one operation;
    other goroutines are lists of operations between them.
  \<^item> \<open>EndpointCost\<close>: cost patterns, their matching loop (equal to a structural reading), the
    stable sort by specificity and the first-match lookup (locale \<open>ranked_lookup\<close>).
  \<^item> \<open>ApiErrors\<close>, \<open>Query\<close>, \<open>Auth\<close>, \<open>Config\<close>, \<open>ApiPaths\<close>, \<open>Enums\<close>: the files of these names.
  \<^item> \<open>HttpClient\<close>, \<open>AutoConfig\<close>, \<open>HttpProps\<close> (\<^verbatim>\<open>client.go\<close>, \<^verbatim>\<open>account.go\<close>): options, cost
    resolution, URLs, signed requests, the retry loop, decoding, \<open>ConfigureRateLimits\<close> and
    \<open>NewClient\<close>. How often a call retries, that it returns, what its result says of the server's
    answers, that every request is signed for what it is, that costs scale exactly, that
    different queries have different URLs, and that reconfiguration is all or nothing.
  \<^item> \<open>EndpointBase\<close>, \<open>EndpointsMarket\<close>, \<open>EndpointsTrading\<close>, \<open>EndpointsAccount\<close>: every endpoint
    method as the call it hands to the client, with its parameter struct and \<open>toMap\<close>.
    \<open>CostRoutes\<close>, \<open>EndpointOps\<close>, \<open>EndpointProps\<close>: all calls as one type with the routes of their
    documentation (which are exactly the operations of \<^verbatim>\<open>specs/openapi.yaml\<close>); every call conforms to
    its route and debits the side of its verb; the route table tells all requests apart, so that
    a call is billed by its own entry.

  \<^bold>\<open>The generated types.\<close>
  \<^item> \<open>GoReflect\<close>, \<open>GoReflectProps\<close>: \<open>encoding/json\<close> walks Go types by reflection, so types are
    data here (\<open>gotype\<close>); \<open>decode\<close> and \<open>encode\<close> interpret them. Decoding yields values of the
    type, and canonical values (as decoding leaves them, without floats) survive a round trip.
    Keys are folded in ASCII; printing of floats is not modelled, and no request has one.
  \<^item> \<open>ApiTypes\<close> (\<^verbatim>\<open>types_generated.go\<close>), \<open>WSMessageTypes\<close> (\<^verbatim>\<open>ws_messages_generated.go\<close>): every
    generated struct as such a description, \<open>ty_X\<close> for struct X.
  \<^item> \<open>TypesProps\<close>: the request type of each method (\<open>op_request\<close>); what a call sends decodes at
    that type to the value it was given, if that is canonical; what it returns has its declared type. \<open>WSWire\<close>: the commands of the WebSocket client on the wire, and the error codes.
  \<^item> \<open>Interfaces\<close> (\<^verbatim>\<open>interfaces.go\<close>): the endpoint methods of \<open>HTTPClient\<close> with their results, each of
    which the client has. \<open>WSInterface\<close>: \<open>WebSocketClient\<close> as a record of operations, the WebSocket
    client as one, its message channel, and \<^verbatim>\<open>logger.go\<close>.

  \<^bold>\<open>The WebSocket side.\<close>
  \<^item> \<open>WSTypes\<close> (\<^verbatim>\<open>ws_types.go\<close>, \<^verbatim>\<open>ws_options.go\<close>, \<^verbatim>\<open>ws_messages_generated.go\<close>): channel states,
    commands and bodies with their JSON.
  \<^item> \<open>WSClient\<close>, \<open>WSOps\<close>: the client's state, with a store for the shared \<open>*ChannelState\<close>; the
    atomic sections; and the operations composed of them. The sections that other goroutines
    run where an operation has released the mutex are its input.
  \<^item> \<open>WSReach\<close>, \<open>WSInvariant\<close>, \<open>WSProps\<close>: every operation is a sequence of atomic sections, under
    every interleaving; the invariant of the maps, and of the subscription ids where the server
    acknowledges a channel once between two losses (\<open>orderly_reach\<close>); fresh ids; dispatch of messages; detection of
    sequence gaps; rollback of failed subscribes; recovery after a loss; the backoff's bounds.
  \<^item> \<open>WSTable\<close>: the client as a table of subscriptions (\<open>table_of\<close>), which undisturbed calls of
    \<open>Subscribe\<close> and \<open>Unsubscribe\<close> implement, in full or up to the channel where they stop.

  \<^bold>\<open>The generators.\<close> \<open>SpecSrc\<close>, \<open>GenSchema\<close>, \<open>GenOrder\<close>, \<open>GenTypes\<close>, \<open>GenProps\<close>
  (\<^verbatim>\<open>tools/internal/specsrc\<close>, \<^verbatim>\<open>tools/generate_types\<close>): schemas, names and types, the topological
  sort, grouping, and the text of the file; the order of declarations, that types are well
  formed, that the grouping does not depend on map order. \<open>GenWSSchema\<close>, \<open>GenWSTypes\<close>,
  \<open>GenWSProps\<close>, \<open>GenWSFile\<close>, \<open>GenWSSame\<close> (\<^verbatim>\<open>tools/generate_ws_types\<close>): channels, messages and commands of the
  AsyncAPI specification, the merged parameter structs, and the text of the file, which is the
  same for every order in which Go visits its maps, if messages have bodies and Go names of their
  own: \<open>GenWSFile\<close> for channels, their messages and the maps of the tool (the orders are
  arguments), \<open>GenWSSame\<close> for all maps of the specification. References between
  schemas are followed by a \<open>partial_function\<close>, since the code does not end on circular ones.

  \<^bold>\<open>The tools that read the sources.\<close> \<open>GoSyntax\<close>: Go files as \<open>go/parser\<close> describes them, and
  \<open>ast.Inspect\<close>. \<open>GodocSync\<close>, \<open>GodocProps\<close> (\<^verbatim>\<open>tools/sync_godoc\<close>): the rewriting of doc comments from
  the specification; only the comments change, a second run changes nothing, lines are wrapped.
  \<open>CoverageTool\<close>, \<open>CoverageProps\<close> (\<^verbatim>\<open>tools/generate_coverage\<close>): the coverage report; every method is
  counted once, and the tool reads back what the other two generators wrote.

  \<^bold>\<open>go generate.\<close> \<open>GenTypesFile\<close>: the whole text of \<^verbatim>\<open>types_generated.go\<close>, the same for every order
  of the maps of the specification. \<open>ToolOS\<close>: files, directories, output and exit as a state, refused
  writes included, and the functions the tools share. \<open>ToolMains\<close>: the four \<^verbatim>\<open>main\<close> functions over
  it, and \<^verbatim>\<open>generate.go\<close>, which runs them in turn. \<open>ToolProps\<close>: the contract \<open>os_tool\<close> of a tool
  names the paths it may change; each tool has one, and so have tools in sequence (\<open>two_tools\<close>).
  \<open>Regenerate\<close>: the contract \<open>generator\<close> says that a tool refines an abstract generator, which makes
  it an \<open>os_tool\<close>; two generators run again change nothing (\<open>two_generators\<close>). \<open>SyncRun\<close>: a run
  of \<open>sync_godoc\<close> attempts to write what the functions on file contents say, so that the properties
  of those hold for what it writes; a failed write may leave a part of the text.

  \<^bold>\<open>The programs that use the SDK.\<close> \<open>RatePool\<close>, \<open>RatePoolProps\<close> (\<^verbatim>\<open>tools/ratelimit_test\<close>): the counters
  of a test and its pools of goroutines; an action is one atomic step of one goroutine, a schedule a
  list of actions. Under every schedule a finished burst reports what the sequential burst reports,
  and every burst ends. \<open>RateProbe\<close>, \<open>RateProbeProps\<close>: the tests as scripts of phases, the mixed test
  with its two pools, the account's limits, the orders and the printed report; what a verdict does
  not see. \<open>Programs\<close> (\<^verbatim>\<open>tools/exchange_gate\<close>, \<^verbatim>\<open>cmd/ws_explore\<close>): the line of the gate, and the
  loops of the explorer, whose messages are numbered without gaps.

  \<^bold>\<open>Conventions.\<close> A Go map is an association list with distinct keys in the iteration order of
  the run, so that a theorem holds for every iteration order. \<open>Inl\<close> is an error; a panic is a
  constructor of its own, or \<open>None\<close> in the generator. \<open>time.Duration\<close> is a 64-bit word, with
  wrap-around; other integers are unbounded, since they count messages, retries and tokens.
  Loops that wait for the world take it as a list (rounds of the limiter, attempts of a call,
  windows of the sends, passes of the listen loop) and are pending when the list ends; a
  theorem that they return says how long a list suffices. The loop of
  \<open>visit\<close> ends because the names not on its stack get fewer.

  \<^bold>\<open>Arguments of the model.\<close> RSA-PSS, SHA-256 and the parsing of keys, the file system of the
  SDK, \<open>http.NewRequest\<close>'s check of its arguments, dialling and the connection, the clocks, the YAML
  decoder, \<open>go/parser\<close> and \<open>format.Source\<close>. Theorems on
  endpoint methods hold for any decoders of the response types; \<open>api_decoders\<close> are the actual
  ones. Credentials are never nil.

  \<^bold>\<open>Not modelled.\<close> Logging; the mutex of the HTTP client; the blocking of the message channel;
  \<open>Client.Close\<close>, which closes idle connections; \<^verbatim>\<open>doc.go\<close>, a comment; the layout of indented JSON;
  loading of \<^verbatim>\<open>.env\<close> files; what the generators warn of while they collect their data.
\<close>

end
